(* ===== verification/Prelude.thy ===== *)
theory Prelude
  imports Main "HOL-Library.AList"
begin

text \<open>
  The prelude of the development: Python exceptions as values, the result type every
  fallible operation returns, loops that stop at the first exception, and Python's
  insertion-ordered dictionaries as association lists, with the interface
  (\<open>named_registry\<close>) that the in-memory databases of the lookup service share.
\<close>

section \<open>Proof collections\<close>

named_theorems result_simps \<open>equations of the result combinators\<close>
named_theorems dict_simps \<open>equations of ordered dictionaries\<close>
named_theorems path_simps \<open>evaluated dotted paths\<close>

section \<open>Exceptions and results\<close>

text \<open>
  The exceptions the modelled code raises or lets through. \<open>TemporaryError d\<close> is
  \<open>kopf.TemporaryError\<close> with its retry delay in seconds, after which the handler runs again;
  \<open>PermanentError\<close> is \<open>kopf.PermanentError\<close>.
\<close>

datatype py_error =
    TypeError
  | AttributeError
  | KeyError
  | ValueError
  | IndexError
  | TemporaryError int
  | PermanentError
  | ClientConnectorError
  | ClientError
  | OtherError

type_synonym 'a result = "py_error + 'a"

definition bindE :: "'a result \<Rightarrow> ('a \<Rightarrow> 'b result) \<Rightarrow> 'b result" where
  "bindE m f = (case m of Inl e \<Rightarrow> Inl e | Inr x \<Rightarrow> f x)"

lemma bindE_simps [simp, result_simps]:
  "bindE (Inl e) f = Inl e"
  "bindE (Inr x) f = f x"
  by (simp_all add: bindE_def)

lemma bindE_assoc: "bindE (bindE m f) g = bindE m (\<lambda>x. bindE (f x) g)"
  by (cases m) simp_all

lemma bindE_Inr_iff: "bindE m f = Inr y \<longleftrightarrow> (\<exists>x. m = Inr x \<and> f x = Inr y)"
  by (cases m) simp_all

lemma bindE_InrE:
  assumes "bindE m f = Inr y"
  obtains x where "m = Inr x" and "f x = Inr y"
  using assms by (auto simp: bindE_Inr_iff)

lemma bindE_cong [fundef_cong]:
  "m = m' \<Longrightarrow> (\<And>x. m' = Inr x \<Longrightarrow> f x = f' x) \<Longrightarrow> bindE m f = bindE m' f'"
  by (cases m') simp_all

text \<open>List comprehensions and loops whose body may raise.\<close>

primrec mapE :: "('a \<Rightarrow> 'b result) \<Rightarrow> 'a list \<Rightarrow> 'b list result" where
  "mapE f [] = Inr []"
| "mapE f (x # xs) = bindE (f x) (\<lambda>y. bindE (mapE f xs) (\<lambda>ys. Inr (y # ys)))"

primrec filterE :: "('a \<Rightarrow> bool result) \<Rightarrow> 'a list \<Rightarrow> 'a list result" where
  "filterE p [] = Inr []"
| "filterE p (x # xs) =
     bindE (p x) (\<lambda>b. bindE (filterE p xs) (\<lambda>ys. Inr (if b then x # ys else ys)))"

primrec foldE :: "('a \<Rightarrow> 's \<Rightarrow> 's result) \<Rightarrow> 'a list \<Rightarrow> 's \<Rightarrow> 's result" where
  "foldE f [] s = Inr s"
| "foldE f (x # xs) s = bindE (f x s) (foldE f xs)"

text \<open>\<open>any\<close> and \<open>all\<close> over a generator stop at the first decisive element.\<close>

primrec anyE :: "('a \<Rightarrow> bool result) \<Rightarrow> 'a list \<Rightarrow> bool result" where
  "anyE p [] = Inr False"
| "anyE p (x # xs) = bindE (p x) (\<lambda>b. if b then Inr True else anyE p xs)"

primrec allE :: "('a \<Rightarrow> bool result) \<Rightarrow> 'a list \<Rightarrow> bool result" where
  "allE p [] = Inr True"
| "allE p (x # xs) = bindE (p x) (\<lambda>b. if b then allE p xs else Inr False)"

lemma mapE_Inr [result_simps]: "(\<And>x. x \<in> set xs \<Longrightarrow> f x = Inr (g x)) \<Longrightarrow> mapE f xs = Inr (map g xs)"
  by (induction xs) simp_all

lemma mapE_length: "mapE f xs = Inr ys \<Longrightarrow> length ys = length xs"
  by (induction xs arbitrary: ys) (auto simp: bindE_Inr_iff)

lemma mapE_set: "mapE f xs = Inr ys \<Longrightarrow> y \<in> set ys \<Longrightarrow> \<exists>x\<in>set xs. f x = Inr y"
  by (induction xs arbitrary: ys) (auto simp: bindE_Inr_iff)

lemma filterE_Inr [result_simps]:
  "(\<And>x. x \<in> set xs \<Longrightarrow> p x = Inr (q x)) \<Longrightarrow> filterE p xs = Inr (filter q xs)"
  by (induction xs) simp_all

lemma filterE_set: "filterE p xs = Inr ys \<Longrightarrow> set ys = {x \<in> set xs. p x = Inr True}"
  by (induction xs arbitrary: ys) (auto simp: bindE_Inr_iff split: if_splits)

lemma anyE_Inr [result_simps]:
  "(\<And>x. x \<in> set xs \<Longrightarrow> p x = Inr (q x)) \<Longrightarrow> anyE p xs = Inr (\<exists>x\<in>set xs. q x)"
  by (induction xs) simp_all

lemma anyE_TrueD: "anyE p xs = Inr True \<Longrightarrow> \<exists>x\<in>set xs. p x = Inr True"
  by (induction xs) (auto simp: bindE_Inr_iff split: if_splits)

lemma anyE_FalseD: "anyE p xs = Inr False \<Longrightarrow> x \<in> set xs \<Longrightarrow> p x = Inr False"
  by (induction xs) (auto simp: bindE_Inr_iff split: if_splits)

lemma allE_Inr [result_simps]:
  "(\<And>x. x \<in> set xs \<Longrightarrow> p x = Inr (q x)) \<Longrightarrow> allE p xs = Inr (\<forall>x\<in>set xs. q x)"
  by (induction xs) simp_all

lemma allE_TrueD: "allE p xs = Inr True \<Longrightarrow> x \<in> set xs \<Longrightarrow> p x = Inr True"
  by (induction xs) (auto simp: bindE_Inr_iff split: if_splits)

lemma allE_TrueI: "(\<And>x. x \<in> set xs \<Longrightarrow> p x = Inr True) \<Longrightarrow> allE p xs = Inr True"
  by (induction xs) simp_all

lemma foldE_invariant:
  assumes "\<And>x s t. x \<in> set xs \<Longrightarrow> I s \<Longrightarrow> f x s = Inr t \<Longrightarrow> I t" and "I s" and "foldE f xs s = Inr t"
  shows "I t"
  using assms by (induction xs arbitrary: s) (auto simp: bindE_Inr_iff)

section \<open>Ordered dictionaries\<close>

text \<open>
  A Python dictionary keeps its keys in insertion order: \<open>d[k] = v\<close> on a present key
  keeps the position, on an absent key it appends, \<open>d.pop(k, None)\<close> removes. That is
  what \<open>AList.update\<close> and \<open>AList.delete\<close> do on association lists with distinct keys.
\<close>

type_synonym ('k, 'v) dict = "('k \<times> 'v) list"

abbreviation dict_get :: "('k, 'v) dict \<Rightarrow> 'k \<Rightarrow> 'v option" where
  "dict_get \<equiv> map_of"

abbreviation dict_set :: "'k \<Rightarrow> 'v \<Rightarrow> ('k, 'v) dict \<Rightarrow> ('k, 'v) dict" where
  "dict_set \<equiv> AList.update"

abbreviation dict_pop :: "'k \<Rightarrow> ('k, 'v) dict \<Rightarrow> ('k, 'v) dict" where
  "dict_pop \<equiv> AList.delete"

abbreviation dict_values :: "('k, 'v) dict \<Rightarrow> 'v list" where
  "dict_values d \<equiv> map snd d"

abbreviation dict_keys :: "('k, 'v) dict \<Rightarrow> 'k list" where
  "dict_keys d \<equiv> map fst d"

text \<open>A dictionary of named objects: distinct keys, and each key is the object's name.\<close>

definition keyed_by :: "('v \<Rightarrow> 'k) \<Rightarrow> ('k, 'v) dict \<Rightarrow> bool" where
  "keyed_by name d \<longleftrightarrow> distinct (dict_keys d) \<and> (\<forall>(k, v)\<in>set d. name v = k)"

lemma dict_get_set [simp, dict_simps]:
  "dict_get (dict_set k v d) k' = (if k' = k then Some v else dict_get d k')"
  by (simp add: update_conv')

lemma dict_get_pop [simp, dict_simps]:
  "dict_get (dict_pop k d) k' = (if k' = k then None else dict_get d k')"
  by (simp add: delete_conv')

lemma set_dict_set:
  "distinct (dict_keys d) \<Longrightarrow>
   set (dict_set k v d) = insert (k, v) {x \<in> set d. fst x \<noteq> k}"
  by (induction d) (auto simp: rev_image_eqI)

lemma set_dict_pop: "set (dict_pop k d) = {x \<in> set d. fst x \<noteq> k}"
  by (induction d) auto

lemma keyed_by_Nil [simp, dict_simps]: "keyed_by name []"
  by (simp add: keyed_by_def)

lemma keyed_by_distinct: "keyed_by name d \<Longrightarrow> distinct (dict_keys d)"
  by (simp add: keyed_by_def)

lemma keyed_by_get: "keyed_by name d \<Longrightarrow> dict_get d k = Some v \<Longrightarrow> name v = k"
  by (auto simp: keyed_by_def dest: map_of_SomeD)

lemma keyed_by_set [intro]: "keyed_by name d \<Longrightarrow> name v = k \<Longrightarrow> keyed_by name (dict_set k v d)"
  by (auto simp: keyed_by_def set_dict_set distinct_update)

lemma keyed_by_pop [intro]: "keyed_by name d \<Longrightarrow> keyed_by name (dict_pop k d)"
  by (auto simp: keyed_by_def set_dict_pop distinct_delete)

lemma in_dict_values_iff:
  assumes "keyed_by name d"
  shows "v \<in> set (dict_values d) \<longleftrightarrow> dict_get d (name v) = Some v"
proof -
  from assms have "distinct (dict_keys d)" by (rule keyed_by_distinct)
  then have "v \<in> set (dict_values d) \<longleftrightarrow> (\<exists>k. dict_get d k = Some v)"
    by (force simp: map_of_eq_Some_iff)
  with assms show ?thesis by (metis keyed_by_get)
qed

lemmas in_dict_values_image = in_dict_values_iff [unfolded set_map]

lemma keyed_by_names: "keyed_by name d \<Longrightarrow> map name (dict_values d) = dict_keys d"
  by (induction d) (auto simp: keyed_by_def)

lemma keyed_by_distinct_names: "keyed_by name d \<Longrightarrow> distinct (map (name \<circ> snd) d)"
  by (metis keyed_by_names keyed_by_distinct map_map)

lemma dict_pop_absent: "dict_get d k = None \<Longrightarrow> dict_pop k d = d"
  by (induction d) (auto split: if_splits)

lemma dict_set_values_map:
  assumes "distinct (dict_keys d)" and "dict_get d k = Some v" and "f v' = f v"
  shows "map f (dict_values (dict_set k v' d)) = map f (dict_values d)"
  using assms by (induction d) (auto split: if_splits)

section \<open>The interface of the in-memory databases\<close>

text \<open>
  Every database of the lookup service (clients, tenants, clusters, the portals of a
  cluster, the environments of a portal, the sessions of an environment) offers the same
  four operations on named objects. The laws below are what the code that uses a
  database relies on; each component interprets the locale on its own operations.
\<close>

datatype ('k, 'v) registry_op = Put 'v | Drop 'k

fun registry_step :: "('v \<Rightarrow> 'd \<Rightarrow> 'd) \<Rightarrow> ('k \<Rightarrow> 'd \<Rightarrow> 'd) \<Rightarrow> ('k, 'v) registry_op \<Rightarrow> 'd \<Rightarrow> 'd" where
  "registry_step put drop_named (Put v) d = put v d"
| "registry_step put drop_named (Drop n) d = drop_named n d"

fun map_step :: "('v \<Rightarrow> 'k) \<Rightarrow> ('k, 'v) registry_op \<Rightarrow> ('k \<Rightarrow> 'v option) \<Rightarrow> ('k \<Rightarrow> 'v option)" where
  "map_step key (Put v) m = m(key v \<mapsto> v)"
| "map_step key (Drop n) m = m(n := None)"

locale named_registry =
  fixes put :: "'v \<Rightarrow> 'd \<Rightarrow> 'd"
    and drop_named :: "'k \<Rightarrow> 'd \<Rightarrow> 'd"
    and get :: "'d \<Rightarrow> 'k \<Rightarrow> 'v option"
    and items :: "'d \<Rightarrow> 'v list"
    and key :: "'v \<Rightarrow> 'k"
    and ok :: "'d \<Rightarrow> bool"
  assumes get_put: "ok d \<Longrightarrow> get (put v d) k = (if k = key v then Some v else get d k)"
    and get_drop: "ok d \<Longrightarrow> get (drop_named n d) k = (if k = n then None else get d k)"
    and items_iff: "ok d \<Longrightarrow> v \<in> set (items d) \<longleftrightarrow> get d (key v) = Some v"
    and items_distinct: "ok d \<Longrightarrow> distinct (map key (items d))"
    and get_key: "ok d \<Longrightarrow> get d k = Some v \<Longrightarrow> key v = k"
    and ok_put: "ok d \<Longrightarrow> ok (put v d)"
    and ok_drop: "ok d \<Longrightarrow> ok (drop_named n d)"
begin

lemma get_put_upd: "ok d \<Longrightarrow> get (put v d) = (get d)(key v \<mapsto> v)"
  by (simp add: fun_eq_iff get_put)

lemma get_drop_upd: "ok d \<Longrightarrow> get (drop_named n d) = (get d)(n := None)"
  by (simp add: fun_eq_iff get_drop)

lemma set_items_put:
  assumes "ok d"
  shows "set (items (put v d)) = insert v {w \<in> set (items d). key w \<noteq> key v}"
  using assms ok_put by (auto simp: items_iff get_put split: if_splits)

lemma set_items_drop:
  assumes "ok d"
  shows "set (items (drop_named n d)) = {w \<in> set (items d). key w \<noteq> n}"
  using assms ok_drop by (auto simp: items_iff get_drop split: if_splits)

lemma drop_undoes_put:
  "ok d \<Longrightarrow> get d (key v) = None \<Longrightarrow> get (drop_named (key v) (put v d)) k = get d k"
  by (simp add: get_put get_drop ok_put)

lemma put_commute:
  "ok d \<Longrightarrow> key v \<noteq> key w \<Longrightarrow> get (put v (put w d)) k = get (put w (put v d)) k"
  by (simp add: get_put ok_put)

lemma put_overwrites: "ok d \<Longrightarrow> key v = key w \<Longrightarrow> get (put v (put w d)) k = get (put v d) k"
  by (simp add: get_put ok_put)

text \<open>A history of operations is the same history of updates of a finite map.\<close>

lemma step_ok: "ok d \<Longrightarrow> ok (registry_step put drop_named op d)"
  by (cases op) (simp_all add: ok_put ok_drop)

lemma step_refines_map:
  "ok d \<Longrightarrow> get (registry_step put drop_named op d) = map_step key op (get d)"
  by (cases op) (simp_all add: fun_eq_iff get_put get_drop)

lemma history_refines_map:
  "ok d \<Longrightarrow> get (fold (registry_step put drop_named) ops d) = fold (map_step key) ops (get d)"
proof (induction ops arbitrary: d)
  case (Cons op ops)
  then show ?case by (simp only: fold_simps step_refines_map step_ok)
qed simp

lemma history_ok: "ok d \<Longrightarrow> ok (fold (registry_step put drop_named) ops d)"
  by (induction ops arbitrary: d) (simp_all add: step_ok)

lemma items_length_unique:
  assumes "ok d" and "v \<in> set (items d)" and "w \<in> set (items d)" and "key v = key w"
  shows "v = w"
  using assms by (metis items_iff option.inject)

end

text \<open>A registry with an initial, empty state.\<close>

locale fresh_registry = named_registry +
  fixes empty
  assumes get_empty: "get empty k = None"
    and ok_empty: "ok empty"
begin

lemma items_empty: "items empty = []"
  using items_iff [OF ok_empty] get_empty by (metis list.set_intros(1) neq_Nil_conv option.distinct(1))

lemma history_from_empty:
  "get (fold (registry_step put drop_named) ops empty) = fold (map_step key) ops Map.empty"
proof -
  have "get empty = Map.empty" by (simp add: fun_eq_iff get_empty)
  then show ?thesis by (simp only: history_refines_map [OF ok_empty])
qed

lemma reachable_ok: "ok (fold (registry_step put drop_named) ops empty)"
  by (rule history_ok [OF ok_empty])

end

end
