(* ===== verification/Python_Values.thy ===== *)
theory Python_Values
  imports Prelude "HOL-Library.Sublist" "HOL-Library.Char_ord"
begin

text \<open>
  Dynamic Python values as the code handles them: Kubernetes resources, request bodies
  and configuration data are trees of dictionaries, lists, strings, integers, booleans
  and \<open>None\<close>. Operations on a value of the wrong kind raise, as in Python. The dotted
  lookup \<open>xgetattr\<close> / \<open>lookup\<close> / \<open>xget\<close>, which every component of the program
  carries its own copy of, is defined here once. Floating point numbers do not occur in
  the resources the code reads and are left out.
\<close>

datatype pyval =
    PNone
  | PBool bool
  | PInt int
  | PStr string
  | PList "pyval list"
  | PDict "(string \<times> pyval) list"

section \<open>Equality, truth and membership\<close>

text \<open>
  Python's \<open>==\<close>: \<open>True\<close> equals \<open>1\<close>, lists compare element by element, dictionaries
  compare as maps, whatever the order of their keys.
\<close>

fun py_eq :: "pyval \<Rightarrow> pyval \<Rightarrow> bool"
  and py_eq_list :: "pyval list \<Rightarrow> pyval list \<Rightarrow> bool"
  and py_eq_items :: "(string \<times> pyval) list \<Rightarrow> (string \<times> pyval) list \<Rightarrow> bool" where
  "py_eq PNone w = (w = PNone)"
| "py_eq (PBool b) w =
     (case w of PBool c \<Rightarrow> b = c | PInt n \<Rightarrow> n = of_bool b | _ \<Rightarrow> False)"
| "py_eq (PInt m) w =
     (case w of PBool c \<Rightarrow> m = of_bool c | PInt n \<Rightarrow> m = n | _ \<Rightarrow> False)"
| "py_eq (PStr s) w = (w = PStr s)"
| "py_eq (PList xs) w = (case w of PList ys \<Rightarrow> py_eq_list xs ys | _ \<Rightarrow> False)"
| "py_eq (PDict d) w =
     (case w of PDict e \<Rightarrow> length d = length e \<and> py_eq_items d e | _ \<Rightarrow> False)"
| "py_eq_list [] ys = (ys = [])"
| "py_eq_list (x # xs) ys = (case ys of [] \<Rightarrow> False | y # zs \<Rightarrow> py_eq x y \<and> py_eq_list xs zs)"
| "py_eq_items [] e = True"
| "py_eq_items (kv # d) e =
     ((case dict_get e (fst kv) of None \<Rightarrow> False | Some w \<Rightarrow> py_eq (snd kv) w) \<and> py_eq_items d e)"

text \<open>Values as JSON and YAML produce them: no dictionary repeats a key.\<close>

fun wf_pyval :: "pyval \<Rightarrow> bool" where
  "wf_pyval (PList xs) = list_all wf_pyval xs"
| "wf_pyval (PDict d) = (distinct (map fst d) \<and> list_all (\<lambda>kv. wf_pyval (snd kv)) d)"
| "wf_pyval _ = True"

fun truthy :: "pyval \<Rightarrow> bool" where
  "truthy PNone = False"
| "truthy (PBool b) = b"
| "truthy (PInt n) = (n \<noteq> 0)"
| "truthy (PStr s) = (s \<noteq> [])"
| "truthy (PList xs) = (xs \<noteq> [])"
| "truthy (PDict d) = (d \<noteq> [])"

definition py_or :: "pyval \<Rightarrow> pyval \<Rightarrow> pyval" where
  "py_or v w = (if truthy v then v else w)"

text \<open>\<open>x in container\<close> and \<open>for x in container\<close>.\<close>

fun py_in :: "pyval \<Rightarrow> pyval \<Rightarrow> bool result" where
  "py_in x (PList ys) = Inr (list_ex (py_eq x) ys)"
| "py_in x (PDict d) =
     (case x of PStr k \<Rightarrow> Inr (dict_get d k \<noteq> None)
      | PList _ \<Rightarrow> Inl TypeError | PDict _ \<Rightarrow> Inl TypeError | _ \<Rightarrow> Inr False)"
| "py_in x (PStr s) = (case x of PStr t \<Rightarrow> Inr (sublist t s) | _ \<Rightarrow> Inl TypeError)"
| "py_in x _ = Inl TypeError"

fun py_iter :: "pyval \<Rightarrow> pyval list result" where
  "py_iter (PList xs) = Inr xs"
| "py_iter (PDict d) = Inr (map (PStr \<circ> fst) d)"
| "py_iter (PStr s) = Inr (map (\<lambda>c. PStr [c]) s)"
| "py_iter _ = Inl TypeError"

text \<open>Operands of integer arithmetic; booleans are integers.\<close>

fun py_num :: "pyval \<Rightarrow> int result" where
  "py_num (PInt n) = Inr n"
| "py_num (PBool b) = Inr (of_bool b)"
| "py_num _ = Inl TypeError"

lemma py_eq_PStr [simp]: "py_eq v (PStr s) \<longleftrightarrow> v = PStr s"
  by (cases v) auto

lemma py_eq_PNone [simp]: "py_eq v PNone \<longleftrightarrow> v = PNone"
  by (cases v) auto

lemma py_eq_items_iff:
  "py_eq_items d e \<longleftrightarrow> (\<forall>(k, v)\<in>set d. \<exists>w. dict_get e k = Some w \<and> py_eq v w)"
  by (induction d) (auto split: option.splits)

lemma py_eq_list_iff: "py_eq_list xs ys \<longleftrightarrow> list_all2 py_eq xs ys"
  by (induction xs arbitrary: ys) (auto split: list.splits simp: list_all2_Cons1)

lemma py_eq_refl: "wf_pyval v \<Longrightarrow> py_eq v v"
proof (induction v rule: wf_pyval.induct)
  case (1 xs)
  then show ?case by (auto simp: py_eq_list_iff list_all_iff intro!: list.rel_refl_strong)
next
  case (2 d)
  have "\<exists>w. dict_get d k = Some w \<and> py_eq v w" if kv: "(k, v) \<in> set d" for k v
  proof -
    from 2 kv have "dict_get d k = Some v" by (simp add: map_of_is_SomeI)
    moreover from 2 kv have "py_eq v v" by (fastforce simp: list_all_iff)
    ultimately show ?thesis by blast
  qed
  then show ?case by (auto simp: py_eq_items_iff)
qed simp_all

lemma py_eq_dict_lookup:
  "py_eq (PDict d) (PDict e) \<Longrightarrow> dict_get d k = Some v \<Longrightarrow> \<exists>w. dict_get e k = Some w \<and> py_eq v w"
  by (auto simp: py_eq_items_iff dest: map_of_SomeD)

section \<open>Attribute access\<close>

text \<open>\<open>obj.get(key)\<close>, \<open>obj.get(key, default)\<close> and \<open>obj[key]\<close> for a string key.\<close>

fun py_get_or :: "pyval \<Rightarrow> string \<Rightarrow> pyval \<Rightarrow> pyval result" where
  "py_get_or (PDict d) k v = Inr (case dict_get d k of None \<Rightarrow> v | Some w \<Rightarrow> w)"
| "py_get_or _ k v = Inl AttributeError"

abbreviation py_get :: "pyval \<Rightarrow> string \<Rightarrow> pyval result" where
  "py_get obj k \<equiv> py_get_or obj k PNone"

fun py_index :: "pyval \<Rightarrow> string \<Rightarrow> pyval result" where
  "py_index (PDict d) k = (case dict_get d k of None \<Rightarrow> Inl KeyError | Some w \<Rightarrow> Inr w)"
| "py_index _ k = Inl TypeError"

text \<open>\<open>labels.get(key)\<close> where the key itself is a dynamic value.\<close>

fun py_get_dyn :: "pyval \<Rightarrow> pyval \<Rightarrow> pyval result" where
  "py_get_dyn (PDict d) (PStr k) = py_get (PDict d) k"
| "py_get_dyn (PDict d) (PList _) = Inl TypeError"
| "py_get_dyn (PDict d) (PDict _) = Inl TypeError"
| "py_get_dyn (PDict d) _ = Inr PNone"
| "py_get_dyn _ _ = Inl AttributeError"

fun py_items :: "pyval \<Rightarrow> (string \<times> pyval) list result" where
  "py_items (PDict d) = Inr d"
| "py_items _ = Inl AttributeError"

text \<open>\<open>str.split(sep)\<close> for a one-character separator, and its inverse \<open>sep.join\<close>.\<close>

fun split_on :: "char \<Rightarrow> string \<Rightarrow> string list" where
  "split_on c [] = [[]]"
| "split_on c (x # xs) =
     (if x = c then [] # split_on c xs
      else (case split_on c xs of [] \<Rightarrow> [[x]] | w # ws \<Rightarrow> (x # w) # ws))"

fun join_with :: "char \<Rightarrow> string list \<Rightarrow> string" where
  "join_with c [] = []"
| "join_with c [w] = w"
| "join_with c (w # ws) = w @ c # join_with c ws"

lemma split_on_nonempty: "split_on c s \<noteq> []"
  by (cases s) (auto split: list.splits)

lemma join_split: "join_with c (split_on c s) = s"
proof (induction s)
  case (Cons x s)
  obtain w ws where "split_on c s = w # ws"
    using split_on_nonempty by (meson list.exhaust)
  with Cons show ?case by (cases ws) auto
qed simp

lemma split_on_parts: "w \<in> set (split_on c s) \<Longrightarrow> c \<notin> set w"
proof (induction s arbitrary: w)
  case (Cons x s)
  then show ?case by (force split: list.splits if_splits)
qed simp

text \<open>
  \<open>xgetattr\<close> walks a dotted path; a missing or \<open>None\<close> component gives the default, and
  a component that is not a dictionary raises, since it has no \<open>get\<close>.
\<close>

fun xget_keys :: "string list \<Rightarrow> pyval \<Rightarrow> pyval \<Rightarrow> pyval \<Rightarrow> pyval result" where
  "xget_keys [] obj val dflt = Inr val"
| "xget_keys (k # ks) obj val dflt =
     bindE (py_get obj k) (\<lambda>v. if v = PNone then Inr dflt else xget_keys ks v v dflt)"

definition xgetattr :: "pyval \<Rightarrow> string \<Rightarrow> pyval \<Rightarrow> pyval result" where
  "xgetattr obj key dflt = xget_keys (split_on CHR ''.'' key) obj dflt dflt"

definition lookup :: "pyval \<Rightarrow> string \<Rightarrow> pyval \<Rightarrow> pyval result" where
  "lookup obj key dflt = xget_keys (split_on CHR ''.'' key) obj dflt dflt"

lemma lookup_xgetattr: "lookup = xgetattr"
  by (simp add: fun_eq_iff lookup_def xgetattr_def)

lemma xget_keys_not_None:
  "xget_keys ks obj val dflt = Inr v \<Longrightarrow> dflt \<noteq> PNone \<Longrightarrow> val \<noteq> PNone \<Longrightarrow> v \<noteq> PNone"
  by (induction ks arbitrary: obj val) (auto simp: bindE_Inr_iff split: if_splits)

lemma xgetattr_not_None: "xgetattr obj key dflt = Inr v \<Longrightarrow> dflt \<noteq> PNone \<Longrightarrow> v \<noteq> PNone"
  by (auto simp: xgetattr_def dest: xget_keys_not_None)

lemma xgetattr_single:
  "CHR ''.'' \<notin> set key \<Longrightarrow>
   xgetattr obj key dflt = bindE (py_get obj key) (\<lambda>v. Inr (if v = PNone then dflt else v))"
proof -
  assume "CHR ''.'' \<notin> set key"
  then have "split_on CHR ''.'' key = [key]" by (induction key) auto
  then show ?thesis by (cases "py_get obj key") (auto simp: xgetattr_def)
qed

section \<open>Textual representation\<close>

text \<open>Decimal notation of integers, as \<open>str(n)\<close> and f-strings print them.\<close>

fun digits_of :: "nat \<Rightarrow> nat list" where
  "digits_of n = (if n < 10 then [n] else digits_of (n div 10) @ [n mod 10])"

declare digits_of.simps [simp del]

definition digit_char :: "nat \<Rightarrow> char" where
  "digit_char d = char_of (48 + d)"

definition show_nat :: "nat \<Rightarrow> string" where
  "show_nat n = map digit_char (digits_of n)"

definition show_int :: "int \<Rightarrow> string" where
  "show_int n = (if n < 0 then CHR ''-'' # show_nat (nat (- n)) else show_nat (nat n))"

text \<open>
  \<open>str(v)\<close> of a value interpolated into an f-string. Only strings, integers, booleans
  and \<open>None\<close> are interpolated by the code; for the other kinds the result is a
  placeholder.
\<close>

fun py_str :: "pyval \<Rightarrow> string" where
  "py_str PNone = ''None''"
| "py_str (PBool b) = (if b then ''True'' else ''False'')"
| "py_str (PInt n) = show_int n"
| "py_str (PStr s) = s"
| "py_str (PList _) = ''[...]''"
| "py_str (PDict _) = ''{...}''"

lemma digits_of_nonempty: "digits_of n \<noteq> []"
  by (subst digits_of.simps) simp

lemma digits_of_bound: "d \<in> set (digits_of n) \<Longrightarrow> d < 10"
proof (induction n rule: digits_of.induct)
  case (1 n)
  then show ?case by (cases "n < 10") (auto simp: digits_of.simps [of n])
qed

lemma digits_of_value: "foldl (\<lambda>a d. 10 * a + d) 0 (digits_of n) = n"
proof (induction n rule: digits_of.induct)
  case (1 n)
  show ?case
  proof (cases "n < 10")
    case True
    then show ?thesis by (simp add: digits_of.simps [of n])
  next
    case False
    with 1 show ?thesis by (simp add: digits_of.simps [of n])
  qed
qed

lemma digits_of_inject: "digits_of m = digits_of n \<longleftrightarrow> m = n"
  by (metis digits_of_value)

lemma digit_char_inject: "d < 10 \<Longrightarrow> e < 10 \<Longrightarrow> digit_char d = digit_char e \<longleftrightarrow> d = e"
  by (auto simp: digit_char_def char_of_eq_iff take_bit_eq_mod)

lemma digit_char_neq: "d < 10 \<Longrightarrow> of_char c \<notin> {48..<58::nat} \<Longrightarrow> digit_char d \<noteq> c"
  by (auto simp: digit_char_def)

lemma show_nat_inject: "show_nat m = show_nat n \<longleftrightarrow> m = n"
proof
  assume eq: "show_nat m = show_nat n"
  have "inj_on digit_char (set (digits_of m) \<union> set (digits_of n))"
    by (rule inj_onI) (auto dest!: digits_of_bound simp: digit_char_inject)
  with eq show "m = n"
    unfolding show_nat_def by (metis digits_of_inject inj_on_map_eq_map)
qed simp

lemma show_nat_chars: "c \<in> set (show_nat n) \<Longrightarrow> of_char c \<in> {48..<58::nat}"
  by (auto simp: show_nat_def digit_char_def dest!: digits_of_bound)

lemma show_nat_nonempty: "show_nat n \<noteq> []"
  by (simp add: show_nat_def digits_of_nonempty)

lemma show_int_inject: "show_int m = show_int n \<longleftrightarrow> m = n"
proof -
  have minus: "CHR ''-'' \<notin> set (show_nat k)" for k
    using show_nat_chars [of "CHR ''-''" k] by auto
  then have "show_nat k \<noteq> CHR ''-'' # s" "CHR ''-'' # s \<noteq> show_nat k" for k s
    by (metis list.set_intros(1))+
  then show ?thesis by (auto simp: show_int_def show_nat_inject)
qed

end
