(* ===== verification/Glob.thy ===== *)
theory Glob
  imports Python_Values
begin

text \<open>
  \<open>fnmatch.fnmatch\<close> of Python's standard library on a POSIX system, which the selectors,
  the client configurations and the secret copier use to match names. A pattern is
  translated to a list of tokens as \<open>fnmatch.translate\<close> translates it to a regular
  expression: an unclosed bracket is literal, empty ranges of a bracket expression are
  dropped, and what remains is negated when it starts with an exclamation mark.
\<close>

datatype glob_item = Lit char | Rng char char

datatype glob_tok = Star | AnyChar | Chr char | Cls bool "glob_item list"

section \<open>Translation of a pattern\<close>

fun class_items :: "string \<Rightarrow> glob_item list" where
  "class_items [] = []"
| "class_items [c] = [Lit c]"
| "class_items [c, d] = [Lit c, Lit d]"
| "class_items (c # x # d # r) =
     (if x = CHR ''-'' then Rng c d # class_items r else Lit c # class_items (x # d # r))"

fun live_item :: "glob_item \<Rightarrow> bool" where
  "live_item (Lit c) = True"
| "live_item (Rng c d) = (of_char c \<le> (of_char d :: nat))"

definition class_tok :: "string \<Rightarrow> glob_tok" where
  "class_tok stuff =
     (if stuff \<noteq> [] \<and> hd stuff = CHR ''!'' then Cls True (filter live_item (class_items (tl stuff)))
      else (case filter live_item (class_items stuff) of
              [] \<Rightarrow> Cls False []
            | Lit c # r \<Rightarrow> if c = CHR ''!'' then Cls True r else Cls False (Lit c # r)
            | Rng c d # r \<Rightarrow>
                if c = CHR ''!'' then Cls True (Lit CHR ''-'' # Lit d # r)
                else Cls False (Rng c d # r)))"

fun until_close :: "string \<Rightarrow> (string \<times> string) option" where
  "until_close [] = None"
| "until_close (c # s) =
     (if c = CHR '']'' then Some ([], s)
      else map_option (\<lambda>(a, b). (c # a, b)) (until_close s))"

definition strip_first :: "char \<Rightarrow> string \<Rightarrow> string \<times> string" where
  "strip_first x s = (case s of [] \<Rightarrow> ([], []) | c # r \<Rightarrow> if c = x then ([c], r) else ([], s))"

definition take_class :: "string \<Rightarrow> (string \<times> string) option" where
  "take_class s =
     (let (p1, s1) = strip_first CHR ''!'' s; (p2, s2) = strip_first CHR '']'' s1
      in map_option (\<lambda>(a, b). (p1 @ p2 @ a, b)) (until_close s2))"

lemma until_close_length: "until_close s = Some (a, b) \<Longrightarrow> length b < length s"
  by (induction s arbitrary: a) (auto split: if_splits)

lemma strip_first_length: "strip_first x s = (p, r) \<Longrightarrow> length r \<le> length s"
  by (auto simp: strip_first_def split: list.splits if_splits)

lemma take_class_length: "take_class s = Some (a, b) \<Longrightarrow> length b < length s"
  by (auto simp: take_class_def split: prod.splits
        dest!: until_close_length strip_first_length)

function glob_translate :: "string \<Rightarrow> glob_tok list" where
  "glob_translate [] = []"
| "glob_translate (c # s) =
     (if c = CHR ''*'' then Star # glob_translate s
      else if c = CHR ''?'' then AnyChar # glob_translate s
      else if c = CHR ''['' then
        (case take_class s of
           None \<Rightarrow> Chr c # glob_translate s
         | Some (stuff, r) \<Rightarrow> class_tok stuff # glob_translate r)
      else Chr c # glob_translate s)"
  by pat_completeness auto
termination
  by (relation "measure length") (auto dest: take_class_length)

section \<open>Matching\<close>

fun item_matches :: "char \<Rightarrow> glob_item \<Rightarrow> bool" where
  "item_matches x (Lit c) = (x = c)"
| "item_matches x (Rng c d) = (of_char c \<le> (of_char x :: nat) \<and> of_char x \<le> (of_char d :: nat))"

fun tok_matches :: "glob_tok \<Rightarrow> char \<Rightarrow> bool" where
  "tok_matches (Chr c) x = (x = c)"
| "tok_matches (Cls neg is) x = (neg \<noteq> list_ex (item_matches x) is)"
| "tok_matches _ x = True"

fun glob_match :: "glob_tok list \<Rightarrow> string \<Rightarrow> bool" where
  "glob_match [] s = (s = [])"
| "glob_match (t # ts) [] = (t = Star \<and> glob_match ts [])"
| "glob_match (t # ts) (c # s) =
     (if t = Star then glob_match ts (c # s) \<or> glob_match (t # ts) s
      else tok_matches t c \<and> glob_match ts s)"

lemma glob_match_tok:
  "t \<noteq> Star \<Longrightarrow> glob_match (t # ts) s \<longleftrightarrow> (\<exists>c r. s = c # r \<and> tok_matches t c \<and> glob_match ts r)"
  by (cases s) auto

lemma glob_match_Star: "glob_match (Star # ts) s \<longleftrightarrow> (\<exists>p r. s = p @ r \<and> glob_match ts r)"
proof (induction s)
  case Nil
  then show ?case by simp
next
  case (Cons c s)
  have "glob_match (Star # ts) (c # s) \<longleftrightarrow> glob_match ts (c # s) \<or> glob_match (Star # ts) s"
    by simp
  also have "\<dots> \<longleftrightarrow> (\<exists>p r. c # s = p @ r \<and> glob_match ts r)"
    unfolding Cons.IH by (auto simp: Cons_eq_append_conv)
  finally show ?case .
qed

definition fnmatch_str :: "string \<Rightarrow> string \<Rightarrow> bool" where
  "fnmatch_str name pat = glob_match (glob_translate pat) name"

text \<open>\<open>fnmatch(name, pat)\<close> raises on anything that is not a string.\<close>

fun fnmatch :: "pyval \<Rightarrow> pyval \<Rightarrow> bool result" where
  "fnmatch (PStr name) (PStr pat) = Inr (fnmatch_str name pat)"
| "fnmatch _ _ = Inl TypeError"

text \<open>\<open>any(fnmatch(name, p) for p in patterns)\<close> as the code spells it: a loop that returns.\<close>

definition glob_match_name :: "pyval \<Rightarrow> pyval list \<Rightarrow> bool result" where
  "glob_match_name name items = anyE (fnmatch name) items"

section \<open>What the patterns in use mean\<close>

definition plain :: "string \<Rightarrow> bool" where
  "plain s \<longleftrightarrow> CHR ''*'' \<notin> set s \<and> CHR ''?'' \<notin> set s \<and> CHR ''['' \<notin> set s"

lemma translate_plain_append: "plain s \<Longrightarrow> glob_translate (s @ r) = map Chr s @ glob_translate r"
  by (induction s) (auto simp: plain_def)

lemma glob_match_plain: "glob_match (map Chr s @ ts) n \<longleftrightarrow> (\<exists>r. n = s @ r \<and> glob_match ts r)"
  by (induction s arbitrary: n) (auto simp: glob_match_tok)

lemma fnmatch_plain: "plain pat \<Longrightarrow> fnmatch_str name pat \<longleftrightarrow> name = pat"
  using translate_plain_append [of pat "[]"] glob_match_plain [of pat "[]" name]
  by (simp add: fnmatch_str_def)

lemma fnmatch_prefix: "plain pat \<Longrightarrow> fnmatch_str name (pat @ ''*'') \<longleftrightarrow> (\<exists>r. name = pat @ r)"
  using translate_plain_append [of pat "''*''"]
  by (simp add: fnmatch_str_def glob_match_plain glob_match_Star)

lemma fnmatch_star [simp]: "fnmatch_str name ''*''"
  by (simp add: fnmatch_str_def glob_match_Star)

lemma fnmatch_suffix: "plain pat \<Longrightarrow> fnmatch_str name (CHR ''*'' # pat) \<longleftrightarrow> (\<exists>p. name = p @ pat)"
  using translate_plain_append [of pat "[]"] glob_match_plain [of pat "[]"]
  by (simp add: fnmatch_str_def glob_match_Star)

lemma glob_match_name_strings:
  "glob_match_name (PStr n) (map PStr pats) = Inr (\<exists>p\<in>set pats. fnmatch_str n p)"
  by (simp add: glob_match_name_def, subst anyE_Inr [where q = "\<lambda>p. case p of PStr s \<Rightarrow> fnmatch_str n s | _ \<Rightarrow> False"]) auto

end
