(* ===== verification/Selectors.thy ===== *)
theory Selectors
  imports Glob
begin

text \<open>
  The resource selectors of the lookup service
  (\<open>lookup-service/service/helpers/selectors.py\<close>): a name selector with glob patterns
  and a Kubernetes label selector. The second half relates them to the set of resources
  a selector of well-typed configuration data is meant to describe.
\<close>

section \<open>Selector objects\<close>

record name_selector =
  match_names :: pyval

datatype operator = IN | NOT_IN | EXISTS | DOES_NOT_EXIST

record label_requirement =
  req_key :: pyval
  req_operator :: operator
  req_values :: pyval

record label_selector =
  match_labels :: pyval
  match_expressions :: "label_requirement list"

record resource_selector =
  sel_name :: name_selector
  sel_label :: label_selector

section \<open>Matching\<close>

definition name_selector_match :: "name_selector \<Rightarrow> pyval \<Rightarrow> bool result" where
  "name_selector_match sel res =
     (if \<not> truthy (match_names sel) then Inr True
      else bindE (xgetattr res ''metadata.name'' PNone) (\<lambda>nm.
           bindE (py_iter (match_names sel)) (\<lambda>pats. anyE (fnmatch nm) pats)))"

definition requirement_match :: "label_requirement \<Rightarrow> pyval \<Rightarrow> bool result" where
  "requirement_match r res =
     bindE (xgetattr res ''metadata.labels'' (PDict [])) (\<lambda>labels.
     bindE (py_get_dyn labels (req_key r)) (\<lambda>v.
       case req_operator r of
         IN \<Rightarrow> py_in v (req_values r)
       | NOT_IN \<Rightarrow> bindE (py_in v (req_values r)) (\<lambda>b. Inr (\<not> b))
       | EXISTS \<Rightarrow> Inr (v \<noteq> PNone)
       | DOES_NOT_EXIST \<Rightarrow> Inr (v = PNone)))"

definition label_selector_match :: "label_selector \<Rightarrow> pyval \<Rightarrow> bool result" where
  "label_selector_match sel res =
     bindE (xgetattr res ''metadata.labels'' (PDict [])) (\<lambda>labels.
     bindE (py_items (match_labels sel)) (\<lambda>items.
     bindE (allE (\<lambda>(k, v). bindE (py_get labels k) (\<lambda>w. Inr (py_eq w v))) items) (\<lambda>ok.
       if \<not> ok then Inr False
       else allE (\<lambda>expr. requirement_match expr res) (match_expressions sel))))"

definition resource_selector_match :: "resource_selector \<Rightarrow> pyval \<Rightarrow> bool result" where
  "resource_selector_match sel res =
     bindE (name_selector_match (sel_name sel) res) (\<lambda>b.
       if b then label_selector_match (sel_label sel) res else Inr False)"

section \<open>Construction from configuration resources\<close>

definition operator_of :: "pyval \<Rightarrow> operator result" where
  "operator_of v =
     (if v = PStr ''In'' then Inr IN
      else if v = PStr ''NotIn'' then Inr NOT_IN
      else if v = PStr ''Exists'' then Inr EXISTS
      else if v = PStr ''DoesNotExist'' then Inr DOES_NOT_EXIST
      else Inl ValueError)"

definition convert_to_name_selector :: "pyval \<Rightarrow> name_selector result" where
  "convert_to_name_selector d =
     bindE (py_get_or d ''matchNames'' (PList [])) (\<lambda>v. Inr \<lparr>match_names = v\<rparr>)"

definition convert_requirement :: "pyval \<Rightarrow> label_requirement result" where
  "convert_requirement expr =
     bindE (py_index expr ''key'') (\<lambda>k.
     bindE (py_index expr ''operator'') (\<lambda>p.
     bindE (operator_of p) (\<lambda>opr.
     bindE (py_get expr ''values'') (\<lambda>vs.
       Inr \<lparr>req_key = k, req_operator = opr, req_values = vs\<rparr>))))"

definition convert_to_label_selector :: "pyval \<Rightarrow> label_selector result" where
  "convert_to_label_selector d =
     bindE (py_get_or d ''matchLabels'' (PDict [])) (\<lambda>ls.
     bindE (py_get_or d ''matchExpressions'' (PList [])) (\<lambda>data.
     bindE (py_iter data) (\<lambda>exprs.
     bindE (mapE convert_requirement exprs) (\<lambda>es.
       Inr \<lparr>match_labels = ls, match_expressions = es\<rparr>))))"

definition mk_resource_selector :: "pyval \<Rightarrow> resource_selector result" where
  "mk_resource_selector sel =
     bindE (py_get_or sel ''nameSelector'' (PDict [])) (\<lambda>n.
     bindE (convert_to_name_selector n) (\<lambda>ns.
     bindE (py_get_or sel ''labelSelector'' (PDict [])) (\<lambda>l.
     bindE (convert_to_label_selector l) (\<lambda>ls.
       Inr \<lparr>sel_name = ns, sel_label = ls\<rparr>))))"

section \<open>What a selector selects\<close>

text \<open>
  The contract of the custom resources: a selector is a list of name globs, a list of
  required labels and a list of label expressions; a resource is a name and a label map.
\<close>

type_synonym requirement = "string \<times> operator \<times> string list"

fun requirement_holds :: "(string \<rightharpoonup> string) \<Rightarrow> requirement \<Rightarrow> bool" where
  "requirement_holds labels (k, IN, vs) = (\<exists>v. labels k = Some v \<and> v \<in> set vs)"
| "requirement_holds labels (k, NOT_IN, vs) = (\<forall>v. labels k = Some v \<longrightarrow> v \<notin> set vs)"
| "requirement_holds labels (k, EXISTS, vs) = (labels k \<noteq> None)"
| "requirement_holds labels (k, DOES_NOT_EXIST, vs) = (labels k = None)"

definition selects ::
    "string list \<Rightarrow> (string \<times> string) list \<Rightarrow> requirement list \<Rightarrow> string \<Rightarrow> (string \<rightharpoonup> string) \<Rightarrow> bool" where
  "selects names ls es nm labels \<longleftrightarrow>
     (names = [] \<or> (\<exists>p\<in>set names. fnmatch_str nm p)) \<and>
     (\<forall>(k, v)\<in>set ls. labels k = Some v) \<and>
     (\<forall>r\<in>set es. requirement_holds labels r)"

fun operator_name :: "operator \<Rightarrow> string" where
  "operator_name IN = ''In''"
| "operator_name NOT_IN = ''NotIn''"
| "operator_name EXISTS = ''Exists''"
| "operator_name DOES_NOT_EXIST = ''DoesNotExist''"

fun requirement_data :: "requirement \<Rightarrow> pyval" where
  "requirement_data (k, p, vs) =
     PDict [(''key'', PStr k), (''operator'', PStr (operator_name p)), (''values'', PList (map PStr vs))]"

definition label_data :: "(string \<times> string) list \<Rightarrow> pyval" where
  "label_data ls = PDict (map (\<lambda>(k, v). (k, PStr v)) ls)"

definition selector_data ::
    "string list \<Rightarrow> (string \<times> string) list \<Rightarrow> requirement list \<Rightarrow> pyval" where
  "selector_data names ls es =
     PDict [(''nameSelector'', PDict [(''matchNames'', PList (map PStr names))]),
            (''labelSelector'', PDict [(''matchLabels'', label_data ls),
                                       (''matchExpressions'', PList (map requirement_data es))])]"

definition resource_data :: "string \<Rightarrow> (string \<times> string) list \<Rightarrow> pyval" where
  "resource_data nm ls =
     PDict [(''metadata'', PDict [(''name'', PStr nm), (''labels'', label_data ls)])]"

lemma path_metadata_name [path_simps]:
  "xgetattr obj ''metadata.name'' d = xget_keys [''metadata'', ''name''] obj d d"
  by (simp add: xgetattr_def)

lemma path_metadata_labels [path_simps]:
  "xgetattr obj ''metadata.labels'' d = xget_keys [''metadata'', ''labels''] obj d d"
  by (simp add: xgetattr_def)

lemma dict_get_label_data [simp]:
  "dict_get (map (\<lambda>(k, v). (k, PStr v)) ls) k = map_option PStr (dict_get ls k)"
  by (induction ls) auto

lemma operator_of_name [simp]: "operator_of (PStr (operator_name p)) = Inr p"
  by (cases p) (simp_all add: operator_of_def)

lemma convert_requirement_data:
  "convert_requirement (requirement_data (k, p, vs)) =
   Inr \<lparr>req_key = PStr k, req_operator = p, req_values = PList (map PStr vs)\<rparr>"
  by (simp add: convert_requirement_def)

lemma py_in_strings [simp]:
  "py_in (PStr v) (PList (map PStr vs)) = Inr (v \<in> set vs)"
  "py_in PNone (PList (map PStr vs)) = Inr False"
  by (auto simp: list_ex_iff)

lemma requirement_match_data:
  "requirement_match \<lparr>req_key = PStr k, req_operator = p, req_values = PList (map PStr vs)\<rparr>
     (resource_data nm labels) = Inr (requirement_holds (dict_get labels) (k, p, vs))"
  by (cases p; cases "dict_get labels k")
    (auto simp: requirement_match_def resource_data_def label_data_def path_simps list_ex_iff)

lemma label_selector_match_data:
  "label_selector_match
     \<lparr>match_labels = label_data ls,
      match_expressions =
        map (\<lambda>(k, p, vs). \<lparr>req_key = PStr k, req_operator = p, req_values = PList (map PStr vs)\<rparr>) es\<rparr>
     (resource_data nm labels) =
   Inr ((\<forall>(k, v)\<in>set ls. dict_get labels k = Some v) \<and>
        (\<forall>r\<in>set es. requirement_holds (dict_get labels) r))"
proof -
  let ?items = "map (\<lambda>(k, v). (k, PStr v)) ls"
  let ?q = "\<lambda>(k, v). (case dict_get labels k of None \<Rightarrow> PNone | Some u \<Rightarrow> PStr u) = (v :: pyval)"
  have labels: "allE (\<lambda>(k, v). bindE (py_get (label_data labels) k) (\<lambda>w. Inr (py_eq w v))) ?items =
      Inr (\<forall>x\<in>set ?items. ?q x)"
    by (rule allE_Inr) (auto simp: label_data_def split: option.splits)
  have labels': "(\<forall>x\<in>set ?items. ?q x) \<longleftrightarrow> (\<forall>(k, v)\<in>set ls. dict_get labels k = Some v)"
    by (auto split: option.splits)
  let ?es = "map (\<lambda>(k, p, vs). \<lparr>req_key = PStr k, req_operator = p, req_values = PList (map PStr vs)\<rparr>) es"
  have exprs: "allE (\<lambda>expr. requirement_match expr (resource_data nm labels)) ?es =
      Inr (\<forall>r\<in>set es. requirement_holds (dict_get labels) r)"
    by (induction es) (auto simp: requirement_match_data)
  have meta: "xgetattr (resource_data nm labels) ''metadata.labels'' (PDict []) = Inr (label_data labels)"
    by (simp add: path_simps resource_data_def label_data_def)
  show ?thesis
    by (simp only: label_selector_match_def label_selector.simps exprs meta bindE_simps py_items.simps
        label_data_def [of ls] labels labels') simp
qed

lemma mk_resource_selector_data:
  "mk_resource_selector (selector_data names ls es) =
   Inr \<lparr>sel_name = \<lparr>match_names = PList (map PStr names)\<rparr>,
        sel_label = \<lparr>match_labels = label_data ls,
          match_expressions =
            map (\<lambda>(k, p, vs). \<lparr>req_key = PStr k, req_operator = p, req_values = PList (map PStr vs)\<rparr>) es\<rparr>\<rparr>"
proof -
  have "mapE convert_requirement (map requirement_data es) =
      Inr (map (\<lambda>(k, p, vs). \<lparr>req_key = PStr k, req_operator = p, req_values = PList (map PStr vs)\<rparr>) es)"
    by (induction es) (auto simp: convert_requirement_data simp del: requirement_data.simps)
  then show ?thesis
    by (simp add: mk_resource_selector_def selector_data_def convert_to_name_selector_def
        convert_to_label_selector_def)
qed

lemma name_selector_match_data:
  "name_selector_match \<lparr>match_names = PList (map PStr names)\<rparr> (resource_data nm labels) =
   Inr (names = [] \<or> (\<exists>p\<in>set names. fnmatch_str nm p))"
  using glob_match_name_strings [of nm names]
  by (auto simp: name_selector_match_def resource_data_def path_simps glob_match_name_def)

lemma selector_refines:
  "bindE (mk_resource_selector (selector_data names ls es))
     (\<lambda>sel. resource_selector_match sel (resource_data nm labels)) =
   Inr (selects names ls es nm (dict_get labels))"
  by (auto simp: mk_resource_selector_data resource_selector_match_def name_selector_match_data
      label_selector_match_data selects_def)

text \<open>
  On well-typed configuration data a \<open>ResourceSelector\<close> raises nothing and matches
  exactly the resources its contract describes: some name glob matches (or there is
  none), every required label is present with its value, and every label expression
  holds.
\<close>

theorem resource_selector_correct:
  "\<exists>sel. mk_resource_selector (selector_data names ls es) = Inr sel \<and>
     (\<forall>nm labels. resource_selector_match sel (resource_data nm labels) =
        Inr (selects names ls es nm (dict_get labels)))"
  using selector_refines [of names ls es] by (auto simp: mk_resource_selector_data)

text \<open>A selector without conditions selects everything.\<close>

lemma empty_selector_matches:
  "bindE (mk_resource_selector (PDict [])) (\<lambda>sel. resource_selector_match sel (resource_data nm labels)) =
   Inr True"
  by (simp add: mk_resource_selector_def convert_to_name_selector_def convert_to_label_selector_def
      resource_selector_match_def name_selector_match_def label_selector_match_def path_simps
      resource_data_def label_data_def)

end
