(* ===== verification/Lookup_Caches.thy ===== *)
theory Lookup_Caches
  imports Selectors
begin

text \<open>
  The in-memory state of the lookup service (\<open>lookup-service/service/caches/\<close>): clients,
  and for every cluster a tree of training portals, workshop environments and workshop
  sessions. The source links a session to its environment, an environment to its portal
  and a portal to its cluster by back references, set when the object is created and
  stored under its owner; in the tree the owner is the node the object hangs from, so an
  operation that follows a back reference takes the owner as an argument. Fields that
  hold what a resource reported are dynamic values; counters computed by the service are
  integers.
\<close>

section \<open>Clients\<close>

record client_config =
  ci_name :: string
  ci_uid :: pyval
  ci_issue :: int
  ci_password :: pyval
  ci_user :: pyval
  ci_tenants :: pyval
  ci_roles :: pyval

definition identity :: "client_config \<Rightarrow> string" where
  "identity c = ''client@educates:'' @ py_str (ci_uid c) @ ''#'' @ show_int (ci_issue c)"

definition revoke_tokens :: "client_config \<Rightarrow> client_config" where
  "revoke_tokens c = c\<lparr>ci_issue := ci_issue c + 1\<rparr>"

definition check_password :: "client_config \<Rightarrow> pyval \<Rightarrow> bool" where
  "check_password c password = py_eq (ci_password c) password"

definition validate_identity :: "client_config \<Rightarrow> pyval \<Rightarrow> bool" where
  "validate_identity c ident = py_eq (PStr (identity c)) ident"

text \<open>The set of matched roles is kept as the list of the given roles that matched.\<close>

definition has_required_role :: "client_config \<Rightarrow> string list \<Rightarrow> string list result" where
  "has_required_role c roles = filterE (\<lambda>role. py_in (PStr role) (ci_roles c)) roles"

definition allowed_access_to_tenant :: "client_config \<Rightarrow> pyval \<Rightarrow> bool result" where
  "allowed_access_to_tenant c tenant =
     bindE (py_iter (ci_tenants c)) (\<lambda>pats. anyE (fnmatch tenant) pats)"

section \<open>Sessions, environments, portals, clusters\<close>

record workshop_session =
  ss_name :: pyval
  ss_generation :: pyval
  ss_phase :: pyval
  ss_user :: pyval

record workshop_environment =
  en_name :: pyval
  en_uid :: pyval
  en_generation :: pyval
  en_workshop :: pyval
  en_title :: pyval
  en_description :: pyval
  en_labels :: pyval
  en_capacity :: pyval
  en_reserved :: pyval
  en_allocated :: int
  en_available :: int
  en_phase :: pyval
  en_sessions :: "(pyval, workshop_session) dict"

record portal_credentials =
  cr_client_id :: pyval
  cr_client_secret :: pyval
  cr_username :: pyval
  cr_password :: pyval

record training_portal =
  pt_name :: pyval
  pt_uid :: pyval
  pt_generation :: pyval
  pt_labels :: pyval
  pt_url :: pyval
  pt_credentials :: portal_credentials
  pt_phase :: pyval
  pt_capacity :: pyval
  pt_allocated :: int
  pt_environments :: "(pyval, workshop_environment) dict"

record cluster_config =
  cl_name :: string
  cl_uid :: pyval
  cl_labels :: pyval
  cl_kubeconfig :: pyval
  cl_portals :: "(pyval, training_portal) dict"

subsection \<open>Environments\<close>

definition new_environment ::
    "pyval \<Rightarrow> pyval \<Rightarrow> pyval \<Rightarrow> pyval \<Rightarrow> pyval \<Rightarrow> pyval \<Rightarrow> pyval \<Rightarrow> pyval \<Rightarrow> pyval \<Rightarrow> int \<Rightarrow> int \<Rightarrow> pyval
     \<Rightarrow> workshop_environment" where
  "new_environment name uid generation workshop title description labels capacity reserved
     allocated available phase =
     \<lparr>en_name = name, en_uid = uid, en_generation = generation, en_workshop = workshop,
      en_title = title, en_description = description, en_labels = labels,
      en_capacity = capacity, en_reserved = reserved, en_allocated = allocated,
      en_available = available, en_phase = phase, en_sessions = []\<rparr>"

definition get_sessions :: "workshop_environment \<Rightarrow> workshop_session list" where
  "get_sessions e = dict_values (en_sessions e)"

definition get_session :: "workshop_environment \<Rightarrow> pyval \<Rightarrow> workshop_session option" where
  "get_session e name = dict_get (en_sessions e) name"

definition add_session :: "workshop_session \<Rightarrow> workshop_environment \<Rightarrow> workshop_environment" where
  "add_session s e = e\<lparr>en_sessions := dict_set (ss_name s) s (en_sessions e)\<rparr>"

definition remove_session :: "pyval \<Rightarrow> workshop_environment \<Rightarrow> workshop_environment" where
  "remove_session name e = e\<lparr>en_sessions := dict_pop name (en_sessions e)\<rparr>"

text \<open>The counting loop of \<open>recalculate_capacity\<close>, with its two counters.\<close>

fun count_phases :: "workshop_session list \<Rightarrow> int \<Rightarrow> int \<Rightarrow> int \<times> int" where
  "count_phases [] allocated available = (allocated, available)"
| "count_phases (s # ss) allocated available =
     (if ss_phase s = PStr ''Allocated'' then count_phases ss (allocated + 1) available
      else if ss_phase s = PStr ''Available'' then count_phases ss allocated (available + 1)
      else count_phases ss allocated available)"

definition environment_recalculate_capacity :: "workshop_environment \<Rightarrow> workshop_environment" where
  "environment_recalculate_capacity e =
     (let (allocated, available) = count_phases (get_sessions e) 0 0
      in e\<lparr>en_allocated := allocated, en_available := available\<rparr>)"

subsection \<open>Portals\<close>

definition new_portal ::
    "pyval \<Rightarrow> pyval \<Rightarrow> pyval \<Rightarrow> pyval \<Rightarrow> pyval \<Rightarrow> portal_credentials \<Rightarrow> pyval \<Rightarrow> pyval \<Rightarrow> int \<Rightarrow> training_portal" where
  "new_portal name uid generation labels url credentials phase capacity allocated =
     \<lparr>pt_name = name, pt_uid = uid, pt_generation = generation, pt_labels = labels,
      pt_url = url, pt_credentials = credentials, pt_phase = phase, pt_capacity = capacity,
      pt_allocated = allocated, pt_environments = []\<rparr>"

definition get_environments :: "training_portal \<Rightarrow> workshop_environment list" where
  "get_environments p = dict_values (pt_environments p)"

definition get_running_environments :: "training_portal \<Rightarrow> workshop_environment list" where
  "get_running_environments p =
     filter (\<lambda>e. en_phase e = PStr ''Running'') (dict_values (pt_environments p))"

definition get_environment :: "training_portal \<Rightarrow> pyval \<Rightarrow> workshop_environment option" where
  "get_environment p name = dict_get (pt_environments p) name"

definition add_environment :: "workshop_environment \<Rightarrow> training_portal \<Rightarrow> training_portal" where
  "add_environment e p = p\<lparr>pt_environments := dict_set (en_name e) e (pt_environments p)\<rparr>"

definition remove_environment :: "pyval \<Rightarrow> training_portal \<Rightarrow> training_portal" where
  "remove_environment name p = p\<lparr>pt_environments := dict_pop name (pt_environments p)\<rparr>"

definition hosts_workshop :: "training_portal \<Rightarrow> pyval \<Rightarrow> bool" where
  "hosts_workshop p workshop =
     list_ex (\<lambda>e. py_eq (en_workshop e) workshop) (dict_values (pt_environments p))"

definition portal_recalculate_capacity :: "training_portal \<Rightarrow> training_portal" where
  "portal_recalculate_capacity p =
     (let envs = map (\<lambda>(k, e). (k, environment_recalculate_capacity e)) (pt_environments p)
      in p\<lparr>pt_environments := envs, pt_allocated := sum_list (map en_allocated (dict_values envs))\<rparr>)"

text \<open>The session found is returned with the environment it belongs to.\<close>

definition find_existing_workshop_session_for_user ::
    "training_portal \<Rightarrow> pyval \<Rightarrow> pyval \<Rightarrow> (workshop_environment \<times> workshop_session) option" where
  "find_existing_workshop_session_for_user p user_id workshop =
     find (\<lambda>(e, s). py_eq (ss_user s) user_id \<and> py_eq (en_workshop e) workshop)
       (concat (map (\<lambda>e. map (Pair e) (get_sessions e)) (dict_values (pt_environments p))))"

subsection \<open>Clusters\<close>

definition new_cluster :: "string \<Rightarrow> pyval \<Rightarrow> pyval \<Rightarrow> pyval \<Rightarrow> cluster_config" where
  "new_cluster name uid labels kubeconfig =
     \<lparr>cl_name = name, cl_uid = uid, cl_labels = labels, cl_kubeconfig = kubeconfig, cl_portals = []\<rparr>"

definition add_portal :: "training_portal \<Rightarrow> cluster_config \<Rightarrow> cluster_config" where
  "add_portal p c = c\<lparr>cl_portals := dict_set (pt_name p) p (cl_portals c)\<rparr>"

definition remove_portal :: "pyval \<Rightarrow> cluster_config \<Rightarrow> cluster_config" where
  "remove_portal name c = c\<lparr>cl_portals := dict_pop name (cl_portals c)\<rparr>"

definition get_portals :: "cluster_config \<Rightarrow> training_portal list" where
  "get_portals c = dict_values (cl_portals c)"

definition get_portal :: "cluster_config \<Rightarrow> pyval \<Rightarrow> training_portal option" where
  "get_portal c name = dict_get (cl_portals c) name"

section \<open>The client database\<close>

type_synonym client_database = "(string, client_config) dict"

definition empty_clients :: client_database where
  "empty_clients = []"

definition update_client :: "client_config \<Rightarrow> client_database \<Rightarrow> client_database" where
  "update_client c db = dict_set (ci_name c) c db"

definition remove_client :: "string \<Rightarrow> client_database \<Rightarrow> client_database" where
  "remove_client name db = dict_pop name db"

definition get_clients :: "client_database \<Rightarrow> client_config list" where
  "get_clients db = dict_values db"

text \<open>The name comes from a token or a request body, so it is a dynamic value.\<close>

definition get_client :: "client_database \<Rightarrow> pyval \<Rightarrow> client_config option result" where
  "get_client db name =
     (case name of PStr n \<Rightarrow> Inr (dict_get db n)
      | PList _ \<Rightarrow> Inl TypeError | PDict _ \<Rightarrow> Inl TypeError | _ \<Rightarrow> Inr None)"

definition authenticate_client :: "client_database \<Rightarrow> pyval \<Rightarrow> pyval \<Rightarrow> client_config option result" where
  "authenticate_client db name password =
     bindE (get_client db name) (\<lambda>client.
       case client of
         None \<Rightarrow> Inr None
       | Some c \<Rightarrow> Inr (if check_password c password then Some c else None))"

text \<open>
  Cluster and tenant databases store objects that other parts of the service share, see
  \<open>Lookup_Service\<close>.
\<close>

section \<open>The databases as registries\<close>

definition environment_ok :: "workshop_environment \<Rightarrow> bool" where
  "environment_ok e \<longleftrightarrow> keyed_by ss_name (en_sessions e)"

definition portal_ok :: "training_portal \<Rightarrow> bool" where
  "portal_ok p \<longleftrightarrow>
     keyed_by en_name (pt_environments p) \<and> (\<forall>e\<in>set (get_environments p). environment_ok e)"

definition cluster_ok :: "cluster_config \<Rightarrow> bool" where
  "cluster_ok c \<longleftrightarrow> keyed_by pt_name (cl_portals c) \<and> (\<forall>p\<in>set (get_portals c). portal_ok p)"

lemmas cache_defs =
  get_sessions_def get_session_def add_session_def remove_session_def
  get_environments_def get_environment_def add_environment_def remove_environment_def
  get_portals_def get_portal_def add_portal_def remove_portal_def

interpretation sessions: named_registry
  add_session remove_session get_session get_sessions ss_name environment_ok
proof (unfold_locales, goal_cases)
  case (3 e s)
  then show ?case by (simp add: environment_ok_def cache_defs in_dict_values_image)
next
  case (4 e)
  then show ?case by (simp add: environment_ok_def cache_defs keyed_by_distinct_names)
next
  case (5 e k s)
  then show ?case by (auto simp: environment_ok_def cache_defs dest: keyed_by_get)
qed (auto simp: environment_ok_def cache_defs)

interpretation environments: named_registry
  add_environment remove_environment get_environment get_environments en_name
  "\<lambda>p. keyed_by en_name (pt_environments p)"
proof (unfold_locales, goal_cases)
  case (3 p e)
  then show ?case by (simp add: cache_defs in_dict_values_image)
next
  case (4 p)
  then show ?case by (simp add: cache_defs keyed_by_distinct_names)
next
  case (5 p k e)
  then show ?case by (auto simp: cache_defs dest: keyed_by_get)
qed (auto simp: cache_defs)

interpretation portals: named_registry
  add_portal remove_portal get_portal get_portals pt_name
  "\<lambda>c. keyed_by pt_name (cl_portals c)"
proof (unfold_locales, goal_cases)
  case (3 c p)
  then show ?case by (simp add: cache_defs in_dict_values_image)
next
  case (4 c)
  then show ?case by (simp add: cache_defs keyed_by_distinct_names)
next
  case (5 c k p)
  then show ?case by (auto simp: cache_defs dest: keyed_by_get)
qed (auto simp: cache_defs)

lemma get_client_string [simp]: "get_client db (PStr n) = Inr (dict_get db n)"
  by (simp add: get_client_def)

interpretation clients: fresh_registry
  update_client remove_client "\<lambda>db n. case get_client db (PStr n) of Inr r \<Rightarrow> r | Inl _ \<Rightarrow> None"
  get_clients ci_name "keyed_by ci_name" empty_clients
proof (unfold_locales, goal_cases)
  case (3 db c)
  then show ?case by (simp add: get_clients_def in_dict_values_image)
next
  case (4 db)
  then show ?case by (simp add: get_clients_def keyed_by_distinct_names)
next
  case (5 db k c)
  then show ?case by (auto dest: keyed_by_get)
qed (auto simp: update_client_def remove_client_def empty_clients_def)

lemma cluster_ok_add_portal:
  assumes "cluster_ok c" and "portal_ok p"
  shows "cluster_ok (add_portal p c)"
  using assms portals.set_items_put [of c p] by (auto simp: cluster_ok_def portals.ok_put)

lemma cluster_ok_remove_portal:
  assumes "cluster_ok c"
  shows "cluster_ok (remove_portal n c)"
  using assms portals.set_items_drop [of c n] by (auto simp: cluster_ok_def portals.ok_drop)

lemma portal_ok_add_environment:
  assumes "portal_ok p" and "environment_ok e"
  shows "portal_ok (add_environment e p)"
  using assms environments.set_items_put [of p e] by (auto simp: portal_ok_def environments.ok_put)

lemma portal_ok_remove_environment:
  assumes "portal_ok p"
  shows "portal_ok (remove_environment n p)"
  using assms environments.set_items_drop [of p n] by (auto simp: portal_ok_def environments.ok_drop)

lemma cluster_ok_get_portal: "cluster_ok c \<Longrightarrow> get_portal c n = Some p \<Longrightarrow> portal_ok p \<and> pt_name p = n"
  using portals.items_iff portals.get_key by (metis cluster_ok_def)

lemma portal_ok_get_environment:
  "portal_ok p \<Longrightarrow> get_environment p n = Some e \<Longrightarrow> environment_ok e \<and> en_name e = n"
  using environments.items_iff environments.get_key by (metis portal_ok_def)

section \<open>Capacity accounting\<close>

lemma count_phases_eq:
  "count_phases ss allocated available =
     (allocated + int (length (filter (\<lambda>s. ss_phase s = PStr ''Allocated'') ss)),
      available + int (length (filter (\<lambda>s. ss_phase s = PStr ''Available'') ss)))"
  by (induction ss arbitrary: allocated available) auto

text \<open>The counters of an environment and of a portal agree with the sessions below them.\<close>

definition environment_counted :: "workshop_environment \<Rightarrow> bool" where
  "environment_counted e \<longleftrightarrow>
     en_allocated e = int (length (filter (\<lambda>s. ss_phase s = PStr ''Allocated'') (get_sessions e))) \<and>
     en_available e = int (length (filter (\<lambda>s. ss_phase s = PStr ''Available'') (get_sessions e)))"

definition portal_counted :: "training_portal \<Rightarrow> bool" where
  "portal_counted p \<longleftrightarrow>
     (\<forall>e\<in>set (get_environments p). environment_counted e) \<and>
     pt_allocated p = sum_list (map en_allocated (get_environments p))"

lemma environment_recalculate_fields [simp]:
  "en_name (environment_recalculate_capacity e) = en_name e"
  "en_phase (environment_recalculate_capacity e) = en_phase e"
  "en_workshop (environment_recalculate_capacity e) = en_workshop e"
  "en_sessions (environment_recalculate_capacity e) = en_sessions e"
  "get_sessions (environment_recalculate_capacity e) = get_sessions e"
  "get_session (environment_recalculate_capacity e) n = get_session e n"
  "environment_ok (environment_recalculate_capacity e) = environment_ok e"
  by (simp_all add: environment_recalculate_capacity_def cache_defs environment_ok_def
      split: prod.splits)

lemma environment_recalculate_counted: "environment_counted (environment_recalculate_capacity e)"
  by (simp add: environment_counted_def environment_recalculate_capacity_def count_phases_eq
      get_sessions_def)

lemma portal_recalculate_fields [simp]:
  "pt_name (portal_recalculate_capacity p) = pt_name p"
  "pt_phase (portal_recalculate_capacity p) = pt_phase p"
  "pt_uid (portal_recalculate_capacity p) = pt_uid p"
  "pt_capacity (portal_recalculate_capacity p) = pt_capacity p"
  by (simp_all add: portal_recalculate_capacity_def Let_def)

lemma get_environments_recalculate:
  "get_environments (portal_recalculate_capacity p) = map environment_recalculate_capacity (get_environments p)"
  by (auto simp: portal_recalculate_capacity_def Let_def get_environments_def)

lemma get_environment_recalculate [simp]:
  "get_environment (portal_recalculate_capacity p) n =
   map_option environment_recalculate_capacity (get_environment p n)"
  by (simp add: portal_recalculate_capacity_def Let_def get_environment_def map_of_map)

lemma portal_recalculate_counted: "portal_counted (portal_recalculate_capacity p)"
  by (auto simp: portal_counted_def get_environments_recalculate environment_recalculate_counted)
    (simp add: portal_recalculate_capacity_def Let_def get_environments_def comp_def case_prod_beta)

lemma portal_recalculate_ok [simp]: "portal_ok (portal_recalculate_capacity p) = portal_ok p"
proof -
  have "keyed_by en_name (pt_environments (portal_recalculate_capacity p)) = keyed_by en_name (pt_environments p)"
    by (auto simp: portal_recalculate_capacity_def Let_def keyed_by_def comp_def case_prod_beta)
  then show ?thesis by (simp add: portal_ok_def get_environments_recalculate)
qed

lemma portal_allocated_is_session_count:
  assumes "portal_counted p"
  shows "pt_allocated p =
    int (length (filter (\<lambda>s. ss_phase s = PStr ''Allocated'') (concat (map get_sessions (get_environments p)))))"
proof -
  have "sum_list (map en_allocated es) =
      int (length (filter (\<lambda>s. ss_phase s = PStr ''Allocated'') (concat (map get_sessions es))))"
    if "\<forall>e\<in>set es. environment_counted e" for es
    using that by (induction es) (auto simp: environment_counted_def)
  with assms show ?thesis by (simp add: portal_counted_def)
qed

section \<open>Looking a user's session up\<close>

lemma find_existing_Some:
  assumes "find_existing_workshop_session_for_user p user workshop = Some (e, s)"
  shows "e \<in> set (get_environments p) \<and> s \<in> set (get_sessions e) \<and>
    py_eq (ss_user s) user \<and> py_eq (en_workshop e) workshop"
  using assms by (auto simp: find_existing_workshop_session_for_user_def find_Some_iff
      get_environments_def dest!: nth_mem)

lemma find_existing_None:
  "find_existing_workshop_session_for_user p user workshop = None \<longleftrightarrow>
   (\<forall>e\<in>set (get_environments p). \<forall>s\<in>set (get_sessions e).
      \<not> (py_eq (ss_user s) user \<and> py_eq (en_workshop e) workshop))"
  by (force simp: find_existing_workshop_session_for_user_def find_None_iff get_environments_def)

section \<open>Client identities\<close>

lemma identity_inject:
  assumes "ci_uid c = PStr u" and "ci_uid d = PStr v"
  shows "identity c = identity d \<longleftrightarrow> u = v \<and> ci_issue c = ci_issue d"
proof
  assume eq: "identity c = identity d"
  let ?x = "show_int (ci_issue c)" and ?y = "show_int (ci_issue d)"
  have "CHR ''#'' \<notin> set (show_nat k)" for k
    using show_nat_chars [of "CHR ''#''" k] by auto
  then have hash: "CHR ''#'' \<notin> set (show_int n)" for n
    by (simp add: show_int_def)
  then have no_hash: "show_int n \<noteq> ys @ CHR ''#'' # zs" "ys @ CHR ''#'' # zs \<noteq> show_int n" for n ys zs
    by (metis in_set_conv_decomp)+
  from eq assms have "u @ CHR ''#'' # ?x = v @ CHR ''#'' # ?y"
    by (simp add: identity_def)
  then have "u = v \<and> ?x = ?y"
    using no_hash by (auto simp: append_eq_append_conv2 Cons_eq_append_conv append_eq_Cons_conv)
  then show "u = v \<and> ci_issue c = ci_issue d" by (simp add: show_int_inject)
next
  assume "u = v \<and> ci_issue c = ci_issue d"
  with assms show "identity c = identity d" by (simp add: identity_def)
qed

lemma revoke_tokens_identity: "identity (revoke_tokens c) \<noteq> identity c"
  by (simp add: identity_def revoke_tokens_def show_int_inject)

end
