(* ===== verification/Lookup_Tenants.thy ===== *)
theory Lookup_Tenants
  imports Lookup_Caches
begin

text \<open>
  Tenants of the training platform (\<open>caches/tenants.py\<close>), the tenant database
  (\<open>caches/databases.py\<close>) and the operator handlers that keep the client and the tenant
  database in step with their custom resources (\<open>handlers/clients.py\<close>,
  \<open>handlers/tenants.py\<close>).
\<close>

section \<open>Tenants\<close>

record tenant_config =
  tn_name :: string
  tn_clusters :: resource_selector
  tn_portals :: resource_selector

definition mk_tenant :: "string \<Rightarrow> pyval \<Rightarrow> pyval \<Rightarrow> tenant_config result" where
  "mk_tenant name clusters ports =
     bindE (mk_resource_selector clusters) (\<lambda>cs.
     bindE (mk_resource_selector ports) (\<lambda>ps.
       Inr \<lparr>tn_name = name, tn_clusters = cs, tn_portals = ps\<rparr>))"

text \<open>
  The label list of a cluster or portal as the dictionary
  \<open>{item["name"]: item["value"] for item in labels}\<close>. Label names are strings by the
  schema of the custom resources; any other name is treated as an unhashable one.
\<close>

definition add_label :: "pyval \<Rightarrow> (string \<times> pyval) list \<Rightarrow> (string \<times> pyval) list result" where
  "add_label item d =
     bindE (py_index item ''name'') (\<lambda>n.
     bindE (py_index item ''value'') (\<lambda>v.
       case n of PStr k \<Rightarrow> Inr (dict_set k v d) | _ \<Rightarrow> Inl TypeError))"

definition labels_dict :: "pyval \<Rightarrow> pyval result" where
  "labels_dict labels =
     bindE (py_iter labels) (\<lambda>items. bindE (foldE add_label items []) (\<lambda>d. Inr (PDict d)))"

definition fake_resource :: "pyval \<Rightarrow> pyval \<Rightarrow> pyval \<Rightarrow> pyval" where
  "fake_resource name uid labels =
     PDict [(''metadata'', PDict [(''name'', name), (''uid'', uid), (''labels'', labels)])]"

definition allowed_access_to_cluster :: "tenant_config \<Rightarrow> cluster_config \<Rightarrow> bool result" where
  "allowed_access_to_cluster t c =
     bindE (labels_dict (cl_labels c)) (\<lambda>labels.
       resource_selector_match (tn_clusters t) (fake_resource (PStr (cl_name c)) (cl_uid c) labels))"

definition allowed_access_to_portal :: "tenant_config \<Rightarrow> training_portal \<Rightarrow> bool result" where
  "allowed_access_to_portal t p =
     bindE (labels_dict (pt_labels p)) (\<lambda>labels.
       resource_selector_match (tn_portals t) (fake_resource (pt_name p) (pt_uid p) labels))"

text \<open>Each portal is returned with the cluster it belongs to.\<close>

definition portals_which_are_accessible ::
    "tenant_config \<Rightarrow> cluster_config list \<Rightarrow> (cluster_config \<times> training_portal) list result" where
  "portals_which_are_accessible t clusters =
     bindE (mapE (\<lambda>c. bindE (allowed_access_to_cluster t c) (\<lambda>b.
              if b then bindE (filterE (allowed_access_to_portal t) (get_portals c))
                          (\<lambda>ps. Inr (map (Pair c) ps))
              else Inr [])) clusters)
       (\<lambda>pss. Inr (concat pss))"

section \<open>The tenant database\<close>

type_synonym tenant_database = "(string, tenant_config) dict"

definition empty_tenants :: tenant_database where
  "empty_tenants = []"

definition update_tenant :: "tenant_config \<Rightarrow> tenant_database \<Rightarrow> tenant_database" where
  "update_tenant t db = dict_set (tn_name t) t db"

definition remove_tenant :: "string \<Rightarrow> tenant_database \<Rightarrow> tenant_database" where
  "remove_tenant name db = dict_pop name db"

definition get_tenants :: "tenant_database \<Rightarrow> tenant_config list" where
  "get_tenants db = dict_values db"

definition get_tenant :: "tenant_database \<Rightarrow> string \<Rightarrow> tenant_config option" where
  "get_tenant db name = dict_get db name"

interpretation tenants: fresh_registry
  update_tenant remove_tenant get_tenant get_tenants tn_name "keyed_by tn_name" empty_tenants
proof (unfold_locales, goal_cases)
  case (3 db t)
  then show ?case by (simp add: get_tenants_def get_tenant_def in_dict_values_image)
next
  case (4 db)
  then show ?case by (simp add: get_tenants_def keyed_by_distinct_names)
next
  case (5 db k t)
  then show ?case by (auto simp: get_tenant_def dest: keyed_by_get)
qed (auto simp: update_tenant_def remove_tenant_def empty_tenants_def get_tenant_def)

section \<open>Operator handlers\<close>

definition clientconfigs_update ::
    "string \<Rightarrow> pyval \<Rightarrow> pyval \<Rightarrow> client_database \<Rightarrow> client_database result" where
  "clientconfigs_update name meta spec db =
     bindE (py_index meta ''generation'') (\<lambda>generation.
     bindE (xgetattr meta ''uid'' PNone) (\<lambda>client_uid.
     bindE (xgetattr spec ''client.password'' PNone) (\<lambda>client_password.
     bindE (xgetattr spec ''user'' PNone) (\<lambda>client_user.
     bindE (xgetattr spec ''tenants'' (PList [])) (\<lambda>client_tenants.
     bindE (xgetattr spec ''roles'' (PList [])) (\<lambda>client_roles.
       Inr (update_client
         \<lparr>ci_name = name, ci_uid = client_uid, ci_issue = 1, ci_password = client_password,
          ci_user = client_user, ci_tenants = client_tenants, ci_roles = client_roles\<rparr> db)))))))"

definition clientconfigs_delete ::
    "string \<Rightarrow> pyval \<Rightarrow> client_database \<Rightarrow> client_database result" where
  "clientconfigs_delete name meta db =
     bindE (py_index meta ''generation'') (\<lambda>generation. Inr (remove_client name db))"

definition tenantconfigs_update ::
    "string \<Rightarrow> pyval \<Rightarrow> pyval \<Rightarrow> tenant_database \<Rightarrow> tenant_database result" where
  "tenantconfigs_update name meta spec db =
     bindE (py_index meta ''generation'') (\<lambda>generation.
     bindE (xgetattr spec ''clusters'' (PDict [])) (\<lambda>clusters.
     bindE (xgetattr spec ''portals'' (PDict [])) (\<lambda>ports.
     bindE (mk_tenant name clusters ports) (\<lambda>tenant.
       Inr (update_tenant tenant db)))))"

definition tenantconfigs_delete ::
    "string \<Rightarrow> pyval \<Rightarrow> tenant_database \<Rightarrow> tenant_database result" where
  "tenantconfigs_delete name meta db =
     bindE (py_index meta ''generation'') (\<lambda>generation. Inr (remove_tenant name db))"

section \<open>Lemmas\<close>

text \<open>Label lists as the custom resources carry them.\<close>

definition label_list :: "(string \<times> string) list \<Rightarrow> pyval" where
  "label_list ls = PList (map (\<lambda>(k, v). PDict [(''name'', PStr k), (''value'', PStr v)]) ls)"

definition labels_map :: "(string \<times> string) list \<Rightarrow> (string \<times> string) list" where
  "labels_map ls = fold (\<lambda>(k, v). dict_set k v) ls []"

lemma label_data_set: "map (\<lambda>(k, v). (k, PStr v)) (dict_set k v d) = dict_set k (PStr v) (map (\<lambda>(k, v). (k, PStr v)) d)"
  by (induction d) auto

lemma foldE_add_label:
  "foldE add_label (map (\<lambda>(k, v). PDict [(''name'', PStr k), (''value'', PStr v)]) ls)
     (map (\<lambda>(k, v). (k, PStr v)) d) =
   Inr (map (\<lambda>(k, v). (k, PStr v)) (fold (\<lambda>(k, v). dict_set k v) ls d))"
  by (induction ls arbitrary: d) (auto simp: add_label_def label_data_set [symmetric])

lemma labels_dict_list: "labels_dict (label_list ls) = Inr (label_data (labels_map ls))"
  using foldE_add_label [of ls "[]"] by (simp add: labels_dict_def label_list_def label_data_def labels_map_def)

lemma labels_map_get:
  "dict_get (labels_map ls) k = dict_get (rev ls) k"
proof -
  have "dict_get (fold (\<lambda>(k, v). dict_set k v) ls d) k =
      (case dict_get (rev ls) k of None \<Rightarrow> dict_get d k | Some v \<Rightarrow> Some v)" for d
    by (induction ls arbitrary: d) (auto simp: map_add_def split: option.splits)
  then show ?thesis by (simp add: labels_map_def split: option.splits)
qed

text \<open>A selector only reads the name and the labels of a resource.\<close>

lemma match_fake_resource:
  "resource_selector_match sel (fake_resource (PStr nm) uid (label_data ls)) =
   resource_selector_match sel (resource_data nm ls)"
proof -
  have labels: "xgetattr (fake_resource (PStr nm) uid (label_data ls)) ''metadata.labels'' d =
      xgetattr (resource_data nm ls) ''metadata.labels'' d" for d
    by (simp add: path_simps fake_resource_def resource_data_def)
  have name: "xgetattr (fake_resource (PStr nm) uid (label_data ls)) ''metadata.name'' d =
      xgetattr (resource_data nm ls) ''metadata.name'' d" for d
    by (simp add: path_simps fake_resource_def resource_data_def)
  have req: "requirement_match r (fake_resource (PStr nm) uid (label_data ls)) =
      requirement_match r (resource_data nm ls)" for r
    by (simp add: requirement_match_def labels)
  have "label_selector_match l (fake_resource (PStr nm) uid (label_data ls)) =
      label_selector_match l (resource_data nm ls)" for l
    by (simp add: label_selector_match_def labels req cong: if_cong)
  then show ?thesis
    by (simp add: resource_selector_match_def name_selector_match_def name cong: if_cong)
qed

text \<open>The configuration data of a tenant whose two selectors are well typed.\<close>

record selector_spec =
  sp_names :: "string list"
  sp_labels :: "(string \<times> string) list"
  sp_requirements :: "requirement list"

definition spec_data :: "selector_spec \<Rightarrow> pyval" where
  "spec_data s = selector_data (sp_names s) (sp_labels s) (sp_requirements s)"

definition spec_selects :: "selector_spec \<Rightarrow> string \<Rightarrow> (string \<times> string) list \<Rightarrow> bool" where
  "spec_selects s nm ls =
     selects (sp_names s) (sp_labels s) (sp_requirements s) nm (dict_get (rev ls))"

definition cluster_selected :: "selector_spec \<Rightarrow> cluster_config \<Rightarrow> bool" where
  "cluster_selected s c \<longleftrightarrow> (\<exists>ls. cl_labels c = label_list ls \<and> spec_selects s (cl_name c) ls)"

definition portal_selected :: "selector_spec \<Rightarrow> training_portal \<Rightarrow> bool" where
  "portal_selected s p \<longleftrightarrow>
     (\<exists>n ls. pt_name p = PStr n \<and> pt_labels p = label_list ls \<and> spec_selects s n ls)"

definition labelled :: "cluster_config \<Rightarrow> bool" where
  "labelled c \<longleftrightarrow> (\<exists>ls. cl_labels c = label_list ls) \<and>
     (\<forall>p\<in>set (get_portals c). \<exists>n ls. pt_name p = PStr n \<and> pt_labels p = label_list ls)"

lemma label_list_inject: "label_list ls = label_list ms \<longleftrightarrow> ls = ms"
  by (auto simp: label_list_def dest!: map_injective intro!: injI)

lemma tenant_selector_match:
  assumes "mk_resource_selector (spec_data s) = Inr sel"
  shows "bindE (labels_dict (label_list ls))
      (\<lambda>labels. resource_selector_match sel (fake_resource (PStr n) uid labels)) =
    Inr (spec_selects s n ls)"
proof -
  have get: "dict_get (labels_map ls) = dict_get (rev ls)"
    by (simp add: fun_eq_iff labels_map_get)
  show ?thesis
    using assms selector_refines [of "sp_names s" "sp_labels s" "sp_requirements s" n "labels_map ls"]
    by (simp add: labels_dict_list match_fake_resource spec_data_def spec_selects_def get)
qed

lemma allowed_access_to_cluster_iff:
  assumes "mk_tenant n (spec_data cs) (spec_data ps) = Inr t" and "cl_labels c = label_list ls"
  shows "allowed_access_to_cluster t c = Inr (cluster_selected cs c)"
  using assms tenant_selector_match [of cs "tn_clusters t" ls "cl_name c" "cl_uid c"]
  by (auto simp: mk_tenant_def bindE_Inr_iff allowed_access_to_cluster_def cluster_selected_def
      label_list_inject)

lemma allowed_access_to_portal_iff:
  assumes "mk_tenant n (spec_data cs) (spec_data ps) = Inr t"
    and "pt_name p = PStr m" and "pt_labels p = label_list ls"
  shows "allowed_access_to_portal t p = Inr (portal_selected ps p)"
  using assms tenant_selector_match [of ps "tn_portals t" ls m "pt_uid p"]
  by (auto simp: mk_tenant_def bindE_Inr_iff allowed_access_to_portal_def portal_selected_def
      label_list_inject)

lemma accessible_portals_eq:
  assumes tenant: "mk_tenant n (spec_data cs) (spec_data ps) = Inr t"
    and labels: "\<forall>c\<in>set clusters. labelled c"
  shows "portals_which_are_accessible t clusters =
    Inr (concat (map (\<lambda>c. if cluster_selected cs c
           then map (Pair c) (filter (portal_selected ps) (get_portals c)) else []) clusters))"
proof -
  have "allowed_access_to_portal t p = Inr (portal_selected ps p)"
    if "c \<in> set clusters" and "p \<in> set (get_portals c)" for c p
    using labels that by (meson labelled_def allowed_access_to_portal_iff [OF tenant])
  then have ports: "filterE (allowed_access_to_portal t) (get_portals c) =
      Inr (filter (portal_selected ps) (get_portals c))" if "c \<in> set clusters" for c
    using that by (intro filterE_Inr) simp
  have "allowed_access_to_cluster t c = Inr (cluster_selected cs c)" if "c \<in> set clusters" for c
    using labels that allowed_access_to_cluster_iff [OF tenant] by (auto simp: labelled_def)
  then show ?thesis
    unfolding portals_which_are_accessible_def
    by (subst mapE_Inr [where g = "\<lambda>c. if cluster_selected cs c
           then map (Pair c) (filter (portal_selected ps) (get_portals c)) else []"])
      (auto simp: ports)
qed

text \<open>The portals a tenant gets are portals of the given clusters, in any case.\<close>

lemma accessible_portals_subset:
  assumes "portals_which_are_accessible t clusters = Inr cps" and "(c, p) \<in> set cps"
  shows "c \<in> set clusters \<and> p \<in> set (get_portals c) \<and>
    allowed_access_to_cluster t c = Inr True \<and> allowed_access_to_portal t p = Inr True"
proof -
  let ?f = "\<lambda>c. bindE (allowed_access_to_cluster t c) (\<lambda>b.
              if b then bindE (filterE (allowed_access_to_portal t) (get_portals c))
                          (\<lambda>ps. Inr (map (Pair c) ps))
              else Inr [])"
  from assms obtain pss where "mapE ?f clusters = Inr pss" and "cps = concat pss"
    by (auto simp: portals_which_are_accessible_def bindE_Inr_iff)
  with assms(2) obtain ps d where ps: "(c, p) \<in> set ps" "d \<in> set clusters" "?f d = Inr ps"
    by (auto dest: mapE_set)
  then obtain qs where "allowed_access_to_cluster t d = Inr True"
    and "filterE (allowed_access_to_portal t) (get_portals d) = Inr qs" and "ps = map (Pair d) qs"
    by (auto simp: bindE_Inr_iff split: if_splits)
  with ps show ?thesis by (auto dest: filterE_set)
qed

section \<open>Properties\<close>

text \<open>
  For well-typed configuration data, computing the portals a tenant can use raises
  nothing and lists exactly the portals selected by its portal selector in the clusters
  selected by its cluster selector.
\<close>

theorem tenant_access_correct:
  assumes "mk_tenant n (spec_data cs) (spec_data ps) = Inr t"
    and "\<forall>c\<in>set clusters. labelled c"
  shows "\<exists>cps. portals_which_are_accessible t clusters = Inr cps \<and>
    (\<forall>c p. (c, p) \<in> set cps \<longleftrightarrow>
       c \<in> set clusters \<and> cluster_selected cs c \<and> p \<in> set (get_portals c) \<and> portal_selected ps p)"
  unfolding accessible_portals_eq [OF assms] by (auto split: if_splits)

definition lab_spec :: selector_spec where
  "lab_spec = \<lparr>sp_names = [''lab-*''], sp_labels = [(''env'', ''prod'')], sp_requirements = []\<rparr>"

definition lab_portal :: training_portal where
  "lab_portal = new_portal (PStr ''lab-1'') (PStr ''u'') (PInt 1) (label_list [(''env'', ''prod'')]) (PStr [])
     \<lparr>cr_client_id = PNone, cr_client_secret = PNone, cr_username = PNone, cr_password = PNone\<rparr>
     (PStr ''Running'') (PInt 0) 0"

definition lab_cluster :: cluster_config where
  "lab_cluster = add_portal lab_portal (new_cluster ''lab-c'' PNone (label_list [(''env'', ''prod'')]) PNone)"

theorem tenant_access_correct_witness:
  "\<exists>t cps. mk_tenant ''t'' (spec_data lab_spec) (spec_data lab_spec) = Inr t \<and>
     portals_which_are_accessible t [lab_cluster] = Inr cps \<and> (lab_cluster, lab_portal) \<in> set cps"
proof -
  have "case mk_tenant ''t'' (spec_data lab_spec) (spec_data lab_spec) of Inl _ \<Rightarrow> False | Inr t \<Rightarrow> True"
    by code_simp
  then obtain t where t: "mk_tenant ''t'' (spec_data lab_spec) (spec_data lab_spec) = Inr t"
    by (auto split: sum.splits)
  have parts: "cl_labels lab_cluster = label_list [(''env'', ''prod'')]" "cl_name lab_cluster = ''lab-c''"
    "get_portals lab_cluster = [lab_portal]" "pt_name lab_portal = PStr ''lab-1''"
    "pt_labels lab_portal = label_list [(''env'', ''prod'')]"
    by (simp_all add: lab_cluster_def new_cluster_def add_portal_def get_portals_def lab_portal_def new_portal_def)
  then have lab: "\<forall>c\<in>set [lab_cluster]. labelled c" by (auto simp: labelled_def)
  have sel: "spec_selects lab_spec ''lab-c'' [(''env'', ''prod'')]" "spec_selects lab_spec ''lab-1'' [(''env'', ''prod'')]"
  proof -
    have "fnmatch_str ''lab-c'' ''lab-*''" "fnmatch_str ''lab-1'' ''lab-*''" by code_simp+
    then show "spec_selects lab_spec ''lab-c'' [(''env'', ''prod'')]" "spec_selects lab_spec ''lab-1'' [(''env'', ''prod'')]"
      by (simp_all add: spec_selects_def selects_def lab_spec_def)
  qed
  have "cluster_selected lab_spec lab_cluster"
    unfolding cluster_selected_def parts(1,2) using sel(1) by blast
  moreover have "portal_selected lab_spec lab_portal"
    unfolding portal_selected_def parts(4,5) using sel(2) by blast
  ultimately show ?thesis using tenant_access_correct [OF t lab] t parts(3) by auto
qed

end
