(* ===== verification/Cluster_Events.thy ===== *)
theory Cluster_Events
  imports Lookup_Tenants
begin

text \<open>
  The handlers of the operator that watches one cluster
  (\<open>ClusterOperator\<close> in \<open>lookup-service/service/handlers/clusters.py\<close>): events for
  training portals, workshop environments and workshop sessions keep the tree of the
  cluster in step with its resources. Each handler runs under the lock of the cluster
  configuration, so it is one function on the cluster. An event for an object below an
  unknown portal or environment creates placeholders of phase \<open>Unknown\<close>, which are
  discarded again with the last object below them.
\<close>

section \<open>Reading an event\<close>

definition event_body :: "pyval \<Rightarrow> pyval result" where
  "event_body event = xgetattr event ''object'' (PDict [])"

definition event_part :: "string \<Rightarrow> pyval \<Rightarrow> pyval result" where
  "event_part part event = bindE (event_body event) (\<lambda>body. xgetattr body part (PDict []))"

definition is_deleted :: "pyval \<Rightarrow> bool result" where
  "is_deleted event = bindE (xgetattr event ''type'' PNone) (\<lambda>t. Inr (py_eq t (PStr ''DELETED'')))"

definition metadata_label :: "pyval \<Rightarrow> string \<Rightarrow> pyval result" where
  "metadata_label metadata key =
     bindE (xgetattr metadata ''labels'' (PDict [])) (\<lambda>labels. py_get labels key)"

text \<open>What the handlers read from the resource when it exists.\<close>

record portal_report =
  pr_generation :: pyval
  pr_labels :: pyval
  pr_url :: pyval
  pr_phase :: pyval
  pr_credentials :: portal_credentials
  pr_capacity :: pyval

definition read_portal_report :: "pyval \<Rightarrow> pyval \<Rightarrow> pyval \<Rightarrow> portal_report result" where
  "read_portal_report metadata spec status =
     bindE (xgetattr status ''educates.clients.robot.id'' PNone) (\<lambda>cid.
     bindE (xgetattr status ''educates.clients.robot.secret'' PNone) (\<lambda>secret.
     bindE (xgetattr status ''educates.credentials.robot.username'' PNone) (\<lambda>user.
     bindE (xgetattr status ''educates.credentials.robot.password'' PNone) (\<lambda>pass.
     bindE (xgetattr metadata ''generation'' PNone) (\<lambda>generation.
     bindE (xgetattr spec ''portal.labels'' (PList [])) (\<lambda>labels.
     bindE (xgetattr status ''educates.url'' PNone) (\<lambda>url.
     bindE (xgetattr status ''educates.phase'' PNone) (\<lambda>phase.
     bindE (xgetattr spec ''portal.sessions.maximum'' (PInt 0)) (\<lambda>capacity.
       Inr \<lparr>pr_generation = generation, pr_labels = labels, pr_url = url, pr_phase = phase,
            pr_credentials =
              \<lparr>cr_client_id = cid, cr_client_secret = secret, cr_username = user, cr_password = pass\<rparr>,
            pr_capacity = capacity\<rparr>)))))))))"

record environment_report =
  er_title :: pyval
  er_description :: pyval
  er_labels :: pyval
  er_capacity :: pyval
  er_reserved :: pyval
  er_phase :: pyval

definition read_environment_report :: "pyval \<Rightarrow> pyval \<Rightarrow> environment_report result" where
  "read_environment_report workshop_spec status =
     bindE (xgetattr workshop_spec ''title'' PNone) (\<lambda>title.
     bindE (xgetattr workshop_spec ''description'' PNone) (\<lambda>description.
     bindE (xgetattr workshop_spec ''labels'' (PList [])) (\<lambda>labels.
     bindE (xgetattr status ''educates.capacity'' (PInt 0)) (\<lambda>capacity.
     bindE (xgetattr status ''educates.reserved'' (PInt 0)) (\<lambda>reserved.
     bindE (xgetattr status ''educates.phase'' PNone) (\<lambda>phase.
       Inr \<lparr>er_title = title, er_description = description, er_labels = labels,
            er_capacity = capacity, er_reserved = reserved, er_phase = phase\<rparr>))))))"

record session_report =
  sr_generation :: pyval
  sr_phase :: pyval
  sr_user :: pyval

definition read_session_report :: "pyval \<Rightarrow> pyval \<Rightarrow> session_report result" where
  "read_session_report metadata status =
     bindE (xgetattr metadata ''generation'' PNone) (\<lambda>generation.
     bindE (xgetattr status ''educates.phase'' PNone) (\<lambda>phase.
     bindE (xgetattr status ''educates.user'' PNone) (\<lambda>user.
       Inr \<lparr>sr_generation = generation, sr_phase = phase, sr_user = user\<rparr>)))"

section \<open>In-place updates of shared objects\<close>

text \<open>
  A handler that changes a portal it got from the cluster, or an environment it got from
  the portal, changes the object the dictionary refers to; in the tree the changed
  object takes the place of the old one under the same key.
\<close>

definition put_portal :: "pyval \<Rightarrow> training_portal \<Rightarrow> cluster_config \<Rightarrow> cluster_config" where
  "put_portal n p c = c\<lparr>cl_portals := dict_set n p (cl_portals c)\<rparr>"

definition put_environment :: "pyval \<Rightarrow> workshop_environment \<Rightarrow> training_portal \<Rightarrow> training_portal" where
  "put_environment n e p = p\<lparr>pt_environments := dict_set n e (pt_environments p)\<rparr>"

definition put_session :: "pyval \<Rightarrow> workshop_session \<Rightarrow> workshop_environment \<Rightarrow> workshop_environment" where
  "put_session n s e = e\<lparr>en_sessions := dict_set n s (en_sessions e)\<rparr>"

section \<open>Training portal events\<close>

text \<open>
  The discarded portal object is also marked \<open>Stopped\<close>; it is no longer in the tree then,
  so the mark cannot be seen there.
\<close>

definition discard_portal :: "pyval \<Rightarrow> cluster_config \<Rightarrow> cluster_config" where
  "discard_portal portal_name c =
     (case get_portal c portal_name of
        None \<Rightarrow> c
      | Some p \<Rightarrow> remove_portal portal_name c)"

definition register_portal :: "pyval \<Rightarrow> pyval \<Rightarrow> portal_report \<Rightarrow> cluster_config \<Rightarrow> cluster_config" where
  "register_portal portal_name portal_uid r c =
     (let p = (case get_portal c portal_name of
           None \<Rightarrow>
             new_portal portal_name portal_uid (pr_generation r) (pr_labels r) (pr_url r)
               (pr_credentials r) (pr_phase r) (pr_capacity r) 0
         | Some p \<Rightarrow>
             p\<lparr>pt_uid := portal_uid, pt_generation := pr_generation r, pt_labels := pr_labels r,
               pt_url := pr_url r, pt_phase := pr_phase r, pt_credentials := pr_credentials r,
               pt_capacity := pr_capacity r\<rparr>)
      in put_portal portal_name (portal_recalculate_capacity p) c)"

definition trainingportals_event :: "pyval \<Rightarrow> cluster_config \<Rightarrow> cluster_config result" where
  "trainingportals_event event c =
     bindE (event_part ''metadata'' event) (\<lambda>metadata.
     bindE (event_part ''spec'' event) (\<lambda>spec.
     bindE (event_part ''status'' event) (\<lambda>status.
     bindE (xgetattr metadata ''name'' PNone) (\<lambda>portal_name.
     bindE (xgetattr metadata ''uid'' PNone) (\<lambda>portal_uid.
     bindE (is_deleted event) (\<lambda>deleted.
       if deleted then Inr (discard_portal portal_name c)
       else
         bindE (read_portal_report metadata spec status) (\<lambda>r.
           Inr (register_portal portal_name portal_uid r c))))))))"

section \<open>Workshop environment events\<close>

definition unknown_portal :: "pyval \<Rightarrow> pyval \<Rightarrow> training_portal" where
  "unknown_portal portal_name portal_uid =
     new_portal portal_name portal_uid (PInt 0) (PList []) (PStr [])
       \<lparr>cr_client_id = PStr [], cr_client_secret = PStr [], cr_username = PStr [], cr_password = PStr []\<rparr>
       (PStr ''Unknown'') (PInt 0) 0"

definition portal_or_unknown :: "cluster_config \<Rightarrow> pyval \<Rightarrow> pyval \<Rightarrow> training_portal" where
  "portal_or_unknown c portal_name portal_uid =
     (case get_portal c portal_name of None \<Rightarrow> unknown_portal portal_name portal_uid | Some p \<Rightarrow> p)"

text \<open>
  Discarding an environment, and its portal when that is an empty placeholder then.
\<close>

definition drop_unused_portal :: "pyval \<Rightarrow> training_portal \<Rightarrow> cluster_config \<Rightarrow> cluster_config" where
  "drop_unused_portal portal_name p c =
     (if pt_phase p = PStr ''Unknown'' \<and> get_environments p = [] then remove_portal portal_name c
      else c)"

definition discard_environment :: "pyval \<Rightarrow> pyval \<Rightarrow> cluster_config \<Rightarrow> cluster_config" where
  "discard_environment portal_name environment_name c =
     (case get_portal c portal_name of
        None \<Rightarrow> c
      | Some p \<Rightarrow>
          (let p' = portal_recalculate_capacity (remove_environment environment_name p)
           in drop_unused_portal portal_name p' (put_portal portal_name p' c)))"

definition register_environment ::
    "pyval \<Rightarrow> pyval \<Rightarrow> pyval \<Rightarrow> pyval \<Rightarrow> pyval \<Rightarrow> pyval \<Rightarrow> environment_report \<Rightarrow> cluster_config \<Rightarrow> cluster_config" where
  "register_environment portal_name portal_uid environment_name environment_uid workshop_name
     workshop_generation r c =
     (let p = portal_or_unknown c portal_name portal_uid;
          e = (case get_environment p environment_name of
             None \<Rightarrow>
               new_environment environment_name environment_uid workshop_generation workshop_name
                 (er_title r) (er_description r) (er_labels r) (er_capacity r) (er_reserved r)
                 0 0 (er_phase r)
           | Some e \<Rightarrow>
               e\<lparr>en_generation := workshop_generation, en_title := er_title r,
                 en_description := er_description r, en_labels := er_labels r,
                 en_phase := er_phase r, en_capacity := er_capacity r, en_reserved := er_reserved r\<rparr>)
      in put_portal portal_name
           (portal_recalculate_capacity (put_environment environment_name e p)) c)"

definition workshopenvironments_event :: "pyval \<Rightarrow> cluster_config \<Rightarrow> cluster_config result" where
  "workshopenvironments_event event c =
     bindE (event_part ''metadata'' event) (\<lambda>metadata.
     bindE (event_part ''spec'' event) (\<lambda>spec.
     bindE (event_part ''status'' event) (\<lambda>status.
     bindE (metadata_label metadata ''training.educates.dev/portal.name'') (\<lambda>portal_name.
     bindE (metadata_label metadata ''training.educates.dev/portal.uid'') (\<lambda>portal_uid.
     bindE (xgetattr metadata ''name'' PNone) (\<lambda>environment_name.
     bindE (xgetattr metadata ''uid'' PNone) (\<lambda>environment_uid.
     bindE (bindE (xgetattr metadata ''labels'' (PDict [])) (\<lambda>labels.
              py_get_or labels ''training.educates.dev/portal.workshop'' (PStr []))) (\<lambda>label.
     bindE (if truthy label then Inr label else xgetattr spec ''workshop.name'' PNone) (\<lambda>workshop_name.
     bindE (xgetattr status ''educates.workshop.generation'' (PInt 0)) (\<lambda>workshop_generation.
     bindE (xgetattr status ''educates.workshop.spec'' (PDict [])) (\<lambda>workshop_spec.
     bindE (is_deleted event) (\<lambda>deleted.
       if deleted then Inr (discard_environment portal_name environment_name c)
       else
         bindE (read_environment_report workshop_spec status) (\<lambda>r.
           Inr (register_environment portal_name portal_uid environment_name environment_uid
             workshop_name workshop_generation r c))))))))))))))"

section \<open>Workshop session events\<close>

definition unknown_environment :: "pyval \<Rightarrow> pyval \<Rightarrow> pyval \<Rightarrow> workshop_environment" where
  "unknown_environment environment_name environment_uid workshop_name =
     new_environment environment_name environment_uid (PInt 0) workshop_name (PStr []) (PStr [])
       (PList []) (PInt 0) (PInt 0) 0 0 (PStr ''Unknown'')"

definition discard_session :: "pyval \<Rightarrow> pyval \<Rightarrow> pyval \<Rightarrow> cluster_config \<Rightarrow> cluster_config" where
  "discard_session portal_name environment_name session_name c =
     (case get_portal c portal_name of
        None \<Rightarrow> c
      | Some p \<Rightarrow>
          (case get_environment p environment_name of
             None \<Rightarrow> c
           | Some e \<Rightarrow>
               (let e' = remove_session session_name e;
                    p' = portal_recalculate_capacity (put_environment environment_name e' p)
                in if en_phase e' = PStr ''Unknown'' \<and> get_sessions e' = []
                   then let p'' = remove_environment environment_name p'
                        in drop_unused_portal portal_name p'' (put_portal portal_name p'' c)
                   else put_portal portal_name p' c)))"

definition register_session ::
    "pyval \<Rightarrow> pyval \<Rightarrow> pyval \<Rightarrow> pyval \<Rightarrow> pyval \<Rightarrow> pyval \<Rightarrow> session_report \<Rightarrow> cluster_config \<Rightarrow> cluster_config" where
  "register_session portal_name portal_uid environment_name environment_uid workshop_name
     session_name r c =
     (let p = portal_or_unknown c portal_name portal_uid;
          e = (case get_environment p environment_name of
                 None \<Rightarrow> unknown_environment environment_name environment_uid workshop_name
               | Some e \<Rightarrow> e);
          s = (case get_session e session_name of
                 None \<Rightarrow> \<lparr>ss_name = session_name, ss_generation = sr_generation r,
                          ss_phase = sr_phase r, ss_user = sr_user r\<rparr>
               | Some s \<Rightarrow> s\<lparr>ss_generation := sr_generation r, ss_phase := sr_phase r,
                            ss_user := sr_user r\<rparr>)
      in put_portal portal_name
           (portal_recalculate_capacity
              (put_environment environment_name (put_session session_name s e) p)) c)"

definition workshopsessions_event :: "pyval \<Rightarrow> cluster_config \<Rightarrow> cluster_config result" where
  "workshopsessions_event event c =
     bindE (event_part ''metadata'' event) (\<lambda>metadata.
     bindE (event_part ''spec'' event) (\<lambda>spec.
     bindE (event_part ''status'' event) (\<lambda>status.
     bindE (metadata_label metadata ''training.educates.dev/portal.name'') (\<lambda>portal_name.
     bindE (metadata_label metadata ''training.educates.dev/portal.uid'') (\<lambda>portal_uid.
     bindE (metadata_label metadata ''training.educates.dev/environment.name'') (\<lambda>environment_name.
     bindE (metadata_label metadata ''training.educates.dev/environment.uid'') (\<lambda>environment_uid.
     bindE (xgetattr spec ''workshop.name'' PNone) (\<lambda>workshop_name.
     bindE (xgetattr metadata ''name'' PNone) (\<lambda>session_name.
     bindE (is_deleted event) (\<lambda>deleted.
       if deleted then Inr (discard_session portal_name environment_name session_name c)
       else
         bindE (read_session_report metadata status) (\<lambda>r.
           Inr (register_session portal_name portal_uid environment_name environment_uid
             workshop_name session_name r c))))))))))))"

text \<open>The events of one cluster, as the operator's handlers receive them.\<close>

datatype cluster_event = PortalEvent pyval | EnvironmentEvent pyval | SessionEvent pyval

fun handle_event :: "cluster_event \<Rightarrow> cluster_config \<Rightarrow> cluster_config result" where
  "handle_event (PortalEvent ev) c = trainingportals_event ev c"
| "handle_event (EnvironmentEvent ev) c = workshopenvironments_event ev c"
| "handle_event (SessionEvent ev) c = workshopsessions_event ev c"

end
