(* ===== verification/Cluster_Invariants.thy ===== *)
theory Cluster_Invariants
  imports Cluster_Events
begin

text \<open>
  What the event handlers of \<open>Cluster_Events\<close> keep true of a cluster, and the abstract
  state they implement: a map from (portal, environment, session) to what the session's
  resource last reported.
\<close>

section \<open>Events as changes of the tree\<close>

text \<open>
  What an event asks for does not depend on the cluster: each event, once read, is one of
  six changes.
\<close>

datatype cluster_change =
    DiscardPortal pyval
  | RegisterPortal pyval pyval portal_report
  | DiscardEnvironment pyval pyval
  | RegisterEnvironment pyval pyval pyval pyval pyval pyval environment_report
  | DiscardSession pyval pyval pyval
  | RegisterSession pyval pyval pyval pyval pyval pyval session_report

fun apply_change :: "cluster_change \<Rightarrow> cluster_config \<Rightarrow> cluster_config" where
  "apply_change (DiscardPortal pn) c = discard_portal pn c"
| "apply_change (RegisterPortal pn pu r) c = register_portal pn pu r c"
| "apply_change (DiscardEnvironment pn en) c = discard_environment pn en c"
| "apply_change (RegisterEnvironment pn pu en eu wn wg r) c = register_environment pn pu en eu wn wg r c"
| "apply_change (DiscardSession pn en sn) c = discard_session pn en sn c"
| "apply_change (RegisterSession pn pu en eu wn sn r) c = register_session pn pu en eu wn sn r c"

fun event_change :: "cluster_event \<Rightarrow> cluster_change result" where
  "event_change (PortalEvent ev) =
     bindE (event_part ''metadata'' ev) (\<lambda>metadata.
     bindE (event_part ''spec'' ev) (\<lambda>spec.
     bindE (event_part ''status'' ev) (\<lambda>status.
     bindE (xgetattr metadata ''name'' PNone) (\<lambda>pn.
     bindE (xgetattr metadata ''uid'' PNone) (\<lambda>pu.
     bindE (is_deleted ev) (\<lambda>deleted.
       if deleted then Inr (DiscardPortal pn)
       else bindE (read_portal_report metadata spec status) (\<lambda>r. Inr (RegisterPortal pn pu r))))))))"
| "event_change (EnvironmentEvent ev) =
     bindE (event_part ''metadata'' ev) (\<lambda>metadata.
     bindE (event_part ''spec'' ev) (\<lambda>spec.
     bindE (event_part ''status'' ev) (\<lambda>status.
     bindE (metadata_label metadata ''training.educates.dev/portal.name'') (\<lambda>pn.
     bindE (metadata_label metadata ''training.educates.dev/portal.uid'') (\<lambda>pu.
     bindE (xgetattr metadata ''name'' PNone) (\<lambda>en.
     bindE (xgetattr metadata ''uid'' PNone) (\<lambda>eu.
     bindE (bindE (xgetattr metadata ''labels'' (PDict [])) (\<lambda>labels.
              py_get_or labels ''training.educates.dev/portal.workshop'' (PStr []))) (\<lambda>label.
     bindE (if truthy label then Inr label else xgetattr spec ''workshop.name'' PNone) (\<lambda>wn.
     bindE (xgetattr status ''educates.workshop.generation'' (PInt 0)) (\<lambda>wg.
     bindE (xgetattr status ''educates.workshop.spec'' (PDict [])) (\<lambda>ws.
     bindE (is_deleted ev) (\<lambda>deleted.
       if deleted then Inr (DiscardEnvironment pn en)
       else bindE (read_environment_report ws status)
              (\<lambda>r. Inr (RegisterEnvironment pn pu en eu wn wg r))))))))))))))"
| "event_change (SessionEvent ev) =
     bindE (event_part ''metadata'' ev) (\<lambda>metadata.
     bindE (event_part ''spec'' ev) (\<lambda>spec.
     bindE (event_part ''status'' ev) (\<lambda>status.
     bindE (metadata_label metadata ''training.educates.dev/portal.name'') (\<lambda>pn.
     bindE (metadata_label metadata ''training.educates.dev/portal.uid'') (\<lambda>pu.
     bindE (metadata_label metadata ''training.educates.dev/environment.name'') (\<lambda>en.
     bindE (metadata_label metadata ''training.educates.dev/environment.uid'') (\<lambda>eu.
     bindE (xgetattr spec ''workshop.name'' PNone) (\<lambda>wn.
     bindE (xgetattr metadata ''name'' PNone) (\<lambda>sn.
     bindE (is_deleted ev) (\<lambda>deleted.
       if deleted then Inr (DiscardSession pn en sn)
       else bindE (read_session_report metadata status)
              (\<lambda>r. Inr (RegisterSession pn pu en eu wn sn r))))))))))))"

lemma bindE_if: "bindE (if b then m else n) f = (if b then bindE m f else bindE n f)"
  by simp

lemma handle_event_change: "handle_event ev c = bindE (event_change ev) (\<lambda>ch. Inr (apply_change ch c))"
  by (cases ev)
    (simp_all add: trainingportals_event_def workshopenvironments_event_def workshopsessions_event_def
      bindE_assoc bindE_if cong: if_cong)

definition run_events :: "cluster_event list \<Rightarrow> cluster_config \<Rightarrow> cluster_config result" where
  "run_events evs c = foldE handle_event evs c"

text \<open>A property of the cluster that every change keeps holds after every run of events.\<close>

lemma run_events_invariant:
  assumes "\<And>ev ch c. ev \<in> set evs \<Longrightarrow> event_change ev = Inr ch \<Longrightarrow> I c \<Longrightarrow> I (apply_change ch c)"
    and "I c" and "run_events evs c = Inr c'"
  shows "I c'"
proof (rule foldE_invariant [of evs I handle_event c c'])
  show "I t" if "ev \<in> set evs" "I s" "handle_event ev s = Inr t" for ev s t
    using that assms(1) by (auto simp: handle_event_change bindE_Inr_iff)
qed (use assms in \<open>simp_all add: run_events_def\<close>)

section \<open>Lookups after an update\<close>

lemma get_portal_put [simp]: "get_portal (put_portal n p c) m = (if m = n then Some p else get_portal c m)"
  by (simp add: put_portal_def get_portal_def)

lemma get_portal_remove [simp]: "get_portal (remove_portal n c) m = (if m = n then None else get_portal c m)"
  by (simp add: remove_portal_def get_portal_def)

lemma get_environment_put [simp]:
  "get_environment (put_environment n e p) m = (if m = n then Some e else get_environment p m)"
  by (simp add: put_environment_def get_environment_def)

lemma get_environment_remove [simp]:
  "get_environment (remove_environment n p) m = (if m = n then None else get_environment p m)"
  by (simp add: remove_environment_def get_environment_def)

lemma get_session_put [simp]: "get_session (put_session n s e) m = (if m = n then Some s else get_session e m)"
  by (simp add: put_session_def get_session_def)

lemma get_session_remove [simp]: "get_session (remove_session n e) m = (if m = n then None else get_session e m)"
  by (simp add: remove_session_def get_session_def)

lemma get_environments_empty: "get_environments p = [] \<longleftrightarrow> (\<forall>n. get_environment p n = None)"
proof -
  have "(\<forall>n. dict_get d n = None) \<longleftrightarrow> d = []" for d :: "(pyval, workshop_environment) dict"
    by (cases d) auto
  then show ?thesis by (simp add: get_environments_def get_environment_def)
qed

lemma get_sessions_empty: "get_sessions e = [] \<longleftrightarrow> (\<forall>n. get_session e n = None)"
proof -
  have "(\<forall>n. dict_get d n = None) \<longleftrightarrow> d = []" for d :: "(pyval, workshop_session) dict"
    by (cases d) auto
  then show ?thesis by (simp add: get_sessions_def get_session_def)
qed

lemma put_fields [simp]:
  "pt_name (put_environment n e p) = pt_name p"
  "pt_phase (put_environment n e p) = pt_phase p"
  "pt_name (remove_environment n p) = pt_name p"
  "pt_phase (remove_environment n p) = pt_phase p"
  "en_name (put_session n s e) = en_name e"
  "en_phase (put_session n s e) = en_phase e"
  "en_name (remove_session n e) = en_name e"
  "en_phase (remove_session n e) = en_phase e"
  by (simp_all add: put_environment_def remove_environment_def put_session_def remove_session_def)

lemma unknown_fields [simp]:
  "pt_name (unknown_portal n u) = n"
  "get_environment (unknown_portal n u) m = None"
  "en_name (unknown_environment a b w) = a"
  "get_session (unknown_environment a b w) k = None"
  by (simp_all add: unknown_portal_def new_portal_def get_environment_def unknown_environment_def
      new_environment_def get_session_def)

lemma new_object_fields [simp]:
  "get_session (new_environment nm u g w t d l cp rs al av ph) k = None"
  "en_name (new_environment nm u g w t d l cp rs al av ph) = nm"
  "en_phase (new_environment nm u g w t d l cp rs al av ph) = ph"
  "get_environment (new_portal nm u g l url cr ph cp al) n = None"
  "pt_name (new_portal nm u g l url cr ph cp al) = nm"
  "pt_phase (new_portal nm u g l url cr ph cp al) = ph"
  by (simp_all add: new_environment_def get_session_def new_portal_def get_environment_def)

text \<open>Fields of a portal or environment other than the children do not affect lookups below it.\<close>

lemma get_environment_report [simp]:
  "get_environment (p\<lparr>pt_uid := a, pt_generation := b, pt_labels := d, pt_url := u, pt_phase := f,
     pt_credentials := g, pt_capacity := h\<rparr>) n = get_environment p n"
  by (simp add: get_environment_def)

lemma get_session_report [simp]:
  "get_session (e\<lparr>en_generation := a, en_title := b, en_description := d, en_labels := l,
     en_phase := f, en_capacity := g, en_reserved := h\<rparr>) n = get_session e n"
  by (simp add: get_session_def)

section \<open>Properties of every portal\<close>

definition all_portals :: "(training_portal \<Rightarrow> bool) \<Rightarrow> cluster_config \<Rightarrow> bool" where
  "all_portals P c \<longleftrightarrow> (\<forall>n p. get_portal c n = Some p \<longrightarrow> P p)"

lemma all_portals_put: "all_portals P c \<Longrightarrow> P p \<Longrightarrow> all_portals P (put_portal n p c)"
  by (auto simp: all_portals_def)

lemma all_portals_remove: "all_portals P c \<Longrightarrow> all_portals P (remove_portal n c)"
  by (auto simp: all_portals_def)

lemma all_portals_drop_unused:
  assumes "all_portals P c" and "\<not> (pt_phase p = PStr ''Unknown'' \<and> get_environments p = []) \<Longrightarrow> P p"
  shows "all_portals P (drop_unused_portal n p (put_portal n p c))"
  using assms by (auto simp: drop_unused_portal_def all_portals_def split: if_splits)

lemma all_portals_get: "all_portals P c \<Longrightarrow> get_portal c n = Some p \<Longrightarrow> P p"
  by (auto simp: all_portals_def)

text \<open>
  Every change stores recalculated portals, or removes portals, or removes an
  environment without sessions from a recalculated portal.
\<close>

lemma portal_counted_remove_empty:
  assumes "portal_ok p" and "portal_counted p" and "get_environment p n = Some e" and "get_sessions e = []"
  shows "portal_counted (remove_environment n p)"
proof -
  let ?d = "pt_environments p"
  from assms(1) have d: "distinct (dict_keys ?d)" by (auto simp: portal_ok_def dest: keyed_by_distinct)
  from assms(3) have e: "dict_get ?d n = Some e" by (simp add: get_environment_def)
  then have "(n, e) \<in> set ?d" by (rule map_of_SomeD)
  then have "e \<in> set (get_environments p)" by (force simp: get_environments_def)
  with assms(2,4) have zero: "en_allocated e = 0"
    by (auto simp: portal_counted_def environment_counted_def)
  have "sum_list (map en_allocated (dict_values (dict_pop n d))) =
      sum_list (map en_allocated (dict_values d)) - en_allocated e"
    if "distinct (dict_keys d)" and "dict_get d n = Some e" for d
    using that by (induction d) (auto simp: dict_pop_absent map_of_eq_None_iff split: if_splits)
  from this [OF d e] zero assms(2) show ?thesis
    by (auto simp: portal_counted_def get_environments_def remove_environment_def set_dict_pop)
qed

definition good_portal :: "training_portal \<Rightarrow> bool" where
  "good_portal p \<longleftrightarrow> portal_ok p \<and> portal_counted p"

lemma portal_ok_put_environment:
  "portal_ok p \<Longrightarrow> environment_ok e \<Longrightarrow> en_name e = n \<Longrightarrow> portal_ok (put_environment n e p)"
  using portal_ok_add_environment [of p e] by (simp add: put_environment_def add_environment_def)

lemma environment_ok_put_session:
  "environment_ok e \<Longrightarrow> ss_name s = n \<Longrightarrow> environment_ok (put_session n s e)"
  by (auto simp: environment_ok_def put_session_def)

lemma environment_ok_remove_session: "environment_ok e \<Longrightarrow> environment_ok (remove_session n e)"
  by (auto simp: environment_ok_def remove_session_def)

lemma ok_new [simp]:
  "portal_ok (new_portal nm u g l url cr ph cp al)"
  "portal_ok (unknown_portal n pu)"
  "environment_ok (new_environment en eu eg w t d el ecp rs eal av eph)"
  "environment_ok (unknown_environment en eu w)"
  by (simp_all add: portal_ok_def new_portal_def unknown_portal_def get_environments_def
      environment_ok_def new_environment_def unknown_environment_def)

lemma good_recalculated: "portal_ok p \<Longrightarrow> good_portal (portal_recalculate_capacity p)"
  by (simp add: good_portal_def portal_recalculate_counted)

lemma portal_ok_portal_or_unknown: "all_portals portal_ok c \<Longrightarrow> portal_ok (portal_or_unknown c n u)"
  by (auto simp: portal_or_unknown_def all_portals_def split: option.splits)

text \<open>Keys, names and counters, as one invariant of the whole cluster.\<close>

definition cluster_inv :: "cluster_config \<Rightarrow> bool" where
  "cluster_inv c \<longleftrightarrow>
     distinct (dict_keys (cl_portals c)) \<and>
     (\<forall>n p. get_portal c n = Some p \<longrightarrow> pt_name p = n \<and> good_portal p)"

lemma cluster_inv_put:
  "cluster_inv c \<Longrightarrow> pt_name p = n \<Longrightarrow> good_portal p \<Longrightarrow> cluster_inv (put_portal n p c)"
  by (auto simp: cluster_inv_def distinct_update) (simp add: put_portal_def distinct_update)

lemma cluster_inv_remove: "cluster_inv c \<Longrightarrow> cluster_inv (remove_portal n c)"
  by (auto simp: cluster_inv_def) (simp add: remove_portal_def distinct_delete)

lemma cluster_inv_drop_unused: "cluster_inv c \<Longrightarrow> cluster_inv (drop_unused_portal n p c)"
  by (simp add: drop_unused_portal_def cluster_inv_remove)

lemma cluster_inv_portal:
  "cluster_inv c \<Longrightarrow> get_portal c n = Some p \<Longrightarrow> pt_name p = n \<and> portal_ok p \<and> portal_counted p"
  by (auto simp: cluster_inv_def good_portal_def)

lemma cluster_inv_portal_or_unknown:
  "cluster_inv c \<Longrightarrow> pt_name (portal_or_unknown c n u) = n \<and> portal_ok (portal_or_unknown c n u)"
  by (auto simp: portal_or_unknown_def dest: cluster_inv_portal split: option.splits)

lemma cluster_inv_cluster_ok: "cluster_inv c \<Longrightarrow> cluster_ok c"
proof -
  assume inv: "cluster_inv c"
  then have "distinct (dict_keys (cl_portals c))" by (simp add: cluster_inv_def)
  then have "\<exists>n. get_portal c n = Some p" if "p \<in> set (get_portals c)" for p
    using that by (force simp: get_portals_def get_portal_def)
  with inv show "cluster_ok c"
    by (force simp: cluster_ok_def keyed_by_def cluster_inv_def good_portal_def get_portal_def)
qed

section \<open>Each change keeps the invariant\<close>

lemma inv_discard_portal: "cluster_inv c \<Longrightarrow> cluster_inv (discard_portal n c)"
  by (simp add: discard_portal_def cluster_inv_remove split: option.splits)

lemma portal_ok_report [simp]:
  "portal_ok (p\<lparr>pt_uid := a, pt_generation := b, pt_labels := d, pt_url := u, pt_phase := f,
     pt_credentials := g, pt_capacity := h\<rparr>) = portal_ok p"
  by (simp add: portal_ok_def get_environments_def)

lemma environment_ok_report [simp]:
  "environment_ok (e\<lparr>en_generation := a, en_title := b, en_description := d, en_labels := l,
     en_phase := f, en_capacity := g, en_reserved := h\<rparr>) = environment_ok e"
  by (simp add: environment_ok_def)

lemma inv_register_portal: "cluster_inv c \<Longrightarrow> cluster_inv (register_portal n u r c)"
  unfolding register_portal_def Let_def
  by (rule cluster_inv_put) (auto dest: cluster_inv_portal intro!: good_recalculated split: option.splits)

lemma inv_discard_environment: "cluster_inv c \<Longrightarrow> cluster_inv (discard_environment pn en c)"
  unfolding discard_environment_def Let_def
  by (auto split: option.splits intro!: cluster_inv_drop_unused cluster_inv_put good_recalculated
      portal_ok_remove_environment dest: cluster_inv_portal)

lemma inv_register_environment:
  assumes "cluster_inv c"
  shows "cluster_inv (register_environment pn pu en eu wn wg r c)"
proof -
  let ?p = "portal_or_unknown c pn pu"
  have p: "pt_name ?p = pn" "portal_ok ?p" using cluster_inv_portal_or_unknown [OF assms] by auto
  show ?thesis
    unfolding register_environment_def Let_def
    using assms p by (intro cluster_inv_put good_recalculated portal_ok_put_environment)
      (auto dest: portal_ok_get_environment split: option.splits)
qed

lemma inv_register_session:
  assumes "cluster_inv c"
  shows "cluster_inv (register_session pn pu en eu wn sn r c)"
proof -
  let ?p = "portal_or_unknown c pn pu"
  have p: "pt_name ?p = pn" "portal_ok ?p" using cluster_inv_portal_or_unknown [OF assms] by auto
  have names: "ss_name s = k" if "environment_ok e" "get_session e k = Some s" for e k s
    using that by (rule sessions.get_key)
  show ?thesis
    unfolding register_session_def Let_def
    using assms p
    by (intro cluster_inv_put good_recalculated portal_ok_put_environment environment_ok_put_session)
      (auto dest: portal_ok_get_environment names split: option.splits)
qed

lemma inv_discard_session:
  assumes inv: "cluster_inv c"
  shows "cluster_inv (discard_session pn en sn c)"
proof (cases "get_portal c pn")
  case None
  with inv show ?thesis by (simp add: discard_session_def)
next
  case (Some p)
  note p = this cluster_inv_portal [OF inv this]
  show ?thesis
  proof (cases "get_environment p en")
    case None
    with p inv show ?thesis by (simp add: discard_session_def)
  next
    case (Some e)
    let ?e = "remove_session sn e"
    let ?p = "portal_recalculate_capacity (put_environment en ?e p)"
    from p Some have e: "environment_ok e" "en_name e = en" by (auto dest: portal_ok_get_environment)
    then have ok: "portal_ok (put_environment en ?e p)"
      using p by (intro portal_ok_put_environment environment_ok_remove_session) auto
    then have good: "good_portal ?p" by (rule good_recalculated)
    have "good_portal (remove_environment en ?p)" if "get_sessions ?e = []"
      using good that portal_counted_remove_empty [of ?p en "environment_recalculate_capacity ?e"]
      by (simp add: good_portal_def portal_ok_remove_environment)
    with p Some inv good show ?thesis
      by (auto simp: discard_session_def Let_def intro!: cluster_inv_drop_unused cluster_inv_put)
  qed
qed

lemma inv_apply_change: "cluster_inv c \<Longrightarrow> cluster_inv (apply_change ch c)"
  by (cases ch) (simp_all add: inv_discard_portal inv_register_portal inv_discard_environment
      inv_register_environment inv_discard_session inv_register_session)

lemma cluster_inv_new: "cluster_inv (new_cluster n u l k)"
  by (simp add: cluster_inv_def new_cluster_def get_portal_def)

lemma cluster_inv_run: "cluster_inv c \<Longrightarrow> run_events evs c = Inr c' \<Longrightarrow> cluster_inv c'"
  by (rule run_events_invariant [of evs cluster_inv c c']) (auto intro: inv_apply_change)

section \<open>Placeholders\<close>

text \<open>
  A portal of phase \<open>Unknown\<close> has environments, and an environment of phase \<open>Unknown\<close>
  has sessions: placeholders do not outlive what they hold the place for.
\<close>

definition needed_environment :: "workshop_environment \<Rightarrow> bool" where
  "needed_environment e \<longleftrightarrow> (en_phase e = PStr ''Unknown'' \<longrightarrow> get_sessions e \<noteq> [])"

definition needed_portal :: "training_portal \<Rightarrow> bool" where
  "needed_portal p \<longleftrightarrow>
     (pt_phase p = PStr ''Unknown'' \<longrightarrow> get_environments p \<noteq> []) \<and>
     (\<forall>n e. get_environment p n = Some e \<longrightarrow> needed_environment e)"

text \<open>Resources themselves never report the phase that marks a placeholder.\<close>

fun reports_known_phase :: "cluster_change \<Rightarrow> bool" where
  "reports_known_phase (RegisterPortal pn pu r) = (pr_phase r \<noteq> PStr ''Unknown'')"
| "reports_known_phase (RegisterEnvironment pn pu en eu wn wg r) = (er_phase r \<noteq> PStr ''Unknown'')"
| "reports_known_phase _ = True"

lemma needed_environment_recalculate [simp]:
  "needed_environment (environment_recalculate_capacity e) = needed_environment e"
  by (simp add: needed_environment_def)

lemma needed_portal_recalculate [simp]:
  "needed_portal (portal_recalculate_capacity p) = needed_portal p"
proof -
  have "(\<forall>e. map_option environment_recalculate_capacity x = Some e \<longrightarrow> needed_environment e) \<longleftrightarrow>
      (\<forall>e. x = Some e \<longrightarrow> needed_environment e)" for x
    by (cases x) simp_all
  then show ?thesis by (simp add: needed_portal_def get_environments_recalculate)
qed

lemma needed_put_environment:
  assumes "\<And>m e. get_environment p m = Some e \<Longrightarrow> needed_environment e" and "needed_environment e"
  shows "needed_portal (put_environment n e p)"
proof -
  have "get_environments (put_environment n e p) \<noteq> []"
    unfolding get_environments_empty by (auto intro!: exI [of _ n])
  with assms show ?thesis by (auto simp: needed_portal_def)
qed

lemma needed_remove_environment:
  assumes "needed_portal p" and "pt_phase p = PStr ''Unknown'' \<Longrightarrow> get_environments (remove_environment n p) \<noteq> []"
  shows "needed_portal (remove_environment n p)"
  using assms by (auto simp: needed_portal_def)

lemma needed_portal_or_unknown:
  "all_portals needed_portal c \<Longrightarrow> get_environment (portal_or_unknown c pn pu) m = Some e \<Longrightarrow> needed_environment e"
  by (auto simp: portal_or_unknown_def all_portals_def needed_portal_def split: option.splits)

lemma needed_put_session: "needed_environment (put_session n s e)"
proof -
  have "get_sessions (put_session n s e) \<noteq> []"
    unfolding get_sessions_empty by (auto intro!: exI [of _ n])
  then show ?thesis by (simp add: needed_environment_def)
qed

lemma needed_discard_environment:
  assumes "all_portals needed_portal c"
  shows "all_portals needed_portal (discard_environment pn en c)"
proof (cases "get_portal c pn")
  case None
  with assms show ?thesis by (simp add: discard_environment_def)
next
  case (Some p)
  then have p: "needed_portal p" using assms by (auto intro: all_portals_get)
  let ?q = "portal_recalculate_capacity (remove_environment en p)"
  have "needed_portal ?q" if "\<not> (pt_phase ?q = PStr ''Unknown'' \<and> get_environments ?q = [])"
    using p that
    by (simp add: get_environments_recalculate) (rule needed_remove_environment, auto)
  then have "all_portals needed_portal (drop_unused_portal pn ?q (put_portal pn ?q c))"
    by (rule all_portals_drop_unused [OF assms])
  with Some show ?thesis by (simp add: discard_environment_def Let_def)
qed

lemma needed_discard_session:
  assumes inv: "all_portals needed_portal c"
  shows "all_portals needed_portal (discard_session pn en sn c)"
proof (cases "get_portal c pn")
  case None
  with inv show ?thesis by (simp add: discard_session_def)
next
  case (Some p)
  note p = this all_portals_get [OF inv this]
  show ?thesis
  proof (cases "get_environment p en")
    case None
    with p inv show ?thesis by (simp add: discard_session_def)
  next
    case (Some e)
    let ?e = "remove_session sn e"
    let ?p = "portal_recalculate_capacity (put_environment en ?e p)"
    have others: "needed_environment e'" if "get_environment p m = Some e'" for m e'
      using p(2) that by (auto simp: needed_portal_def)
    show ?thesis
    proof (cases "en_phase ?e = PStr ''Unknown'' \<and> get_sessions ?e = []")
      case True
      let ?q = "remove_environment en ?p"
      have "needed_portal ?q" if "\<not> (pt_phase ?q = PStr ''Unknown'' \<and> get_environments ?q = [])"
        using that others by (auto simp: needed_portal_def split: if_splits)
      then have "all_portals needed_portal (drop_unused_portal pn ?q (put_portal pn ?q c))"
        by (rule all_portals_drop_unused [OF inv])
      with True p(1) Some show ?thesis by (simp add: discard_session_def Let_def)
    next
      case False
      then have "needed_portal ?p"
        using others by (auto intro!: needed_put_environment simp: needed_environment_def)
      with False p(1) Some inv show ?thesis
        by (auto simp: discard_session_def Let_def intro!: all_portals_put)
    qed
  qed
qed

lemma needed_register_portal:
  assumes "all_portals needed_portal c" and "pr_phase r \<noteq> PStr ''Unknown''"
  shows "all_portals needed_portal (register_portal n u r c)"
  unfolding register_portal_def Let_def using assms
  by (intro all_portals_put)
    (auto simp: needed_portal_def dest: all_portals_get split: option.splits)

lemma needed_register_environment:
  assumes "all_portals needed_portal c" and "er_phase r \<noteq> PStr ''Unknown''"
  shows "all_portals needed_portal (register_environment pn pu en eu wn wg r c)"
proof -
  have "needed_environment e" if "en_phase e = er_phase r" for e
    using assms(2) that by (simp add: needed_environment_def)
  then show ?thesis
    unfolding register_environment_def Let_def
    using assms(1) needed_portal_or_unknown [OF assms(1), of pn pu]
    by (intro all_portals_put) (auto intro!: needed_put_environment split: option.splits)
qed

lemma needed_register_session:
  assumes "all_portals needed_portal c"
  shows "all_portals needed_portal (register_session pn pu en eu wn sn r c)"
  unfolding register_session_def Let_def
  using assms needed_portal_or_unknown [OF assms, of pn pu]
  by (intro all_portals_put) (auto intro!: needed_put_environment needed_put_session)

lemma needed_apply_change:
  assumes "all_portals needed_portal c" and "reports_known_phase ch"
  shows "all_portals needed_portal (apply_change ch c)"
  using assms
  by (cases ch) (auto simp: needed_register_portal needed_register_environment needed_register_session
      needed_discard_environment needed_discard_session discard_portal_def all_portals_remove
      split: option.splits)

section \<open>The sessions of a cluster as a map\<close>

type_synonym session_key = "pyval \<times> pyval \<times> pyval"

definition session_at :: "cluster_config \<Rightarrow> session_key \<Rightarrow> workshop_session option" where
  "session_at c = (\<lambda>(pn, en, sn).
     Option.bind (get_portal c pn) (\<lambda>p. Option.bind (get_environment p en) (\<lambda>e. get_session e sn)))"

definition session_view :: "cluster_config \<Rightarrow> session_key \<Rightarrow> session_report option" where
  "session_view c k = map_option
     (\<lambda>s. \<lparr>sr_generation = ss_generation s, sr_phase = ss_phase s, sr_user = ss_user s\<rparr>) (session_at c k)"

fun view_change :: "cluster_change \<Rightarrow> (session_key \<rightharpoonup> session_report) \<Rightarrow> (session_key \<rightharpoonup> session_report)" where
  "view_change (DiscardPortal pn) m = (\<lambda>k. if fst k = pn then None else m k)"
| "view_change (RegisterPortal pn pu r) m = m"
| "view_change (DiscardEnvironment pn en) m = (\<lambda>k. if fst k = pn \<and> fst (snd k) = en then None else m k)"
| "view_change (RegisterEnvironment pn pu en eu wn wg r) m = m"
| "view_change (DiscardSession pn en sn) m = m((pn, en, sn) := None)"
| "view_change (RegisterSession pn pu en eu wn sn r) m = m((pn, en, sn) \<mapsto> r)"

lemma session_at_simp:
  "session_at c (pn, en, sn) =
     Option.bind (get_portal c pn) (\<lambda>p. Option.bind (get_environment p en) (\<lambda>e. get_session e sn))"
  by (simp add: session_at_def)

lemma portal_or_unknown_session:
  "Option.bind (get_environment (portal_or_unknown c pn pu) en) (\<lambda>e. get_session e sn) = session_at c (pn, en, sn)"
  by (simp add: portal_or_unknown_def session_at_simp split: option.splits)

lemma session_at_put_portal:
  "session_at (put_portal n p c) (pn, en, sn) =
     (if pn = n then Option.bind (get_environment p en) (\<lambda>e. get_session e sn) else session_at c (pn, en, sn))"
  by (simp add: session_at_simp)

lemma bind_recalculate [simp]:
  "Option.bind (get_environment (portal_recalculate_capacity p) en) (\<lambda>e. get_session e sn) =
   Option.bind (get_environment p en) (\<lambda>e. get_session e sn)"
  by (cases "get_environment p en") simp_all

lemma bind_map_recalculate [simp]:
  "Option.bind (map_option environment_recalculate_capacity x) (\<lambda>e. get_session e sn) =
   Option.bind x (\<lambda>e. get_session e sn)"
  by (cases x) simp_all

lemma session_at_drop_unused:
  assumes "get_portal c n = Some p"
  shows "session_at (drop_unused_portal n p c) k = session_at c k"
proof -
  obtain pn en sn where k: "k = (pn, en, sn)" by (cases k)
  have "get_environment p m = None" if "get_environments p = []" for m
    using that by (simp add: get_environments_empty)
  with assms show ?thesis by (simp add: k session_at_simp drop_unused_portal_def)
qed

lemma view_discard_portal:
  "session_at (discard_portal pn c) k = (if fst k = pn then None else session_at c k)"
  by (cases k) (auto simp: session_at_simp discard_portal_def split: option.splits)

lemma view_register_portal: "session_at (register_portal pn pu r c) k = session_at c k"
  by (cases k) (auto simp: session_at_put_portal register_portal_def Let_def session_at_simp split: option.splits)

lemma view_discard_environment:
  "session_at (discard_environment pn en c) k =
     (if fst k = pn \<and> fst (snd k) = en then None else session_at c k)"
proof -
  obtain pn' en' sn' where k: "k = (pn', en', sn')" by (cases k)
  note at = session_at_simp [of c pn' en' sn']
  show ?thesis
  proof (cases "get_portal c pn")
    case None
    then show ?thesis by (auto simp: k discard_environment_def at)
  next
    case (Some p)
    then show ?thesis
      by (simp add: k discard_environment_def Let_def session_at_drop_unused session_at_put_portal at)
  qed
qed

lemma view_register_environment:
  "session_at (register_environment pn pu en eu wn wg r c) k = session_at c k"
proof -
  obtain pn' en' sn' where k: "k = (pn', en', sn')" by (cases k)
  show ?thesis
    using portal_or_unknown_session [of c pn pu en' sn']
    by (auto simp: k register_environment_def Let_def session_at_put_portal split: option.splits)
qed

lemma view_discard_session:
  "session_at (discard_session pn en sn c) k = (if k = (pn, en, sn) then None else session_at c k)"
proof -
  obtain pn' en' sn' where k: "k = (pn', en', sn')" by (cases k)
  note at = session_at_simp [of c pn' en' sn']
  have empty: "get_session e m = None" if "get_sessions (remove_session sn e) = []" "m \<noteq> sn" for e m
    using that unfolding get_sessions_empty by (metis get_session_remove)
  show ?thesis
  proof (cases "get_portal c pn")
    case None
    then show ?thesis by (auto simp: k discard_session_def at)
  next
    case (Some p)
    note p = this
    show ?thesis
    proof (cases "get_environment p en")
      case None
      with p show ?thesis by (auto simp: k discard_session_def at)
    next
      case (Some e)
      with p empty [of e sn'] show ?thesis
        by (simp add: k discard_session_def Let_def session_at_drop_unused session_at_put_portal at)
    qed
  qed
qed

lemma view_register_session:
  "session_at (register_session pn pu en eu wn sn r c) k =
     (if k = (pn, en, sn)
      then Some (case session_at c k of
             None \<Rightarrow> \<lparr>ss_name = sn, ss_generation = sr_generation r, ss_phase = sr_phase r, ss_user = sr_user r\<rparr>
           | Some s \<Rightarrow> s\<lparr>ss_generation := sr_generation r, ss_phase := sr_phase r, ss_user := sr_user r\<rparr>)
      else session_at c k)"
proof -
  obtain pn' en' sn' where k: "k = (pn', en', sn')" by (cases k)
  show ?thesis
    using portal_or_unknown_session [of c pn pu en' sn']
    by (auto simp: k register_session_def Let_def session_at_put_portal split: option.splits)
qed

lemma session_view_change: "session_view (apply_change ch c) = view_change ch (session_view c)"
  by (cases ch)
    (auto simp: fun_eq_iff session_view_def view_discard_portal view_register_portal
      view_discard_environment view_register_environment view_discard_session view_register_session
      split: option.splits)

lemma run_events_view:
  assumes "run_events evs c = Inr c'"
  shows "\<exists>chs. mapE event_change evs = Inr chs \<and> session_view c' = fold view_change chs (session_view c)"
  using assms
proof (induction evs arbitrary: c)
  case Nil
  then show ?case by (simp add: run_events_def)
next
  case (Cons ev evs)
  then obtain ch where ch: "event_change ev = Inr ch" and "run_events evs (apply_change ch c) = Inr c'"
    by (auto simp: run_events_def handle_event_change bindE_Inr_iff)
  with Cons.IH obtain chs where "mapE event_change evs = Inr chs"
    and "session_view c' = fold view_change chs (session_view (apply_change ch c))"
    by blast
  with ch show ?case by (simp add: session_view_change)
qed

section \<open>Sample events\<close>

definition sample_object :: "string \<Rightarrow> (string \<times> pyval) list \<Rightarrow> (string \<times> pyval) list \<Rightarrow> (string \<times> pyval) list \<Rightarrow> pyval" where
  "sample_object typ metadata spec status =
     PDict [(''type'', PStr typ),
       (''object'', PDict [(''metadata'', PDict metadata), (''spec'', PDict spec),
          (''status'', PDict [(''educates'', PDict status)])])]"

definition sample_portal_event :: "string \<Rightarrow> cluster_event" where
  "sample_portal_event typ = PortalEvent (sample_object typ
     [(''name'', PStr ''p''), (''uid'', PStr ''pu''), (''generation'', PInt 1)] []
     [(''phase'', PStr ''Running''), (''url'', PStr ''https://p'')])"

definition sample_environment_event :: "string \<Rightarrow> cluster_event" where
  "sample_environment_event typ = EnvironmentEvent (sample_object typ
     [(''name'', PStr ''e''), (''uid'', PStr ''eu''),
      (''labels'', PDict [(''training.educates.dev/portal.name'', PStr ''p'')])]
     [(''workshop'', PDict [(''name'', PStr ''w'')])]
     [(''phase'', PStr ''Running''), (''capacity'', PInt 3)])"

definition sample_session_event :: "string \<Rightarrow> string \<Rightarrow> string \<Rightarrow> cluster_event" where
  "sample_session_event typ name phase = SessionEvent (sample_object typ
     [(''name'', PStr name),
      (''labels'', PDict [(''training.educates.dev/portal.name'', PStr ''p''),
         (''training.educates.dev/environment.name'', PStr ''e'')])]
     [(''workshop'', PDict [(''name'', PStr ''w'')])]
     [(''phase'', PStr phase), (''user'', PStr ''u'')])"

definition sample_start :: cluster_config where
  "sample_start = new_cluster ''c'' (PStr ''cu'') (PList []) PNone"

lemmas sample_event_defs = sample_object_def sample_portal_event_def sample_environment_event_def
  sample_session_event_def sample_start_def

definition sample_run :: "cluster_event list" where
  "sample_run =
     [sample_session_event ''ADDED'' ''s1'' ''Allocated'', sample_environment_event ''ADDED'',
      sample_session_event ''ADDED'' ''s2'' ''Allocated'', sample_portal_event ''ADDED'',
      sample_session_event ''DELETED'' ''s1'' ''Allocated'']"

definition sample_final :: cluster_config where
  "sample_final = (case run_events sample_run sample_start of Inr c \<Rightarrow> c | Inl _ \<Rightarrow> sample_start)"

lemma sample_run_final: "run_events sample_run sample_start = Inr sample_final"
proof -
  have "case run_events sample_run sample_start of Inl _ \<Rightarrow> False | Inr c \<Rightarrow> True"
    by code_simp
  then show ?thesis by (simp add: sample_final_def split: sum.splits)
qed

section \<open>Properties\<close>

text \<open>
  \<^bold>\<open>C2.\<close> Whatever events a cluster operator has handled since it started, in whatever order
  they came, the number of allocated sessions kept for a training portal is the number of
  its sessions in phase \<open>Allocated\<close>, and the two counters of each of its workshop
  environments are the numbers of that environment's sessions in phase \<open>Allocated\<close> and
  \<open>Available\<close>. The routes that place workshop requests rely on these counters.
\<close>

theorem capacity_accounting:
  assumes "run_events evs (new_cluster n u l k) = Inr c" and "p \<in> set (get_portals c)"
  shows "pt_allocated p = int (length (filter (\<lambda>s. ss_phase s = PStr ''Allocated'')
           (concat (map get_sessions (get_environments p))))) \<and>
    (\<forall>e\<in>set (get_environments p).
       en_allocated e = int (length (filter (\<lambda>s. ss_phase s = PStr ''Allocated'') (get_sessions e))) \<and>
       en_available e = int (length (filter (\<lambda>s. ss_phase s = PStr ''Available'') (get_sessions e))))"
proof -
  have inv: "cluster_inv c" using cluster_inv_new assms(1) by (rule cluster_inv_run)
  from assms(2) obtain m where "get_portal c m = Some p"
    using portals.items_iff [of c p] cluster_inv_cluster_ok [OF inv] by (auto simp: cluster_ok_def)
  with inv have "portal_counted p" by (auto dest: cluster_inv_portal)
  then show ?thesis
    using portal_allocated_is_session_count by (auto simp: portal_counted_def environment_counted_def)
qed

theorem capacity_accounting_witness:
  "\<exists>p\<in>set (get_portals sample_final). pt_allocated p = 1"
proof -
  have run: "run_events sample_run (new_cluster ''c'' (PStr ''cu'') (PList []) PNone) = Inr sample_final"
    using sample_run_final by (simp add: sample_start_def)
  have "list_ex (\<lambda>p. length (filter (\<lambda>s. ss_phase s = PStr ''Allocated'')
           (concat (map get_sessions (get_environments p)))) = 1) (get_portals sample_final)"
    by code_simp
  then obtain p where p: "p \<in> set (get_portals sample_final)"
    and one: "length (filter (\<lambda>s. ss_phase s = PStr ''Allocated'')
           (concat (map get_sessions (get_environments p)))) = 1"
    by (auto simp: list_ex_iff)
  have "pt_allocated p = 1"
    using capacity_accounting [OF run p] one by simp
  with p show ?thesis by blast
qed

text \<open>
  \<^bold>\<open>C3.\<close> The tree of portals, environments and sessions implements a map from (portal,
  environment, session) names to what the session's resource last reported: after any run
  of events from a new cluster the map is what the events, read one by one, make of the
  empty map. A session event writes or clears one entry, the deletion of an environment or
  portal clears the entries below it, and every other event leaves the map alone, placeholders
  included.
\<close>

theorem sessions_follow_events:
  assumes "run_events evs (new_cluster n u l k) = Inr c"
  shows "\<exists>chs. mapE event_change evs = Inr chs \<and> session_view c = fold view_change chs Map.empty"
proof -
  have "session_view (new_cluster n u l k) = Map.empty"
    by (simp add: fun_eq_iff session_view_def session_at_def new_cluster_def get_portal_def split: prod.splits)
  with run_events_view [OF assms] show ?thesis by simp
qed

theorem sessions_follow_events_witness:
  "session_view sample_final (PStr ''p'', PStr ''e'', PStr ''s1'') = None \<and>
   session_view sample_final (PStr ''p'', PStr ''e'', PStr ''s2'') \<noteq> None"
proof -
  have run: "run_events sample_run (new_cluster ''c'' (PStr ''cu'') (PList []) PNone) = Inr sample_final"
    using sample_run_final by (simp add: sample_start_def)
  have "case mapE event_change sample_run of Inl _ \<Rightarrow> False
      | Inr chs \<Rightarrow> fold view_change chs Map.empty (PStr ''p'', PStr ''e'', PStr ''s1'') = None \<and>
          fold view_change chs Map.empty (PStr ''p'', PStr ''e'', PStr ''s2'') \<noteq> None"
    by code_simp
  with sessions_follow_events [OF run] show ?thesis by auto
qed

text \<open>
  As long as no resource itself reports the phase \<open>Unknown\<close>, placeholders do not
  outlive what they stand for: after any run of events a portal of phase \<open>Unknown\<close> has an
  environment, and an environment of phase \<open>Unknown\<close> has a session.
\<close>

theorem no_empty_placeholders:
  assumes "run_events evs (new_cluster n u l k) = Inr c"
    and "\<forall>ev\<in>set evs. \<forall>ch. event_change ev = Inr ch \<longrightarrow> reports_known_phase ch"
    and "get_portal c pn = Some p"
  shows "(pt_phase p = PStr ''Unknown'' \<longrightarrow> get_environments p \<noteq> []) \<and>
    (\<forall>en e. get_environment p en = Some e \<longrightarrow> en_phase e = PStr ''Unknown'' \<longrightarrow> get_sessions e \<noteq> [])"
proof -
  have "all_portals needed_portal (new_cluster n u l k)"
    by (simp add: all_portals_def new_cluster_def get_portal_def)
  then have "all_portals needed_portal c"
    using assms(1,2) by - (rule run_events_invariant [of evs "all_portals needed_portal"],
      auto intro: needed_apply_change)
  then show ?thesis
    using assms(3) by (auto simp: needed_portal_def needed_environment_def dest: all_portals_get)
qed

definition sample_placeholders :: "cluster_event list" where
  "sample_placeholders = [sample_session_event ''ADDED'' ''s1'' ''Allocated'']"

theorem no_empty_placeholders_witness:
  "\<exists>c p. run_events sample_placeholders sample_start = Inr c \<and>
     get_portal c (PStr ''p'') = Some p \<and> pt_phase p = PStr ''Unknown'' \<and> get_environments p \<noteq> []"
proof -
  have "case run_events sample_placeholders sample_start of Inl _ \<Rightarrow> False
      | Inr c \<Rightarrow> (case get_portal c (PStr ''p'') of None \<Rightarrow> False | Some p \<Rightarrow> pt_phase p = PStr ''Unknown'')"
    by code_simp
  then obtain c p where run: "run_events sample_placeholders sample_start = Inr c"
    and p: "get_portal c (PStr ''p'') = Some p" and ph: "pt_phase p = PStr ''Unknown''"
    by (auto split: sum.splits option.splits)
  have "list_all (\<lambda>ev. case event_change ev of Inl _ \<Rightarrow> True | Inr ch \<Rightarrow> reports_known_phase ch) sample_placeholders"
    by code_simp
  then have known: "\<forall>ev\<in>set sample_placeholders. \<forall>ch. event_change ev = Inr ch \<longrightarrow> reports_known_phase ch"
    by (auto simp: list_all_iff split: sum.splits)
  show ?thesis
    using no_empty_placeholders [OF run [unfolded sample_start_def] known p] run p ph by blast
qed

end
