(* ===== verification/Python_Text.thy ===== *)
theory Python_Text
  imports Python_Values
begin

text \<open>
  The string methods of Python's standard library that the code uses (\<open>strip\<close>,
  \<open>lower\<close>, \<open>split\<close>, \<open>startswith\<close>, \<open>endswith\<close>), \<open>base64.b64encode\<close> and
  \<open>base64.b64decode\<close>, on strings of single-byte characters.
\<close>

definition str_space :: "char \<Rightarrow> bool" where
  "str_space c \<longleftrightarrow> (let n = (of_char c :: nat) in 9 \<le> n \<and> n \<le> 13 \<or> 28 \<le> n \<and> n \<le> 32)"

definition bytes_space :: "char \<Rightarrow> bool" where
  "bytes_space c \<longleftrightarrow> (let n = (of_char c :: nat) in 9 \<le> n \<and> n \<le> 13 \<or> n = 32)"

definition strip_by :: "(char \<Rightarrow> bool) \<Rightarrow> string \<Rightarrow> string" where
  "strip_by sp s = rev (dropWhile sp (rev (dropWhile sp s)))"

definition lower_char :: "char \<Rightarrow> char" where
  "lower_char c = (let n = (of_char c :: nat) in if 65 \<le> n \<and> n \<le> 90 then char_of (n + 32) else c)"

definition lower :: "string \<Rightarrow> string" where
  "lower s = map lower_char s"

text \<open>\<open>s.split()\<close>: the maximal runs of non-space characters.\<close>

function split_ws :: "string \<Rightarrow> string list" where
  "split_ws s =
     (let t = dropWhile str_space s
      in if t = [] then []
         else takeWhile (\<lambda>c. \<not> str_space c) t # split_ws (dropWhile (\<lambda>c. \<not> str_space c) t))"
  by pat_completeness auto

lemma split_ws_shrinks:
  assumes "dropWhile str_space s \<noteq> []"
  shows "length (dropWhile (\<lambda>c. \<not> str_space c) (dropWhile str_space s)) < length s"
proof -
  obtain c t where t: "dropWhile str_space s = c # t" using assms by (cases "dropWhile str_space s") auto
  then have "\<not> str_space c" by (metis hd_dropWhile list.distinct(1) list.sel(1))
  then have "length (dropWhile (\<lambda>c. \<not> str_space c) (c # t)) \<le> length t"
    by (simp add: length_dropWhile_le)
  moreover have "length (c # t) \<le> length s" using length_dropWhile_le [of str_space s] t by simp
  ultimately show ?thesis using t by simp
qed

termination split_ws
proof (relation "measure length")
  show "(dropWhile (\<lambda>c. \<not> str_space c) t, s) \<in> measure length"
    if "t = dropWhile str_space s" and "t \<noteq> []" for s t :: string
    using that split_ws_shrinks [of s] by simp
qed simp

declare split_ws.simps [simp del]

abbreviation startswith :: "string \<Rightarrow> string \<Rightarrow> bool" where
  "startswith s p \<equiv> prefix p s"

abbreviation endswith :: "string \<Rightarrow> string \<Rightarrow> bool" where
  "endswith s p \<equiv> suffix p s"

text \<open>Base64 encoding with the standard alphabet and padding.\<close>

definition b64_alphabet :: string where
  "b64_alphabet = ''ABCDEFGHIJKLMNOPQRSTUVWXYZabcdefghijklmnopqrstuvwxyz0123456789+/''"

definition b64_char :: "nat \<Rightarrow> char" where
  "b64_char n = b64_alphabet ! (n mod 64)"

fun b64encode :: "string \<Rightarrow> string" where
  "b64encode [] = []"
| "b64encode [a] =
     (let n = of_char a * 16 in [b64_char (n div 64), b64_char n, CHR ''='', CHR ''=''])"
| "b64encode [a, b] =
     (let n = (of_char a * 256 + of_char b) * 4
      in [b64_char (n div 4096), b64_char (n div 64), b64_char n, CHR ''=''])"
| "b64encode (a # b # c # r) =
     (let n = of_char a * 65536 + of_char b * 256 + of_char c
      in [b64_char (n div 262144), b64_char (n div 4096), b64_char (n div 64), b64_char n]
         @ b64encode r)"

lemma b64encode_length: "length (b64encode s) = 4 * ((length s + 2) div 3)"
proof (induction s rule: b64encode.induct)
  case (4 a b c r)
  have "(length r + 5) div 3 = (length r + 2) div 3 + 1" by presburger
  with 4 show ?case by (simp add: Let_def add.commute)
qed (simp_all add: Let_def)

lemma split_ws_two:
  assumes "a \<noteq> []" and "b \<noteq> []" and "list_all (\<lambda>c. \<not> str_space c) a" and "list_all (\<lambda>c. \<not> str_space c) b"
  shows "split_ws (a @ CHR '' '' # b) = [a, b]"
proof -
  have sp: "str_space CHR '' ''" by (simp add: str_space_def)
  have a: "dropWhile str_space (a @ r) = a @ r" for r
    using assms(1,3) by (cases a) auto
  have b: "dropWhile str_space b = b"
    using assms(2,4) by (cases b) auto
  have ta: "takeWhile (\<lambda>c. \<not> str_space c) (a @ CHR '' '' # b) = a"
    and da: "dropWhile (\<lambda>c. \<not> str_space c) (a @ CHR '' '' # b) = CHR '' '' # b"
    using assms(3) sp by (auto simp: takeWhile_append dropWhile_append list_all_iff)
  have tb: "takeWhile (\<lambda>c. \<not> str_space c) b = b" and db: "dropWhile (\<lambda>c. \<not> str_space c) b = []"
    using assms(4) by (auto simp: list_all_iff takeWhile_eq_all_conv dropWhile_eq_Nil_conv)
  have "split_ws (CHR '' '' # b) = [b]"
    using assms(2) sp by (simp add: split_ws.simps [of "CHR '' '' # b"] b tb db split_ws.simps [of "[]"])
  then show ?thesis
    using assms(1) by (simp add: split_ws.simps [of "a @ CHR '' '' # b"] a ta da)
qed

section \<open>Base64 decoding\<close>

text \<open>
  \<open>base64.b64decode\<close> in its default, lenient mode: characters outside the alphabet are
  skipped, enough padding ends the data, and data that ends inside a group of four raises
  \<open>binascii.Error\<close>, a \<open>ValueError\<close>. The scan keeps the position in the group, the padding
  characters seen since the last data character, and the bits left over.
\<close>

definition b64_value :: "char \<Rightarrow> nat option" where
  "b64_value c =
     (let n = (of_char c :: nat)
      in if 65 \<le> n \<and> n \<le> 90 then Some (n - 65)
         else if 97 \<le> n \<and> n \<le> 122 then Some (n - 71)
         else if 48 \<le> n \<and> n \<le> 57 then Some (n + 4)
         else if n = 43 then Some 62 else if n = 47 then Some 63 else None)"

fun b64_scan :: "string \<Rightarrow> nat \<Rightarrow> nat \<Rightarrow> nat \<Rightarrow> string result" where
  "b64_scan [] quad pads left = (if quad = 0 then Inr [] else Inl ValueError)"
| "b64_scan (c # cs) quad pads left =
     (if c = CHR ''='' then
        if 2 \<le> quad \<and> 4 \<le> quad + pads + 1 then Inr []
        else b64_scan cs quad (if 2 \<le> quad then pads + 1 else pads) left
      else
        (case b64_value c of
           None \<Rightarrow> b64_scan cs quad pads left
         | Some v \<Rightarrow>
             if quad = 0 then b64_scan cs 1 0 v
             else if quad = 1 then
               bindE (b64_scan cs 2 0 (v mod 16)) (\<lambda>r. Inr (char_of (left * 4 + v div 16) # r))
             else if quad = 2 then
               bindE (b64_scan cs 3 0 (v mod 4)) (\<lambda>r. Inr (char_of (left * 16 + v div 4) # r))
             else bindE (b64_scan cs 0 0 0) (\<lambda>r. Inr (char_of (left * 64 + v) # r))))"

definition b64decode :: "string \<Rightarrow> string result" where
  "b64decode s = b64_scan s 0 0 0"

lemma b64_char_value: "b64_value (b64_char n) = Some (n mod 64)"
proof -
  have "list_all (\<lambda>k. b64_value (b64_alphabet ! k) = Some k) (0 # 1 # [2..<64])"
    by (simp add: upt_rec_numeral b64_alphabet_def b64_value_def)
  moreover have "[0..<64] = 0 # 1 # [2..<64::nat]" by (simp add: upt_conv_Cons numeral_2_eq_2)
  ultimately have "list_all (\<lambda>k. b64_value (b64_alphabet ! k) = Some k) [0..<64]" by simp
  then show ?thesis by (simp add: list_all_iff b64_char_def)
qed

lemma b64_char_no_pad: "b64_char n \<noteq> CHR ''=''"
proof
  assume "b64_char n = CHR ''=''"
  then have "b64_value CHR ''='' = Some (n mod 64)" using b64_char_value [of n] by simp
  moreover have "b64_value CHR ''='' = None" by (simp add: b64_value_def)
  ultimately show False by simp
qed

lemma b64_scan_char [simp]:
  "b64_scan (b64_char n # cs) 0 p l = b64_scan cs 1 0 (n mod 64)"
  "b64_scan (b64_char n # cs) (Suc 0) p l =
     bindE (b64_scan cs 2 0 (n mod 64 mod 16)) (\<lambda>r. Inr (char_of (l * 4 + n mod 64 div 16) # r))"
  "b64_scan (b64_char n # cs) 2 p l =
     bindE (b64_scan cs 3 0 (n mod 64 mod 4)) (\<lambda>r. Inr (char_of (l * 16 + n mod 64 div 4) # r))"
  "b64_scan (b64_char n # cs) 3 p l =
     bindE (b64_scan cs 0 0 0) (\<lambda>r. Inr (char_of (l * 64 + n mod 64) # r))"
  by (simp_all add: b64_char_value b64_char_no_pad)

lemma byte_bound: "(of_char c :: nat) < 256"
proof -
  have "(of_char c :: nat) \<in> range of_char" by simp
  then show ?thesis by (simp add: range_nat_of_char)
qed

lemma b64_scan_pad: "b64_scan (CHR ''='' # CHR ''='' # r) 2 0 l = Inr []" "b64_scan (CHR ''='' # r) 3 0 l = Inr []"
  by simp_all

text \<open>Six bits at a time: the quotients of a group, and the bytes read back from them.\<close>

lemma mod_64_split: "(q::nat) < 16 \<Longrightarrow> (x * 16 + q) mod 64 = x mod 4 * 16 + q"
  using mod_mult2_eq [of "x * 16 + q" 16 4] by simp

lemma mod_64_split': "(q::nat) < 4 \<Longrightarrow> (x * 4 + q) mod 64 = x mod 16 * 4 + q"
  using mod_mult2_eq [of "x * 4 + q" 4 16] by simp

lemma regroup:
  assumes "(a::nat) < 256" and "(b::nat) < 256" and "(c::nat) < 256"
  shows "(a * 65536 + b * 256 + c) div 262144 mod 64 * 4 + (a * 65536 + b * 256 + c) div 4096 mod 64 div 16 = a"
    and "(a * 65536 + b * 256 + c) div 4096 mod 64 mod 16 * 16 + (a * 65536 + b * 256 + c) div 64 mod 64 div 4 = b"
    and "(a * 65536 + b * 256 + c) div 64 mod 64 mod 4 * 64 + (a * 65536 + b * 256 + c) mod 64 = c"
proof -
  let ?n = "a * 65536 + b * 256 + c"
  have "b * 256 + c < 65536" using assms by simp
  then have "?n div 65536 = a" using div_mult_self3 [of 65536 "b * 256 + c" a] by (simp add: add.assoc)
  then have "?n div 262144 = a div 4" using div_mult2_eq [of ?n 65536 4] by simp
  then have q1: "?n div 262144 mod 64 = a div 4" using assms(1) by simp
  have "?n div 256 = a * 256 + b"
    using assms(3) div_mult_self3 [of 256 c "a * 256 + b"] by (simp add: algebra_simps)
  then have "?n div 4096 = (a * 256 + b) div 16" using div_mult2_eq [of ?n 256 16] by simp
  also have "\<dots> = a * 16 + b div 16"
    using div_mult_self3 [of 16 b "a * 16"] by (simp add: algebra_simps)
  finally have q2: "?n div 4096 mod 64 = a mod 4 * 16 + b div 16"
    using assms(2) by (simp add: mod_64_split)
  have "?n div 64 = a * 1024 + b * 4 + c div 64"
    using div_mult_self3 [of 64 c "a * 1024 + b * 4"] by (simp add: algebra_simps)
  then have "?n div 64 mod 64 = (a * 16 * 64 + (b * 4 + c div 64)) mod 64"
    by (simp add: algebra_simps)
  also have "\<dots> = (b * 4 + c div 64) mod 64" by (rule mod_mult_self3)
  also have "\<dots> = b mod 16 * 4 + c div 64" using assms(3) by (simp add: mod_64_split')
  finally have q3: "?n div 64 mod 64 = b mod 16 * 4 + c div 64" .
  have q4: "?n mod 64 = c mod 64"
    using mod_mult_self3 [of "a * 1024 + b * 4" 64 c] by (simp add: algebra_simps)
  show "?n div 262144 mod 64 * 4 + ?n div 4096 mod 64 div 16 = a"
    using assms(2) div_mult_mod_eq [of a 4] by (simp add: q1 q2 div_mult_self3)
  show "?n div 4096 mod 64 mod 16 * 16 + ?n div 64 mod 64 div 4 = b"
    using assms(2,3) div_mult_mod_eq [of b 16] by (simp add: q2 q3)
  show "?n div 64 mod 64 mod 4 * 64 + ?n mod 64 = c"
    using assms(3) div_mult_mod_eq [of c 64] by (simp add: q3 q4)
qed

lemma regroup_one:
  assumes "(a::nat) < 256"
  shows "a * 16 div 64 mod 64 * 4 + a * 16 mod 64 div 16 = a"
proof -
  have "a * 16 div 64 = a div 4" using div_mult2_eq [of "a * 16" 16 4] by simp
  moreover have "a * 16 mod 64 = a mod 4 * 16" using mod_64_split [of 0 a] by simp
  ultimately show ?thesis using assms div_mult_mod_eq [of a 4] by simp
qed

lemma regroup_two:
  assumes "(a::nat) < 256" and "(b::nat) < 256"
  shows "(a * 256 + b) * 4 div 4096 mod 64 * 4 + (a * 256 + b) * 4 div 64 mod 64 div 16 = a"
    and "(a * 256 + b) * 4 div 64 mod 64 mod 16 * 16 + (a * 256 + b) * 4 mod 64 div 4 = b"
proof -
  let ?x = "(a * 256 + b) * 4"
  have x: "a * 65536 + b * 256 + 0 = ?x * 64" by simp
  then have d: "(a * 65536 + b * 256 + 0) div 64 = ?x" by simp
  have n: "?x div 4096 = (a * 65536 + b * 256 + 0) div 262144"
    "?x div 64 = (a * 65536 + b * 256 + 0) div 4096"
    "?x mod 64 = (a * 65536 + b * 256 + 0) div 64 mod 64"
    using div_mult2_eq [of "a * 65536 + b * 256 + 0" 64 4096] div_mult2_eq [of "a * 65536 + b * 256 + 0" 64 64]
    unfolding d by simp_all
  show "(a * 256 + b) * 4 div 4096 mod 64 * 4 + (a * 256 + b) * 4 div 64 mod 64 div 16 = a"
    and "(a * 256 + b) * 4 div 64 mod 64 mod 16 * 16 + (a * 256 + b) * 4 mod 64 div 4 = b"
    using regroup(1,2) [of a b 0] assms unfolding n by simp_all
qed

lemma b64_group:
  "b64_scan (b64_char n1 # b64_char n2 # b64_char n3 # b64_char n4 # cs) 0 p l =
   bindE (b64_scan cs 0 0 0) (\<lambda>r. Inr (
     char_of (n1 mod 64 * 4 + n2 mod 64 div 16) #
     char_of (n2 mod 64 mod 16 * 16 + n3 mod 64 div 4) #
     char_of (n3 mod 64 mod 4 * 64 + n4 mod 64) # r))"
  by (cases "b64_scan cs 0 0 0") (simp_all only: b64_scan_char bindE_simps One_nat_def)

lemma b64_group_two:
  "b64_scan [b64_char n1, b64_char n2, b64_char n3, CHR ''=''] 0 p l =
   Inr [char_of (n1 mod 64 * 4 + n2 mod 64 div 16), char_of (n2 mod 64 mod 16 * 16 + n3 mod 64 div 4)]"
  by (simp only: b64_scan_char b64_scan_pad bindE_simps One_nat_def)

lemma b64_group_one:
  "b64_scan [b64_char n1, b64_char n2, CHR ''='', CHR ''=''] 0 p l =
   Inr [char_of (n1 mod 64 * 4 + n2 mod 64 div 16)]"
  by (simp only: b64_scan_char b64_scan_pad bindE_simps One_nat_def)

lemma b64decode_encode: "b64decode (b64encode s) = Inr s"
  unfolding b64decode_def
proof (induction s rule: b64encode.induct)
  case (2 a)
  show ?case
    by (simp only: b64encode.simps Let_def b64_group_one regroup_one [OF byte_bound] char_of_char)
next
  case (3 a b)
  show ?case
    by (simp only: b64encode.simps Let_def b64_group_two regroup_two [OF byte_bound byte_bound] char_of_char)
next
  case (4 a b c r)
  show ?case
    by (simp only: b64encode.simps Let_def append_Cons append_Nil b64_group 4
        regroup [OF byte_bound byte_bound byte_bound] char_of_char bindE_simps)
qed simp

end
