(* ===== verification/Kubeconfig.thy ===== *)
theory Kubeconfig
  imports Python_Text
begin

text \<open>
  Kubeconfig documents (\<open>lookup-service/service/helpers/kubeconfig.py\<close>): building one
  from a mounted access token, checking the format, cutting a document down to one
  context, and reading the connection details from it. The two mounted files are
  arguments; \<open>kopf.ConnectionInfo\<close> is the record of the keyword arguments it is given.
\<close>

section \<open>Operations\<close>

text \<open>\<open>token\<close> and \<open>ca\<close> are the contents of the files \<open>token\<close> and \<open>ca.crt\<close>.\<close>

definition create_kubeconfig_from_access_token_secret ::
    "string \<Rightarrow> string \<Rightarrow> string \<Rightarrow> string \<Rightarrow> pyval" where
  "create_kubeconfig_from_access_token_secret token ca cluster_name server_url =
     PDict
      [(''apiVersion'', PStr ''v1''),
       (''kind'', PStr ''Config''),
       (''clusters'', PList [PDict
          [(''name'', PStr cluster_name),
           (''cluster'', PDict
              [(''server'', PStr server_url),
               (''certificate-authority-data'', PStr (b64encode (strip_by bytes_space ca)))])]]),
       (''contexts'', PList [PDict
          [(''name'', PStr (cluster_name @ ''-context'')),
           (''context'', PDict
              [(''cluster'', PStr cluster_name),
               (''user'', PStr (cluster_name @ ''-user''))])]]),
       (''current-context'', PStr (cluster_name @ ''-context'')),
       (''users'', PList [PDict
          [(''name'', PStr (cluster_name @ ''-user'')),
           (''user'', PDict [(''token'', PStr (strip_by str_space token))])]])]"

fun is_str :: "pyval \<Rightarrow> bool" where
  "is_str (PStr s) = True"
| "is_str _ = False"

fun is_list :: "pyval \<Rightarrow> bool" where
  "is_list (PList xs) = True"
| "is_list _ = False"

definition field :: "(string \<times> pyval) list \<Rightarrow> string \<Rightarrow> pyval" where
  "field d k = (case dict_get d k of None \<Rightarrow> PNone | Some v \<Rightarrow> v)"

text \<open>
  The check of one entry of \<open>clusters\<close>, \<open>contexts\<close> or \<open>users\<close>: a dictionary with a string
  name and a dictionary under \<open>kind\<close> with the given string fields.
\<close>

fun entry_ok :: "string \<Rightarrow> string list \<Rightarrow> pyval \<Rightarrow> bool" where
  "entry_ok kind required (PDict d) =
     (is_str (field d ''name'') \<and>
      (case field d kind of PDict e \<Rightarrow> list_all (\<lambda>k. is_str (field e k)) required | _ \<Rightarrow> False))"
| "entry_ok kind required _ = False"

definition verify_entries :: "string \<Rightarrow> string list \<Rightarrow> pyval \<Rightarrow> unit result" where
  "verify_entries kind required entries =
     bindE (py_iter entries) (\<lambda>xs.
       if list_all (entry_ok kind required) xs then Inr () else Inl ValueError)"

definition verify_kubeconfig_format :: "pyval \<Rightarrow> unit result" where
  "verify_kubeconfig_format kc =
     bindE (py_get kc ''apiVersion'') (\<lambda>version.
     bindE (py_get kc ''kind'') (\<lambda>kind.
     bindE (py_get kc ''clusters'') (\<lambda>clusters.
     bindE (py_get kc ''contexts'') (\<lambda>contexts.
     bindE (py_get kc ''users'') (\<lambda>users.
     bindE (py_get kc ''current-context'') (\<lambda>current.
       if version \<noteq> PStr ''v1'' \<or> kind \<noteq> PStr ''Config'' \<or> \<not> is_list clusters \<or>
          \<not> is_list contexts \<or> \<not> is_list users \<or> \<not> is_str current
       then Inl ValueError
       else
         bindE (verify_entries ''cluster'' [''server'', ''certificate-authority-data''] clusters) (\<lambda>_.
         bindE (verify_entries ''context'' [''cluster'', ''user''] contexts) (\<lambda>_.
           verify_entries ''user'' [''token''] users))))))))"

text \<open>
  The loop that looks for the context leaves its variable at the matching entry, or at
  the last entry when none matches.
\<close>

primrec scan_context :: "pyval \<Rightarrow> pyval list \<Rightarrow> pyval \<Rightarrow> pyval result" where
  "scan_context context [] current = Inr current"
| "scan_context context (x # xs) current =
     bindE (py_index x ''name'') (\<lambda>n.
       if py_eq n context then Inr x else scan_context context xs x)"

text \<open>
  The loops over \<open>clusters\<close> and \<open>users\<close>: the first entry whose name equals the reference
  \<open>context_data["context"][key]\<close>, which is evaluated anew in each round.
\<close>

primrec find_reference :: "pyval \<Rightarrow> string \<Rightarrow> pyval list \<Rightarrow> pyval result" where
  "find_reference context_data key [] = Inr PNone"
| "find_reference context_data key (x # xs) =
     bindE (py_index x ''name'') (\<lambda>n.
     bindE (py_index context_data ''context'') (\<lambda>c.
     bindE (py_index c key) (\<lambda>ref.
       if py_eq n ref then Inr x else find_reference context_data key xs)))"

definition chosen_context :: "pyval \<Rightarrow> pyval \<Rightarrow> pyval result" where
  "chosen_context kc context =
     (if context \<noteq> PNone then Inr context
      else bindE (py_get kc ''current-context'') (\<lambda>current.
        if current \<noteq> PNone then Inr current
        else bindE (py_index kc ''contexts'') (\<lambda>cs.
             bindE (py_iter cs) (\<lambda>xs.
               case xs of [] \<Rightarrow> Inl IndexError | x # _ \<Rightarrow> py_index x ''name''))))"

definition extract_context_from_kubeconfig :: "pyval \<Rightarrow> pyval \<Rightarrow> pyval result" where
  "extract_context_from_kubeconfig kc context =
     bindE (chosen_context kc context) (\<lambda>ctx.
     bindE (py_index kc ''contexts'') (\<lambda>contexts.
     bindE (py_iter contexts) (\<lambda>contexts.
     bindE (scan_context ctx contexts PNone) (\<lambda>context_data.
       if context_data = PNone then Inl ValueError
       else
         bindE (py_index kc ''clusters'') (\<lambda>clusters.
         bindE (py_iter clusters) (\<lambda>clusters.
         bindE (find_reference context_data ''cluster'' clusters) (\<lambda>cluster_data.
         bindE (py_index kc ''users'') (\<lambda>users.
         bindE (py_iter users) (\<lambda>users.
         bindE (find_reference context_data ''user'' users) (\<lambda>user_data.
         bindE (py_index context_data ''name'') (\<lambda>name.
           Inr (PDict
             [(''apiVersion'', PStr ''v1''),
              (''kind'', PStr ''Config''),
              (''clusters'', PList [cluster_data]),
              (''contexts'', PList [context_data]),
              (''current-context'', name),
              (''users'', PList [user_data])]))))))))))))"

record connection_info =
  ck_server :: pyval
  ck_ca_data :: pyval
  ck_insecure :: pyval
  ck_certificate_data :: pyval
  ck_private_key_data :: pyval
  ck_username :: pyval
  ck_password :: pyval
  ck_token :: pyval
  ck_default_namespace :: pyval

text \<open>The first entry of each name wins, as in \<open>if item["name"] not in contexts\<close>.\<close>

definition add_entry :: "string \<Rightarrow> pyval \<Rightarrow> (pyval, pyval) dict \<Rightarrow> (pyval, pyval) dict result" where
  "add_entry kind item d =
     bindE (py_index item ''name'') (\<lambda>n.
       if dict_get d n \<noteq> None then Inr d
       else bindE (py_get item kind) (\<lambda>v. Inr (dict_set n (py_or v (PDict [])) d)))"

definition collect_entries :: "pyval \<Rightarrow> string \<Rightarrow> string \<Rightarrow> (pyval, pyval) dict result" where
  "collect_entries config key kind =
     bindE (py_get_or config key (PList [])) (\<lambda>v.
     bindE (py_iter v) (\<lambda>items. foldE (add_entry kind) items []))"

definition entry_of :: "(pyval, pyval) dict \<Rightarrow> pyval \<Rightarrow> pyval result" where
  "entry_of d n = (case dict_get d n of None \<Rightarrow> Inl KeyError | Some v \<Rightarrow> Inr v)"

definition create_connection_info_from_kubeconfig :: "pyval \<Rightarrow> connection_info result" where
  "create_connection_info_from_kubeconfig config =
     bindE (py_get config ''current-context'') (\<lambda>current.
     bindE (collect_entries config ''contexts'' ''context'') (\<lambda>contexts.
     bindE (collect_entries config ''clusters'' ''cluster'') (\<lambda>clusters.
     bindE (collect_entries config ''users'' ''user'') (\<lambda>users.
       if current = PNone then Inl ValueError
       else if dict_get contexts current = None then Inl ValueError
       else
         bindE (entry_of contexts current) (\<lambda>context.
         bindE (py_index context ''cluster'') (\<lambda>cn.
         bindE (entry_of clusters cn) (\<lambda>cluster.
         bindE (py_index context ''user'') (\<lambda>un.
         bindE (entry_of users un) (\<lambda>user.
         bindE (py_get_or user ''auth-provider'' (PDict [])) (\<lambda>provider.
         bindE (py_get_or provider ''config'' (PDict [])) (\<lambda>pc.
         bindE (py_get pc ''access-token'') (\<lambda>provider_token.
         bindE (py_get cluster ''server'') (\<lambda>server.
         bindE (py_get cluster ''certificate-authority-data'') (\<lambda>ca.
         bindE (py_get cluster ''insecure-skip-tls-verify'') (\<lambda>insecure.
         bindE (py_get user ''client-certificate-data'') (\<lambda>cert.
         bindE (py_get user ''client-key-data'') (\<lambda>key.
         bindE (py_get user ''username'') (\<lambda>name.
         bindE (py_get user ''password'') (\<lambda>pass.
         bindE (py_get user ''token'') (\<lambda>token.
         bindE (py_get context ''namespace'') (\<lambda>ns.
           Inr \<lparr>ck_server = server, ck_ca_data = ca, ck_insecure = insecure,
                ck_certificate_data = cert, ck_private_key_data = key, ck_username = name,
                ck_password = pass, ck_token = py_or token provider_token,
                ck_default_namespace = ns\<rparr>)))))))))))))))))))))"

section \<open>Lemmas\<close>

lemma py_index_field: "py_index (PDict d) k = Inr v \<Longrightarrow> field d k = v"
  by (auto simp: field_def split: option.splits)

lemma entry_okE:
  assumes "entry_ok kind required x"
  obtains d e nm where "x = PDict d" and "dict_get d ''name'' = Some (PStr nm)"
    and "dict_get d kind = Some (PDict e)"
    and "\<forall>k\<in>set required. \<exists>s. dict_get e k = Some (PStr s)"
proof -
  obtain d where x: "x = PDict d" using assms by (cases x) auto
  have str: "is_str (field d' k) \<Longrightarrow> \<exists>s. dict_get d' k = Some (PStr s)" for d' k
    by (cases "dict_get d' k"; cases "field d' k") (auto simp: field_def)
  from assms x obtain e where "field d kind = PDict e" and e: "list_all (\<lambda>k. is_str (field e k)) required"
    by (auto split: pyval.splits)
  then have "dict_get d kind = Some (PDict e)" by (auto simp: field_def split: option.splits)
  moreover from assms x obtain nm where "dict_get d ''name'' = Some (PStr nm)"
    using str by auto
  moreover from e have "\<forall>k\<in>set required. \<exists>s. dict_get e k = Some (PStr s)"
    using str by (auto simp: list_all_iff)
  ultimately show thesis using x that by blast
qed

lemma scan_context_found:
  assumes "\<forall>x\<in>set xs. entry_ok kind required x" and "x \<in> set xs" and "py_index x ''name'' = Inr ctx"
    and "ctx = PStr c"
  shows "\<exists>y. scan_context ctx xs current = Inr y \<and> y \<in> set xs \<and> py_index y ''name'' = Inr ctx"
  using assms(1,2)
proof (induction xs arbitrary: current)
  case (Cons y ys)
  from Cons.prems(1) obtain d nm where y: "y = PDict d" "dict_get d ''name'' = Some (PStr nm)"
    by (auto elim: entry_okE)
  show ?case
  proof (cases "nm = c")
    case True
    with y assms(4) show ?thesis by auto
  next
    case False
    with Cons.prems(2) y assms(3,4) have "x \<in> set ys" by auto
    with Cons.IH [of y] Cons.prems(1) obtain z where
      "scan_context ctx ys y = Inr z" "z \<in> set ys" "py_index z ''name'' = Inr ctx" by auto
    with False y assms(4) show ?thesis by auto
  qed
qed simp

lemma scan_context_missing:
  assumes "\<forall>x\<in>set xs. \<exists>n. py_index x ''name'' = Inr n \<and> \<not> py_eq n ctx"
  shows "scan_context ctx xs current = Inr (last (current # xs))"
  using assms by (induction xs arbitrary: current) auto

lemma find_reference_found:
  assumes "\<forall>x\<in>set xs. entry_ok kind required x"
    and "py_index context_data ''context'' = Inr c" and "py_index c key = Inr (PStr r)"
    and "\<exists>x\<in>set xs. py_index x ''name'' = Inr (PStr r)"
  shows "\<exists>y. find_reference context_data key xs = Inr y \<and> y \<in> set xs \<and> py_index y ''name'' = Inr (PStr r)"
  using assms(1,4)
proof (induction xs)
  case (Cons y ys)
  from Cons.prems(1) obtain d nm where y: "y = PDict d" "dict_get d ''name'' = Some (PStr nm)"
    by (auto elim: entry_okE)
  show ?case
  proof (cases "nm = r")
    case True
    with y assms(2,3) show ?thesis by auto
  next
    case False
    with Cons.prems(2) y have "\<exists>x\<in>set ys. py_index x ''name'' = Inr (PStr r)" by auto
    with Cons.IH Cons.prems(1) obtain z where
      "find_reference context_data key ys = Inr z" "z \<in> set ys" "py_index z ''name'' = Inr (PStr r)"
      by auto
    with False y assms(2,3) show ?thesis by auto
  qed
qed simp

lemma find_reference_total:
  assumes "\<forall>x\<in>set xs. entry_ok kind required x"
    and "py_index context_data ''context'' = Inr c" and "py_index c key = Inr r"
  shows "\<exists>y. find_reference context_data key xs = Inr y"
  using assms(1)
proof (induction xs)
  case (Cons y ys)
  from Cons.prems obtain d nm where "y = PDict d" "dict_get d ''name'' = Some (PStr nm)"
    by (auto elim: entry_okE)
  with Cons assms(2,3) show ?case by auto
qed simp

lemma verify_entries_ok:
  "verify_entries kind required (PList xs) = Inr () \<longleftrightarrow> list_all (entry_ok kind required) xs"
  by (simp add: verify_entries_def)

text \<open>A document that passes the format check, as its three lists of entries.\<close>

lemma verify_kubeconfig_formatE:
  assumes "verify_kubeconfig_format kc = Inr ()"
  obtains d cs xs us cur where "kc = PDict d"
    and "dict_get d ''clusters'' = Some (PList cs)"
    and "list_all (entry_ok ''cluster'' [''server'', ''certificate-authority-data'']) cs"
    and "dict_get d ''contexts'' = Some (PList xs)"
    and "list_all (entry_ok ''context'' [''cluster'', ''user'']) xs"
    and "dict_get d ''users'' = Some (PList us)"
    and "list_all (entry_ok ''user'' [''token'']) us"
    and "dict_get d ''current-context'' = Some (PStr cur)"
proof -
  obtain d where d: "kc = PDict d"
    using assms by (cases kc) (auto simp: verify_kubeconfig_format_def)
  have l: "is_list v \<longleftrightarrow> (\<exists>xs. v = PList xs)" and s: "is_str v \<longleftrightarrow> (\<exists>xs. v = PStr xs)" for v
    by (cases v; simp)+
  from assms d that show thesis
    by (auto simp: verify_kubeconfig_format_def l s verify_entries_ok bindE_Inr_iff
        split: if_splits option.splits)
qed

text \<open>Every context entry refers to an entry of \<open>targets\<close> under \<open>key\<close>.\<close>

definition references_resolve :: "string \<Rightarrow> pyval list \<Rightarrow> pyval list \<Rightarrow> bool" where
  "references_resolve key targets xs \<longleftrightarrow>
     list_all (\<lambda>y. case bindE (py_index y ''context'') (\<lambda>v. py_index v key) of
         Inl _ \<Rightarrow> True
       | Inr r \<Rightarrow> list_ex (\<lambda>z. py_index z ''name'' = Inr r) targets) xs"

text \<open>A document with two contexts, for the examples.\<close>

definition sample_cluster :: "string \<Rightarrow> pyval" where
  "sample_cluster n = PDict [(''name'', PStr n), (''cluster'', PDict
     [(''server'', PStr n), (''certificate-authority-data'', PStr n)])]"

definition sample_context :: "string \<Rightarrow> pyval" where
  "sample_context n = PDict [(''name'', PStr n), (''context'', PDict
     [(''cluster'', PStr n), (''user'', PStr n)])]"

definition sample_user :: "string \<Rightarrow> pyval" where
  "sample_user n = PDict [(''name'', PStr n), (''user'', PDict [(''token'', PStr n)])]"

definition sample_kubeconfig :: pyval where
  "sample_kubeconfig = PDict
     [(''apiVersion'', PStr ''v1''), (''kind'', PStr ''Config''),
      (''clusters'', PList [sample_cluster ''dev'', sample_cluster ''prod'']),
      (''contexts'', PList [sample_context ''dev'', sample_context ''prod'']),
      (''current-context'', PStr ''dev''),
      (''users'', PList [sample_user ''dev'', sample_user ''prod''])]"

lemmas sample_defs = sample_kubeconfig_def sample_cluster_def sample_context_def sample_user_def

lemma sample_kubeconfig_format: "verify_kubeconfig_format sample_kubeconfig = Inr ()"
  by (simp add: sample_defs verify_kubeconfig_format_def verify_entries_def field_def)

section \<open>Properties\<close>

text \<open>
  The kubeconfig built from a mounted access token passes the format check, is its
  own only context, and connects to the given server with the stripped token and the
  encoded certificate.
\<close>

theorem access_token_kubeconfig_connects:
  fixes token ca name url
  defines "kc \<equiv> create_kubeconfig_from_access_token_secret token ca name url"
  shows "verify_kubeconfig_format kc = Inr () \<and>
    extract_context_from_kubeconfig kc PNone = Inr kc \<and>
    create_connection_info_from_kubeconfig kc =
      Inr \<lparr>ck_server = PStr url, ck_ca_data = PStr (b64encode (strip_by bytes_space ca)),
           ck_insecure = PNone, ck_certificate_data = PNone, ck_private_key_data = PNone,
           ck_username = PNone, ck_password = PNone,
           ck_token = py_or (PStr (strip_by str_space token)) PNone, ck_default_namespace = PNone\<rparr>"
proof (intro conjI)
  show "verify_kubeconfig_format kc = Inr ()"
    by (simp add: kc_def create_kubeconfig_from_access_token_secret_def verify_kubeconfig_format_def
        verify_entries_def field_def)
  show "extract_context_from_kubeconfig kc PNone = Inr kc"
    by (simp add: kc_def create_kubeconfig_from_access_token_secret_def
        extract_context_from_kubeconfig_def chosen_context_def)
  show "create_connection_info_from_kubeconfig kc =
      Inr \<lparr>ck_server = PStr url, ck_ca_data = PStr (b64encode (strip_by bytes_space ca)),
           ck_insecure = PNone, ck_certificate_data = PNone, ck_private_key_data = PNone,
           ck_username = PNone, ck_password = PNone,
           ck_token = py_or (PStr (strip_by str_space token)) PNone, ck_default_namespace = PNone\<rparr>"
    by (simp add: kc_def create_kubeconfig_from_access_token_secret_def
        create_connection_info_from_kubeconfig_def collect_entries_def add_entry_def entry_of_def
        py_or_def)
qed

text \<open>
  For a well-formed document, naming a context it has, whose cluster and user it
  has as well, extraction gives a well-formed document with that one context, made of
  entries of the original: a context entry of that name and the cluster and user entries
  it refers to.
\<close>

theorem extract_context_sound:
  assumes format: "verify_kubeconfig_format kc = Inr ()"
    and ctx: "py_index kc ''contexts'' = Inr (PList xs)" "x \<in> set xs" "py_index x ''name'' = Inr (PStr c)"
    and clusters: "py_index kc ''clusters'' = Inr (PList cs)"
      "references_resolve ''cluster'' cs xs"
    and users: "py_index kc ''users'' = Inr (PList us)"
      "references_resolve ''user'' us xs"
  shows "\<exists>y cl u cn un. y \<in> set xs \<and> py_index y ''name'' = Inr (PStr c) \<and>
    bindE (py_index y ''context'') (\<lambda>v. py_index v ''cluster'') = Inr cn \<and>
    bindE (py_index y ''context'') (\<lambda>v. py_index v ''user'') = Inr un \<and>
    cl \<in> set cs \<and> py_index cl ''name'' = Inr cn \<and> u \<in> set us \<and> py_index u ''name'' = Inr un \<and>
    extract_context_from_kubeconfig kc (PStr c) =
      Inr (PDict [(''apiVersion'', PStr ''v1''), (''kind'', PStr ''Config''),
                  (''clusters'', PList [cl]), (''contexts'', PList [y]),
                  (''current-context'', PStr c), (''users'', PList [u])]) \<and>
    bindE (extract_context_from_kubeconfig kc (PStr c)) verify_kubeconfig_format = Inr ()"
proof -
  from format ctx(1) clusters(1) users(1) have ok:
    "list_all (entry_ok ''cluster'' [''server'', ''certificate-authority-data'']) cs"
    "list_all (entry_ok ''context'' [''cluster'', ''user'']) xs" "list_all (entry_ok ''user'' [''token'']) us"
    by (auto elim!: verify_kubeconfig_formatE)
  obtain y where y: "scan_context (PStr c) xs PNone = Inr y" "y \<in> set xs" "py_index y ''name'' = Inr (PStr c)"
    using scan_context_found [OF _ ctx(2,3) refl, of "''context''" "[''cluster'', ''user'']" PNone] ok(2)
    by (auto simp: list_all_iff)
  from ok(2) y(2) have yok: "entry_ok ''context'' [''cluster'', ''user''] y" by (simp add: list_all_iff)
  then obtain d e nm r s where yd: "y = PDict d" and e: "dict_get d ''context'' = Some (PDict e)"
    "dict_get e ''cluster'' = Some (PStr r)" "dict_get e ''user'' = Some (PStr s)"
    by (auto elim!: entry_okE)
  from clusters(2) y(2) yd e have "\<exists>z\<in>set cs. py_index z ''name'' = Inr (PStr r)"
    by (auto simp: references_resolve_def list_all_iff list_ex_iff)
  with ok(1) yd e obtain cl where cl: "find_reference y ''cluster'' cs = Inr cl" "cl \<in> set cs"
    "py_index cl ''name'' = Inr (PStr r)"
    using find_reference_found [of cs "''cluster''" "[''server'', ''certificate-authority-data'']" y "PDict e" "''cluster''" r]
    by (auto simp: list_all_iff)
  from users(2) y(2) yd e have "\<exists>z\<in>set us. py_index z ''name'' = Inr (PStr s)"
    by (auto simp: references_resolve_def list_all_iff list_ex_iff)
  with ok(3) yd e obtain u where u: "find_reference y ''user'' us = Inr u" "u \<in> set us"
    "py_index u ''name'' = Inr (PStr s)"
    using find_reference_found [of us "''user''" "[''token'']" y "PDict e" "''user''" s]
    by (auto simp: list_all_iff)
  have result: "extract_context_from_kubeconfig kc (PStr c) =
      Inr (PDict [(''apiVersion'', PStr ''v1''), (''kind'', PStr ''Config''),
                  (''clusters'', PList [cl]), (''contexts'', PList [y]),
                  (''current-context'', PStr c), (''users'', PList [u])])" (is "_ = Inr ?doc")
    using ctx(1) clusters(1) users(1) y cl(1) u(1) yd
    by (simp add: extract_context_from_kubeconfig_def chosen_context_def)
  have "verify_kubeconfig_format ?doc = Inr ()"
    using ok cl(2) u(2) yok by (simp add: verify_kubeconfig_format_def verify_entries_def list_all_iff)
  with result y(2,3) yd e cl(2,3) u(2,3) show ?thesis by auto
qed

theorem extract_context_sound_witness:
  "bindE (extract_context_from_kubeconfig sample_kubeconfig (PStr ''prod'')) verify_kubeconfig_format = Inr ()"
proof -
  let ?xs = "[sample_context ''dev'', sample_context ''prod'']"
  let ?cs = "[sample_cluster ''dev'', sample_cluster ''prod'']"
  let ?us = "[sample_user ''dev'', sample_user ''prod'']"
  have "py_index sample_kubeconfig ''contexts'' = Inr (PList ?xs)"
    and "sample_context ''prod'' \<in> set ?xs"
    and "py_index (sample_context ''prod'') ''name'' = Inr (PStr ''prod'')"
    and "py_index sample_kubeconfig ''clusters'' = Inr (PList ?cs)"
    and "references_resolve ''cluster'' ?cs ?xs"
    and "py_index sample_kubeconfig ''users'' = Inr (PList ?us)"
    and "references_resolve ''user'' ?us ?xs"
    by (simp_all add: sample_defs references_resolve_def)
  from extract_context_sound [OF sample_kubeconfig_format this] show ?thesis by blast
qed

text \<open>
  Naming a context that a well-formed document does not have is not reported: when
  there is any context at all, the last one is extracted in its place, so a cluster can
  be reached with the credentials of another context than the one configured.
\<close>

theorem extract_missing_context_takes_last:
  assumes format: "verify_kubeconfig_format kc = Inr ()"
    and xs: "py_index kc ''contexts'' = Inr (PList xs)" "xs \<noteq> []"
    and missing: "\<forall>x\<in>set xs. py_index x ''name'' \<noteq> Inr (PStr c)"
  shows "\<exists>doc. extract_context_from_kubeconfig kc (PStr c) = Inr doc \<and>
    py_index doc ''contexts'' = Inr (PList [last xs])"
proof -
  from format xs(1) obtain cs us where
    cs: "py_index kc ''clusters'' = Inr (PList cs)" "py_index kc ''users'' = Inr (PList us)" and
    ok: "list_all (entry_ok ''cluster'' [''server'', ''certificate-authority-data'']) cs"
      "list_all (entry_ok ''context'' [''cluster'', ''user'']) xs" "list_all (entry_ok ''user'' [''token'']) us"
    by (auto elim!: verify_kubeconfig_formatE)
  from ok(2) xs(2) have "entry_ok ''context'' [''cluster'', ''user''] (last xs)" by (simp add: list_all_iff)
  then obtain d e nm r s where y: "last xs = PDict d" "dict_get d ''name'' = Some (PStr nm)"
    "dict_get d ''context'' = Some (PDict e)"
    "dict_get e ''cluster'' = Some (PStr r)" "dict_get e ''user'' = Some (PStr s)"
    by (auto elim!: entry_okE)
  have "\<forall>x\<in>set xs. \<exists>n. py_index x ''name'' = Inr n \<and> \<not> py_eq n (PStr c)"
    using ok(2) missing by (fastforce simp: list_all_iff elim: entry_okE)
  then have scan: "scan_context (PStr c) xs PNone = Inr (last xs)"
    using xs(2) by (simp add: scan_context_missing)
  have "\<exists>z. find_reference (last xs) ''cluster'' cs = Inr z"
    using ok y find_reference_total
      [of cs "''cluster''" "[''server'', ''certificate-authority-data'']" "last xs" "PDict e" "''cluster''" "PStr r"]
    by (simp add: list_all_iff)
  moreover have "\<exists>z. find_reference (last xs) ''user'' us = Inr z"
    using ok y find_reference_total [of us "''user''" "[''token'']" "last xs" "PDict e" "''user''" "PStr s"]
    by (simp add: list_all_iff)
  ultimately show ?thesis
    using scan xs(1) cs y by (auto simp: extract_context_from_kubeconfig_def chosen_context_def)
qed

theorem extract_missing_context_takes_last_witness:
  "\<exists>doc. extract_context_from_kubeconfig sample_kubeconfig (PStr ''staging'') = Inr doc \<and>
    py_index doc ''contexts'' = Inr (PList [sample_context ''prod''])"
  using extract_missing_context_takes_last
    [OF sample_kubeconfig_format, of "[sample_context ''dev'', sample_context ''prod'']" "''staging''"]
  by (simp add: sample_defs)

end
