(* ===== verification/Lookup_Service.thy ===== *)
theory Lookup_Service
  imports Cluster_Invariants Kubeconfig
begin

text \<open>
  The state of the lookup service as a whole (\<open>service/service.py\<close>, \<open>main.py\<close>): the client,
  tenant and cluster databases, the handlers for cluster configurations
  (\<open>handlers/clusters.py\<close>) and the events its operators feed it. A cluster object is
  shared between the cluster database and the operator started for it, which keeps its
  reference when the database drops or replaces the object; so clusters live in a list of
  objects and the database maps names to positions in it.
\<close>

section \<open>The cluster database\<close>

record cluster_store =
  cs_objects :: "cluster_config list"
  cs_names :: "(string, nat) dict"

definition empty_store :: cluster_store where
  "empty_store = \<lparr>cs_objects = [], cs_names = []\<rparr>"

text \<open>A new object takes the next position; objects are never overwritten as a whole.\<close>

definition add_cluster :: "cluster_config \<Rightarrow> cluster_store \<Rightarrow> cluster_store" where
  "add_cluster c st =
     \<lparr>cs_objects = cs_objects st @ [c],
      cs_names = dict_set (cl_name c) (length (cs_objects st)) (cs_names st)\<rparr>"

definition remove_cluster :: "string \<Rightarrow> cluster_store \<Rightarrow> cluster_store" where
  "remove_cluster name st = st\<lparr>cs_names := dict_pop name (cs_names st)\<rparr>"

definition get_clusters :: "cluster_store \<Rightarrow> cluster_config list" where
  "get_clusters st = map (\<lambda>r. cs_objects st ! r) (dict_values (cs_names st))"

definition get_cluster_ref :: "cluster_store \<Rightarrow> string \<Rightarrow> nat option" where
  "get_cluster_ref st name = dict_get (cs_names st) name"

definition get_cluster :: "cluster_store \<Rightarrow> string \<Rightarrow> cluster_config option" where
  "get_cluster st name = map_option (\<lambda>r. cs_objects st ! r) (get_cluster_ref st name)"

text \<open>Attributes of a shared object are assigned through a reference.\<close>

definition modify_cluster :: "nat \<Rightarrow> (cluster_config \<Rightarrow> cluster_config) \<Rightarrow> cluster_store \<Rightarrow> cluster_store" where
  "modify_cluster r f st = st\<lparr>cs_objects := (cs_objects st)[r := f (cs_objects st ! r)]\<rparr>"

section \<open>Cluster configuration handlers\<close>

text \<open>
  The index of secrets kept by the operator framework: for an opaque secret the entry
  under its namespace and name is its data. The index itself is the framework's; here it
  is a function from namespace and name to the first value indexed.
\<close>

definition secrets_index :: "string \<Rightarrow> string \<Rightarrow> pyval \<Rightarrow> ((string \<times> string) \<times> pyval) option result" where
  "secrets_index namespace name body =
     bindE (py_get body ''type'') (\<lambda>t.
       if py_eq t (PStr ''Opaque'')
       then bindE (xgetattr body ''data'' (PDict [])) (\<lambda>d. Inr (Some ((namespace, name), d)))
       else Inr None)"

type_synonym secrets = "string \<Rightarrow> string \<Rightarrow> pyval option"

text \<open>The delay of the temporary errors, longer from the first retry on.\<close>

definition retry_delay :: "int \<Rightarrow> int" where
  "retry_delay retry = (if retry = 0 then 5 else 15)"

definition indexed_secret :: "secrets \<Rightarrow> string \<Rightarrow> pyval \<Rightarrow> pyval result" where
  "indexed_secret index namespace name =
     (case name of
        PStr n \<Rightarrow> (case index namespace n of None \<Rightarrow> Inl (TemporaryError 5) | Some d \<Rightarrow> Inr d)
      | PList _ \<Rightarrow> Inl TypeError | PDict _ \<Rightarrow> Inl TypeError
      | _ \<Rightarrow> Inl (TemporaryError 5))"

text \<open>\<open>xgetattr(data, key, "").encode("UTF-8")\<close>, the encoded text under the key.\<close>

definition encoded_config :: "pyval \<Rightarrow> pyval \<Rightarrow> string result" where
  "encoded_config d key =
     (case key of
        PStr k \<Rightarrow> bindE (xgetattr d k (PStr [])) (\<lambda>v.
          case v of PStr s \<Rightarrow> Inr s | _ \<Rightarrow> Inl AttributeError)
      | _ \<Rightarrow> Inl AttributeError)"

text \<open>\<open>except ValueError\<close> around a call, turned into a temporary error.\<close>

definition retry_on_value_error :: "int \<Rightarrow> 'a result \<Rightarrow> 'a result" where
  "retry_on_value_error retry m =
     (case m of Inl ValueError \<Rightarrow> Inl (TemporaryError (retry_delay retry)) | _ \<Rightarrow> m)"

text \<open>
  The kubeconfig of a cluster whose credentials are in a secret. \<open>load_yaml\<close> stands for
  \<open>yaml.safe_load\<close>, \<open>None\<close> for \<open>yaml.YAMLError\<close>. An error of the base64 decoder is not a
  \<open>YAMLError\<close> and passes through.
\<close>

definition kubeconfig_from_secret ::
    "(string \<Rightarrow> pyval option) \<Rightarrow> secrets \<Rightarrow> string \<Rightarrow> pyval \<Rightarrow> int \<Rightarrow> pyval \<Rightarrow> pyval result" where
  "kubeconfig_from_secret load_yaml index namespace spec retry secret_ref_name =
     bindE (xgetattr spec ''credentials.kubeconfig.secretRef.key'' (PStr ''config'')) (\<lambda>config_key.
     bindE (indexed_secret index namespace secret_ref_name) (\<lambda>cluster_config_data.
     bindE (py_in config_key cluster_config_data) (\<lambda>present.
       if \<not> present then Inl (TemporaryError (retry_delay retry))
       else
         bindE (encoded_config cluster_config_data config_key) (\<lambda>encoded.
         bindE (b64decode encoded) (\<lambda>decoded.
           case load_yaml decoded of
             None \<Rightarrow> Inl (TemporaryError (retry_delay retry))
           | Some kubeconfig \<Rightarrow>
               bindE (retry_on_value_error retry (verify_kubeconfig_format kubeconfig)) (\<lambda>_.
               bindE (xgetattr spec ''credentials.kubeconfig.context'' PNone) (\<lambda>context.
                 retry_on_value_error retry (extract_context_from_kubeconfig kubeconfig context))))))))"

text \<open>A new object for an unknown cluster; otherwise two attributes of the known one are assigned.\<close>

definition store_cluster :: "string \<Rightarrow> pyval \<Rightarrow> pyval \<Rightarrow> pyval \<Rightarrow> cluster_store \<Rightarrow> cluster_store" where
  "store_cluster name uid labels kubeconfig st =
     (case get_cluster_ref st name of
        None \<Rightarrow> add_cluster (new_cluster name uid labels kubeconfig) st
      | Some r \<Rightarrow> modify_cluster r (\<lambda>c. c\<lparr>cl_labels := labels, cl_kubeconfig := kubeconfig\<rparr>) st)"

text \<open>\<open>token\<close> and \<open>ca\<close> are the contents of the mounted access token secret.\<close>

definition clusterconfigs_update ::
    "(string \<Rightarrow> pyval option) \<Rightarrow> string \<Rightarrow> string \<Rightarrow> secrets \<Rightarrow> string \<Rightarrow> string \<Rightarrow> pyval \<Rightarrow> pyval \<Rightarrow> int
     \<Rightarrow> cluster_store \<Rightarrow> cluster_store result" where
  "clusterconfigs_update load_yaml token ca index namespace name uid spec retry st =
     bindE (xgetattr spec ''credentials.kubeconfig.secretRef.name'' PNone) (\<lambda>secret_ref_name.
     bindE (if secret_ref_name \<noteq> PNone
            then kubeconfig_from_secret load_yaml index namespace spec retry secret_ref_name
            else Inr (create_kubeconfig_from_access_token_secret token ca name
                        ''https://kubernetes.default.svc'')) (\<lambda>kubeconfig.
     bindE (xgetattr spec ''labels'' (PList [])) (\<lambda>labels.
       Inr (store_cluster name uid labels kubeconfig st))))"

definition clusterconfigs_delete :: "string \<Rightarrow> cluster_store \<Rightarrow> cluster_store" where
  "clusterconfigs_delete name st = remove_cluster name st"

text \<open>
  The daemon of a cluster configuration: the object to run an operator on, or a retry
  while the database does not hold an object of the same uid.
\<close>

definition clusterconfigs_daemon :: "string \<Rightarrow> pyval \<Rightarrow> int \<Rightarrow> cluster_store \<Rightarrow> nat result" where
  "clusterconfigs_daemon name uid retry st =
     (case get_cluster_ref st name of
        None \<Rightarrow> Inl (TemporaryError (retry_delay retry))
      | Some r \<Rightarrow>
          if \<not> py_eq (cl_uid (cs_objects st ! r)) uid then Inl (TemporaryError (retry_delay retry))
          else Inr r)"

section \<open>The cluster database as a registry\<close>

definition store_ok :: "cluster_store \<Rightarrow> bool" where
  "store_ok st \<longleftrightarrow>
     distinct (dict_keys (cs_names st)) \<and> distinct (dict_values (cs_names st)) \<and>
     (\<forall>(n, r)\<in>set (cs_names st). r < length (cs_objects st) \<and> cl_name (cs_objects st ! r) = n)"

lemma store_ok_empty [simp]: "store_ok empty_store"
  by (simp add: store_ok_def empty_store_def)

lemma store_ref_bound:
  "store_ok st \<Longrightarrow> get_cluster_ref st n = Some r \<Longrightarrow> r < length (cs_objects st) \<and> cl_name (cs_objects st ! r) = n"
  by (auto simp: store_ok_def get_cluster_ref_def dest!: map_of_SomeD)

lemma store_ok_add:
  assumes "store_ok st"
  shows "store_ok (add_cluster c st)"
proof -
  let ?r = "length (cs_objects st)"
  have keys: "distinct (dict_keys (cs_names st))" and vals: "distinct (dict_values (cs_names st))"
    and bound: "\<And>n r. (n, r) \<in> set (cs_names st) \<Longrightarrow> r < ?r \<and> cl_name (cs_objects st ! r) = n"
    using assms by (auto simp: store_ok_def)
  have "distinct (dict_values (dict_set k v d))"
    if "distinct (dict_keys d)" "distinct (dict_values d)" "v \<notin> set (dict_values d)"
    for k and v :: nat and d :: "(string, nat) dict"
    using that
  proof (induction d)
    case (Cons x d)
    have "set (dict_values (dict_set k v d)) \<subseteq> insert v (set (dict_values d))"
      using Cons.prems(1) by (auto simp: set_dict_set)
    with Cons show ?case by auto
  qed simp
  moreover have "?r \<notin> set (dict_values (cs_names st))" using bound by fastforce
  ultimately have "distinct (dict_values (dict_set (cl_name c) ?r (cs_names st)))"
    using keys vals by blast
  moreover have "r < length (cs_objects st @ [c]) \<and> cl_name ((cs_objects st @ [c]) ! r) = n"
    if "(n, r) \<in> set (dict_set (cl_name c) ?r (cs_names st))" for n r
    using that bound keys by (auto simp: set_dict_set nth_append)
  ultimately show ?thesis
    using keys by (auto simp: store_ok_def add_cluster_def distinct_update)
qed

lemma store_ok_remove:
  assumes "store_ok st"
  shows "store_ok (remove_cluster n st)"
proof -
  have "distinct (dict_values (dict_pop k d))" if "distinct (dict_values d)" for k and d :: "(string, nat) dict"
    using that by (induction d) (auto simp: set_dict_pop)
  with assms show ?thesis
    by (auto simp: store_ok_def remove_cluster_def distinct_delete set_dict_pop)
qed

lemma store_ok_modify:
  assumes "store_ok st" and "\<And>c. cl_name (f c) = cl_name c"
  shows "store_ok (modify_cluster r f st)"
  using assms
  by (cases "r < length (cs_objects st)")
    (auto simp: store_ok_def modify_cluster_def nth_list_update list_update_beyond)

lemma get_cluster_add:
  assumes "store_ok st"
  shows "get_cluster (add_cluster c st) n = (if n = cl_name c then Some c else get_cluster st n)"
proof -
  have "r < length (cs_objects st)" if "dict_get (cs_names st) n = Some r" for r
    using store_ref_bound [OF assms, of n r] that by (simp add: get_cluster_ref_def)
  then show ?thesis
    by (cases "dict_get (cs_names st) n") (auto simp: get_cluster_def get_cluster_ref_def add_cluster_def nth_append)
qed

lemma store_refs_inj:
  assumes "store_ok st" and "get_cluster_ref st m = Some r" and "get_cluster_ref st n = Some r"
  shows "m = n"
  using store_ref_bound [OF assms(1,2)] store_ref_bound [OF assms(1,3)] by simp

text \<open>Assigning to the object of one name leaves the objects of all other names alone.\<close>

lemma get_cluster_modify:
  assumes "store_ok st"
  shows "get_cluster (modify_cluster r f st) n =
    (if get_cluster_ref st n = Some r then map_option f (get_cluster st n) else get_cluster st n)"
  using store_ref_bound [OF assms, of n]
  by (cases "get_cluster_ref st n")
    (auto simp: get_cluster_def get_cluster_ref_def modify_cluster_def nth_list_update)

lemma get_cluster_ref_modify [simp]: "get_cluster_ref (modify_cluster r f st) n = get_cluster_ref st n"
  by (simp add: get_cluster_ref_def modify_cluster_def)

interpretation clusters: fresh_registry
  add_cluster remove_cluster get_cluster get_clusters cl_name store_ok empty_store
proof (unfold_locales, goal_cases)
  case (1 st c n)
  then show ?case by (rule get_cluster_add)
next
  case (2 st n k)
  then show ?case by (simp add: get_cluster_def get_cluster_ref_def remove_cluster_def)
next
  case (3 st c)
  then have keys: "distinct (dict_keys (cs_names st))" by (simp add: store_ok_def)
  show ?case
  proof
    assume "c \<in> set (get_clusters st)"
    then obtain n r where "(n, r) \<in> set (cs_names st)" "c = cs_objects st ! r"
      by (auto simp: get_clusters_def)
    with 3 keys show "get_cluster st (cl_name c) = Some c"
      by (auto simp: get_cluster_def get_cluster_ref_def store_ok_def)
  next
    assume "get_cluster st (cl_name c) = Some c"
    then show "c \<in> set (get_clusters st)"
      by (force simp: get_clusters_def get_cluster_def get_cluster_ref_def dest!: map_of_SomeD)
  qed
next
  case (4 st)
  then have "map cl_name (get_clusters st) = dict_keys (cs_names st)"
    by (auto simp: get_clusters_def store_ok_def)
  with 4 show ?case by (simp add: store_ok_def)
next
  case (5 st n c)
  then show ?case
    using store_ref_bound [of st n] by (auto simp: get_cluster_def)
qed (simp_all add: store_ok_add store_ok_remove get_cluster_def get_cluster_ref_def empty_store_def
    store_ok_empty [unfolded empty_store_def])

section \<open>Lemmas\<close>

lemma path_parts [path_simps]:
  "xgetattr obj ''credentials.kubeconfig.secretRef.name'' d =
     xget_keys [''credentials'', ''kubeconfig'', ''secretRef'', ''name''] obj d d"
  "xgetattr obj ''credentials.kubeconfig.secretRef.key'' d =
     xget_keys [''credentials'', ''kubeconfig'', ''secretRef'', ''key''] obj d d"
  "xgetattr obj ''credentials.kubeconfig.context'' d =
     xget_keys [''credentials'', ''kubeconfig'', ''context''] obj d d"
  "xgetattr obj ''labels'' d = xget_keys [''labels''] obj d d"
  by (simp_all add: xgetattr_def)

lemma store_ok_store:
  assumes "store_ok st"
  shows "store_ok (store_cluster name uid labels kubeconfig st)"
  using assms by (simp add: store_cluster_def store_ok_add store_ok_modify split: option.splits)

lemma get_cluster_store:
  assumes "store_ok st"
  shows "get_cluster (store_cluster name uid labels kubeconfig st) n =
    (if n = name then Some (case get_cluster st name of
         None \<Rightarrow> new_cluster name uid labels kubeconfig
       | Some b \<Rightarrow> b\<lparr>cl_labels := labels, cl_kubeconfig := kubeconfig\<rparr>)
     else get_cluster st n)"
proof (cases "get_cluster_ref st name")
  case None
  then show ?thesis
    by (simp add: store_cluster_def get_cluster_add [OF assms] get_cluster_def [of st name] new_cluster_def)
next
  case (Some r)
  have "get_cluster_ref st n = Some r \<longleftrightarrow> n = name"
    using store_refs_inj [OF assms Some, of n] Some by auto
  with Some show ?thesis
    by (auto simp: store_cluster_def get_cluster_modify [OF assms] get_cluster_def [of st name])
qed

lemma clusterconfigs_update_store:
  assumes "clusterconfigs_update load_yaml token ca index ns name uid spec retry st = Inr st'"
  shows "\<exists>labels kubeconfig. st' = store_cluster name uid labels kubeconfig st"
  using assms by (auto simp: clusterconfigs_update_def bindE_Inr_iff)

section \<open>Properties\<close>

text \<open>
  A cluster configuration that refers to a key of a known secret, without a dot in
  its name, under which a well-formed kubeconfig with the wanted context is stored in
  base64, is registered: afterwards the database has a cluster of that name with exactly
  the extracted context as its kubeconfig and the labels of the resource. A cluster that
  was known before keeps its uid and all its portals; no other cluster changes.
\<close>

theorem cluster_config_registered:
  assumes "store_ok st"
    and "xgetattr spec ''credentials.kubeconfig.secretRef.name'' PNone = Inr (PStr ref)"
    and "xgetattr spec ''credentials.kubeconfig.secretRef.key'' (PStr ''config'') = Inr (PStr key)"
    and "CHR ''.'' \<notin> set key"
    and "index ns ref = Some (PDict d)" and "dict_get d key = Some (PStr (b64encode content))"
    and "load_yaml content = Some kc" and "verify_kubeconfig_format kc = Inr ()"
    and "xgetattr spec ''credentials.kubeconfig.context'' PNone = Inr ctx"
    and "extract_context_from_kubeconfig kc ctx = Inr doc"
    and "xgetattr spec ''labels'' (PList []) = Inr labels"
  shows "\<exists>st' c. clusterconfigs_update load_yaml token ca index ns name uid spec retry st = Inr st' \<and>
    get_cluster st' name = Some c \<and> cl_kubeconfig c = doc \<and> cl_labels c = labels \<and>
    (case get_cluster st name of
       None \<Rightarrow> cl_uid c = uid \<and> cl_portals c = []
     | Some b \<Rightarrow> cl_uid c = cl_uid b \<and> cl_portals c = cl_portals b) \<and>
    (\<forall>n. n \<noteq> name \<longrightarrow> get_cluster st' n = get_cluster st n)"
proof -
  have "encoded_config (PDict d) (PStr key) = Inr (b64encode content)"
    using assms(4,6) by (simp add: encoded_config_def xgetattr_single)
  then have kc: "kubeconfig_from_secret load_yaml index ns spec retry (PStr ref) = Inr doc"
    using assms(3,5-10)
    by (simp add: kubeconfig_from_secret_def indexed_secret_def b64decode_encode retry_on_value_error_def)
  then have "clusterconfigs_update load_yaml token ca index ns name uid spec retry st =
      Inr (store_cluster name uid labels doc st)"
    using assms(2,11) by (simp add: clusterconfigs_update_def)
  then show ?thesis
    by (auto simp: get_cluster_store [OF assms(1)] new_cluster_def split: option.splits)
qed

definition config_spec :: "string \<Rightarrow> pyval" where
  "config_spec key = PDict [(''credentials'', PDict [(''kubeconfig'', PDict
     [(''secretRef'', PDict [(''name'', PStr ''s''), (''key'', PStr key)]), (''context'', PStr ''prod'')])])]"

theorem cluster_config_registered_witness:
  "\<exists>st' c. clusterconfigs_update (\<lambda>t. if t = ''doc'' then Some sample_kubeconfig else None) [] []
       (\<lambda>ns n. if n = ''s'' then Some (PDict [(''config'', PStr (b64encode ''doc''))]) else None)
       ''ns'' ''c'' (PStr ''u'') (config_spec ''config'') 0 empty_store = Inr st' \<and>
     get_cluster st' ''c'' = Some c \<and> bindE (Inr (cl_kubeconfig c)) verify_kubeconfig_format = Inr ()"
proof -
  have "case extract_context_from_kubeconfig sample_kubeconfig (PStr ''prod'') of Inl _ \<Rightarrow> False
      | Inr doc \<Rightarrow> verify_kubeconfig_format doc = Inr ()"
    by code_simp
  then obtain doc where doc: "extract_context_from_kubeconfig sample_kubeconfig (PStr ''prod'') = Inr doc"
    "verify_kubeconfig_format doc = Inr ()"
    by (auto split: sum.splits)
  have spec: "xgetattr (config_spec ''config'') ''credentials.kubeconfig.secretRef.name'' PNone = Inr (PStr ''s'')"
    "xgetattr (config_spec ''config'') ''credentials.kubeconfig.secretRef.key'' (PStr ''config'') = Inr (PStr ''config'')"
    "xgetattr (config_spec ''config'') ''credentials.kubeconfig.context'' PNone = Inr (PStr ''prod'')"
    "xgetattr (config_spec ''config'') ''labels'' (PList []) = Inr (PList [])"
    by (simp_all add: config_spec_def path_simps)
  have key: "CHR ''.'' \<notin> set ''config''" by simp
  show ?thesis
    using cluster_config_registered [OF store_ok_empty spec(1,2) key _ _ _ sample_kubeconfig_format spec(3) doc(1) spec(4),
        of "\<lambda>ns n. if n = ''s'' then Some (PDict [(''config'', PStr (b64encode ''doc''))]) else None" "''ns''"
          "[(''config'', PStr (b64encode ''doc''))]" "''doc''"
          "\<lambda>t. if t = ''doc'' then Some sample_kubeconfig else None" "[]" "[]" "''c''" "PStr ''u''" 0]
      doc(2)
    by auto
qed

text \<open>
  A key with a dot in its name, such as \<open>config.yaml\<close>, never works: the key is found in
  the secret, but its data is then looked up as a dotted path, which finds nothing, so the
  empty document is loaded in its place and the format check raises \<open>AttributeError\<close>, which
  is not among the errors that are reported and retried.
\<close>

theorem dotted_key_unusable:
  assumes "xgetattr spec ''credentials.kubeconfig.secretRef.name'' PNone = Inr (PStr ref)"
    and "xgetattr spec ''credentials.kubeconfig.secretRef.key'' (PStr ''config'') =
      Inr (PStr (a @ CHR ''.'' # b))" and "CHR ''.'' \<notin> set a"
    and "index ns ref = Some (PDict d)" and "dict_get d (a @ CHR ''.'' # b) = Some v"
    and "dict_get d a = None" and "load_yaml [] = Some PNone"
  shows "clusterconfigs_update load_yaml token ca index ns name uid spec retry st = Inl AttributeError"
proof -
  have "split_on CHR ''.'' (a @ CHR ''.'' # b) = a # split_on CHR ''.'' b"
    using assms(3) by (induction a) auto
  then have "encoded_config (PDict d) (PStr (a @ CHR ''.'' # b)) = Inr []"
    using assms(6) by (simp add: encoded_config_def xgetattr_def)
  then show ?thesis
    using assms
    by (simp add: clusterconfigs_update_def kubeconfig_from_secret_def indexed_secret_def b64decode_def
        verify_kubeconfig_format_def retry_on_value_error_def)
qed

theorem dotted_key_unusable_witness:
  "clusterconfigs_update (\<lambda>t. if t = [] then Some PNone else Some sample_kubeconfig) [] []
     (\<lambda>ns n. Some (PDict [(''config.yaml'', PStr (b64encode ''doc''))]))
     ''ns'' ''c'' (PStr ''u'') (config_spec ''config.yaml'') 0 empty_store = Inl AttributeError"
  by (rule dotted_key_unusable [where ref = "''s''" and a = "''config''" and b = "''yaml''"
        and v = "PStr (b64encode ''doc'')" and d = "[(''config.yaml'', PStr (b64encode ''doc''))]"])
    (simp_all add: config_spec_def path_simps)

end
