(* ===== verification/Lookup_Auth.thy ===== *)
theory Lookup_Auth
  imports Lookup_Service
begin

text \<open>
  Requests to the REST API and the control of access to it
  (\<open>lookup-service/service/routes/authnz.py\<close>): the middleware that decodes the bearer
  token, the two decorators of the handlers, login and logout. The JWT library is a
  parameter: \<open>encode claims secret\<close> and \<open>decode token secret now\<close>.
\<close>

section \<open>The service state, requests and responses\<close>

record service_state =
  sv_clients :: client_database
  sv_tenants :: tenant_database
  sv_clusters :: cluster_store

datatype body = Json pyval | Text string

record response =
  rs_status :: nat
  rs_body :: body

definition json_response :: "pyval \<Rightarrow> response" where
  "json_response v = \<lparr>rs_status = 200, rs_body = Json v\<rparr>"

definition text_response :: "nat \<Rightarrow> string \<Rightarrow> response" where
  "text_response status t = \<lparr>rs_status = status, rs_body = Text t\<rparr>"

text \<open>
  A request with what aiohttp makes of it (header, path and query parameters, body) and
  the entries the middleware and the decorators store in it.
\<close>

record request =
  rq_authorization :: "string option"
  rq_match :: "(string, string) dict"
  rq_query :: "(string, string) dict"
  rq_json :: "pyval result"
  rq_token :: "pyval option"
  rq_client :: "client_config option"
  rq_roles :: "string list option"

text \<open>\<open>request[key]\<close> raises \<open>KeyError\<close> when the entry was not stored.\<close>

definition entry :: "'a option \<Rightarrow> 'a result" where
  "entry x = (case x of None \<Rightarrow> Inl KeyError | Some v \<Rightarrow> Inr v)"

lemma entry_simps [simp]: "entry None = Inl KeyError" "entry (Some v) = Inr v"
  by (simp_all add: entry_def)

lemma entry_Inr: "entry x = Inr v \<longleftrightarrow> x = Some v"
  by (simp add: entry_def split: option.splits)

type_synonym handler = "service_state \<Rightarrow> request \<Rightarrow> response result"

datatype jwt_error = ExpiredSignatureError | InvalidTokenError

type_synonym jwt_encode = "pyval \<Rightarrow> string \<Rightarrow> string"
type_synonym jwt_decode = "string \<Rightarrow> string \<Rightarrow> int \<Rightarrow> jwt_error + pyval"

section \<open>Tokens\<close>

definition token_expiration :: int where
  "token_expiration = 72"

definition token_claims :: "client_config \<Rightarrow> int \<Rightarrow> pyval" where
  "token_claims c expires_at =
     PDict [(''sub'', PStr (ci_name c)), (''jti'', PStr (identity c)), (''exp'', PInt expires_at)]"

text \<open>\<open>now\<close> is the time in seconds; the expiry is 72 hours later.\<close>

definition generate_login_response :: "jwt_encode \<Rightarrow> string \<Rightarrow> int \<Rightarrow> client_config \<Rightarrow> pyval" where
  "generate_login_response enc secret now c =
     (let expires_at = now + token_expiration * 3600
      in PDict
        [(''access_token'', PStr (enc (token_claims c expires_at) secret)),
         (''token_type'', PStr ''Bearer''),
         (''expires_at'', PInt expires_at)])"

definition decode_client_token :: "jwt_decode \<Rightarrow> string \<Rightarrow> int \<Rightarrow> string \<Rightarrow> jwt_error + pyval" where
  "decode_client_token dec secret now token = dec token secret now"

text \<open>
  What the middleware makes of the header: a response that refuses the request, or the
  request to pass on, with the decoded token when there is one.
\<close>

definition read_authorization :: "jwt_decode \<Rightarrow> string \<Rightarrow> int \<Rightarrow> request \<Rightarrow> (response + request) result" where
  "read_authorization dec secret now rq =
     (case rq_authorization rq of
        None \<Rightarrow> Inr (Inr rq)
      | Some authorization \<Rightarrow>
          if authorization = [] then Inr (Inr rq)
          else
            (let parts = split_ws authorization in
             if length parts \<noteq> 2 then Inr (Inl (text_response 400 ''Invalid Authorization header''))
             else if lower (parts ! 0) \<noteq> ''bearer''
             then Inr (Inl (text_response 400 ''Invalid Authorization header''))
             else
               (case decode_client_token dec secret now (parts ! 1) of
                  Inl ExpiredSignatureError \<Rightarrow> Inr (Inl (text_response 401 ''JWT token has expired''))
                | Inl InvalidTokenError \<Rightarrow> Inr (Inl (text_response 401 ''JWT token is invalid''))
                | Inr decoded \<Rightarrow>
                    bindE (py_index decoded ''sub'') (\<lambda>sub. Inr (Inr (rq\<lparr>rq_token := Some decoded\<rparr>))))))"

definition jwt_token_middleware :: "jwt_decode \<Rightarrow> string \<Rightarrow> int \<Rightarrow> handler \<Rightarrow> handler" where
  "jwt_token_middleware dec secret now h s rq =
     bindE (read_authorization dec secret now rq) (\<lambda>r.
       case r of Inl refusal \<Rightarrow> Inr refusal | Inr rq' \<Rightarrow> h s rq')"

text \<open>
  The check that \<open>login_required\<close> and \<open>api_auth_logout\<close> share: the client of the token, or
  the response that refuses the request.
\<close>

definition check_token :: "client_database \<Rightarrow> request \<Rightarrow> (response + client_config) result" where
  "check_token db rq =
     (case rq_token rq of
        None \<Rightarrow> Inr (Inl (text_response 400 ''JWT token not supplied''))
      | Some decoded \<Rightarrow>
          bindE (py_index decoded ''sub'') (\<lambda>sub.
          bindE (get_client db sub) (\<lambda>client.
            case client of
              None \<Rightarrow> Inr (Inl (text_response 401 ''Client details not found''))
            | Some c \<Rightarrow>
                bindE (py_index decoded ''jti'') (\<lambda>jti.
                  if \<not> validate_identity c jti
                  then Inr (Inl (text_response 401 ''Client identity does not match''))
                  else Inr (Inr c)))))"

definition login_required :: "handler \<Rightarrow> handler" where
  "login_required h s rq =
     bindE (check_token (sv_clients s) rq) (\<lambda>r.
       case r of Inl refusal \<Rightarrow> Inr refusal | Inr c \<Rightarrow> h s (rq\<lparr>rq_client := Some c\<rparr>))"

definition roles_accepted :: "string list \<Rightarrow> handler \<Rightarrow> handler" where
  "roles_accepted roles h s rq =
     bindE (entry (rq_client rq)) (\<lambda>client.
     bindE (has_required_role client roles) (\<lambda>matched_roles.
       if matched_roles = [] then Inr (text_response 403 ''Client access not permitted'')
       else h s (rq\<lparr>rq_roles := Some matched_roles\<rparr>)))"

section \<open>Login and logout\<close>

definition api_auth_login :: "jwt_encode \<Rightarrow> string \<Rightarrow> int \<Rightarrow> handler" where
  "api_auth_login enc secret now s rq =
     bindE (rq_json rq) (\<lambda>data.
     bindE (py_get data ''username'') (\<lambda>username.
     bindE (py_get data ''password'') (\<lambda>password.
       if username = PNone then Inr (text_response 400 ''No username provided'')
       else if password = PNone then Inr (text_response 400 ''No password provided'')
       else
         bindE (authenticate_client (sv_clients s) username password) (\<lambda>client.
           case client of
             None \<Rightarrow> Inr (text_response 401 ''Invalid username/password'')
           | Some c \<Rightarrow> Inr (json_response (generate_login_response enc secret now c))))))"

text \<open>
  Logout is the one handler that changes the state: the client object in the database
  has its tokens revoked.
\<close>

definition api_auth_logout :: "service_state \<Rightarrow> request \<Rightarrow> (response \<times> service_state) result" where
  "api_auth_logout s rq =
     bindE (check_token (sv_clients s) rq) (\<lambda>r.
       case r of
         Inl refusal \<Rightarrow> Inr (refusal, s)
       | Inr c \<Rightarrow>
           Inr (json_response (PDict []),
                s\<lparr>sv_clients := update_client (revoke_tokens c) (sv_clients s)\<rparr>))"

definition api_auth_verify :: handler where
  "api_auth_verify = login_required (\<lambda>s rq. Inr (json_response (PDict [])))"

text \<open>The logout route behind the middleware.\<close>

definition serve_logout ::
    "jwt_decode \<Rightarrow> string \<Rightarrow> int \<Rightarrow> service_state \<Rightarrow> request \<Rightarrow> (response \<times> service_state) result" where
  "serve_logout dec secret now s rq =
     bindE (read_authorization dec secret now rq) (\<lambda>r.
       case r of Inl refusal \<Rightarrow> Inr (refusal, s) | Inr rq' \<Rightarrow> api_auth_logout s rq')"

section \<open>Lemmas\<close>

text \<open>
  The documented behaviour of the JWT library, for the claims the service signs: a token
  is a compact text without white space, decoding a token with the secret it was signed
  with gives its claims back until the expiry time, and reports it as expired from then
  on.
\<close>

definition jwt_documented :: "jwt_encode \<Rightarrow> jwt_decode \<Rightarrow> string \<Rightarrow> bool" where
  "jwt_documented enc dec secret \<longleftrightarrow>
     (\<forall>c e now.
        enc (token_claims c e) secret \<noteq> [] \<and>
        list_all (\<lambda>ch. \<not> str_space ch) (enc (token_claims c e) secret) \<and>
        dec (enc (token_claims c e) secret) secret now =
          (if e \<le> now then Inl ExpiredSignatureError else Inr (token_claims c e)))"

definition bearer :: "string \<Rightarrow> string option" where
  "bearer token = Some (''Bearer '' @ token)"

lemma read_bearer:
  assumes "jwt_documented enc dec secret" and "rq_authorization rq = bearer (enc (token_claims c e) secret)"
  shows "read_authorization dec secret now rq =
    (if e \<le> now then Inr (Inl (text_response 401 ''JWT token has expired''))
     else Inr (Inr (rq\<lparr>rq_token := Some (token_claims c e)\<rparr>)))"
proof -
  let ?t = "enc (token_claims c e) secret"
  have t: "?t \<noteq> []" "list_all (\<lambda>ch. \<not> str_space ch) ?t"
    and dec: "dec ?t secret now = (if e \<le> now then Inl ExpiredSignatureError else Inr (token_claims c e))"
    using assms(1) by (simp_all add: jwt_documented_def)
  have "split_ws (''Bearer'' @ CHR '' '' # ?t) = [''Bearer'', ?t]"
    by (rule split_ws_two) (use t in \<open>simp_all add: str_space_def\<close>)
  moreover have "lower ''Bearer'' = ''bearer''" by code_simp
  ultimately show ?thesis
    using assms(2) dec
    by (simp add: read_authorization_def bearer_def decode_client_token_def token_claims_def)
qed

lemma check_token_claims:
  assumes "rq_token rq = Some (token_claims c e)"
  shows "check_token db rq =
    (case dict_get db (ci_name c) of
       None \<Rightarrow> Inr (Inl (text_response 401 ''Client details not found''))
     | Some d \<Rightarrow> if identity d = identity c then Inr (Inr d)
         else Inr (Inl (text_response 401 ''Client identity does not match'')))"
  using assms
  by (auto simp: check_token_def token_claims_def validate_identity_def split: option.splits)

lemma identity_issue: "ci_uid c = ci_uid d \<Longrightarrow> identity c = identity d \<longleftrightarrow> ci_issue c = ci_issue d"
  by (simp add: identity_def show_int_inject)

lemma authenticate_client_Some:
  assumes "authenticate_client db u p = Inr (Some c)"
  shows "\<exists>n. u = PStr n \<and> dict_get db n = Some c \<and> check_password c p"
  using assms
  by (cases u) (auto simp: authenticate_client_def get_client_def bindE_Inr_iff split: option.splits if_splits)

lemma api_auth_login_ok:
  assumes "api_auth_login enc secret now s rq = Inr r" and "rs_status r = 200"
  shows "\<exists>d n p c. rq_json rq = Inr d \<and> py_get d ''username'' = Inr (PStr n) \<and> py_get d ''password'' = Inr p \<and>
    dict_get (sv_clients s) n = Some c \<and> check_password c p \<and>
    r = json_response (generate_login_response enc secret now c)"
proof -
  from assms(1) obtain d u p where d: "rq_json rq = Inr d" "py_get d ''username'' = Inr u"
    "py_get d ''password'' = Inr p"
    by (auto simp: api_auth_login_def bindE_Inr_iff)
  with assms have "u \<noteq> PNone" "p \<noteq> PNone"
    by (auto simp: api_auth_login_def text_response_def split: if_splits)
  with assms(1) d obtain x where x: "authenticate_client (sv_clients s) u p = Inr x"
    by (auto simp: api_auth_login_def bindE_Inr_iff)
  then obtain c where "x = Some c"
    using assms d \<open>u \<noteq> PNone\<close> \<open>p \<noteq> PNone\<close>
    by (cases x) (auto simp: api_auth_login_def text_response_def)
  with x d assms(1) \<open>u \<noteq> PNone\<close> \<open>p \<noteq> PNone\<close> authenticate_client_Some [of "sv_clients s" u p c]
  show ?thesis by (auto simp: api_auth_login_def)
qed

text \<open>Logouts of any clients, in any number.\<close>

inductive logouts :: "jwt_decode \<Rightarrow> string \<Rightarrow> service_state \<Rightarrow> service_state \<Rightarrow> bool"
  for dec :: jwt_decode and secret :: string where
  logouts_none: "logouts dec secret s s"
| logouts_step: "logouts dec secret s s1 \<Longrightarrow> serve_logout dec secret now s1 rq = Inr (r, s2)
    \<Longrightarrow> logouts dec secret s s2"

definition clients_ok :: "service_state \<Rightarrow> bool" where
  "clients_ok s \<longleftrightarrow> keyed_by ci_name (sv_clients s)"

lemma check_token_Inr_client:
  assumes "clients_ok s" and "check_token (sv_clients s) rq = Inr (Inr c)"
  shows "dict_get (sv_clients s) (ci_name c) = Some c"
proof -
  from assms(2) obtain v where "get_client (sv_clients s) v = Inr (Some c)"
    by (auto simp: check_token_def bindE_Inr_iff split: option.splits if_splits)
  then obtain n where "dict_get (sv_clients s) n = Some c"
    by (cases v) (auto simp: get_client_def)
  with assms(1) show ?thesis by (auto simp: clients_ok_def dest: keyed_by_get)
qed

lemma api_auth_logout_effect:
  assumes "clients_ok s" and "api_auth_logout s rq = Inr (r, s')"
  shows "clients_ok s' \<and>
    (s' = s \<or> (\<exists>c. dict_get (sv_clients s) (ci_name c) = Some c \<and>
       sv_clients s' = update_client (revoke_tokens c) (sv_clients s)))"
proof -
  from assms(2) obtain x where x: "check_token (sv_clients s) rq = Inr x"
    by (auto simp: api_auth_logout_def bindE_Inr_iff)
  show ?thesis
  proof (cases x)
    case (Inl refusal)
    with x assms show ?thesis by (simp add: api_auth_logout_def)
  next
    case (Inr c)
    with x assms check_token_Inr_client [of s rq c] show ?thesis
      by (auto simp: api_auth_logout_def clients_ok_def update_client_def)
  qed
qed

lemma serve_logout_effect:
  assumes "clients_ok s" and "serve_logout dec secret now s rq = Inr (r, s')"
  shows "clients_ok s' \<and>
    (s' = s \<or> (\<exists>c. dict_get (sv_clients s) (ci_name c) = Some c \<and>
       sv_clients s' = update_client (revoke_tokens c) (sv_clients s)))"
proof -
  from assms(2) obtain x where x: "read_authorization dec secret now rq = Inr x"
    by (auto simp: serve_logout_def bindE_Inr_iff)
  show ?thesis
  proof (cases x)
    case (Inl refusal)
    with x assms show ?thesis by (simp add: serve_logout_def)
  next
    case (Inr rq')
    with x assms(2) have "api_auth_logout s rq' = Inr (r, s')" by (simp add: serve_logout_def)
    with assms(1) show ?thesis by (rule api_auth_logout_effect)
  qed
qed

text \<open>A client's issue number never falls through logouts, and its uid stays.\<close>

definition newer_issue :: "client_config \<Rightarrow> service_state \<Rightarrow> bool" where
  "newer_issue c s \<longleftrightarrow>
     (case dict_get (sv_clients s) (ci_name c) of
        None \<Rightarrow> True | Some d \<Rightarrow> ci_uid d = ci_uid c \<and> ci_issue c < ci_issue d)"

lemma revoke_fields [simp]:
  "ci_name (revoke_tokens c) = ci_name c" "ci_uid (revoke_tokens c) = ci_uid c"
  "ci_issue (revoke_tokens c) = ci_issue c + 1"
  by (simp_all add: revoke_tokens_def)

lemma logouts_newer:
  assumes "logouts dec secret s s'" and "clients_ok s" and "newer_issue c s"
  shows "clients_ok s' \<and> newer_issue c s'"
  using assms
proof (induction rule: logouts.induct)
  case (logouts_step s s1 now rq r s2)
  then have ok: "clients_ok s1" and newer: "newer_issue c s1" by auto
  from serve_logout_effect [OF ok logouts_step.hyps(2)] newer show ?case
    by (auto simp: newer_issue_def update_client_def split: option.splits if_splits)
qed simp

lemma newer_issue_refused:
  assumes "jwt_documented enc dec secret" and "newer_issue c s"
    and "rq_authorization rq = bearer (enc (token_claims c e) secret)"
  shows "\<exists>r. jwt_token_middleware dec secret now (login_required h) s rq = Inr r \<and> rs_status r = 401"
proof (cases "e \<le> now")
  case True
  then show ?thesis
    by (simp add: jwt_token_middleware_def read_bearer [OF assms(1,3)] text_response_def)
next
  case False
  have "dict_get (sv_clients s) (ci_name c) = Some d \<Longrightarrow> identity d \<noteq> identity c" for d
    using assms(2) by (auto simp: newer_issue_def identity_issue)
  with False show ?thesis
    by (auto simp: jwt_token_middleware_def read_bearer [OF assms(1,3)] login_required_def
        check_token_claims [of _ c e] text_response_def split: option.splits)
qed

lemma current_identity_accepted:
  assumes "jwt_documented enc dec secret"
    and "rq_authorization rq = bearer (enc (token_claims c e) secret)" and "now < e"
    and "dict_get (sv_clients s) (ci_name c) = Some d" and "identity d = identity c"
  shows "jwt_token_middleware dec secret now (login_required h) s rq =
    h s (rq\<lparr>rq_token := Some (token_claims c e), rq_client := Some d\<rparr>)"
  using assms(3-5)
  by (simp add: jwt_token_middleware_def read_bearer [OF assms(1,2)] login_required_def
      check_token_claims [of _ c e])

section \<open>A JWT library that behaves as documented\<close>

text \<open>
  An instance of the two parameters for the examples: a token is the subject, the
  identity, the expiry time and the secret, each as letters, joined by dots.
\<close>

definition hex_letter :: "nat \<Rightarrow> char" where
  "hex_letter n = char_of (97 + n mod 16)"

definition letters :: "string \<Rightarrow> string" where
  "letters s = concat (map (\<lambda>c. [hex_letter (of_char c div 16), hex_letter (of_char c)]) s)"

fun unletters :: "string \<Rightarrow> string" where
  "unletters (a # b # r) = char_of ((of_char a - 97) * 16 + (of_char b - 97 :: nat)) # unletters r"
| "unletters _ = []"

definition int_letters :: "int \<Rightarrow> string" where
  "int_letters e = (if e < 0 then CHR ''n'' else CHR ''p'') # replicate (nat \<bar>e\<bar>) CHR ''x''"

definition int_of_letters :: "string \<Rightarrow> int" where
  "int_of_letters s = (if s \<noteq> [] \<and> hd s = CHR ''n'' then - int (length s - 1) else int (length s - 1))"

definition sample_encode :: jwt_encode where
  "sample_encode claims secret =
     (case claims of
        PDict [(_, PStr n), (_, PStr i), (_, PInt e)] \<Rightarrow>
          join_with CHR ''.'' [CHR ''s'' # letters n, letters i, int_letters e, letters secret]
      | _ \<Rightarrow> ''invalid'')"

definition sample_decode :: jwt_decode where
  "sample_decode token secret now =
     (case split_on CHR ''.'' token of
        [s, i, e, k] \<Rightarrow>
          if k \<noteq> letters secret then Inl InvalidTokenError
          else if int_of_letters e \<le> now then Inl ExpiredSignatureError
          else Inr (PDict [(''sub'', PStr (unletters (tl s))), (''jti'', PStr (unletters i)),
                           (''exp'', PInt (int_of_letters e))])
      | _ \<Rightarrow> Inl InvalidTokenError)"

lemma of_hex_letter: "(of_char (hex_letter n) :: nat) = 97 + n mod 16"
proof -
  have "97 + n mod 16 < 256" using mod_less_divisor [of 16 n] by linarith
  then show ?thesis by (simp add: hex_letter_def)
qed

lemma unletters_letters: "unletters (letters s) = s"
proof (induction s)
  case (Cons c s)
  have "(of_char c div 16 mod 16) * 16 + of_char c mod 16 = (of_char c :: nat)"
    using byte_bound [of c] div_mult_mod_eq [of "of_char c :: nat" 16]
    by (simp add: less_mult_imp_div_less)
  with Cons show ?case by (simp add: letters_def of_hex_letter)
qed (simp add: letters_def)

lemma int_letters_inverse: "int_of_letters (int_letters e) = e"
  by (simp add: int_of_letters_def int_letters_def)

definition token_part :: "string \<Rightarrow> bool" where
  "token_part w \<longleftrightarrow> (\<forall>c\<in>set w. c \<noteq> CHR ''.'' \<and> \<not> str_space c)"

lemma token_part_char: "97 \<le> (of_char c :: nat) \<Longrightarrow> c \<noteq> CHR ''.'' \<and> \<not> str_space c"
  by (auto simp: str_space_def Let_def)

lemma token_parts: "token_part (letters s)" "token_part (int_letters e)" "token_part (CHR ''s'' # letters s)"
proof -
  have "hex_letter k \<noteq> CHR ''.'' \<and> \<not> str_space (hex_letter k)" for k
    by (rule token_part_char) (simp add: of_hex_letter)
  then show l: "token_part (letters s)" by (auto simp: token_part_def letters_def)
  show "token_part (int_letters e)"
    by (auto simp: token_part_def int_letters_def str_space_def split: if_splits)
  show "token_part (CHR ''s'' # letters s)"
    using l by (auto simp: token_part_def str_space_def)
qed

lemma split_on_append: "c \<notin> set w \<Longrightarrow> split_on c (w @ c # s) = w # split_on c s"
  by (induction w) auto

lemma split_on_none: "c \<notin> set w \<Longrightarrow> split_on c w = [w]"
  by (induction w) auto

lemma sample_jwt_documented: "jwt_documented sample_encode sample_decode secret"
  unfolding jwt_documented_def
proof (intro allI)
  fix c :: client_config and e now :: int
  let ?n = "CHR ''s'' # letters (ci_name c)" and ?i = "letters (identity c)"
    and ?e = "int_letters e" and ?k = "letters secret"
  have parts: "token_part w" if "w \<in> {?n, ?i, ?e, ?k}" for w
    using that token_parts by blast
  have enc: "sample_encode (token_claims c e) secret =
      ?n @ CHR ''.'' # ?i @ CHR ''.'' # ?e @ CHR ''.'' # ?k"
    by (simp add: sample_encode_def token_claims_def)
  have "CHR ''.'' \<notin> set w" if "w \<in> {?n, ?i, ?e, ?k}" for w
    using parts [OF that] by (auto simp: token_part_def)
  then have "CHR ''.'' \<notin> set ?n" "CHR ''.'' \<notin> set ?i" "CHR ''.'' \<notin> set ?e" "CHR ''.'' \<notin> set ?k"
    by blast+
  then have "split_on CHR ''.'' (sample_encode (token_claims c e) secret) = [?n, ?i, ?e, ?k]"
    unfolding enc by (simp only: split_on_append split_on_none simp_thms)
  then have "sample_decode (sample_encode (token_claims c e) secret) secret now =
      (if e \<le> now then Inl ExpiredSignatureError else Inr (token_claims c e))"
    by (simp add: sample_decode_def int_letters_inverse unletters_letters token_claims_def)
  moreover have "list_all (\<lambda>ch. \<not> str_space ch) (sample_encode (token_claims c e) secret)"
  proof -
    have dot: "\<not> str_space CHR ''.''" by (simp add: str_space_def)
    have "list_all (\<lambda>ch. \<not> str_space ch) w" if "w \<in> {?n, ?i, ?e, ?k}" for w
      using parts [OF that] by (simp add: list_all_iff token_part_def)
    then have "list_all (\<lambda>ch. \<not> str_space ch) ?n" "list_all (\<lambda>ch. \<not> str_space ch) ?i"
      "list_all (\<lambda>ch. \<not> str_space ch) ?e" "list_all (\<lambda>ch. \<not> str_space ch) ?k"
      by blast+
    then show ?thesis
      unfolding enc by (simp only: list_all_append list.pred_inject dot simp_thms)
  qed
  ultimately show "sample_encode (token_claims c e) secret \<noteq> [] \<and>
      list_all (\<lambda>ch. \<not> str_space ch) (sample_encode (token_claims c e) secret) \<and>
      sample_decode (sample_encode (token_claims c e) secret) secret now =
        (if e \<le> now then Inl ExpiredSignatureError else Inr (token_claims c e))"
    unfolding enc by simp
qed

definition sample_client :: client_config where
  "sample_client = \<lparr>ci_name = ''alice'', ci_uid = PStr ''u1'', ci_issue = 1, ci_password = PStr ''pw'',
     ci_user = PNone, ci_tenants = PList [PStr ''lab-*''], ci_roles = PList [PStr ''tenant'']\<rparr>"

definition sample_service :: service_state where
  "sample_service = \<lparr>sv_clients = [(''alice'', sample_client)], sv_tenants = empty_tenants,
     sv_clusters = empty_store\<rparr>"

definition sample_request :: "string option \<Rightarrow> pyval \<Rightarrow> request" where
  "sample_request authorization data = \<lparr>rq_authorization = authorization, rq_match = [], rq_query = [],
     rq_json = Inr data, rq_token = None, rq_client = None, rq_roles = None\<rparr>"

lemma sample_client_fields [simp]:
  "ci_name sample_client = ''alice''" "ci_issue sample_client = 1" "ci_uid sample_client = PStr ''u1''"
  "dict_get (sv_clients sample_service) ''alice'' = Some sample_client"
  "rq_authorization (sample_request a d) = a" "rq_json (sample_request a d) = Inr d"
  "clients_ok sample_service"
  by (simp_all add: sample_client_def sample_service_def sample_request_def clients_ok_def keyed_by_def)

section \<open>Properties\<close>

text \<open>
  The token of a successful login was issued for the client named in the request,
  whose password matched, and lets exactly this client in: for 72 hours, while the client
  is unchanged, a request that carries the token reaches the protected handler as that
  client, and afterwards it is refused as expired.
\<close>

theorem login_token_accepted:
  assumes "jwt_documented enc dec secret" and "clients_ok s"
    and "api_auth_login enc secret t0 s rq = Inr (json_response v)"
    and "py_index v ''access_token'' = Inr (PStr token)"
    and "rq_authorization rq' = bearer token"
  shows "\<exists>d n p c. rq_json rq = Inr d \<and> py_get d ''username'' = Inr (PStr n) \<and>
    py_get d ''password'' = Inr p \<and> dict_get (sv_clients s) n = Some c \<and> check_password c p \<and>
    jwt_token_middleware dec secret t (login_required h) s rq' =
      (if t0 + 259200 \<le> t then Inr (text_response 401 ''JWT token has expired'')
       else h s (rq'\<lparr>rq_token := Some (token_claims c (t0 + 259200)), rq_client := Some c\<rparr>))"
proof -
  obtain d n p c where c: "rq_json rq = Inr d" "py_get d ''username'' = Inr (PStr n)"
    "py_get d ''password'' = Inr p" "dict_get (sv_clients s) n = Some c" "check_password c p"
    and v: "v = generate_login_response enc secret t0 c"
    using api_auth_login_ok [OF assms(3)] by (auto simp: json_response_def)
  from v assms(4) have token: "token = enc (token_claims c (t0 + 259200)) secret"
    by (simp add: generate_login_response_def token_expiration_def Let_def)
  from c(4) assms(2) have "ci_name c = n" by (auto simp: clients_ok_def dest: keyed_by_get)
  with c(4) have db: "dict_get (sv_clients s) (ci_name c) = Some c" by simp
  have "jwt_token_middleware dec secret t (login_required h) s rq' =
      (if t0 + 259200 \<le> t then Inr (text_response 401 ''JWT token has expired'')
       else h s (rq'\<lparr>rq_token := Some (token_claims c (t0 + 259200)), rq_client := Some c\<rparr>))"
    using current_identity_accepted [OF assms(1) assms(5) [unfolded token] _ db refl, of t h]
    by (cases "t0 + 259200 \<le> t")
      (simp_all add: jwt_token_middleware_def read_bearer [OF assms(1) assms(5) [unfolded token]])
  with c show ?thesis by blast
qed

theorem login_token_accepted_witness:
  "\<exists>c. dict_get (sv_clients sample_service) ''alice'' = Some c \<and> check_password c (PStr ''pw'')"
proof -
  let ?rq = "sample_request None (PDict [(''username'', PStr ''alice''), (''password'', PStr ''pw'')])"
  let ?v = "generate_login_response sample_encode ''k'' 0 sample_client"
  have login: "api_auth_login sample_encode ''k'' 0 sample_service ?rq = Inr (json_response ?v)"
    by (simp add: api_auth_login_def authenticate_client_def check_password_def)
      (simp add: sample_client_def)
  have token: "py_index ?v ''access_token'' = Inr (PStr (sample_encode (token_claims sample_client 259200) ''k''))"
    by (simp add: generate_login_response_def token_expiration_def Let_def)
  show ?thesis
    using login_token_accepted [OF sample_jwt_documented _ login token, of "sample_request
        (bearer (sample_encode (token_claims sample_client 259200) ''k'')) PNone"]
    by auto
qed



text \<open>
  An update of a client's configuration resource undoes its logouts: the client is
  stored anew with issue number 1, so a token that was issued under the first issue number
  and revoked since is accepted again, up to its expiry, although the client's uid has not
  changed and whatever its password is now.
\<close>

theorem client_update_revives_tokens:
  assumes "jwt_documented enc dec secret" and "ci_issue c = 1"
    and "clientconfigs_update (ci_name c) meta spec (sv_clients s) = Inr db"
    and "xgetattr meta ''uid'' PNone = Inr (ci_uid c)"
    and "rq_authorization rq = bearer (enc (token_claims c e) secret)" and "t < e"
  shows "\<exists>d. dict_get db (ci_name c) = Some d \<and>
    jwt_token_middleware dec secret t (login_required h) (s\<lparr>sv_clients := db\<rparr>) rq =
      h (s\<lparr>sv_clients := db\<rparr>) (rq\<lparr>rq_token := Some (token_claims c e), rq_client := Some d\<rparr>)"
proof -
  from assms(3,4) obtain d where d: "db = update_client d (sv_clients s)" "ci_name d = ci_name c"
    "ci_uid d = ci_uid c" "ci_issue d = 1"
    by (auto simp: clientconfigs_update_def bindE_Inr_iff)
  then have "identity d = identity c" using assms(2) by (simp add: identity_issue)
  moreover have "dict_get db (ci_name c) = Some d" using d by (simp add: update_client_def)
  ultimately show ?thesis
    using current_identity_accepted [OF assms(1,5,6), of "s\<lparr>sv_clients := db\<rparr>" d h] by simp
qed

theorem client_update_revives_tokens_witness:
  "\<exists>db. clientconfigs_update ''alice'' (PDict [(''generation'', PInt 2), (''uid'', PStr ''u1'')]) (PDict [])
       (update_client (revoke_tokens sample_client) []) = Inr db \<and>
     jwt_token_middleware sample_decode ''k'' 6 api_auth_verify (sample_service\<lparr>sv_clients := db\<rparr>)
       (sample_request (bearer (sample_encode (token_claims sample_client 9) ''k'')) PNone)
     = Inr (json_response (PDict []))"
proof -
  let ?rq = "sample_request (bearer (sample_encode (token_claims sample_client 9) ''k'')) PNone"
  let ?s = "sample_service\<lparr>sv_clients := update_client (revoke_tokens sample_client) []\<rparr>"
  let ?meta = "PDict [(''generation'', PInt 2), (''uid'', PStr ''u1'')]"
  have uid: "xgetattr ?meta ''uid'' PNone = Inr (ci_uid sample_client)" by (simp add: xgetattr_def)
  obtain db where db: "clientconfigs_update (ci_name sample_client) ?meta (PDict []) (sv_clients ?s) = Inr db"
    by (simp add: clientconfigs_update_def xgetattr_def)
  show ?thesis
    unfolding api_auth_verify_def
    using client_update_revives_tokens [OF sample_jwt_documented _ db uid, of ?rq 9 "''k''" 6] db
    by auto
qed

end
