(* ===== verification/Lookup_Routes.thy ===== *)
theory Lookup_Routes
  imports Lookup_Auth
begin

text \<open>
  The handlers of the REST API that read the databases
  (\<open>lookup-service/service/routes/clients.py\<close>, \<open>clusters.py\<close>, \<open>portals.py\<close>, \<open>tenants.py\<close> and the
  listing of \<open>workshops.py\<close>), each under the decorators the source puts on it, and the
  table of routes (\<open>routes/__init__.py\<close>).
\<close>

section \<open>Parts of the answers\<close>

definition path_parameter :: "request \<Rightarrow> string \<Rightarrow> string result" where
  "path_parameter rq n = entry (dict_get (rq_match rq) n)"

definition portal_json :: "cluster_config \<Rightarrow> training_portal \<Rightarrow> pyval" where
  "portal_json c p = PDict
     [(''name'', pt_name p), (''uid'', pt_uid p), (''generation'', pt_generation p),
      (''labels'', pt_labels p), (''cluster'', PStr (cl_name c)), (''url'', pt_url p),
      (''capacity'', pt_capacity p), (''allocated'', PInt (pt_allocated p)), (''phase'', pt_phase p)]"

definition environment_json :: "cluster_config \<Rightarrow> training_portal \<Rightarrow> workshop_environment \<Rightarrow> pyval" where
  "environment_json c p e = PDict
     [(''name'', en_name e), (''uid'', en_uid e), (''generation'', en_generation e),
      (''workshop'', en_workshop e), (''title'', en_title e), (''description'', en_description e),
      (''labels'', en_labels e), (''cluster'', PStr (cl_name c)), (''portal'', pt_name p),
      (''capacity'', en_capacity e), (''reserved'', en_reserved e), (''allocated'', PInt (en_allocated e)),
      (''available'', PInt (en_available e)), (''phase'', en_phase e)]"

definition session_json ::
    "cluster_config \<Rightarrow> training_portal \<Rightarrow> workshop_environment \<Rightarrow> workshop_session \<Rightarrow> pyval" where
  "session_json c p e s = PDict
     [(''name'', ss_name s), (''generation'', ss_generation s), (''cluster'', PStr (cl_name c)),
      (''portal'', pt_name p), (''environment'', en_name e), (''workshop'', en_workshop e),
      (''phase'', ss_phase s), (''user'', ss_user s)]"

definition not_available :: "string \<Rightarrow> response" where
  "not_available what = text_response 404 (what @ '' not available'')"

text \<open>
  The lookups along a path, each answered with status 404 when nothing is found. Path
  parameters are strings.
\<close>

definition with_cluster :: "(request \<Rightarrow> cluster_config \<Rightarrow> response result) \<Rightarrow> handler" where
  "with_cluster k s rq =
     bindE (path_parameter rq ''cluster'') (\<lambda>n.
       case get_cluster (sv_clusters s) n of
         None \<Rightarrow> Inr (not_available ''Cluster'') | Some c \<Rightarrow> k rq c)"

definition with_portal :: "(request \<Rightarrow> cluster_config \<Rightarrow> training_portal \<Rightarrow> response result) \<Rightarrow> handler" where
  "with_portal k = with_cluster (\<lambda>rq c.
     bindE (path_parameter rq ''portal'') (\<lambda>n.
       case get_portal c (PStr n) of
         None \<Rightarrow> Inr (not_available ''Portal'') | Some p \<Rightarrow> k rq c p))"

definition with_environment ::
    "(request \<Rightarrow> cluster_config \<Rightarrow> training_portal \<Rightarrow> workshop_environment \<Rightarrow> response result) \<Rightarrow> handler" where
  "with_environment k = with_portal (\<lambda>rq c p.
     bindE (path_parameter rq ''environment'') (\<lambda>n.
       case get_environment p (PStr n) of
         None \<Rightarrow> Inr (not_available ''Environment'') | Some e \<Rightarrow> k rq c p e))"

definition admin_only :: "handler \<Rightarrow> handler" where
  "admin_only h = login_required (roles_accepted [''admin''] h)"

definition admin_or_tenant :: "handler \<Rightarrow> handler" where
  "admin_or_tenant h = login_required (roles_accepted [''admin'', ''tenant''] h)"

section \<open>Clients\<close>

definition client_json :: "client_config \<Rightarrow> pyval" where
  "client_json c = PDict
     [(''name'', PStr (ci_name c)), (''roles'', ci_roles c), (''tenants'', ci_tenants c)]"

definition api_get_v1_clients :: handler where
  "api_get_v1_clients = admin_only (\<lambda>s rq.
     Inr (json_response (PDict [(''clients'', PList (map client_json (get_clients (sv_clients s))))])))"

definition api_get_v1_clients_details :: handler where
  "api_get_v1_clients_details = admin_or_tenant (\<lambda>s rq.
     bindE (entry (rq_client rq)) (\<lambda>remote_client.
     bindE (entry (rq_roles rq)) (\<lambda>client_roles.
     bindE (path_parameter rq ''client'') (\<lambda>client_name.
       if ''tenant'' \<in> set client_roles \<and> ci_name remote_client \<noteq> client_name
       then Inr (text_response 403 ''Client access not permitted'')
       else
         bindE (get_client (sv_clients s) (PStr client_name)) (\<lambda>client.
           case client of
             None \<Rightarrow> Inr (not_available ''Client'')
           | Some c \<Rightarrow> Inr (json_response (client_json c)))))))"

section \<open>Clusters, portals, environments and sessions\<close>

definition cluster_json :: "cluster_config \<Rightarrow> pyval" where
  "cluster_json c = PDict [(''name'', PStr (cl_name c)), (''labels'', cl_labels c)]"

definition api_get_v1_clusters :: handler where
  "api_get_v1_clusters = admin_only (\<lambda>s rq.
     Inr (json_response (PDict [(''clusters'', PList (map cluster_json (get_clusters (sv_clusters s))))])))"

definition api_get_v1_clusters_details :: handler where
  "api_get_v1_clusters_details = admin_only (with_cluster (\<lambda>rq c. Inr (json_response (cluster_json c))))"

text \<open>\<open>dump\<close> stands for \<open>yaml.dump\<close>.\<close>

definition api_get_v1_clusters_kubeconfig :: "(pyval \<Rightarrow> string) \<Rightarrow> handler" where
  "api_get_v1_clusters_kubeconfig dump =
     admin_only (with_cluster (\<lambda>rq c. Inr (text_response 200 (dump (cl_kubeconfig c)))))"

definition api_get_v1_clusters_portals :: handler where
  "api_get_v1_clusters_portals = admin_only (with_cluster (\<lambda>rq c.
     Inr (json_response (PDict [(''portals'', PList (map (portal_json c) (get_portals c)))]))))"

definition api_get_v1_clusters_portals_details :: handler where
  "api_get_v1_clusters_portals_details = admin_only (with_portal (\<lambda>rq c p.
     Inr (json_response (portal_json c p))))"

definition api_get_v1_clusters_portals_environments :: handler where
  "api_get_v1_clusters_portals_environments = admin_only (with_portal (\<lambda>rq c p.
     Inr (json_response (PDict [(''environments'', PList (map (environment_json c p) (get_environments p)))]))))"

definition api_get_v1_clusters_portals_environments_details :: handler where
  "api_get_v1_clusters_portals_environments_details = admin_only (with_environment (\<lambda>rq c p e.
     Inr (json_response (environment_json c p e))))"

definition api_get_v1_clusters_portals_environments_sessions :: handler where
  "api_get_v1_clusters_portals_environments_sessions = admin_only (with_environment (\<lambda>rq c p e.
     Inr (json_response (PDict [(''sessions'', PList (map (session_json c p e) (get_sessions e)))]))))"

text \<open>
  Hashing a value, which fails for lists and dictionaries; numbers and booleans that are
  equal are one element of a set, as one key of a dictionary.
\<close>

fun hash_key :: "pyval \<Rightarrow> pyval result" where
  "hash_key (PList xs) = Inl TypeError"
| "hash_key (PDict d) = Inl TypeError"
| "hash_key (PBool b) = Inr (PInt (of_bool b))"
| "hash_key v = Inr v"

primrec collect_users :: "workshop_session list \<Rightarrow> pyval list \<Rightarrow> pyval list result" where
  "collect_users [] users = Inr users"
| "collect_users (s # ss) users =
     bindE (hash_key (ss_user s)) (\<lambda>u.
       collect_users ss (if list_ex (py_eq u) users then users else users @ [ss_user s]))"

text \<open>
  \<open>order\<close> stands for the order in which the interpreter lists the elements of a set.
\<close>

definition api_get_v1_clusters_portals_environments_users :: "(pyval list \<Rightarrow> pyval list) \<Rightarrow> handler" where
  "api_get_v1_clusters_portals_environments_users order = admin_only (with_environment (\<lambda>rq c p e.
     bindE (collect_users (get_sessions e) []) (\<lambda>users.
       Inr (json_response (PDict [(''users'', PList (order users))])))))"

definition api_get_v1_clusters_portals_environments_users_sessions :: handler where
  "api_get_v1_clusters_portals_environments_users_sessions = admin_only (\<lambda>s rq.
     bindE (path_parameter rq ''user'') (\<lambda>user_name.
       with_environment (\<lambda>rq c p e.
         Inr (json_response (PDict [(''sessions'', PList (map (session_json c p e)
           (filter (\<lambda>w. py_eq (ss_user w) (PStr user_name)) (get_sessions e))))]))) s rq))"

definition api_get_v1_portals :: handler where
  "api_get_v1_portals = admin_only (\<lambda>s rq.
     Inr (json_response (PDict [(''portals'', PList
       (concat (map (\<lambda>c. map (portal_json c) (get_portals c)) (get_clusters (sv_clusters s)))))])))"

section \<open>Tenants\<close>

definition get_clients_mapped_to_tenant :: "client_database \<Rightarrow> string \<Rightarrow> pyval list result" where
  "get_clients_mapped_to_tenant db tenant_name =
     bindE (filterE (\<lambda>c. allowed_access_to_tenant c (PStr tenant_name)) (get_clients db)) (\<lambda>cs.
       Inr (map (PStr \<circ> ci_name) cs))"

definition tenant_json :: "service_state \<Rightarrow> tenant_config \<Rightarrow> pyval result" where
  "tenant_json s t =
     bindE (get_clients_mapped_to_tenant (sv_clients s) (tn_name t)) (\<lambda>cs.
       Inr (PDict [(''name'', PStr (tn_name t)), (''clients'', PList cs)]))"

definition api_get_v1_tenants :: handler where
  "api_get_v1_tenants = admin_only (\<lambda>s rq.
     bindE (mapE (tenant_json s) (get_tenants (sv_tenants s))) (\<lambda>ts.
       Inr (json_response (PDict [(''tenants'', PList ts)]))))"

definition api_get_v1_tenants_details :: handler where
  "api_get_v1_tenants_details = admin_only (\<lambda>s rq.
     bindE (path_parameter rq ''tenant'') (\<lambda>n.
       case get_tenant (sv_tenants s) n of
         None \<Rightarrow> Inr (not_available ''Tenant'')
       | Some t \<Rightarrow> bindE (tenant_json s t) (\<lambda>j. Inr (json_response j))))"

text \<open>The check of a client with the tenant role for one tenant, and what follows it.\<close>

definition with_tenant_portals ::
    "((cluster_config \<times> training_portal) list \<Rightarrow> response result) \<Rightarrow> handler" where
  "with_tenant_portals k s rq =
     bindE (path_parameter rq ''tenant'') (\<lambda>tenant_name.
       if tenant_name = [] then Inr (text_response 400 ''Missing tenant name'')
       else
         bindE (entry (rq_roles rq)) (\<lambda>client_roles.
         bindE (if ''tenant'' \<in> set client_roles
                then bindE (entry (rq_client rq)) (\<lambda>client. allowed_access_to_tenant client (PStr tenant_name))
                else Inr True) (\<lambda>allowed.
           if \<not> allowed then Inr (text_response 403 ''Client access not permitted'')
           else
             (case get_tenant (sv_tenants s) tenant_name of
                None \<Rightarrow> Inr (not_available ''Tenant'')
              | Some t \<Rightarrow>
                  bindE (portals_which_are_accessible t (get_clusters (sv_clusters s))) k))))"

definition api_get_v1_tenants_portals :: handler where
  "api_get_v1_tenants_portals = admin_only (with_tenant_portals (\<lambda>cps.
     Inr (json_response (PDict [(''portals'', PList (map (\<lambda>(c, p). portal_json c p) cps))]))))"

text \<open>The workshops of the running environments, each once, described by its last environment.\<close>

definition workshop_json :: "workshop_environment \<Rightarrow> pyval" where
  "workshop_json e = PDict
     [(''name'', en_workshop e), (''title'', en_title e), (''description'', en_description e),
      (''labels'', en_labels e)]"

definition running_workshops :: "(cluster_config \<times> training_portal) list \<Rightarrow> pyval list result" where
  "running_workshops cps =
     bindE (foldE (\<lambda>e d. bindE (hash_key (en_workshop e)) (\<lambda>k. Inr (dict_set k (workshop_json e) d)))
              (concat (map (get_running_environments \<circ> snd) cps)) [])
       (\<lambda>d. Inr (dict_values d))"

definition api_get_v1_tenants_workshops :: handler where
  "api_get_v1_tenants_workshops = admin_or_tenant (with_tenant_portals (\<lambda>cps.
     bindE (running_workshops cps) (\<lambda>ws. Inr (json_response (PDict [(''workshops'', PList ws)])))))"

definition list_workshops :: handler where
  "list_workshops s rq =
     bindE (entry (rq_client rq)) (\<lambda>client.
     bindE (entry (rq_roles rq)) (\<lambda>client_roles.
       (let tenant_name = (case dict_get (rq_query rq) ''tenant'' of None \<Rightarrow> [] | Some t \<Rightarrow> t)
        in if ''tenant'' \<in> set client_roles \<and> tenant_name = []
           then Inr (text_response 400 ''Missing tenant name'')
           else
             bindE (if ''tenant'' \<in> set client_roles
                    then allowed_access_to_tenant client (PStr tenant_name) else Inr True) (\<lambda>allowed.
               if \<not> allowed then Inr (text_response 403 ''Client not allowed access to tenant'')
               else
                 bindE (if tenant_name \<noteq> [] then
                          (case get_tenant (sv_tenants s) tenant_name of
                             None \<Rightarrow> Inr None
                           | Some t \<Rightarrow> bindE (portals_which_are_accessible t (get_clusters (sv_clusters s)))
                               (\<lambda>cps. Inr (Some cps)))
                        else Inr (Some (concat (map (\<lambda>c. map (Pair c) (get_portals c))
                               (get_clusters (sv_clusters s)))))) (\<lambda>found.
                   case found of
                     None \<Rightarrow> Inr (text_response 503 ''Tenant not available'')
                   | Some cps \<Rightarrow> bindE (running_workshops cps) (\<lambda>ws.
                       Inr (json_response (PDict [(''workshops'', PList ws)]))))))))"

definition api_get_v1_workshops :: handler where
  "api_get_v1_workshops = admin_or_tenant list_workshops"

section \<open>The table of routes\<close>

datatype endpoint =
    Clients | ClientDetails
  | Clusters | ClusterDetails | ClusterKubeconfig | ClusterPortals | PortalDetails
  | PortalEnvironments | EnvironmentDetails | EnvironmentSessions | EnvironmentUsers | UserSessions
  | Portals
  | Tenants | TenantDetails | TenantPortals | TenantWorkshops
  | Workshops

fun endpoint_handler :: "(pyval \<Rightarrow> string) \<Rightarrow> (pyval list \<Rightarrow> pyval list) \<Rightarrow> endpoint \<Rightarrow> handler" where
  "endpoint_handler dump order Clients = api_get_v1_clients"
| "endpoint_handler dump order ClientDetails = api_get_v1_clients_details"
| "endpoint_handler dump order Clusters = api_get_v1_clusters"
| "endpoint_handler dump order ClusterDetails = api_get_v1_clusters_details"
| "endpoint_handler dump order ClusterKubeconfig = api_get_v1_clusters_kubeconfig dump"
| "endpoint_handler dump order ClusterPortals = api_get_v1_clusters_portals"
| "endpoint_handler dump order PortalDetails = api_get_v1_clusters_portals_details"
| "endpoint_handler dump order PortalEnvironments = api_get_v1_clusters_portals_environments"
| "endpoint_handler dump order EnvironmentDetails = api_get_v1_clusters_portals_environments_details"
| "endpoint_handler dump order EnvironmentSessions = api_get_v1_clusters_portals_environments_sessions"
| "endpoint_handler dump order EnvironmentUsers = api_get_v1_clusters_portals_environments_users order"
| "endpoint_handler dump order UserSessions = api_get_v1_clusters_portals_environments_users_sessions"
| "endpoint_handler dump order Portals = api_get_v1_portals"
| "endpoint_handler dump order Tenants = api_get_v1_tenants"
| "endpoint_handler dump order TenantDetails = api_get_v1_tenants_details"
| "endpoint_handler dump order TenantPortals = api_get_v1_tenants_portals"
| "endpoint_handler dump order TenantWorkshops = api_get_v1_tenants_workshops"
| "endpoint_handler dump order Workshops = api_get_v1_workshops"

text \<open>A GET request to an endpoint, through the middleware.\<close>

definition serve ::
    "(pyval \<Rightarrow> string) \<Rightarrow> (pyval list \<Rightarrow> pyval list) \<Rightarrow> jwt_decode \<Rightarrow> string \<Rightarrow> int \<Rightarrow> endpoint \<Rightarrow> handler" where
  "serve dump order dec secret now ep = jwt_token_middleware dec secret now (endpoint_handler dump order ep)"

section \<open>Who gets through\<close>

text \<open>The endpoints open to clients of role \<open>tenant\<close>; all others are for administrators.\<close>

fun tenant_endpoint :: "endpoint \<Rightarrow> bool" where
  "tenant_endpoint ClientDetails = True"
| "tenant_endpoint TenantWorkshops = True"
| "tenant_endpoint Workshops = True"
| "tenant_endpoint _ = False"

definition required_roles :: "endpoint \<Rightarrow> string list" where
  "required_roles ep = (if tenant_endpoint ep then [''admin'', ''tenant''] else [''admin''])"

lemma endpoint_guarded:
  "\<exists>h. endpoint_handler dump order ep = login_required (roles_accepted (required_roles ep) h)"
  by (cases ep) (auto simp: required_roles_def admin_only_def admin_or_tenant_def
      api_get_v1_clients_def api_get_v1_clients_details_def api_get_v1_clusters_def
      api_get_v1_clusters_details_def api_get_v1_clusters_kubeconfig_def api_get_v1_clusters_portals_def
      api_get_v1_clusters_portals_details_def api_get_v1_clusters_portals_environments_def
      api_get_v1_clusters_portals_environments_details_def
      api_get_v1_clusters_portals_environments_sessions_def
      api_get_v1_clusters_portals_environments_users_def
      api_get_v1_clusters_portals_environments_users_sessions_def api_get_v1_portals_def
      api_get_v1_tenants_def api_get_v1_tenants_details_def api_get_v1_tenants_portals_def
      api_get_v1_tenants_workshops_def api_get_v1_workshops_def)

lemma has_required_role_Inr:
  "has_required_role c roles = Inr ms \<Longrightarrow> r \<in> set ms \<Longrightarrow> r \<in> set roles \<and> py_in (PStr r) (ci_roles c) = Inr True"
  by (auto simp: has_required_role_def dest: filterE_set)

text \<open>The token a request carries, as the middleware reads it.\<close>

definition carries :: "request \<Rightarrow> string \<Rightarrow> bool" where
  "carries rq token \<longleftrightarrow>
     (\<exists>a b. rq_authorization rq = Some a \<and> split_ws a = [b, token] \<and> lower b = ''bearer'')"

lemma read_authorization_Inr:
  assumes "read_authorization dec secret now rq = Inr (Inr rq')" and "rq_token rq = None"
  shows "rq' = rq \<or>
    (\<exists>token decoded. carries rq token \<and> dec token secret now = Inr decoded \<and> rq' = rq\<lparr>rq_token := Some decoded\<rparr>)"
proof (cases "rq_authorization rq")
  case None
  with assms show ?thesis by (simp add: read_authorization_def)
next
  case (Some a)
  show ?thesis
  proof (cases "a = []")
    case True
    with Some assms show ?thesis by (simp add: read_authorization_def)
  next
    case False
    with Some assms have "length (split_ws a) = 2" and low: "lower (split_ws a ! 0) = ''bearer''"
      by (auto simp: read_authorization_def Let_def split: if_splits)
    then obtain b token where "split_ws a = [b, token]"
      by (auto simp: numeral_2_eq_2 length_Suc_conv)
    with Some False low assms(1) show ?thesis
      by (auto simp: read_authorization_def carries_def decode_client_token_def bindE_Inr_iff Let_def
          split: sum.splits jwt_error.splits)
  qed
qed

lemma read_authorization_refusal:
  "read_authorization dec secret now rq = Inr (Inl r) \<Longrightarrow> rs_status r \<in> {400, 401}"
  by (auto simp: read_authorization_def text_response_def Let_def bindE_Inr_iff
      split: option.splits if_splits sum.splits jwt_error.splits)

lemma check_token_refusal: "check_token db rq = Inr (Inl r) \<Longrightarrow> rs_status r \<in> {400, 401}"
  by (auto simp: check_token_def text_response_def bindE_Inr_iff split: option.splits if_splits)

lemma check_token_client:
  assumes "clients_ok s" and "check_token (sv_clients s) rq = Inr (Inr c)"
  shows "\<exists>decoded. rq_token rq = Some decoded \<and> py_index decoded ''sub'' = Inr (PStr (ci_name c)) \<and>
    py_index decoded ''jti'' = Inr (PStr (identity c)) \<and> dict_get (sv_clients s) (ci_name c) = Some c"
proof -
  from assms(2) obtain decoded v where d: "rq_token rq = Some decoded" "py_index decoded ''sub'' = Inr v"
    "get_client (sv_clients s) v = Inr (Some c)" "py_index decoded ''jti'' = Inr (PStr (identity c))"
    by (auto simp: check_token_def validate_identity_def bindE_Inr_iff split: option.splits if_splits)
  then obtain n where n: "v = PStr n" "dict_get (sv_clients s) n = Some c"
    by (cases v) (auto simp: get_client_def)
  with assms(1) have "ci_name c = n" by (auto simp: clients_ok_def dest: keyed_by_get)
  with d n show ?thesis by blast
qed

text \<open>Every answer of a guarded handler is a refusal or the handler's own.\<close>

lemma guarded_cases:
  assumes "jwt_token_middleware dec secret now (login_required (roles_accepted roles h)) s rq = Inr r"
    and "clients_ok s" and "rq_token rq = None"
  obtains (refused) "rs_status r \<in> {400, 401, 403}"
  | (served) token decoded c ms where "carries rq token" "dec token secret now = Inr decoded"
      "py_index decoded ''sub'' = Inr (PStr (ci_name c))" "py_index decoded ''jti'' = Inr (PStr (identity c))"
      "dict_get (sv_clients s) (ci_name c) = Some c" "has_required_role c roles = Inr ms" "ms \<noteq> []"
      "h s (rq\<lparr>rq_token := Some decoded, rq_client := Some c, rq_roles := Some ms\<rparr>) = Inr r"
proof -
  from assms(1) obtain x where x: "read_authorization dec secret now rq = Inr x"
    by (auto simp: jwt_token_middleware_def bindE_Inr_iff)
  show thesis
  proof (cases x)
    case (Inl refusal)
    with x assms(1) read_authorization_refusal [of dec secret now rq r] show thesis
      by (intro refused) (auto simp: jwt_token_middleware_def)
  next
    case (Inr rq')
    with x assms(1) have run: "login_required (roles_accepted roles h) s rq' = Inr r"
      by (simp add: jwt_token_middleware_def)
    then obtain y where y: "check_token (sv_clients s) rq' = Inr y"
      by (auto simp: login_required_def bindE_Inr_iff)
    show thesis
    proof (cases y)
      case (Inl refusal)
      with y run check_token_refusal [of "sv_clients s" rq' r] show thesis
        by (intro refused) (auto simp: login_required_def)
    next
      case (Inr c)
      note c = check_token_client [OF assms(2) y [unfolded Inr]]
      with read_authorization_Inr [OF x [unfolded \<open>x = Inr rq'\<close>] assms(3)] assms(3)
      obtain token decoded where t: "carries rq token" "dec token secret now = Inr decoded"
        "rq' = rq\<lparr>rq_token := Some decoded\<rparr>" by auto
      from run y Inr obtain ms where ms: "has_required_role c roles = Inr ms"
        by (auto simp: login_required_def roles_accepted_def bindE_Inr_iff)
      show thesis
      proof (cases "ms = []")
        case True
        with run y Inr ms show thesis
          by (intro refused) (auto simp: login_required_def roles_accepted_def text_response_def)
      next
        case False
        with run y Inr ms t c show thesis
          by (intro served [of token decoded c ms]) (auto simp: login_required_def roles_accepted_def)
      qed
    qed
  qed
qed

section \<open>Listing workshops\<close>

text \<open>\<open>w\<close> describes the last environment whose workshop has the dictionary key \<open>k\<close>.\<close>

definition describes :: "workshop_environment list \<Rightarrow> pyval \<Rightarrow> pyval \<Rightarrow> bool" where
  "describes es k w \<longleftrightarrow> (\<exists>us e vs. es = us @ e # vs \<and> hash_key (en_workshop e) = Inr k \<and>
     (\<forall>v\<in>set vs. hash_key (en_workshop v) \<noteq> Inr k) \<and> w = workshop_json e)"

lemma describes_Cons: "describes es k w \<Longrightarrow> describes (e # es) k w"
  unfolding describes_def by (metis append_Cons)

lemma describes_first:
  "hash_key (en_workshop e) = Inr k \<Longrightarrow> \<forall>v\<in>set es. hash_key (en_workshop v) \<noteq> Inr k \<Longrightarrow>
   describes (e # es) k (workshop_json e)"
  unfolding describes_def by (metis append_Nil)

lemma collect_workshops:
  assumes "foldE (\<lambda>e d. bindE (hash_key (en_workshop e)) (\<lambda>k. Inr (dict_set k (workshop_json e) d))) es d = Inr d'"
    and "distinct (dict_keys d)"
  shows "distinct (dict_keys d') \<and> (\<forall>(k, w)\<in>set d'.
      (k, w) \<in> set d \<and> (\<forall>e\<in>set es. hash_key (en_workshop e) \<noteq> Inr k) \<or> describes es k w) \<and>
    set (dict_keys d') = set (dict_keys d) \<union> {k. \<exists>e\<in>set es. hash_key (en_workshop e) = Inr k}"
  using assms
proof (induction es arbitrary: d)
  case (Cons e es)
  then obtain k where k: "hash_key (en_workshop e) = Inr k"
    and rest: "foldE (\<lambda>e d. bindE (hash_key (en_workshop e)) (\<lambda>k. Inr (dict_set k (workshop_json e) d))) es
      (dict_set k (workshop_json e) d) = Inr d'"
    by (auto simp: bindE_Inr_iff)
  have dist: "distinct (dict_keys (dict_set k (workshop_json e) d))"
    using Cons.prems(2) by (rule distinct_update)
  have keys: "set (dict_keys (dict_set k (workshop_json e) d)) = insert k (set (dict_keys d))"
    using set_dict_set [OF Cons.prems(2), of k "workshop_json e"] by force
  note IH = Cons.IH [OF rest dist]
  have "(k', w) \<in> set d \<and> (\<forall>e\<in>set (e # es). hash_key (en_workshop e) \<noteq> Inr k') \<or> describes (e # es) k' w"
    if "(k', w) \<in> set d'" for k' w
  proof -
    from IH that have "(k', w) \<in> set (dict_set k (workshop_json e) d) \<and>
        (\<forall>e\<in>set es. hash_key (en_workshop e) \<noteq> Inr k') \<or> describes es k' w" by blast
    then show ?thesis
      using k describes_Cons describes_first [OF k] by (auto simp: set_dict_set [OF Cons.prems(2)])
  qed
  moreover have "set (dict_keys d') = set (dict_keys d) \<union> {k. \<exists>e\<in>set (e # es). hash_key (en_workshop e) = Inr k}"
    using IH keys k by auto
  ultimately show ?case using IH by blast
qed auto

definition running_in :: "(cluster_config \<times> training_portal) list \<Rightarrow> workshop_environment list" where
  "running_in cps = concat (map (get_running_environments \<circ> snd) cps)"

lemma running_in_set:
  "e \<in> set (running_in cps) \<longleftrightarrow>
   (\<exists>c p. (c, p) \<in> set cps \<and> e \<in> set (get_environments p) \<and> en_phase e = PStr ''Running'')"
  by (force simp: running_in_def get_running_environments_def get_environments_def)

lemma running_workshops_list:
  assumes "running_workshops cps = Inr ws"
  shows "\<exists>ks. distinct ks \<and> list_all2 (describes (running_in cps)) ks ws \<and>
    set ks = {k. \<exists>e\<in>set (running_in cps). hash_key (en_workshop e) = Inr k}"
proof -
  from assms obtain d where d: "foldE (\<lambda>e d. bindE (hash_key (en_workshop e)) (\<lambda>k. Inr (dict_set k (workshop_json e) d)))
      (running_in cps) [] = Inr d" and ws: "ws = dict_values d"
    by (auto simp: running_workshops_def running_in_def bindE_Inr_iff)
  from collect_workshops [OF d] have "distinct (dict_keys d)"
    and "\<forall>(k, w)\<in>set d. describes (running_in cps) k w"
    and "set (dict_keys d) = {k. \<exists>e\<in>set (running_in cps). hash_key (en_workshop e) = Inr k}"
    by auto
  moreover from this(2) have "list_all2 (describes (running_in cps)) (dict_keys d) ws"
    by (auto simp: ws list_all2_conv_all_nth case_prod_unfold)
  ultimately show ?thesis by blast
qed

text \<open>The portals a listing covers: those of the tenant named, or all when none is named.\<close>

definition considered_portals ::
    "service_state \<Rightarrow> request \<Rightarrow> client_config \<Rightarrow> bool \<Rightarrow> (cluster_config \<times> training_portal) list \<Rightarrow> bool" where
  "considered_portals s rq c as_tenant cps \<longleftrightarrow>
     (case dict_get (rq_query rq) ''tenant'' of None \<Rightarrow> [] | Some n \<Rightarrow> n) = [] \<and> \<not> as_tenant \<and>
       cps = concat (map (\<lambda>c. map (Pair c) (get_portals c)) (get_clusters (sv_clusters s))) \<or>
     (\<exists>n t. n \<noteq> [] \<and> dict_get (rq_query rq) ''tenant'' = Some n \<and>
        (as_tenant \<longrightarrow> allowed_access_to_tenant c (PStr n) = Inr True) \<and>
        get_tenant (sv_tenants s) n = Some t \<and>
        portals_which_are_accessible t (get_clusters (sv_clusters s)) = Inr cps)"

lemma list_workshops_ok:
  assumes "list_workshops s rq = Inr r" and "rs_status r = 200" and "rq_client rq = Some c"
    and "rq_roles rq = Some roles"
  shows "\<exists>cps ws. running_workshops cps = Inr ws \<and> r = json_response (PDict [(''workshops'', PList ws)]) \<and>
    considered_portals s rq c (''tenant'' \<in> set roles) cps"
  using assms
  by (auto simp: list_workshops_def considered_portals_def bindE_Inr_iff Let_def text_response_def
      split: option.splits if_splits)

section \<open>Properties\<close>


definition admin_client :: client_config where
  "admin_client = sample_client\<lparr>ci_roles := PList [PStr ''admin'']\<rparr>"

definition admin_service :: service_state where
  "admin_service = sample_service\<lparr>sv_clients := [(''alice'', admin_client)]\<rparr>"

lemma admin_fields [simp]:
  "ci_name admin_client = ''alice''" "dict_get (sv_clients admin_service) ''alice'' = Some admin_client"
  "clients_ok admin_service" "rq_token (sample_request a d) = None"
  by (simp_all add: admin_client_def admin_service_def clients_ok_def keyed_by_def sample_request_def)

lemma admin_role: "has_required_role admin_client [''admin''] = Inr [''admin'']"
  by (simp add: has_required_role_def admin_client_def)

lemma admin_gets_clusters:
  "serve dump order sample_decode ''k'' 6 Clusters admin_service
     (sample_request (bearer (sample_encode (token_claims admin_client 9) ''k'')) PNone) =
   Inr (json_response (PDict [(''clusters'', PList [])]))"
proof -
  let ?rq = "sample_request (bearer (sample_encode (token_claims admin_client 9) ''k'')) PNone"
  have "serve dump order sample_decode ''k'' 6 Clusters admin_service ?rq =
      roles_accepted [''admin''] (\<lambda>s rq. Inr (json_response
        (PDict [(''clusters'', PList (map cluster_json (get_clusters (sv_clusters s))))]))) admin_service
        (?rq\<lparr>rq_token := Some (token_claims admin_client 9), rq_client := Some admin_client\<rparr>)"
    unfolding serve_def endpoint_handler.simps api_get_v1_clusters_def admin_only_def
    by (rule current_identity_accepted [OF sample_jwt_documented]) simp_all
  also have "\<dots> = Inr (json_response (PDict [(''clusters'', PList [])]))"
    by (simp add: roles_accepted_def admin_role)
      (simp add: admin_service_def sample_service_def get_clusters_def empty_store_def)
  finally show ?thesis .
qed


text \<open>
  The listing of workshops: it names each workshop that has a running environment in
  the portals considered exactly once, described by the last of these environments, and
  lists nothing else. When the request names a tenant, the portals considered are those
  accessible to that tenant, else all portals of all clusters; a client that has the role
  \<open>tenant\<close>, even beside \<open>admin\<close>, must name one, and its tenant patterns match that tenant.
\<close>

theorem workshops_listing:
  assumes "serve dump order dec secret now Workshops s rq = Inr r" and "clients_ok s" and "rq_token rq = None"
    and "rs_status r = 200"
  shows "\<exists>c cps ks ws. dict_get (sv_clients s) (ci_name c) = Some c \<and>
    r = json_response (PDict [(''workshops'', PList ws)]) \<and> distinct ks \<and>
    list_all2 (describes (running_in cps)) ks ws \<and>
    set ks = {k. \<exists>e\<in>set (running_in cps). hash_key (en_workshop e) = Inr k} \<and>
    considered_portals s rq c (py_in (PStr ''tenant'') (ci_roles c) = Inr True) cps"
  using assms(1) [unfolded serve_def endpoint_handler.simps api_get_v1_workshops_def admin_or_tenant_def] assms(2,3)
proof (cases rule: guarded_cases)
  case refused
  with assms(4) show ?thesis by simp
next
  case (served token decoded c ms)
  obtain cps ws where ws: "running_workshops cps = Inr ws" "r = json_response (PDict [(''workshops'', PList ws)])"
    and tenant: "considered_portals s rq c (''tenant'' \<in> set ms) cps"
    using list_workshops_ok [OF served(8) assms(4), of c ms] by (auto simp: considered_portals_def)
  have "''tenant'' \<in> set ms \<longleftrightarrow> py_in (PStr ''tenant'') (ci_roles c) = Inr True"
    using served(6) by (auto simp: has_required_role_def bindE_Inr_iff split: if_splits)
  with tenant have "considered_portals s rq c (py_in (PStr ''tenant'') (ci_roles c) = Inr True) cps" by simp
  with ws running_workshops_list [OF ws(1)] served(5) show ?thesis by blast
qed

definition listed_environment :: "string \<Rightarrow> workshop_environment" where
  "listed_environment n =
     new_environment (PStr n) (PStr n) (PInt 1) (PStr ''w1'') PNone PNone (PList []) (PInt 1) (PInt 0)
       0 0 (PStr ''Running'')"

definition listed_portal :: training_portal where
  "listed_portal = add_environment (listed_environment ''e2'') (add_environment (listed_environment ''e1'') lab_portal)"

definition listed_cluster :: cluster_config where
  "listed_cluster = add_portal listed_portal (new_cluster ''c1'' PNone (PList []) PNone)"

definition listed_service :: service_state where
  "listed_service = admin_service\<lparr>sv_clusters := add_cluster listed_cluster empty_store\<rparr>"

theorem workshops_listing_witness:
  "\<exists>ws. serve (\<lambda>_. []) (\<lambda>xs. xs) sample_decode ''k'' 6 Workshops listed_service
      (sample_request (bearer (sample_encode (token_claims admin_client 9) ''k'')) PNone) =
    Inr (json_response (PDict [(''workshops'', PList ws)])) \<and> length ws = 1"
proof -
  let ?rq = "sample_request (bearer (sample_encode (token_claims admin_client 9) ''k'')) PNone"
  let ?ws = "[workshop_json (listed_environment ''e2'')]"
  have clients: "dict_get (sv_clients listed_service) ''alice'' = Some admin_client" "clients_ok listed_service"
    using admin_fields by (simp_all add: listed_service_def clients_ok_def)
  have "serve (\<lambda>_. []) (\<lambda>xs. xs) sample_decode ''k'' 6 Workshops listed_service ?rq =
      roles_accepted [''admin'', ''tenant''] list_workshops listed_service
        (?rq\<lparr>rq_token := Some (token_claims admin_client 9), rq_client := Some admin_client\<rparr>)"
    unfolding serve_def endpoint_handler.simps api_get_v1_workshops_def admin_or_tenant_def
    by (rule current_identity_accepted [OF sample_jwt_documented]) (simp_all add: clients)
  also have "\<dots> = bindE (running_workshops (map (Pair listed_cluster) (get_portals listed_cluster)))
      (\<lambda>ws. Inr (json_response (PDict [(''workshops'', PList ws)])))"
    by (simp add: roles_accepted_def has_required_role_def admin_client_def list_workshops_def Let_def)
      (simp add: sample_request_def listed_service_def add_cluster_def get_clusters_def get_cluster_def empty_store_def)
  also have "running_workshops (map (Pair listed_cluster) (get_portals listed_cluster)) = Inr ?ws"
    by code_simp
  also have "bindE (Inr ?ws) (\<lambda>ws. Inr (json_response (PDict [(''workshops'', PList ws)]))) =
      Inr (json_response (PDict [(''workshops'', PList ?ws)]))" by simp
  finally have run: "serve (\<lambda>_. []) (\<lambda>xs. xs) sample_decode ''k'' 6 Workshops listed_service ?rq =
      Inr (json_response (PDict [(''workshops'', PList ?ws)]))" .
  from workshops_listing [OF run clients(2)] obtain ws
    where "json_response (PDict [(''workshops'', PList ?ws)]) = json_response (PDict [(''workshops'', PList ws)])"
    by (auto simp: json_response_def)
  with run show ?thesis by (auto simp: json_response_def)
qed

end
