(* ===== verification/Portal_Client.thy ===== *)
theory Portal_Client
  imports Lookup_Caches
begin

text \<open>
  The HTTP client of the lookup service for the REST API of a training portal
  (\<open>TrainingPortalClientSession\<close> in \<open>lookup-service/service/caches/portals.py\<close>, with the
  callers in \<open>caches/environments.py\<close> and \<open>caches/sessions.py\<close>). The portals at the other end
  are a parameter: a function from the calls made so far and the next call to its
  outcome. An operation takes the calls made so far, most recent first, and returns its
  result or exception with the calls made then, so what was called is known also when an
  exception is raised. A call stands for a whole \<open>async with\<close> block of the client library,
  so everything the library raises for it (refused arguments included) is an outcome.
\<close>

section \<open>Calls and outcomes\<close>

record http_call =
  hc_method :: string
  hc_url :: string
  hc_data :: "(string \<times> pyval) list"
  hc_params :: "(string \<times> pyval) list"
  hc_auth :: "(pyval \<times> pyval) option"
  hc_bearer :: "pyval option"
  hc_json :: "pyval option"

datatype http_outcome =
    Reply int "pyval result"
  | Failed py_error

type_synonym portals_api = "http_call list \<Rightarrow> http_call \<Rightarrow> http_outcome"

type_synonym 'a http = "http_call list \<Rightarrow> 'a result \<times> http_call list"

definition http_return :: "'a \<Rightarrow> 'a http" where
  "http_return x tr = (Inr x, tr)"

definition perform :: "portals_api \<Rightarrow> http_call \<Rightarrow> http_outcome http" where
  "perform api call tr = (Inr (api tr call), call # tr)"

definition http_bind :: "'a http \<Rightarrow> ('a \<Rightarrow> 'b http) \<Rightarrow> 'b http" where
  "http_bind m f tr = (case m tr of (Inl e, tr') \<Rightarrow> (Inl e, tr') | (Inr x, tr') \<Rightarrow> f x tr')"

text \<open>A computation on data inside a sequence of calls.\<close>

definition http_lift :: "'a result \<Rightarrow> 'a http" where
  "http_lift r tr = (r, tr)"

section \<open>Login and logout\<close>

definition portal_url :: "training_portal \<Rightarrow> string \<Rightarrow> string" where
  "portal_url p path = py_str (pt_url p) @ path"

definition login_call :: "training_portal \<Rightarrow> http_call" where
  "login_call p =
     \<lparr>hc_method = ''POST'', hc_url = portal_url p ''/oauth2/token/'',
      hc_data = [(''grant_type'', PStr ''password''), (''username'', cr_username (pt_credentials p)),
                 (''password'', cr_password (pt_credentials p))],
      hc_params = [], hc_auth = Some (cr_client_id (pt_credentials p), cr_client_secret (pt_credentials p)),
      hc_bearer = None, hc_json = None\<rparr>"

text \<open>
  The result is the access token the client session holds afterwards, \<open>None\<close> as before
  when the login failed. Of the exceptions only \<open>ClientConnectorError\<close> is handled.
\<close>

definition portal_login :: "portals_api \<Rightarrow> training_portal \<Rightarrow> pyval http" where
  "portal_login api p =
     http_bind (perform api (login_call p)) (\<lambda>out.
       case out of
         Failed e \<Rightarrow> if e = ClientConnectorError then http_return PNone else http_lift (Inl e)
       | Reply status json \<Rightarrow>
           if status \<noteq> 200 then http_return PNone
           else http_lift (bindE json (\<lambda>d. py_get d ''access_token'')))"

definition connected :: "pyval \<Rightarrow> bool" where
  "connected access_token = truthy access_token"

definition logout_call :: "training_portal \<Rightarrow> pyval \<Rightarrow> http_call" where
  "logout_call p access_token =
     \<lparr>hc_method = ''POST'', hc_url = portal_url p ''/oauth2/revoke-token/'',
      hc_data = [(''client_id'', cr_client_id (pt_credentials p)),
                 (''client_secret'', cr_client_secret (pt_credentials p)), (''token'', access_token)],
      hc_params = [], hc_auth = None, hc_bearer = None, hc_json = None\<rparr>"

definition portal_logout :: "portals_api \<Rightarrow> training_portal \<Rightarrow> pyval \<Rightarrow> unit http" where
  "portal_logout api p access_token =
     (if \<not> connected access_token then http_return ()
      else http_bind (perform api (logout_call p access_token)) (\<lambda>out.
        case out of
          Failed e \<Rightarrow> if e = ClientConnectorError then http_return () else http_lift (Inl e)
        | Reply status json \<Rightarrow> http_return ()))"

section \<open>Sessions on a portal\<close>

definition request_url :: "training_portal \<Rightarrow> pyval \<Rightarrow> string" where
  "request_url p environment_name =
     portal_url p (''/workshops/environment/'' @ py_str environment_name @ ''/request/'')"

definition reacquire_call ::
    "training_portal \<Rightarrow> pyval \<Rightarrow> pyval \<Rightarrow> pyval \<Rightarrow> pyval \<Rightarrow> pyval \<Rightarrow> http_call" where
  "reacquire_call p access_token user_id environment_name session_name index_url =
     \<lparr>hc_method = ''GET'', hc_url = request_url p environment_name, hc_data = [],
      hc_params = [(''index_url'', index_url), (''user'', user_id), (''session'', session_name)],
      hc_auth = None, hc_bearer = Some access_token, hc_json = None\<rparr>"

text \<open>The data returned for a session; it is \<open>None\<close> when the portal gave no address.\<close>

definition session_data ::
    "cluster_config \<Rightarrow> training_portal \<Rightarrow> pyval \<Rightarrow> pyval \<Rightarrow> pyval \<Rightarrow> pyval \<Rightarrow> pyval" where
  "session_data c p environment_name session_name user_id url =
     (if truthy url then
        PDict [(''clusterName'', PStr (cl_name c)), (''portalName'', pt_name p),
               (''environmentName'', environment_name), (''sessionName'', session_name),
               (''clientUserId'', user_id),
               (''sessionActivationUrl'', PStr (py_str (pt_url p) @ py_str url))]
      else PNone)"

definition portal_reacquire_workshop_session ::
    "portals_api \<Rightarrow> cluster_config \<Rightarrow> training_portal \<Rightarrow> pyval \<Rightarrow> pyval \<Rightarrow> pyval \<Rightarrow> pyval \<Rightarrow> pyval \<Rightarrow> pyval http" where
  "portal_reacquire_workshop_session api c p access_token user_id environment_name session_name index_url =
     (if \<not> connected access_token then http_return PNone
      else if \<not> truthy session_name then http_return PNone
      else
        http_bind (perform api (reacquire_call p access_token user_id environment_name session_name index_url))
          (\<lambda>out. case out of
             Failed e \<Rightarrow> if e = ClientConnectorError then http_return PNone else http_lift (Inl e)
           | Reply status json \<Rightarrow>
               if status \<noteq> 200 then http_return PNone
               else http_lift (bindE json (\<lambda>d. bindE (py_get d ''url'') (\<lambda>url.
                      Inr (session_data c p environment_name session_name user_id url))))))"

record session_request =
  sq_user_id :: pyval
  sq_user_email :: pyval
  sq_user_first_name :: pyval
  sq_user_last_name :: pyval
  sq_parameters :: pyval
  sq_index_url :: pyval
  sq_analytics_url :: pyval

definition request_call :: "training_portal \<Rightarrow> pyval \<Rightarrow> pyval \<Rightarrow> session_request \<Rightarrow> http_call" where
  "request_call p access_token environment_name q =
     \<lparr>hc_method = ''GET'', hc_url = request_url p environment_name, hc_data = [],
      hc_params = [(''user'', sq_user_id q), (''email'', sq_user_email q),
        (''first_name'', sq_user_first_name q), (''last_name'', sq_user_last_name q),
        (''index_url'', sq_index_url q), (''analytics_url'', sq_analytics_url q)],
      hc_auth = None, hc_bearer = Some access_token,
      hc_json = Some (PDict [(''parameters'', sq_parameters q)])\<rparr>"

text \<open>Every exception raised while a session is requested is caught, by one of three handlers.\<close>

definition portal_request_workshop_session ::
    "portals_api \<Rightarrow> cluster_config \<Rightarrow> training_portal \<Rightarrow> pyval \<Rightarrow> pyval \<Rightarrow> session_request \<Rightarrow> pyval http" where
  "portal_request_workshop_session api c p access_token environment_name q =
     (if \<not> connected access_token then http_return PNone
      else
        http_bind (perform api (request_call p access_token environment_name q)) (\<lambda>out.
          case out of
            Failed e \<Rightarrow> http_return PNone
          | Reply status json \<Rightarrow>
              if status \<noteq> 200 then http_return PNone
              else
                (case bindE json (\<lambda>d. bindE (py_get d ''url'') (\<lambda>url. bindE (py_get d ''name'') (\<lambda>name.
                        Inr (session_data c p environment_name name (sq_user_id q) url)))) of
                   Inl e \<Rightarrow> http_return PNone
                 | Inr v \<Rightarrow> http_return v)))"

text \<open>
  \<open>async with portal.client_session(...) as portal_client\<close>: login on entry, the body, and
  logout on exit however the body ended. An exception of the logout replaces the result.
\<close>

definition with_portal_client :: "portals_api \<Rightarrow> training_portal \<Rightarrow> (pyval \<Rightarrow> 'a http) \<Rightarrow> 'a http" where
  "with_portal_client api p body =
     http_bind (portal_login api p) (\<lambda>access_token tr.
       (case body access_token tr of
          (r, tr') \<Rightarrow>
            (case portal_logout api p access_token tr' of
               (Inl e, tr'') \<Rightarrow> (Inl e, tr'')
             | (Inr _, tr'') \<Rightarrow> (r, tr''))))"

text \<open>\<open>WorkshopEnvironment.request_workshop_session\<close> and \<open>WorkshopSession.reacquire_workshop_session\<close>.\<close>

definition request_workshop_session ::
    "portals_api \<Rightarrow> cluster_config \<Rightarrow> training_portal \<Rightarrow> workshop_environment \<Rightarrow> session_request \<Rightarrow> pyval http" where
  "request_workshop_session api c p e q =
     with_portal_client api p (\<lambda>access_token.
       if \<not> connected access_token then http_return PNone
       else portal_request_workshop_session api c p access_token (en_name e) q)"

definition reacquire_workshop_session ::
    "portals_api \<Rightarrow> cluster_config \<Rightarrow> training_portal \<Rightarrow> workshop_environment \<Rightarrow> workshop_session \<Rightarrow> pyval \<Rightarrow> pyval http" where
  "reacquire_workshop_session api c p e s index_url =
     with_portal_client api p (\<lambda>access_token.
       if \<not> connected access_token then http_return PNone
       else portal_reacquire_workshop_session api c p access_token (ss_user s) (en_name e) (ss_name s) index_url)"

section \<open>Calls made\<close>

lemma http_simps [simp]:
  "http_return x tr = (Inr x, tr)" "http_lift r tr = (r, tr)" "perform api k tr = (Inr (api tr k), k # tr)"
  by (simp_all add: http_return_def http_lift_def perform_def)

lemma http_bind_Pair [simp]:
  "http_bind m f tr = (case m tr of (r, tr') \<Rightarrow> (case r of Inl e \<Rightarrow> (Inl e, tr') | Inr x \<Rightarrow> f x tr'))"
  by (simp add: http_bind_def split: prod.splits sum.splits)

text \<open>The portal answered the login with this access token.\<close>

definition granted :: "portals_api \<Rightarrow> http_call list \<Rightarrow> training_portal \<Rightarrow> pyval \<Rightarrow> bool" where
  "granted api tr p tok \<longleftrightarrow>
     (\<exists>j. api tr (login_call p) = Reply 200 (Inr j) \<and> py_get j ''access_token'' = Inr tok)"

lemma portal_login_cases:
  obtains (failed) e where "portal_login api p tr = (Inl e, login_call p # tr)"
  | (refused) tok where "portal_login api p tr = (Inr tok, login_call p # tr)" "\<not> connected tok"
  | (ok) tok where "portal_login api p tr = (Inr tok, login_call p # tr)" "connected tok" "granted api tr p tok"
proof -
  have none: "\<not> connected PNone" by (simp add: connected_def)
  show thesis
  proof (cases "api tr (login_call p)")
    case (Failed e)
    then show thesis
      using failed [of e] refused [of PNone] none
      by (cases "e = ClientConnectorError") (simp_all add: portal_login_def)
  next
    case (Reply status json)
    show thesis
    proof (cases "status = 200")
      case False
      with Reply show thesis using refused [of PNone] none by (simp add: portal_login_def)
    next
      case True
      show thesis
      proof (cases "bindE json (\<lambda>d. py_get d ''access_token'')")
        case (Inl e)
        with Reply True show thesis using failed [of e] by (simp add: portal_login_def)
      next
        case (Inr tok)
        then have "granted api tr p tok" using Reply True by (auto simp: granted_def bindE_Inr_iff)
        with Inr Reply True show thesis
          using ok [of tok] refused [of tok] by (cases "connected tok") (simp_all add: portal_login_def)
      qed
    qed
  qed
qed

lemma portal_logout_calls:
  "snd (portal_logout api p tok tr) = (if connected tok then logout_call p tok # tr else tr)"
  by (simp add: portal_logout_def split: http_outcome.splits)

definition no_token :: "portals_api \<Rightarrow> http_call list \<Rightarrow> training_portal \<Rightarrow> bool" where
  "no_token api tr p \<longleftrightarrow> (\<forall>tok. granted api tr p tok \<longrightarrow> \<not> connected tok)"

lemma granted_login: "granted api tr p tok \<Longrightarrow> fst (portal_login api p tr) = Inr tok"
  by (auto simp: granted_def portal_login_def)

text \<open>
  What \<open>with_portal_client\<close> makes of a body: one login; and when that gave a token, the body
  on it and one logout with the same token.
\<close>

lemma with_portal_client_calls:
  obtains (failed) e where "with_portal_client api p body tr = (Inl e, login_call p # tr)" "no_token api tr p"
  | (token) tok where "granted api tr p tok" "connected tok"
      "snd (with_portal_client api p body tr) = logout_call p tok # snd (body tok (login_call p # tr))"
      "\<And>v. fst (with_portal_client api p body tr) = Inr v \<Longrightarrow> fst (body tok (login_call p # tr)) = Inr v"
  | (body_without_token) tok where "\<not> connected tok" "no_token api tr p"
      "with_portal_client api p body tr = body tok (login_call p # tr)"
proof (cases rule: portal_login_cases [of api p tr])
  case (failed e)
  moreover from this have "no_token api tr p" using granted_login [of api tr p] by (auto simp: no_token_def)
  ultimately show thesis by (intro that(1) [of e]) (simp_all add: with_portal_client_def)
next
  case (refused tok)
  moreover from this have "no_token api tr p" using granted_login [of api tr p] by (auto simp: no_token_def)
  ultimately show thesis
    by (intro that(3) [of tok])
      (simp_all add: with_portal_client_def portal_logout_def split: prod.splits)
next
  case (ok tok)
  obtain r tr' where b: "body tok (login_call p # tr) = (r, tr')" by force
  obtain l tr'' where l: "portal_logout api p tok tr' = (l, tr'')" by force
  from l ok(2) portal_logout_calls [of api p tok tr'] have "tr'' = logout_call p tok # tr'" by simp
  with ok b l show thesis
    by (intro that(2) [of tok]) (auto simp: with_portal_client_def split: sum.splits)
qed

text \<open>The data of a session that the portal gave in answer to a call.\<close>

definition session_given ::
    "portals_api \<Rightarrow> http_call list \<Rightarrow> http_call \<Rightarrow> cluster_config \<Rightarrow> training_portal \<Rightarrow> pyval \<Rightarrow> pyval \<Rightarrow> pyval
     \<Rightarrow> pyval \<Rightarrow> bool" where
  "session_given api tr k c p en user sn v \<longleftrightarrow>
     (\<exists>j url. api tr k = Reply 200 (Inr j) \<and> py_get j ''url'' = Inr url \<and> truthy url \<and>
        v = session_data c p en sn user url)"

lemma session_data_truthy: "truthy (session_data c p en sn user url) \<longleftrightarrow> truthy url"
  by (simp add: session_data_def)

lemma portal_request_calls:
  "connected tok \<Longrightarrow> snd (portal_request_workshop_session api c p tok en q tr) = request_call p tok en q # tr"
  by (simp add: portal_request_workshop_session_def split: http_outcome.splits sum.splits)

lemma portal_request_result:
  assumes "connected tok" and "fst (portal_request_workshop_session api c p tok en q tr) = Inr v" and "truthy v"
  shows "\<exists>sn. session_given api tr (request_call p tok en q) c p en (sq_user_id q) sn v"
proof (cases "api tr (request_call p tok en q)")
  case (Failed e)
  with assms show ?thesis by (simp add: portal_request_workshop_session_def)
next
  case (Reply status json)
  with assms have "status = 200"
    by (auto simp: portal_request_workshop_session_def split: if_splits)
  with Reply assms show ?thesis
    by (auto simp: portal_request_workshop_session_def session_given_def session_data_truthy bindE_Inr_iff
        split: sum.splits)
qed

text \<open>Requesting a session raises nothing, whatever the portal does.\<close>

lemma portal_request_no_raise: "\<exists>v. fst (portal_request_workshop_session api c p tok en q tr) = Inr v"
  by (simp add: portal_request_workshop_session_def split: http_outcome.splits sum.splits)

lemma portal_reacquire_calls:
  "connected tok \<Longrightarrow> snd (portal_reacquire_workshop_session api c p tok user en sn index_url tr) =
     (if truthy sn then reacquire_call p tok user en sn index_url # tr else tr)"
  by (simp add: portal_reacquire_workshop_session_def split: http_outcome.splits)

lemma portal_reacquire_result:
  assumes "connected tok" and "truthy v"
    and "fst (portal_reacquire_workshop_session api c p tok user en sn index_url tr) = Inr v"
  shows "session_given api tr (reacquire_call p tok user en sn index_url) c p en user sn v"
proof (cases "api tr (reacquire_call p tok user en sn index_url)")
  case (Failed e)
  with assms show ?thesis
    by (auto simp: portal_reacquire_workshop_session_def split: if_splits)
next
  case (Reply status json)
  with assms have "status = 200"
    by (auto simp: portal_reacquire_workshop_session_def split: if_splits)
  with Reply assms show ?thesis
    by (auto simp: portal_reacquire_workshop_session_def session_given_def session_data_truthy bindE_Inr_iff
        split: if_splits)
qed

lemma request_workshop_session_calls:
  obtains (login_only) r where "request_workshop_session api c p e q tr = (r, login_call p # tr)"
      "\<And>v. r = Inr v \<Longrightarrow> v = PNone" "no_token api tr p"
  | (asked) tok where "granted api tr p tok" "connected tok"
      "snd (request_workshop_session api c p e q tr) =
         logout_call p tok # request_call p tok (en_name e) q # login_call p # tr"
      "\<And>v. fst (request_workshop_session api c p e q tr) = Inr v \<Longrightarrow> truthy v \<Longrightarrow>
         \<exists>sn. session_given api (login_call p # tr) (request_call p tok (en_name e) q) c p (en_name e)
           (sq_user_id q) sn v"
proof -
  let ?body = "\<lambda>access_token. if \<not> connected access_token then http_return PNone
       else portal_request_workshop_session api c p access_token (en_name e) q"
  show thesis
  proof (cases rule: with_portal_client_calls [of api p ?body tr])
    case (failed x)
    then show thesis by (intro login_only [of "Inl x"]) (simp_all add: request_workshop_session_def)
  next
    case (token tok)
    then show thesis
      using portal_request_result [of tok api c p "en_name e" q "login_call p # tr"]
      by (intro asked [of tok]) (simp_all add: request_workshop_session_def portal_request_calls)
  next
    case (body_without_token tok)
    then show thesis by (intro login_only [of "Inr PNone"]) (simp_all add: request_workshop_session_def)
  qed
qed

lemma reacquire_workshop_session_calls:
  obtains (login_only) r where "reacquire_workshop_session api c p e s index_url tr = (r, login_call p # tr)"
      "\<And>v. r = Inr v \<Longrightarrow> v = PNone" "no_token api tr p"
  | (unnamed) tok where "granted api tr p tok" "connected tok"
      "snd (reacquire_workshop_session api c p e s index_url tr) = logout_call p tok # login_call p # tr"
      "\<And>v. fst (reacquire_workshop_session api c p e s index_url tr) = Inr v \<Longrightarrow> v = PNone"
  | (asked) tok where "granted api tr p tok" "connected tok"
      "snd (reacquire_workshop_session api c p e s index_url tr) =
         logout_call p tok # reacquire_call p tok (ss_user s) (en_name e) (ss_name s) index_url # login_call p # tr"
      "\<And>v. fst (reacquire_workshop_session api c p e s index_url tr) = Inr v \<Longrightarrow> truthy v \<Longrightarrow>
         session_given api (login_call p # tr)
           (reacquire_call p tok (ss_user s) (en_name e) (ss_name s) index_url) c p (en_name e)
           (ss_user s) (ss_name s) v"
proof -
  let ?body = "\<lambda>access_token. if \<not> connected access_token then http_return PNone
       else portal_reacquire_workshop_session api c p access_token (ss_user s) (en_name e) (ss_name s) index_url"
  show thesis
  proof (cases rule: with_portal_client_calls [of api p ?body tr])
    case (failed x)
    then show thesis by (intro login_only [of "Inl x"]) (simp_all add: reacquire_workshop_session_def)
  next
    case (token tok)
    show thesis
    proof (cases "truthy (ss_name s)")
      case True
      with token show thesis
        using portal_reacquire_result [of tok _ api c p "ss_user s" "en_name e" "ss_name s" index_url "login_call p # tr"]
        by (intro asked [of tok]) (simp_all add: reacquire_workshop_session_def portal_reacquire_calls)
    next
      case False
      with token show thesis
        by (intro unnamed [of tok]) (auto simp: reacquire_workshop_session_def portal_reacquire_workshop_session_def)
    qed
  next
    case (body_without_token tok)
    then show thesis by (intro login_only [of "Inr PNone"]) (simp_all add: reacquire_workshop_session_def)
  qed
qed

section \<open>Token hygiene\<close>

text \<open>
  A sequence of calls, most recent first, in which every access token a portal granted is
  revoked at that portal right after the one call it was used for: blocks of a login
  alone that gave no token, or of a login, at most one call with the granted token, and the logout.
\<close>

inductive tokens_revoked :: "portals_api \<Rightarrow> http_call list \<Rightarrow> bool" for api :: portals_api where
  no_calls: "tokens_revoked api []"
| login_alone: "tokens_revoked api tr \<Longrightarrow> no_token api tr p \<Longrightarrow> tokens_revoked api (login_call p # tr)"
| token_unused: "tokens_revoked api tr \<Longrightarrow> granted api tr p tok
    \<Longrightarrow> tokens_revoked api (logout_call p tok # login_call p # tr)"
| token_used: "tokens_revoked api tr \<Longrightarrow> granted api tr p tok \<Longrightarrow> hc_bearer k = Some tok
    \<Longrightarrow> tokens_revoked api (logout_call p tok # k # login_call p # tr)"

lemma request_tokens_revoked:
  assumes "tokens_revoked api tr"
  shows "tokens_revoked api (snd (request_workshop_session api c p e q tr))"
  using request_workshop_session_calls [of api c p e q tr]
proof cases
  case (login_only r)
  with assms show ?thesis by (simp add: login_alone)
next
  case (asked tok)
  with assms show ?thesis by (simp add: token_used request_call_def)
qed

lemma reacquire_tokens_revoked:
  assumes "tokens_revoked api tr"
  shows "tokens_revoked api (snd (reacquire_workshop_session api c p e s index_url tr))"
  using reacquire_workshop_session_calls [of api c p e s index_url tr]
proof cases
  case (login_only r)
  with assms show ?thesis by (simp add: login_alone)
next
  case (unnamed tok)
  with assms show ?thesis by (simp add: token_unused)
next
  case (asked tok)
  with assms show ?thesis by (simp add: token_used reacquire_call_def)
qed

end
