(* ===== verification/Workshop_Requests.thy ===== *)
theory Workshop_Requests
  imports Lookup_Routes Portal_Client "HOL-Library.Product_Lexorder" "HOL-Library.Multiset"
begin

text \<open>
  The request for a workshop session (\<open>api_post_v1_workshops\<close> and
  \<open>sort_workshop_environments\<close> in \<open>lookup-service/service/routes/workshops.py\<close>): find the
  session the user already has, or ask the environments that host the workshop for one,
  best candidate first. The databases are those at the time of the request: the events
  that the operators handle while the handler waits for a portal are not interleaved.
\<close>

section \<open>Candidates\<close>

text \<open>An environment with the portal and the cluster it belongs to.\<close>

type_synonym candidate = "cluster_config \<times> training_portal \<times> workshop_environment"

text \<open>\<open>0\<close> when a capacity is given and used up, \<open>1\<close> otherwise.\<close>

definition availability :: "pyval \<Rightarrow> int \<Rightarrow> int result" where
  "availability capacity allocated =
     (if \<not> truthy capacity then Inr 1
      else bindE (py_num capacity) (\<lambda>n. Inr (if n - allocated \<le> 0 then 0 else 1)))"

definition score_based_on_portal_availability :: "candidate \<Rightarrow> int result" where
  "score_based_on_portal_availability = (\<lambda>(c, p, e). availability (pt_capacity p) (pt_allocated p))"

definition score_based_on_environment_availability :: "candidate \<Rightarrow> int result" where
  "score_based_on_environment_availability = (\<lambda>(c, p, e). availability (en_capacity e) (en_allocated e))"

definition spare_capacity :: "pyval \<Rightarrow> int \<Rightarrow> int result" where
  "spare_capacity capacity allocated =
     (if \<not> truthy capacity then Inr 1 else bindE (py_num capacity) (\<lambda>n. Inr (n - allocated)))"

definition score_based_on_reserved_sessions :: "candidate \<Rightarrow> (int \<times> int) result" where
  "score_based_on_reserved_sessions = (\<lambda>(c, p, e).
     bindE (spare_capacity (pt_capacity p) (pt_allocated p)) (\<lambda>n. Inr (n, en_available e)))"

definition score_based_on_available_capacity :: "candidate \<Rightarrow> (int \<times> int) result" where
  "score_based_on_available_capacity = (\<lambda>(c, p, e).
     bindE (spare_capacity (pt_capacity p) (pt_allocated p)) (\<lambda>n.
     bindE (spare_capacity (en_capacity e) (en_allocated e)) (\<lambda>m. Inr (n, m))))"

type_synonym score = "int \<times> int \<times> (int \<times> int) \<times> (int \<times> int)"

definition candidate_score :: "candidate \<Rightarrow> score result" where
  "candidate_score x =
     bindE (score_based_on_portal_availability x) (\<lambda>a.
     bindE (score_based_on_environment_availability x) (\<lambda>b.
     bindE (score_based_on_reserved_sessions x) (\<lambda>c.
     bindE (score_based_on_available_capacity x) (\<lambda>d. Inr (a, b, c, d)))))"

text \<open>
  \<open>sorted(xs, key=..., reverse=True)\<close> computes every key first, sorts by descending key and
  keeps the order of elements with equal keys.
\<close>

definition sort_workshop_environments :: "candidate list \<Rightarrow> candidate list result" where
  "sort_workshop_environments xs =
     bindE (mapE (\<lambda>x. bindE (candidate_score x) (\<lambda>k. Inr (k, x))) xs) (\<lambda>ks.
       Inr (map snd (rev (sort_key fst (rev ks)))))"

section \<open>Asking the portals\<close>

text \<open>The user's existing session, portal by portal; \<open>None\<close> when no portal gives one back.\<close>

primrec try_existing ::
    "portals_api \<Rightarrow> pyval \<Rightarrow> pyval \<Rightarrow> pyval \<Rightarrow> (cluster_config \<times> training_portal) list \<Rightarrow> pyval http" where
  "try_existing api user_id workshop index_url [] = http_return PNone"
| "try_existing api user_id workshop index_url (cp # cps) =
     (case find_existing_workshop_session_for_user (snd cp) user_id workshop of
        None \<Rightarrow> try_existing api user_id workshop index_url cps
      | Some (e, s) \<Rightarrow>
          http_bind (reacquire_workshop_session api (fst cp) (snd cp) e s index_url) (\<lambda>d.
            if truthy d then http_return d else try_existing api user_id workshop index_url cps))"

primrec try_environments :: "portals_api \<Rightarrow> session_request \<Rightarrow> candidate list \<Rightarrow> pyval http" where
  "try_environments api q [] = http_return PNone"
| "try_environments api q (x # xs) =
     http_bind (request_workshop_session api (fst x) (fst (snd x)) (snd (snd x)) q) (\<lambda>d.
       if truthy d then http_return d else try_environments api q xs)"

section \<open>The handler\<close>

type_synonym http_handler = "service_state \<Rightarrow> request \<Rightarrow> response http"

text \<open>The decorators around a handler that makes calls.\<close>

definition login_required_http :: "http_handler \<Rightarrow> http_handler" where
  "login_required_http h s rq =
     http_bind (http_lift (check_token (sv_clients s) rq)) (\<lambda>r.
       case r of Inl refusal \<Rightarrow> http_return refusal | Inr c \<Rightarrow> h s (rq\<lparr>rq_client := Some c\<rparr>))"

definition roles_accepted_http :: "string list \<Rightarrow> http_handler \<Rightarrow> http_handler" where
  "roles_accepted_http roles h s rq =
     http_bind (http_lift (entry (rq_client rq))) (\<lambda>client.
     http_bind (http_lift (has_required_role client roles)) (\<lambda>matched_roles.
       if matched_roles = [] then http_return (text_response 403 ''Client access not permitted'')
       else h s (rq\<lparr>rq_roles := Some matched_roles\<rparr>)))"

text \<open>What the handler reads from the body and the client.\<close>

record workshop_request =
  wq_tenant :: pyval
  wq_workshop :: pyval
  wq_session :: session_request

definition read_workshop_request :: "client_config \<Rightarrow> pyval \<Rightarrow> workshop_request result" where
  "read_workshop_request client d =
     bindE (py_get d ''tenantName'') (\<lambda>tenant_name.
     bindE (py_get d ''clientUserId'') (\<lambda>client_user.
     bindE (py_get d ''clientIndexUrl'') (\<lambda>index_url.
     bindE (py_get d ''userEmailAddress'') (\<lambda>email.
     bindE (py_get d ''userFirstName'') (\<lambda>first_name.
     bindE (py_get d ''userLastName'') (\<lambda>last_name.
     bindE (py_get d ''workshopName'') (\<lambda>workshop_name.
     bindE (py_get_or d ''workshopParams'' (PList [])) (\<lambda>parameters.
     bindE (py_get d ''analyticsWebhookUrl'') (\<lambda>analytics_url.
       Inr \<lparr>wq_tenant = tenant_name, wq_workshop = workshop_name,
            wq_session =
              \<lparr>sq_user_id = py_or (py_or (ci_user client) client_user) (PStr []),
               sq_user_email = py_or email (PStr []), sq_user_first_name = py_or first_name (PStr []),
               sq_user_last_name = py_or last_name (PStr []), sq_parameters = parameters,
               sq_index_url = py_or index_url (PStr []),
               sq_analytics_url = py_or analytics_url (PStr [])\<rparr>\<rparr>)))))))))"

text \<open>\<open>tenant_database.get_tenant(name)\<close> for a name from the request body.\<close>

definition find_tenant :: "tenant_database \<Rightarrow> pyval \<Rightarrow> tenant_config option result" where
  "find_tenant db name =
     (case name of PStr n \<Rightarrow> Inr (get_tenant db n)
      | PList _ \<Rightarrow> Inl TypeError | PDict _ \<Rightarrow> Inl TypeError | _ \<Rightarrow> Inr None)"

definition answer_with_tenant :: "pyval \<Rightarrow> pyval \<Rightarrow> response" where
  "answer_with_tenant tenant_name d =
     (case d of PDict kvs \<Rightarrow> json_response (PDict (dict_set ''tenantName'' tenant_name kvs))
      | _ \<Rightarrow> json_response d)"

text \<open>The running environments for the workshop, of the portals that host it.\<close>

definition hosting_portals ::
    "pyval \<Rightarrow> (cluster_config \<times> training_portal) list \<Rightarrow> (cluster_config \<times> training_portal) list" where
  "hosting_portals workshop cps = filter (\<lambda>(c, p). hosts_workshop p workshop) cps"

definition hosting_environments ::
    "pyval \<Rightarrow> (cluster_config \<times> training_portal) list \<Rightarrow> candidate list" where
  "hosting_environments workshop cps =
     concat (map (\<lambda>(c, p). map (\<lambda>e. (c, p, e))
       (filter (\<lambda>e. py_eq (en_workshop e) workshop) (get_running_environments p))) cps)"

definition workshop_not_available :: response where
  "workshop_not_available = text_response 503 ''Workshop not available''"

definition all_portals_of :: "cluster_config list \<Rightarrow> (cluster_config \<times> training_portal) list" where
  "all_portals_of cs = concat (map (\<lambda>c. map (Pair c) (get_portals c)) cs)"

definition allocate_session ::
    "portals_api \<Rightarrow> service_state \<Rightarrow> workshop_request \<Rightarrow> response http" where
  "allocate_session api s q =
     http_bind (http_lift (find_tenant (sv_tenants s) (wq_tenant q))) (\<lambda>tenant.
       case tenant of
         None \<Rightarrow> http_return (text_response 503 ''Tenant not available'')
       | Some t \<Rightarrow>
           http_bind (http_lift (portals_which_are_accessible t (get_clusters (sv_clusters s)))) (\<lambda>cps.
             (let selected = hosting_portals (wq_workshop q) cps;
                  environments = hosting_environments (wq_workshop q) selected
              in if selected = [] then http_return workshop_not_available
                 else if environments = [] then http_return workshop_not_available
                 else
                   http_bind (http_lift (sort_workshop_environments environments)) (\<lambda>sorted_environments.
                   http_bind (try_environments api (wq_session q) sorted_environments) (\<lambda>d.
                     http_return (if truthy d then answer_with_tenant (wq_tenant q) d
                                  else workshop_not_available))))))"

text \<open>An existing session first, a new one otherwise.\<close>

definition place_session :: "portals_api \<Rightarrow> service_state \<Rightarrow> workshop_request \<Rightarrow> response http" where
  "place_session api s q =
     http_bind (if truthy (sq_user_id (wq_session q))
                then try_existing api (sq_user_id (wq_session q)) (wq_workshop q)
                       (sq_index_url (wq_session q)) (all_portals_of (get_clusters (sv_clusters s)))
                else http_return PNone) (\<lambda>d.
       if truthy d then http_return (answer_with_tenant (wq_tenant q) d)
       else allocate_session api s q)"

definition request_session_route :: "portals_api \<Rightarrow> http_handler" where
  "request_session_route api s rq =
     http_bind (http_lift (rq_json rq)) (\<lambda>d.
     http_bind (http_lift (entry (rq_client rq))) (\<lambda>client.
     http_bind (http_lift (read_workshop_request client d)) (\<lambda>q.
       if \<not> truthy (wq_tenant q) then http_return (text_response 400 ''Missing tenantName'')
       else if \<not> truthy (wq_workshop q) then http_return (text_response 400 ''Missing workshopName'')
       else
         http_bind (http_lift (allowed_access_to_tenant client (wq_tenant q))) (\<lambda>allowed.
           if \<not> allowed then http_return (text_response 403 ''Client not allowed access to tenant'')
           else place_session api s q))))"

definition api_post_v1_workshops :: "portals_api \<Rightarrow> http_handler" where
  "api_post_v1_workshops api =
     login_required_http (roles_accepted_http [''admin'', ''tenant''] (request_session_route api))"

section \<open>The order of the candidates\<close>

lemma mapE_key:
  "mapE (\<lambda>x. bindE (f x) (\<lambda>k. Inr (k, x))) xs = Inr ks \<Longrightarrow>
   map snd ks = xs \<and> list_all (\<lambda>(k, x). f x = Inr k) ks"
  by (induction xs arbitrary: ks) (auto simp: bindE_Inr_iff)

lemma sort_workshop_environments_sorted:
  assumes "sort_workshop_environments xs = Inr ys"
  obtains ks where "ys = map snd (rev (sort_key fst (rev ks)))" and "map snd ks = xs"
    and "\<And>k x. (k, x) \<in> set ks \<Longrightarrow> candidate_score x = Inr k"
  using assms mapE_key [of candidate_score xs]
  by (fastforce simp: sort_workshop_environments_def bindE_Inr_iff list_all_iff)

lemma filter_by_key:
  assumes "\<And>k x. (k, x) \<in> set ks \<Longrightarrow> f x = Inr k"
  shows "filter (\<lambda>x. f x = Inr k) (map snd ks) = map snd (filter (\<lambda>y. fst y = k) ks)"
  using assms by (induction ks) (auto, metis Inr_inject)

lemma sort_stable:
  assumes "sort_workshop_environments xs = Inr ys"
  shows "filter (\<lambda>x. candidate_score x = Inr k) ys = filter (\<lambda>x. candidate_score x = Inr k) xs"
proof -
  obtain ks where ks: "ys = map snd (rev (sort_key fst (rev ks)))" "map snd ks = xs"
    "\<And>k x. (k, x) \<in> set ks \<Longrightarrow> candidate_score x = Inr k"
    using sort_workshop_environments_sorted [OF assms] by blast
  have "filter (\<lambda>x. candidate_score x = Inr k) ys =
      map snd (filter (\<lambda>y. fst y = k) (rev (sort_key fst (rev ks))))"
    unfolding ks(1) by (rule filter_by_key) (auto intro: ks(3))
  also have "\<dots> = map snd (rev (filter (\<lambda>y. fst y = k) (sort_key fst (rev ks))))"
    by (simp add: rev_filter)
  also have "\<dots> = map snd (rev (filter (\<lambda>y. fst y = k) (rev ks)))"
    using sort_key_stable [of fst k "rev ks"] by (simp add: eq_commute)
  also have "\<dots> = map snd (filter (\<lambda>y. fst y = k) ks)" by (simp add: rev_filter)
  also have "\<dots> = filter (\<lambda>x. candidate_score x = Inr k) (map snd ks)"
    by (rule filter_by_key [symmetric]) (rule ks(3))
  finally show ?thesis by (simp add: ks(2))
qed

lemma sort_descending:
  assumes "sort_workshop_environments xs = Inr ys"
  shows "sorted_wrt (\<lambda>x y. \<exists>a b. candidate_score x = Inr a \<and> candidate_score y = Inr b \<and> b \<le> a) ys"
proof -
  obtain ks where ks: "ys = map snd (rev (sort_key fst (rev ks)))" "map snd ks = xs"
    "\<And>k x. (k, x) \<in> set ks \<Longrightarrow> candidate_score x = Inr k"
    using sort_workshop_environments_sorted [OF assms] by blast
  have "sorted_wrt (\<lambda>x y. fst x \<le> fst y) (sort_key fst (rev ks))"
    using sorted_sort_key [of fst "rev ks"] by (simp add: sorted_map)
  then have "sorted_wrt (\<lambda>x y. fst y \<le> fst x) (rev (sort_key fst (rev ks)))"
    by (simp add: sorted_wrt_rev)
  then have "sorted_wrt (\<lambda>x y. \<exists>a b. candidate_score (snd x) = Inr a \<and> candidate_score (snd y) = Inr b \<and> b \<le> a)
      (rev (sort_key fst (rev ks)))"
  proof (rule sorted_wrt_mono_rel [rotated])
    fix x y
    assume "x \<in> set (rev (sort_key fst (rev ks)))" "y \<in> set (rev (sort_key fst (rev ks)))" "fst y \<le> fst x"
    then show "\<exists>a b. candidate_score (snd x) = Inr a \<and> candidate_score (snd y) = Inr b \<and> b \<le> a"
      using ks(3) [of "fst x" "snd x"] ks(3) [of "fst y" "snd y"] by auto
  qed
  then show ?thesis by (simp add: ks(1) sorted_wrt_map)
qed

lemma sort_permutes: "sort_workshop_environments xs = Inr ys \<Longrightarrow> mset ys = mset xs"
  by (elim sort_workshop_environments_sorted) (auto simp: rev_map)

text \<open>A capacity that is absent or not used up, and a candidate with room in both places.\<close>

definition room_below :: "pyval \<Rightarrow> int \<Rightarrow> bool" where
  "room_below capacity allocated \<longleftrightarrow>
     \<not> truthy capacity \<or> (case py_num capacity of Inl _ \<Rightarrow> False | Inr k \<Rightarrow> allocated < k)"

definition has_room :: "candidate \<Rightarrow> bool" where
  "has_room = (\<lambda>(c, p, e). room_below (pt_capacity p) (pt_allocated p) \<and>
     room_below (en_capacity e) (en_allocated e))"

lemma availability_values: "availability cap n = Inr k \<Longrightarrow> k = 0 \<or> k = 1"
  by (auto simp: availability_def bindE_Inr_iff split: if_splits)

lemma availability_one:
  "availability cap n = Inr 1 \<longleftrightarrow> room_below cap n"
  by (cases "py_num cap") (simp_all add: availability_def room_below_def)

lemma room_is_best:
  assumes "candidate_score x = Inr a" and "candidate_score y = Inr b" and "b \<le> a" and "has_room y"
  shows "has_room x"
proof -
  obtain c p e where x: "x = (c, p, e)" by (cases x)
  from assms(2,4) obtain t where b: "b = (1, 1, t)"
    by (auto simp: candidate_score_def has_room_def score_based_on_portal_availability_def
        score_based_on_environment_availability_def bindE_Inr_iff availability_one [symmetric]
        split: prod.splits)
  from assms(1) x obtain k m r where a: "a = (k, m, r)"
    "availability (pt_capacity p) (pt_allocated p) = Inr k" "availability (en_capacity e) (en_allocated e) = Inr m"
    by (auto simp: candidate_score_def score_based_on_portal_availability_def
        score_based_on_environment_availability_def bindE_Inr_iff)
  have "1 \<le> k" "k = 1 \<Longrightarrow> 1 \<le> m" using assms(3) by (auto simp: a b less_eq_prod_def)
  with availability_values [OF a(2)] availability_values [OF a(3)] have "k = 1" "m = 1" by auto
  with a x show ?thesis by (simp add: has_room_def availability_one [symmetric])
qed

section \<open>What the handler asks of the portals\<close>

lemma try_environments_trace:
  "tokens_revoked api tr \<Longrightarrow> tokens_revoked api (snd (try_environments api q xs tr))"
proof (induction xs arbitrary: tr)
  case (Cons x xs)
  obtain c p e where x: "x = (c, p, e)" by (cases x)
  obtain r tr' where r: "request_workshop_session api c p e q tr = (r, tr')" by force
  then have "tokens_revoked api tr'" using request_tokens_revoked [OF Cons.prems, of c p e q] by simp
  with r x Cons.IH [of tr'] show ?case by (auto split: sum.splits)
qed simp

lemma try_existing_trace:
  "tokens_revoked api tr \<Longrightarrow> tokens_revoked api (snd (try_existing api user w index_url cps tr))"
proof (induction cps arbitrary: tr)
  case (Cons cp cps)
  obtain c p where cp: "cp = (c, p)" by (cases cp)
  show ?case
  proof (cases "find_existing_workshop_session_for_user p user w")
    case None
    with Cons cp show ?thesis by simp
  next
    case (Some es)
    obtain e s where es: "es = (e, s)" by (cases es)
    obtain r tr' where r: "reacquire_workshop_session api c p e s index_url tr = (r, tr')" by force
    then have "tokens_revoked api tr'" using reacquire_tokens_revoked [OF Cons.prems, of c p e s index_url] by simp
    with r cp es Some Cons.IH [of tr'] show ?thesis by (auto split: sum.splits)
  qed
qed simp

text \<open>The calls that ask a portal for a session are the only ones made with \<open>GET\<close>.\<close>

definition asks :: "http_call \<Rightarrow> bool" where
  "asks k \<longleftrightarrow> hc_method k = ''GET''"

lemma asks_calls [simp]:
  "\<not> asks (login_call p)" "\<not> asks (logout_call p tok)"
  "asks (request_call p tok en q)" "asks (reacquire_call p tok u en sn i)"
  by (simp_all add: asks_def login_call_def logout_call_def request_call_def reacquire_call_def)

lemma try_environments_asks:
  assumes "k \<in> set (snd (try_environments api q xs tr))" and "asks k"
  shows "k \<in> set tr \<or> (\<exists>c p e tok. (c, p, e) \<in> set xs \<and> k = request_call p tok (en_name e) q)"
  using assms
proof (induction xs arbitrary: tr)
  case (Cons x xs)
  obtain c p e where x: "x = (c, p, e)" by (cases x)
  obtain r tr' where r: "request_workshop_session api c p e q tr = (r, tr')" by force
  have step: "k \<in> set tr' \<Longrightarrow> k \<in> set tr \<or> (\<exists>tok. k = request_call p tok (en_name e) q)"
    using Cons.prems(2) r
    by (cases rule: request_workshop_session_calls [of api c p e q tr]) auto
  show ?case
    using Cons.prems r x Cons.IH [of tr'] step by (auto split: sum.splits if_splits)
qed simp

text \<open>A session of the user for the workshop, in the portals searched.\<close>

definition users_session ::
    "(cluster_config \<times> training_portal) list \<Rightarrow> pyval \<Rightarrow> pyval
     \<Rightarrow> cluster_config \<Rightarrow> training_portal \<Rightarrow> workshop_environment \<Rightarrow> workshop_session \<Rightarrow> bool" where
  "users_session cps user w c p e s \<longleftrightarrow> (c, p) \<in> set cps \<and> e \<in> set (get_environments p) \<and>
     s \<in> set (get_sessions e) \<and> py_eq (ss_user s) user \<and> py_eq (en_workshop e) w"

lemma users_session_Cons: "users_session cps user w c p e s \<Longrightarrow> users_session (cp # cps) user w c p e s"
  by (simp add: users_session_def)

lemma users_session_found:
  "find_existing_workshop_session_for_user p user w = Some (e, s) \<Longrightarrow> users_session ((c, p) # cps) user w c p e s"
  by (auto simp: users_session_def dest: find_existing_Some)

lemma try_existing_asks:
  assumes "k \<in> set (snd (try_existing api user w i cps tr))" and "asks k"
  shows "k \<in> set tr \<or> (\<exists>c p e s tok. users_session cps user w c p e s \<and>
    k = reacquire_call p tok (ss_user s) (en_name e) (ss_name s) i)"
  using assms
proof (induction cps arbitrary: tr)
  case (Cons cp cps)
  obtain c p where cp: "cp = (c, p)" by (cases cp)
  show ?case
  proof (cases "find_existing_workshop_session_for_user p user w")
    case None
    with Cons cp show ?thesis using users_session_Cons by fastforce
  next
    case (Some es)
    obtain e s where es: "es = (e, s)" by (cases es)
    obtain r tr' where r: "reacquire_workshop_session api c p e s i tr = (r, tr')" by force
    have "k \<in> set tr' \<Longrightarrow> k \<in> set tr \<or>
        (\<exists>tok. k = reacquire_call p tok (ss_user s) (en_name e) (ss_name s) i)"
      using Cons.prems(2) r
      by (cases rule: reacquire_workshop_session_calls [of api c p e s i tr]) auto
    then have step: "k \<in> set tr' \<Longrightarrow> k \<in> set tr \<or> (\<exists>c p e s tok. users_session (cp # cps) user w c p e s \<and>
        k = reacquire_call p tok (ss_user s) (en_name e) (ss_name s) i)"
      using users_session_found [OF Some [unfolded es]] cp by blast
    have "k \<in> set tr' \<or> k \<in> set (snd (try_existing api user w i cps tr'))"
      using Cons.prems(1) r Some es cp by (auto split: sum.splits if_splits)
    then show ?thesis
      using step Cons.IH [of tr'] Cons.prems(2) users_session_Cons by blast
  qed
qed simp

text \<open>The request was read and the client may use the tenant.\<close>

definition permitted :: "service_state \<Rightarrow> request \<Rightarrow> client_config \<Rightarrow> workshop_request \<Rightarrow> bool" where
  "permitted s rq client q \<longleftrightarrow>
     check_token (sv_clients s) rq = Inr (Inr client) \<and>
     (\<exists>d. rq_json rq = Inr d \<and> read_workshop_request client d = Inr q) \<and>
     (\<exists>role\<in>{''admin'', ''tenant''}. py_in (PStr role) (ci_roles client) = Inr True) \<and>
     allowed_access_to_tenant client (wq_tenant q) = Inr True"

lemma text_status [simp]: "rs_status (text_response n t) = n"
  by (simp add: text_response_def)

lemma route_cases:
  assumes "check_token (sv_clients s) rq = Inr (Inr client)" and "rq_client rq' = Some client"
    and "rq_json rq' = rq_json rq" and "has_required_role client [''admin'', ''tenant''] = Inr ms" "ms \<noteq> []"
  shows "(\<exists>r. request_session_route api s rq' tr = (r, tr) \<and> (\<forall>x. r = Inr x \<longrightarrow> rs_status x \<noteq> 200)) \<or>
    (\<exists>q. permitted s rq client q \<and> request_session_route api s rq' tr = place_session api s q tr)"
proof -
  obtain role where role: "role \<in> set ms" using assms(5) by (cases ms) auto
  have "\<exists>role\<in>{''admin'', ''tenant''}. py_in (PStr role) (ci_roles client) = Inr True"
    using has_required_role_Inr [OF assms(4) role] by auto
  then show ?thesis
    using assms(1-3)
    by (auto simp: request_session_route_def permitted_def split: sum.splits)
qed

lemma api_post_cases:
  obtains (quiet) r where "api_post_v1_workshops api s rq tr = (r, tr)" "\<And>x. r = Inr x \<Longrightarrow> rs_status x \<noteq> 200"
  | (ran) client q where "permitted s rq client q" "api_post_v1_workshops api s rq tr = place_session api s q tr"
proof (cases "check_token (sv_clients s) rq")
  case (Inl e)
  then show thesis
    by (intro quiet [of "Inl e"]) (simp_all add: api_post_v1_workshops_def login_required_http_def)
next
  case (Inr x)
  show thesis
  proof (cases x)
    case (Inl refusal)
    with Inr check_token_refusal [of "sv_clients s" rq refusal] show thesis
      by (intro quiet [of "Inr refusal"]) (auto simp: api_post_v1_workshops_def login_required_http_def)
  next
    case (Inr client)
    note client = \<open>check_token (sv_clients s) rq = Inr x\<close> [unfolded Inr]
    show thesis
    proof (cases "has_required_role client [''admin'', ''tenant'']")
      case (Inl e)
      with client show thesis
        by (intro quiet [of "Inl e"]) (simp_all add: api_post_v1_workshops_def login_required_http_def
            roles_accepted_http_def)
    next
      case (Inr ms)
      show thesis
      proof (cases "ms = []")
        case True
        with client Inr show thesis
          by (intro quiet [of "Inr (text_response 403 ''Client access not permitted'')"])
            (auto simp: api_post_v1_workshops_def login_required_http_def roles_accepted_http_def)
      next
        case False
        let ?rq = "rq\<lparr>rq_client := Some client, rq_roles := Some ms\<rparr>"
        have "api_post_v1_workshops api s rq tr = request_session_route api s ?rq tr"
          using client Inr False
          by (simp add: api_post_v1_workshops_def login_required_http_def roles_accepted_http_def)
        with route_cases [OF client _ _ Inr False, of ?rq api tr] quiet ran show thesis by auto
      qed
    qed
  qed
qed

definition eligible :: "service_state \<Rightarrow> workshop_request \<Rightarrow> candidate \<Rightarrow> bool" where
  "eligible s q = (\<lambda>(c, p, e). \<exists>n t cps. wq_tenant q = PStr n \<and> get_tenant (sv_tenants s) n = Some t \<and>
     portals_which_are_accessible t (get_clusters (sv_clusters s)) = Inr cps \<and> (c, p) \<in> set cps \<and>
     e \<in> set (get_environments p) \<and> en_phase e = PStr ''Running'' \<and> py_eq (en_workshop e) (wq_workshop q))"

lemma find_tenant_Some: "find_tenant db v = Inr (Some t) \<Longrightarrow> \<exists>n. v = PStr n \<and> get_tenant db n = Some t"
  by (cases v) (auto simp: find_tenant_def)

lemma hosting_environments_set:
  "(c, p, e) \<in> set (hosting_environments w cps) \<longleftrightarrow>
   (c, p) \<in> set cps \<and> e \<in> set (get_environments p) \<and> en_phase e = PStr ''Running'' \<and> py_eq (en_workshop e) w"
  by (force simp: hosting_environments_def get_running_environments_def get_environments_def)

lemma allocate_cases:
  obtains (quiet) r where "allocate_session api s q tr = (r, tr)" "\<And>x. r = Inr x \<Longrightarrow> rs_status x \<noteq> 200"
  | (asked) ys where "\<And>x. x \<in> set ys \<Longrightarrow> eligible s q x"
      "allocate_session api s q tr =
         http_bind (try_environments api (wq_session q) ys) (\<lambda>d. http_return
           (if truthy d then answer_with_tenant (wq_tenant q) d else workshop_not_available)) tr"
proof (cases "find_tenant (sv_tenants s) (wq_tenant q)")
  case (Inl e)
  then show thesis by (intro quiet [of "Inl e"]) (simp_all add: allocate_session_def)
next
  case (Inr x)
  show thesis
  proof (cases x)
    case None
    with Inr show thesis
      by (intro quiet [of "Inr (text_response 503 ''Tenant not available'')"]) (auto simp: allocate_session_def)
  next
    case (Some t)
    then obtain n where t: "wq_tenant q = PStr n" "get_tenant (sv_tenants s) n = Some t"
      using Inr find_tenant_Some by blast
    show thesis
    proof (cases "portals_which_are_accessible t (get_clusters (sv_clusters s))")
      case (Inl e)
      with Inr Some \<open>find_tenant _ _ = Inr x\<close> show thesis
        by (intro quiet [of "Inl e"]) (simp_all add: allocate_session_def)
    next
      case (Inr cps)
      let ?envs = "hosting_environments (wq_workshop q) (hosting_portals (wq_workshop q) cps)"
      note run = \<open>find_tenant _ _ = Inr x\<close> Some Inr
      show thesis
      proof (cases "hosting_portals (wq_workshop q) cps = [] \<or> ?envs = []")
        case True
        with run show thesis
          by (intro quiet [of "Inr workshop_not_available"])
            (auto simp: allocate_session_def workshop_not_available_def)
      next
        case False
        show thesis
        proof (cases "sort_workshop_environments ?envs")
          case (Inl e)
          with run False show thesis by (intro quiet [of "Inl e"]) (simp_all add: allocate_session_def)
        next
          case (Inr ys)
          then have "set ys = set ?envs" using sort_permutes mset_eq_setD by blast
          then have "eligible s q z" if "z \<in> set ys" for z
            using that t run(3)
            by (cases z) (auto simp: eligible_def hosting_environments_set hosting_portals_def)
          with Inr run False show thesis by (intro asked [of ys]) (simp_all add: allocate_session_def)
        qed
      qed
    qed
  qed
qed

lemma allocate_trace:
  "snd (allocate_session api s q tr) = tr \<or>
   (\<exists>ys. (\<forall>x\<in>set ys. eligible s q x) \<and>
      snd (allocate_session api s q tr) = snd (try_environments api (wq_session q) ys tr))"
proof (cases rule: allocate_cases [of api s q tr])
  case (quiet r)
  then show ?thesis by simp
next
  case (asked ys)
  have "snd (allocate_session api s q tr) = snd (try_environments api (wq_session q) ys tr)"
    unfolding asked(2) by (simp split: prod.splits sum.splits)
  with asked(1) show ?thesis by blast
qed

lemma try_environments_result:
  assumes "fst (try_environments api q xs tr) = Inr v" and "truthy v"
  shows "\<exists>c p e tok sn tr'. (c, p, e) \<in> set xs \<and>
    session_given api tr' (request_call p tok (en_name e) q) c p (en_name e) (sq_user_id q) sn v"
  using assms
proof (induction xs arbitrary: tr)
  case (Cons x xs)
  obtain c p e where x: "x = (c, p, e)" by (cases x)
  obtain r tr' where r: "request_workshop_session api c p e q tr = (r, tr')" by force
  have here: "\<exists>tok sn. session_given api (login_call p # tr) (request_call p tok (en_name e) q) c p (en_name e)
      (sq_user_id q) sn v" if "r = Inr v"
    using that r Cons.prems(2)
    by (cases rule: request_workshop_session_calls [of api c p e q tr]) fastforce+
  from Cons.prems r x consider "r = Inr v" | "fst (try_environments api q xs tr') = Inr v"
    by (auto split: sum.splits if_splits)
  then show ?case
  proof cases
    case 1
    with here x show ?thesis by (metis list.set_intros(1))
  next
    case 2
    with Cons.IH [of tr'] Cons.prems(2) show ?thesis by (metis list.set_intros(2))
  qed
qed simp

lemma try_existing_result:
  assumes "fst (try_existing api user w i cps tr) = Inr v" and "truthy v"
  shows "\<exists>c p e s tok tr'. users_session cps user w c p e s \<and>
    session_given api tr' (reacquire_call p tok (ss_user s) (en_name e) (ss_name s) i) c p (en_name e)
      (ss_user s) (ss_name s) v"
  using assms
proof (induction cps arbitrary: tr)
  case (Cons cp cps)
  obtain c p where cp: "cp = (c, p)" by (cases cp)
  show ?case
  proof (cases "find_existing_workshop_session_for_user p user w")
    case None
    with Cons cp have "fst (try_existing api user w i cps tr) = Inr v" by simp
    with Cons.IH [of tr] Cons.prems(2) users_session_Cons [of cps user w _ _ _ _ cp] show ?thesis by meson
  next
    case (Some es)
    obtain e s where es: "es = (e, s)" by (cases es)
    obtain r tr' where r: "reacquire_workshop_session api c p e s i tr = (r, tr')" by force
    have here: "\<exists>tok. session_given api (login_call p # tr)
        (reacquire_call p tok (ss_user s) (en_name e) (ss_name s) i) c p (en_name e) (ss_user s) (ss_name s) v"
      if "r = Inr v"
      using that r Cons.prems(2)
      by (cases rule: reacquire_workshop_session_calls [of api c p e s i tr]) fastforce+
    from Cons.prems r cp es Some
    consider "r = Inr v" | "fst (try_existing api user w i cps tr') = Inr v"
      by (auto split: sum.splits if_splits)
    then show ?thesis
    proof cases
      case 1
      with here users_session_found [OF Some [unfolded es], of c cps] cp show ?thesis by blast
    next
      case 2
      with Cons.IH [of tr'] Cons.prems(2) users_session_Cons [of cps user w _ _ _ _ cp] show ?thesis by meson
    qed
  qed
qed simp

text \<open>The portals searched for an existing session: none without a user.\<close>

definition searched :: "service_state \<Rightarrow> workshop_request \<Rightarrow> (cluster_config \<times> training_portal) list" where
  "searched s q =
     (if truthy (sq_user_id (wq_session q)) then all_portals_of (get_clusters (sv_clusters s)) else [])"

lemma place_session_alt:
  "place_session api s q tr =
     http_bind (try_existing api (sq_user_id (wq_session q)) (wq_workshop q)
                  (sq_index_url (wq_session q)) (searched s q)) (\<lambda>d.
       if truthy d then http_return (answer_with_tenant (wq_tenant q) d) else allocate_session api s q) tr"
  by (simp add: place_session_def searched_def)

text \<open>A call that asks a portal for a session this request may have.\<close>

definition rightful_call :: "service_state \<Rightarrow> workshop_request \<Rightarrow> http_call \<Rightarrow> cluster_config \<Rightarrow> training_portal
    \<Rightarrow> workshop_environment \<Rightarrow> bool" where
  "rightful_call s q k c p e \<longleftrightarrow>
     eligible s q (c, p, e) \<and> (\<exists>tok. k = request_call p tok (en_name e) (wq_session q)) \<or>
     (\<exists>w tok. users_session (searched s q) (sq_user_id (wq_session q)) (wq_workshop q) c p e w \<and>
        k = reacquire_call p tok (ss_user w) (en_name e) (ss_name w) (sq_index_url (wq_session q)))"

lemma place_session_asks:
  assumes "k \<in> set (snd (place_session api s q []))" and "asks k"
  shows "\<exists>c p e. rightful_call s q k c p e"
proof -
  let ?ex = "try_existing api (sq_user_id (wq_session q)) (wq_workshop q) (sq_index_url (wq_session q)) (searched s q)"
  obtain r tr where ex: "?ex [] = (r, tr)" by force
  have old: "\<exists>c p e. rightful_call s q k c p e" if "k \<in> set tr"
  proof -
    from ex that have "k \<in> set (snd (?ex []))" by simp
    from try_existing_asks [OF this assms(2)] show ?thesis by (auto simp: rightful_call_def) blast
  qed
  show ?thesis
  proof (cases "k \<in> set tr")
    case False
    with assms(1) ex have "k \<in> set (snd (allocate_session api s q tr))"
      by (auto simp: place_session_alt split: sum.splits if_splits)
    with False allocate_trace [of api s q tr] obtain ys where ys: "\<forall>x\<in>set ys. eligible s q x"
      and k: "k \<in> set (snd (try_environments api (wq_session q) ys tr))"
      by auto
    from try_environments_asks [OF k assms(2)] ys False show ?thesis
      unfolding rightful_call_def by blast
  qed (rule old)
qed

lemma place_session_result:
  assumes "fst (place_session api s q []) = Inr r" and "rs_status r = 200"
  shows "\<exists>k tr c p e user sn v. rightful_call s q k c p e \<and> session_given api tr k c p (en_name e) user sn v \<and>
    r = answer_with_tenant (wq_tenant q) v"
proof -
  let ?ex = "try_existing api (sq_user_id (wq_session q)) (wq_workshop q) (sq_index_url (wq_session q)) (searched s q)"
  obtain x tr where ex: "?ex [] = (x, tr)" by force
  from assms(1) ex obtain v where v: "x = Inr v" by (auto simp: place_session_alt split: sum.splits)
  show ?thesis
  proof (cases "truthy v")
    case True
    with assms(1) ex v have "r = answer_with_tenant (wq_tenant q) v" by (simp add: place_session_alt)
    moreover have "\<exists>k tr c p e user sn. rightful_call s q k c p e \<and> session_given api tr k c p (en_name e) user sn v"
    proof -
      from ex v have "fst (?ex []) = Inr v" by simp
      from try_existing_result [OF this True] show ?thesis unfolding rightful_call_def by blast
    qed
    ultimately show ?thesis by blast
  next
    case False
    with assms(1) ex v have al: "fst (allocate_session api s q tr) = Inr r" by (simp add: place_session_alt)
    show ?thesis
    proof (cases rule: allocate_cases [of api s q tr])
      case (quiet y)
      with al assms(2) show ?thesis by auto
    next
      case (asked ys)
      obtain y tr' where y: "try_environments api (wq_session q) ys tr = (y, tr')" by force
      with al asked(2) obtain d where d: "y = Inr d"
        and r: "r = (if truthy d then answer_with_tenant (wq_tenant q) d else workshop_not_available)"
        by (auto split: sum.splits)
      with assms(2) have "truthy d" by (auto simp: workshop_not_available_def split: if_splits)
      with r have r': "r = answer_with_tenant (wq_tenant q) d" by simp
      from y d have "fst (try_environments api (wq_session q) ys tr) = Inr d" by simp
      from try_environments_result [OF this \<open>truthy d\<close>] asked(1) r' show ?thesis
        unfolding rightful_call_def by blast
    qed
  qed
qed

section \<open>A sample service\<close>

definition sample_environment :: "string \<Rightarrow> int \<Rightarrow> int \<Rightarrow> workshop_environment" where
  "sample_environment n capacity allocated =
     new_environment (PStr n) (PStr n) (PInt 1) (PStr ''w1'') PNone PNone (PList []) (PInt capacity) (PInt 0)
       allocated 0 (PStr ''Running'')"

definition sample_portal :: training_portal where
  "sample_portal = add_environment (sample_environment ''e1'' 2 0)
     (new_portal (PStr ''p1'') (PStr ''p1'') (PInt 1) (PList []) (PStr ''https://p1'')
        \<lparr>cr_client_id = PStr ''i'', cr_client_secret = PStr ''s'', cr_username = PStr ''u'', cr_password = PStr ''p''\<rparr>
        (PStr ''Running'') (PInt 5) 0)"

definition hosting_cluster :: cluster_config where
  "hosting_cluster = add_portal sample_portal (new_cluster ''c1'' (PStr ''cu'') (PList []) PNone)"

definition sample_tenant :: tenant_config where
  "sample_tenant = (case mk_tenant ''lab-a'' (PDict []) (PDict []) of
     Inr t \<Rightarrow> t | Inl _ \<Rightarrow> \<lparr>tn_name = [], tn_clusters = undefined, tn_portals = undefined\<rparr>)"

definition hosting_service :: service_state where
  "hosting_service = \<lparr>sv_clients = [(''alice'', sample_client)], sv_tenants = [(''lab-a'', sample_tenant)],
     sv_clusters = add_cluster hosting_cluster empty_store\<rparr>"

definition sample_portals :: portals_api where
  "sample_portals tr k =
     (if hc_method k = ''GET'' then Reply 200 (Inr (PDict [(''url'', PStr ''/s''), (''name'', PStr ''s1'')]))
      else Reply 200 (Inr (PDict [(''access_token'', PStr ''t'')])))"

definition session_request_for :: "string \<Rightarrow> request" where
  "session_request_for workshop =
     (sample_request None (PDict [(''tenantName'', PStr ''lab-a''), (''workshopName'', PStr workshop)]))
       \<lparr>rq_token := Some (token_claims sample_client 9)\<rparr>"

section \<open>Properties\<close>

text \<open>
  The candidates for a workshop session are put in an order that loses and invents
  none, never puts a lower score before a higher one, and leaves candidates of equal score
  as they were. In particular every candidate with room left, in its portal and in its
  environment, comes before all candidates without.
\<close>

theorem candidates_sorted:
  assumes "sort_workshop_environments xs = Inr ys"
  shows "mset ys = mset xs \<and>
    sorted_wrt (\<lambda>x y. \<exists>a b. candidate_score x = Inr a \<and> candidate_score y = Inr b \<and> b \<le> a) ys \<and>
    (\<forall>k. filter (\<lambda>x. candidate_score x = Inr k) ys = filter (\<lambda>x. candidate_score x = Inr k) xs) \<and>
    sorted_wrt (\<lambda>x y. has_room y \<longrightarrow> has_room x) ys"
proof -
  have "sorted_wrt (\<lambda>x y. has_room y \<longrightarrow> has_room x) ys"
    using sort_descending [OF assms] by (rule sorted_wrt_mono_rel [rotated]) (auto dest: room_is_best)
  then show ?thesis
    using sort_permutes [OF assms] sort_descending [OF assms] sort_stable [OF assms] by blast
qed

definition sample_candidates :: "candidate list" where
  "sample_candidates =
     [(hosting_cluster, sample_portal, sample_environment ''full'' 2 2),
      (hosting_cluster, sample_portal, sample_environment ''free'' 2 1)]"

theorem candidates_sorted_witness:
  "\<exists>ys. sort_workshop_environments sample_candidates = Inr ys \<and> mset ys = mset sample_candidates"
proof -
  have "case sort_workshop_environments sample_candidates of Inl _ \<Rightarrow> False | Inr ys \<Rightarrow> True"
    by code_simp
  then obtain ys where "sort_workshop_environments sample_candidates = Inr ys"
    by (auto split: sum.splits)
  with candidates_sorted [OF this] show ?thesis by blast
qed

text \<open>
  \<^bold>\<open>C6.\<close> Whatever the portals answer and whatever goes wrong, no access token is left behind:
  while a workshop request is served, every token granted by a portal is used for at most
  one call and revoked at that portal right after it, before any other portal is called.
\<close>

theorem tokens_always_revoked: "tokens_revoked api (snd (api_post_v1_workshops api s rq []))"
proof (cases rule: api_post_cases [of api s rq "[]"])
  case (quiet r)
  then show ?thesis by (simp add: no_calls)
next
  case (ran client q)
  let ?ex = "try_existing api (sq_user_id (wq_session q)) (wq_workshop q) (sq_index_url (wq_session q)) (searched s q)"
  obtain x tr where ex: "?ex [] = (x, tr)" by force
  with try_existing_trace [OF no_calls] have tr: "tokens_revoked api tr" by (metis snd_conv)
  then have "tokens_revoked api (snd (allocate_session api s q tr))"
    using allocate_trace [of api s q tr] try_environments_trace [OF tr] by auto
  with tr ex ran show ?thesis by (auto simp: place_session_alt split: sum.splits)
qed

text \<open>
  \<^bold>\<open>C4.\<close> Serving a workshop request asks a portal for a session only when the client is
  logged in with role \<open>admin\<close> or \<open>tenant\<close> and its tenant patterns match the tenant named, and
  then only in two ways: it reacquires a session that the user already has for this
  workshop, or it requests one from a running environment of this workshop in a portal
  accessible to that tenant.
\<close>

theorem session_calls_rightful:
  assumes "k \<in> set (snd (api_post_v1_workshops api s rq []))" and "hc_method k = ''GET''"
  shows "\<exists>client q c p e. permitted s rq client q \<and> rightful_call s q k c p e"
proof (cases rule: api_post_cases [of api s rq "[]"])
  case (quiet r)
  with assms(1) show ?thesis by simp
next
  case (ran client q)
  with assms have "k \<in> set (snd (place_session api s q []))" and "asks k" by (simp_all add: asks_def)
  from place_session_asks [OF this] ran(1) show ?thesis by blast
qed

lemma sample_calls:
  "\<exists>k\<in>set (snd (api_post_v1_workshops sample_portals hosting_service (session_request_for ''w1'') [])).
     hc_method k = ''GET''"
proof -
  have "list_ex (\<lambda>k. hc_method k = ''GET'')
      (snd (api_post_v1_workshops sample_portals hosting_service (session_request_for ''w1'') []))"
    by code_simp
  then show ?thesis by (simp add: list_ex_iff)
qed

theorem session_calls_rightful_witness:
  "\<exists>k client q c p e. hc_method k = ''GET'' \<and> permitted hosting_service (session_request_for ''w1'') client q \<and>
     rightful_call hosting_service q k c p e"
  using sample_calls session_calls_rightful by blast

text \<open>
  \<^bold>\<open>C5.\<close> A workshop request that succeeds hands out a session that a portal gave in answer
  to such a rightful call: the data returned names the cluster, portal and environment the
  portal was asked about, carries the activation address built from the portal's address
  and its answer, and the tenant of the request.
\<close>

theorem session_answer_from_portal:
  assumes "fst (api_post_v1_workshops api s rq []) = Inr r" and "rs_status r = 200"
  shows "\<exists>client q k tr c p e user sn j url. permitted s rq client q \<and> rightful_call s q k c p e \<and>
    api tr k = Reply 200 (Inr j) \<and> py_get j ''url'' = Inr url \<and> truthy url \<and>
    r = json_response (PDict
      [(''clusterName'', PStr (cl_name c)), (''portalName'', pt_name p), (''environmentName'', en_name e),
       (''sessionName'', sn), (''clientUserId'', user),
       (''sessionActivationUrl'', PStr (py_str (pt_url p) @ py_str url)), (''tenantName'', wq_tenant q)])"
proof (cases rule: api_post_cases [of api s rq "[]"])
  case (quiet x)
  with assms show ?thesis by auto
next
  case (ran client q)
  with assms place_session_result [of api s q r] obtain k tr c p e user sn v where
    k: "rightful_call s q k c p e" "session_given api tr k c p (en_name e) user sn v"
    and r: "r = answer_with_tenant (wq_tenant q) v" by auto
  from k(2) obtain j url where url: "api tr k = Reply 200 (Inr j)" "py_get j ''url'' = Inr url" "truthy url"
    and v: "v = session_data c p (en_name e) sn user url" by (auto simp: session_given_def)
  have "r = json_response (PDict
      [(''clusterName'', PStr (cl_name c)), (''portalName'', pt_name p), (''environmentName'', en_name e),
       (''sessionName'', sn), (''clientUserId'', user),
       (''sessionActivationUrl'', PStr (py_str (pt_url p) @ py_str url)), (''tenantName'', wq_tenant q)])"
    using url(3) by (simp add: r v session_data_def answer_with_tenant_def)
  with k(1) url ran(1) show ?thesis by blast
qed

theorem session_answer_from_portal_witness:
  "\<exists>r c p. fst (api_post_v1_workshops sample_portals hosting_service (session_request_for ''w1'') []) = Inr r \<and>
     rs_status r = 200 \<and> (\<exists>q k e. rightful_call hosting_service q k c p e)"
proof -
  have "case fst (api_post_v1_workshops sample_portals hosting_service (session_request_for ''w1'') []) of
      Inl _ \<Rightarrow> False | Inr r \<Rightarrow> rs_status r = 200"
    by code_simp
  then obtain r where r: "fst (api_post_v1_workshops sample_portals hosting_service (session_request_for ''w1'') []) = Inr r"
    "rs_status r = 200"
    by (auto split: sum.splits)
  with session_answer_from_portal [OF this] show ?thesis by blast
qed

end
