(* ===== verification/Lookup_Steps.thy ===== *)
theory Lookup_Steps
  imports Lookup_Auth
begin

text \<open>
  The lookup service as a state machine: the resource handlers of its own operator, the
  daemons that start and stop a cluster operator for each cluster configuration, the
  events those operators handle, and logouts, in any order. A running operator is known by
  the name and uid of the configuration its daemon was started for and the cluster object
  it was given. A handler that raises takes no step.
\<close>

section \<open>Steps\<close>

type_synonym running_operator = "string \<times> pyval \<times> nat"

record lookup_service =
  ls_state :: service_state
  ls_operators :: "running_operator list"

definition initial_service :: lookup_service where
  "initial_service =
     \<lparr>ls_state = \<lparr>sv_clients = empty_clients, sv_tenants = empty_tenants, sv_clusters = empty_store\<rparr>,
      ls_operators = []\<rparr>"

text \<open>The services at the border: YAML, the mounted credentials, the JWT library, its secret.\<close>

record environment =
  ev_yaml :: "string \<Rightarrow> pyval option"
  ev_token :: string
  ev_ca :: string
  ev_decode :: jwt_decode
  ev_secret :: string

abbreviation set_clients :: "client_database \<Rightarrow> lookup_service \<Rightarrow> lookup_service" where
  "set_clients db s \<equiv> s\<lparr>ls_state := (ls_state s)\<lparr>sv_clients := db\<rparr>\<rparr>"

abbreviation set_tenants :: "tenant_database \<Rightarrow> lookup_service \<Rightarrow> lookup_service" where
  "set_tenants db s \<equiv> s\<lparr>ls_state := (ls_state s)\<lparr>sv_tenants := db\<rparr>\<rparr>"

abbreviation set_clusters :: "cluster_store \<Rightarrow> lookup_service \<Rightarrow> lookup_service" where
  "set_clusters st s \<equiv> s\<lparr>ls_state := (ls_state s)\<lparr>sv_clusters := st\<rparr>\<rparr>"

inductive service_step :: "environment \<Rightarrow> lookup_service \<Rightarrow> lookup_service \<Rightarrow> bool" for env :: environment where
  client_updated: "clientconfigs_update n meta spec (sv_clients (ls_state s)) = Inr db
    \<Longrightarrow> service_step env s (set_clients db s)"
| client_deleted: "clientconfigs_delete n meta (sv_clients (ls_state s)) = Inr db
    \<Longrightarrow> service_step env s (set_clients db s)"
| tenant_updated: "tenantconfigs_update n meta spec (sv_tenants (ls_state s)) = Inr db
    \<Longrightarrow> service_step env s (set_tenants db s)"
| tenant_deleted: "tenantconfigs_delete n meta (sv_tenants (ls_state s)) = Inr db
    \<Longrightarrow> service_step env s (set_tenants db s)"
| cluster_updated: "clusterconfigs_update (ev_yaml env) (ev_token env) (ev_ca env) index ns n uid spec retry
      (sv_clusters (ls_state s)) = Inr st
    \<Longrightarrow> service_step env s (set_clusters st s)"
| cluster_deleted: "service_step env s (set_clusters (clusterconfigs_delete n (sv_clusters (ls_state s))) s)"
| operator_started: "clusterconfigs_daemon n uid retry (sv_clusters (ls_state s)) = Inr r
    \<Longrightarrow> service_step env s (s\<lparr>ls_operators := (n, uid, r) # ls_operators s\<rparr>)"
| operator_stopped: "service_step env s (s\<lparr>ls_operators := remove1 op (ls_operators s)\<rparr>)"
| cluster_event: "(n, uid, r) \<in> set (ls_operators s)
    \<Longrightarrow> handle_event ev (cs_objects (sv_clusters (ls_state s)) ! r) = Inr c
    \<Longrightarrow> service_step env s (set_clusters (modify_cluster r (\<lambda>_. c) (sv_clusters (ls_state s))) s)"
| logged_out: "serve_logout (ev_decode env) (ev_secret env) now (ls_state s) rq = Inr (resp, s')
    \<Longrightarrow> service_step env s (s\<lparr>ls_state := s'\<rparr>)"

inductive reachable :: "environment \<Rightarrow> lookup_service \<Rightarrow> bool" for env :: environment where
  start: "reachable env initial_service"
| step: "reachable env s \<Longrightarrow> service_step env s s' \<Longrightarrow> reachable env s'"

section \<open>The invariant\<close>

text \<open>Operators hold objects that exist, made for a configuration of their name and uid.\<close>

definition operators_ok :: "cluster_config list \<Rightarrow> running_operator list \<Rightarrow> bool" where
  "operators_ok objects ops \<longleftrightarrow>
     (\<forall>(n, uid, r)\<in>set ops. r < length objects \<and> cl_name (objects ! r) = n \<and> py_eq (cl_uid (objects ! r)) uid)"

definition service_inv :: "lookup_service \<Rightarrow> bool" where
  "service_inv s \<longleftrightarrow> clients_ok (ls_state s) \<and> keyed_by tn_name (sv_tenants (ls_state s)) \<and>
     store_ok (sv_clusters (ls_state s)) \<and>
     (\<forall>c\<in>set (cs_objects (sv_clusters (ls_state s))). cluster_inv c) \<and>
     operators_ok (cs_objects (sv_clusters (ls_state s))) (ls_operators s)"

text \<open>Objects are only ever added, and keep the name and uid they were made with.\<close>

definition objects_grow :: "cluster_config list \<Rightarrow> cluster_config list \<Rightarrow> bool" where
  "objects_grow cs ds \<longleftrightarrow> length cs \<le> length ds \<and>
     (\<forall>r<length cs. cl_name (ds ! r) = cl_name (cs ! r) \<and> cl_uid (ds ! r) = cl_uid (cs ! r))"

lemma objects_grow_refl [simp]: "objects_grow cs cs"
  by (simp add: objects_grow_def)

lemma operators_ok_grow: "operators_ok cs ops \<Longrightarrow> objects_grow cs ds \<Longrightarrow> operators_ok ds ops"
  by (fastforce simp: operators_ok_def objects_grow_def)

lemma objects_grow_add: "objects_grow (cs_objects st) (cs_objects (add_cluster c st))"
  by (simp add: objects_grow_def add_cluster_def nth_append)

lemma objects_grow_modify:
  assumes "cl_name (f (cs_objects st ! r)) = cl_name (cs_objects st ! r)"
    and "cl_uid (f (cs_objects st ! r)) = cl_uid (cs_objects st ! r)"
  shows "objects_grow (cs_objects st) (cs_objects (modify_cluster r f st))"
  using assms
  by (cases "r < length (cs_objects st)")
    (auto simp: objects_grow_def modify_cluster_def nth_list_update list_update_beyond)

lemma cluster_inv_attributes [simp]:
  "cluster_inv (c\<lparr>cl_labels := labels, cl_kubeconfig := kubeconfig\<rparr>) = cluster_inv c"
  by (simp add: cluster_inv_def get_portal_def)

lemma apply_change_identity:
  "cl_name (apply_change ch c) = cl_name c" "cl_uid (apply_change ch c) = cl_uid c"
  by (cases ch; simp add: discard_portal_def register_portal_def discard_environment_def
      register_environment_def discard_session_def register_session_def Let_def put_portal_def
      remove_portal_def drop_unused_portal_def split: option.splits)+

lemma handle_event_identity:
  assumes "handle_event ev c = Inr c'"
  shows "cl_name c' = cl_name c" "cl_uid c' = cl_uid c" "cluster_inv c \<Longrightarrow> cluster_inv c'"
  using assms by (auto simp: handle_event_change bindE_Inr_iff apply_change_identity inv_apply_change)

lemma store_cluster_keeps:
  assumes "\<forall>c\<in>set (cs_objects st). cluster_inv c" and "store_ok st"
  shows "objects_grow (cs_objects st) (cs_objects (store_cluster n uid labels kc st))"
    and "\<forall>c\<in>set (cs_objects (store_cluster n uid labels kc st)). cluster_inv c"
proof -
  show "objects_grow (cs_objects st) (cs_objects (store_cluster n uid labels kc st))"
    by (simp add: store_cluster_def objects_grow_add objects_grow_modify split: option.splits)
  show "\<forall>c\<in>set (cs_objects (store_cluster n uid labels kc st)). cluster_inv c"
  proof (cases "get_cluster_ref st n")
    case None
    with assms(1) show ?thesis by (simp add: store_cluster_def add_cluster_def cluster_inv_new)
  next
    case (Some r)
    with store_ref_bound [OF assms(2)] have "cs_objects st ! r \<in> set (cs_objects st)" by simp
    with Some assms(1) show ?thesis
      by (auto simp: store_cluster_def modify_cluster_def dest!: set_update_subset_insert [THEN subsetD])
  qed
qed

lemma clients_ok_update:
  assumes "clients_ok s" and "clientconfigs_update n meta spec (sv_clients s) = Inr db"
  shows "clients_ok (s\<lparr>sv_clients := db\<rparr>)"
  using assms by (auto simp: clients_ok_def clientconfigs_update_def bindE_Inr_iff update_client_def)

lemma serve_logout_frame:
  "serve_logout dec secret now s rq = Inr (r, s') \<Longrightarrow> sv_tenants s' = sv_tenants s \<and> sv_clusters s' = sv_clusters s"
  by (auto simp: serve_logout_def api_auth_logout_def bindE_def split: sum.split_asm)

lemma service_inv_step:
  assumes "service_step env s s'" and "service_inv s"
  shows "service_inv s'"
  using assms(1)
proof cases
  case (client_updated n meta spec db)
  with assms(2) clients_ok_update [of "ls_state s" n meta spec db] show ?thesis by (simp add: service_inv_def)
next
  case (client_deleted n meta db)
  with assms(2) show ?thesis
    by (auto simp: service_inv_def clients_ok_def clientconfigs_delete_def remove_client_def bindE_Inr_iff)
next
  case (tenant_updated n meta spec db)
  with assms(2) show ?thesis
    by (auto simp: service_inv_def clients_ok_def tenantconfigs_update_def mk_tenant_def update_tenant_def
        bindE_Inr_iff)
next
  case (tenant_deleted n meta db)
  with assms(2) show ?thesis
    by (auto simp: service_inv_def clients_ok_def tenantconfigs_delete_def remove_tenant_def bindE_Inr_iff)
next
  case (cluster_updated index ns n uid spec retry st)
  then obtain labels kc where st: "st = store_cluster n uid labels kc (sv_clusters (ls_state s))"
    using clusterconfigs_update_store by blast
  from assms(2) have inv: "store_ok (sv_clusters (ls_state s))"
    "\<forall>c\<in>set (cs_objects (sv_clusters (ls_state s))). cluster_inv c" by (simp_all add: service_inv_def)
  show ?thesis
    using assms(2) cluster_updated(1) store_cluster_keeps [OF inv(2,1)] store_ok_store [OF inv(1)]
      operators_ok_grow
    by (auto simp: service_inv_def clients_ok_def st)
next
  case (cluster_deleted n)
  with assms(2) show ?thesis
    by (auto simp: service_inv_def clients_ok_def clusterconfigs_delete_def store_ok_remove)
      (auto simp: remove_cluster_def)
next
  case (operator_started n uid retry r)
  then have "get_cluster_ref (sv_clusters (ls_state s)) n = Some r"
    "py_eq (cl_uid (cs_objects (sv_clusters (ls_state s)) ! r)) uid"
    by (auto simp: clusterconfigs_daemon_def split: option.splits if_splits)
  with assms(2) operator_started(1) store_ref_bound [of "sv_clusters (ls_state s)" n r] show ?thesis
    by (auto simp: service_inv_def operators_ok_def)
next
  case (operator_stopped op)
  with assms(2) set_remove1_subset [of op "ls_operators s"] show ?thesis
    by (auto simp: service_inv_def operators_ok_def)
next
  case (cluster_event n uid r ev c)
  let ?st = "sv_clusters (ls_state s)"
  from assms(2) cluster_event(2) have r: "r < length (cs_objects ?st)"
    by (auto simp: service_inv_def operators_ok_def)
  note id = handle_event_identity [OF cluster_event(3)]
  from r assms(2) id(3) have "cluster_inv c" by (auto simp: service_inv_def)
  then have "\<forall>d\<in>set (cs_objects (modify_cluster r (\<lambda>_. c) ?st)). cluster_inv d"
    using assms(2) by (auto simp: service_inv_def modify_cluster_def
        dest!: set_update_subset_insert [THEN subsetD])
  moreover have "store_ok (modify_cluster r (\<lambda>_. c) ?st)"
    using assms(2) r id(1) by (auto simp: service_inv_def store_ok_def modify_cluster_def nth_list_update)
  moreover have "objects_grow (cs_objects ?st) (cs_objects (modify_cluster r (\<lambda>_. c) ?st))"
    by (rule objects_grow_modify) (simp_all add: id)
  ultimately show ?thesis
    using assms(2) cluster_event(1) operators_ok_grow by (auto simp: service_inv_def clients_ok_def)
next
  case (logged_out now rq resp s1)
  have "clients_ok s1 \<and> sv_tenants s1 = sv_tenants (ls_state s) \<and> sv_clusters s1 = sv_clusters (ls_state s)"
    using assms(2) serve_logout_effect [OF _ logged_out(2)] serve_logout_frame [OF logged_out(2)]
    by (simp add: service_inv_def)
  then show ?thesis using assms(2) logged_out(1) by (simp add: service_inv_def)
qed

lemma service_inv_reachable: "reachable env s \<Longrightarrow> service_inv s"
proof (induction rule: reachable.induct)
  case start
  then show ?case
    by (simp add: service_inv_def initial_service_def clients_ok_def empty_clients_def empty_tenants_def
        operators_ok_def) (simp add: empty_store_def)
qed (rule service_inv_step)

section \<open>A sample run\<close>

definition sample_env :: environment where
  "sample_env = \<lparr>ev_yaml = (\<lambda>_. None), ev_token = ''t'', ev_ca = ''c'', ev_decode = sample_decode, ev_secret = ''k''\<rparr>"

definition local_cluster :: cluster_config where
  "local_cluster = new_cluster ''local'' (PStr ''u'') (PList [])
     (create_kubeconfig_from_access_token_secret ''t'' ''c'' ''local'' ''https://kubernetes.default.svc'')"

definition one_cluster :: lookup_service where
  "one_cluster = \<lparr>ls_state = \<lparr>sv_clients = empty_clients, sv_tenants = empty_tenants,
       sv_clusters = add_cluster local_cluster empty_store\<rparr>,
     ls_operators = [(''local'', PStr ''u'', 0)]\<rparr>"

lemma one_cluster_reachable: "reachable sample_env one_cluster"
proof -
  let ?st = "add_cluster local_cluster empty_store"
  have "clusterconfigs_update (ev_yaml sample_env) (ev_token sample_env) (ev_ca sample_env) (\<lambda>_ _. None) ''ns''
      ''local'' (PStr ''u'') (PDict []) 0 (sv_clusters (ls_state initial_service)) = Inr ?st"
    by (simp add: clusterconfigs_update_def path_simps sample_env_def initial_service_def store_cluster_def
        get_cluster_ref_def local_cluster_def) (simp add: empty_store_def)
  from step [OF start cluster_updated [OF this]]
  have 1: "reachable sample_env (set_clusters ?st initial_service)" .
  have "clusterconfigs_daemon ''local'' (PStr ''u'') 0 (sv_clusters (ls_state (set_clusters ?st initial_service))) = Inr 0"
    by (simp add: clusterconfigs_daemon_def get_cluster_ref_def add_cluster_def empty_store_def local_cluster_def
        new_cluster_def)
  from step [OF 1 operator_started [OF this]] show ?thesis
    by (simp add: one_cluster_def initial_service_def)
qed

lemma one_cluster_clusters: "get_clusters (sv_clusters (ls_state one_cluster)) = [local_cluster]"
  by (simp add: one_cluster_def get_clusters_def add_cluster_def empty_store_def)

section \<open>Properties\<close>

text \<open>
  \<^bold>\<open>C9.\<close> In every state the lookup service can reach, the clusters in its database have
  distinct names, each is found under its own name, as each portal, environment and
  session is in what it hangs from, and all the capacity counters of their portals and
  environments are those of the sessions below them.
\<close>

theorem reachable_service_consistent:
  assumes "reachable env s" and "c \<in> set (get_clusters (sv_clusters (ls_state s)))"
  shows "distinct (map cl_name (get_clusters (sv_clusters (ls_state s)))) \<and>
    get_cluster (sv_clusters (ls_state s)) (cl_name c) = Some c \<and>
    (\<forall>p\<in>set (get_portals c). get_portal c (pt_name p) = Some p \<and>
       pt_allocated p = int (length (filter (\<lambda>w. ss_phase w = PStr ''Allocated'')
         (concat (map get_sessions (get_environments p))))) \<and>
       (\<forall>e\<in>set (get_environments p). get_environment p (en_name e) = Some e \<and>
          en_allocated e = int (length (filter (\<lambda>w. ss_phase w = PStr ''Allocated'') (get_sessions e))) \<and>
          en_available e = int (length (filter (\<lambda>w. ss_phase w = PStr ''Available'') (get_sessions e))) \<and>
          (\<forall>w\<in>set (get_sessions e). get_session e (ss_name w) = Some w)))"
proof -
  let ?st = "sv_clusters (ls_state s)"
  from service_inv_reachable [OF assms(1)] have st: "store_ok ?st"
    and inv: "\<forall>c\<in>set (cs_objects ?st). cluster_inv c" by (simp_all add: service_inv_def)
  from assms(2) clusters.items_iff [OF st] have get: "get_cluster ?st (cl_name c) = Some c" by simp
  then obtain k where "get_cluster_ref ?st (cl_name c) = Some k" and "c = cs_objects ?st ! k"
    by (auto simp: get_cluster_def)
  with store_ref_bound [OF st, of "cl_name c" k] have "c \<in> set (cs_objects ?st)" by simp
  with inv have c: "cluster_ok c" "cluster_inv c" by (auto intro: cluster_inv_cluster_ok)
  have envs: "get_environment p (en_name e) = Some e \<and>
      en_allocated e = int (length (filter (\<lambda>w. ss_phase w = PStr ''Allocated'') (get_sessions e))) \<and>
      en_available e = int (length (filter (\<lambda>w. ss_phase w = PStr ''Available'') (get_sessions e))) \<and>
      (\<forall>w\<in>set (get_sessions e). get_session e (ss_name w) = Some w)"
    if "portal_ok p" "portal_counted p" "e \<in> set (get_environments p)" for p e
  proof -
    from that have "environment_ok e" "environment_counted e" by (simp_all add: portal_ok_def portal_counted_def)
    moreover have "get_environment p (en_name e) = Some e"
      using that environments.items_iff [of p e] by (simp add: portal_ok_def)
    ultimately show ?thesis using sessions.items_iff [of e] by (simp add: environment_counted_def)
  qed
  have "get_portal c (pt_name p) = Some p \<and> portal_ok p \<and> portal_counted p" if "p \<in> set (get_portals c)" for p
    using that c portals.items_iff [of c p] by (auto simp: cluster_ok_def dest: cluster_inv_portal)
  then show ?thesis
    using envs portal_allocated_is_session_count get clusters.items_distinct [OF st] by blast
qed

theorem reachable_service_consistent_witness:
  "get_cluster (sv_clusters (ls_state one_cluster)) ''local'' = Some local_cluster"
proof -
  have "local_cluster \<in> set (get_clusters (sv_clusters (ls_state one_cluster)))"
    by (simp add: one_cluster_clusters)
  from reachable_service_consistent [OF one_cluster_reachable this] show ?thesis
    by (simp add: local_cluster_def new_cluster_def)
qed

text \<open>
  \<^bold>\<open>C10.\<close> An operator feeds its events to a cluster object of the name and uid its daemon was
  started for, and to no other: no cluster of another name changes, and once the
  configuration has been deleted, or deleted and created anew, a leftover operator changes
  nothing that the REST API can see.
\<close>

theorem operator_isolation:
  fixes s :: lookup_service and r :: nat and c :: cluster_config
  defines "st \<equiv> sv_clusters (ls_state s)"
  defines "st' \<equiv> modify_cluster r (\<lambda>_. c) st"
  assumes "reachable env s" and "(n, uid, r) \<in> set (ls_operators s)"
    and "handle_event ev (cs_objects st ! r) = Inr c"
  shows "py_eq (cl_uid c) uid \<and> (\<forall>m. m \<noteq> n \<longrightarrow> get_cluster st' m = get_cluster st m) \<and>
    (if get_cluster_ref st n = Some r then get_cluster st' n = Some c
     else get_clusters st' = get_clusters st)"
proof -
  from service_inv_reachable [OF assms(3)] have ok: "store_ok st" and
    r: "r < length (cs_objects st)" "cl_name (cs_objects st ! r) = n" "py_eq (cl_uid (cs_objects st ! r)) uid"
    using assms(4) by (auto simp: service_inv_def st_def operators_ok_def)
  have ref: "get_cluster_ref st m = Some r \<Longrightarrow> m = n" for m
    using store_ref_bound [OF ok, of m r] r(2) by simp
  have "get_clusters st' = get_clusters st" if "get_cluster_ref st n \<noteq> Some r"
  proof -
    have "r \<noteq> k" if "(m, k) \<in> set (cs_names st)" for m k
      using that ref [of m] ok \<open>get_cluster_ref st n \<noteq> Some r\<close> by (auto simp: get_cluster_ref_def store_ok_def)
    then show ?thesis by (auto simp: get_clusters_def st'_def modify_cluster_def)
  qed
  moreover have "get_cluster st' n = Some c" if "get_cluster_ref st n = Some r"
    using that by (simp add: st'_def get_cluster_modify [OF ok]) (simp add: get_cluster_def)
  moreover have "get_cluster st' m = get_cluster st m" if "m \<noteq> n" for m
    using that ref [of m] by (auto simp: st'_def get_cluster_modify [OF ok])
  ultimately show ?thesis using r(3) handle_event_identity(2) [OF assms(5)] by simp
qed

theorem operator_isolation_witness:
  "\<exists>c. handle_event (sample_session_event ''ADDED'' ''s1'' ''Allocated'') local_cluster = Inr c \<and>
     get_cluster (modify_cluster 0 (\<lambda>_. c) (sv_clusters (ls_state one_cluster))) ''local'' = Some c"
proof -
  have "case handle_event (sample_session_event ''ADDED'' ''s1'' ''Allocated'') local_cluster of
      Inl _ \<Rightarrow> False | Inr c \<Rightarrow> True"
    by code_simp
  then obtain c where "handle_event (sample_session_event ''ADDED'' ''s1'' ''Allocated'') local_cluster = Inr c"
    by (auto split: sum.splits)
  moreover from this have "handle_event (sample_session_event ''ADDED'' ''s1'' ''Allocated'')
      (cs_objects (sv_clusters (ls_state one_cluster)) ! 0) = Inr c"
    by (simp add: one_cluster_def add_cluster_def empty_store_def)
  moreover have "get_cluster_ref (sv_clusters (ls_state one_cluster)) ''local'' = Some 0"
    by (simp add: one_cluster_def get_cluster_ref_def add_cluster_def empty_store_def local_cluster_def new_cluster_def)
  ultimately show ?thesis
    using operator_isolation [OF one_cluster_reachable, of "''local''" "PStr ''u''" 0]
    by (auto simp: one_cluster_def)
qed

end
