(* ===== verification/Secret_Rules.thy ===== *)
theory Secret_Rules
  imports Python_Text Glob
begin

text \<open>
  The selectors of the secrets manager
  (\<open>secrets-manager/handlers/secretcopier_funcs.py\<close>, \<open>secretinjector_funcs.py\<close>): which rules of
  which configurations apply to a namespace, a secret or a service account. Both files
  spell the checks out with the same code; each check is one definition here. Configurations
  and resources are dynamic values.
\<close>

section \<open>The checks\<close>

text \<open>Names with a leading \<open>!\<close> exclude, all others include; both may be globs.\<close>

fun is_negated :: "pyval \<Rightarrow> bool result" where
  "is_negated (PStr s) = Inr (startswith s ''!'')"
| "is_negated _ = Inl AttributeError"

fun drop_first :: "pyval \<Rightarrow> pyval" where
  "drop_first (PStr s) = PStr (drop 1 s)"
| "drop_first v = v"

definition match_exclude_names :: "pyval list \<Rightarrow> pyval list result" where
  "match_exclude_names names = bindE (filterE is_negated names) (\<lambda>xs. Inr (map drop_first xs))"

definition match_include_names :: "pyval list \<Rightarrow> pyval list result" where
  "match_include_names names = filterE (\<lambda>v. bindE (is_negated v) (\<lambda>b. Inr (\<not> b))) names"

definition names_match :: "pyval \<Rightarrow> pyval \<Rightarrow> bool result" where
  "names_match name match_names =
     bindE (py_iter match_names) (\<lambda>names.
     bindE (match_exclude_names names) (\<lambda>excluded.
     bindE (match_include_names names) (\<lambda>included.
     bindE (if included \<noteq> [] then glob_match_name name included else Inr True) (\<lambda>inside.
       if \<not> inside then Inr False
       else if excluded \<noteq> [] then bindE (glob_match_name name excluded) (\<lambda>b. Inr (\<not> b))
       else Inr True))))"

definition uids_match :: "pyval \<Rightarrow> pyval \<Rightarrow> bool result" where
  "uids_match obj match_uids =
     (if \<not> truthy match_uids then Inr True
      else bindE (lookup obj ''metadata.uid'' (PStr [])) (\<lambda>uid. py_in uid match_uids))"

definition owner_details :: "pyval \<Rightarrow> pyval result" where
  "owner_details r =
     bindE (py_index r ''apiVersion'') (\<lambda>v. bindE (py_index r ''kind'') (\<lambda>k.
     bindE (py_index r ''name'') (\<lambda>n. bindE (py_index r ''uid'') (\<lambda>u.
       Inr (PDict [(''apiVersion'', v), (''kind'', k), (''name'', n), (''uid'', u)])))))"

definition owners_match :: "pyval \<Rightarrow> pyval \<Rightarrow> bool result" where
  "owners_match obj match_owners =
     (if \<not> truthy match_owners then Inr True
      else
        bindE (lookup obj ''metadata.ownerReferences'' (PList [])) (\<lambda>refs.
        bindE (py_iter refs) (\<lambda>refs.
          anyE (\<lambda>r. bindE (owner_details r) (\<lambda>d. py_in d match_owners)) refs)))"

definition labels_match :: "pyval \<Rightarrow> pyval \<Rightarrow> bool result" where
  "labels_match obj match_labels =
     (if \<not> truthy match_labels then Inr True
      else
        bindE (lookup obj ''metadata.labels'' (PDict [])) (\<lambda>labels.
        bindE (py_items match_labels) (\<lambda>items.
          allE (\<lambda>(k, v). bindE (py_get labels k) (\<lambda>w. Inr (py_eq w v))) items)))"

text \<open>An operator that is none of the four is passed over.\<close>

definition expression_matches :: "pyval \<Rightarrow> pyval \<Rightarrow> bool result" where
  "expression_matches labels item =
     bindE (py_index item ''key'') (\<lambda>key.
     bindE (py_index item ''operator'') (\<lambda>operator.
     bindE (py_get_or item ''values'' (PList [])) (\<lambda>values.
     bindE (py_get_dyn labels key) (\<lambda>value.
       if operator = PStr ''In'' then
         if \<not> truthy values then Inr True
         else if value = PNone then Inr False else py_in value values
       else if operator = PStr ''NotIn'' then
         if \<not> truthy values then Inr True
         else if value = PNone then Inr True else bindE (py_in value values) (\<lambda>b. Inr (\<not> b))
       else if operator = PStr ''Exists'' then py_in key labels
       else if operator = PStr ''DoesNotExist'' then bindE (py_in key labels) (\<lambda>b. Inr (\<not> b))
       else Inr True))))"

definition expressions_match :: "pyval \<Rightarrow> pyval \<Rightarrow> bool result" where
  "expressions_match obj match_expressions =
     (if \<not> truthy match_expressions then Inr True
      else
        bindE (lookup obj ''metadata.labels'' (PDict [])) (\<lambda>labels.
        bindE (py_iter match_expressions) (\<lambda>items. allE (expression_matches labels) items)))"

text \<open>One check after the other; the rest is not evaluated once one fails.\<close>

definition and_then :: "bool result \<Rightarrow> bool result \<Rightarrow> bool result" where
  "and_then a b = bindE a (\<lambda>x. if x then b else Inr False)"

section \<open>Rules of the copier\<close>

definition copier_rule_matches :: "pyval \<Rightarrow> pyval \<Rightarrow> pyval \<Rightarrow> bool result" where
  "copier_rule_matches namespace_name namespace_obj rule =
     and_then (bindE (lookup rule ''targetNamespaces.nameSelector.matchNames'' PNone) (\<lambda>names.
                 names_match namespace_name (if names = PNone then PList [PStr ''!kube-*''] else names)))
    (and_then (bindE (lookup rule ''targetNamespaces.uidSelector.matchUIDs'' (PList [])) (uids_match namespace_obj))
    (and_then (bindE (lookup rule ''targetNamespaces.ownerSelector.matchOwners'' (PList [])) (owners_match namespace_obj))
    (and_then (bindE (lookup rule ''targetNamespaces.labelSelector.matchLabels'' (PDict [])) (labels_match namespace_obj))
      (bindE (lookup rule ''targetNamespaces.labelSelector.matchExpressions'' (PList []))
         (expressions_match namespace_obj)))))"

text \<open>
  The copy of a rule that is handed on, with what the rest of the copier needs to know of
  its configuration: for a \<open>SecretExporter\<close> the exported secret and the default
  authorization, otherwise the owner of the copies.
\<close>

definition rule_items :: "pyval \<Rightarrow> (string \<times> pyval) list result" where
  "rule_items rule = (case rule of PDict d \<Rightarrow> Inr d | _ \<Rightarrow> Inl TypeError)"

definition owner_source_of :: "pyval \<Rightarrow> string result" where
  "owner_source_of config =
     bindE (lookup config ''kind'' PNone) (\<lambda>kind.
       case kind of
         PStr k \<Rightarrow> bindE (lookup config ''metadata.name'' PNone) (\<lambda>n. Inr (lower k @ ''/'' @ py_str n))
       | _ \<Rightarrow> Inl AttributeError)"

definition bound_rule :: "pyval \<Rightarrow> pyval \<Rightarrow> int \<Rightarrow> pyval result" where
  "bound_rule config rule index =
     bindE (rule_items rule) (\<lambda>items.
     bindE (owner_source_of config) (\<lambda>owner_source.
     bindE (lookup config ''kind'' PNone) (\<lambda>kind.
     bindE (lookup config ''metadata.name'' PNone) (\<lambda>name.
     bindE (lookup config ''metadata.uid'' PNone) (\<lambda>uid.
       (let snapshot = dict_set ''ruleNumber'' (PInt index) (dict_set ''ownerSource'' (PStr owner_source) items)
        in if kind = PStr ''SecretExporter'' then
             bindE (lookup config ''metadata.namespace'' PNone) (\<lambda>namespace.
             bindE (lookup rule ''copyAuthorization'' PNone) (\<lambda>authorization.
               (let exported = dict_set ''sourceSecret'' (PDict [(''name'', name), (''namespace'', namespace)]) snapshot
                in Inr (PDict (if truthy authorization then exported
                     else dict_set ''copyAuthorization'' (PDict [(''sharedSecret'', uid)]) exported)))))
           else
             bindE (lookup config ''apiVersion'' PNone) (\<lambda>version.
               Inr (PDict (dict_set ''ownerReference'' (PDict
                 [(''apiVersion'', version), (''kind'', kind), (''name'', name), (''uid'', uid),
                  (''blockOwnerDeletion'', PBool True), (''controller'', PBool True)]) snapshot)))))))))"

text \<open>The rules of one configuration with their numbers, counted from 1.\<close>

definition config_rules :: "pyval \<Rightarrow> pyval list result" where
  "config_rules config = bindE (lookup config ''spec.rules'' (PList [])) py_iter"

primrec bound_rules_from :: "pyval \<Rightarrow> pyval \<Rightarrow> pyval \<Rightarrow> int \<Rightarrow> pyval list \<Rightarrow> pyval list result" where
  "bound_rules_from namespace_name namespace_obj config index [] = Inr []"
| "bound_rules_from namespace_name namespace_obj config index (rule # rules) =
     bindE (copier_rule_matches namespace_name namespace_obj rule) (\<lambda>b.
     bindE (if b then bindE (bound_rule config rule index) (\<lambda>r. Inr [r]) else Inr []) (\<lambda>rs.
     bindE (bound_rules_from namespace_name namespace_obj config (index + 1) rules) (\<lambda>rest. Inr (rs @ rest))))"

definition copier_matches_target_namespace :: "pyval \<Rightarrow> pyval \<Rightarrow> pyval list \<Rightarrow> pyval list result" where
  "copier_matches_target_namespace namespace_name namespace_obj configs =
     bindE (mapE (\<lambda>config. bindE (config_rules config)
              (bound_rules_from namespace_name namespace_obj config 1)) configs)
       (\<lambda>rss. Inr (concat rss))"

text \<open>A configuration is listed once for every rule of it with this source secret.\<close>

definition copier_matches_source_secret :: "pyval \<Rightarrow> pyval \<Rightarrow> pyval list \<Rightarrow> pyval list result" where
  "copier_matches_source_secret secret_name secret_namespace configs =
     bindE (mapE (\<lambda>config.
        bindE (config_rules config) (\<lambda>rules.
        bindE (filterE (\<lambda>rule.
            bindE (lookup rule ''sourceSecret.name'' PNone) (\<lambda>n.
            bindE (lookup rule ''sourceSecret.namespace'' PNone) (\<lambda>ns.
              Inr (py_eq secret_name n \<and> py_eq secret_namespace ns)))) rules) (\<lambda>matched.
          Inr (map (\<lambda>_. config) matched)))) configs)
       (\<lambda>css. Inr (concat css))"

section \<open>Rules of the injector\<close>

definition injector_rule_matches :: "pyval \<Rightarrow> pyval \<Rightarrow> pyval \<Rightarrow> bool result" where
  "injector_rule_matches namespace_name namespace_obj rule =
     and_then (bindE (lookup rule ''targetNamespaces.nameSelector.matchNames'' PNone) (\<lambda>names.
                 names_match namespace_name (if names = PNone then PList [PStr ''!kube-*''] else names)))
    (and_then (bindE (lookup rule ''targetNamespaces.uidSelector.matchUIDs'' (PList [])) (uids_match namespace_obj))
    (and_then (bindE (lookup rule ''targetNamespaces.labelSelector.matchLabels'' (PDict [])) (labels_match namespace_obj))
      (bindE (lookup rule ''targetNamespaces.labelSelector.matchExpressions'' (PList []))
         (expressions_match namespace_obj))))"

definition injector_matches_target_namespace :: "pyval \<Rightarrow> pyval \<Rightarrow> pyval list \<Rightarrow> pyval list result" where
  "injector_matches_target_namespace namespace_name namespace_obj configs =
     bindE (mapE (\<lambda>config.
        bindE (config_rules config) (\<lambda>rules.
        bindE (owner_source_of config) (\<lambda>owner_source.
          filterE (injector_rule_matches namespace_name namespace_obj) rules))) configs)
       (\<lambda>rss. Inr (concat rss))"

text \<open>Plain names here, without globs or negation.\<close>

definition listed_name :: "pyval \<Rightarrow> pyval \<Rightarrow> bool result" where
  "listed_name name match_names = (if truthy match_names then py_in name match_names else Inr True)"

definition injector_matches_source_secret :: "pyval \<Rightarrow> pyval \<Rightarrow> pyval \<Rightarrow> bool result" where
  "injector_matches_source_secret secret_name secret_obj rule =
     and_then (bindE (lookup rule ''sourceSecrets.nameSelector.matchNames'' (PList [])) (listed_name secret_name))
    (and_then (bindE (lookup rule ''sourceSecrets.labelSelector.matchLabels'' (PDict [])) (labels_match secret_obj))
      (bindE (lookup rule ''sourceSecrets.labelSelector.matchExpressions'' (PList [])) (expressions_match secret_obj)))"

definition matches_service_account :: "pyval \<Rightarrow> pyval \<Rightarrow> pyval \<Rightarrow> bool result" where
  "matches_service_account service_account_name service_account_obj rule =
     and_then (bindE (lookup rule ''serviceAccounts.nameSelector.matchNames'' (PList []))
                 (listed_name service_account_name))
    (and_then (bindE (lookup rule ''serviceAccounts.labelSelector.matchLabels'' (PDict []))
                 (labels_match service_account_obj))
      (bindE (lookup rule ''serviceAccounts.labelSelector.matchExpressions'' (PList []))
         (expressions_match service_account_obj)))"

end
