(* ===== verification/Kube_Client.thy ===== *)
theory Kube_Client
  imports Python_Values
begin

text \<open>
  How the operators talk to the Kubernetes API through the client library \<open>pykube\<close>. The API
  server is a parameter: functions from the calls made so far, most recent first, to the
  answer of the next one, so that it may change between calls in any way. An operation
  takes the calls made so far and returns its result or exception with the calls made then.
  What an operation calls is reasoned about with \<open>runs\<close>, which holds when each call it makes
  is allowed after the calls before it.
\<close>

section \<open>Calls and exceptions\<close>

text \<open>
  The exceptions of \<open>pykube\<close>: \<open>ObjectDoesNotExist\<close> and \<open>HTTPError\<close> are \<open>PyKubeError\<close>s and these
  are \<open>KubernetesError\<close>s. Everything else that is raised is a \<open>Raised\<close>.
\<close>

datatype kube_error =
    ObjectDoesNotExist
  | HTTPError int
  | OtherPyKubeError
  | OtherKubernetesError
  | Raised py_error

fun is_PyKubeError :: "kube_error \<Rightarrow> bool" where
  "is_PyKubeError ObjectDoesNotExist = True"
| "is_PyKubeError (HTTPError n) = True"
| "is_PyKubeError OtherPyKubeError = True"
| "is_PyKubeError _ = False"

fun is_KubernetesError :: "kube_error \<Rightarrow> bool" where
  "is_KubernetesError (Raised e) = False"
| "is_KubernetesError _ = True"

text \<open>
  \<open>Get kind namespace name\<close> is \<open>Kind.objects(api, namespace=...).get(name=...)\<close>, \<open>Query kind
  namespace\<close> the iteration over such a query, \<open>Create obj\<close> is \<open>Kind(api, obj).create()\<close>, and
  \<open>Update old obj\<close> is \<open>item.update()\<close> for an item read as \<open>old\<close> whose object is now \<open>obj\<close>,
  \<open>Delete obj\<close> is \<open>item.delete()\<close>. The trace also has what a handler does besides calling the API: pause,
  draw random text, report an event for analytics, set the status of the resource it handles.
\<close>

datatype kube_call =
    Get string pyval pyval
  | Query string pyval
  | Create pyval
  | Update pyval pyval
  | Delete pyval
  | Pause
  | Draw nat
  | Report string pyval
  | SetStatus pyval

fun is_write :: "kube_call \<Rightarrow> bool" where
  "is_write (Create obj) = True"
| "is_write (Update old obj) = True"
| "is_write (Delete obj) = True"
| "is_write _ = False"

record kube_api =
  ka_get :: "kube_call list \<Rightarrow> string \<Rightarrow> pyval \<Rightarrow> pyval \<Rightarrow> kube_error + pyval"
  ka_query :: "kube_call list \<Rightarrow> string \<Rightarrow> pyval \<Rightarrow> kube_error + pyval list"
  ka_write :: "kube_call list \<Rightarrow> kube_call \<Rightarrow> kube_error + pyval"

type_synonym 'a kube = "kube_call list \<Rightarrow> (kube_error + 'a) \<times> kube_call list"

section \<open>Sequencing\<close>

definition kube_return :: "'a \<Rightarrow> 'a kube" where
  "kube_return x tr = (Inr x, tr)"

definition kube_raise :: "kube_error \<Rightarrow> 'a kube" where
  "kube_raise e tr = (Inl e, tr)"

definition kube_bind :: "'a kube \<Rightarrow> ('a \<Rightarrow> 'b kube) \<Rightarrow> 'b kube" where
  "kube_bind m f tr = (case m tr of (Inl e, tr') \<Rightarrow> (Inl e, tr') | (Inr x, tr') \<Rightarrow> f x tr')"

text \<open>\<open>try: m except ...\<close>; the handler raises again what it does not handle.\<close>

definition kube_try :: "'a kube \<Rightarrow> (kube_error \<Rightarrow> 'a kube) \<Rightarrow> 'a kube" where
  "kube_try m h tr = (case m tr of (Inl e, tr') \<Rightarrow> h e tr' | (Inr x, tr') \<Rightarrow> (Inr x, tr'))"

definition kube_lift :: "'a result \<Rightarrow> 'a kube" where
  "kube_lift r tr = (case r of Inl e \<Rightarrow> (Inl (Raised e), tr) | Inr x \<Rightarrow> (Inr x, tr))"

definition kube_get :: "kube_api \<Rightarrow> string \<Rightarrow> pyval \<Rightarrow> pyval \<Rightarrow> pyval kube" where
  "kube_get api kind namespace name tr = (ka_get api tr kind namespace name, Get kind namespace name # tr)"

definition kube_query :: "kube_api \<Rightarrow> string \<Rightarrow> pyval \<Rightarrow> pyval list kube" where
  "kube_query api kind namespace tr = (ka_query api tr kind namespace, Query kind namespace # tr)"

text \<open>The answer to a write is the object as the server stored it.\<close>

definition kube_write :: "kube_api \<Rightarrow> kube_call \<Rightarrow> pyval kube" where
  "kube_write api w tr = (ka_write api tr w, w # tr)"

primrec kube_each :: "('a \<Rightarrow> unit kube) \<Rightarrow> 'a list \<Rightarrow> unit kube" where
  "kube_each f [] = kube_return ()"
| "kube_each f (x # xs) = kube_bind (f x) (\<lambda>_. kube_each f xs)"

primrec kube_fold :: "('a \<Rightarrow> 's \<Rightarrow> 's kube) \<Rightarrow> 'a list \<Rightarrow> 's \<Rightarrow> 's kube" where
  "kube_fold f [] s = kube_return s"
| "kube_fold f (x # xs) s = kube_bind (f x s) (kube_fold f xs)"

text \<open>\<open>item.name\<close>.\<close>

definition item_name :: "pyval \<Rightarrow> pyval result" where
  "item_name obj = bindE (py_index obj ''metadata'') (\<lambda>m. py_index m ''name'')"

section \<open>The calls an operation makes\<close>

named_theorems runs_intros \<open>rules for the calls of an operation\<close>

text \<open>\<open>calls_ok P tr new\<close>: every call of \<open>new\<close>, made after \<open>tr\<close>, is allowed by \<open>P\<close> where it is made.\<close>

fun calls_ok :: "(kube_call list \<Rightarrow> kube_call \<Rightarrow> bool) \<Rightarrow> kube_call list \<Rightarrow> kube_call list \<Rightarrow> bool" where
  "calls_ok P tr [] = True"
| "calls_ok P tr (c # cs) = (P (cs @ tr) c \<and> calls_ok P tr cs)"

definition runs :: "(kube_call list \<Rightarrow> kube_call \<Rightarrow> bool) \<Rightarrow> 'a kube \<Rightarrow> kube_call list \<Rightarrow> bool" where
  "runs P m tr \<longleftrightarrow> (\<exists>new. snd (m tr) = new @ tr \<and> calls_ok P tr new)"

lemma calls_ok_append: "calls_ok P tr (b @ a) \<longleftrightarrow> calls_ok P tr a \<and> calls_ok P (a @ tr) b"
  by (induction b) auto

lemma calls_ok_at: "calls_ok P tr (a @ c # b) \<Longrightarrow> P (b @ tr) c"
  by (simp add: calls_ok_append)

lemma runs_return [runs_intros]: "runs P (kube_return x) tr"
  by (simp add: runs_def kube_return_def)

lemma runs_raise [runs_intros]: "runs P (kube_raise e) tr"
  by (simp add: runs_def kube_raise_def)

lemma runs_lift [runs_intros]: "runs P (kube_lift r) tr"
  by (cases r) (simp_all add: runs_def kube_lift_def)

lemma runs_get [runs_intros]: "P tr (Get k ns n) \<Longrightarrow> runs P (kube_get api k ns n) tr"
  by (simp add: runs_def kube_get_def exI [of _ "[Get k ns n]"])

lemma runs_query [runs_intros]: "P tr (Query k ns) \<Longrightarrow> runs P (kube_query api k ns) tr"
  by (simp add: runs_def kube_query_def exI [of _ "[Query k ns]"])

lemma runs_write [runs_intros]: "P tr w \<Longrightarrow> runs P (kube_write api w) tr"
  by (simp add: runs_def kube_write_def exI [of _ "[w]"])

lemma runs_chain:
  assumes "tr' = new @ tr" and "calls_ok P tr new" and "runs P k tr'" and "snd (r tr) = snd (k tr')"
  shows "runs P r tr"
proof -
  from assms(3) obtain new' where "snd (k tr') = new' @ tr'" "calls_ok P tr' new'"
    by (auto simp: runs_def)
  with assms show ?thesis
    unfolding runs_def by (intro exI [of _ "new' @ new"]) (simp add: calls_ok_append)
qed

lemma runs_bind [runs_intros]:
  assumes "runs P m tr" and "\<And>x tr'. m tr = (Inr x, tr') \<Longrightarrow> runs P (f x) tr'"
  shows "runs P (kube_bind m f) tr"
proof -
  from assms(1) obtain r new where m: "m tr = (r, new @ tr)" "calls_ok P tr new"
    by (metis runs_def prod.collapse)
  show ?thesis
  proof (cases r)
    case (Inl e)
    with m show ?thesis by (simp add: runs_def kube_bind_def)
  next
    case (Inr x)
    with m(1) assms(2) have "runs P (f x) (new @ tr)" by simp
    from runs_chain [OF refl m(2) this, of "kube_bind m f"] m(1) Inr show ?thesis
      by (simp add: kube_bind_def)
  qed
qed

lemma kube_lift_Inr: "kube_lift r tr = (Inr x, tr') \<longleftrightarrow> r = Inr x \<and> tr' = tr"
  by (cases r) (auto simp: kube_lift_def)

lemma runs_bind_lift:
  assumes "\<And>x. r = Inr x \<Longrightarrow> runs P (f x) tr"
  shows "runs P (kube_bind (kube_lift r) f) tr"
  using assms by (intro runs_bind runs_lift) (simp add: kube_lift_Inr)

lemma runs_try [runs_intros]:
  assumes "runs P m tr" and "\<And>e tr'. m tr = (Inl e, tr') \<Longrightarrow> runs P (h e) tr'"
  shows "runs P (kube_try m h) tr"
proof -
  from assms(1) obtain r new where m: "m tr = (r, new @ tr)" "calls_ok P tr new"
    by (metis runs_def prod.collapse)
  show ?thesis
  proof (cases r)
    case (Inr x)
    with m show ?thesis by (simp add: runs_def kube_try_def)
  next
    case (Inl e)
    with m(1) assms(2) have "runs P (h e) (new @ tr)" by simp
    from runs_chain [OF refl m(2) this, of "kube_try m h"] m(1) Inl show ?thesis
      by (simp add: kube_try_def)
  qed
qed

lemma runs_each:
  assumes "\<And>x tr. x \<in> set xs \<Longrightarrow> runs P (f x) tr"
  shows "runs P (kube_each f xs) tr"
  using assms by (induction xs arbitrary: tr) (simp_all add: runs_return runs_bind)

lemma runs_extends: "runs P m tr \<Longrightarrow> m tr = (r, tr') \<Longrightarrow> \<exists>new. tr' = new @ tr"
  by (auto simp: runs_def)

text \<open>Loops in which something that holds of the calls so far goes on to hold.\<close>

lemma runs_fold_from:
  assumes "I tr" and "\<And>x s tr. x \<in> set xs \<Longrightarrow> I tr \<Longrightarrow> runs P (f x s) tr" and "\<And>b tr. I tr \<Longrightarrow> I (b @ tr)"
  shows "runs P (kube_fold f xs s) tr"
  using assms(1,2)
proof (induction xs arbitrary: s tr)
  case (Cons x xs)
  have first: "runs P (f x s) tr" using Cons.prems by simp
  have "runs P (kube_fold f xs u) tr'" if "f x s tr = (Inr u, tr')" for u tr'
    using Cons runs_extends [OF first that] assms(3) by fastforce
  with first show ?case by (auto intro!: runs_bind)
qed (simp add: runs_return)

lemma runs_each_from:
  assumes "I tr" and "\<And>x tr. x \<in> set xs \<Longrightarrow> I tr \<Longrightarrow> runs P (f x) tr" and "\<And>b tr. I tr \<Longrightarrow> I (b @ tr)"
  shows "runs P (kube_each f xs) tr"
  using assms(1,2)
proof (induction xs arbitrary: tr)
  case (Cons x xs)
  have first: "runs P (f x) tr" using Cons.prems by simp
  have "runs P (kube_each f xs) tr'" if "f x tr = (Inr u, tr')" for u tr'
    using Cons runs_extends [OF first that] assms(3) by fastforce
  with first show ?case by (auto intro!: runs_bind)
qed (simp add: runs_return)

lemma calls_ok_mono:
  "calls_ok P tr new \<Longrightarrow> (\<And>b c. P (b @ tr) c \<Longrightarrow> Q (b @ tr) c) \<Longrightarrow> calls_ok Q tr new"
  by (induction new) auto

lemma runs_mono: "runs P m tr \<Longrightarrow> (\<And>b c. P (b @ tr) c \<Longrightarrow> Q (b @ tr) c) \<Longrightarrow> runs Q m tr"
  unfolding runs_def using calls_ok_mono by blast

text \<open>What \<open>runs\<close> says of a call that was made.\<close>

lemma runs_call:
  assumes "runs P m tr" and "snd (m tr) = a @ c # b" and "length tr \<le> length b"
  shows "P b c"
proof -
  from assms(1) obtain new where new: "snd (m tr) = new @ tr" "calls_ok P tr new"
    by (auto simp: runs_def)
  with assms(2) have "new @ tr = (a @ [c]) @ b" by simp
  with assms(3) obtain b' where "new = (a @ [c]) @ b'" "b = b' @ tr"
    by (force simp: append_eq_append_conv2 append_eq_Cons_conv)
  with new(2) show ?thesis by (simp add: calls_ok_append)
qed

section \<open>What was read\<close>

text \<open>\<open>got api tr kind ns name obj\<close>: among the calls \<open>tr\<close> is a \<open>get\<close> that was answered with \<open>obj\<close>.\<close>

definition got :: "kube_api \<Rightarrow> kube_call list \<Rightarrow> string \<Rightarrow> pyval \<Rightarrow> pyval \<Rightarrow> pyval \<Rightarrow> bool" where
  "got api tr kind ns name obj \<longleftrightarrow>
     (\<exists>a b. tr = a @ Get kind ns name # b \<and> ka_get api b kind ns name = Inr obj)"

text \<open>A \<open>get\<close> that found no such object.\<close>

definition missing :: "kube_api \<Rightarrow> kube_call list \<Rightarrow> string \<Rightarrow> pyval \<Rightarrow> pyval \<Rightarrow> bool" where
  "missing api tr kind ns name \<longleftrightarrow>
     (\<exists>a b. tr = a @ Get kind ns name # b \<and> ka_get api b kind ns name = Inl ObjectDoesNotExist)"

lemma got_now: "ka_get api tr kind ns name = Inr obj \<Longrightarrow> got api (Get kind ns name # tr) kind ns name obj"
  unfolding got_def by blast

lemma missing_now:
  "ka_get api tr kind ns name = Inl ObjectDoesNotExist \<Longrightarrow> missing api (Get kind ns name # tr) kind ns name"
  unfolding missing_def by blast

text \<open>A query that was answered with items, one of them \<open>obj\<close>.\<close>

definition listed :: "kube_api \<Rightarrow> kube_call list \<Rightarrow> string \<Rightarrow> pyval \<Rightarrow> pyval \<Rightarrow> bool" where
  "listed api tr kind ns obj \<longleftrightarrow>
     (\<exists>a b items. tr = a @ Query kind ns # b \<and> ka_query api b kind ns = Inr items \<and> obj \<in> set items)"

lemma listed_now:
  "ka_query api tr kind ns = Inr items \<Longrightarrow> obj \<in> set items \<Longrightarrow> listed api (Query kind ns # tr) kind ns obj"
  unfolding listed_def by blast

lemma listed_later: "listed api tr kind ns obj \<Longrightarrow> listed api (b @ tr) kind ns obj"
  unfolding listed_def by (metis append.assoc)

lemma got_append: "got api tr kind ns name obj \<Longrightarrow> got api (b @ tr) kind ns name obj"
  unfolding got_def by (metis append.assoc)

text \<open>Loops over the items of a query.\<close>

lemma listed_from_query:
  assumes "kube_query api kind ns tr = (Inr items, tr')" and "obj \<in> set items" and "\<exists>b. t = b @ tr'"
  shows "listed api t kind ns obj \<and> (\<exists>c. t = c @ tr)"
proof -
  from assms(1) have items: "ka_query api tr kind ns = Inr items" "tr' = Query kind ns # tr"
    by (auto simp: kube_query_def)
  from assms(3) obtain b where t: "t = b @ tr'" by blast
  have "listed api t kind ns obj"
    unfolding t using listed_now [OF items(1) assms(2)] by (simp add: items(2) listed_later)
  moreover have "\<exists>c. t = c @ tr" unfolding t items(2) by (metis append.assoc append_Cons append_Nil)
  ultimately show ?thesis by blast
qed

lemma runs_query_each:
  assumes "P tr (Query kind ns)" and "\<And>obj b. listed api b kind ns obj \<Longrightarrow> \<exists>c. b = c @ tr \<Longrightarrow> runs P (f obj) b"
  shows "runs P (kube_bind (kube_query api kind ns) (kube_each f)) tr"
proof (rule runs_bind, rule runs_query, rule assms(1))
  fix items tr' assume "kube_query api kind ns tr = (Inr items, tr')"
  from listed_from_query [OF this] show "runs P (kube_each f items) tr'"
    by (intro runs_each_from [where I = "\<lambda>t. \<exists>b. t = b @ tr'"] assms(2)) auto
qed

lemma runs_query_fold:
  assumes "P tr (Query kind ns)" and "\<And>obj b s. listed api b kind ns obj \<Longrightarrow> \<exists>c. b = c @ tr \<Longrightarrow> runs P (f obj s) b"
  shows "runs P (kube_bind (kube_query api kind ns) (\<lambda>items. kube_fold f items s)) tr"
proof (rule runs_bind, rule runs_query, rule assms(1))
  fix items tr' assume "kube_query api kind ns tr = (Inr items, tr')"
  from listed_from_query [OF this] show "runs P (kube_fold f items s) tr'"
    by (intro runs_fold_from [where I = "\<lambda>t. \<exists>b. t = b @ tr'"] assms(2)) auto
qed

lemma got_later: "got api tr kind ns name obj \<Longrightarrow> got api (c # tr) kind ns name obj"
  unfolding got_def by (metis append_Cons)

lemma missing_later: "missing api tr kind ns name \<Longrightarrow> missing api (c # tr) kind ns name"
  unfolding missing_def by (metis append_Cons)

end
