(* ===== verification/Secret_Copier.thy ===== *)
theory Secret_Copier
  imports Secret_Rules Kube_Client
begin

text \<open>
  The copier of the secrets manager (\<open>secrets-manager/handlers/secretcopier_funcs.py\<close>) and the
  handlers that trigger it (\<open>secretcopier.py\<close>, \<open>secretexporter.py\<close>, \<open>secretimporter.py\<close>,
  \<open>namespace.py\<close>). \<open>update_secret\<close> is split at the points where it calls the Kubernetes API.
  A step that may end the function early without an error returns \<open>None\<close>.
\<close>

section \<open>Parts of an update\<close>

text \<open>\<open>d.update(v)\<close>; a dictionary is what the resource definitions admit for \<open>v\<close>.\<close>

fun py_update :: "pyval \<Rightarrow> pyval \<Rightarrow> pyval result" where
  "py_update (PDict d) (PDict e) = Inr (PDict (fold (\<lambda>(k, v). dict_set k v) e d))"
| "py_update (PDict d) (PList []) = Inr (PDict d)"
| "py_update (PDict d) (PStr []) = Inr (PDict d)"
| "py_update (PDict d) _ = Inl TypeError"
| "py_update _ _ = Inl AttributeError"

text \<open>
  The labels of an item (\<open>item.labels\<close>) and its annotations: both are added to the metadata
  when they are missing.
\<close>

definition metadata_dict :: "pyval \<Rightarrow> (string \<times> pyval) list result" where
  "metadata_dict obj = bindE (py_index obj ''metadata'') (\<lambda>m. case m of PDict d \<Rightarrow> Inr d | _ \<Rightarrow> Inl AttributeError)"

definition metadata_default :: "string \<Rightarrow> pyval \<Rightarrow> pyval result" where
  "metadata_default k obj =
     bindE (metadata_dict obj) (\<lambda>d. Inr (case dict_get d k of None \<Rightarrow> PDict [] | Some v \<Rightarrow> v))"

definition source_and_target :: "pyval \<Rightarrow> (pyval \<times> pyval \<times> pyval) result" where
  "source_and_target rule =
     bindE (lookup rule ''sourceSecret.name'' PNone) (\<lambda>source_name.
     bindE (lookup rule ''sourceSecret.namespace'' PNone) (\<lambda>source_namespace.
     bindE (lookup rule ''targetSecret.name'' source_name) (\<lambda>target_name.
       Inr (source_name, source_namespace, target_name))))"

definition read_source_secret :: "kube_api \<Rightarrow> pyval \<Rightarrow> pyval \<Rightarrow> pyval option kube" where
  "read_source_secret api namespace name =
     kube_try (kube_bind (kube_get api ''Secret'' namespace name) (\<lambda>obj. kube_return (Some obj)))
       (\<lambda>e. if is_KubernetesError e then kube_return None else kube_raise e)"

text \<open>The namespace and name the secret itself states.\<close>

definition secret_identity :: "pyval \<Rightarrow> (pyval \<times> pyval) result" where
  "secret_identity obj =
     bindE (py_index obj ''metadata'') (\<lambda>m.
     bindE (py_index m ''namespace'') (\<lambda>namespace.
     bindE (py_index m ''name'') (\<lambda>name. Inr (namespace, name))))"

text \<open>\<open>Some None\<close> when there is no importer of that name.\<close>

definition read_importer :: "kube_api \<Rightarrow> pyval \<Rightarrow> pyval \<Rightarrow> pyval option option kube" where
  "read_importer api namespace name =
     kube_try (kube_bind (kube_get api ''SecretImporter'' namespace name) (\<lambda>obj. kube_return (Some (Some obj))))
       (\<lambda>e. if e = ObjectDoesNotExist then kube_return (Some None)
            else if is_PyKubeError e then kube_return None else kube_raise e)"

definition importer_secret :: "pyval \<Rightarrow> pyval result" where
  "importer_secret importer =
     bindE (py_index importer ''spec'') (\<lambda>spec.
     bindE (py_get_or spec ''copyAuthorization'' (PDict [])) (\<lambda>authorization.
       py_get authorization ''sharedSecret''))"

definition shared_secret_matches :: "pyval \<Rightarrow> pyval option \<Rightarrow> bool result" where
  "shared_secret_matches rule importer =
     bindE (lookup rule ''copyAuthorization.sharedSecret'' PNone) (\<lambda>shared_secret.
       if shared_secret = PNone then Inr True
       else (case importer of
           None \<Rightarrow> Inr False
         | Some imp \<Rightarrow> bindE (importer_secret imp) (\<lambda>v. Inr (py_eq v shared_secret))))"

definition importer_accepts :: "pyval option \<Rightarrow> pyval \<Rightarrow> bool result" where
  "importer_accepts importer source_namespace =
     (case importer of
        None \<Rightarrow> Inr True
      | Some imp \<Rightarrow>
          bindE (py_index imp ''spec'') (\<lambda>spec.
          bindE (lookup spec ''sourceNamespaces.nameSelector.matchNames'' PNone) (\<lambda>names.
            names_match source_namespace (if names = PNone then PList [PStr ''*''] else names))))"

text \<open>
  The owner recorded in the copy and whether the copy is deleted with it: the owner the
  rule names, and the rule's reclaim policy, or else the importer.
\<close>

definition importer_reference :: "pyval option \<Rightarrow> pyval result" where
  "importer_reference importer =
     (case importer of
        None \<Rightarrow> Inl AttributeError
      | Some imp \<Rightarrow>
          bindE (lookup imp ''apiVersion'' PNone) (\<lambda>version. bindE (lookup imp ''kind'' PNone) (\<lambda>kind.
          bindE (lookup imp ''metadata.name'' PNone) (\<lambda>name. bindE (lookup imp ''metadata.uid'' PNone) (\<lambda>uid.
            Inr (PDict [(''apiVersion'', version), (''kind'', kind), (''name'', name), (''uid'', uid),
                        (''blockOwnerDeletion'', PBool True), (''controller'', PBool True)]))))))"

definition copy_owner :: "pyval \<Rightarrow> pyval option \<Rightarrow> (pyval \<times> pyval) result" where
  "copy_owner rule importer =
     bindE (lookup rule ''reclaimPolicy'' (PStr ''Delete'')) (\<lambda>reclaim_policy.
     bindE (lookup rule ''ownerReference'' PNone) (\<lambda>owner_reference.
       if owner_reference = PNone
       then bindE (importer_reference importer) (\<lambda>r. Inr (r, PStr ''Delete''))
       else Inr (owner_reference, reclaim_policy)))"

definition owner_api_group :: "pyval \<Rightarrow> string result" where
  "owner_api_group owner_reference =
     bindE (py_index owner_reference ''apiVersion'') (\<lambda>v.
       case v of PStr s \<Rightarrow> Inr (hd (split_on CHR ''/'' s)) | _ \<Rightarrow> Inl AttributeError)"

definition read_target_secret :: "kube_api \<Rightarrow> pyval \<Rightarrow> pyval \<Rightarrow> pyval option kube" where
  "read_target_secret api namespace name =
     kube_try (kube_bind (kube_get api ''Secret'' namespace name) (\<lambda>obj. kube_return (Some obj)))
       (\<lambda>e. if e = ObjectDoesNotExist then kube_return None else kube_raise e)"

definition copier_annotations :: "string \<Rightarrow> pyval \<Rightarrow> string \<Rightarrow> (string \<times> pyval) list" where
  "copier_annotations api_group owner_source source =
     [(api_group @ ''/copier-rule'', owner_source), (api_group @ ''/secret-name'', PStr source)]"

section \<open>Creating and updating a copy\<close>

definition new_copy ::
    "pyval \<Rightarrow> pyval \<Rightarrow> pyval \<Rightarrow> pyval \<Rightarrow> string \<Rightarrow> pyval \<Rightarrow> pyval \<Rightarrow> pyval \<Rightarrow> string \<Rightarrow> pyval result" where
  "new_copy rule source target_namespace target_name api_group owner_source owner_reference reclaim_policy source_id =
     bindE (lookup rule ''targetSecret.labels'' (PDict [])) (\<lambda>labels.
     bindE (py_index source ''type'') (\<lambda>type.
     bindE (py_get_or source ''data'' (PDict [])) (\<lambda>data.
       Inr (PDict
         [(''apiVersion'', PStr ''v1''), (''kind'', PStr ''Secret''),
          (''metadata'', PDict
             ([(''name'', target_name), (''namespace'', target_namespace),
               (''annotations'', PDict (copier_annotations api_group owner_source source_id)),
               (''labels'', labels)] @
              (if py_eq reclaim_policy (PStr ''Delete'') then [(''ownerReferences'', PList [owner_reference])] else []))),
          (''type'', type), (''data'', data)]))))"

definition create_copy :: "kube_api \<Rightarrow> pyval \<Rightarrow> unit kube" where
  "create_copy api obj =
     kube_try (kube_bind (kube_write api (Create obj)) (\<lambda>_. kube_return ()))
       (\<lambda>e. case e of HTTPError code \<Rightarrow> kube_return () | _ \<Rightarrow> kube_raise e)"

text \<open>An existing secret that carries the annotations of another rule or source.\<close>

definition claimed_by_other :: "pyval \<Rightarrow> string \<Rightarrow> pyval \<Rightarrow> string \<Rightarrow> bool result" where
  "claimed_by_other annotations api_group owner_source source_id =
     bindE (py_get annotations (api_group @ ''/copier-rule'')) (\<lambda>r.
     bindE (py_get annotations (api_group @ ''/secret-name'')) (\<lambda>s.
       Inr (truthy r \<and> \<not> py_eq r owner_source \<or> truthy s \<and> \<not> py_eq s (PStr source_id))))"

text \<open>The labels a copy should have: those of the source, the rule's over them.\<close>

definition merged_labels :: "pyval \<Rightarrow> pyval \<Rightarrow> pyval result" where
  "merged_labels rule source =
     bindE (lookup rule ''targetSecret.labels'' (PDict [])) (\<lambda>labels.
     bindE (metadata_default ''labels'' source) (\<lambda>source_labels. py_update source_labels labels))"

definition copy_in_sync :: "pyval \<Rightarrow> pyval \<Rightarrow> pyval \<Rightarrow> bool result" where
  "copy_in_sync source target labels =
     bindE (metadata_default ''labels'' target) (\<lambda>target_labels.
     and_then (bindE (py_index source ''type'') (\<lambda>a. bindE (py_index target ''type'') (\<lambda>b. Inr (py_eq a b))))
    (and_then (bindE (py_get_or source ''data'' (PDict [])) (\<lambda>a.
               bindE (py_get_or target ''data'' (PDict [])) (\<lambda>b. Inr (py_eq a b))))
      (Inr (py_eq labels target_labels))))"

definition refreshed_copy :: "pyval \<Rightarrow> pyval \<Rightarrow> pyval \<Rightarrow> pyval \<Rightarrow> pyval result" where
  "refreshed_copy source target labels annotations =
     bindE (py_index source ''type'') (\<lambda>type.
     bindE (py_get_or source ''data'' (PDict [])) (\<lambda>data.
     bindE (metadata_dict target) (\<lambda>m.
     bindE (rule_items target) (\<lambda>t.
       Inr (PDict (dict_set ''metadata'' (PDict (dict_set ''labels'' labels (dict_set ''annotations'' annotations m)))
              (dict_set ''data'' data (dict_set ''type'' type t))))))))"

text \<open>What becomes of an existing secret: \<open>None\<close> when it is left alone.\<close>

definition planned_update :: "pyval \<Rightarrow> pyval \<Rightarrow> pyval \<Rightarrow> string \<Rightarrow> pyval \<Rightarrow> string \<Rightarrow> pyval option result" where
  "planned_update rule source target api_group owner_source source_id =
     bindE (metadata_default ''annotations'' target) (\<lambda>annotations.
     bindE (claimed_by_other annotations api_group owner_source source_id) (\<lambda>claimed.
       if claimed then Inr None
       else
         bindE (merged_labels rule source) (\<lambda>labels.
         bindE (copy_in_sync source target labels) (\<lambda>in_sync.
           if in_sync then Inr None
           else
             bindE (py_update annotations (PDict (copier_annotations api_group owner_source source_id))) (\<lambda>annotations'.
             bindE (refreshed_copy source target labels annotations') (\<lambda>obj. Inr (Some obj)))))))"

section \<open>Updating one secret\<close>

text \<open>From the point where the source has been read and the copy authorized.\<close>

definition write_copy ::
    "kube_api \<Rightarrow> pyval \<Rightarrow> pyval \<Rightarrow> pyval \<Rightarrow> pyval \<Rightarrow> string \<Rightarrow> pyval option \<Rightarrow> unit kube" where
  "write_copy api namespace target_name rule source source_id importer =
     kube_bind (kube_lift (lookup rule ''ownerSource'' PNone)) (\<lambda>owner_source.
     kube_bind (kube_lift (copy_owner rule importer)) (\<lambda>(owner_reference, reclaim_policy).
     kube_bind (kube_lift (owner_api_group owner_reference)) (\<lambda>api_group.
     kube_bind (read_target_secret api namespace target_name) (\<lambda>existing.
       case existing of
         None \<Rightarrow>
           kube_bind (kube_lift (new_copy rule source namespace target_name api_group owner_source
               owner_reference reclaim_policy source_id)) (create_copy api)
       | Some target \<Rightarrow>
           kube_bind (kube_lift (planned_update rule source target api_group owner_source source_id)) (\<lambda>plan.
             case plan of None \<Rightarrow> kube_return () | Some obj \<Rightarrow> kube_bind (kube_write api (Update target obj)) (\<lambda>_. kube_return ()))))))"

definition update_secret :: "kube_api \<Rightarrow> pyval \<Rightarrow> pyval \<Rightarrow> unit kube" where
  "update_secret api namespace rule =
     kube_bind (kube_lift (source_and_target rule)) (\<lambda>(source_name, source_namespace, target_name).
       if py_eq source_namespace namespace then kube_return ()
       else
         kube_bind (read_source_secret api source_namespace source_name) (\<lambda>found.
           case found of
             None \<Rightarrow> kube_return ()
           | Some source \<Rightarrow>
               kube_bind (kube_lift (secret_identity source)) (\<lambda>(real_namespace, real_name).
               kube_bind (read_importer api namespace target_name) (\<lambda>answer.
                 case answer of
                   None \<Rightarrow> kube_return ()
                 | Some importer \<Rightarrow>
                     kube_bind (kube_lift (shared_secret_matches rule importer)) (\<lambda>shared.
                       if \<not> shared then kube_return ()
                       else
                         kube_bind (kube_lift (importer_accepts importer real_namespace)) (\<lambda>accepted.
                           if \<not> accepted then kube_return ()
                           else write_copy api namespace target_name rule source
                                  (py_str real_namespace @ ''/'' @ py_str real_name) importer))))))"

definition update_secrets :: "kube_api \<Rightarrow> pyval \<Rightarrow> pyval list \<Rightarrow> unit kube" where
  "update_secrets api name rules = kube_each (update_secret api name) rules"

section \<open>Reconciliation\<close>

definition namespace_active :: "pyval \<Rightarrow> bool result" where
  "namespace_active obj = bindE (lookup obj ''status.phase'' PNone) (\<lambda>phase. Inr (py_eq phase (PStr ''Active'')))"

text \<open>The rules that apply to a namespace are listed first, then carried out.\<close>

definition reconcile_namespace :: "kube_api \<Rightarrow> pyval \<Rightarrow> pyval \<Rightarrow> pyval list \<Rightarrow> unit kube" where
  "reconcile_namespace api name obj configs =
     kube_bind (kube_lift (namespace_active obj)) (\<lambda>active.
       if \<not> active then kube_return ()
       else kube_bind (kube_lift (copier_matches_target_namespace name obj configs)) (update_secrets api name))"

definition reconcile_item :: "kube_api \<Rightarrow> pyval \<Rightarrow> pyval \<Rightarrow> unit kube" where
  "reconcile_item api config obj =
     kube_bind (kube_lift (namespace_active obj)) (\<lambda>active.
       if \<not> active then kube_return ()
       else
         kube_bind (kube_lift (item_name obj)) (\<lambda>name.
         kube_bind (kube_lift (copier_matches_target_namespace name obj [config])) (update_secrets api name)))"

definition reconcile_config :: "kube_api \<Rightarrow> pyval \<Rightarrow> unit kube" where
  "reconcile_config api config =
     kube_bind (kube_query api ''Namespace'' PNone) (kube_each (reconcile_item api config))"

definition reconcile_secret :: "kube_api \<Rightarrow> pyval \<Rightarrow> pyval \<Rightarrow> pyval list \<Rightarrow> unit kube" where
  "reconcile_secret api name namespace configs =
     kube_bind (kube_lift (copier_matches_source_secret name namespace configs))
       (kube_each (\<lambda>config.
          kube_bind (kube_lift (item_name config)) (\<lambda>_. reconcile_config api config)))"

section \<open>Handlers\<close>

text \<open>
  \<open>kopf\<close> keeps an index of the configurations, a list of values for each key; the handlers
  take the first value of each.
\<close>

type_synonym config_index = "((pyval \<times> pyval) \<times> pyval list) list"

fun first_value :: "pyval list \<Rightarrow> pyval result" where
  "first_value [] = Inl ValueError"
| "first_value (v # vs) = Inr v"

definition index_values :: "config_index \<Rightarrow> pyval list result" where
  "index_values index = mapE first_value (dict_values index)"

definition secretcopier_index :: "pyval \<Rightarrow> pyval \<Rightarrow> pyval \<Rightarrow> ((pyval \<times> pyval) \<times> pyval) result" where
  "secretcopier_index name meta body =
     bindE (py_index meta ''generation'') (\<lambda>_. Inr ((PNone, name), body))"

text \<open>The index entry of an exporter has its own name and namespace as source of each rule.\<close>

definition with_source :: "pyval \<Rightarrow> pyval \<Rightarrow> pyval \<Rightarrow> pyval result" where
  "with_source namespace name rule =
     bindE (rule_items rule) (\<lambda>d.
       Inr (PDict (dict_set ''sourceSecret'' (PDict [(''name'', name), (''namespace'', namespace)]) d)))"

definition secretexporter_index :: "pyval \<Rightarrow> pyval \<Rightarrow> pyval \<Rightarrow> pyval \<Rightarrow> ((pyval \<times> pyval) \<times> pyval) result" where
  "secretexporter_index namespace name meta body =
     bindE (py_index meta ''generation'') (\<lambda>_.
     bindE (lookup body ''spec.rules'' PNone) (\<lambda>rules.
       if rules = PNone then Inr ((namespace, name), body)
       else
         bindE (py_iter rules) (\<lambda>rs.
         if rs = [] then Inr ((namespace, name), body) else
         bindE (mapE (with_source namespace name) rs) (\<lambda>rs'.
         bindE (py_index body ''spec'') (\<lambda>spec.
         bindE (rule_items spec) (\<lambda>s.
         bindE (rule_items body) (\<lambda>b.
           Inr ((namespace, name),
             PDict (dict_set ''spec'' (PDict (dict_set ''rules'' (PList rs') s)) b)))))))))"

text \<open>The resume, create, update and timer handlers of copiers and exporters.\<close>

definition secretcopier_reconcile :: "kube_api \<Rightarrow> pyval \<Rightarrow> pyval \<Rightarrow> unit kube" where
  "secretcopier_reconcile api meta body =
     kube_bind (kube_lift (py_index meta ''generation'')) (\<lambda>_. reconcile_config api body)"

definition event_relevant :: "pyval \<Rightarrow> bool" where
  "event_relevant type \<longleftrightarrow> type = PNone \<or> type = PStr ''ADDED'' \<or> type = PStr ''MODIFIED''"

definition namespace_event :: "kube_api \<Rightarrow> pyval \<Rightarrow> pyval \<Rightarrow> config_index \<Rightarrow> config_index \<Rightarrow> unit kube" where
  "namespace_event api type event copiers exporters =
     kube_bind (kube_lift (py_index event ''object'')) (\<lambda>resource.
     kube_bind (kube_lift (item_name resource)) (\<lambda>name.
       if \<not> event_relevant type then kube_return ()
       else kube_bind (kube_lift (index_values (copiers @ exporters))) (reconcile_namespace api name resource)))"

text \<open>The importer's namespace is read anew; it must still exist.\<close>

definition importer_identity :: "pyval \<Rightarrow> pyval result" where
  "importer_identity obj =
     bindE (py_index obj ''metadata'') (\<lambda>m.
     bindE (py_index m ''namespace'') (\<lambda>namespace.
     bindE (py_index m ''name'') (\<lambda>_.
     bindE (py_index m ''generation'') (\<lambda>_. Inr namespace))))"

definition secretimporters_event :: "kube_api \<Rightarrow> pyval \<Rightarrow> pyval \<Rightarrow> config_index \<Rightarrow> config_index \<Rightarrow> unit kube" where
  "secretimporters_event api type event copiers exporters =
     kube_bind (kube_lift (py_index event ''object'')) (\<lambda>obj.
     kube_bind (kube_lift (importer_identity obj)) (\<lambda>namespace.
       if \<not> event_relevant type then kube_return ()
       else
         kube_bind (kube_try (kube_bind (kube_get api ''Namespace'' PNone namespace) (\<lambda>o'. kube_return (Some o')))
             (\<lambda>e. if e = ObjectDoesNotExist then kube_return None else kube_raise e)) (\<lambda>item.
           case item of
             None \<Rightarrow> kube_return ()
           | Some namespace_obj \<Rightarrow>
               kube_bind (kube_lift (index_values (copiers @ exporters)))
                 (reconcile_namespace api namespace namespace_obj))))"

end
