(* ===== verification/Secret_Selectors.thy ===== *)
theory Secret_Selectors
  imports Secret_Rules Selectors
begin

text \<open>
  What the rules of the secrets manager select: a contract on well-typed data for the
  checks of the theory before, shared by the copier and the injector.
\<close>

section \<open>What a rule selects\<close>

text \<open>
  The contract of the custom resources: which namespaces a rule is for, by name patterns
  (negated ones exclude; without a list, all but those whose name starts with \<open>kube-\<close>), uids,
  owners, labels and label expressions. An empty list of values imposes nothing.
\<close>

type_synonym owner = "string \<times> string \<times> string \<times> string"

fun owner_data :: "owner \<Rightarrow> pyval" where
  "owner_data (v, k, n, u) =
     PDict [(''apiVersion'', PStr v), (''kind'', PStr k), (''name'', PStr n), (''uid'', PStr u)]"

record namespace_selector =
  nsel_names :: "string list option"
  nsel_uids :: "string list"
  nsel_owners :: "owner list"
  nsel_labels :: "(string \<times> string) list"
  nsel_exprs :: "requirement list"

definition name_permitted :: "string list option \<Rightarrow> string \<Rightarrow> bool" where
  "name_permitted names n \<longleftrightarrow>
     (case names of
        None \<Rightarrow> \<not> prefix ''kube-'' n
      | Some ps \<Rightarrow>
          ((\<exists>p\<in>set ps. \<not> prefix ''!'' p \<and> fnmatch_str n p) \<or> (\<forall>p\<in>set ps. prefix ''!'' p)) \<and>
          (\<forall>p\<in>set ps. prefix ''!'' p \<longrightarrow> \<not> fnmatch_str n (drop 1 p)))"

fun expression_holds :: "(string \<rightharpoonup> string) \<Rightarrow> requirement \<Rightarrow> bool" where
  "expression_holds labels (k, p, vs) =
     (p = IN \<and> vs = [] \<or> requirement_holds labels (k, p, vs))"

definition rule_selects ::
    "namespace_selector \<Rightarrow> string \<Rightarrow> string \<Rightarrow> owner list \<Rightarrow> (string \<rightharpoonup> string) \<Rightarrow> bool" where
  "rule_selects sel n uid owners labels \<longleftrightarrow>
     name_permitted (nsel_names sel) n \<and>
     (nsel_uids sel = [] \<or> uid \<in> set (nsel_uids sel)) \<and>
     (nsel_owners sel = [] \<or> set owners \<inter> set (nsel_owners sel) \<noteq> {}) \<and>
     (\<forall>(k, v)\<in>set (nsel_labels sel). labels k = Some v) \<and>
     (\<forall>e\<in>set (nsel_exprs sel). expression_holds labels e)"

text \<open>The data a rule and a namespace hold, whatever else is in them.\<close>

definition rule_has_selector :: "pyval \<Rightarrow> namespace_selector \<Rightarrow> bool" where
  "rule_has_selector rule sel \<longleftrightarrow>
     lookup rule ''targetNamespaces.nameSelector.matchNames'' PNone =
       Inr (case nsel_names sel of None \<Rightarrow> PNone | Some ps \<Rightarrow> PList (map PStr ps)) \<and>
     lookup rule ''targetNamespaces.uidSelector.matchUIDs'' (PList []) = Inr (PList (map PStr (nsel_uids sel))) \<and>
     lookup rule ''targetNamespaces.ownerSelector.matchOwners'' (PList []) = Inr (PList (map owner_data (nsel_owners sel))) \<and>
     lookup rule ''targetNamespaces.labelSelector.matchLabels'' (PDict []) = Inr (label_data (nsel_labels sel)) \<and>
     lookup rule ''targetNamespaces.labelSelector.matchExpressions'' (PList []) =
       Inr (PList (map requirement_data (nsel_exprs sel)))"

definition namespace_has :: "pyval \<Rightarrow> string \<Rightarrow> owner list \<Rightarrow> (string \<times> string) list \<Rightarrow> bool" where
  "namespace_has obj uid owners labels \<longleftrightarrow>
     lookup obj ''metadata.uid'' (PStr []) = Inr (PStr uid) \<and>
     (\<exists>refs. lookup obj ''metadata.ownerReferences'' (PList []) = Inr (PList refs) \<and>
        list_all2 (\<lambda>r w. owner_details r = Inr (owner_data w)) refs owners) \<and>
     lookup obj ''metadata.labels'' (PDict []) = Inr (label_data labels)"

lemma is_negated_map: "filterE is_negated (map PStr ps) = Inr (map PStr (filter (prefix ''!'') ps))"
  by (induction ps) auto

lemma not_negated_map:
  "filterE (\<lambda>v. bindE (is_negated v) (\<lambda>b. Inr (\<not> b))) (map PStr ps) =
   Inr (map PStr (filter (\<lambda>p. \<not> prefix ''!'' p) ps))"
  by (induction ps) auto

lemma names_match_data:
  "names_match (PStr n) (PList (map PStr ps)) = Inr (name_permitted (Some ps) n)"
proof -
  let ?inc = "filter (\<lambda>p. \<not> prefix ''!'' p) ps" and ?exc = "filter (prefix ''!'') ps"
  have "match_exclude_names (map PStr ps) = Inr (map PStr (map (drop 1) ?exc))"
    by (simp add: match_exclude_names_def is_negated_map)
  moreover have "match_include_names (map PStr ps) = Inr (map PStr ?inc)"
    by (simp add: match_include_names_def not_negated_map)
  ultimately have "names_match (PStr n) (PList (map PStr ps)) =
      Inr ((?inc = [] \<or> (\<exists>p\<in>set ?inc. fnmatch_str n p)) \<and> \<not> (\<exists>p\<in>set (map (drop 1) ?exc). fnmatch_str n p))"
    by (simp only: names_match_def py_iter.simps bindE_simps glob_match_name_strings)
      (auto simp: filter_empty_conv)
  then show ?thesis by (auto simp: name_permitted_def filter_empty_conv)
qed

lemma names_match_default:
  "names_match (PStr n) (PList [PStr ''!kube-*'']) = Inr (name_permitted None n)"
proof -
  have "fnmatch_str n ''kube-*'' \<longleftrightarrow> prefix ''kube-'' n"
    using fnmatch_prefix [of "''kube-''" n] by (simp add: plain_def prefix_def)
  with names_match_data [of n "[''!kube-*'']"] show ?thesis
    by (simp add: name_permitted_def)
qed

lemma uids_match_data:
  "lookup obj ''metadata.uid'' (PStr []) = Inr (PStr uid) \<Longrightarrow>
   uids_match obj (PList (map PStr us)) = Inr (us = [] \<or> uid \<in> set us)"
  by (auto simp: uids_match_def list_ex_iff)

lemma owner_data_eq [simp]: "py_eq (owner_data a) (owner_data b) \<longleftrightarrow> a = b"
  by (cases a; cases b) auto

lemma owners_match_data:
  assumes "lookup obj ''metadata.ownerReferences'' (PList []) = Inr (PList refs)"
    and "list_all2 (\<lambda>r w. owner_details r = Inr (owner_data w)) refs owners"
  shows "owners_match obj (PList (map owner_data ws)) = Inr (ws = [] \<or> set owners \<inter> set ws \<noteq> {})"
proof -
  have "anyE (\<lambda>r. bindE (owner_details r) (\<lambda>d. py_in d (PList (map owner_data ws)))) refs =
      Inr (set owners \<inter> set ws \<noteq> {})"
    using assms(2) by (induction rule: list_all2_induct) (auto simp: list_ex_iff)
  with assms(1) show ?thesis by (auto simp: owners_match_def)
qed

lemma labels_match_data:
  assumes "lookup obj ''metadata.labels'' (PDict []) = Inr (label_data labels)"
  shows "labels_match obj (label_data ls) = Inr (\<forall>(k, v)\<in>set ls. dict_get labels k = Some v)"
proof -
  have "allE (\<lambda>(k, v). bindE (py_get (label_data labels) k) (\<lambda>w. Inr (py_eq w v))) (map (\<lambda>(k, v). (k, PStr v)) ls) =
      Inr (\<forall>(k, v)\<in>set ls. dict_get labels k = Some v)"
    by (induction ls) (auto simp: label_data_def split: option.splits)
  with assms show ?thesis
    by (auto simp: labels_match_def label_data_def [of ls])
qed

lemma expression_matches_data:
  "expression_matches (label_data labels) (requirement_data e) = Inr (expression_holds (dict_get labels) e)"
proof (cases e)
  case (fields k p vs)
  then show ?thesis
    by (cases p; cases "dict_get labels k")
      (auto simp: expression_matches_def label_data_def list_ex_iff)
qed

lemma expressions_match_data:
  assumes "lookup obj ''metadata.labels'' (PDict []) = Inr (label_data labels)"
  shows "expressions_match obj (PList (map requirement_data es)) =
    Inr (\<forall>e\<in>set es. expression_holds (dict_get labels) e)"
proof -
  have "allE (expression_matches (label_data labels)) (map requirement_data es) =
      Inr (\<forall>e\<in>set es. expression_holds (dict_get labels) e)"
    by (induction es) (auto simp: expression_matches_data simp del: requirement_data.simps)
  with assms show ?thesis by (auto simp: expressions_match_def)
qed

lemma and_then_Inr [simp]: "and_then (Inr a) (Inr b) = Inr (a \<and> b)"
  by (simp add: and_then_def)

lemma rule_names_data:
  "rule_has_selector rule sel \<Longrightarrow>
   bindE (lookup rule ''targetNamespaces.nameSelector.matchNames'' PNone) (\<lambda>names.
     names_match (PStr n) (if names = PNone then PList [PStr ''!kube-*''] else names)) =
   Inr (name_permitted (nsel_names sel) n)"
  by (auto simp: rule_has_selector_def names_match_data names_match_default split: option.splits)

text \<open>
  \<^bold>\<open>C14.\<close> Whether a rule of a secret copier or exporter, or of a secret injector, applies to a
  namespace is what the selectors of the custom resources promise, for any rule and
  namespace that hold well-typed data: the two copies of the matching code agree but for
  owners, which an injector does not look at.
\<close>

theorem namespace_rules_correct:
  assumes "rule_has_selector rule sel" and "namespace_has obj uid owners labels"
  shows "copier_rule_matches (PStr n) obj rule = Inr (rule_selects sel n uid owners (dict_get labels)) \<and>
    injector_rule_matches (PStr n) obj rule =
      Inr (rule_selects (sel\<lparr>nsel_owners := []\<rparr>) n uid owners (dict_get labels))"
proof -
  from assms(2) obtain refs where refs: "lookup obj ''metadata.ownerReferences'' (PList []) = Inr (PList refs)"
    "list_all2 (\<lambda>r w. owner_details r = Inr (owner_data w)) refs owners" by (auto simp: namespace_has_def)
  have owners: "owners_match obj (PList (map owner_data (nsel_owners sel))) =
      Inr (nsel_owners sel = [] \<or> set owners \<inter> set (nsel_owners sel) \<noteq> {})"
    by (rule owners_match_data [OF refs])
  show ?thesis
    unfolding copier_rule_matches_def injector_rule_matches_def rule_names_data [OF assms(1), of n]
    using assms owners
    by (simp add: rule_has_selector_def namespace_has_def uids_match_data labels_match_data
        expressions_match_data rule_selects_def)
qed

definition sample_selector :: namespace_selector where
  "sample_selector = \<lparr>nsel_names = Some [''lab-*'', ''!lab-x''], nsel_uids = [],
     nsel_owners = [(''v1'', ''TrainingPortal'', ''p'', ''pu'')], nsel_labels = [(''a'', ''1'')],
     nsel_exprs = [(''b'', EXISTS, []), (''a'', IN, [])]\<rparr>"

definition sample_targets :: pyval where
  "sample_targets = PDict [(''targetNamespaces'', PDict
     [(''nameSelector'', PDict [(''matchNames'', PList [PStr ''lab-*'', PStr ''!lab-x''])]),
      (''ownerSelector'', PDict [(''matchOwners'', PList [owner_data (''v1'', ''TrainingPortal'', ''p'', ''pu'')])]),
      (''labelSelector'', PDict [(''matchLabels'', label_data [(''a'', ''1'')]),
         (''matchExpressions'', PList (map requirement_data [(''b'', EXISTS, []), (''a'', IN, [])]))])])]"

definition sample_namespace :: pyval where
  "sample_namespace = PDict [(''metadata'', PDict [(''name'', PStr ''lab-1''), (''uid'', PStr ''nu''),
     (''ownerReferences'', PList [PDict [(''controller'', PBool True), (''uid'', PStr ''pu''),
        (''apiVersion'', PStr ''v1''), (''kind'', PStr ''TrainingPortal''), (''name'', PStr ''p'')]]),
     (''labels'', label_data [(''a'', ''1''), (''b'', ''2'')])]),
     (''status'', PDict [(''phase'', PStr ''Active'')])]"

theorem namespace_rules_correct_witness:
  "copier_rule_matches (PStr ''lab-1'') sample_namespace sample_targets = Inr True \<and>
   copier_rule_matches (PStr ''lab-x'') sample_namespace sample_targets = Inr False"
proof -
  have rule: "rule_has_selector sample_targets sample_selector"
    unfolding rule_has_selector_def by (intro conjI) code_simp+
  have refs: "lookup sample_namespace ''metadata.ownerReferences'' (PList []) =
      Inr (PList [PDict [(''controller'', PBool True), (''uid'', PStr ''pu''),
        (''apiVersion'', PStr ''v1''), (''kind'', PStr ''TrainingPortal''), (''name'', PStr ''p'')]])"
    by code_simp
  have "lookup sample_namespace ''metadata.uid'' (PStr []) = Inr (PStr ''nu'')"
    "lookup sample_namespace ''metadata.labels'' (PDict []) = Inr (label_data [(''a'', ''1''), (''b'', ''2'')])"
    by code_simp+
  with refs have ns: "namespace_has sample_namespace ''nu'' [(''v1'', ''TrainingPortal'', ''p'', ''pu'')] [(''a'', ''1''), (''b'', ''2'')]"
    by (simp add: namespace_has_def owner_details_def)
  have "fnmatch_str ''lab-1'' ''lab-*''" "\<not> fnmatch_str ''lab-1'' ''lab-x''" "fnmatch_str ''lab-x'' ''lab-x''"
    by code_simp+
  then have "rule_selects sample_selector ''lab-1'' ''nu'' [(''v1'', ''TrainingPortal'', ''p'', ''pu'')] (dict_get [(''a'', ''1''), (''b'', ''2'')])"
    "\<not> rule_selects sample_selector ''lab-x'' ''nu'' [(''v1'', ''TrainingPortal'', ''p'', ''pu'')] (dict_get [(''a'', ''1''), (''b'', ''2'')])"
    by (simp_all add: rule_selects_def sample_selector_def name_permitted_def)
  with namespace_rules_correct [OF rule ns, of "''lab-1''"] namespace_rules_correct [OF rule ns, of "''lab-x''"]
  show ?thesis by simp
qed

section \<open>The rules that are handed on\<close>

lemma bound_rules_from_iff:
  assumes "bound_rules_from n obj config i rules = Inr rs"
  shows "r \<in> set rs \<longleftrightarrow> (\<exists>j<length rules. copier_rule_matches n obj (rules ! j) = Inr True \<and>
    bound_rule config (rules ! j) (i + int j) = Inr r)"
  using assms
proof (induction rules arbitrary: i rs)
  case (Cons rule rules)
  then obtain b here rest where b: "copier_rule_matches n obj rule = Inr b"
    and here: "(if b then bindE (bound_rule config rule i) (\<lambda>r. Inr [r]) else Inr []) = Inr here"
    and rest: "bound_rules_from n obj config (i + 1) rules = Inr rest" and rs: "rs = here @ rest"
    by (auto simp: bindE_Inr_iff)
  have "r \<in> set here \<longleftrightarrow> b \<and> bound_rule config rule i = Inr r"
    using here by (cases "bound_rule config rule i") (auto split: if_splits)
  moreover have "(\<exists>j<length (rule # rules). copier_rule_matches n obj ((rule # rules) ! j) = Inr True \<and>
        bound_rule config ((rule # rules) ! j) (i + int j) = Inr r) \<longleftrightarrow>
      copier_rule_matches n obj rule = Inr True \<and> bound_rule config rule i = Inr r \<or>
      (\<exists>j<length rules. copier_rule_matches n obj (rules ! j) = Inr True \<and>
        bound_rule config (rules ! j) (i + 1 + int j) = Inr r)"
    by (auto simp: less_Suc_eq_0_disj algebra_simps)
  ultimately show ?case
    using Cons.IH [OF rest] b by (simp add: rs)
qed simp

lemma matched_rules_iff:
  assumes "copier_matches_target_namespace n obj configs = Inr rs"
  shows "r \<in> set rs \<longleftrightarrow> (\<exists>config\<in>set configs. \<exists>rules j. config_rules config = Inr rules \<and>
    j < length rules \<and> copier_rule_matches n obj (rules ! j) = Inr True \<and>
    bound_rule config (rules ! j) (1 + int j) = Inr r)"
proof -
  from assms obtain rss where rss: "mapE (\<lambda>config. bindE (config_rules config)
      (bound_rules_from n obj config 1)) configs = Inr rss" and rs: "rs = concat rss"
    by (auto simp: copier_matches_target_namespace_def bindE_Inr_iff)
  have "(\<exists>rs\<in>set rss. r \<in> set rs) \<longleftrightarrow> (\<exists>config\<in>set configs. \<exists>rules j. config_rules config = Inr rules \<and>
      j < length rules \<and> copier_rule_matches n obj (rules ! j) = Inr True \<and>
      bound_rule config (rules ! j) (1 + int j) = Inr r)"
    using rss
  proof (induction configs arbitrary: rss)
    case (Cons config configs)
    then obtain rules rs rest where "config_rules config = Inr rules"
      "bound_rules_from n obj config 1 rules = Inr rs" and rest: "mapE (\<lambda>config. bindE (config_rules config)
        (bound_rules_from n obj config 1)) configs = Inr rest" "rss = rs # rest"
      by (auto simp: bindE_Inr_iff)
    with bound_rules_from_iff [of n obj config 1 rules rs r] Cons.IH [OF rest(1)] show ?case by auto
  qed simp
  then show ?thesis by (simp add: rs)
qed

end
