(* ===== verification/Secret_Copies.thy ===== *)
theory Secret_Copies
  imports Secret_Copier Secret_Selectors
begin

text \<open>
  What the copier writes, whatever the API server answers: the calls of \<open>update_secret\<close> are
  followed with the rules of \<open>runs\<close>, and the guarantees for the handlers follow from those
  for one rule.
\<close>

section \<open>Reading\<close>

lemma kube_get_Inr:
  "kube_get api k ns n tr = (Inr x, tr') \<longleftrightarrow> ka_get api tr k ns n = Inr x \<and> tr' = Get k ns n # tr"
  by (auto simp: kube_get_def)

lemma read_source_secret_Some:
  "read_source_secret api ns n tr = (Inr (Some obj), tr') \<Longrightarrow>
   got api tr' ''Secret'' ns n obj"
  by (auto simp: read_source_secret_def kube_try_def kube_bind_def kube_get_def kube_return_def kube_raise_def
      got_now split: sum.split_asm if_split_asm)

text \<open>The importer that was found, or that there was none.\<close>

definition importer_found :: "kube_api \<Rightarrow> kube_call list \<Rightarrow> pyval \<Rightarrow> pyval \<Rightarrow> pyval option \<Rightarrow> bool" where
  "importer_found api tr ns n importer =
     (case importer of
        None \<Rightarrow> missing api tr ''SecretImporter'' ns n
      | Some imp \<Rightarrow> got api tr ''SecretImporter'' ns n imp)"

lemma read_importer_Some:
  "read_importer api ns n tr = (Inr (Some importer), tr') \<Longrightarrow>
   importer_found api tr' ns n importer \<and> tr' = Get ''SecretImporter'' ns n # tr"
  by (auto simp: read_importer_def kube_try_def kube_bind_def kube_get_def kube_return_def kube_raise_def
      importer_found_def got_now missing_now split: sum.split_asm if_split_asm)

lemma read_target_secret_Inr:
  "read_target_secret api ns n tr = (Inr existing, tr') \<Longrightarrow> tr' = Get ''Secret'' ns n # tr \<and>
   (case existing of None \<Rightarrow> missing api tr' ''Secret'' ns n | Some obj \<Rightarrow> got api tr' ''Secret'' ns n obj)"
  by (auto simp: read_target_secret_def kube_try_def kube_bind_def kube_get_def kube_return_def kube_raise_def
      got_now missing_now split: sum.split_asm if_split_asm)

lemma importer_found_later: "importer_found api tr ns n importer \<Longrightarrow> importer_found api (c # tr) ns n importer"
  by (auto simp: importer_found_def got_later missing_later split: option.splits)

section \<open>The writes of one rule\<close>

text \<open>
  What is known of a write by the time it is made: \<open>copy_permitted\<close> is what authorizes a copy,
  \<open>copy_written\<close> what is written for it.
\<close>

definition copy_permitted ::
    "kube_api \<Rightarrow> kube_call list \<Rightarrow> pyval \<Rightarrow> pyval \<Rightarrow> pyval \<Rightarrow> pyval \<Rightarrow> string \<Rightarrow> pyval option \<Rightarrow> bool" where
  "copy_permitted api tr ns rule target_name source source_id importer \<longleftrightarrow>
     (\<exists>source_name source_ns real_ns real_name.
        source_and_target rule = Inr (source_name, source_ns, target_name) \<and> \<not> py_eq source_ns ns \<and>
        got api tr ''Secret'' source_ns source_name source \<and> secret_identity source = Inr (real_ns, real_name) \<and>
        source_id = py_str real_ns @ ''/'' @ py_str real_name \<and>
        importer_found api tr ns target_name importer \<and>
        shared_secret_matches rule importer = Inr True \<and> importer_accepts importer real_ns = Inr True)"

definition copy_written ::
    "kube_api \<Rightarrow> kube_call list \<Rightarrow> pyval \<Rightarrow> pyval \<Rightarrow> pyval \<Rightarrow> pyval \<Rightarrow> string \<Rightarrow> pyval option \<Rightarrow> kube_call \<Rightarrow> bool"
  where
  "copy_written api tr ns rule target_name source source_id importer w \<longleftrightarrow>
     (\<exists>owner_source owner policy grp. lookup rule ''ownerSource'' PNone = Inr owner_source \<and>
        copy_owner rule importer = Inr (owner, policy) \<and> owner_api_group owner = Inr grp \<and>
        ((\<exists>obj. missing api tr ''Secret'' ns target_name \<and>
            new_copy rule source ns target_name grp owner_source owner policy source_id = Inr obj \<and> w = Create obj) \<or>
         (\<exists>target obj. got api tr ''Secret'' ns target_name target \<and>
            planned_update rule source target grp owner_source source_id = Inr (Some obj) \<and> w = Update target obj)))"

definition copy_write :: "kube_api \<Rightarrow> pyval \<Rightarrow> pyval \<Rightarrow> kube_call list \<Rightarrow> kube_call \<Rightarrow> bool" where
  "copy_write api ns rule tr w \<longleftrightarrow>
     (is_write w \<longrightarrow> (\<exists>target_name source source_id importer.
        copy_permitted api tr ns rule target_name source source_id importer \<and>
        copy_written api tr ns rule target_name source source_id importer w))"

lemma copy_write_read [simp]: "copy_write api ns rule tr (Get k n m)" "copy_write api ns rule tr (Query k n)"
  by (simp_all add: copy_write_def)

lemma reads_run [runs_intros]:
  "runs (copy_write api ns rule) (read_source_secret api' n m) tr"
  "runs (copy_write api ns rule) (read_importer api' n m) tr"
  "runs (copy_write api ns rule) (read_target_secret api' n m) tr"
  unfolding read_source_secret_def read_importer_def read_target_secret_def
  by (auto intro!: runs_intros)

lemma copy_permitted_later:
  "copy_permitted api tr ns rule t source sid importer \<Longrightarrow> copy_permitted api (c # tr) ns rule t source sid importer"
  unfolding copy_permitted_def
  by (elim exE conjE, intro exI conjI) (assumption | rule got_later importer_found_later)+

lemma write_copy_runs:
  assumes permitted: "copy_permitted api tr ns rule t source sid importer"
  shows "runs (copy_write api ns rule) (write_copy api ns t rule source sid importer) tr"
  unfolding write_copy_def
proof (rule runs_bind_lift, rule runs_bind_lift, clarify, rule runs_bind_lift, rule runs_bind, rule reads_run, goal_cases)
  case (1 owner_source owner policy grp existing tr2)
  from read_target_secret_Inr [OF this(4)] have tr2: "tr2 = Get ''Secret'' ns t # tr"
    and ex: "case existing of None \<Rightarrow> missing api tr2 ''Secret'' ns t | Some obj \<Rightarrow> got api tr2 ''Secret'' ns t obj"
    by simp_all
  from permitted have perm: "copy_permitted api tr2 ns rule t source sid importer"
    unfolding tr2 by (rule copy_permitted_later)
  show ?case
  proof (cases existing)
    case None
    have "copy_write api ns rule tr2 (Create obj)"
      if "new_copy rule source ns t grp owner_source owner policy sid = Inr obj" for obj
      using that perm ex [unfolded None option.case] 1(1,2,3) unfolding copy_write_def copy_written_def by blast
    with None show ?thesis
      by (auto intro!: runs_bind_lift runs_intros simp: create_copy_def split: kube_error.split)
  next
    case (Some target)
    have "copy_write api ns rule tr2 (Update target obj)"
      if "planned_update rule source target grp owner_source sid = Inr (Some obj)" for obj
      using that perm ex [unfolded Some option.case] 1(1,2,3) unfolding copy_write_def copy_written_def by blast
    with Some show ?thesis
      by (auto intro!: runs_bind_lift runs_intros split: option.split)
  qed
qed

lemma update_secret_runs: "runs (copy_write api ns rule) (update_secret api ns rule) tr"
  unfolding update_secret_def
proof (rule runs_bind_lift, clarify, goal_cases)
  case (1 source_name source_ns t)
  show ?case
  proof (cases "py_eq source_ns ns")
    case True
    then show ?thesis by (simp add: runs_return)
  next
    case False
    show ?thesis
      unfolding if_not_P [OF False]
    proof (rule runs_bind, rule reads_run, goal_cases)
      case (1 found tr1)
      show ?case
      proof (cases found)
        case None
        then show ?thesis by (simp add: runs_return)
      next
        case (Some source)
        with 1 have src: "got api tr1 ''Secret'' source_ns source_name source"
          by (simp add: read_source_secret_Some)
        show ?thesis
          unfolding Some option.case
        proof (rule runs_bind_lift, clarify, rule runs_bind, rule reads_run, goal_cases)
          case (1 real_ns real_name answer tr2)
          show ?case
          proof (cases answer)
            case None
            then show ?thesis by (simp add: runs_return)
          next
            case importer: (Some importer)
            from read_importer_Some [OF 1(2) [unfolded importer]]
            have imp: "importer_found api tr2 ns t importer" "tr2 = Get ''SecretImporter'' ns t # tr1" by auto
            have "copy_permitted api tr2 ns rule t source (py_str real_ns @ ''/'' @ py_str real_name) importer"
              if "shared_secret_matches rule importer = Inr True" "importer_accepts importer real_ns = Inr True"
              using that \<open>source_and_target rule = _\<close> False src imp 1(1)
              unfolding copy_permitted_def imp(2) by (blast intro: got_later)
            then show ?thesis
              unfolding importer option.case
              by (auto intro!: runs_bind_lift runs_return write_copy_runs)
          qed
        qed
      qed
    qed
  qed
qed


section \<open>What a copy holds\<close>

fun written :: "kube_call \<Rightarrow> pyval" where
  "written (Create obj) = obj"
| "written (Update old obj) = obj"
| "written _ = PNone"

lemma new_copy_content:
  assumes "new_copy rule source ns t grp own owner policy sid = Inr obj"
  shows "py_index obj ''type'' = py_index source ''type'' \<and>
    py_get_or obj ''data'' (PDict []) = py_get_or source ''data'' (PDict []) \<and> secret_identity obj = Inr (ns, t)"
  using assms by (auto simp: new_copy_def bindE_Inr_iff secret_identity_def)

lemma metadata_dict_Inr: "metadata_dict obj = Inr m \<longleftrightarrow> py_index obj ''metadata'' = Inr (PDict m)"
  by (cases "py_index obj ''metadata''") (auto simp: metadata_dict_def split: pyval.split)

lemma rule_items_Inr: "rule_items v = Inr d \<longleftrightarrow> v = PDict d"
  by (cases v) (auto simp: rule_items_def)

lemma refreshed_copy_content:
  assumes "refreshed_copy source target labels annotations = Inr obj"
  shows "py_index obj ''type'' = py_index source ''type'' \<and>
    py_get_or obj ''data'' (PDict []) = py_get_or source ''data'' (PDict []) \<and>
    secret_identity obj = secret_identity target \<and>
    metadata_default ''labels'' obj = Inr labels \<and> metadata_default ''annotations'' obj = Inr annotations"
proof -
  from assms obtain type data m t where parts: "py_index source ''type'' = Inr type"
    "py_get_or source ''data'' (PDict []) = Inr data" "target = PDict t" "dict_get t ''metadata'' = Some (PDict m)"
    and obj: "obj = PDict (dict_set ''metadata'' (PDict (dict_set ''labels'' labels (dict_set ''annotations'' annotations m)))
        (dict_set ''data'' data (dict_set ''type'' type t)))"
    by (auto simp: refreshed_copy_def bindE_Inr_iff metadata_dict_Inr rule_items_Inr split: option.splits)
  then show ?thesis
    by (simp add: secret_identity_def metadata_default_def metadata_dict_def)
qed

lemma planned_update_Some:
  assumes "planned_update rule source target grp own sid = Inr (Some obj)"
  obtains annotations labels annotations' where "metadata_default ''annotations'' target = Inr annotations"
    and "claimed_by_other annotations grp own sid = Inr False" and "merged_labels rule source = Inr labels"
    and "py_update annotations (PDict (copier_annotations grp own sid)) = Inr annotations'"
    and "refreshed_copy source target labels annotations' = Inr obj"
  using assms by (auto simp: planned_update_def bindE_Inr_iff split: if_split_asm)

lemma update_secret_write:
  assumes "snd (update_secret api ns rule tr) = a @ w # b" and "length tr \<le> length b" and "is_write w"
  obtains t source sid importer where "copy_permitted api b ns rule t source sid importer"
    and "copy_written api b ns rule t source sid importer w"
  using runs_call [OF update_secret_runs assms(1,2)] assms(3) unfolding copy_write_def by blast

section \<open>Properties of one rule\<close>

text \<open>
  \<^bold>\<open>C11.\<close> Whatever the API server answers, everything the copier writes for a rule in a
  namespace is a copy: the source is another namespace's secret, read just before, with the
  name and namespace of the rule, and the object written has the type and data of the source.
  It is created only under the target name in this namespace when no such secret was found,
  and otherwise replaces the secret that was found there, keeping its name and namespace.
\<close>

theorem copies_faithful:
  assumes "snd (update_secret api ns rule tr) = a @ w # b" and "length tr \<le> length b" and "is_write w"
  shows "\<exists>source_name source_ns t source.
    lookup rule ''sourceSecret.name'' PNone = Inr source_name \<and>
    lookup rule ''sourceSecret.namespace'' PNone = Inr source_ns \<and>
    lookup rule ''targetSecret.name'' source_name = Inr t \<and>
    \<not> py_eq source_ns ns \<and> got api b ''Secret'' source_ns source_name source \<and>
    py_index (written w) ''type'' = py_index source ''type'' \<and>
    py_get_or (written w) ''data'' (PDict []) = py_get_or source ''data'' (PDict []) \<and>
    (w = Create (written w) \<and> missing api b ''Secret'' ns t \<and> secret_identity (written w) = Inr (ns, t) \<or>
     (\<exists>old. w = Update old (written w) \<and> got api b ''Secret'' ns t old \<and>
        secret_identity (written w) = secret_identity old))"
  using assms
proof (rule update_secret_write)
  fix t source sid importer
  assume perm: "copy_permitted api b ns rule t source sid importer"
    and "copy_written api b ns rule t source sid importer w"
  then obtain own owner policy grp where
    "(\<exists>obj. missing api b ''Secret'' ns t \<and> new_copy rule source ns t grp own owner policy sid = Inr obj \<and> w = Create obj) \<or>
     (\<exists>target obj. got api b ''Secret'' ns t target \<and>
        planned_update rule source target grp own sid = Inr (Some obj) \<and> w = Update target obj)"
    unfolding copy_written_def by blast
  then have "py_index (written w) ''type'' = py_index source ''type'' \<and>
    py_get_or (written w) ''data'' (PDict []) = py_get_or source ''data'' (PDict []) \<and>
    (w = Create (written w) \<and> missing api b ''Secret'' ns t \<and> secret_identity (written w) = Inr (ns, t) \<or>
     (\<exists>old. w = Update old (written w) \<and> got api b ''Secret'' ns t old \<and>
        secret_identity (written w) = secret_identity old))"
    by (auto dest: new_copy_content elim!: planned_update_Some dest!: refreshed_copy_content)
  with perm show ?thesis
    unfolding copy_permitted_def source_and_target_def bindE_Inr_iff by blast
qed

text \<open>
  A copy needs the consent of the namespace it goes to: when the rule states a shared
  secret, an importer of the target's name was read in that namespace and holds this secret; and where there is an importer at all, with or
  without a shared secret, its name patterns permit the namespace the source is in.
\<close>

theorem copies_authorised:
  assumes "snd (update_secret api ns rule tr) = a @ w # b" and "length tr \<le> length b" and "is_write w"
    and "lookup rule ''copyAuthorization.sharedSecret'' PNone = Inr shared"
  shows "\<exists>source_name t importer source_ns name source.
    lookup rule ''sourceSecret.name'' PNone = Inr source_name \<and>
    lookup rule ''sourceSecret.namespace'' PNone = Inr source_ns \<and>
    lookup rule ''targetSecret.name'' source_name = Inr t \<and>
    importer_found api b ns t importer \<and>
    (shared \<noteq> PNone \<longrightarrow> (\<exists>imp v. importer = Some imp \<and> importer_secret imp = Inr v \<and> py_eq v shared)) \<and>
    got api b ''Secret'' source_ns source_name source \<and>
    (\<forall>imp spec ps real_ns. importer = Some imp \<longrightarrow> py_index imp ''spec'' = Inr spec \<longrightarrow>
       lookup spec ''sourceNamespaces.nameSelector.matchNames'' PNone = Inr (PList (map PStr ps)) \<longrightarrow>
       secret_identity source = Inr (PStr real_ns, name) \<longrightarrow> name_permitted (Some ps) real_ns)"
  using assms(1-3)
proof (rule update_secret_write)
  fix t source sid importer
  assume "copy_permitted api b ns rule t source sid importer"
  then obtain source_name source_ns real_ns name where
    perm: "source_and_target rule = Inr (source_name, source_ns, t)" "got api b ''Secret'' source_ns source_name source"
      "secret_identity source = Inr (real_ns, name)" "importer_found api b ns t importer"
    and shared: "shared_secret_matches rule importer = Inr True" and accepts: "importer_accepts importer real_ns = Inr True"
    unfolding copy_permitted_def by blast
  have "shared \<noteq> PNone \<longrightarrow> (\<exists>imp v. importer = Some imp \<and> importer_secret imp = Inr v \<and> py_eq v shared)"
    using shared assms(4) by (cases importer) (auto simp: shared_secret_matches_def bindE_Inr_iff split: if_split_asm)
  moreover have "name_permitted (Some ps) rn" if "importer = Some imp" "py_index imp ''spec'' = Inr spec"
    "lookup spec ''sourceNamespaces.nameSelector.matchNames'' PNone = Inr (PList (map PStr ps))"
    "secret_identity source = Inr (PStr rn, name)" for imp spec ps rn
    using accepts that perm(3) by (simp add: importer_accepts_def names_match_data)
  ultimately show ?thesis
    using perm unfolding source_and_target_def bindE_Inr_iff by blast
qed

text \<open>
  A secret that the copier's annotations assign to another rule's owner or to another
  source is never written: the secret that is replaced names no owner and no source, or
  the owner of this rule and the source it is copied from.
\<close>

theorem foreign_secrets_untouched:
  assumes "snd (update_secret api ns rule tr) = a @ Update old obj # b" and "length tr \<le> length b"
    and "lookup rule ''ownerSource'' PNone = Inr own"
  shows "\<exists>annotations grp source_id r s. metadata_default ''annotations'' old = Inr annotations \<and>
    py_get annotations (grp @ ''/copier-rule'') = Inr r \<and> py_get annotations (grp @ ''/secret-name'') = Inr s \<and>
    (truthy r \<longrightarrow> py_eq r own) \<and> (truthy s \<longrightarrow> s = PStr source_id) \<and>
    (\<exists>importer owner policy. copy_owner rule importer = Inr (owner, policy) \<and> owner_api_group owner = Inr grp) \<and>
    (\<exists>source_name source_ns source real_ns name. got api b ''Secret'' source_ns source_name source \<and>
       secret_identity source = Inr (real_ns, name) \<and> source_id = py_str real_ns @ ''/'' @ py_str name)"
  using assms(1,2) is_write.simps(2) [of old obj, THEN iffD2, OF TrueI]
proof (rule update_secret_write)
  fix t source sid importer
  assume "copy_permitted api b ns rule t source sid importer" and w: "copy_written api b ns rule t source sid importer (Update old obj)"
  then have src: "\<exists>source_name source_ns source real_ns name. got api b ''Secret'' source_ns source_name source \<and>
       secret_identity source = Inr (real_ns, name) \<and> sid = py_str real_ns @ ''/'' @ py_str name"
    unfolding copy_permitted_def by blast
  from w assms(3) obtain owner policy grp where grp: "copy_owner rule importer = Inr (owner, policy)"
    "owner_api_group owner = Inr grp" and "planned_update rule source old grp own sid = Inr (Some obj)"
    unfolding copy_written_def by auto
  then obtain annotations where "metadata_default ''annotations'' old = Inr annotations"
    and "claimed_by_other annotations grp own sid = Inr False" by (auto elim: planned_update_Some)
  moreover from this(2) obtain r s where "py_get annotations (grp @ ''/copier-rule'') = Inr r"
    "py_get annotations (grp @ ''/secret-name'') = Inr s" "truthy r \<longrightarrow> py_eq r own" "truthy s \<longrightarrow> s = PStr sid"
    by (auto simp: claimed_by_other_def bindE_Inr_iff simp del: py_get_or.simps)
  ultimately show ?thesis
    using grp src by blast
qed

section \<open>Whole reconciliations\<close>

text \<open>
  A write is warranted by configurations when a rule of one of them selects the namespace,
  an active one, and the write is one of this rule. \<open>seen\<close> are the namespaces as read.
\<close>

definition warranted :: "kube_api \<Rightarrow> pyval list \<Rightarrow> (kube_call list \<Rightarrow> pyval \<Rightarrow> pyval \<Rightarrow> bool) \<Rightarrow> kube_call list \<Rightarrow> kube_call \<Rightarrow> bool" where
  "warranted api configs seen b w \<longleftrightarrow>
     (is_write w \<longrightarrow> (\<exists>ns obj config rules j rule. seen b ns obj \<and> namespace_active obj = Inr True \<and>
        config \<in> set configs \<and> config_rules config = Inr rules \<and> j < length rules \<and>
        copier_rule_matches ns obj (rules ! j) = Inr True \<and>
        bound_rule config (rules ! j) (1 + int j) = Inr rule \<and> copy_write api ns rule b w))"

text \<open>A namespace and its name as the list of all namespaces had it.\<close>

definition listed_namespace :: "kube_api \<Rightarrow> kube_call list \<Rightarrow> pyval \<Rightarrow> pyval \<Rightarrow> bool" where
  "listed_namespace api b ns obj \<longleftrightarrow> listed api b ''Namespace'' PNone obj \<and> item_name obj = Inr ns"

lemma update_secrets_warranted:
  assumes "namespace_active obj = Inr True" and "copier_matches_target_namespace ns obj configs = Inr rules"
    and "\<And>b. seen (b @ tr) ns obj"
  shows "runs (warranted api configs seen) (update_secrets api ns rules) tr"
proof -
  have rules: "runs (\<lambda>b c. is_write c \<longrightarrow> (\<exists>rule\<in>set rules. copy_write api ns rule b c)) (update_secrets api ns rules) tr"
    unfolding update_secrets_def
  proof (rule runs_each)
    fix rule tr' assume "rule \<in> set rules"
    then show "runs (\<lambda>b c. is_write c \<longrightarrow> (\<exists>rule\<in>set rules. copy_write api ns rule b c)) (update_secret api ns rule) tr'"
      by (blast intro: runs_mono [OF update_secret_runs])
  qed
  show ?thesis
  proof (rule runs_mono [OF rules])
    fix b c assume "is_write c \<longrightarrow> (\<exists>rule\<in>set rules. copy_write api ns rule (b @ tr) c)"
    then show "warranted api configs seen (b @ tr) c"
      unfolding warranted_def using assms matched_rules_iff [OF assms(2)] by metis
  qed
qed

lemma reconcile_namespace_warranted:
  assumes "\<And>b. seen (b @ tr) ns obj"
  shows "runs (warranted api configs seen) (reconcile_namespace api ns obj configs) tr"
  unfolding reconcile_namespace_def
proof (rule runs_bind_lift, goal_cases)
  case (1 active)
  then show ?case
    by (cases active) (auto intro!: runs_bind_lift update_secrets_warranted assms runs_return)
qed

lemma warranted_query [simp]: "warranted api configs seen b (Query k n)" "warranted api configs seen b (Get k n m)"
  by (simp_all add: warranted_def)

lemma reconcile_item_warranted:
  assumes "listed api tr ''Namespace'' PNone obj"
  shows "runs (warranted api [config] (listed_namespace api)) (reconcile_item api config obj) tr"
  unfolding reconcile_item_def
proof (rule runs_bind_lift, goal_cases)
  case (1 active)
  show ?case
  proof (cases active)
    case True
    have "runs (warranted api [config] (listed_namespace api)) (update_secrets api ns rules) tr"
      if "item_name obj = Inr ns" "copier_matches_target_namespace ns obj [config] = Inr rules" for ns rules
      using 1 True that listed_later [OF assms]
      by (intro update_secrets_warranted) (auto simp: listed_namespace_def)
    with True show ?thesis by (auto intro!: runs_bind_lift)
  qed (simp add: runs_return)
qed

lemma reconcile_config_warranted:
  "runs (warranted api [config] (listed_namespace api)) (reconcile_config api config) tr"
  unfolding reconcile_config_def by (intro runs_query_each reconcile_item_warranted) simp

lemma warranted_mono:
  "warranted api configs seen b c \<Longrightarrow> set configs \<subseteq> set configs' \<Longrightarrow> (\<And>ns obj. seen b ns obj \<Longrightarrow> seen' b ns obj) \<Longrightarrow>
   warranted api configs' seen' b c"
  unfolding warranted_def by blast

lemma reconcile_secret_warranted:
  "runs (warranted api configs (listed_namespace api)) (reconcile_secret api name ns configs) tr"
  unfolding reconcile_secret_def
proof (rule runs_bind_lift, rule runs_each, rule runs_bind_lift, goal_cases)
  case (1 matched config tr' _)
  have "config \<in> set configs"
  proof -
    from 1 obtain css cs where css: "mapE (\<lambda>config. bindE (config_rules config) (\<lambda>rules.
        bindE (filterE (\<lambda>rule. bindE (lookup rule ''sourceSecret.name'' PNone) (\<lambda>n.
            bindE (lookup rule ''sourceSecret.namespace'' PNone) (\<lambda>m. Inr (py_eq name n \<and> py_eq ns m)))) rules) (\<lambda>matched.
          Inr (map (\<lambda>_. config) matched)))) configs = Inr css" and "cs \<in> set css" "config \<in> set cs"
      by (auto simp: copier_matches_source_secret_def bindE_Inr_iff)
    from mapE_set [OF css this(2)] this(3) show ?thesis by (auto simp: bindE_Inr_iff)
  qed
  then show ?case
    by (intro runs_mono [OF reconcile_config_warranted]) (auto elim!: warranted_mono)
qed

text \<open>
  \<^bold>\<open>C12.\<close> The handlers write nothing but copies that a rule calls for: each write they make is
  one for a rule of a configuration they were given, or have in their index, in a namespace
  that this rule selects and that was active when it was last read, from the event, the
  list of namespaces or the API server.
\<close>

theorem copier_writes_warranted:
  assumes "index_values (copiers @ exporters) = Inr configs"
  shows "runs (warranted api configs (\<lambda>b ns obj. py_index event ''object'' = Inr obj \<and> item_name obj = Inr ns))
      (namespace_event api type event copiers exporters) tr \<and>
    runs (warranted api configs (\<lambda>b ns obj. got api b ''Namespace'' PNone ns obj))
      (secretimporters_event api type event copiers exporters) tr \<and>
    runs (warranted api configs (listed_namespace api)) (reconcile_secret api name ns configs) tr \<and>
    runs (warranted api [body] (listed_namespace api)) (secretcopier_reconcile api meta body) tr"
proof (intro conjI)
  show "runs (warranted api configs (\<lambda>b ns obj. py_index event ''object'' = Inr obj \<and> item_name obj = Inr ns))
      (namespace_event api type event copiers exporters) tr"
    unfolding namespace_event_def
    by (auto intro!: runs_bind_lift runs_return reconcile_namespace_warranted simp: assms)
  show "runs (warranted api configs (\<lambda>b ns obj. got api b ''Namespace'' PNone ns obj))
      (secretimporters_event api type event copiers exporters) tr"
    unfolding secretimporters_event_def
  proof (intro runs_bind_lift, split if_split, intro conjI impI runs_return runs_bind, goal_cases)
    case (2 obj ns item tr')
    show ?case
    proof (cases item)
      case None
      then show ?thesis by (simp add: runs_return)
    next
      case (Some nobj)
      with 2 have "got api tr' ''Namespace'' PNone ns nobj"
        by (auto simp: kube_try_def kube_bind_def kube_get_def kube_return_def kube_raise_def got_now
            split: sum.split_asm if_split_asm)
      with Some show ?thesis
        by (auto intro!: runs_bind_lift reconcile_namespace_warranted got_append simp: assms)
    qed
  qed (auto intro!: runs_intros)
  show "runs (warranted api configs (listed_namespace api)) (reconcile_secret api name ns configs) tr"
    by (rule reconcile_secret_warranted)
  show "runs (warranted api [body] (listed_namespace api)) (secretcopier_reconcile api meta body) tr"
    unfolding secretcopier_reconcile_def by (auto intro!: runs_bind_lift reconcile_config_warranted)
qed

section \<open>Convergence\<close>

lemma xget_keys_wf: "xget_keys ks obj val dflt = Inr v \<Longrightarrow> wf_pyval obj \<Longrightarrow> wf_pyval val \<Longrightarrow> wf_pyval dflt \<Longrightarrow> wf_pyval v"
proof (induction ks arbitrary: obj val)
  case (Cons k ks)
  then obtain w where w: "py_get obj k = Inr w" "(if w = PNone then Inr dflt else xget_keys ks w w dflt) = Inr v"
    by (auto simp: bindE_Inr_iff)
  then obtain d where "obj = PDict d" by (cases obj) auto
  with w(1) Cons.prems(2) have "wf_pyval w"
    by (auto split: option.splits simp: list_all_iff dest!: map_of_SomeD)
  with w(2) Cons show ?case by (auto split: if_split_asm)
qed simp

lemma lookup_wf: "lookup obj k dflt = Inr v \<Longrightarrow> wf_pyval obj \<Longrightarrow> wf_pyval dflt \<Longrightarrow> wf_pyval v"
  unfolding lookup_def by (rule xget_keys_wf)

lemma py_index_wf: "py_index obj k = Inr v \<Longrightarrow> wf_pyval obj \<Longrightarrow> wf_pyval v"
  by (cases obj) (auto split: option.splits simp: list_all_iff dest!: map_of_SomeD)

lemma py_get_or_wf: "py_get_or obj k d = Inr v \<Longrightarrow> wf_pyval obj \<Longrightarrow> wf_pyval d \<Longrightarrow> wf_pyval v"
  by (cases obj) (auto split: option.splits simp: list_all_iff dest!: map_of_SomeD)

lemma metadata_default_wf: "metadata_default k obj = Inr v \<Longrightarrow> wf_pyval obj \<Longrightarrow> wf_pyval v"
  by (auto simp: metadata_default_def bindE_Inr_iff metadata_dict_Inr list_all_iff split: option.splits
      dest!: py_index_wf dest: map_of_SomeD) (metis snd_conv)

lemma fold_dict_set:
  "distinct (map fst e) \<Longrightarrow> dict_get (fold (\<lambda>(k, v). dict_set k v) e d) k = (case dict_get e k of None \<Rightarrow> dict_get d k | Some v \<Rightarrow> Some v)"
proof (induction e arbitrary: d)
  case (Cons kv e)
  obtain k' v where "kv = (k', v)" by force
  with Cons show ?case
    by (cases "k = k'") (auto simp: map_of_eq_None_iff [symmetric] split: option.splits)
qed simp

lemma fold_dict_set_wf:
  "wf_pyval (PDict d) \<Longrightarrow> list_all (\<lambda>kv. wf_pyval (snd kv)) e \<Longrightarrow>
   wf_pyval (PDict (fold (\<lambda>(k, v). dict_set k v) e d))"
proof (induction e arbitrary: d)
  case (Cons kv e)
  obtain k v where kv: "kv = (k, v)" by force
  have "wf_pyval (PDict (dict_set k v d))"
    using Cons.prems distinct_update [of d k v] set_dict_set [of d k v]
    by (auto simp: kv list_all_iff)
  with Cons show ?case by (simp add: kv)
qed simp

lemma py_update_wf: "py_update a b = Inr c \<Longrightarrow> wf_pyval a \<Longrightarrow> wf_pyval b \<Longrightarrow> wf_pyval c"
  by (cases "(a, b)" rule: py_update.cases) (auto simp: fold_dict_set_wf simp del: wf_pyval.simps(2) dest: wf_pyval.simps(2) [THEN iffD1])

text \<open>
  Updating converges: a secret that has been replaced by what the copier wrote, and is
  read as written, is left alone by the same rule as long as the source does not change.
\<close>

theorem update_idempotent:
  assumes "planned_update rule source target grp own sid = Inr (Some obj)"
    and "wf_pyval rule" and "wf_pyval source" and "wf_pyval own"
  shows "planned_update rule source obj grp own sid = Inr None"
proof -
  from assms(1) obtain annotations labels annotations' where
    labels: "merged_labels rule source = Inr labels" and ann: "metadata_default ''annotations'' target = Inr annotations"
    and upd: "py_update annotations (PDict (copier_annotations grp own sid)) = Inr annotations'"
    and obj: "refreshed_copy source target labels annotations' = Inr obj" by (rule planned_update_Some)
  from upd obtain d where "annotations' = PDict d" "dict_get d (grp @ ''/copier-rule'') = Some own"
    "dict_get d (grp @ ''/secret-name'') = Some (PStr sid)"
    by (cases annotations) (auto simp: copier_annotations_def)
  then have "claimed_by_other annotations' grp own sid = Inr False"
    by (simp add: claimed_by_other_def py_eq_refl assms(4))
  moreover from labels have "wf_pyval labels"
    using assms(2,3) by (auto simp: merged_labels_def bindE_Inr_iff dest!: py_update_wf intro: lookup_wf metadata_default_wf)
  then have "py_eq labels labels" by (rule py_eq_refl)
  moreover obtain type data where "py_index source ''type'' = Inr type" "py_get_or source ''data'' (PDict []) = Inr data"
    using obj by (auto simp: refreshed_copy_def bindE_Inr_iff)
  moreover from this have "py_eq type type" "py_eq data data"
    using assms(3) by (auto intro!: py_eq_refl dest: py_index_wf py_get_or_wf)
  ultimately show ?thesis
    using refreshed_copy_content [OF obj] labels
    by (simp add: planned_update_def copy_in_sync_def)
qed

text \<open>
  A freshly created copy is not in its final state: it is created with the labels of
  the rule only, while an existing copy is compared with the labels of source and rule
  together, so when the source has a label that the rule does not set, the next
  reconciliation replaces the copy although nothing has changed.
\<close>

theorem fresh_copy_replaced:
  assumes "new_copy rule source ns t grp own owner policy sid = Inr obj"
    and "wf_pyval own" and "wf_pyval source" and "wf_pyval (PDict rl)"
    and "lookup rule ''targetSecret.labels'' (PDict []) = Inr (PDict rl)"
    and "metadata_default ''labels'' source = Inr (PDict sl)" and "dict_get sl k = Some v" and "dict_get rl k = None"
  shows "\<exists>obj'. planned_update rule source obj grp own sid = Inr (Some obj') \<and> obj' \<noteq> obj"
proof -
  from assms(1,5) obtain type data metadata where obj: "obj = PDict [(''apiVersion'', PStr ''v1''), (''kind'', PStr ''Secret''),
      (''metadata'', PDict metadata), (''type'', type), (''data'', data)]"
    and src: "py_index source ''type'' = Inr type" "py_get_or source ''data'' (PDict []) = Inr data"
    and meta: "dict_get metadata ''annotations'' = Some (PDict (copier_annotations grp own sid))"
      "dict_get metadata ''labels'' = Some (PDict rl)"
    by (auto simp: new_copy_def bindE_Inr_iff)
  let ?l = "fold (\<lambda>(k, v). dict_set k v) rl sl"
  have "dict_get ?l k = Some v"
    using assms(4,7,8) by (simp add: fold_dict_set)
  with assms(8) have neq: "\<not> py_eq (PDict ?l) (PDict rl)" and "?l \<noteq> rl"
    using py_eq_dict_lookup [of ?l rl k v] by auto
  have "claimed_by_other (PDict (copier_annotations grp own sid)) grp own sid = Inr False"
    by (simp add: claimed_by_other_def copier_annotations_def py_eq_refl assms(2))
  then have "\<exists>obj'. planned_update rule source obj grp own sid = Inr (Some obj') \<and>
      metadata_default ''labels'' obj' = Inr (PDict ?l)"
    using src meta neq assms(5,6)
    by (simp add: planned_update_def merged_labels_def copy_in_sync_def refreshed_copy_def metadata_default_def
        metadata_dict_def obj and_then_def rule_items_def del: py_eq.simps)
  moreover have "metadata_default ''labels'' obj = Inr (PDict rl)"
    using meta by (simp add: metadata_default_def metadata_dict_def obj)
  ultimately show ?thesis using \<open>?l \<noteq> rl\<close> by force
qed

section \<open>A sample cluster\<close>

text \<open>
  A namespace \<open>lab-1\<close>, a secret \<open>ca\<close> of namespace \<open>src\<close>, a copier rule for it, and a copy that is
  missing or out of date.
\<close>

definition sample_config :: pyval where
  "sample_config = PDict [(''apiVersion'', PStr ''secrets.educates.dev/v1beta1''), (''kind'', PStr ''SecretCopier''),
     (''metadata'', PDict [(''name'', PStr ''c''), (''uid'', PStr ''cu'')]),
     (''spec'', PDict [(''rules'', PList [PDict
        [(''sourceSecret'', PDict [(''name'', PStr ''ca''), (''namespace'', PStr ''src'')]),
         (''copyAuthorization'', PDict [(''sharedSecret'', PStr ''s'')])]])])]"

definition sample_rule :: pyval where
  "sample_rule = (case copier_matches_target_namespace (PStr ''lab-1'') sample_namespace [sample_config] of
     Inr [r] \<Rightarrow> r | _ \<Rightarrow> PNone)"

definition sample_source :: pyval where
  "sample_source = PDict [(''metadata'', PDict [(''name'', PStr ''ca''), (''namespace'', PStr ''src''),
      (''labels'', PDict [(''team'', PStr ''x'')])]),
     (''type'', PStr ''Opaque''), (''data'', PDict [(''ca.crt'', PStr ''Zg'')])]"

definition sample_importer :: pyval where
  "sample_importer = PDict [(''spec'', PDict [(''copyAuthorization'', PDict [(''sharedSecret'', PStr ''s'')]),
     (''sourceNamespaces'', PDict [(''nameSelector'', PDict [(''matchNames'', PList [PStr ''src''])])])])]"

definition sample_old_copy :: pyval where
  "sample_old_copy = PDict [(''metadata'', PDict [(''name'', PStr ''ca''), (''namespace'', PStr ''lab-1'')]),
     (''type'', PStr ''Opaque''), (''data'', PDict [])]"

definition sample_api :: "pyval option \<Rightarrow> kube_api" where
  "sample_api old = \<lparr>
     ka_get = (\<lambda>tr kind ns n.
       if kind = ''SecretImporter'' then Inr sample_importer
       else if ns = PStr ''src'' then Inr sample_source
       else (case old of None \<Rightarrow> Inl ObjectDoesNotExist | Some obj \<Rightarrow> Inr obj)),
     ka_query = (\<lambda>tr kind ns. Inr [sample_namespace]),
     ka_write = (\<lambda>tr w. Inr (written w))\<rparr>"

definition sample_copy :: pyval where
  "sample_copy = (case snd (update_secret (sample_api None) (PStr ''lab-1'') sample_rule []) of
     Create obj # b \<Rightarrow> obj | _ \<Rightarrow> PNone)"

lemma sample_create:
  "\<exists>b. snd (update_secret (sample_api None) (PStr ''lab-1'') sample_rule []) = [] @ Create sample_copy # b"
proof -
  have "case snd (update_secret (sample_api None) (PStr ''lab-1'') sample_rule []) of
      Create obj # b \<Rightarrow> True | _ \<Rightarrow> False" by code_simp
  then show ?thesis by (auto simp: sample_copy_def split: list.splits kube_call.splits)
qed

theorem copies_faithful_witness:
  "\<exists>source. py_index sample_copy ''data'' = py_index source ''data'' \<and> secret_identity sample_copy = Inr (PStr ''lab-1'', PStr ''ca'')"
proof -
  obtain b where "snd (update_secret (sample_api None) (PStr ''lab-1'') sample_rule []) = [] @ Create sample_copy # b"
    using sample_create by blast
  from copies_faithful [OF this] obtain t source_name where "secret_identity sample_copy = Inr (PStr ''lab-1'', t)"
    "lookup sample_rule ''sourceSecret.name'' PNone = Inr source_name" "lookup sample_rule ''targetSecret.name'' source_name = Inr t"
    by auto
  moreover have "lookup sample_rule ''sourceSecret.name'' PNone = Inr (PStr ''ca'')"
    "lookup sample_rule ''targetSecret.name'' (PStr ''ca'') = Inr (PStr ''ca'')" by code_simp+
  ultimately show ?thesis by auto
qed

theorem copies_authorised_witness:
  "\<exists>b imp v. importer_found (sample_api None) b (PStr ''lab-1'') (PStr ''ca'') (Some imp) \<and>
     importer_secret imp = Inr v \<and> py_eq v (PStr ''s'')"
proof -
  obtain b where run: "snd (update_secret (sample_api None) (PStr ''lab-1'') sample_rule []) = [] @ Create sample_copy # b"
    using sample_create by blast
  have shared: "lookup sample_rule ''copyAuthorization.sharedSecret'' PNone = Inr (PStr ''s'')"
    and names: "lookup sample_rule ''sourceSecret.name'' PNone = Inr (PStr ''ca'')"
      "lookup sample_rule ''targetSecret.name'' (PStr ''ca'') = Inr (PStr ''ca'')" by code_simp+
  from copies_authorised [OF run _ _ shared] names show ?thesis by fastforce
qed

lemma sample_update:
  "\<exists>obj b. snd (update_secret (sample_api (Some sample_old_copy)) (PStr ''lab-1'') sample_rule []) =
     [] @ Update sample_old_copy obj # b"
proof -
  have "case snd (update_secret (sample_api (Some sample_old_copy)) (PStr ''lab-1'') sample_rule []) of
      Update old obj # b \<Rightarrow> old = sample_old_copy | _ \<Rightarrow> False" by code_simp
  then show ?thesis by (auto split: list.splits kube_call.splits)
qed

theorem foreign_secrets_untouched_witness:
  "\<exists>annotations. metadata_default ''annotations'' sample_old_copy = Inr annotations"
proof -
  obtain obj b where run: "snd (update_secret (sample_api (Some sample_old_copy)) (PStr ''lab-1'') sample_rule []) =
     [] @ Update sample_old_copy obj # b" using sample_update by blast
  have own: "lookup sample_rule ''ownerSource'' PNone = Inr (PStr ''secretcopier/c'')" by code_simp
  from foreign_secrets_untouched [OF run _ own] show ?thesis by auto
qed

theorem copier_writes_warranted_witness:
  "\<exists>b w rule. is_write w \<and> copy_write (sample_api None) (PStr ''lab-1'') rule b w"
proof -
  let ?index = "[((PNone, PStr ''c''), [sample_config])]" and ?event = "PDict [(''object'', sample_namespace)]"
  have "case snd (namespace_event (sample_api None) (PStr ''ADDED'') ?event ?index [] []) of
      w # b \<Rightarrow> is_write w | _ \<Rightarrow> False" by code_simp
  then obtain w b where w: "snd (namespace_event (sample_api None) (PStr ''ADDED'') ?event ?index [] []) = [] @ w # b" "is_write w"
    by (auto split: list.splits)
  have index: "index_values (?index @ []) = Inr [sample_config]" by (simp add: index_values_def)
  from copier_writes_warranted [OF index]
  have "runs (warranted (sample_api None) [sample_config]
      (\<lambda>b ns obj. py_index ?event ''object'' = Inr obj \<and> item_name obj = Inr ns))
      (namespace_event (sample_api None) (PStr ''ADDED'') ?event ?index []) []" by blast
  from runs_call [OF this w(1)] w(2) obtain ns rule where "item_name sample_namespace = Inr ns"
    "copy_write (sample_api None) ns rule b w" by (auto simp: warranted_def)
  moreover have "item_name sample_namespace = Inr (PStr ''lab-1'')" by code_simp
  ultimately show ?thesis using w(2) by auto
qed

theorem update_idempotent_witness:
  "\<exists>obj. planned_update sample_rule sample_source sample_old_copy ''g'' (PStr ''o'') ''src/ca'' = Inr (Some obj) \<and>
     planned_update sample_rule sample_source obj ''g'' (PStr ''o'') ''src/ca'' = Inr None"
proof -
  have "case planned_update sample_rule sample_source sample_old_copy ''g'' (PStr ''o'') ''src/ca'' of
      Inr (Some obj) \<Rightarrow> True | _ \<Rightarrow> False" by code_simp
  then obtain obj where obj: "planned_update sample_rule sample_source sample_old_copy ''g'' (PStr ''o'') ''src/ca'' = Inr (Some obj)"
    by (auto split: sum.splits option.splits)
  have "wf_pyval sample_rule" "wf_pyval sample_source" "wf_pyval (PStr ''o'')" by code_simp+
  from update_idempotent [OF obj this] obj show ?thesis by blast
qed

theorem fresh_copy_replaced_witness:
  "\<exists>obj obj'. new_copy sample_rule sample_source (PStr ''lab-1'') (PStr ''ca'') ''g'' (PStr ''o'') PNone PNone ''src/ca'' = Inr obj \<and>
     planned_update sample_rule sample_source obj ''g'' (PStr ''o'') ''src/ca'' = Inr (Some obj')"
proof -
  have "case new_copy sample_rule sample_source (PStr ''lab-1'') (PStr ''ca'') ''g'' (PStr ''o'') PNone PNone ''src/ca'' of
      Inr obj \<Rightarrow> True | _ \<Rightarrow> False" by code_simp
  then obtain obj where obj: "new_copy sample_rule sample_source (PStr ''lab-1'') (PStr ''ca'') ''g'' (PStr ''o'') PNone PNone ''src/ca'' = Inr obj"
    by (auto split: sum.splits)
  have "wf_pyval (PStr ''o'')" "wf_pyval sample_source" "wf_pyval (PDict [])"
    "lookup sample_rule ''targetSecret.labels'' (PDict []) = Inr (PDict [])"
    "metadata_default ''labels'' sample_source = Inr (PDict [(''team'', PStr ''x'')])"
    "dict_get [(''team'', PStr ''x'')] ''team'' = Some (PStr ''x'')" "dict_get [] ''team'' = None"
    by code_simp+
  from fresh_copy_replaced [OF obj this] obj show ?thesis by blast
qed

end
