(* ===== verification/Secret_Injector.thy ===== *)
theory Secret_Injector
  imports Secret_Copies
begin

text \<open>
  The injector of the secrets manager (\<open>secrets-manager/handlers/secretinjector_funcs.py\<close>) and
  the handlers that trigger it (\<open>secretinjector.py\<close>, \<open>secret.py\<close>, \<open>serviceaccount.py\<close>): names of
  secrets are added to service accounts. An item is modelled by the object as the API
  server last gave it and the object as the code has changed it since.
\<close>

section \<open>Injecting one secret\<close>

type_synonym item = "pyval \<times> pyval"

definition secrets_key :: "pyval \<Rightarrow> string" where
  "secrets_key secret_type =
     (if py_eq secret_type (PStr ''kubernetes.io/dockerconfigjson'') then ''imagePullSecrets'' else ''secrets'')"

definition secret_reference :: "pyval \<Rightarrow> pyval" where
  "secret_reference name = PDict [(''name'', name)]"

definition with_reference :: "pyval \<Rightarrow> string \<Rightarrow> pyval \<Rightarrow> pyval \<Rightarrow> pyval result" where
  "with_reference obj key secrets name =
     (case (obj, secrets) of
        (PDict d, PList xs) \<Rightarrow> Inr (PDict (dict_set key (PList (xs @ [secret_reference name])) d))
      | _ \<Rightarrow> Inl AttributeError)"

text \<open>
  The item afterwards: what the server stored, or the changed object when the server
  refused it, which is only logged.
\<close>

definition inject_secret :: "kube_api \<Rightarrow> pyval \<Rightarrow> pyval \<Rightarrow> item \<Rightarrow> item kube" where
  "inject_secret api secret_name secret_type item =
     (case item of (orig, obj) \<Rightarrow>
        kube_bind (kube_lift (py_get_or obj (secrets_key secret_type) (PList []))) (\<lambda>secrets.
        kube_bind (kube_lift (py_in (secret_reference secret_name) secrets)) (\<lambda>present.
          if present then kube_return item
          else
            kube_bind (kube_lift (with_reference obj (secrets_key secret_type) secrets secret_name)) (\<lambda>obj'.
              kube_try (kube_bind (kube_write api (Update orig obj')) (\<lambda>stored. kube_return (stored, stored)))
                (\<lambda>e. if is_KubernetesError e then kube_return (orig, obj') else kube_raise e)))))"

section \<open>Reconciliation\<close>

text \<open>All service accounts of the namespace that match the rule get the secret.\<close>

definition inject_into_account ::
    "kube_api \<Rightarrow> pyval \<Rightarrow> pyval \<Rightarrow> pyval \<Rightarrow> pyval \<Rightarrow> unit kube" where
  "inject_into_account api rule secret_name secret_obj account =
     kube_bind (kube_lift (item_name account)) (\<lambda>account_name.
     kube_bind (kube_lift (matches_service_account account_name account rule)) (\<lambda>b.
       if \<not> b then kube_return ()
       else
         kube_bind (kube_lift (py_get secret_obj ''type'')) (\<lambda>type.
         kube_bind (inject_secret api secret_name type (account, account)) (\<lambda>_. kube_return ()))))"

definition inject_into_accounts :: "kube_api \<Rightarrow> pyval \<Rightarrow> pyval \<Rightarrow> pyval \<Rightarrow> pyval \<Rightarrow> unit kube" where
  "inject_into_accounts api namespace rule secret_name secret_obj =
     kube_bind (kube_query api ''ServiceAccount'' namespace)
       (kube_each (inject_into_account api rule secret_name secret_obj))"

definition inject_if_selected :: "kube_api \<Rightarrow> pyval \<Rightarrow> pyval \<Rightarrow> pyval \<Rightarrow> pyval \<Rightarrow> unit kube" where
  "inject_if_selected api namespace secret_name secret_obj rule =
     kube_bind (kube_lift (injector_matches_source_secret secret_name secret_obj rule)) (\<lambda>b.
       if b then inject_into_accounts api namespace rule secret_name secret_obj else kube_return ())"

definition injector_reconcile_namespace :: "kube_api \<Rightarrow> pyval \<Rightarrow> pyval \<Rightarrow> unit kube" where
  "injector_reconcile_namespace api namespace rule =
     kube_bind (kube_query api ''Secret'' namespace)
       (kube_each (\<lambda>secret. kube_bind (kube_lift (item_name secret)) (\<lambda>secret_name.
          inject_if_selected api namespace secret_name secret rule)))"

definition injector_reconcile_item :: "kube_api \<Rightarrow> pyval \<Rightarrow> pyval \<Rightarrow> unit kube" where
  "injector_reconcile_item api config obj =
     kube_bind (kube_lift (namespace_active obj)) (\<lambda>active.
       if \<not> active then kube_return ()
       else
         kube_bind (kube_lift (item_name obj)) (\<lambda>name.
         kube_bind (kube_lift (injector_matches_target_namespace name obj [config]))
           (kube_each (injector_reconcile_namespace api name))))"

definition injector_reconcile_config :: "kube_api \<Rightarrow> pyval \<Rightarrow> unit kube" where
  "injector_reconcile_config api config =
     kube_bind (kube_query api ''Namespace'' PNone) (kube_each (injector_reconcile_item api config))"

text \<open>An object that may be missing.\<close>

definition get_if_exists :: "kube_api \<Rightarrow> string \<Rightarrow> pyval \<Rightarrow> pyval \<Rightarrow> pyval option kube" where
  "get_if_exists api kind namespace name =
     kube_try (kube_bind (kube_get api kind namespace name) (\<lambda>obj. kube_return (Some obj)))
       (\<lambda>e. if e = ObjectDoesNotExist then kube_return None else kube_raise e)"

definition injector_reconcile_secret ::
    "kube_api \<Rightarrow> pyval \<Rightarrow> pyval \<Rightarrow> pyval \<Rightarrow> pyval list \<Rightarrow> unit kube" where
  "injector_reconcile_secret api secret_name namespace secret_obj configs =
     kube_bind (get_if_exists api ''Namespace'' PNone namespace) (\<lambda>item.
       case item of
         None \<Rightarrow> kube_return ()
       | Some obj \<Rightarrow>
           kube_bind (kube_lift (namespace_active obj)) (\<lambda>active.
             if \<not> active then kube_return ()
             else
               kube_bind (kube_lift (injector_matches_target_namespace namespace obj configs))
                 (kube_each (inject_if_selected api namespace secret_name secret_obj))))"

text \<open>Here one item is changed again and again, over the secrets of all rules.\<close>

definition inject_listed_secret :: "kube_api \<Rightarrow> pyval \<Rightarrow> pyval \<Rightarrow> item \<Rightarrow> item kube" where
  "inject_listed_secret api rule secret item =
     kube_bind (kube_lift (item_name secret)) (\<lambda>secret_name.
     kube_bind (kube_lift (injector_matches_source_secret secret_name secret rule)) (\<lambda>b.
       if \<not> b then kube_return item
       else
         kube_bind (kube_lift (py_get secret ''type'')) (\<lambda>type.
           inject_secret api secret_name type item)))"

definition inject_all_secrets ::
    "kube_api \<Rightarrow> pyval \<Rightarrow> pyval \<Rightarrow> pyval \<Rightarrow> pyval \<Rightarrow> item \<Rightarrow> item kube" where
  "inject_all_secrets api account_name namespace account_obj rule item =
     kube_bind (kube_lift (matches_service_account account_name account_obj rule)) (\<lambda>b.
       if \<not> b then kube_return item
       else
         kube_bind (kube_query api ''Secret'' namespace) (\<lambda>secrets.
           kube_fold (inject_listed_secret api rule) secrets item))"

definition injector_reconcile_service_account ::
    "kube_api \<Rightarrow> pyval \<Rightarrow> pyval \<Rightarrow> pyval \<Rightarrow> pyval list \<Rightarrow> unit kube" where
  "injector_reconcile_service_account api account_name namespace account_obj configs =
     kube_bind (get_if_exists api ''Namespace'' PNone namespace) (\<lambda>ns_item.
       case ns_item of
         None \<Rightarrow> kube_return ()
       | Some obj \<Rightarrow>
           kube_bind (kube_lift (namespace_active obj)) (\<lambda>active.
             if \<not> active then kube_return ()
             else
               kube_bind (get_if_exists api ''ServiceAccount'' namespace account_name) (\<lambda>account_item.
                 case account_item of
                   None \<Rightarrow> kube_return ()
                 | Some account \<Rightarrow>
                     kube_bind (kube_lift (injector_matches_target_namespace namespace obj configs)) (\<lambda>rules.
                     kube_bind (kube_fold (inject_all_secrets api account_name namespace account_obj) rules
                         (account, account)) (\<lambda>_. kube_return ())))))"

section \<open>Handlers\<close>

definition secretinjector_index :: "pyval \<Rightarrow> pyval \<Rightarrow> pyval \<Rightarrow> ((pyval \<times> pyval) \<times> pyval) result" where
  "secretinjector_index name meta body =
     bindE (py_index meta ''generation'') (\<lambda>_. Inr ((PNone, name), body))"

definition secretinjector_reconcile :: "kube_api \<Rightarrow> pyval \<Rightarrow> pyval \<Rightarrow> unit kube" where
  "secretinjector_reconcile api meta body =
     kube_bind (kube_lift (py_index meta ''generation'')) (\<lambda>_. injector_reconcile_config api body)"

definition secret_event ::
    "kube_api \<Rightarrow> pyval \<Rightarrow> pyval \<Rightarrow> config_index \<Rightarrow> config_index \<Rightarrow> config_index \<Rightarrow> unit kube" where
  "secret_event api type event copiers exporters injectors =
     kube_bind (kube_lift (py_index event ''object'')) (\<lambda>obj.
     kube_bind (kube_lift (secret_identity obj)) (\<lambda>(namespace, name).
       if \<not> event_relevant type then kube_return ()
       else
         kube_bind (kube_lift (index_values (copiers @ exporters))) (\<lambda>copier_configs.
         kube_bind (kube_lift (index_values injectors)) (\<lambda>injector_configs.
         kube_bind (reconcile_secret api name namespace copier_configs) (\<lambda>_.
           injector_reconcile_secret api name namespace obj injector_configs)))))"

definition serviceaccount_event :: "kube_api \<Rightarrow> pyval \<Rightarrow> pyval \<Rightarrow> config_index \<Rightarrow> unit kube" where
  "serviceaccount_event api type event injectors =
     kube_bind (kube_lift (py_index event ''object'')) (\<lambda>obj.
     kube_bind (kube_lift (secret_identity obj)) (\<lambda>(namespace, name).
       if \<not> event_relevant type then kube_return ()
       else
         kube_bind (kube_lift (index_values injectors))
           (injector_reconcile_service_account api name namespace obj)))"

section \<open>What selectors of an injector select\<close>

text \<open>Names, labels and expressions together; what is left out imposes nothing.\<close>

definition source_selected ::
    "string list \<Rightarrow> (string \<times> string) list \<Rightarrow> requirement list \<Rightarrow> string \<Rightarrow> (string \<rightharpoonup> string) \<Rightarrow> bool" where
  "source_selected names ls es n labels \<longleftrightarrow>
     (names = [] \<or> n \<in> set names) \<and> (\<forall>(k, v)\<in>set ls. labels k = Some v) \<and> (\<forall>e\<in>set es. expression_holds labels e)"

definition rule_has_source_selector ::
    "string \<Rightarrow> pyval \<Rightarrow> string list \<Rightarrow> (string \<times> string) list \<Rightarrow> requirement list \<Rightarrow> bool" where
  "rule_has_source_selector part rule names ls es \<longleftrightarrow>
     lookup rule (part @ ''.nameSelector.matchNames'') (PList []) = Inr (PList (map PStr names)) \<and>
     lookup rule (part @ ''.labelSelector.matchLabels'') (PDict []) = Inr (label_data ls) \<and>
     lookup rule (part @ ''.labelSelector.matchExpressions'') (PList []) = Inr (PList (map requirement_data es))"

lemma listed_name_data: "listed_name (PStr n) (PList (map PStr names)) = Inr (names = [] \<or> n \<in> set names)"
  by (auto simp: listed_name_def list_ex_iff)

text \<open>
  The selectors of an injector for secrets and for service accounts select what
  satisfies all the conditions they state, of names, labels and label expressions; a name
  selector does not switch a label selector off.
\<close>

theorem injector_selectors_correct:
  assumes "lookup obj ''metadata.labels'' (PDict []) = Inr (label_data labels)"
  shows "(rule_has_source_selector ''sourceSecrets'' rule names ls es \<longrightarrow>
      injector_matches_source_secret (PStr n) obj rule = Inr (source_selected names ls es n (dict_get labels))) \<and>
    (rule_has_source_selector ''serviceAccounts'' rule names ls es \<longrightarrow>
      matches_service_account (PStr n) obj rule = Inr (source_selected names ls es n (dict_get labels)))"
  using assms
  by (auto simp: rule_has_source_selector_def injector_matches_source_secret_def matches_service_account_def
      listed_name_data labels_match_data expressions_match_data source_selected_def)

theorem injector_selectors_correct_witness:
  "injector_matches_source_secret (PStr ''pull'') sample_source
     (PDict [(''sourceSecrets'', PDict [(''nameSelector'', PDict [(''matchNames'', PList [PStr ''pull''])]),
        (''labelSelector'', PDict [(''matchLabels'', label_data [(''team'', ''y'')])])])]) = Inr False"
proof -
  let ?rule = "PDict [(''sourceSecrets'', PDict [(''nameSelector'', PDict [(''matchNames'', PList [PStr ''pull''])]),
        (''labelSelector'', PDict [(''matchLabels'', label_data [(''team'', ''y'')])])])]"
  have labels: "lookup sample_source ''metadata.labels'' (PDict []) = Inr (label_data [(''team'', ''x'')])"
    by code_simp
  have "rule_has_source_selector ''sourceSecrets'' ?rule [''pull''] [(''team'', ''y'')] []"
    unfolding rule_has_source_selector_def by (intro conjI) code_simp+
  with injector_selectors_correct [OF labels, of ?rule "[''pull'']" "[(''team'', ''y'')]" "[]" "''pull''"]
  show ?thesis by (simp add: source_selected_def)
qed

section \<open>What the injector writes\<close>

text \<open>The object with one reference more, at the end of the list for secrets of this type.\<close>

definition adds_reference :: "pyval \<Rightarrow> pyval \<Rightarrow> pyval \<Rightarrow> pyval \<Rightarrow> bool" where
  "adds_reference obj name type obj' \<longleftrightarrow>
     (\<exists>d xs. obj = PDict d \<and> py_get_or obj (secrets_key type) (PList []) = Inr (PList xs) \<and>
        py_in (secret_reference name) (PList xs) = Inr False \<and>
        obj' = PDict (dict_set (secrets_key type) (PList (xs @ [secret_reference name])) d))"

text \<open>
  A write is called for by configurations when a rule of them selects the namespace, an
  active one, the secret and the service account, and the write adds the reference.
  \<open>secret_seen\<close> and \<open>account_seen\<close> tell where the secret and the account were seen.
\<close>

definition injection ::
    "kube_api \<Rightarrow> pyval list \<Rightarrow> (kube_call list \<Rightarrow> pyval \<Rightarrow> pyval \<Rightarrow> pyval \<Rightarrow> bool) \<Rightarrow>
     (kube_call list \<Rightarrow> pyval \<Rightarrow> pyval \<Rightarrow> pyval \<Rightarrow> item \<Rightarrow> bool) \<Rightarrow> kube_call list \<Rightarrow> kube_call \<Rightarrow> bool" where
  "injection api configs secret_seen account_seen b w \<longleftrightarrow>
     (is_write w \<longrightarrow> (\<exists>ns ns_obj rules rule secret name type account account_name orig obj obj'.
        (listed_namespace api b ns ns_obj \<or> got api b ''Namespace'' PNone ns ns_obj) \<and>
        namespace_active ns_obj = Inr True \<and>
        injector_matches_target_namespace ns ns_obj configs = Inr rules \<and> rule \<in> set rules \<and>
        secret_seen b ns name secret \<and> injector_matches_source_secret name secret rule = Inr True \<and>
        py_get secret ''type'' = Inr type \<and>
        account_seen b ns account_name account (orig, obj) \<and>
        matches_service_account account_name account rule = Inr True \<and>
        w = Update orig obj' \<and> adds_reference obj name type obj'))"

lemma injection_read [simp]:
  "injection api configs ss as b (Query k n)" "injection api configs ss as b (Get k n m)"
  by (simp_all add: injection_def)

text \<open>The secrets and service accounts of a namespace as listed.\<close>

definition listed_secret :: "kube_api \<Rightarrow> kube_call list \<Rightarrow> pyval \<Rightarrow> pyval \<Rightarrow> pyval \<Rightarrow> bool" where
  "listed_secret api b ns name obj \<longleftrightarrow> listed api b ''Secret'' ns obj \<and> item_name obj = Inr name"

definition listed_account :: "kube_api \<Rightarrow> kube_call list \<Rightarrow> pyval \<Rightarrow> pyval \<Rightarrow> pyval \<Rightarrow> item \<Rightarrow> bool" where
  "listed_account api b ns name obj item \<longleftrightarrow>
     listed api b ''ServiceAccount'' ns obj \<and> item_name obj = Inr name \<and> item = (obj, obj)"

lemma inject_secret_runs:
  assumes "\<And>orig obj obj'. item = (orig, obj) \<Longrightarrow> adds_reference obj name type obj' \<Longrightarrow> P tr (Update orig obj')"
  shows "runs P (inject_secret api name type item) tr"
proof -
  obtain orig obj where item: "item = (orig, obj)" by force
  show ?thesis
    unfolding inject_secret_def item prod.case
  proof (intro runs_bind_lift, goal_cases)
    case (1 secrets present)
    have "P tr (Update orig obj')" if "\<not> present" "with_reference obj (secrets_key type) secrets name = Inr obj'" for obj'
    proof (rule assms [OF item])
      from that(2) obtain d xs where "obj = PDict d" "secrets = PList xs"
        "obj' = PDict (dict_set (secrets_key type) (PList (xs @ [secret_reference name])) d)"
        by (auto simp: with_reference_def split: pyval.splits)
      with 1 that(1) show "adds_reference obj name type obj'" by (auto simp: adds_reference_def)
    qed
    then show ?case by (auto intro!: runs_bind_lift runs_intros)
  qed
qed

text \<open>What has been established when the secrets of a rule are gone through.\<close>

definition rule_applies :: "kube_api \<Rightarrow> pyval list \<Rightarrow> pyval \<Rightarrow> pyval \<Rightarrow> kube_call list \<Rightarrow> bool" where
  "rule_applies api configs ns rule b \<longleftrightarrow>
     (\<exists>ns_obj rules. (listed_namespace api b ns ns_obj \<or> got api b ''Namespace'' PNone ns ns_obj) \<and>
        namespace_active ns_obj = Inr True \<and> injector_matches_target_namespace ns ns_obj configs = Inr rules \<and>
        rule \<in> set rules)"

lemma rule_applies_later: "rule_applies api configs ns rule b \<Longrightarrow> rule_applies api configs ns rule (c @ b)"
  unfolding rule_applies_def listed_namespace_def by (blast intro: listed_later got_append)

lemma injectionI:
  assumes "rule_applies api configs ns rule b" and "ss b ns name secret"
    and "injector_matches_source_secret name secret rule = Inr True" and "py_get secret ''type'' = Inr type"
    and "as b ns account_name account (orig, obj)" and "matches_service_account account_name account rule = Inr True"
    and "adds_reference obj name type obj'"
  shows "injection api configs ss as b (Update orig obj')"
  using assms unfolding injection_def rule_applies_def by blast

lemma inject_if_selected_runs:
  assumes rule: "rule_applies api configs ns rule tr" and seen: "\<And>c. ss (c @ tr) ns name secret"
  shows "runs (injection api configs ss (listed_account api)) (inject_if_selected api ns name secret rule) tr"
  unfolding inject_if_selected_def
proof (rule runs_bind_lift, goal_cases)
  case (1 b)
  show ?case
  proof (cases b)
    case True
    have "runs (injection api configs ss (listed_account api)) (inject_into_account api rule name secret account) b'"
      if "listed api b' ''ServiceAccount'' ns account" "\<exists>c. b' = c @ tr" for account b'
    proof -
      from that(2) obtain c where b': "b' = c @ tr" by blast
      then have "rule_applies api configs ns rule b'" "ss b' ns name secret"
        using rule_applies_later [OF rule] seen by auto
      then show ?thesis
        unfolding inject_into_account_def
        using 1 True that(1)
        by (auto intro!: runs_bind_lift runs_return runs_bind inject_secret_runs injectionI
            simp: listed_account_def)
    qed
    with True show ?thesis
      by (auto intro!: runs_query_each simp: inject_into_accounts_def)
  qed (simp add: runs_return)
qed

lemma injector_reconcile_namespace_runs:
  assumes "rule_applies api configs ns rule tr"
  shows "runs (injection api configs (listed_secret api) (listed_account api)) (injector_reconcile_namespace api ns rule) tr"
  unfolding injector_reconcile_namespace_def
proof (rule runs_query_each)
  fix secret b assume "listed api b ''Secret'' ns secret" "\<exists>c. b = c @ tr"
  then show "runs (injection api configs (listed_secret api) (listed_account api))
      (kube_bind (kube_lift (item_name secret)) (\<lambda>name. inject_if_selected api ns name secret rule)) b"
    using rule_applies_later [OF assms]
    by (auto intro!: runs_bind_lift inject_if_selected_runs simp: listed_secret_def listed_later)
qed simp

lemma injector_reconcile_config_runs:
  "runs (injection api [config] (listed_secret api) (listed_account api)) (injector_reconcile_config api config) tr"
  unfolding injector_reconcile_config_def
proof (rule runs_query_each)
  fix obj b assume obj: "listed api b ''Namespace'' PNone obj"
  show "runs (injection api [config] (listed_secret api) (listed_account api)) (injector_reconcile_item api config obj) b"
    unfolding injector_reconcile_item_def
  proof (rule runs_bind_lift, goal_cases)
    case (1 active)
    show ?case
    proof (cases active)
      case True
      have "rule_applies api [config] ns rule b" if "item_name obj = Inr ns"
        "injector_matches_target_namespace ns obj [config] = Inr rules" "rule \<in> set rules" for ns rules rule
        using that 1 True obj unfolding rule_applies_def listed_namespace_def by auto
      then have "runs (injection api [config] (listed_secret api) (listed_account api))
          (kube_each (injector_reconcile_namespace api ns) rules) b" if "item_name obj = Inr ns"
        "injector_matches_target_namespace ns obj [config] = Inr rules" for ns rules
        using that by (intro runs_each_from [where I = "\<lambda>t. \<exists>c. t = c @ b"] injector_reconcile_namespace_runs)
          (auto intro: rule_applies_later)
      with True show ?thesis by (auto intro!: runs_bind_lift)
    qed (simp add: runs_return)
  qed
qed simp

lemma get_if_exists_Some:
  "get_if_exists api kind ns name tr = (Inr (Some obj), tr') \<Longrightarrow> tr' = Get kind ns name # tr \<and> got api tr' kind ns name obj"
  by (auto simp: get_if_exists_def kube_try_def kube_bind_def kube_get_def kube_return_def kube_raise_def got_now
      split: sum.split_asm if_split_asm)

lemma get_if_exists_runs:
  assumes "P tr (Get kind ns name)" and "\<And>obj tr'. got api tr' kind ns name obj \<Longrightarrow> tr' = Get kind ns name # tr \<Longrightarrow> runs P (f obj) tr'"
  shows "runs P (kube_bind (get_if_exists api kind ns name)
    (\<lambda>x. case x of None \<Rightarrow> kube_return () | Some obj \<Rightarrow> f obj)) tr"
proof (rule runs_bind)
  show "runs P (get_if_exists api kind ns name) tr"
    using assms(1) unfolding get_if_exists_def by (auto intro!: runs_intros)
  fix x tr' assume "get_if_exists api kind ns name tr = (Inr x, tr')"
  then show "runs P (case x of None \<Rightarrow> kube_return () | Some obj \<Rightarrow> f obj) tr'"
    by (cases x) (auto intro!: runs_return assms(2) dest!: get_if_exists_Some)
qed

lemma injector_reconcile_secret_runs:
  "runs (injection api configs (\<lambda>b ns' n obj. ns' = ns \<and> n = name \<and> obj = secret) (listed_account api))
     (injector_reconcile_secret api name ns secret configs) tr"
  unfolding injector_reconcile_secret_def
proof (rule get_if_exists_runs, simp, rule runs_bind_lift, goal_cases)
  case (1 obj tr' active)
  let ?P = "injection api configs (\<lambda>b ns' n obj. ns' = ns \<and> n = name \<and> obj = secret) (listed_account api)"
  show ?case
  proof (cases active)
    case True
    have "runs ?P (kube_each (inject_if_selected api ns name secret) rules) tr'"
      if "injector_matches_target_namespace ns obj configs = Inr rules" for rules
    proof (rule runs_each_from [where I = "\<lambda>t. \<exists>c. t = c @ tr'"])
      fix rule t assume "rule \<in> set rules" and "\<exists>c. t = c @ tr'"
      with 1 True that have "rule_applies api configs ns rule t"
        unfolding rule_applies_def by (auto intro: got_append)
      then show "runs ?P (inject_if_selected api ns name secret rule) t"
        by (rule inject_if_selected_runs) simp
    qed auto
    with True show ?thesis by (auto intro!: runs_bind_lift)
  qed (simp add: runs_return)
qed

lemma inject_all_secrets_runs:
  assumes rule: "rule_applies api configs ns rule tr"
  shows "runs (injection api configs (listed_secret api) (\<lambda>b ns' n obj item. ns' = ns \<and> n = name \<and> obj = account))
     (inject_all_secrets api name ns account rule item) tr"
    (is "runs ?P _ _")
  unfolding inject_all_secrets_def
proof (rule runs_bind_lift, goal_cases)
  case (1 b)
  show ?case
  proof (cases b)
    case True
    have "runs ?P (inject_listed_secret api rule secret it) t"
      if "listed api t ''Secret'' ns secret" "\<exists>c. t = c @ tr" for secret it t
    proof -
      have "rule_applies api configs ns rule t" using rule_applies_later [OF rule] that(2) by auto
      then show ?thesis
        unfolding inject_listed_secret_def using 1 True that(1)
        by (auto intro!: runs_bind_lift runs_return inject_secret_runs injectionI simp: listed_secret_def)
    qed
    then have "runs ?P (kube_bind (kube_query api ''Secret'' ns)
        (\<lambda>secrets. kube_fold (inject_listed_secret api rule) secrets item)) tr"
      by (intro runs_query_fold) auto
    with True show ?thesis by simp
  qed (simp add: runs_return)
qed

lemma injector_reconcile_service_account_runs:
  "runs (injection api configs (listed_secret api) (\<lambda>b ns' n obj item. ns' = ns \<and> n = name \<and> obj = account))
     (injector_reconcile_service_account api name ns account configs) tr"
    (is "runs ?P _ _")
  unfolding injector_reconcile_service_account_def
proof (rule get_if_exists_runs, simp, rule runs_bind_lift, goal_cases)
  case (1 obj tr' active)
  show ?case
  proof (cases active)
    case True
    have "runs ?P (kube_fold (inject_all_secrets api name ns account) rules it) t"
      if "injector_matches_target_namespace ns obj configs = Inr rules" "\<exists>c. t = c @ tr'" for rules t it
    proof (rule runs_fold_from [where I = "\<lambda>t. \<exists>c. t = c @ tr'"])
      fix rule u t assume "rule \<in> set rules" and "\<exists>c. t = c @ tr'"
      with 1 True that(1) have "rule_applies api configs ns rule t"
        unfolding rule_applies_def by (auto intro: got_append)
      then show "runs ?P (inject_all_secrets api name ns account rule u) t" by (rule inject_all_secrets_runs)
    qed (use that in auto)
    then have "runs ?P (kube_bind (kube_lift (injector_matches_target_namespace ns obj configs)) (\<lambda>rules.
        kube_bind (kube_fold (inject_all_secrets api name ns account) rules (acc, acc)) (\<lambda>_. kube_return ())))
        (Get ''ServiceAccount'' ns name # tr')" for acc
      by (intro runs_bind_lift runs_bind runs_return) (metis append_Cons append_Nil)
    with True show ?thesis
      by (auto intro!: get_if_exists_runs)
  qed (simp add: runs_return)
qed


end
