(* ===== verification/Portal_Models.thy ===== *)
theory Portal_Models
  imports Kube_Client "HOL-Library.Option_ord"
begin

text \<open>
  The database models of the training portal (\<open>models.py\<close>): the rows of its tables, the
  queries on them, and the state changes and time computations of a workshop session. A
  portal process serves one training portal, so its table has at most one row and the
  filters on the portal select everything. Rows are values: an object in memory is a copy of
  its row and may go stale. Instants and durations are counted in microseconds, the
  resolution of \<open>datetime\<close>; a time computation takes the clock reading it makes as an
  argument. Queries without \<open>order_by\<close> return the rows in the order of the table.
\<close>

type_synonym time = int
type_synonym duration = int

definition seconds :: "int \<Rightarrow> duration" where
  "seconds n = 1000000 * n"

section \<open>Rows\<close>

datatype environment_state = ENV_STARTING | ENV_RUNNING | ENV_STOPPING | ENV_STOPPED

datatype session_state =
    SESSION_STARTING
  | SESSION_WAITING
  | SESSION_RUNNING
  | SESSION_STOPPING
  | SESSION_STOPPED

record portal_record =
  tp_name :: string
  tp_labels :: "(string \<times> pyval) list"
  tp_uid :: pyval
  tp_generation :: pyval
  tp_sessions_maximum :: int
  tp_sessions_registered :: int
  tp_sessions_anonymous :: int
  tp_default_labels :: "(string \<times> pyval) list"
  tp_default_capacity :: int
  tp_default_reserved :: "int option"
  tp_default_initial :: "int option"
  tp_default_expires :: pyval
  tp_default_overtime :: pyval
  tp_default_deadline :: pyval
  tp_default_orphaned :: pyval
  tp_default_overdue :: pyval
  tp_default_refresh :: pyval
  tp_default_registry :: pyval
  tp_default_env :: "pyval list"
  tp_update_workshop :: bool

record workshop_record =
  wk_name :: pyval
  wk_uid :: pyval
  wk_generation :: pyval
  wk_title :: pyval
  wk_description :: pyval
  wk_vendor :: pyval
  wk_authors :: pyval
  wk_difficulty :: pyval
  wk_duration :: pyval
  wk_tags :: pyval
  wk_labels :: "(string \<times> pyval) list"
  wk_logo :: pyval
  wk_url :: pyval
  wk_ingresses :: pyval
  wk_params :: pyval

text \<open>
  The foreign key to the workshop is the row itself: rows of workshops do not change once an
  environment refers to them.
\<close>

record environment_record =
  te_id :: nat
  te_workshop_name :: pyval
  te_resource_name :: pyval
  te_workshop :: "workshop_record option"
  te_name :: string
  te_uid :: pyval
  te_created_at :: time
  te_state :: environment_state
  te_position :: int
  te_capacity :: int
  te_initial :: int
  te_reserved :: int
  te_expires :: duration
  te_overtime :: duration
  te_deadline :: duration
  te_orphaned :: duration
  te_overdue :: duration
  te_refresh :: duration
  te_registry :: pyval
  te_env :: pyval
  te_labels :: "(string \<times> pyval) list"
  te_tally :: nat

record user_record =
  us_username :: string
  us_first_name :: string
  us_last_name :: string
  us_email :: string
  us_is_staff :: bool
  us_is_active :: bool
  us_groups :: "string list"
  us_date_joined :: time

record application_record =
  ap_name :: string
  ap_client_id :: string
  ap_user :: string
  ap_redirect_uris :: string
  ap_grant_type :: string
  ap_client_secret :: string

record session_record =
  ts_name :: string
  ts_id :: string
  ts_uid :: pyval
  ts_environment :: nat
  ts_application :: "string option"
  ts_state :: session_state
  ts_owner :: "string option"
  ts_created :: "time option"
  ts_started :: "time option"
  ts_expires :: "time option"
  ts_token :: "string option"
  ts_url :: "string option"
  ts_params :: "(string \<times> pyval) list"
  ts_password :: "string option"
  ts_index_url :: "string option"
  ts_analytics_url :: "string option"

record portal_db =
  db_portal :: "portal_record option"
  db_workshops :: "workshop_record list"
  db_environments :: "environment_record list"
  db_sessions :: "session_record list"
  db_applications :: "application_record list"
  db_users :: "user_record list"

text \<open>\<open>save()\<close> of an object: the row with its key is replaced, or a row is added.\<close>

definition save_row :: "('r \<Rightarrow> 'k) \<Rightarrow> 'r \<Rightarrow> 'r list \<Rightarrow> 'r list" where
  "save_row key r rows =
     (if key r \<in> set (map key rows) then map (\<lambda>x. if key x = key r then r else x) rows else rows @ [r])"

definition find_row :: "('r \<Rightarrow> 'k) \<Rightarrow> 'k \<Rightarrow> 'r list \<Rightarrow> 'r option" where
  "find_row key k rows = find (\<lambda>r. key r = k) rows"

section \<open>Queries of the portal\<close>

definition starting_environments :: "portal_db \<Rightarrow> environment_record list" where
  "starting_environments db = filter (\<lambda>e. te_state e = ENV_STARTING) (db_environments db)"

definition running_environments :: "portal_db \<Rightarrow> environment_record list" where
  "running_environments db =
     sort_key te_position (filter (\<lambda>e. te_state e = ENV_RUNNING) (db_environments db))"

definition is_active_environment :: "environment_record \<Rightarrow> bool" where
  "is_active_environment e \<longleftrightarrow> te_state e \<in> {ENV_STARTING, ENV_RUNNING}"

definition active_environments :: "portal_db \<Rightarrow> environment_record list" where
  "active_environments db = filter is_active_environment (db_environments db)"

definition stopping_environments :: "portal_db \<Rightarrow> environment_record list" where
  "stopping_environments db = filter (\<lambda>e. te_state e = ENV_STOPPING) (db_environments db)"

definition environments_in_state :: "portal_db \<Rightarrow> environment_state list \<Rightarrow> environment_record list" where
  "environments_in_state db states = filter (\<lambda>e. te_state e \<in> set states) (db_environments db)"

text \<open>
  \<open>objects.get(...)\<close>: no row is \<open>None\<close> (the caller catches \<open>DoesNotExist\<close>), several rows raise
  \<open>MultipleObjectsReturned\<close>.
\<close>

datatype portal_error =
    PyError py_error
  | IntegrityError
  | DoesNotExist
  | MultipleObjectsReturned
  | RuntimeError
  | KubeError kube_error

fun at_most_one :: "'r list \<Rightarrow> portal_error + 'r option" where
  "at_most_one [] = Inr None"
| "at_most_one [r] = Inr (Some r)"
| "at_most_one _ = Inl MultipleObjectsReturned"

definition environment_for_workshop :: "portal_db \<Rightarrow> pyval \<Rightarrow> portal_error + environment_record option" where
  "environment_for_workshop db name =
     at_most_one (filter (\<lambda>e. te_workshop_name e = name) (active_environments db))"

definition environments_for_resource :: "portal_db \<Rightarrow> pyval \<Rightarrow> environment_record list" where
  "environments_for_resource db name = filter (\<lambda>e. te_resource_name e = name) (active_environments db)"

definition workshop_environment :: "portal_db \<Rightarrow> string \<Rightarrow> portal_error + environment_record option" where
  "workshop_environment db name =
     at_most_one (filter (\<lambda>e. te_name e = name) (active_environments db))"

text \<open>The sum over no rows is \<open>None\<close>.\<close>

definition overall_capacity :: "portal_db \<Rightarrow> portal_record \<Rightarrow> int option" where
  "overall_capacity db p =
     (if tp_sessions_maximum p \<noteq> 0 then Some (tp_sessions_maximum p)
      else if running_environments db = [] then None
      else Some (sum_list (map te_capacity (running_environments db))))"

definition is_available :: "session_record \<Rightarrow> bool" where
  "is_available s \<longleftrightarrow> ts_owner s = None \<and> ts_state s \<in> {SESSION_STARTING, SESSION_WAITING}"

definition is_allocated :: "session_record \<Rightarrow> bool" where
  "is_allocated s \<longleftrightarrow> ts_owner s \<noteq> None \<and> ts_state s \<noteq> SESSION_STOPPED"

definition is_active :: "session_record \<Rightarrow> bool" where
  "is_active s \<longleftrightarrow> ts_state s \<noteq> SESSION_STOPPED"

definition is_pending :: "session_record \<Rightarrow> bool" where
  "is_pending s \<longleftrightarrow> ts_owner s \<noteq> None \<and> ts_state s \<in> {SESSION_STARTING, SESSION_WAITING}"

definition portal_available_sessions :: "portal_db \<Rightarrow> session_record list" where
  "portal_available_sessions db = filter is_available (db_sessions db)"

definition portal_allocated_sessions :: "portal_db \<Rightarrow> session_record list" where
  "portal_allocated_sessions db = filter is_allocated (db_sessions db)"

definition portal_active_sessions :: "portal_db \<Rightarrow> session_record list" where
  "portal_active_sessions db = filter is_active (db_sessions db)"

definition portal_all_sessions :: "portal_db \<Rightarrow> session_record list" where
  "portal_all_sessions db = db_sessions db"

text \<open>The count calls \<open>total_sessions\<close>, a method that the class does not have.\<close>

definition portal_all_sessions_count :: "portal_db \<Rightarrow> int result" where
  "portal_all_sessions_count db = Inl AttributeError"

definition count :: "'r list \<Rightarrow> int" where
  "count rows = int (length rows)"

definition capacity_available :: "portal_db \<Rightarrow> portal_record \<Rightarrow> bool" where
  "capacity_available db p \<longleftrightarrow>
     tp_sessions_maximum p = 0 \<or> count (portal_allocated_sessions db) < tp_sessions_maximum p"

text \<open>
  \<open>allocated_session(name)\<close> and \<open>stopped_session\<close>: the session by name in some of the states, and
  with a user only when the user owns it. An anonymous web user owns nothing.
\<close>

definition named_session :: "portal_db \<Rightarrow> session_state list \<Rightarrow> string \<Rightarrow> session_record option" where
  "named_session db states name =
     find_row ts_name name (filter (\<lambda>s. ts_state s \<in> set states) (db_sessions db))"

definition owned_by :: "string option \<Rightarrow> session_record option \<Rightarrow> session_record option" where
  "owned_by user s =
     (case s of None \<Rightarrow> None | Some s \<Rightarrow> if user \<noteq> None \<and> ts_owner s = user then Some s else None)"

definition allocated_session :: "portal_db \<Rightarrow> string \<Rightarrow> session_record option" where
  "allocated_session db name =
     named_session db [SESSION_STARTING, SESSION_WAITING, SESSION_RUNNING, SESSION_STOPPING] name"

definition allocated_session_of :: "portal_db \<Rightarrow> string \<Rightarrow> string option \<Rightarrow> session_record option" where
  "allocated_session_of db name user = owned_by user (allocated_session db name)"

definition stopped_session_of :: "portal_db \<Rightarrow> string \<Rightarrow> string option \<Rightarrow> session_record option" where
  "stopped_session_of db name user = owned_by user (named_session db [SESSION_STOPPED] name)"

definition allocated_sessions_for_user :: "portal_db \<Rightarrow> string \<Rightarrow> session_record list" where
  "allocated_sessions_for_user db user =
     filter (\<lambda>s. ts_owner s = Some user \<and> is_active s) (db_sessions db)"

definition session_permitted_for_user :: "portal_db \<Rightarrow> portal_record \<Rightarrow> user_record \<Rightarrow> bool" where
  "session_permitted_for_user db p user =
     (if us_is_staff user then True
      else
        (let sessions = count (allocated_sessions_for_user db (us_username user))
         in if ''anonymous'' \<in> set (us_groups user)
            then \<not> (tp_sessions_anonymous p \<noteq> 0 \<and> sessions \<ge> tp_sessions_anonymous p)
            else \<not> (tp_sessions_registered p \<noteq> 0 \<and> sessions \<ge> tp_sessions_registered p)))"

section \<open>Queries of an environment\<close>

definition session_set :: "portal_db \<Rightarrow> environment_record \<Rightarrow> session_record list" where
  "session_set db e = filter (\<lambda>s. ts_environment s = te_id e) (db_sessions db)"

text \<open>Sessions that can be given to a user; a session still starting does not exist in the cluster.\<close>

definition available_sessions :: "portal_db \<Rightarrow> environment_record \<Rightarrow> session_record list" where
  "available_sessions db e =
     filter (\<lambda>s. ts_owner s = None \<and> ts_state s = SESSION_WAITING) (session_set db e)"

definition available_session :: "portal_db \<Rightarrow> environment_record \<Rightarrow> session_record option" where
  "available_session db e = (case available_sessions db e of [] \<Rightarrow> None | s # _ \<Rightarrow> Some s)"

definition allocated_sessions :: "portal_db \<Rightarrow> environment_record \<Rightarrow> session_record list" where
  "allocated_sessions db e = filter is_allocated (session_set db e)"

definition active_sessions :: "portal_db \<Rightarrow> environment_record \<Rightarrow> session_record list" where
  "active_sessions db e = filter is_active (session_set db e)"

definition all_sessions :: "portal_db \<Rightarrow> environment_record \<Rightarrow> session_record list" where
  "all_sessions db e = session_set db e"

definition allocated_session_for_user :: "portal_db \<Rightarrow> environment_record \<Rightarrow> string \<Rightarrow> session_record option" where
  "allocated_session_for_user db e user =
     (case filter (\<lambda>s. ts_owner s = Some user \<and> ts_state s \<notin> {SESSION_STOPPING, SESSION_STOPPED})
             (session_set db e)
      of [] \<Rightarrow> None | s # _ \<Rightarrow> Some s)"

section \<open>State changes of environments\<close>

definition env_mark_as_running :: "environment_record \<Rightarrow> environment_record" where
  "env_mark_as_running e = e\<lparr>te_state := ENV_RUNNING\<rparr>"

definition env_mark_as_stopping :: "environment_record \<Rightarrow> environment_record" where
  "env_mark_as_stopping e = e\<lparr>te_state := ENV_STOPPING, te_capacity := 0, te_reserved := 0\<rparr>"

definition env_mark_as_stopped :: "environment_record \<Rightarrow> environment_record" where
  "env_mark_as_stopped e = e\<lparr>te_state := ENV_STOPPED, te_capacity := 0, te_reserved := 0\<rparr>"

section \<open>State changes and times of sessions\<close>

text \<open>
  \<open>mark_as_pending\<close>: a token already there is kept; with a token the session expires after the
  activation timeout (60 seconds when none is given), otherwise with the environment's duration.
\<close>

definition mark_as_pending :: "environment_record \<Rightarrow> time \<Rightarrow> string \<Rightarrow> string option \<Rightarrow> int option \<Rightarrow> session_record \<Rightarrow> session_record" where
  "mark_as_pending e now user token timeout s =
     (let kept = (case ts_token s of None \<Rightarrow> token | Some t \<Rightarrow> if t = [] then token else Some t);
          t = (case timeout of None \<Rightarrow> 60 | Some t \<Rightarrow> t);
          s = s\<lparr>ts_owner := Some user, ts_started := Some now, ts_token := kept\<rparr>
      in if token \<notin> {None, Some []} \<and> t \<noteq> 0 then s\<lparr>ts_expires := Some (now + seconds t)\<rparr>
         else if te_expires e \<noteq> 0 then s\<lparr>ts_expires := Some (now + te_expires e)\<rparr>
         else s)"

definition mark_as_waiting :: "session_record \<Rightarrow> session_record" where
  "mark_as_waiting s = s\<lparr>ts_state := SESSION_WAITING\<rparr>"

definition mark_as_running :: "environment_record \<Rightarrow> time \<Rightarrow> string option \<Rightarrow> session_record \<Rightarrow> session_record" where
  "mark_as_running e now user s =
     s\<lparr>ts_owner := (if user = None then ts_owner s else user), ts_state := SESSION_RUNNING, ts_started := Some now,
       ts_expires := (if te_expires e \<noteq> 0 then Some (now + te_expires e) else None)\<rparr>"

definition mark_as_stopping :: "time \<Rightarrow> session_record \<Rightarrow> session_record" where
  "mark_as_stopping now s = s\<lparr>ts_state := SESSION_STOPPING, ts_expires := Some now\<rparr>"

definition mark_as_stopped :: "time \<Rightarrow> session_record \<Rightarrow> session_record" where
  "mark_as_stopped now s =
     s\<lparr>ts_state := SESSION_STOPPED, ts_expires := Some now, ts_application := None\<rparr>"

text \<open>\<open>remaining_time\<close>, in microseconds; \<open>None\<close> unless the session is allocated and expires.\<close>

definition remaining_time :: "time \<Rightarrow> session_record \<Rightarrow> duration option" where
  "remaining_time now s =
     (case ts_expires s of
        None \<Rightarrow> None
      | Some t \<Rightarrow> if is_allocated s then Some (if now \<ge> t then 0 else t - now) else None)"

text \<open>\<open>time_remaining\<close>, in whole seconds.\<close>

definition time_remaining :: "time \<Rightarrow> session_record \<Rightarrow> int option" where
  "time_remaining now s =
     (case ts_expires s of None \<Rightarrow> None | Some t \<Rightarrow> Some (if t > now then (t - now) div seconds 1 else 0))"

text \<open>
  A quarter of the duration, at most a quarter of four hours, at least five minutes. Durations of
  environments are whole seconds, for which the division by four is exact.
\<close>

definition extension_threshold :: "environment_record \<Rightarrow> duration" where
  "extension_threshold e = max (seconds 300) (min (te_expires e) (seconds (4 * 3600)) div 4)"

definition extension_duration :: "environment_record \<Rightarrow> duration" where
  "extension_duration e =
     (if te_overtime e \<noteq> 0 then max (seconds 300) (te_overtime e) else extension_threshold e)"

definition is_expiring :: "environment_record \<Rightarrow> time \<Rightarrow> session_record \<Rightarrow> bool" where
  "is_expiring e now s =
     (case time_remaining now s of None \<Rightarrow> False | Some n \<Rightarrow> seconds n < extension_threshold e)"

text \<open>
  The sum with a missing start time and the comparison of a missing remaining time raise.
\<close>

definition is_extension_permitted :: "environment_record \<Rightarrow> time \<Rightarrow> session_record \<Rightarrow> bool result" where
  "is_extension_permitted e now s =
     (if ts_state s \<noteq> SESSION_RUNNING then Inr False
      else
        (case ts_expires s of
           None \<Rightarrow> Inr False
         | Some expires \<Rightarrow>
             (case ts_started s of
                None \<Rightarrow> Inl TypeError
              | Some started \<Rightarrow>
                  if expires \<ge> started + te_deadline e then Inr False
                  else
                    (case remaining_time now s of
                       None \<Rightarrow> Inl TypeError
                     | Some r \<Rightarrow> Inr (r < extension_duration e)))))"

text \<open>The session with its new expiry, or \<open>None\<close> when the extension is not permitted.\<close>

definition extend_time_remaining :: "environment_record \<Rightarrow> time \<Rightarrow> session_record \<Rightarrow> session_record option result" where
  "extend_time_remaining e now s =
     bindE (is_extension_permitted e now s)
       (\<lambda>permitted.
          if permitted then
            (case (ts_expires s, ts_started s) of
               (Some expires, Some started) \<Rightarrow>
                 (let extended = expires + extension_duration e
                  in Inr (Some (s\<lparr>ts_expires :=
                       Some (if extended > started + te_deadline e then started + te_deadline e else extended)\<rparr>)))
             | _ \<Rightarrow> Inl TypeError)
          else Inr None)"

end
