(* ===== verification/Portal_Operations.thy ===== *)
theory Portal_Operations
  imports Portal_Models Python_Text
begin

text \<open>
  How the operations of the training portal run: the state of the process (database, queue of
  background tasks, log of external effects), what it gets from outside (clock, random text,
  Kubernetes API, HTTP, Django's check of email addresses), the transactions of Django with their \<open>on_commit\<close> hooks, and the calculus
  in which invariants and postconditions of operations are proved.
\<close>

section \<open>Effects, tasks and hooks\<close>

text \<open>
  Everything an operation does outside the database, in a log with the latest first. What the
  outside answers may depend on the whole log before, so it may change in any way over time.
\<close>

datatype effect =
    ReadClock
  | RandomText nat
  | GenerateText pyval
  | KubeGet string string
  | KubeCreate pyval
  | KubeUpdate pyval
  | KubeDelete string string
  | HttpGet string
  | Analytics string string

text \<open>
  The settings of the process that the modelled code reads (\<open>TRAINING_PORTAL\<close> and \<open>PORTAL_NAME\<close>
  have the same value); the tracking identifiers may be absent.
\<close>

record portal_settings =
  st_portal_name :: string
  st_portal_uid :: pyval
  st_portal_hostname :: string
  st_ingress_protocol :: string
  st_ingress_domain :: string
  st_ingress_secret :: string
  st_ingress_class :: string
  st_frame_ancestors :: string
  st_admin_username :: string
  st_theme_name :: string
  st_session_cookie_domain :: string
  st_portal_index :: string
  st_portal_password :: string
  st_enable_registration :: string
  st_registration_type :: string
  st_google_tracking_id :: "string option"
  st_clarity_tracking_id :: "string option"
  st_amplitude_tracking_id :: "string option"

record portal_world =
  pw_settings :: portal_settings
  pw_now :: "effect list \<Rightarrow> time"
  pw_random :: "effect list \<Rightarrow> nat \<Rightarrow> string"
  pw_generate :: "effect list \<Rightarrow> pyval \<Rightarrow> pyval"
  pw_kube :: "effect list \<Rightarrow> effect \<Rightarrow> kube_error + pyval"
  pw_http :: "effect list \<Rightarrow> string \<Rightarrow> py_error + int \<times> pyval"
  pw_valid_email :: "string \<Rightarrow> bool"

text \<open>
  Background tasks carry the objects they were scheduled with. A task for a session carries, besides
  the session, the environment and the portal that were loaded with it: reporting an event about the
  session reads both, and Django keeps them on the object.
\<close>

datatype task =
    DeleteSession session_record environment_record portal_record
  | DeleteEnvironment environment_record
  | ActivateEnvironment pyval
  | ProcessEnvironment portal_record pyval int
  | DeleteEnvironments portal_record
  | RefreshEnvironments portal_record
  | TerminateReserved portal_record
  | InitiateReserved portal_record
  | PurgeExpired
  | CleanupOld
  | Reconciliation string
  | HourlyCleanup

text \<open>
  Hooks run when the transaction commits. A hook of the code refers to the objects of the operation that
  registered it; these were saved, so the rows they stand for are what the hook finds in the database.
\<close>

datatype hook =
    CreateSession string string
  | CreateSessions "(string \<times> string) list"
  | CreateRequestResources string
  | ScheduleTask task

record portal_state =
  ps_db :: portal_db
  ps_hooks :: "hook list"
  ps_tasks :: "task list"
  ps_log :: "effect list"

section \<open>Operations\<close>

type_synonym 'a op = "portal_state \<Rightarrow> (portal_error + 'a) \<times> portal_state"

definition op_return :: "'a \<Rightarrow> 'a op" where
  "op_return x s = (Inr x, s)"

definition op_raise :: "portal_error \<Rightarrow> 'a op" where
  "op_raise e s = (Inl e, s)"

definition op_bind :: "'a op \<Rightarrow> ('a \<Rightarrow> 'b op) \<Rightarrow> 'b op" where
  "op_bind m f s = (case m s of (Inl e, t) \<Rightarrow> (Inl e, t) | (Inr x, t) \<Rightarrow> f x t)"

definition op_then :: "unit op \<Rightarrow> 'b op \<Rightarrow> 'b op" where
  "op_then m k = op_bind m (\<lambda>_. k)"

definition op_query :: "(portal_db \<Rightarrow> 'a) \<Rightarrow> 'a op" where
  "op_query f s = (Inr (f (ps_db s)), s)"

definition op_lift :: "'a result \<Rightarrow> 'a op" where
  "op_lift r s = (case r of Inl e \<Rightarrow> (Inl (PyError e), s) | Inr x \<Rightarrow> (Inr x, s))"

definition op_result :: "portal_error + 'a \<Rightarrow> 'a op" where
  "op_result r s = (r, s)"

definition op_db :: "(portal_db \<Rightarrow> portal_db) \<Rightarrow> unit op" where
  "op_db f s = (Inr (), s\<lparr>ps_db := f (ps_db s)\<rparr>)"

text \<open>\<open>try: m except Exception: h\<close>; what was written before the exception stays.\<close>

definition op_try :: "'a op \<Rightarrow> (portal_error \<Rightarrow> 'a op) \<Rightarrow> 'a op" where
  "op_try m h s = (case m s of (Inl e, t) \<Rightarrow> h e t | (Inr x, t) \<Rightarrow> (Inr x, t))"

primrec op_each :: "('a \<Rightarrow> unit op) \<Rightarrow> 'a list \<Rightarrow> unit op" where
  "op_each f [] = op_return ()"
| "op_each f (x # xs) = op_then (f x) (op_each f xs)"

primrec op_fold :: "('a \<Rightarrow> 's \<Rightarrow> 's op) \<Rightarrow> 'a list \<Rightarrow> 's \<Rightarrow> 's op" where
  "op_fold f [] s = op_return s"
| "op_fold f (x # xs) s = op_bind (f x s) (op_fold f xs)"

definition log_effect :: "effect \<Rightarrow> unit op" where
  "log_effect e s = (Inr (), s\<lparr>ps_log := e # ps_log s\<rparr>)"

definition read_clock :: "portal_world \<Rightarrow> time op" where
  "read_clock w s = (Inr (pw_now w (ps_log s)), s\<lparr>ps_log := ReadClock # ps_log s\<rparr>)"

definition random_text :: "portal_world \<Rightarrow> nat \<Rightarrow> string op" where
  "random_text w n s = (Inr (pw_random w (ps_log s) n), s\<lparr>ps_log := RandomText n # ps_log s\<rparr>)"

definition generate_text :: "portal_world \<Rightarrow> pyval \<Rightarrow> pyval op" where
  "generate_text w v s = (Inr (pw_generate w (ps_log s) v), s\<lparr>ps_log := GenerateText v # ps_log s\<rparr>)"

definition http_get :: "portal_world \<Rightarrow> string \<Rightarrow> (py_error + int \<times> pyval) op" where
  "http_get w url s = (Inr (pw_http w (ps_log s) url), s\<lparr>ps_log := HttpGet url # ps_log s\<rparr>)"

text \<open>A call of the Kubernetes API, whose exceptions the caller catches or lets through.\<close>

definition kube_call_op :: "portal_world \<Rightarrow> effect \<Rightarrow> (kube_error + pyval) op" where
  "kube_call_op w e s = (Inr (pw_kube w (ps_log s) e), s\<lparr>ps_log := e # ps_log s\<rparr>)"

definition kube_do :: "portal_world \<Rightarrow> effect \<Rightarrow> pyval op" where
  "kube_do w e =
     op_bind (kube_call_op w e)
       (\<lambda>r. case r of Inl x \<Rightarrow> op_raise (KubeError x) | Inr v \<Rightarrow> op_return v)"

section \<open>Saving rows\<close>

definition save_session :: "session_record \<Rightarrow> unit op" where
  "save_session ss = op_db (\<lambda>db. db\<lparr>db_sessions := save_row ts_name ss (db_sessions db)\<rparr>)"

definition save_environment :: "environment_record \<Rightarrow> unit op" where
  "save_environment e = op_db (\<lambda>db. db\<lparr>db_environments := save_row te_id e (db_environments db)\<rparr>)"

definition save_user :: "user_record \<Rightarrow> unit op" where
  "save_user u = op_db (\<lambda>db. db\<lparr>db_users := save_row us_username u (db_users db)\<rparr>)"

text \<open>\<open>objects.create\<close> of a session inserts; a row with the same primary key is an integrity error.\<close>

definition insert_session :: "session_record \<Rightarrow> unit op" where
  "insert_session ss =
     op_bind (op_query (\<lambda>db. ts_name ss \<in> set (map ts_name (db_sessions db))))
       (\<lambda>taken. if taken then op_raise IntegrityError
                else op_db (\<lambda>db. db\<lparr>db_sessions := db_sessions db @ [ss]\<rparr>))"

text \<open>
  \<open>get_or_create\<close> of an OAuth application: the same row, or a new one, whose client identifier
  must not be taken.
\<close>

definition get_or_create_application :: "application_record \<Rightarrow> unit op" where
  "get_or_create_application a =
     op_bind (op_query db_applications)
       (\<lambda>rows. if a \<in> set rows then op_return ()
               else if ap_client_id a \<in> set (map ap_client_id rows) then op_raise IntegrityError
               else op_db (\<lambda>db. db\<lparr>db_applications := db_applications db @ [a]\<rparr>))"

text \<open>Following a foreign key.\<close>

definition session_environment :: "session_record \<Rightarrow> environment_record op" where
  "session_environment ss =
     op_bind (op_query (\<lambda>db. find_row te_id (ts_environment ss) (db_environments db)))
       (\<lambda>e. case e of None \<Rightarrow> op_raise DoesNotExist | Some e \<Rightarrow> op_return e)"

definition current_portal :: "portal_record op" where
  "current_portal =
     op_bind (op_query db_portal) (\<lambda>p. case p of None \<Rightarrow> op_raise DoesNotExist | Some p \<Rightarrow> op_return p)"

text \<open>\<open>application.delete()\<close>.\<close>

definition delete_application :: "string \<Rightarrow> unit op" where
  "delete_application cid =
     op_db (\<lambda>db. db\<lparr>db_applications := filter (\<lambda>a. ap_client_id a \<noteq> cid) (db_applications db)\<rparr>)"

definition on_commit :: "hook \<Rightarrow> unit op" where
  "on_commit h s = (Inr (), s\<lparr>ps_hooks := ps_hooks s @ [h]\<rparr>)"

text \<open>\<open>task(...).schedule()\<close>: a task is queued at once and is not undone with the transaction.\<close>

definition schedule :: "task \<Rightarrow> unit op" where
  "schedule t s = (Inr (), s\<lparr>ps_tasks := ps_tasks s @ [t]\<rparr>)"

text \<open>
  \<open>transaction.atomic\<close>, always the outermost: an exception restores the database and forgets the
  hooks; otherwise the transaction commits and the hooks run in their order, outside it. An
  exception of a hook leaves out the hooks after it and is raised to the caller, with the
  transaction committed.
\<close>

definition atomically :: "(hook \<Rightarrow> unit op) \<Rightarrow> 'a op \<Rightarrow> 'a op" where
  "atomically run_hook m s =
     (case m (s\<lparr>ps_hooks := []\<rparr>) of
        (Inl e, t) \<Rightarrow> (Inl e, t\<lparr>ps_db := ps_db s, ps_hooks := []\<rparr>)
      | (Inr x, t) \<Rightarrow> op_then (op_each run_hook (ps_hooks t)) (op_return x) (t\<lparr>ps_hooks := []\<rparr>))"

section \<open>Invariants and postconditions\<close>

text \<open>
  \<open>ensures P m Q E\<close>: from a state with \<open>P\<close>, a result \<open>x\<close> leaves a state with \<open>Q x\<close>, an exception one
  with \<open>E\<close>. \<open>keeps I m\<close>: whatever happens, \<open>I\<close> goes on to hold.
\<close>

definition ensures :: "(portal_state \<Rightarrow> bool) \<Rightarrow> 'a op \<Rightarrow> ('a \<Rightarrow> portal_state \<Rightarrow> bool) \<Rightarrow> (portal_state \<Rightarrow> bool) \<Rightarrow> bool" where
  "ensures P m Q E \<longleftrightarrow> (\<forall>s. P s \<longrightarrow> (case m s of (Inl _, t) \<Rightarrow> E t | (Inr x, t) \<Rightarrow> Q x t))"

definition keeps :: "(portal_state \<Rightarrow> bool) \<Rightarrow> 'a op \<Rightarrow> bool" where
  "keeps I m \<longleftrightarrow> ensures I m (\<lambda>_. I) I"

named_theorems ensures_intros \<open>rules for postconditions\<close>
named_theorems keeps_intros \<open>rules for invariants\<close>

lemma ensuresI:
  "(\<And>s x t. P s \<Longrightarrow> m s = (Inr x, t) \<Longrightarrow> Q x t) \<Longrightarrow> (\<And>s e t. P s \<Longrightarrow> m s = (Inl e, t) \<Longrightarrow> E t) \<Longrightarrow>
   ensures P m Q E"
  unfolding ensures_def by (auto split: prod.splits sum.splits)

lemma ensures_result: "ensures P m Q E \<Longrightarrow> P s \<Longrightarrow> m s = (Inr x, t) \<Longrightarrow> Q x t"
  unfolding ensures_def by fastforce

lemma ensures_error: "ensures P m Q E \<Longrightarrow> P s \<Longrightarrow> m s = (Inl e, t) \<Longrightarrow> E t"
  unfolding ensures_def by fastforce

lemma ensures_bind:
  assumes "ensures P m R E" and "\<And>x. ensures (R x) (f x) Q E"
  shows "ensures P (op_bind m f) Q E"
proof (rule ensuresI)
  fix s y t assume "P s" and m: "op_bind m f s = (Inr y, t)"
  then obtain x u where "m s = (Inr x, u)" and "f x u = (Inr y, t)"
    by (auto simp: op_bind_def split: prod.splits sum.splits)
  with \<open>P s\<close> assms show "Q y t" by (metis ensures_result)
next
  fix s e t assume "P s" and m: "op_bind m f s = (Inl e, t)"
  then consider "m s = (Inl e, t)" | x u where "m s = (Inr x, u)" and "f x u = (Inl e, t)"
    by (auto simp: op_bind_def split: prod.splits sum.splits)
  with \<open>P s\<close> assms show "E t" by cases (metis ensures_result ensures_error)+
qed

lemma ensures_then:
  assumes "ensures P m (\<lambda>_. R) E" and "ensures R k Q E"
  shows "ensures P (op_then m k) Q E"
  unfolding op_then_def using assms by (rule ensures_bind)

lemma ensures_weaken:
  assumes "ensures P' m Q' E'" and "\<And>s. P s \<Longrightarrow> P' s" and "\<And>x s. Q' x s \<Longrightarrow> Q x s" and "\<And>s. E' s \<Longrightarrow> E s"
  shows "ensures P m Q E"
  using assms by (intro ensuresI) (metis ensures_result, metis ensures_error)

lemma ensures_ex: "(\<And>x. ensures (P x) m Q E) \<Longrightarrow> ensures (\<lambda>s. \<exists>x. P x s) m Q E"
  by (rule ensuresI; elim exE) (metis ensures_result, metis ensures_error)

lemma ensures_conj: "(b \<Longrightarrow> ensures P m Q E) \<Longrightarrow> ensures (\<lambda>s. b \<and> P s) m Q E"
  by (rule ensuresI; elim conjE) (metis ensures_result, metis ensures_error)

lemma ensures_return: "(\<And>s. P s \<Longrightarrow> Q x s) \<Longrightarrow> ensures P (op_return x) Q E"
  by (simp add: ensures_def op_return_def)

lemma ensures_raise: "(\<And>s. P s \<Longrightarrow> E s) \<Longrightarrow> ensures P (op_raise e) Q E"
  by (simp add: ensures_def op_raise_def)

lemma ensures_query: "(\<And>s. P s \<Longrightarrow> Q (f (ps_db s)) s) \<Longrightarrow> ensures P (op_query f) Q E"
  by (simp add: ensures_def op_query_def)

lemma ensures_db: "(\<And>s. P s \<Longrightarrow> Q () (s\<lparr>ps_db := f (ps_db s)\<rparr>)) \<Longrightarrow> ensures P (op_db f) Q E"
  by (simp add: ensures_def op_db_def)

lemma keepsD: "keeps I m \<Longrightarrow> I s \<Longrightarrow> I (snd (m s))"
  unfolding keeps_def
  by (cases "m s"; cases "fst (m s)") (auto dest: ensures_result ensures_error)

lemma keepsI: "(\<And>s. I s \<Longrightarrow> I (snd (m s))) \<Longrightarrow> keeps I m"
  unfolding keeps_def by (rule ensuresI) (metis snd_conv)+

lemma keeps_bind [keeps_intros]: "keeps I m \<Longrightarrow> (\<And>x. keeps I (f x)) \<Longrightarrow> keeps I (op_bind m f)"
  unfolding keeps_def by (rule ensures_bind)

lemma keeps_then [keeps_intros]: "keeps I m \<Longrightarrow> keeps I k \<Longrightarrow> keeps I (op_then m k)"
  unfolding keeps_def by (rule ensures_then)

lemma keeps_return [keeps_intros]: "keeps I (op_return x)"
  by (rule keepsI) (simp add: op_return_def)

lemma keeps_raise [keeps_intros]: "keeps I (op_raise e)"
  by (rule keepsI) (simp add: op_raise_def)

lemma keeps_query [keeps_intros]: "keeps I (op_query f)"
  by (rule keepsI) (simp add: op_query_def)

lemma keeps_lift [keeps_intros]: "keeps I (op_lift r)"
  by (rule keepsI) (simp add: op_lift_def split: sum.splits)

lemma keeps_result [keeps_intros]: "keeps I (op_result r)"
  by (rule keepsI) (simp add: op_result_def)

lemma keeps_each [keeps_intros]: "(\<And>x. x \<in> set xs \<Longrightarrow> keeps I (f x)) \<Longrightarrow> keeps I (op_each f xs)"
  by (induction xs) (simp_all add: keeps_return keeps_then)

lemma keeps_fold [keeps_intros]: "(\<And>x u. x \<in> set xs \<Longrightarrow> keeps I (f x u)) \<Longrightarrow> keeps I (op_fold f xs u)"
  by (induction xs arbitrary: u) (simp_all add: keeps_return keeps_bind)

lemma keeps_try [keeps_intros]: "keeps I m \<Longrightarrow> (\<And>e. keeps I (h e)) \<Longrightarrow> keeps I (op_try m h)"
  by (rule keepsI) (auto simp: op_try_def split: prod.splits sum.splits dest: keepsD, (metis keepsD snd_conv)+)

lemma keeps_if [keeps_intros]: "(b \<Longrightarrow> keeps I m) \<Longrightarrow> (\<not> b \<Longrightarrow> keeps I k) \<Longrightarrow> keeps I (if b then m else k)"
  by simp

lemma keeps_option [keeps_intros]:
  "(x = None \<Longrightarrow> keeps I m) \<Longrightarrow> (\<And>y. x = Some y \<Longrightarrow> keeps I (f y)) \<Longrightarrow> keeps I (case x of None \<Rightarrow> m | Some y \<Rightarrow> f y)"
  by (cases x) simp_all

lemma keeps_sum [keeps_intros]:
  "(\<And>y. x = Inl y \<Longrightarrow> keeps I (f y)) \<Longrightarrow> (\<And>y. x = Inr y \<Longrightarrow> keeps I (g y)) \<Longrightarrow>
   keeps I (case x of Inl y \<Rightarrow> f y | Inr y \<Rightarrow> g y)"
  by (cases x) simp_all

lemma keeps_pair [keeps_intros]: "(\<And>a b. x = (a, b) \<Longrightarrow> keeps I (f a b)) \<Longrightarrow> keeps I (case x of (a, b) \<Rightarrow> f a b)"
  by (cases x) simp_all

lemma keeps_let [keeps_intros]: "(\<And>y. y = x \<Longrightarrow> keeps I (f y)) \<Longrightarrow> keeps I (let y = x in f y)"
  by simp

text \<open>Invariants that the log of effects does not matter for.\<close>

definition log_free :: "(portal_state \<Rightarrow> bool) \<Rightarrow> bool" where
  "log_free I \<longleftrightarrow> (\<forall>s l. I s \<longrightarrow> I (s\<lparr>ps_log := l\<rparr>))"

lemma keeps_log [keeps_intros]:
  assumes "log_free I"
  shows "keeps I (log_effect e)" "keeps I (read_clock w)" "keeps I (random_text w n)"
    "keeps I (generate_text w v)" "keeps I (http_get w url)" "keeps I (kube_call_op w e)" "keeps I (kube_do w e)"
proof -
  show call: "keeps I (kube_call_op w e)"
    using assms by (intro keepsI) (simp add: kube_call_op_def log_free_def)
  then show "keeps I (kube_do w e)" unfolding kube_do_def by (intro keeps_intros)
qed (use assms in \<open>(intro keepsI, simp add: log_free_def log_effect_def read_clock_def random_text_def
       generate_text_def http_get_def)+\<close>)

lemma keeps_db: "(\<And>s. I s \<Longrightarrow> I (s\<lparr>ps_db := f (ps_db s)\<rparr>)) \<Longrightarrow> keeps I (op_db f)"
  by (rule keepsI) (simp add: op_db_def)

lemma keeps_bind_query:
  assumes "\<And>db. keeps I (g (f db))"
  shows "keeps I (op_bind (op_query f) g)"
proof (rule keepsI)
  fix s assume "I s"
  with assms [of "ps_db s"] have "I (snd (g (f (ps_db s)) s))" by (rule keepsD)
  then show "I (snd (op_bind (op_query f) g s))" by (simp add: op_bind_def op_query_def)
qed

text \<open>A transaction keeps an invariant when its body and its hooks do.\<close>

lemma keeps_atomically:
  assumes "keeps I m" and "\<And>h. keeps I (run_hook h)"
    and "\<And>s hs. I s \<Longrightarrow> I (s\<lparr>ps_hooks := hs\<rparr>)" and "\<And>s t. I s \<Longrightarrow> I t \<Longrightarrow> I (t\<lparr>ps_db := ps_db s\<rparr>)"
  shows "keeps I (atomically run_hook m)"
proof (rule keepsI)
  fix s assume I: "I s"
  obtain r t where m: "m (s\<lparr>ps_hooks := []\<rparr>) = (r, t)" by force
  have t: "I t" using keepsD [OF assms(1), of "s\<lparr>ps_hooks := []\<rparr>"] m I assms(3) by simp
  show "I (snd (atomically run_hook m s))"
  proof (cases r)
    case (Inl e)
    with m t I assms(3,4) show ?thesis by (simp add: atomically_def)
  next
    case (Inr x)
    have "keeps I (op_then (op_each run_hook (ps_hooks t)) (op_return x))"
      by (intro keeps_then keeps_each keeps_return assms(2))
    from keepsD [OF this, of "t\<lparr>ps_hooks := []\<rparr>"] m Inr t assms(3) show ?thesis
      by (simp add: atomically_def)
  qed
qed

end
