(* ===== verification/Portal_Sessions.thy ===== *)
theory Portal_Sessions
  imports Portal_Operations
begin

text \<open>
  Creation and allocation of workshop sessions (\<open>manager/sessions.py\<close>): request parameters,
  the Kubernetes resources of a session, the naming of sessions, the pool of reserved sessions, and
  how a user gets a session.
\<close>

section \<open>Request parameters\<close>

text \<open>\<open>item.get("name", "")\<close>; names of parameters are strings by the schema of the resource.\<close>

definition param_name :: "pyval \<Rightarrow> string option result" where
  "param_name item =
     bindE (py_get_or item ''name'' (PStr []))
       (\<lambda>n. if truthy n then (case n of PStr k \<Rightarrow> Inr (Some k) | _ \<Rightarrow> Inl TypeError) else Inr None)"

definition default_value :: "portal_world \<Rightarrow> pyval \<Rightarrow> pyval op" where
  "default_value w param =
     op_bind (op_lift (py_in (PStr ''value'') param))
       (\<lambda>has_value.
          if has_value then op_lift (py_index param ''value'')
          else
            op_bind (op_lift (bindE (py_get param ''generate'') (\<lambda>g. Inr (g = PStr ''expression''))))
              (\<lambda>generated.
                 if generated then op_bind (op_lift (py_get_or param ''from'' (PStr []))) (generate_text w)
                 else op_return (PStr [])))"

definition add_default_param :: "portal_world \<Rightarrow> pyval \<Rightarrow> (string \<times> pyval) list \<Rightarrow> (string \<times> pyval) list op" where
  "add_default_param w item params =
     op_bind (op_lift (param_name item))
       (\<lambda>name. case name of
                 None \<Rightarrow> op_return params
               | Some k \<Rightarrow> op_bind (default_value w item) (\<lambda>v. op_return (dict_set k v params)))"

definition apply_param :: "pyval \<Rightarrow> (string \<times> pyval) list \<Rightarrow> (string \<times> pyval) list result" where
  "apply_param item params =
     bindE (param_name item)
       (\<lambda>name. bindE (py_get_or item ''value'' (PStr []))
          (\<lambda>v. Inr (case name of
                       None \<Rightarrow> params
                     | Some k \<Rightarrow> if dict_get params k \<noteq> None then dict_set k v params else params)))"

definition resolve_request_params :: "portal_world \<Rightarrow> workshop_record option \<Rightarrow> pyval list \<Rightarrow> (string \<times> pyval) list op" where
  "resolve_request_params w workshop params =
     (case workshop of
        None \<Rightarrow> op_raise (PyError AttributeError)
      | Some wk \<Rightarrow>
          op_bind (op_lift (py_iter (wk_params wk)))
            (\<lambda>items. op_bind (op_fold (add_default_param w) items [])
               (\<lambda>defaults. op_lift (foldE apply_param params defaults))))"

section \<open>Events and status reports\<close>

text \<open>
  \<open>report_analytics_event\<close>: the message about a session names its workshop, which an environment that
  never ran does not have; delivering the message is left to a background task that touches nothing else.
\<close>

definition report_session_event :: "portal_world \<Rightarrow> environment_record \<Rightarrow> session_record \<Rightarrow> string \<Rightarrow> unit op" where
  "report_session_event w e ss event =
     op_bind (read_clock w)
       (\<lambda>_. if te_workshop e = None then op_raise (PyError AttributeError)
            else log_effect (Analytics event (ts_name ss)))"

definition report_environment_event :: "portal_world \<Rightarrow> environment_record \<Rightarrow> string \<Rightarrow> unit op" where
  "report_environment_event w e event =
     op_bind (read_clock w) (\<lambda>_. log_effect (Analytics event (te_name e)))"

definition report_user_event :: "portal_world \<Rightarrow> string \<Rightarrow> string \<Rightarrow> unit op" where
  "report_user_event w user event =
     op_bind (read_clock w) (\<lambda>_. log_effect (Analytics event user))"

text \<open>\<open>obj.setdefault(key, {})\<close> followed by an update of that dictionary.\<close>

definition update_at_key :: "string \<Rightarrow> (pyval \<Rightarrow> pyval result) \<Rightarrow> pyval \<Rightarrow> pyval result" where
  "update_at_key key f obj =
     (case obj of
        PDict d \<Rightarrow>
          bindE (f (case dict_get d key of None \<Rightarrow> PDict [] | Some v \<Rightarrow> v)) (\<lambda>v. Inr (PDict (dict_set key v d)))
      | _ \<Rightarrow> Inl AttributeError)"

fun py_set_key :: "string \<Rightarrow> pyval \<Rightarrow> pyval \<Rightarrow> pyval result" where
  "py_set_key key v (PDict d) = Inr (PDict (dict_set key v d))"
| "py_set_key key v _ = Inl TypeError"

definition session_status_updated :: "string \<Rightarrow> string option \<Rightarrow> pyval \<Rightarrow> pyval result" where
  "session_status_updated phase user obj =
     update_at_key ''status''
       (update_at_key ''educates''
          (\<lambda>status. bindE (py_set_key ''phase'' (PStr phase) status)
             (\<lambda>status. case user of None \<Rightarrow> Inr status | Some u \<Rightarrow> py_set_key ''user'' (PStr u) status)))
       obj"

text \<open>Errors of \<open>pykube\<close> are swallowed, a missing resource included; other exceptions pass.\<close>

definition swallow_api_error :: "kube_error + pyval \<Rightarrow> (pyval \<Rightarrow> unit op) \<Rightarrow> unit op" where
  "swallow_api_error r f =
     (case r of Inl e \<Rightarrow> if is_PyKubeError e then op_return () else op_raise (KubeError e) | Inr v \<Rightarrow> f v)"

definition update_session_status :: "portal_world \<Rightarrow> string \<Rightarrow> string \<Rightarrow> string option \<Rightarrow> unit op" where
  "update_session_status w name phase user =
     op_bind (kube_call_op w (KubeGet ''WorkshopSession'' name))
       (\<lambda>r. swallow_api_error r
          (\<lambda>obj. op_bind (op_lift (session_status_updated phase user obj))
             (\<lambda>obj. op_bind (kube_call_op w (KubeUpdate obj)) (\<lambda>r. swallow_api_error r (\<lambda>_. op_return ())))))"

section \<open>The resources of a request\<close>

definition session_owner_reference :: "session_record \<Rightarrow> pyval" where
  "session_owner_reference ss =
     PDict [(''apiVersion'', PStr ''training.educates.dev/v1beta1''), (''kind'', PStr ''WorkshopSession''),
       (''blockOwnerDeletion'', PBool True), (''controller'', PBool True),
       (''name'', PStr (ts_name ss)), (''uid'', ts_uid ss)]"

definition request_secret :: "portal_settings \<Rightarrow> environment_record \<Rightarrow> pyval \<Rightarrow> session_record \<Rightarrow> string \<Rightarrow> (string \<times> string) list \<Rightarrow> pyval" where
  "request_secret st e workshop ss tail_part data =
     PDict [(''apiVersion'', PStr ''v1''), (''kind'', PStr ''Secret''),
       (''metadata'', PDict [
          (''name'', PStr (ts_name ss @ tail_part)), (''namespace'', PStr (te_name e)),
          (''labels'', PDict [
             (''training.educates.dev/component'', PStr ''request''),
             (''training.educates.dev/component.group'', PStr ''variables''),
             (''training.educates.dev/workshop.name'', workshop),
             (''training.educates.dev/portal.name'', PStr (st_portal_name st)),
             (''training.educates.dev/portal.uid'', st_portal_uid st),
             (''training.educates.dev/environment.name'', PStr (te_name e)),
             (''training.educates.dev/session.name'', PStr (ts_name ss))]),
          (''ownerReferences'', PList [session_owner_reference ss])]),
       (''data'', PDict (map (\<lambda>(k, v). (k, PStr (b64encode v))) data))]"

definition allocation_body :: "portal_settings \<Rightarrow> environment_record \<Rightarrow> pyval \<Rightarrow> session_record \<Rightarrow> string \<Rightarrow> pyval" where
  "allocation_body st e workshop ss user =
     PDict [(''apiVersion'', PStr ''training.educates.dev/v1beta1''), (''kind'', PStr ''WorkshopAllocation''),
       (''metadata'', PDict [
          (''name'', PStr (ts_name ss)),
          (''labels'', PDict [
             (''training.educates.dev/component'', PStr ''request''),
             (''training.educates.dev/workshop.name'', workshop),
             (''training.educates.dev/portal.name'', PStr (st_portal_name st)),
             (''training.educates.dev/portal.uid'', st_portal_uid st),
             (''training.educates.dev/environment.name'', PStr (te_name e)),
             (''training.educates.dev/environment.uid'', te_uid e),
             (''training.educates.dev/session.name'', PStr (ts_name ss))]),
          (''ownerReferences'', PList [session_owner_reference ss])]),
       (''spec'', PDict [
          (''environment'', PDict [(''name'', PStr (te_name e))]),
          (''session'', PDict [(''name'', PStr (ts_name ss)), (''user'', PStr user)])])]"

text \<open>A value that is not a string cannot be encoded.\<close>

fun encoded_param :: "string \<times> pyval \<Rightarrow> (string \<times> string) result" where
  "encoded_param (k, PStr v) = Inr (k, v)"
| "encoded_param (k, _) = Inl AttributeError"

definition session_owner :: "session_record \<Rightarrow> user_record op" where
  "session_owner ss =
     (case ts_owner ss of
        None \<Rightarrow> op_raise (PyError AttributeError)
      | Some name \<Rightarrow>
          op_bind (op_query (\<lambda>db. find_row us_username name (db_users db)))
            (\<lambda>u. case u of None \<Rightarrow> op_raise DoesNotExist | Some u \<Rightarrow> op_return u))"

definition environment_workshop :: "environment_record \<Rightarrow> workshop_record op" where
  "environment_workshop e =
     (case te_workshop e of None \<Rightarrow> op_raise (PyError AttributeError) | Some wk \<Rightarrow> op_return wk)"

definition create_request_resources :: "portal_world \<Rightarrow> environment_record \<Rightarrow> session_record \<Rightarrow> unit op" where
  "create_request_resources w e ss =
     op_bind (environment_workshop e)
       (\<lambda>wk. op_bind (session_owner ss)
          (\<lambda>u. let st = pw_settings w
               in op_bind (kube_do w (KubeCreate (request_secret st e (wk_name wk) ss ''-user''
                    [(''username'', us_username u), (''first_name'', us_first_name u),
                     (''last_name'', us_last_name u), (''email'', us_email u)])))
               (\<lambda>_. op_bind (op_lift (mapE encoded_param (ts_params ss)))
               (\<lambda>params. op_bind (kube_do w (KubeCreate (request_secret st e (wk_name wk) ss ''-request'' params)))
               (\<lambda>_. op_bind (kube_do w (KubeCreate (allocation_body st e (wk_name wk) ss (us_username u))))
               (\<lambda>_. op_return ()))))))"

section \<open>Deployment of a session\<close>

definition env_entry :: "string \<Rightarrow> string \<Rightarrow> pyval" where
  "env_entry name value = PDict [(''name'', PStr name), (''value'', PStr value)]"

definition portal_url :: "portal_settings \<Rightarrow> string" where
  "portal_url st = st_ingress_protocol st @ ''://'' @ st_portal_hostname st"

definition restart_url :: "portal_settings \<Rightarrow> environment_record \<Rightarrow> string \<Rightarrow> string" where
  "restart_url st e name =
     (if te_expires e \<noteq> 0 \<or> te_orphaned e \<noteq> 0 \<or> te_overdue e \<noteq> 0
      then portal_url st @ ''/workshops/session/'' @ name @ ''/delete/''
      else portal_url st @ ''/workshops/catalog/'')"

definition session_env :: "portal_settings \<Rightarrow> environment_record \<Rightarrow> string \<Rightarrow> string \<Rightarrow> pyval list" where
  "session_env st e name secret =
     [env_entry ''PORTAL_CLIENT_ID'' name,
      env_entry ''PORTAL_CLIENT_SECRET'' secret,
      env_entry ''PORTAL_URL'' (portal_url st),
      env_entry ''PORTAL_API_URL'' (''http://training-portal.'' @ st_portal_name st @ ''-ui''),
      env_entry ''SESSION_NAME'' name,
      env_entry ''TRAINING_PORTAL'' (st_portal_name st),
      env_entry ''FRAME_ANCESTORS'' (st_frame_ancestors st)]
     @ (if te_expires e \<noteq> 0 then [env_entry ''ENABLE_COUNTDOWN'' ''true''] else [])
     @ [env_entry ''RESTART_URL'' (restart_url st e name)]"

text \<open>The tracking identifier that is assigned last wins.\<close>

definition analytics_spec :: "portal_settings \<Rightarrow> (string \<times> pyval) list" where
  "analytics_spec st =
     (let entry = (\<lambda>kind i. [(''analytics'', PDict [(kind, PDict [(''trackingId'', PStr i)])])])
      in case st_amplitude_tracking_id st of
           Some i \<Rightarrow> entry ''amplitude'' i
         | None \<Rightarrow>
             (case st_clarity_tracking_id st of
                Some i \<Rightarrow> entry ''clarity'' i
              | None \<Rightarrow> (case st_google_tracking_id st of Some i \<Rightarrow> entry ''google'' i | None \<Rightarrow> [])))"

definition session_body :: "portal_settings \<Rightarrow> environment_record \<Rightarrow> session_record \<Rightarrow> pyval list \<Rightarrow> string \<Rightarrow> pyval" where
  "session_body st e ss env password =
     PDict [(''apiVersion'', PStr ''training.educates.dev/v1beta1''), (''kind'', PStr ''WorkshopSession''),
       (''metadata'', PDict [
          (''name'', PStr (ts_name ss)),
          (''labels'', PDict [
             (''training.educates.dev/portal.name'', PStr (st_portal_name st)),
             (''training.educates.dev/portal.uid'', st_portal_uid st),
             (''training.educates.dev/environment.name'', PStr (te_name e)),
             (''training.educates.dev/environment.uid'', te_uid e)]),
          (''ownerReferences'', PList [PDict [
             (''apiVersion'', PStr ''training.educates.dev/v1beta1''), (''kind'', PStr ''WorkshopEnvironment''),
             (''blockOwnerDeletion'', PBool True), (''controller'', PBool True),
             (''name'', PStr (te_name e)), (''uid'', te_uid e)]])]),
       (''spec'', PDict ([
          (''workshop'', PDict [(''name'', te_workshop_name e)]),
          (''portal'', PDict [(''name'', PStr (st_portal_name st)), (''url'', PStr (portal_url st))]),
          (''environment'', PDict [(''name'', PStr (te_name e))]),
          (''session'', PDict [
             (''id'', PStr (ts_id ss)), (''username'', PStr []), (''password'', PStr []),
             (''config'', PDict [(''password'', PStr password)]),
             (''ingress'', PDict [
                (''domain'', PStr (st_ingress_domain st)), (''secret'', PStr (st_ingress_secret st))]),
             (''env'', PList env)])]
          @ analytics_spec st))]"

text \<open>
  The session and the environment are the objects of the transaction that set the session up; they were
  saved in it. The deployment runs after the commit, so each save stands on its own and a hook
  registered here runs at once.
\<close>

definition create_workshop_session :: "portal_world \<Rightarrow> environment_record \<Rightarrow> session_record \<Rightarrow> string \<Rightarrow> unit op" where
  "create_workshop_session w e ss secret =
     (let st = pw_settings w
      in op_bind (op_lift (py_iter (te_env e)))
           (\<lambda>env. op_bind (random_text w 32)
           (\<lambda>config_password.
              op_bind (kube_do w (KubeCreate
                (session_body st e ss (env @ session_env st e (ts_name ss) secret) config_password)))
           (\<lambda>obj. op_bind (op_lift (bindE (py_index obj ''metadata'') (\<lambda>m. py_index m ''uid'')))
           (\<lambda>uid.
              let ss = ss\<lparr>ts_uid := uid, ts_password := Some config_password,
                         ts_url := Some (st_ingress_protocol st @ ''://'' @ ts_name ss @ ''.'' @ st_ingress_domain st)\<rparr>
              in op_then (report_session_event w e ss ''Session/Created'')
                   (case ts_owner ss of
                      Some user \<Rightarrow>
                        op_then (update_session_status w (ts_name ss) ''Allocated'' (Some user))
                       (op_then (report_session_event w e ss ''Session/Started'')
                          (if ts_token ss \<notin> {None, Some []} then save_session (mark_as_waiting ss)
                           else op_bind (read_clock w)
                                  (\<lambda>now. let ss = mark_as_running e now None ss
                                         in op_then (save_session ss) (create_request_resources w e ss))))
                    | None \<Rightarrow>
                        op_then (update_session_status w (ts_name ss) ''Available'' None)
                          (save_session (mark_as_waiting ss))))))))"

section \<open>Setting up a session\<close>

text \<open>\<open>f"{n:03}"\<close> and the like.\<close>

definition padded :: "nat \<Rightarrow> nat \<Rightarrow> string" where
  "padded width n = replicate (width - length (show_nat n)) CHR ''0'' @ show_nat n"

definition oauth_callback :: "portal_settings \<Rightarrow> string \<Rightarrow> string" where
  "oauth_callback st host =
     st_ingress_protocol st @ ''://'' @ host @ ''.'' @ st_ingress_domain st @ ''/oauth_callback''"

definition named_callbacks :: "portal_settings \<Rightarrow> string \<Rightarrow> string \<Rightarrow> string list" where
  "named_callbacks st session name =
     (if name \<noteq> [] then [oauth_callback st (name @ ''-'' @ session), oauth_callback st (session @ ''-'' @ name)]
      else [oauth_callback st session])"

definition redirect_uris :: "portal_settings \<Rightarrow> string \<Rightarrow> string list \<Rightarrow> string list" where
  "redirect_uris st session ingresses =
     oauth_callback st session
     # concat (map (named_callbacks st session) ([''console'', ''editor'', ''slides'', ''terminal''] @ ingresses))"

definition ingress_name :: "pyval \<Rightarrow> string result" where
  "ingress_name ingress = bindE (py_index ingress ''name'') (\<lambda>n. Inr (if truthy n then py_str n else []))"

definition new_session :: "environment_record \<Rightarrow> string \<Rightarrow> string \<Rightarrow> time \<Rightarrow> session_record" where
  "new_session e name session_id now =
     \<lparr>ts_name = name, ts_id = session_id, ts_uid = PStr [], ts_environment = te_id e,
      ts_application = Some name, ts_state = SESSION_STARTING, ts_owner = None, ts_created = Some now,
      ts_started = None, ts_expires = None, ts_token = None, ts_url = None, ts_params = [],
      ts_password = None, ts_index_url = None, ts_analytics_url = None\<rparr>"

text \<open>The environment object with its new tally, the session and the secret of its application.\<close>

definition session_name :: "environment_record \<Rightarrow> string" where
  "session_name e = te_name e @ ''-s'' @ padded 3 (te_tally e)"

definition setup_workshop_session :: "portal_world \<Rightarrow> environment_record \<Rightarrow> (environment_record \<times> session_record \<times> string) op" where
  "setup_workshop_session w e =
     (let e = e\<lparr>te_tally := te_tally e + 1\<rparr>;
          st = pw_settings w;
          name = session_name e
      in op_then (save_environment e)
        (op_bind (environment_workshop e)
           (\<lambda>wk. op_bind (op_lift (bindE (py_iter (wk_ingresses wk)) (mapE ingress_name)))
           (\<lambda>ingresses. op_bind (op_query (\<lambda>db. find_row us_username (st_admin_username st) (db_users db)))
           (\<lambda>admin. case admin of
              None \<Rightarrow> op_raise DoesNotExist
            | Some admin \<Rightarrow>
                op_bind (random_text w 32)
                  (\<lambda>secret. op_then (get_or_create_application
                       \<lparr>ap_name = name, ap_client_id = name, ap_user = us_username admin,
                        ap_redirect_uris = join_with CHR '' '' (redirect_uris st name ingresses),
                        ap_grant_type = ''authorization-code'', ap_client_secret = secret\<rparr>)
                    (op_bind (read_clock w)
                       (\<lambda>now. let ss = new_session e name (''s'' @ padded 3 (te_tally e)) now
                              in op_then (insert_session ss) (op_return (e, ss, secret))))))))))"

definition create_new_session :: "portal_world \<Rightarrow> environment_record \<Rightarrow> (environment_record \<times> session_record) op" where
  "create_new_session w e =
     op_bind (setup_workshop_session w e)
       (\<lambda>(e, ss, secret). op_then (on_commit (CreateSession (ts_name ss) secret)) (op_return (e, ss)))"

primrec setup_sessions :: "portal_world \<Rightarrow> nat \<Rightarrow> environment_record \<Rightarrow> (string \<times> string) list \<Rightarrow> (string \<times> string) list op" where
  "setup_sessions w 0 e sessions = op_return sessions"
| "setup_sessions w (Suc n) e sessions =
     op_bind (setup_workshop_session w e)
       (\<lambda>(e, ss, secret). setup_sessions w n e (sessions @ [(ts_name ss, secret)]))"

section \<open>The pool of reserved sessions\<close>

definition replace_reserved_session :: "portal_world \<Rightarrow> portal_record \<Rightarrow> environment_record \<Rightarrow> unit op" where
  "replace_reserved_session w p e =
     (if te_reserved e = 0 then op_return ()
      else op_bind (op_query id)
        (\<lambda>db. if count (available_sessions db e) \<ge> te_reserved e then op_return ()
              else if count (active_sessions db e) \<ge> te_capacity e then op_return ()
              else if tp_sessions_maximum p \<noteq> 0 \<and> count (portal_active_sessions db) \<ge> tp_sessions_maximum p then op_return ()
              else op_bind (create_new_session w e) (\<lambda>_. op_return ())))"

definition stop_reserved_session :: "portal_world \<Rightarrow> environment_record \<Rightarrow> session_record \<Rightarrow> unit op" where
  "stop_reserved_session w e ss =
     op_then (update_session_status w (ts_name ss) ''Stopping'' None)
       (op_bind (read_clock w)
          (\<lambda>now. let ss = mark_as_stopping now ss
                 in op_then (save_session ss) (report_session_event w e ss ''Session/Terminate'')))"

definition trim_environment :: "portal_world \<Rightarrow> environment_record \<Rightarrow> unit op" where
  "trim_environment w e =
     op_bind (op_query id)
       (\<lambda>db. let available = count (available_sessions db e)
             in if te_initial e > te_reserved e
                   \<and> (count (all_sessions db e) < te_initial e - te_reserved e \<or> available > te_reserved e)
                then op_return ()
                else op_each (stop_reserved_session w e)
                       (take (nat (max 0 (available - te_reserved e))) (available_sessions db e)))"

text \<open>A session taken from the portal is reported with the environment it belongs to.\<close>

definition stop_available_session :: "portal_world \<Rightarrow> session_record \<Rightarrow> unit op" where
  "stop_available_session w ss = op_bind (session_environment ss) (\<lambda>e. stop_reserved_session w e ss)"

definition oldest_available :: "portal_db \<Rightarrow> session_record list" where
  "oldest_available db = sort_key ts_created (portal_available_sessions db)"

definition terminate_reserved_sessions :: "portal_world \<Rightarrow> portal_record \<Rightarrow> unit op" where
  "terminate_reserved_sessions w p =
     op_bind (op_query running_environments)
       (\<lambda>es. op_then (op_each (trim_environment w) es)
          (if tp_sessions_maximum p = 0 then op_return ()
           else op_bind (op_query id)
             (\<lambda>db. op_each (stop_available_session w)
                (take (nat (max 0 (count (portal_active_sessions db) - tp_sessions_maximum p))) (oldest_available db)))))"

text \<open>
  The number of sessions to add to the pool of an environment, and how many that leaves for the rest
  of the portal: \<open>None\<close> stands for a portal without a maximum.
\<close>

definition wanted_sessions :: "portal_db \<Rightarrow> environment_record \<Rightarrow> int option \<Rightarrow> int" where
  "wanted_sessions db e spare =
     (if te_reserved e = 0 then 0
      else if te_initial e = 0 \<and> count (all_sessions db e) = 0 then 0
      else
        (let spare_capacity = te_capacity e - count (active_sessions db e);
             spare_reserved = te_reserved e - count (available_sessions db e)
         in case spare of
              None \<Rightarrow> if spare_capacity \<le> 0 \<or> spare_reserved \<le> 0 then 0 else min spare_reserved spare_capacity
            | Some n \<Rightarrow> if spare_reserved \<le> 0 then 0 else min spare_reserved (min spare_capacity n)))"

primrec reserve_sessions :: "portal_world \<Rightarrow> environment_record list \<Rightarrow> int option \<Rightarrow> (string \<times> string) list \<Rightarrow> (string \<times> string) list op" where
  "reserve_sessions w [] spare sessions = op_return sessions"
| "reserve_sessions w (e # es) spare sessions =
     op_bind (op_query (\<lambda>db. wanted_sessions db e spare))
       (\<lambda>n. op_bind (setup_sessions w (nat n) e sessions)
          (\<lambda>sessions.
             let spare = map_option (\<lambda>k. k - max 0 n) spare
             in if spare \<noteq> None \<and> the spare \<le> 0 then op_return sessions
                else reserve_sessions w es spare sessions))"

definition initiate_reserved_sessions :: "portal_world \<Rightarrow> portal_record \<Rightarrow> unit op" where
  "initiate_reserved_sessions w p =
     op_bind (op_query id)
       (\<lambda>db. let spare = (if tp_sessions_maximum p = 0 then None
                          else Some (tp_sessions_maximum p - count (portal_active_sessions db)))
             in if spare \<noteq> None \<and> the spare \<le> 0 then op_return ()
                else op_bind (reserve_sessions w (running_environments db) spare [])
                       (\<lambda>sessions. on_commit (CreateSessions sessions)))"

section \<open>Sessions for users\<close>

record session_request =
  rq_token :: "string option"
  rq_timeout :: "int option"
  rq_params :: "pyval list"
  rq_index_url :: "string option"
  rq_analytics_url :: "string option"

abbreviation rq_has_token :: "session_request \<Rightarrow> bool" where
  "rq_has_token rq \<equiv> rq_token rq \<notin> {None, Some []}"

definition with_request :: "portal_world \<Rightarrow> environment_record \<Rightarrow> session_request \<Rightarrow> session_record \<Rightarrow> session_record op" where
  "with_request w e rq ss =
     op_bind (resolve_request_params w (te_workshop e) (rq_params rq))
       (\<lambda>params. op_return (ss\<lparr>ts_params := params, ts_index_url := rq_index_url rq,
                               ts_analytics_url := rq_analytics_url rq\<rparr>))"

text \<open>A session requested through the REST API stays pending until its activation.\<close>

definition hand_over_session :: "portal_world \<Rightarrow> environment_record \<Rightarrow> string \<Rightarrow> session_request \<Rightarrow> session_record \<Rightarrow> session_record op" where
  "hand_over_session w e user rq ss =
     (if rq_has_token rq then
        op_then (update_session_status w (ts_name ss) ''Allocating'' (Some user))
       (op_then (report_session_event w e ss ''Session/Pending'')
       (op_bind (read_clock w)
          (\<lambda>now. let ss = mark_as_pending e now user (rq_token rq) (rq_timeout rq) ss
                 in op_then (save_session ss) (op_return ss))))
      else
        op_then (update_session_status w (ts_name ss) ''Allocated'' (Some user))
       (op_then (report_session_event w e ss ''Session/Started'')
       (op_bind (read_clock w)
          (\<lambda>now. let ss = mark_as_running e now (Some user) ss
                 in op_then (save_session ss)
                      (op_then (on_commit (CreateRequestResources (ts_name ss))) (op_return ss))))))"

definition allocate_session_for_user :: "portal_world \<Rightarrow> portal_record \<Rightarrow> environment_record \<Rightarrow> string \<Rightarrow> session_request \<Rightarrow> session_record option op" where
  "allocate_session_for_user w p e user rq =
     op_bind (op_query (\<lambda>db. available_session db e))
       (\<lambda>ss. case ss of
          None \<Rightarrow> op_return None
        | Some ss \<Rightarrow>
            op_bind (with_request w e rq ss)
              (\<lambda>ss. op_bind (hand_over_session w e user rq ss)
                 (\<lambda>ss. op_then (replace_reserved_session w p e) (op_return (Some ss)))))"

text \<open>The block that \<open>create_session_for_user\<close> repeats on each of its three paths.\<close>

definition start_session_for_user :: "portal_world \<Rightarrow> environment_record \<Rightarrow> string \<Rightarrow> session_request \<Rightarrow> session_record option op" where
  "start_session_for_user w e user rq =
     op_bind (create_new_session w e)
       (\<lambda>(e, ss). op_bind (with_request w e rq ss)
       (\<lambda>ss. op_then (update_session_status w (ts_name ss) (if rq_has_token rq then ''Allocating'' else ''Allocated'') (Some user))
         (op_bind (read_clock w)
            (\<lambda>now. let ss = mark_as_pending e now user (rq_token rq) (rq_timeout rq) ss
                   in op_then (save_session ss)
                     (op_then (report_session_event w e ss (if rq_has_token rq then ''Session/Pending'' else ''Session/Started''))
                        (op_return (Some ss)))))))"

definition create_session_for_user :: "portal_world \<Rightarrow> portal_record \<Rightarrow> environment_record \<Rightarrow> string \<Rightarrow> session_request \<Rightarrow> session_record option op" where
  "create_session_for_user w p e user rq =
     op_bind (op_query id)
       (\<lambda>db.
          if count (active_sessions db e) \<ge> te_capacity e then op_return None
          else if tp_sessions_maximum p = 0 then start_session_for_user w e user rq
          else if count (portal_allocated_sessions db) \<ge> tp_sessions_maximum p then op_return None
          else if count (portal_active_sessions db) < tp_sessions_maximum p then start_session_for_user w e user rq
          else
            op_then (case oldest_available db of [] \<Rightarrow> op_return () | ss # _ \<Rightarrow> stop_available_session w ss)
              (start_session_for_user w e user rq))"

definition retrieve_session_for_user :: "portal_world \<Rightarrow> portal_record \<Rightarrow> environment_record \<Rightarrow> user_record \<Rightarrow> string option \<Rightarrow> session_request \<Rightarrow> session_record option op" where
  "retrieve_session_for_user w p e user wanted_name rq =
     op_bind (op_query (\<lambda>db. allocated_session_for_user db e (us_username user)))
       (\<lambda>existing.
          let named = (wanted_name \<notin> {None, Some []})
          in case existing of
               Some ss \<Rightarrow>
                 op_bind
                   (if rq_has_token rq \<and> is_pending ss then
                      op_bind (read_clock w)
                        (\<lambda>now. let ss = mark_as_pending e now (us_username user) (rq_token rq) (rq_timeout rq) ss
                               in op_then (save_session ss) (op_return ss))
                    else op_return ss)
                   (\<lambda>ss. op_return (if named \<and> Some (ts_name ss) \<noteq> wanted_name then None else Some ss))
             | None \<Rightarrow>
                 if named then op_return None
                 else op_bind (op_query (\<lambda>db. session_permitted_for_user db p user))
                   (\<lambda>permitted.
                      if \<not> permitted then op_return None
                      else op_bind (allocate_session_for_user w p e (us_username user) rq)
                        (\<lambda>ss. case ss of
                                Some ss \<Rightarrow> op_return (Some ss)
                              | None \<Rightarrow> create_session_for_user w p e (us_username user) rq)))"

section \<open>Hooks\<close>

text \<open>The objects a hook refers to are found again by their rows.\<close>

definition with_session :: "string \<Rightarrow> (environment_record \<Rightarrow> session_record \<Rightarrow> unit op) \<Rightarrow> unit op" where
  "with_session name f =
     op_bind (op_query (\<lambda>db. find_row ts_name name (db_sessions db)))
       (\<lambda>ss. case ss of
          None \<Rightarrow> op_raise DoesNotExist
        | Some ss \<Rightarrow> op_bind (session_environment ss) (\<lambda>e. f e ss))"

definition deploy_session :: "portal_world \<Rightarrow> string \<times> string \<Rightarrow> unit op" where
  "deploy_session w =
     (\<lambda>(name, secret). with_session name (\<lambda>e ss. create_workshop_session w e ss secret))"

fun run_hook :: "portal_world \<Rightarrow> hook \<Rightarrow> unit op" where
  "run_hook w (CreateSession name secret) = deploy_session w (name, secret)"
| "run_hook w (CreateSessions sessions) = op_each (deploy_session w) sessions"
| "run_hook w (CreateRequestResources name) = with_session name (create_request_resources w)"
| "run_hook w (ScheduleTask t) = schedule t"

end
