(* ===== verification/Portal_Environments.thy ===== *)
theory Portal_Environments
  imports Portal_Sessions
begin

text \<open>
  Workshop environments (\<open>manager/environments.py\<close>): durations, activation of an environment when
  the operator reports its workshop, creation, update, replacement, shutdown and deletion.
\<close>

section \<open>Durations\<close>

text \<open>
  \<open>int(s)\<close>: optional white space around, an optional sign, digits with single underscores between
  them.
\<close>

definition digit_value :: "char \<Rightarrow> nat option" where
  "digit_value c = (let n = (of_char c :: nat) in if 48 \<le> n \<and> n \<le> 57 then Some (n - 48) else None)"

fun int_digits :: "string \<Rightarrow> bool \<Rightarrow> nat \<Rightarrow> nat option" where
  "int_digits [] after_digit acc = (if after_digit then Some acc else None)"
| "int_digits (c # cs) after_digit acc =
     (case digit_value c of
        Some d \<Rightarrow> int_digits cs True (10 * acc + d)
      | None \<Rightarrow> if c = CHR ''_'' \<and> after_digit then int_digits cs False acc else None)"

definition signed_digits :: "string \<Rightarrow> int option" where
  "signed_digits s =
     (case s of
        [] \<Rightarrow> None
      | c # cs \<Rightarrow>
          if c = CHR ''-'' then map_option (\<lambda>n. - int n) (int_digits cs False 0)
          else if c = CHR ''+'' then map_option int (int_digits cs False 0)
          else map_option int (int_digits s False 0))"

definition py_int :: "string \<Rightarrow> int result" where
  "py_int s = (case signed_digits (strip_by str_space s) of None \<Rightarrow> Inl ValueError | Some n \<Rightarrow> Inr n)"

definition multipliers :: "(string \<times> int) list" where
  "multipliers = [(''s'', 1), (''m'', 60), (''h'', 60 * 60)]"

text \<open>
  A malformed number before a unit raises the \<open>ValueError\<close> of \<open>int\<close>; without a unit it becomes a
  \<open>RuntimeError\<close>.
\<close>

definition convert_duration_to_seconds :: "pyval \<Rightarrow> portal_error + int" where
  "convert_duration_to_seconds v =
     (let size = py_str v
      in case find (\<lambda>(unit, _). endswith (lower size) unit) multipliers of
           Some (unit, factor) \<Rightarrow>
             (case py_int (take (length size - length unit) size) of
                Inl e \<Rightarrow> Inl (PyError e)
              | Inr n \<Rightarrow> Inr (n * factor))
         | None \<Rightarrow> (case py_int size of Inl e \<Rightarrow> Inl RuntimeError | Inr n \<Rightarrow> Inr n))"

text \<open>A \<open>timedelta\<close> holds less than a thousand million days; more is an \<open>OverflowError\<close>.\<close>

definition duration_as_timedelta :: "pyval \<Rightarrow> portal_error + duration" where
  "duration_as_timedelta v =
     (case convert_duration_to_seconds v of
        Inl e \<Rightarrow> Inl e
      | Inr n \<Rightarrow> if n \<ge> 86400 * 1000000000 then Inl (PyError OtherError) else Inr (seconds (max 0 n)))"

definition duration_setting :: "pyval \<Rightarrow> string \<Rightarrow> duration op" where
  "duration_setting workshop key = op_bind (op_lift (py_index workshop key)) (\<lambda>v. op_result (duration_as_timedelta v))"

section \<open>Reports on the resource\<close>

text \<open>The views of \<open>resources.py\<close>: a dotted lookup, and the plain object behind a dictionary or list.\<close>

definition resource_get :: "pyval \<Rightarrow> string \<Rightarrow> pyval \<Rightarrow> pyval result" where
  "resource_get obj key dflt = xget_keys (split_on CHR ''.'' key) obj dflt dflt"

fun view_obj :: "pyval \<Rightarrow> pyval result" where
  "view_obj (PDict d) = Inr (PDict d)"
| "view_obj (PList xs) = Inr (PList xs)"
| "view_obj _ = Inl AttributeError"

definition resource_obj :: "pyval \<Rightarrow> string \<Rightarrow> pyval \<Rightarrow> pyval result" where
  "resource_obj obj key dflt = bindE (resource_get obj key dflt) view_obj"

definition resource_status :: "pyval \<Rightarrow> pyval result" where
  "resource_status body = resource_get body ''status'' (PDict [])"

definition resource_metadata :: "pyval \<Rightarrow> string \<Rightarrow> pyval result" where
  "resource_metadata body key =
     bindE (resource_get body ''metadata'' (PDict [])) (\<lambda>m. resource_get m key PNone)"

definition environment_phase :: "pyval \<Rightarrow> pyval result" where
  "environment_phase obj =
     bindE (py_get_or obj ''status'' (PDict []))
       (\<lambda>status. bindE (py_get_or status ''educates'' (PDict [])) (\<lambda>educates. py_get educates ''phase''))"

definition update_environment_status :: "portal_world \<Rightarrow> string \<Rightarrow> string \<Rightarrow> unit op" where
  "update_environment_status w name phase =
     op_bind (kube_call_op w (KubeGet ''WorkshopEnvironment'' name))
       (\<lambda>r. swallow_api_error r
          (\<lambda>obj. op_bind (op_lift (environment_phase obj))
             (\<lambda>old. if truthy old then
                  op_bind (op_lift (update_at_key ''status''
                     (update_at_key ''educates'' (py_set_key ''phase'' (PStr phase))) obj))
                    (\<lambda>obj. op_bind (kube_call_op w (KubeUpdate obj)) (\<lambda>r. swallow_api_error r (\<lambda>_. op_return ())))
                else op_return ())))"

definition update_environment_status_details :: "portal_world \<Rightarrow> string \<Rightarrow> int \<Rightarrow> int \<Rightarrow> unit op" where
  "update_environment_status_details w name capacity reserved =
     op_bind (kube_call_op w (KubeGet ''WorkshopEnvironment'' name))
       (\<lambda>r. swallow_api_error r
          (\<lambda>obj. op_bind (op_lift (update_at_key ''status''
                (update_at_key ''educates''
                   (\<lambda>status. bindE (py_set_key ''capacity'' (PInt capacity) status)
                               (py_set_key ''reserved'' (PInt reserved)))) obj))
             (\<lambda>obj. op_bind (kube_call_op w (KubeUpdate obj)) (\<lambda>r. swallow_api_error r (\<lambda>_. op_return ())))))"

section \<open>Activation\<close>

text \<open>\<open>labels[item["name"]] = item.get("value", "")\<close>; names of labels are strings by the schema.\<close>

definition add_label :: "pyval \<Rightarrow> (string \<times> pyval) list \<Rightarrow> (string \<times> pyval) list result" where
  "add_label item labels =
     bindE (py_index item ''name'')
       (\<lambda>name. bindE (py_get_or item ''value'' (PStr []))
          (\<lambda>value. case name of PStr k \<Rightarrow> Inr (dict_set k value labels) | _ \<Rightarrow> Inl TypeError))"

definition labels_dict :: "pyval \<Rightarrow> (string \<times> pyval) list result" where
  "labels_dict items = bindE (py_iter items) (\<lambda>xs. foldE add_label xs [])"

definition workshop_from_details :: "pyval \<Rightarrow> pyval \<Rightarrow> pyval \<Rightarrow> pyval \<Rightarrow> (string \<times> pyval) list \<Rightarrow> workshop_record result" where
  "workshop_from_details details name uid generation labels =
     bindE (resource_get details ''spec.title'' (PStr []))
  (\<lambda>title. bindE (resource_get details ''spec.description'' (PStr []))
  (\<lambda>description. bindE (resource_get details ''spec.vendor'' (PStr []))
  (\<lambda>vendor. bindE (resource_obj details ''spec.authors'' (PList []))
  (\<lambda>authors. bindE (resource_get details ''spec.difficulty'' (PStr []))
  (\<lambda>difficulty. bindE (resource_get details ''spec.duration'' (PStr []))
  (\<lambda>dur. bindE (resource_obj details ''spec.tags'' (PList []))
  (\<lambda>tags. bindE (resource_get details ''spec.logo'' (PStr []))
  (\<lambda>logo. bindE (resource_get details ''spec.url'' (PStr []))
  (\<lambda>url. bindE (resource_obj details ''spec.request.parameters'' (PList []))
  (\<lambda>params. bindE (resource_obj details ''spec.session.ingresses'' (PList []))
  (\<lambda>ingresses. Inr
     \<lparr>wk_name = name, wk_uid = uid, wk_generation = generation, wk_title = title, wk_description = description,
      wk_vendor = vendor, wk_authors = authors, wk_difficulty = difficulty, wk_duration = dur, wk_tags = tags,
      wk_labels = labels, wk_logo = logo, wk_url = url, wk_ingresses = ingresses, wk_params = params\<rparr>)))))))))))"

text \<open>\<open>get_or_create\<close> of the workshop of this version; only a new row gets the details.\<close>

definition find_workshop :: "pyval \<Rightarrow> pyval \<Rightarrow> pyval \<Rightarrow> portal_db \<Rightarrow> workshop_record option" where
  "find_workshop name uid generation db =
     find (\<lambda>wk. wk_name wk = name \<and> wk_uid wk = uid \<and> wk_generation wk = generation) (db_workshops db)"

definition get_or_create_workshop :: "pyval \<Rightarrow> workshop_record op" where
  "get_or_create_workshop details =
     op_bind (op_lift (resource_get details ''name'' PNone))
  (\<lambda>name. op_bind (op_lift (resource_get details ''uid'' PNone))
  (\<lambda>uid. op_bind (op_lift (resource_get details ''generation'' PNone))
  (\<lambda>generation. op_bind (op_query (find_workshop name uid generation))
  (\<lambda>row. op_bind (op_lift (bindE (resource_obj details ''spec.labels'' (PList [])) labels_dict))
  (\<lambda>labels. case row of
     Some wk \<Rightarrow> op_return wk
   | None \<Rightarrow>
       op_bind (op_lift (workshop_from_details details name uid generation labels))
         (\<lambda>wk. op_then (op_db (\<lambda>db. db\<lparr>db_workshops := db_workshops db @ [wk]\<rparr>)) (op_return wk)))))))"

text \<open>The reserved sessions a new environment starts with.\<close>

definition initial_sessions :: "portal_db \<Rightarrow> portal_record \<Rightarrow> environment_record \<Rightarrow> int" where
  "initial_sessions db p e =
     min (te_initial e)
       (if tp_sessions_maximum p = 0 then te_initial e
        else tp_sessions_maximum p - count (portal_active_sessions db))"

definition start_environment :: "portal_world \<Rightarrow> portal_record \<Rightarrow> environment_record \<Rightarrow> pyval \<Rightarrow> unit op" where
  "start_environment w p e details =
     op_bind (get_or_create_workshop details)
       (\<lambda>wk. let e = env_mark_as_running (e\<lparr>te_workshop := Some wk\<rparr>)
              in op_then (save_environment e)
                (op_bind (op_query (\<lambda>db. initial_sessions db p e))
                   (\<lambda>required. op_bind (setup_sessions w (nat required) e [])
                      (\<lambda>sessions. on_commit (CreateSessions sessions)))))"

definition activate_workshop_environment :: "portal_world \<Rightarrow> pyval \<Rightarrow> unit op" where
  "activate_workshop_environment w resource =
     atomically (run_hook w)
       (op_bind (op_lift (bindE (resource_get resource ''metadata'' (PDict [])) (\<lambda>m. resource_obj m ''labels'' (PDict []))))
          (\<lambda>labels. op_bind (op_lift (py_get_or labels ''training.educates.dev/portal.name'' (PStr [])))
          (\<lambda>portal_name. op_bind (op_query db_portal)
          (\<lambda>portal. case portal of
             None \<Rightarrow> op_return ()
           | Some p \<Rightarrow>
               if PStr (tp_name p) \<noteq> portal_name then op_return ()
               else
                 op_bind (op_lift (resource_get resource ''metadata.name'' PNone))
              (\<lambda>name. op_bind (case name of
                                  PStr n \<Rightarrow> op_bind (op_query (\<lambda>db. workshop_environment db n)) op_result
                                | _ \<Rightarrow> op_return None)
              (\<lambda>environment. op_bind (op_lift (resource_metadata resource ''uid''))
              (\<lambda>uid. case environment of
                 None \<Rightarrow> op_return ()
               | Some e \<Rightarrow>
                   if te_uid e \<noteq> uid then op_return ()
                   else if te_state e \<noteq> ENV_STARTING then op_return ()
                   else
                     op_bind (op_lift (bindE (resource_status resource) (\<lambda>s. resource_get s ''educates.workshop'' PNone)))
                       (start_environment w p e))))))))"

definition workshop_environment_event :: "pyval \<Rightarrow> unit op" where
  "workshop_environment_event body =
     op_bind (op_lift (bindE (resource_status body) (\<lambda>s. resource_get s ''educates.workshop.uid'' PNone)))
       (\<lambda>uid. if \<not> truthy uid then op_return () else schedule (ActivateEnvironment body))"

section \<open>Shutdown and deletion\<close>

text \<open>
  The environment stops first, so that its capacity is zero and no replacement is made for the
  reserved sessions that are stopped next.
\<close>

definition stop_environment :: "portal_world \<Rightarrow> environment_record \<Rightarrow> unit op" where
  "stop_environment w e =
     op_then (update_environment_status w (te_name e) ''Stopping'')
    (let e = env_mark_as_stopping e
     in op_then (save_environment e)
       (op_then (report_environment_event w e ''Environment/Terminate'')
          (op_bind (op_query (\<lambda>db. available_sessions db e)) (op_each (stop_reserved_session w e)))))"

text \<open>\<open>workshop.get("alias", "") or workshop["name"]\<close>.\<close>

definition workshop_alias :: "pyval \<Rightarrow> pyval result" where
  "workshop_alias workshop =
     bindE (py_get_or workshop ''alias'' (PStr []))
       (\<lambda>a. if truthy a then Inr a else py_index workshop ''name'')"

definition workshop_key :: "pyval \<Rightarrow> pyval \<Rightarrow> string" where
  "workshop_key workshop_name resource_name = py_str workshop_name @ '':'' @ py_str resource_name"

definition configured_key :: "pyval \<Rightarrow> string result" where
  "configured_key workshop =
     bindE (workshop_alias workshop)
       (\<lambda>a. bindE (py_index workshop ''name'') (\<lambda>n. Inr (workshop_key a n)))"

definition shutdown_workshop_environments :: "portal_world \<Rightarrow> pyval list \<Rightarrow> unit op" where
  "shutdown_workshop_environments w workshops =
     op_bind (op_lift (mapE configured_key workshops))
       (\<lambda>names. op_bind (op_query active_environments)
          (op_each (\<lambda>e. if workshop_key (te_workshop_name e) (te_resource_name e) \<in> set names then op_return ()
                        else stop_environment w e)))"

definition delete_workshop_environment :: "portal_world \<Rightarrow> environment_record \<Rightarrow> unit op" where
  "delete_workshop_environment w e =
     op_bind (kube_call_op w (KubeGet ''WorkshopEnvironment'' (te_name e)))
       (\<lambda>r. swallow_api_error r
          (\<lambda>_. op_bind (kube_call_op w (KubeDelete ''WorkshopEnvironment'' (te_name e)))
             (\<lambda>r. swallow_api_error r (\<lambda>_. op_return ()))))"

text \<open>The environment is deleted once its last session is gone.\<close>

definition delete_if_unused :: "portal_world \<Rightarrow> environment_record \<Rightarrow> unit op" where
  "delete_if_unused w e =
     op_bind (op_query (\<lambda>db. count (active_sessions db e)))
       (\<lambda>n. if n = 0 then
               op_then (schedule (DeleteEnvironment e))
              (let e = env_mark_as_stopped e
               in op_then (save_environment e) (report_environment_event w e ''Environment/Deleted''))
             else op_return ())"

definition delete_workshop_environments :: "portal_world \<Rightarrow> unit op" where
  "delete_workshop_environments w =
     atomically (run_hook w) (op_bind (op_query stopping_environments) (op_each (delete_if_unused w)))"

section \<open>Replacement\<close>

definition whole_seconds :: "duration \<Rightarrow> pyval" where
  "whole_seconds d = PInt (d div seconds 1)"

text \<open>The entry made up from the environment; its labels are the dictionary the environment keeps.\<close>

definition replacement_entry :: "environment_record \<Rightarrow> pyval" where
  "replacement_entry e =
     PDict [(''name'', te_resource_name e), (''alias'', te_workshop_name e),
       (''capacity'', PInt (te_capacity e)), (''initial'', PInt (te_initial e)), (''reserved'', PInt (te_reserved e)),
       (''expires'', whole_seconds (te_expires e)), (''overtime'', whole_seconds (te_overtime e)),
       (''deadline'', whole_seconds (te_deadline e)), (''orphaned'', whole_seconds (te_orphaned e)),
       (''overdue'', whole_seconds (te_overdue e)), (''refresh'', whole_seconds (te_refresh e)),
       (''registry'', te_registry e), (''env'', te_env e), (''labels'', PDict (te_labels e))]"

definition replace_workshop_environment :: "portal_world \<Rightarrow> portal_record \<Rightarrow> environment_record \<Rightarrow> unit op" where
  "replace_workshop_environment w p e =
     op_then (stop_environment w e) (schedule (ProcessEnvironment p (replacement_entry e) (te_position e)))"

definition refresh_if_due :: "portal_world \<Rightarrow> portal_record \<Rightarrow> environment_record \<Rightarrow> unit op" where
  "refresh_if_due w p e =
     (if te_refresh e = 0 then op_return ()
      else op_bind (read_clock w)
        (\<lambda>now. if now - te_created_at e > te_refresh e then replace_workshop_environment w p e else op_return ()))"

definition refresh_workshop_environments :: "portal_world \<Rightarrow> portal_record \<Rightarrow> unit op" where
  "refresh_workshop_environments w p =
     atomically (run_hook w) (op_bind (op_query running_environments) (op_each (refresh_if_due w p)))"

section \<open>Update and creation\<close>

definition int_setting :: "pyval \<Rightarrow> string \<Rightarrow> int op" where
  "int_setting workshop key = op_lift (bindE (py_index workshop key) py_num)"

definition update_environment :: "portal_world \<Rightarrow> pyval \<Rightarrow> int \<Rightarrow> environment_record \<Rightarrow> unit op" where
  "update_environment w workshop position e =
     op_bind (op_lift (bindE (py_index workshop ''labels'') labels_dict))
  (\<lambda>labels. op_bind (op_lift (py_index workshop ''env''))
  (\<lambda>env. op_bind (int_setting workshop ''capacity'')
  (\<lambda>capacity. op_bind (int_setting workshop ''reserved'')
  (\<lambda>reserved. op_bind (duration_setting workshop ''expires'')
  (\<lambda>expires. op_bind (duration_setting workshop ''overtime'')
  (\<lambda>overtime. op_bind (duration_setting workshop ''deadline'')
  (\<lambda>deadline. op_bind (duration_setting workshop ''orphaned'')
  (\<lambda>orphaned. op_bind (duration_setting workshop ''overdue'')
  (\<lambda>overdue. op_bind (duration_setting workshop ''refresh'')
  (\<lambda>refresh. op_bind (if te_state e = ENV_STARTING then int_setting workshop ''initial'' else op_return (te_initial e))
  (\<lambda>initial.
     let e = e\<lparr>te_labels := labels, te_env := env, te_capacity := capacity, te_reserved := reserved,
              te_expires := expires, te_overtime := overtime, te_deadline := deadline, te_orphaned := orphaned,
              te_overdue := overdue, te_refresh := refresh, te_initial := initial, te_position := position\<rparr>
     in op_then (save_environment e) (update_environment_status_details w (te_name e) capacity reserved))))))))))))"

definition update_workshop_environment :: "portal_world \<Rightarrow> int \<times> pyval \<Rightarrow> unit op" where
  "update_workshop_environment w =
     (\<lambda>(position, workshop).
        op_bind (op_lift (workshop_alias workshop))
          (\<lambda>name. op_bind (op_bind (op_query (\<lambda>db. environment_for_workshop db name)) op_result)
             (\<lambda>e. case e of None \<Rightarrow> op_return () | Some e \<Rightarrow> update_environment w workshop position e)))"

definition enumerate_from_one :: "pyval list \<Rightarrow> (int \<times> pyval) list" where
  "enumerate_from_one workshops = zip (map int [1..<length workshops + 1]) workshops"

definition update_workshop_environments :: "portal_world \<Rightarrow> pyval list \<Rightarrow> unit op" where
  "update_workshop_environments w workshops =
     op_each (update_workshop_environment w) (enumerate_from_one workshops)"

text \<open>The identifiers of rows count up; rows of environments are never deleted.\<close>

definition next_environment_id :: "portal_db \<Rightarrow> nat" where
  "next_environment_id db = Suc (foldr max (map te_id (db_environments db)) 0)"

definition environment_body :: "portal_settings \<Rightarrow> portal_record \<Rightarrow> environment_record \<Rightarrow> pyval" where
  "environment_body st p e =
     PDict [(''apiVersion'', PStr ''training.educates.dev/v1beta1''), (''kind'', PStr ''WorkshopEnvironment''),
       (''metadata'', PDict [
          (''name'', PStr (te_name e)),
          (''labels'', PDict [
             (''training.educates.dev/portal.name'', PStr (tp_name p)),
             (''training.educates.dev/portal.uid'', tp_uid p),
             (''training.educates.dev/portal.workshop'', te_workshop_name e)]),
          (''ownerReferences'', PList [PDict [
             (''apiVersion'', PStr ''training.educates.dev/v1beta1''), (''kind'', PStr ''TrainingPortal''),
             (''blockOwnerDeletion'', PBool True), (''controller'', PBool True),
             (''name'', PStr (tp_name p)), (''uid'', tp_uid p)]])]),
       (''spec'', PDict ([
          (''workshop'', PDict [(''name'', te_resource_name e)]),
          (''request'', PDict [(''enabled'', PBool False)]),
          (''session'', PDict [(''ingress'', PDict [
             (''domain'', PStr (st_ingress_domain st)), (''secret'', PStr (st_ingress_secret st)),
             (''class'', PStr (st_ingress_class st))])]),
          (''environment'', PDict [(''objects'', PList []), (''secrets'', PList [])]),
          (''registry'', py_or (te_registry e) PNone),
          (''theme'', PDict [(''name'', PStr (st_theme_name st))]),
          (''cookies'', PDict [(''domain'', PStr (st_session_cookie_domain st))])]
          @ analytics_spec st)),
       (''status'', PDict [(''educates'', PDict [
          (''capacity'', PInt (te_capacity e)), (''initial'', PInt (te_initial e)), (''reserved'', PInt (te_reserved e))])])]"

text \<open>The environment object for a configuration entry, before its row has an identifier.\<close>

definition environment_for_entry :: "pyval \<Rightarrow> pyval \<Rightarrow> int \<Rightarrow> environment_record op" where
  "environment_for_entry workshop name position =
     op_bind (duration_setting workshop ''expires'')
  (\<lambda>expires. op_bind (duration_setting workshop ''overtime'')
  (\<lambda>overtime. op_bind (duration_setting workshop ''deadline'')
  (\<lambda>deadline. op_bind (duration_setting workshop ''orphaned'')
  (\<lambda>orphaned. op_bind (duration_setting workshop ''overdue'')
  (\<lambda>overdue. op_bind (duration_setting workshop ''refresh'')
  (\<lambda>refresh. op_bind (op_lift (bindE (py_index workshop ''labels'') labels_dict))
  (\<lambda>labels. op_bind (op_lift (py_index workshop ''name''))
  (\<lambda>resource_name. op_bind (int_setting workshop ''capacity'')
  (\<lambda>capacity. op_bind (int_setting workshop ''initial'')
  (\<lambda>initial. op_bind (int_setting workshop ''reserved'')
  (\<lambda>reserved. op_bind (op_lift (py_index workshop ''registry''))
  (\<lambda>registry. op_bind (op_lift (py_index workshop ''env''))
  (\<lambda>env. op_return
     \<lparr>te_id = 0, te_workshop_name = name, te_resource_name = resource_name, te_workshop = None, te_name = [],
      te_uid = PStr [], te_created_at = 0, te_state = ENV_STARTING, te_position = position, te_capacity = capacity,
      te_initial = initial, te_reserved = reserved, te_expires = expires, te_overtime = overtime,
      te_deadline = (if deadline < expires then expires else deadline), te_orphaned = orphaned, te_overdue = overdue,
      te_refresh = refresh, te_registry = registry, te_env = env, te_labels = labels, te_tally = 0\<rparr>)))))))))))))"

definition process_workshop_environment :: "portal_world \<Rightarrow> portal_record \<Rightarrow> pyval \<Rightarrow> int \<Rightarrow> unit op" where
  "process_workshop_environment w p workshop position =
     atomically (run_hook w)
       (op_bind (op_lift (workshop_alias workshop))
          (\<lambda>name. op_bind (op_bind (op_query (\<lambda>db. environment_for_workshop db name)) op_result)
          (\<lambda>existing. case existing of
             Some e \<Rightarrow> op_return ()
           | None \<Rightarrow>
               op_bind (environment_for_entry workshop name position)
            (\<lambda>e. op_bind (read_clock w)
            (\<lambda>now. op_bind (op_query next_environment_id)
            (\<lambda>n. let e = e\<lparr>te_id := n, te_created_at := now\<rparr>
                  in op_then (save_environment e)
                 (let e = e\<lparr>te_name := tp_name p @ ''-w'' @ padded 2 n\<rparr>
                  in op_bind (kube_do w (KubeCreate (environment_body (pw_settings w) p e)))
                 (\<lambda>obj. op_bind (op_lift (bindE (py_index obj ''metadata'') (\<lambda>m. py_index m ''uid'')))
                 (\<lambda>uid. let e = e\<lparr>te_uid := uid\<rparr>
                         in op_then (save_environment e) (report_environment_event w e ''Environment/Created''))))))))))"

definition initiate_workshop_environments :: "portal_record \<Rightarrow> pyval list \<Rightarrow> unit op" where
  "initiate_workshop_environments p workshops =
     op_each (\<lambda>(position, workshop). schedule (ProcessEnvironment p workshop position)) (enumerate_from_one workshops)"

end
