(* ===== verification/Portal_Cleanup.thy ===== *)
theory Portal_Cleanup
  imports Portal_Sessions
begin

text \<open>
  Expiry of workshop sessions (\<open>manager/cleanup.py\<close>): the purge that looks for sessions to delete, the
  task that deletes one, and the removal of old records. The purge only reads the database; what it
  schedules carries the objects as they were at that time.
\<close>

section \<open>Looking for sessions to delete\<close>

text \<open>Reporting the event loads the environment and the portal of the session, which the task keeps.\<close>

definition schedule_deletion :: "portal_world \<Rightarrow> session_record \<Rightarrow> string \<Rightarrow> unit op" where
  "schedule_deletion w ss event =
     op_bind (session_environment ss)
       (\<lambda>e. op_bind current_portal
          (\<lambda>p. op_then (report_session_event w e ss event) (schedule (DeleteSession ss e p))))"

text \<open>
  Whether the purge asks for the deployed session, and what it makes of the answer: \<open>True\<close> when the
  session has vanished. Other errors of the client library are ignored.
\<close>

definition has_vanished :: "portal_world \<Rightarrow> session_record \<Rightarrow> bool op" where
  "has_vanished w ss =
     (if ts_state ss \<in> {SESSION_STARTING, SESSION_STOPPED} then op_return False
      else op_bind (kube_call_op w (KubeGet ''WorkshopSession'' (ts_name ss)))
        (\<lambda>r. case r of
               Inr v \<Rightarrow> op_return False
             | Inl e \<Rightarrow> if e = ObjectDoesNotExist then op_return True
                        else if is_PyKubeError e then op_return False
                        else op_raise (KubeError e)))"

definition activity_seconds :: "pyval \<Rightarrow> string \<Rightarrow> duration result" where
  "activity_seconds body key = bindE (py_index body key) (\<lambda>v. bindE (py_num v) (\<lambda>n. Inr (seconds n)))"

text \<open>Any exception while asking for the activity is logged and ignored.\<close>

definition check_activity :: "portal_world \<Rightarrow> environment_record \<Rightarrow> session_record \<Rightarrow> unit op" where
  "check_activity w e ss =
     op_try
       (op_bind (http_get w (''http://'' @ ts_name ss @ ''.'' @ te_name e @ ''/session/activity''))
          (\<lambda>r. op_bind (op_lift r)
          (\<lambda>(status_code, body).
             if status_code = 200 then
               op_bind (op_lift (activity_seconds body ''idle-time''))
                 (\<lambda>idle_time. op_bind (op_lift (activity_seconds body ''last-view''))
                    (\<lambda>last_view.
                       if idle_time \<ge> te_orphaned e then schedule_deletion w ss ''Session/Orphaned''
                       else if last_view \<ge> 3 * te_orphaned e then schedule_deletion w ss ''Session/Inactive''
                       else op_return ()))
             else op_return ())))
       (\<lambda>_. op_return ())"

definition is_expired :: "time \<Rightarrow> session_record \<Rightarrow> bool" where
  "is_expired now ss \<longleftrightarrow> (case ts_expires ss of None \<Rightarrow> False | Some t \<Rightarrow> t \<le> now)"

definition purge_session :: "portal_world \<Rightarrow> time \<Rightarrow> session_record \<Rightarrow> unit op" where
  "purge_session w now ss =
     op_bind (has_vanished w ss)
       (\<lambda>vanished.
          if vanished then schedule_deletion w ss ''Session/Vanished''
          else if is_allocated ss \<or> ts_state ss = SESSION_STOPPING then
            (if is_expired now ss then schedule_deletion w ss ''Session/Expired''
             else op_bind (session_environment ss)
               (\<lambda>e. if te_orphaned e \<noteq> 0 \<and> \<not> is_pending ss then check_activity w e ss else op_return ()))
          else op_return ())"

definition purge_expired_workshop_sessions :: "portal_world \<Rightarrow> unit op" where
  "purge_expired_workshop_sessions w =
     atomically (run_hook w)
       (op_bind (read_clock w)
          (\<lambda>now. op_bind (op_query db_sessions) (op_each (purge_session w now))))"

section \<open>Deleting a session\<close>

definition kube_delete :: "portal_world \<Rightarrow> string \<Rightarrow> string \<Rightarrow> unit op" where
  "kube_delete w kind name =
     op_bind (kube_call_op w (KubeGet kind name))
       (\<lambda>r. swallow_api_error r
          (\<lambda>_. op_bind (kube_call_op w (KubeDelete kind name)) (\<lambda>r. swallow_api_error r (\<lambda>_. op_return ()))))"

text \<open>
  \<open>mark_as_stopped\<close>: the application is loaded first, which raises when it is gone; a session without an
  application raises when it comes to delete it.
\<close>

definition save_as_stopped :: "portal_world \<Rightarrow> session_record \<Rightarrow> session_record op" where
  "save_as_stopped w ss =
     op_bind (case ts_application ss of
                None \<Rightarrow> op_return ()
              | Some a \<Rightarrow>
                  op_bind (op_query (\<lambda>db. find_row ap_client_id a (db_applications db)))
                    (\<lambda>row. if row = None then op_raise DoesNotExist else op_return ()))
       (\<lambda>_. op_bind (read_clock w)
       (\<lambda>now. op_then (save_session (mark_as_stopped now ss))
          (op_then (case ts_application ss of
                      None \<Rightarrow> op_raise (PyError AttributeError)
                    | Some a \<Rightarrow> delete_application a)
             (op_return (mark_as_stopped now ss)))))"

definition finish_session :: "portal_world \<Rightarrow> session_record \<Rightarrow> environment_record \<Rightarrow> portal_record \<Rightarrow> unit op" where
  "finish_session w ss e p =
     op_bind (save_as_stopped w ss)
       (\<lambda>ss. op_then (if ts_owner ss = None then op_return () else report_session_event w e ss ''Session/Deleted'')
          (replace_reserved_session w p e))"

definition delete_workshop_session :: "portal_world \<Rightarrow> session_record \<Rightarrow> environment_record \<Rightarrow> portal_record \<Rightarrow> unit op" where
  "delete_workshop_session w ss e p =
     op_then (kube_delete w ''WorkshopSession'' (ts_name ss)) (atomically (run_hook w) (finish_session w ss e p))"

section \<open>Old records\<close>

definition hours :: "int \<Rightarrow> duration" where
  "hours n = seconds (3600 * n)"

definition is_old_session :: "time \<Rightarrow> session_record \<Rightarrow> bool" where
  "is_old_session cutoff ss \<longleftrightarrow> ts_state ss = SESSION_STOPPED \<and> is_expired cutoff ss"

definition delete_session_row :: "session_record \<Rightarrow> unit op" where
  "delete_session_row ss =
     op_db (\<lambda>db. db\<lparr>db_sessions := filter (\<lambda>s. ts_name s \<noteq> ts_name ss) (db_sessions db)\<rparr>)"

definition delete_unused_user :: "portal_world \<Rightarrow> user_record \<Rightarrow> unit op" where
  "delete_unused_user w u =
     op_bind (op_query (\<lambda>db. filter (\<lambda>s. ts_owner s = Some (us_username u)) (db_sessions db)))
       (\<lambda>sessions.
          if sessions \<noteq> [] then op_return ()
          else op_then (report_user_event w (us_username u) ''User/Delete'')
                 (op_db (\<lambda>db. db\<lparr>db_users := filter (\<lambda>v. us_username v \<noteq> us_username u) (db_users db)\<rparr>)))"

definition cleanup_old_sessions_and_users :: "portal_world \<Rightarrow> unit op" where
  "cleanup_old_sessions_and_users w =
     atomically (run_hook w)
       (op_bind (read_clock w)
          (\<lambda>now. let cutoff = now - hours 36
                 in op_bind (op_query (\<lambda>db. filter (is_old_session cutoff) (db_sessions db)))
                      (\<lambda>sessions. op_then (op_each delete_session_row sessions)
                         (op_bind (op_query (\<lambda>db. filter (\<lambda>u. ''anonymous'' \<in> set (us_groups u) \<and> us_date_joined u \<le> cutoff) (db_users db)))
                            (op_each (delete_unused_user w))))))"

end
