(* ===== verification/Portal_Config.thy ===== *)
theory Portal_Config
  imports Portal_Environments Portal_Cleanup
begin

text \<open>
  The configuration of the training portal (\<open>manager/portal.py\<close>): the robot account, the defaults
  filled into the configuration of each workshop, the handlers of the events the portal watches, and the
  periodic reconciliation with the tasks it schedules.
\<close>

section \<open>Configuration of a workshop\<close>

definition get_int :: "pyval \<Rightarrow> string \<Rightarrow> int \<Rightarrow> int result" where
  "get_int workshop key dflt =
     bindE (py_get workshop key) (\<lambda>v. if v = PNone then Inr dflt else py_num v)"

text \<open>
  \<open>capacity\<close>, \<open>reserved\<close> and \<open>initial\<close> with their defaults and limits. An initial count of zero is
  left alone: then reserved sessions are created only after the first request.
\<close>

definition session_counts :: "portal_record \<Rightarrow> pyval \<Rightarrow> (int \<times> int \<times> int) result" where
  "session_counts p workshop =
     bindE (get_int workshop ''capacity'' (tp_default_capacity p))
       (\<lambda>capacity. bindE (get_int workshop ''reserved'' (case tp_default_reserved p of Some n \<Rightarrow> n | None \<Rightarrow> 1))
       (\<lambda>reserved. bindE (get_int workshop ''initial'' (case tp_default_initial p of Some n \<Rightarrow> n | None \<Rightarrow> reserved))
       (\<lambda>initial.
          let capacity = max 0 capacity;
              reserved = max 0 (min reserved capacity);
              initial = max 0 (min initial capacity)
          in Inr (capacity, reserved, if initial \<noteq> 0 then max initial reserved else initial))))"

definition setdefault :: "string \<Rightarrow> pyval \<Rightarrow> (string \<times> pyval) list \<Rightarrow> (string \<times> pyval) list" where
  "setdefault key v d = (if dict_get d key = None then dict_set key v d else d)"

definition with_durations :: "portal_record \<Rightarrow> (string \<times> pyval) list \<Rightarrow> (string \<times> pyval) list" where
  "with_durations p d =
     setdefault ''refresh'' (tp_default_refresh p)
    (setdefault ''overdue'' (tp_default_overdue p)
    (setdefault ''orphaned'' (tp_default_orphaned p)
    (setdefault ''deadline'' (tp_default_deadline p)
    (setdefault ''overtime'' (tp_default_overtime p)
    (setdefault ''expires'' (tp_default_expires p) d)))))"

definition with_deadline :: "(string \<times> pyval) list \<Rightarrow> (string \<times> pyval) list" where
  "with_deadline d =
     (case (dict_get d ''deadline'', dict_get d ''expires'') of
        (Some deadline, Some expires) \<Rightarrow> if deadline = PStr ''0'' then dict_set ''deadline'' expires d else d
      | _ \<Rightarrow> d)"

text \<open>Environment variables of the workshop first, then the portal's for names the workshop does not set.\<close>

definition add_default_env :: "pyval list \<Rightarrow> pyval \<Rightarrow> pyval list \<Rightarrow> pyval list result" where
  "add_default_env names item env =
     bindE (py_index item ''name'')
       (\<lambda>name. if list_ex (py_eq name) names then Inr env
               else bindE (py_get_or item ''value'' (PStr []))
                      (\<lambda>value. Inr (env @ [PDict [(''name'', name), (''value'', value)]])))"

definition merged_env :: "portal_record \<Rightarrow> pyval \<Rightarrow> pyval result" where
  "merged_env p env =
     bindE (py_iter env)
       (\<lambda>items. bindE (mapE (\<lambda>item. py_index item ''name'') items)
          (\<lambda>names. bindE (foldE (add_default_env names) (tp_default_env p) items) (\<lambda>env. Inr (PList env))))"

definition workshop_configuration :: "portal_record \<Rightarrow> pyval \<Rightarrow> pyval result" where
  "workshop_configuration p workshop =
     bindE (session_counts p workshop)
       (\<lambda>(capacity, reserved, initial).
          bindE (py_items workshop)
            (\<lambda>d. let d = dict_set ''initial'' (PInt initial)
                           (dict_set ''reserved'' (PInt reserved) (dict_set ''capacity'' (PInt capacity) d));
                     d = with_deadline (with_durations p d);
                     d = setdefault ''env'' (PList [])
                           (setdefault ''labels'' (PDict []) (setdefault ''registry'' (tp_default_registry p) d))
                 in bindE (py_index (PDict d) ''env'')
                      (\<lambda>env. bindE (merged_env p env) (\<lambda>env. Inr (PDict (dict_set ''env'' env d))))))"

definition workshops_configuration :: "portal_record \<Rightarrow> pyval \<Rightarrow> pyval list result" where
  "workshops_configuration p spec =
     bindE (resource_get spec ''workshops'' PNone)
       (\<lambda>workshops. if truthy workshops
          then bindE (view_obj workshops) (\<lambda>v. bindE (py_iter v) (mapE (workshop_configuration p)))
          else Inr [])"

section \<open>Configuration of the portal\<close>

text \<open>A setting with its old place, which the new place takes precedence over.\<close>

definition default_setting :: "pyval \<Rightarrow> string \<Rightarrow> pyval \<Rightarrow> pyval result" where
  "default_setting spec key dflt =
     bindE (resource_get spec (''portal.'' @ key) dflt) (resource_get spec (''portal.workshop.defaults.'' @ key))"

definition opt_int :: "pyval \<Rightarrow> int option result" where
  "opt_int v = (if v = PNone then Inr None else bindE (py_num v) (\<lambda>n. Inr (Some n)))"

text \<open>A value that is itself a dictionary or list stays wrapped in a view, which JSON cannot store.\<close>

definition flat_value :: "pyval \<Rightarrow> pyval result" where
  "flat_value v = (case v of PDict _ \<Rightarrow> Inl TypeError | PList _ \<Rightarrow> Inl TypeError | _ \<Rightarrow> Inr v)"

definition default_registry :: "pyval \<Rightarrow> pyval result" where
  "default_registry spec =
     bindE (resource_get spec ''portal.workshop.defaults.registry'' (PDict []))
       (\<lambda>v. case v of
              PDict d \<Rightarrow> bindE (mapE (\<lambda>(k, v). flat_value v) d) (\<lambda>_. Inr (PDict d))
            | PList [] \<Rightarrow> Inr (PDict [])
            | _ \<Rightarrow> Inl TypeError)"

definition default_env_entry :: "pyval \<Rightarrow> pyval result" where
  "default_env_entry item =
     bindE (bindE (py_index item ''name'') flat_value)
       (\<lambda>name. bindE (bindE (resource_get item ''value'' (PStr [])) flat_value)
          (\<lambda>value. Inr (PDict [(''name'', name), (''value'', value)])))"

definition default_env :: "pyval \<Rightarrow> pyval list result" where
  "default_env spec =
     bindE (resource_get spec ''portal.workshop.defaults.env'' (PList []))
       (\<lambda>items. bindE (py_iter items) (mapE default_env_entry))"

definition fresh_portal :: "string \<Rightarrow> portal_record" where
  "fresh_portal name =
     \<lparr>tp_name = name, tp_labels = [], tp_uid = PStr [], tp_generation = PInt 0, tp_sessions_maximum = 0,
      tp_sessions_registered = 0, tp_sessions_anonymous = 0, tp_default_labels = [], tp_default_capacity = 0,
      tp_default_reserved = None, tp_default_initial = None, tp_default_expires = PStr [],
      tp_default_overtime = PStr [], tp_default_deadline = PStr [], tp_default_orphaned = PStr [],
      tp_default_overdue = PStr [], tp_default_refresh = PStr [], tp_default_registry = PDict [],
      tp_default_env = [], tp_update_workshop = False\<rparr>"

definition session_limits :: "pyval \<Rightarrow> (int \<times> int \<times> int) result" where
  "session_limits spec =
     bindE (bindE (resource_get spec ''portal.sessions.maximum'' (PInt 0)) py_num)
       (\<lambda>maximum. bindE (bindE (resource_get spec ''portal.sessions.registered'' (PInt 0)) py_num)
       (\<lambda>registered. bindE (bindE (resource_get spec ''portal.sessions.anonymous'' (PInt registered)) py_num)
       (\<lambda>anonymous. Inr (maximum, registered, anonymous))))"

definition configured_portal :: "portal_record \<Rightarrow> pyval \<Rightarrow> pyval \<Rightarrow> pyval \<Rightarrow> portal_record result" where
  "configured_portal p uid generation spec =
     bindE (bindE (resource_obj spec ''portal.labels'' (PList [])) labels_dict)
  (\<lambda>labels. bindE (session_limits spec)
  (\<lambda>(maximum, registered, anonymous). bindE (default_setting spec ''capacity'' (PInt maximum))
  (\<lambda>capacity. bindE (default_setting spec ''reserved'' PNone)
  (\<lambda>reserved. bindE (default_setting spec ''initial'' PNone)
  (\<lambda>initial. bindE (default_setting spec ''expires'' (PStr ''0''))
  (\<lambda>expires. bindE (default_setting spec ''orphaned'' (PStr ''0''))
  (\<lambda>orphaned. bindE (default_setting spec ''overdue'' (PStr ''0''))
  (\<lambda>overdue. bindE (default_setting spec ''refresh'' (PStr ''0''))
  (\<lambda>refresh. bindE (bindE (resource_obj spec ''portal.workshop.defaults.labels'' (PList [])) labels_dict)
  (\<lambda>default_labels. bindE (resource_get spec ''portal.workshop.defaults.overtime'' (PStr ''0''))
  (\<lambda>overtime. bindE (resource_get spec ''portal.workshop.defaults.deadline'' (PStr ''0''))
  (\<lambda>deadline. bindE (default_registry spec)
  (\<lambda>registry. bindE (default_env spec)
  (\<lambda>env. bindE (resource_get spec ''portal.updates.workshop'' (PBool False))
  (\<lambda>update_workshop. bindE (py_num capacity)
  (\<lambda>capacity. bindE (opt_int reserved)
  (\<lambda>reserved. bindE (opt_int initial)
  (\<lambda>initial. Inr (p\<lparr>tp_labels := labels, tp_uid := uid, tp_generation := generation,
      tp_sessions_maximum := maximum, tp_sessions_registered := registered, tp_sessions_anonymous := anonymous,
      tp_default_labels := default_labels, tp_default_capacity := capacity, tp_default_reserved := reserved,
      tp_default_initial := initial, tp_default_expires := expires, tp_default_overtime := overtime,
      tp_default_deadline := deadline, tp_default_orphaned := orphaned, tp_default_overdue := overdue,
      tp_default_refresh := refresh, tp_default_registry := registry, tp_default_env := env,
      tp_update_workshop := truthy update_workshop\<rparr>)))))))))))))))))))"

definition save_portal :: "portal_record \<Rightarrow> unit op" where
  "save_portal p = op_db (\<lambda>db. db\<lparr>db_portal := Some p\<rparr>)"

text \<open>
  \<open>process_training_portal\<close>, inside the transaction of its caller: the portal's row, the environments that
  are no longer configured, those that stay, and the tasks for those that are new. The row that
  \<open>get_or_create\<close> adds with the defaults of the model is written again before the transaction ends.
\<close>

definition process_training_portal :: "portal_world \<Rightarrow> pyval \<Rightarrow> unit op" where
  "process_training_portal w body =
     op_bind (op_query db_portal)
       (\<lambda>row. let known = (row \<noteq> None);
                  p = (case row of Some p \<Rightarrow> p | None \<Rightarrow> fresh_portal (st_portal_name (pw_settings w)))
              in op_bind (op_lift (resource_metadata body ''uid''))
           (\<lambda>uid. if known \<and> tp_uid p \<noteq> uid then op_return ()
             else op_bind (op_lift (resource_metadata body ''generation''))
               (\<lambda>generation. op_bind (op_lift (resource_get body ''spec'' (PDict [])))
               (\<lambda>spec. op_bind (op_lift (configured_portal p uid generation spec))
               (\<lambda>p. op_then (save_portal p)
                 (op_bind (op_lift (workshops_configuration p spec))
                    (\<lambda>workshops.
                       op_then (shutdown_workshop_environments w workshops)
                      (op_then (update_workshop_environments w workshops)
                         (initiate_workshop_environments p workshops)))))))))"

section \<open>The robot account\<close>

definition add_user :: "portal_world \<Rightarrow> string \<Rightarrow> string list \<Rightarrow> user_record op" where
  "add_user w name groups =
     op_bind (op_query (\<lambda>db. name \<in> set (map us_username (db_users db))))
       (\<lambda>taken. if taken then op_raise IntegrityError
          else op_bind (read_clock w)
            (\<lambda>now. let u = \<lparr>us_username = name, us_first_name = [], us_last_name = [], us_email = [],
                            us_is_staff = False, us_is_active = True, us_groups = groups, us_date_joined = now\<rparr>
                   in op_then (save_user u) (op_return u)))"

definition initialize_robot_account :: "portal_world \<Rightarrow> pyval \<Rightarrow> unit op" where
  "initialize_robot_account w body =
     op_bind (op_lift (bindE (resource_status body) (\<lambda>s. resource_get s ''educates'' PNone)))
  (\<lambda>status. op_bind (op_lift (resource_get status ''credentials.robot.username'' PNone))
  (\<lambda>username. op_bind (op_lift (resource_get status ''credentials.robot.password'' PNone))
  (\<lambda>password. op_bind (op_lift (resource_get status ''clients.robot.id'' PNone))
  (\<lambda>client_id. op_bind (op_lift (resource_get status ''clients.robot.secret'' PNone))
  (\<lambda>client_secret. op_bind (op_query (\<lambda>db. find_row ap_name ''robot@educates'' (db_applications db)))
  (\<lambda>known. if known \<noteq> None then op_return ()
     else
       (case username of
          PStr name \<Rightarrow>
            if name = [] then op_raise (PyError ValueError)
            else op_bind (add_user w name [''robots''])
              (\<lambda>u. get_or_create_application
                     \<lparr>ap_name = ''robot@educates'', ap_client_id = py_str client_id, ap_user = us_username u,
                      ap_redirect_uris = [], ap_grant_type = ''password'', ap_client_secret = py_str client_secret\<rparr>)
        | _ \<Rightarrow> op_raise (PyError ValueError))))))))"

section \<open>Events and periodic tasks\<close>

text \<open>The type of a watch event is \<open>None\<close> for a resource that exists when the process starts.\<close>

definition training_portal_event :: "portal_world \<Rightarrow> pyval \<Rightarrow> string \<Rightarrow> pyval \<Rightarrow> unit op" where
  "training_portal_event w event_type name body =
     atomically (run_hook w)
       (op_then (if event_type \<in> {PNone, PStr ''ADDED''}
                 then op_then (schedule (Reconciliation name)) (schedule HourlyCleanup) else op_return ())
         (op_bind (op_lift (bindE (resource_status body) (\<lambda>s. resource_get s ''educates'' PNone)))
            (\<lambda>status. if \<not> truthy status then op_return ()
               else op_then (initialize_robot_account w body) (process_training_portal w body))))"

definition start_reconciliation_task :: "portal_world \<Rightarrow> string \<Rightarrow> unit op" where
  "start_reconciliation_task w name =
     atomically (run_hook w)
       (op_bind (op_query db_portal)
          (\<lambda>row. case row of
             None \<Rightarrow> op_return ()
           | Some p \<Rightarrow>
               if tp_name p \<noteq> name then op_return ()
               else op_each schedule
                      [DeleteEnvironments p, TerminateReserved p, RefreshEnvironments p, InitiateReserved p,
                       PurgeExpired, CleanupOld]))"

text \<open>The loop leaves the handler at the first environment that does not need to be replaced.\<close>

primrec replace_changed :: "portal_world \<Rightarrow> portal_record \<Rightarrow> pyval \<Rightarrow> pyval \<Rightarrow> environment_record list \<Rightarrow> unit op" where
  "replace_changed w p uid generation [] = op_return ()"
| "replace_changed w p uid generation (e # es) =
     (case te_workshop e of
        None \<Rightarrow> op_return ()
      | Some wk \<Rightarrow>
          if wk_uid wk = uid \<and> wk_generation wk = generation then op_return ()
          else op_then (replace_workshop_environment w p e) (replace_changed w p uid generation es))"

definition workshop_event :: "portal_world \<Rightarrow> pyval \<Rightarrow> unit op" where
  "workshop_event w body =
     atomically (run_hook w)
       (op_bind (op_query db_portal)
          (\<lambda>row. case row of
             None \<Rightarrow> op_raise (PyError (TemporaryError 30))
           | Some p \<Rightarrow>
               if \<not> tp_update_workshop p then op_return ()
               else op_bind (op_lift (resource_get body ''metadata.name'' PNone))
                 (\<lambda>name. op_bind (op_lift (resource_metadata body ''uid''))
                 (\<lambda>uid. op_bind (op_lift (resource_metadata body ''generation''))
                 (\<lambda>generation. op_bind (op_query (\<lambda>db. environments_for_resource db name))
                    (replace_changed w p uid generation))))))"

text \<open>Running a task from the queue; its exceptions are logged and end it.\<close>

fun run_task :: "portal_world \<Rightarrow> task \<Rightarrow> unit op" where
  "run_task w (DeleteSession ss e p) = delete_workshop_session w ss e p"
| "run_task w (DeleteEnvironment e) = delete_workshop_environment w e"
| "run_task w (ActivateEnvironment body) = activate_workshop_environment w body"
| "run_task w (ProcessEnvironment p workshop position) = process_workshop_environment w p workshop position"
| "run_task w (DeleteEnvironments p) = delete_workshop_environments w"
| "run_task w (RefreshEnvironments p) = refresh_workshop_environments w p"
| "run_task w (TerminateReserved p) = atomically (run_hook w) (terminate_reserved_sessions w p)"
| "run_task w (InitiateReserved p) = atomically (run_hook w) (initiate_reserved_sessions w p)"
| "run_task w PurgeExpired = purge_expired_workshop_sessions w"
| "run_task w CleanupOld = cleanup_old_sessions_and_users w"
| "run_task w (Reconciliation name) = start_reconciliation_task w name"
| "run_task w HourlyCleanup = op_return ()"

end
