(* ===== verification/Portal_Views.thy ===== *)
theory Portal_Views
  imports Portal_Config
begin

text \<open>
  The web and REST views of the training portal (\<open>views/\<close>). The user of a request is what Django's
  session or the OAuth token identified, \<open>None\<close> when there is none. The views for sessions and
  environments that the code guards with the resources lock and a transaction run as one operation;
  the others write row by row, and their hooks run at once. Instants in an answer are given by their number of
  microseconds, redirects with the query parameters that \<open>update_query_params\<close> adds to the URL, or
  with the session and the user who is logged in on the way to it.
\<close>

section \<open>Requests and answers\<close>

record web_request =
  wr_user :: "user_record option"
  wr_query :: "(string \<times> string) list"
  wr_query_string :: string
  wr_content_type :: string
  wr_json :: "pyval option option"

datatype response =
    Redirect string "(string \<times> string) list"
  | RedirectToSession string "string option"
  | BadRequest string
  | ForbiddenAnswer string
  | ServerError string
  | NotFoundAnswer string
  | JsonAnswer int pyval
  | Page string "(string \<times> pyval) list"

definition query_param :: "web_request \<Rightarrow> string \<Rightarrow> string option" where
  "query_param rq key = map_of (rev (wr_query rq)) key"

definition stripped_param :: "web_request \<Rightarrow> string \<Rightarrow> string" where
  "stripped_param rq key = strip_by str_space (case query_param rq key of None \<Rightarrow> [] | Some v \<Rightarrow> v)"

definition user_name :: "web_request \<Rightarrow> string option" where
  "user_name rq = map_option us_username (wr_user rq)"

definition is_staff :: "web_request \<Rightarrow> bool" where
  "is_staff rq \<longleftrightarrow> (case wr_user rq of None \<Rightarrow> False | Some u \<Rightarrow> us_is_staff u)"

definition is_robot :: "web_request \<Rightarrow> bool" where
  "is_robot rq \<longleftrightarrow> (case wr_user rq of None \<Rightarrow> False | Some u \<Rightarrow> ''robots'' \<in> set (us_groups u))"

definition json_time :: "time option \<Rightarrow> pyval" where
  "json_time t = (case t of None \<Rightarrow> PNone | Some n \<Rightarrow> PInt n)"

definition json_text :: "string option \<Rightarrow> pyval" where
  "json_text t = (case t of None \<Rightarrow> PNone | Some s \<Rightarrow> PStr s)"

fun session_state_name :: "session_state \<Rightarrow> string" where
  "session_state_name SESSION_STARTING = ''STARTING''"
| "session_state_name SESSION_WAITING = ''WAITING''"
| "session_state_name SESSION_RUNNING = ''RUNNING''"
| "session_state_name SESSION_STOPPING = ''STOPPING''"
| "session_state_name SESSION_STOPPED = ''STOPPED''"

fun environment_state_name :: "environment_state \<Rightarrow> string" where
  "environment_state_name ENV_STARTING = ''STARTING''"
| "environment_state_name ENV_RUNNING = ''RUNNING''"
| "environment_state_name ENV_STOPPING = ''STOPPING''"
| "environment_state_name ENV_STOPPED = ''STOPPED''"

text \<open>\<open>urlencode\<close> with \<open>quote_plus\<close>.\<close>

definition hex_digit :: "nat \<Rightarrow> char" where
  "hex_digit n = ''0123456789ABCDEF'' ! (n mod 16)"

definition unreserved :: "char \<Rightarrow> bool" where
  "unreserved c \<longleftrightarrow>
     (let n = (of_char c :: nat)
      in 65 \<le> n \<and> n \<le> 90 \<or> 97 \<le> n \<and> n \<le> 122 \<or> 48 \<le> n \<and> n \<le> 57 \<or> n \<in> {45, 46, 95, 126})"

definition quote_char :: "char \<Rightarrow> string" where
  "quote_char c =
     (if unreserved c then [c] else if c = CHR '' '' then ''+''
      else [CHR ''%'', hex_digit (of_char c div 16), hex_digit (of_char c)])"

definition quote_plus :: "string \<Rightarrow> string" where
  "quote_plus s = concat (map quote_char s)"

definition urlencode :: "(string \<times> string) list \<Rightarrow> string" where
  "urlencode params = join_with CHR ''&'' (map (\<lambda>(k, v). quote_plus k @ ''='' @ quote_plus v) params)"

definition catalog_url :: string where
  "catalog_url = ''/workshops/catalog/''"

definition environment_url :: "string \<Rightarrow> string" where
  "environment_url name = ''/workshops/environment/'' @ name @ ''/''"

definition activate_url :: "string \<Rightarrow> string" where
  "activate_url name = ''/workshops/session/'' @ name @ ''/activate/''"

text \<open>Where a user is sent back to: the portal's index page, if it has one and the user is not staff.\<close>

definition index_redirect :: "portal_world \<Rightarrow> web_request \<Rightarrow> string \<Rightarrow> response" where
  "index_redirect w rq notification =
     (if \<not> is_staff rq \<and> st_portal_index (pw_settings w) \<noteq> []
      then Redirect (st_portal_index (pw_settings w)) [(''notification'', notification)]
      else Redirect catalog_url [(''notification'', notification)])"

section \<open>Views of a session\<close>

text \<open>A stopped session of the user that has an index page to go back to.\<close>

definition stopped_index :: "portal_db \<Rightarrow> string \<Rightarrow> web_request \<Rightarrow> string option" where
  "stopped_index db name rq =
     (case stopped_session_of db name (user_name rq) of
        None \<Rightarrow> None
      | Some ss \<Rightarrow> if ts_index_url ss \<in> {None, Some []} then None else ts_index_url ss)"

definition session_view :: "portal_world \<Rightarrow> web_request \<Rightarrow> string \<Rightarrow> response op" where
  "session_view w rq name =
     atomically (run_hook w)
       (op_bind current_portal (\<lambda>p. op_bind (op_query id)
          (\<lambda>db. case stopped_index db name rq of
             Some url \<Rightarrow> op_return (Redirect url [(''notification'', ''session-deleted'')])
           | None \<Rightarrow>
               (case allocated_session_of db name (user_name rq) of
                  None \<Rightarrow> op_return (index_redirect w rq ''session-invalid'')
                | Some ss \<Rightarrow>
                    op_bind (session_environment ss)
                      (\<lambda>e. let st = pw_settings w
                           in op_return (Page ''workshops/session.html''
                             [(''session_owner'', PStr (case ts_owner ss of None \<Rightarrow> [] | Some u \<Rightarrow> u)),
                              (''session_url'', PStr (st_ingress_protocol st @ ''://'' @ ts_name ss @ ''.'' @ st_ingress_domain st)),
                              (''restart_url'', PStr (portal_url st @ ''/workshops/session/'' @ ts_name ss @ ''/delete/?notification=startup-timeout'')),
                              (''startup_timeout'', PInt (te_overdue e div seconds 1))]))))))"

text \<open>
  Activation: the token of the session opens it to whoever has it, in the name of its owner.
\<close>

definition activate_session :: "portal_world \<Rightarrow> session_record \<Rightarrow> string \<Rightarrow> unit op" where
  "activate_session w ss owner =
     op_bind (session_environment ss)
       (\<lambda>e. op_then (update_session_status w (ts_name ss) ''Allocated'' (Some owner))
           (op_then (report_session_event w e ss ''Session/Started'')
              (op_bind (read_clock w)
                 (\<lambda>now. let ss = mark_as_running e now None ss
                        in op_then (save_session ss) (create_request_resources w e ss)))))"

definition activate_with_token :: "portal_world \<Rightarrow> string option \<Rightarrow> session_record \<Rightarrow> response op" where
  "activate_with_token w access_token ss =
     (if ts_token ss \<noteq> access_token then op_return (BadRequest ''Invalid access token for session'')
      else
        (case ts_owner ss of
           None \<Rightarrow> op_return (ServerError ''No owner defined for session'')
         | Some owner \<Rightarrow>
             op_bind (session_owner ss)
               (\<lambda>u. if \<not> us_is_active u then op_return (ServerError ''Owner for session is not active'')
                    else op_then (if ts_state ss = SESSION_RUNNING then op_return () else activate_session w ss owner)
                           (op_return (RedirectToSession (ts_name ss) (Some owner))))))"

definition session_activate :: "portal_world \<Rightarrow> web_request \<Rightarrow> string \<Rightarrow> response op" where
  "session_activate w rq name =
     (let access_token = query_param rq ''token''
      in if access_token \<in> {None, Some []} then op_return (BadRequest ''No access token supplied'')
         else
           op_bind current_portal (\<lambda>p. op_bind (op_query id)
             (\<lambda>db. case stopped_index db name rq of
                Some url \<Rightarrow> op_return (Redirect url [(''notification'', ''session-deleted'')])
              | None \<Rightarrow>
                  (case allocated_session db name of
                     None \<Rightarrow> op_return (BadRequest ''Invalid session name supplied'')
                   | Some ss \<Rightarrow> activate_with_token w access_token ss))))"

text \<open>Whether the user may act on a session: its owner, a robot account or a staff member.\<close>

definition may_access :: "web_request \<Rightarrow> session_record \<Rightarrow> bool" where
  "may_access rq ss \<longleftrightarrow> is_staff rq \<or> is_robot rq \<or> (user_name rq \<noteq> None \<and> ts_owner ss = user_name rq)"

text \<open>
  The checks the REST views of a session start with: the session exists, is in use (for the views that
  ask for it), and the user may act on it.
\<close>

definition with_accessible_session :: "web_request \<Rightarrow> string \<Rightarrow> (session_record \<Rightarrow> response option) \<Rightarrow> (session_record \<Rightarrow> response op) \<Rightarrow> response op" where
  "with_accessible_session rq name refused f =
     op_bind current_portal (\<lambda>p. op_bind (op_query (\<lambda>db. allocated_session db name))
       (\<lambda>found. case found of
          None \<Rightarrow> op_return (NotFoundAnswer ''Session does not exist'')
        | Some ss \<Rightarrow>
            (case refused ss of
               Some r \<Rightarrow> op_return r
             | None \<Rightarrow>
                 if \<not> may_access rq ss then op_return (ForbiddenAnswer ''Access to session not permitted'')
                 else f ss)))"

definition not_in_use :: "session_record \<Rightarrow> response option" where
  "not_in_use ss = (if is_allocated ss then None else Some (BadRequest ''Session is not currently in use''))"

text \<open>Stopping a session at the request of a user, with the task that deletes it.\<close>

definition stop_session :: "portal_world \<Rightarrow> session_record \<Rightarrow> (task \<Rightarrow> unit op) \<Rightarrow> session_record op" where
  "stop_session w ss hand_over =
     op_bind (read_clock w)
       (\<lambda>now. let ss = mark_as_stopping now ss
              in op_then (save_session ss)
                (op_bind (session_environment ss)
                   (\<lambda>e. op_bind current_portal
                      (\<lambda>p. op_then (report_session_event w e ss ''Session/Stopping'')
                             (op_then (hand_over (DeleteSession ss e p)) (op_return ss))))))"

definition session_terminate :: "portal_world \<Rightarrow> web_request \<Rightarrow> string \<Rightarrow> response op" where
  "session_terminate w rq name =
     with_accessible_session rq name not_in_use
       (\<lambda>ss. op_bind (stop_session w ss schedule)
          (\<lambda>ss. op_return (JsonAnswer 200 (PDict
             [(''started'', json_time (ts_started ss)), (''expires'', json_time (ts_expires ss))]))))"

definition delete_own_session :: "portal_world \<Rightarrow> web_request \<Rightarrow> session_record \<Rightarrow> response op" where
  "delete_own_session w rq ss =
     op_bind (stop_session w ss (\<lambda>t. on_commit (ScheduleTask t)))
       (\<lambda>ss. let notification =
                  (case query_param rq ''notification'' of
                     None \<Rightarrow> ''session-deleted'' | Some n \<Rightarrow> if n = [] then ''session-deleted'' else n)
             in op_return
                  (case ts_index_url ss of
                     None \<Rightarrow> index_redirect w rq notification
                   | Some url \<Rightarrow>
                       if url = [] then index_redirect w rq notification
                       else Redirect url [(''notification'', notification)]))"

definition session_delete :: "portal_world \<Rightarrow> web_request \<Rightarrow> string \<Rightarrow> response op" where
  "session_delete w rq name =
     atomically (run_hook w)
       (op_bind current_portal (\<lambda>p. op_bind (op_query id)
          (\<lambda>db. case stopped_index db name rq of
             Some url \<Rightarrow> op_return (Redirect url [(''notification'', ''session-deleted'')])
           | None \<Rightarrow>
               (case allocated_session_of db name (user_name rq) of
                  None \<Rightarrow> op_return (index_redirect w rq ''session-invalid'')
                | Some ss \<Rightarrow> delete_own_session w rq ss))))"

definition session_authorize :: "web_request \<Rightarrow> string \<Rightarrow> response op" where
  "session_authorize rq name =
     with_accessible_session rq name not_in_use
       (\<lambda>ss. op_return (JsonAnswer 200 (PDict
          [(''owner'', json_text (ts_owner ss)), (''user'', json_text (user_name rq)), (''staff'', PBool (is_staff rq))])))"

definition session_config :: "web_request \<Rightarrow> string \<Rightarrow> response op" where
  "session_config rq name =
     with_accessible_session rq name (\<lambda>ss. None)
       (\<lambda>ss. op_return (JsonAnswer 200 (PDict [(''url'', json_text (ts_url ss)), (''password'', json_text (ts_password ss))])))"

text \<open>The time left and whether it can be extended, for a session that expires.\<close>

definition countdown_details :: "portal_world \<Rightarrow> environment_record \<Rightarrow> session_record \<Rightarrow> int option \<Rightarrow> (string \<times> pyval) list op" where
  "countdown_details w e ss remaining =
     (case remaining of
        None \<Rightarrow> op_return []
      | Some n \<Rightarrow>
          op_bind (read_clock w)
            (\<lambda>now. op_bind (op_lift (is_extension_permitted e now ss))
               (\<lambda>b. op_return [(''countdown'', PInt n), (''extendable'', PBool b)])))"

definition session_times :: "session_record \<Rightarrow> (string \<times> pyval) list" where
  "session_times ss =
     [(''status'', PStr (session_state_name (ts_state ss))),
      (''started'', json_time (ts_started ss)), (''expires'', json_time (ts_expires ss))]"

definition session_schedule :: "portal_world \<Rightarrow> web_request \<Rightarrow> string \<Rightarrow> response op" where
  "session_schedule w rq name =
     with_accessible_session rq name (\<lambda>ss. None)
       (\<lambda>ss. op_bind (session_environment ss)
       (\<lambda>e. op_bind (read_clock w)
       (\<lambda>now. op_bind (read_clock w)
       (\<lambda>later. op_bind (countdown_details w e ss (time_remaining later ss))
          (\<lambda>countdown. op_return (JsonAnswer 200 (PDict
             (session_times ss @ [(''expiring'', PBool (is_expiring e now ss))] @ countdown))))))))"

text \<open>The extension is checked twice, each time with the clock of that moment.\<close>

definition extend_session :: "portal_world \<Rightarrow> environment_record \<Rightarrow> session_record \<Rightarrow> (session_record \<times> bool) op" where
  "extend_session w e ss =
     op_bind (read_clock w)
       (\<lambda>now. op_bind (op_lift (is_extension_permitted e now ss))
       (\<lambda>permitted.
          if \<not> permitted then op_return (ss, False)
          else op_bind (read_clock w)
            (\<lambda>now. op_bind (op_lift (extend_time_remaining e now ss))
               (\<lambda>extended. case extended of
                  None \<Rightarrow> op_return (ss, False)
                | Some ss \<Rightarrow> op_then (save_session ss) (op_return (ss, True))))))"

definition session_extend :: "portal_world \<Rightarrow> web_request \<Rightarrow> string \<Rightarrow> response op" where
  "session_extend w rq name =
     with_accessible_session rq name not_in_use
       (\<lambda>ss. op_bind (session_environment ss)
       (\<lambda>e. op_bind (read_clock w)
       (\<lambda>_. op_bind (extend_session w e ss)
       (\<lambda>(ss, extended). op_bind (read_clock w)
       (\<lambda>now. op_then (if extended then report_session_event w e ss ''Session/Extended'' else op_return ())
         (op_bind (read_clock w)
            (\<lambda>later. op_bind (countdown_details w e ss (time_remaining now ss))
               (\<lambda>countdown. op_return (JsonAnswer 200 (PDict
                  (session_times ss @ [(''extended'', PBool extended), (''expiring'', PBool (is_expiring e later ss))]
                   @ countdown)))))))))))"

definition event_field :: "pyval \<Rightarrow> string \<Rightarrow> pyval \<Rightarrow> pyval result" where
  "event_field message key dflt =
     bindE (py_get_or message ''event'' (PDict [])) (\<lambda>event. py_get_or event key dflt)"

definition session_event :: "portal_world \<Rightarrow> web_request \<Rightarrow> string \<Rightarrow> response op" where
  "session_event w rq name =
     with_accessible_session rq name
       (\<lambda>ss. if ts_owner ss = None then Some (BadRequest ''Session was never allocated'') else None)
       (\<lambda>ss. if wr_content_type rq \<noteq> ''application/json'' then op_return (BadRequest ''No event data provided'')
             else
               (case wr_json rq of
                  Some (Some message) \<Rightarrow>
                    op_bind (op_lift (event_field message ''name'' (PStr [])))
                      (\<lambda>event. op_bind (op_lift (event_field message ''data'' (PDict [])))
                         (\<lambda>data. if \<not> truthy event then op_return (BadRequest ''No event data provided'')
                            else op_bind (session_environment ss)
                              (\<lambda>e. op_then (report_session_event w e ss (py_str event)) (op_return (JsonAnswer 200 (PDict []))))))
                | _ \<Rightarrow> op_raise (PyError ValueError)))"

end
