(* ===== verification/Portal_Catalog.thy ===== *)
theory Portal_Catalog
  imports Portal_Views
begin

text \<open>
  The views for environments, for the catalog and for the sessions of a user: what the REST API reports,
  and how sessions are requested through the web interface and the REST API.
\<close>

section \<open>Details in answers\<close>

definition merged_labels :: "portal_record \<Rightarrow> workshop_record \<Rightarrow> environment_record \<Rightarrow> pyval" where
  "merged_labels p wk e =
     PDict (fold (\<lambda>(k, v). dict_set k v) (te_labels e) (fold (\<lambda>(k, v). dict_set k v) (wk_labels wk) (tp_default_labels p)))"

text \<open>What the three listings say of a workshop, after the names that they report differently.\<close>

definition workshop_details :: "workshop_record \<Rightarrow> pyval \<Rightarrow> (string \<times> pyval) list" where
  "workshop_details wk labels =
     [(''title'', wk_title wk), (''description'', wk_description wk), (''vendor'', wk_vendor wk),
      (''authors'', wk_authors wk), (''difficulty'', wk_difficulty wk), (''duration'', wk_duration wk),
      (''tags'', wk_tags wk), (''labels'', labels), (''logo'', wk_logo wk), (''url'', wk_url wk)]"

definition environment_counts :: "portal_db \<Rightarrow> environment_record \<Rightarrow> (string \<times> pyval) list" where
  "environment_counts db e =
     [(''duration'', whole_seconds (te_expires e)),
      (''capacity'', PInt (te_capacity e)), (''reserved'', PInt (te_reserved e)),
      (''allocated'', PInt (count (allocated_sessions db e))), (''available'', PInt (count (available_sessions db e)))]"

definition expiry_details :: "portal_world \<Rightarrow> environment_record \<Rightarrow> session_record \<Rightarrow> (string \<times> pyval) list op" where
  "expiry_details w e ss =
     op_bind (read_clock w)
       (\<lambda>now. op_bind (countdown_details w e ss (time_remaining now ss))
          (\<lambda>countdown. op_return
             ((if ts_expires ss = None then [] else [(''expires'', json_time (ts_expires ss))]) @ countdown)))"

definition session_data :: "portal_world \<Rightarrow> environment_record \<Rightarrow> session_record \<Rightarrow> pyval op" where
  "session_data w e ss =
     op_bind (session_owner ss)
       (\<lambda>u. op_bind (expiry_details w e ss)
          (\<lambda>times. op_return (PDict
             ([(''name'', PStr (ts_name ss)), (''state'', PStr (session_state_name (ts_state ss))),
               (''namespace'', PStr (ts_name ss)), (''user'', PStr (us_username u)),
               (''started'', json_time (ts_started ss))] @ times))))"

definition collect :: "('a \<Rightarrow> pyval op) \<Rightarrow> 'a list \<Rightarrow> pyval list op" where
  "collect f xs = op_fold (\<lambda>x ys. op_bind (f x) (\<lambda>y. op_return (ys @ [y]))) xs []"

text \<open>The list of the environment's sessions, for robot accounts that ask for it.\<close>

definition sessions_wanted :: "web_request \<Rightarrow> bool" where
  "sessions_wanted rq \<longleftrightarrow>
     is_robot rq \<and> lower (case query_param rq ''sessions'' of None \<Rightarrow> [] | Some v \<Rightarrow> v) \<in> {''true'', ''1''}"

definition sessions_list :: "portal_world \<Rightarrow> web_request \<Rightarrow> environment_record \<Rightarrow> (string \<times> pyval) list op" where
  "sessions_list w rq e =
     (if \<not> sessions_wanted rq then op_return []
      else op_bind (op_query (\<lambda>db. allocated_sessions db e))
        (\<lambda>sessions. op_bind (collect (session_data w e) sessions)
           (\<lambda>data. op_return [(''sessions'', PList data)])))"

text \<open>An environment whose workshop is not known yet makes these views raise.\<close>

definition environment_status :: "portal_world \<Rightarrow> web_request \<Rightarrow> string \<Rightarrow> response op" where
  "environment_status w rq name =
     atomically (run_hook w)
       (if \<not> is_robot rq then op_return (ForbiddenAnswer ''Status requests not permitted'')
        else op_bind current_portal (\<lambda>p. op_bind (op_query id)
          (\<lambda>db. op_bind (op_result (at_most_one (filter (\<lambda>e. te_name e = name) (db_environments db))))
             (\<lambda>found. case found of
                None \<Rightarrow> op_return (ForbiddenAnswer ''Environment does not exist'')
              | Some e \<Rightarrow>
                  op_bind (environment_workshop e)
                    (\<lambda>wk. op_bind (sessions_list w rq e)
                       (\<lambda>sessions. op_return (JsonAnswer 200 (PDict
                          ([(''name'', PStr (te_name e)), (''state'', PStr (environment_state_name (te_state e))),
                            (''workshop'', PDict ((''name'', wk_name wk) # workshop_details wk (merged_labels p wk e)))]
                           @ sessions @ environment_counts db e)))))))))"

section \<open>The catalog\<close>

definition portal_details :: "portal_settings \<Rightarrow> portal_record \<Rightarrow> portal_db \<Rightarrow> pyval" where
  "portal_details st p db =
     PDict [(''name'', PStr (st_portal_name st)), (''labels'', PDict (tp_labels p)), (''uid'', tp_uid p),
       (''generation'', tp_generation p), (''url'', PStr (portal_url st)),
       (''sessions'', PDict [
          (''maximum'', PInt (tp_sessions_maximum p)), (''registered'', PInt (tp_sessions_registered p)),
          (''anonymous'', PInt (tp_sessions_anonymous p)),
          (''allocated'', PInt (count (portal_allocated_sessions db)))])]"

text \<open>
  The filters of the listing: states for robot accounts only, names, and labels, of which the last value
  given counts. Parsing the query string is left to the caller.
\<close>

record catalog_query =
  cq_states :: "string list"
  cq_names :: "string list"
  cq_labels :: "(string \<times> string) list"

definition wanted_states :: "web_request \<Rightarrow> catalog_query \<Rightarrow> environment_state list" where
  "wanted_states rq q =
     (let given = map lower (cq_states q);
          states = (if is_robot rq
                    then filter (\<lambda>s. lower (environment_state_name s) \<in> set given)
                           [ENV_STARTING, ENV_RUNNING, ENV_STOPPING, ENV_STOPPED]
                    else [])
      in if states = [] then [ENV_RUNNING] else states)"

definition matches_query :: "catalog_query \<Rightarrow> workshop_record \<Rightarrow> pyval \<Rightarrow> bool" where
  "matches_query q wk labels \<longleftrightarrow>
     (cq_names q = [] \<or> wk_name wk \<in> PStr ` set (cq_names q))
     \<and> (\<forall>(k, v)\<in>set (cq_labels q). py_get labels k = Inr (PStr v))"

definition environment_entry :: "portal_world \<Rightarrow> web_request \<Rightarrow> portal_record \<Rightarrow> catalog_query \<Rightarrow> environment_record \<Rightarrow> pyval list \<Rightarrow> pyval list op" where
  "environment_entry w rq p q e entries =
     op_bind (environment_workshop e)
       (\<lambda>wk. let labels = merged_labels p wk e
              in if \<not> matches_query q wk labels then op_return entries
                 else op_bind (op_query id)
                   (\<lambda>db. op_bind (sessions_list w rq e)
                      (\<lambda>sessions. op_return (entries @ [PDict
                         ([(''name'', PStr (te_name e)), (''state'', PStr (environment_state_name (te_state e))),
                           (''workshop'', PDict ((''name'', te_workshop_name e) # (''resource'', te_resource_name e)
                              # workshop_details wk labels))]
                          @ environment_counts db e @ sessions)]))))"

definition catalog_environments :: "portal_world \<Rightarrow> web_request \<Rightarrow> catalog_query \<Rightarrow> response op" where
  "catalog_environments w rq q =
     op_bind current_portal (\<lambda>p. op_bind (op_query (\<lambda>db. environments_in_state db (wanted_states rq q)))
       (\<lambda>es. op_bind (op_fold (environment_entry w rq p q) es [])
          (\<lambda>entries. op_bind (op_query id)
             (\<lambda>db. op_return (JsonAnswer 200 (PDict
                [(''portal'', portal_details (pw_settings w) p db), (''environments'', PList entries)]))))))"

definition workshop_entry :: "portal_record \<Rightarrow> portal_db \<Rightarrow> environment_record \<Rightarrow> pyval op" where
  "workshop_entry p db e =
     op_bind (environment_workshop e)
       (\<lambda>wk. op_return (PDict
          ([(''name'', te_workshop_name e), (''resource'', te_resource_name e)]
           @ workshop_details wk (merged_labels p wk e)
           @ [(''environment'', PDict
                ([(''name'', PStr (te_name e)), (''state'', PStr (environment_state_name (te_state e)))]
                 @ environment_counts db e))])))"

definition catalog_workshops :: "portal_world \<Rightarrow> response op" where
  "catalog_workshops w =
     op_bind current_portal (\<lambda>p. op_bind (op_query id)
       (\<lambda>db. op_bind (collect (workshop_entry p db) (running_environments db))
          (\<lambda>entries. op_return (JsonAnswer 200 (PDict
             [(''portal'', portal_details (pw_settings w) p db), (''workshops'', PList entries)])))))"

section \<open>The sessions of a user\<close>

definition user_session_entry :: "portal_world \<Rightarrow> string \<Rightarrow> environment_record \<Rightarrow> pyval list \<Rightarrow> pyval list op" where
  "user_session_entry w user e sessions =
     op_bind (op_query (\<lambda>db. allocated_session_for_user db e user))
       (\<lambda>found. case found of
          None \<Rightarrow> op_return sessions
        | Some ss \<Rightarrow>
            op_bind (environment_workshop e)
              (\<lambda>wk. op_bind (expiry_details w e ss)
                 (\<lambda>times. op_return (sessions @ [PDict
                    ([(''name'', PStr (ts_name ss)), (''namespace'', PStr (ts_name ss)), (''workshop'', wk_name wk),
                      (''environment'', PStr (te_name e)), (''started'', json_time (ts_started ss))] @ times)]))))"

definition user_sessions :: "portal_world \<Rightarrow> web_request \<Rightarrow> string \<Rightarrow> response op" where
  "user_sessions w rq name =
     (if \<not> is_robot rq then op_return (ForbiddenAnswer ''Session requests not permitted'')
      else op_bind (op_query id)
        (\<lambda>db. let answer = (\<lambda>sessions. JsonAnswer 200 (PDict [(''user'', PStr name), (''sessions'', PList sessions)]))
              in if find_row us_username name (db_users db) = None then op_return (answer [])
                 else op_bind (op_fold (user_session_entry w name) (db_environments db) [])
                        (\<lambda>sessions. op_return (answer sessions))))"

section \<open>Requests for a session\<close>

definition web_session_request :: "string \<Rightarrow> session_request" where
  "web_session_request index_url =
     \<lparr>rq_token = None, rq_timeout = None, rq_params = [], rq_index_url = Some index_url, rq_analytics_url = None\<rparr>"

definition back_to_index :: "portal_world \<Rightarrow> web_request \<Rightarrow> string \<Rightarrow> string \<Rightarrow> response" where
  "back_to_index w rq index_url notification =
     (if index_url \<noteq> [] then Redirect index_url [(''notification'', notification)] else index_redirect w rq notification)"

text \<open>The web interface; the user is logged in.\<close>

definition environment_view :: "portal_world \<Rightarrow> web_request \<Rightarrow> user_record \<Rightarrow> string \<Rightarrow> response op" where
  "environment_view w rq user name =
     atomically (run_hook w)
       (let index_url = stripped_param rq ''index_url''
        in op_bind (op_query (\<lambda>db. at_most_one (filter (\<lambda>e. te_name e = name) (db_environments db))))
             (\<lambda>found. op_bind (op_result found)
             (\<lambda>found. case found of
                None \<Rightarrow> op_return (back_to_index w rq index_url ''workshop-invalid'')
              | Some e \<Rightarrow>
                  op_bind current_portal
                    (\<lambda>p. op_bind (retrieve_session_for_user w p e user None (web_session_request index_url))
                       (\<lambda>ss. op_return (case ss of
                               Some ss \<Rightarrow> RedirectToSession (ts_name ss) None
                             | None \<Rightarrow> back_to_index w rq index_url ''session-unavailable''))))))"

text \<open>Anonymous users are logged in with a fresh account.\<close>

definition environment_create :: "portal_world \<Rightarrow> web_request \<Rightarrow> string \<Rightarrow> response op" where
  "environment_create w rq name =
     atomically (run_hook w)
       (let onwards = Redirect (environment_url name) [(''index_url'', stripped_param rq ''index_url'')];
            st = pw_settings w
        in if wr_user rq \<noteq> None then op_return onwards
           else if st_enable_registration st \<noteq> ''true'' \<or> st_registration_type st \<noteq> ''anonymous''
           then op_return (Redirect ''login'' [])
           else op_bind (random_text w 36)
             (\<lambda>uid. op_bind (add_user w (''anon@educates:'' @ uid) [''anonymous''])
                (\<lambda>u. op_then (report_user_event w (us_username u) ''User/Create'') (op_return onwards))))"

text \<open>
  The parameters in the body of a REST request: \<open>None\<close> is the answer \<open>400\<close>. An item that is not a
  dictionary raises.
\<close>

definition param_ok :: "pyval \<Rightarrow> bool result" where
  "param_ok item =
     bindE (py_get_or item ''name'' (PStr []))
       (\<lambda>key. bindE (py_get_or item ''value'' (PStr []))
          (\<lambda>value. Inr (truthy key \<and> (case (key, value) of (PStr _, PStr _) \<Rightarrow> True | _ \<Rightarrow> False))))"

definition request_params :: "pyval option option \<Rightarrow> (string + pyval list) result" where
  "request_params body =
     (case body of
        None \<Rightarrow> Inr (Inr [])
      | Some None \<Rightarrow> Inr (Inl ''Invalid JSON request payload'')
      | Some (Some (PDict d)) \<Rightarrow>
          (case (case dict_get d ''parameters'' of None \<Rightarrow> PList [] | Some v \<Rightarrow> v) of
             PList items \<Rightarrow>
               bindE (allE param_ok items)
                 (\<lambda>ok. Inr (if ok then Inr items else Inl ''Malformed JSON request payload''))
           | _ \<Rightarrow> Inr (Inl ''Malformed JSON request payload''))
      | Some (Some _) \<Rightarrow> Inr (Inl ''Malformed JSON request payload''))"

definition first_of :: "string \<Rightarrow> string \<Rightarrow> string" where
  "first_of a b = (if a \<noteq> [] then a else b)"

text \<open>\<open>create_user\<close> with the details of the request, in the group of anonymous users.\<close>

definition user_for_request :: "portal_world \<Rightarrow> web_request \<Rightarrow> string \<Rightarrow> user_record op" where
  "user_for_request w rq name =
     op_bind (op_query (\<lambda>db. find_row us_username name (db_users db)))
       (\<lambda>found. case found of
          Some u \<Rightarrow> op_return u
        | None \<Rightarrow>
            op_bind (add_user w name [''anonymous''])
              (\<lambda>u. let u = u\<lparr>us_email := stripped_param rq ''email'',
                            us_first_name := first_of (stripped_param rq ''first_name'') (stripped_param rq ''firstname''),
                            us_last_name := first_of (stripped_param rq ''last_name'') (stripped_param rq ''lastname'')\<rparr>
                    in op_then (save_user u)
                      (op_then (report_user_event w name ''User/Create'') (op_return u))))"

definition request_answer :: "user_record \<Rightarrow> environment_record \<Rightarrow> workshop_record \<Rightarrow> string \<Rightarrow> session_record \<Rightarrow> string \<Rightarrow> response" where
  "request_answer user e wk index_url ss token =
     JsonAnswer 200 (PDict
       [(''name'', PStr (ts_name ss)), (''session'', PStr (ts_name ss)), (''user'', PStr (us_username user)),
        (''url'', PStr (activate_url (ts_name ss) @ ''?'' @ urlencode [(''token'', token), (''index_url'', index_url)])),
        (''namespace'', PStr (ts_name ss)), (''workshop'', wk_name wk), (''environment'', PStr (te_name e))])"

definition unavailable :: "string \<Rightarrow> response" where
  "unavailable msg = JsonAnswer 503 (PDict [(''error'', PStr msg)])"

definition request_session :: "portal_world \<Rightarrow> web_request \<Rightarrow> environment_record \<Rightarrow> string \<Rightarrow> int \<Rightarrow> pyval list \<Rightarrow> user_record \<Rightarrow> response op" where
  "request_session w rq e index_url timeout params user =
     (if us_is_staff user \<or> ''robots'' \<in> set (us_groups user)
      then op_return (BadRequest ''Session requests not permitted for user'')
      else op_bind (random_text w 32)
        (\<lambda>token. op_bind current_portal
        (\<lambda>p. op_bind (retrieve_session_for_user w p e user (query_param rq ''session'')
               \<lparr>rq_token = Some token, rq_timeout = Some timeout, rq_params = params, rq_index_url = Some index_url,
                rq_analytics_url = Some (stripped_param rq ''analytics_url'')\<rparr>)
        (\<lambda>found. case found of
           None \<Rightarrow> op_return (unavailable ''No session available'')
         | Some ss \<Rightarrow>
             (case ts_token ss of
                None \<Rightarrow> op_return (unavailable ''Cannot be reacquired'')
              | Some t \<Rightarrow>
                  if t = [] then op_return (unavailable ''Cannot be reacquired'')
                  else op_bind (environment_workshop e)
                    (\<lambda>wk. op_return (request_answer user e wk index_url ss t)))))))"

definition environment_request :: "portal_world \<Rightarrow> web_request \<Rightarrow> string \<Rightarrow> response op" where
  "environment_request w rq name =
     atomically (run_hook w)
       (if \<not> is_robot rq then op_return (ForbiddenAnswer ''Session requests not permitted'')
        else op_bind (op_query (\<lambda>db. at_most_one (filter (\<lambda>e. te_name e = name) (db_environments db))))
          (\<lambda>found. op_bind (op_result found)
          (\<lambda>found. case found of
             None \<Rightarrow> op_return (ForbiddenAnswer ''Environment does not exist'')
           | Some e \<Rightarrow>
               (let index_url = first_of (stripped_param rq ''index_url'') (stripped_param rq ''redirect_url'');
                    email = stripped_param rq ''email''
                in if index_url = [] then op_return (BadRequest ''Need redirect URL for workshop index'')
                   else op_bind (if stripped_param rq ''user'' = [] then random_text w 36 else op_return (stripped_param rq ''user''))
                     (\<lambda>username.
                        if email \<noteq> [] \<and> \<not> pw_valid_email w email then op_return (BadRequest ''Invalid email address provided'')
                        else op_bind (op_lift (py_int (strip_by str_space
                               (case query_param rq ''timeout'' of None \<Rightarrow> ''60'' | Some t \<Rightarrow> t))))
                          (\<lambda>timeout. op_bind (op_lift (request_params (wr_json rq)))
                             (\<lambda>params. case params of
                                Inl msg \<Rightarrow> op_return (BadRequest msg)
                              | Inr params \<Rightarrow>
                                  op_bind (user_for_request w rq username)
                                    (request_session w rq e index_url timeout params))))))))"

end
