(* ===== verification/Portal_Capacity.thy ===== *)
theory Portal_Capacity
  imports Portal_Catalog
begin

text \<open>
  The steps of the training portal, and its limit on sessions: whatever the order of web requests, events
  and background tasks, the sessions given to users never exceed the portal's maximum.
\<close>

section \<open>Operations that only have outside effects\<close>

definition quiet :: "'a op \<Rightarrow> bool" where
  "quiet m \<longleftrightarrow> (\<forall>s. \<exists>l. snd (m s) = s\<lparr>ps_log := l\<rparr>)"

named_theorems quiet_intros \<open>operations that only have outside effects\<close>

lemma quietD: "quiet m \<Longrightarrow> m s = (r, t) \<Longrightarrow> \<exists>l. t = s\<lparr>ps_log := l\<rparr>"
  unfolding quiet_def by (metis snd_conv)

lemma quietI: "(\<And>s. \<exists>l. snd (m s) = s\<lparr>ps_log := l\<rparr>) \<Longrightarrow> quiet m"
  unfolding quiet_def by blast

lemma quiet_same: "\<exists>l. s = s\<lparr>ps_log := l\<rparr>"
  by (rule exI [of _ "ps_log s"]) simp

lemma quiet_basic [quiet_intros]:
  "quiet (op_return x)" "quiet (op_raise e)" "quiet (op_query f)" "quiet (op_lift r)" "quiet (op_result q)"
  "quiet (log_effect f')" "quiet (read_clock w)" "quiet (random_text w n)" "quiet (generate_text w v)"
  "quiet (http_get w url)" "quiet (kube_call_op w f')"
  by (auto simp: quiet_def op_return_def op_raise_def op_query_def op_lift_def op_result_def log_effect_def
      read_clock_def random_text_def generate_text_def http_get_def kube_call_op_def
      intro: quiet_same split: sum.splits)

lemma quiet_bind [quiet_intros]:
  assumes "quiet m" and "\<And>x. quiet (f x)"
  shows "quiet (op_bind m f)"
proof (rule quietI)
  fix s
  obtain r t where m: "m s = (r, t)" by force
  from quietD [OF assms(1) m] obtain l where t: "t = s\<lparr>ps_log := l\<rparr>" by blast
  show "\<exists>l. snd (op_bind m f s) = s\<lparr>ps_log := l\<rparr>"
  proof (cases r)
    case (Inl e)
    with m t show ?thesis by (auto simp: op_bind_def)
  next
    case (Inr x)
    from assms(2) [of x] obtain l' where "snd (f x t) = t\<lparr>ps_log := l'\<rparr>" unfolding quiet_def by blast
    with m t Inr show ?thesis by (auto simp: op_bind_def)
  qed
qed

lemma quiet_then [quiet_intros]: "quiet m \<Longrightarrow> quiet k \<Longrightarrow> quiet (op_then m k)"
  unfolding op_then_def by (rule quiet_bind)

lemma quiet_fold [quiet_intros]: "(\<And>x u. quiet (f x u)) \<Longrightarrow> quiet (op_fold f xs u)"
  by (induction xs arbitrary: u) (simp_all add: quiet_intros)

lemma quiet_each [quiet_intros]: "(\<And>x. quiet (f x)) \<Longrightarrow> quiet (op_each f xs)"
  by (induction xs) (simp_all add: quiet_intros)

lemma quiet_if [quiet_intros]: "quiet m \<Longrightarrow> quiet k \<Longrightarrow> quiet (if b then m else k)"
  by simp

lemma quiet_option [quiet_intros]:
  "quiet m \<Longrightarrow> (\<And>y. quiet (f y)) \<Longrightarrow> quiet (case x of None \<Rightarrow> m | Some y \<Rightarrow> f y)"
  by (cases x) simp_all

lemma quiet_sum [quiet_intros]:
  "(\<And>y. quiet (f y)) \<Longrightarrow> (\<And>y. quiet (g y)) \<Longrightarrow> quiet (case x of Inl y \<Rightarrow> f y | Inr y \<Rightarrow> g y)"
  by (cases x) simp_all

lemma quiet_pair [quiet_intros]: "(\<And>a b. quiet (f a b)) \<Longrightarrow> quiet (case x of (a, b) \<Rightarrow> f a b)"
  by (cases x) simp_all

lemma quiet_let [quiet_intros]: "(\<And>y. quiet (f y)) \<Longrightarrow> quiet (let y = x in f y)"
  by simp

lemma quiet_keeps: "quiet m \<Longrightarrow> log_free I \<Longrightarrow> keeps I m"
  by (rule keepsI) (metis quiet_def log_free_def)

lemma quiet_operations [quiet_intros]:
  "quiet (kube_do w f')" "quiet (swallow_api_error r (\<lambda>_. op_return ()))" "quiet (session_environment ss)"
  "quiet current_portal" "quiet (report_session_event w e ss event)" "quiet (report_environment_event w e event)"
  "quiet (report_user_event w user event)" "quiet (session_owner ss)" "quiet (environment_workshop e)"
  by (auto simp: kube_do_def swallow_api_error_def session_environment_def current_portal_def
      report_session_event_def report_environment_event_def report_user_event_def session_owner_def
      environment_workshop_def intro!: quiet_intros)

lemma quiet_swallow [quiet_intros]: "(\<And>v. quiet (f v)) \<Longrightarrow> quiet (swallow_api_error r f)"
  unfolding swallow_api_error_def by (intro quiet_intros)

lemma quiet_reports [quiet_intros]:
  "quiet (update_session_status w name phase user)" "quiet (update_environment_status w name phase)"
  "quiet (update_environment_status_details w name c k)" "quiet (kube_delete w kind name)"
  "quiet (delete_workshop_environment w e)"
  unfolding update_session_status_def update_environment_status_def update_environment_status_details_def
    kube_delete_def delete_workshop_environment_def
  by (intro quiet_intros)+

lemma quiet_request [quiet_intros]:
  "quiet (resolve_request_params w wk params)" "quiet (with_request w e rq ss)"
  "quiet (create_request_resources w e ss)"
proof -
  have "quiet (default_value w v)" for v unfolding default_value_def by (intro quiet_intros)
  then have "quiet (add_default_param w v ps)" for v ps
    unfolding add_default_param_def by (intro quiet_intros)
  then show resolve: "quiet (resolve_request_params w wk params)" for wk params
    unfolding resolve_request_params_def by (intro quiet_intros)
  show "quiet (with_request w e rq ss)" unfolding with_request_def by (intro quiet_intros resolve)
  show "quiet (create_request_resources w e ss)"
    unfolding create_request_resources_def by (intro quiet_intros)
qed

section \<open>The load of the portal\<close>

text \<open>
  The sessions that users have and those in reserve. A reserved session that is already stopping does
  not count, since \<open>create_session_for_user\<close> gives its place away before it is gone.
\<close>

definition counted :: "session_record \<Rightarrow> bool" where
  "counted ss \<longleftrightarrow> is_allocated ss \<or> is_available ss"

definition load :: "portal_db \<Rightarrow> int" where
  "load db = count (filter counted (db_sessions db))"

definition session_names :: "portal_db \<Rightarrow> string list" where
  "session_names db = map ts_name (db_sessions db)"

definition has_counted :: "portal_db \<Rightarrow> string \<Rightarrow> bool" where
  "has_counted db n \<longleftrightarrow> (\<exists>ss\<in>set (db_sessions db). ts_name ss = n \<and> counted ss)"

lemma load_replace_row:
  assumes "distinct (map ts_name rows)" and "r \<in> set rows" and r: "ts_name r = ts_name ss"
  shows "count (filter counted (save_row ts_name ss rows)) =
           count (filter counted rows) - of_bool (counted r) + of_bool (counted ss)"
proof -
  from assms(2) obtain xs ys where rows: "rows = xs @ r # ys" by (meson split_list)
  with assms(1) r have "ts_name ss \<notin> ts_name ` set xs" and "ts_name ss \<notin> ts_name ` set ys"
    by auto
  then have other: "ts_name x \<noteq> ts_name ss" if "x \<in> set xs \<or> x \<in> set ys" for x
    using that by (metis imageI)
  then have "map (\<lambda>x. if ts_name x = ts_name ss then ss else x) xs = xs"
    and "map (\<lambda>x. if ts_name x = ts_name ss then ss else x) ys = ys"
    by (auto intro!: map_idI)
  then have saved: "save_row ts_name ss rows = xs @ ss # ys"
    using r by (simp add: save_row_def rows)
  show ?thesis unfolding saved unfolding rows by (simp add: count_def)
qed

lemma load_save_row:
  assumes "distinct (map ts_name rows)"
  shows "count (filter counted (save_row ts_name ss rows)) \<le>
           count (filter counted rows) + of_bool (counted ss \<and> \<not> (\<exists>r\<in>set rows. ts_name r = ts_name ss \<and> counted r))"
proof (cases "ts_name ss \<in> ts_name ` set rows")
  case False
  then have "save_row ts_name ss rows = rows @ [ss]" by (simp add: save_row_def)
  moreover from False have "\<not> (\<exists>r\<in>set rows. ts_name r = ts_name ss \<and> counted r)" by (metis imageI)
  ultimately show ?thesis by (simp add: count_def)
next
  case True
  then obtain r where r: "r \<in> set rows" "ts_name r = ts_name ss" by force
  with assms have "\<exists>q\<in>set rows. ts_name q = ts_name ss \<and> counted q \<Longrightarrow> counted r"
    by (metis eq_key_imp_eq_value inj_onD distinct_map)
  with load_replace_row [OF assms r] show ?thesis using r by (cases "counted r") auto
qed

lemma save_row_keys: "map key (save_row key r rows) = (if key r \<in> key ` set rows then map key rows else map key rows @ [key r])"
  by (auto simp: save_row_def)

lemma save_row_has:
  assumes "has_counted db n" and "ts_name ss = n \<Longrightarrow> counted ss"
  shows "has_counted (db\<lparr>db_sessions := save_row ts_name ss (db_sessions db)\<rparr>) n"
proof -
  from assms(1) obtain r where r: "r \<in> set (db_sessions db)" "ts_name r = n" "counted r"
    unfolding has_counted_def by blast
  show ?thesis
  proof (cases "ts_name ss = n")
    case True
    with r have "ss \<in> set (save_row ts_name ss (db_sessions db))" by (auto simp: save_row_def image_iff)
    with True assms(2) show ?thesis unfolding has_counted_def by auto
  next
    case False
    with r(1,2) have "r \<in> set (save_row ts_name ss (db_sessions db))" by (force simp: save_row_def)
    with r show ?thesis unfolding has_counted_def by auto
  qed
qed


section \<open>Staying within the maximum\<close>

text \<open>
  Every portal object a pending task or hook carries has the maximum \<open>M\<close>.
\<close>

fun task_portal :: "task \<Rightarrow> portal_record option" where
  "task_portal (DeleteSession ss e p) = Some p"
| "task_portal (ProcessEnvironment p workshop position) = Some p"
| "task_portal (DeleteEnvironments p) = Some p"
| "task_portal (RefreshEnvironments p) = Some p"
| "task_portal (TerminateReserved p) = Some p"
| "task_portal (InitiateReserved p) = Some p"
| "task_portal _ = None"

definition task_ok :: "int \<Rightarrow> task \<Rightarrow> bool" where
  "task_ok M t \<longleftrightarrow> (\<forall>p. task_portal t = Some p \<longrightarrow> tp_sessions_maximum p = M)"

fun hook_names :: "hook \<Rightarrow> string set" where
  "hook_names (CreateSession n secret) = {n}"
| "hook_names (CreateSessions sessions) = fst ` set sessions"
| "hook_names _ = {}"

fun hook_ok :: "int \<Rightarrow> hook \<Rightarrow> bool" where
  "hook_ok M (ScheduleTask t) = task_ok M t"
| "hook_ok M _ = True"

definition side :: "int \<Rightarrow> portal_state \<Rightarrow> bool" where
  "side M s \<longleftrightarrow> (\<forall>t\<in>set (ps_tasks s). task_ok M t) \<and> (\<forall>h\<in>set (ps_hooks s). hook_ok M h)"

text \<open>
  \<open>within M k N H\<close>: there is room for \<open>k\<close> more sessions under the maximum, the sessions named in \<open>N\<close> are
  counted, and the hooks deploy sessions named in \<open>H\<close> only.
\<close>

definition within :: "int \<Rightarrow> nat \<Rightarrow> string set \<Rightarrow> string set \<Rightarrow> portal_state \<Rightarrow> bool" where
  "within M k N H s \<longleftrightarrow>
     side M s \<and> load (ps_db s) + int k \<le> M \<and> (\<forall>p. db_portal (ps_db s) = Some p \<longrightarrow> tp_sessions_maximum p = M)
     \<and> distinct (session_names (ps_db s)) \<and> (\<forall>n\<in>N. has_counted (ps_db s) n)
     \<and> (\<forall>h\<in>set (ps_hooks s). hook_names h \<subseteq> H)"

lemma within_side: "within M k N H s \<Longrightarrow> side M s"
  by (simp add: within_def)

lemma within_log_free [simp]: "log_free (within M k N H)"
  by (simp add: log_free_def within_def side_def)

lemma within_log_free' [simp]: "log_free (\<lambda>s. within M k N H s \<and> ps_db s = db)"
  unfolding log_free_def within_def side_def by auto

lemma within_mono:
  "within M k N H s \<Longrightarrow> k' \<le> k \<Longrightarrow> N' \<subseteq> N \<Longrightarrow> H \<subseteq> H' \<Longrightarrow> within M k' N' H' s"
  unfolding within_def by fastforce

text \<open>Rules for postconditions that leave \<open>side\<close> behind when they raise.\<close>

lemma ensures_bind_quiet:
  assumes "quiet m" and "log_free P" and "\<And>s. P s \<Longrightarrow> E s"
    and "\<And>x s t. m s = (Inr x, t) \<Longrightarrow> ensures P (f x) Q E"
  shows "ensures P (op_bind m f) Q E"
proof (rule ensures_bind)
  show "ensures P m (\<lambda>x s. P s \<and> (\<exists>s t. m s = (Inr x, t))) E"
    using assms(1,2,3) by (intro ensuresI) (metis quietD log_free_def)+
  fix x
  show "ensures (\<lambda>s. P s \<and> (\<exists>s t. m s = (Inr x, t))) (f x) Q E"
  proof (cases "\<exists>s t. m s = (Inr x, t)")
    case True
    then obtain s t where "m s = (Inr x, t)" by blast
    from assms(4) [OF this] show ?thesis by (rule ensures_weaken) simp_all
  qed (simp add: ensures_def)
qed

lemma ensures_then_quiet:
  "quiet m \<Longrightarrow> log_free P \<Longrightarrow> (\<And>s. P s \<Longrightarrow> E s) \<Longrightarrow> ensures P k Q E \<Longrightarrow> ensures P (op_then m k) Q E"
  unfolding op_then_def by (rule ensures_bind_quiet)

lemma ensures_bind_query:
  assumes "\<And>db. ensures (\<lambda>s. P s \<and> ps_db s = db) (g (f db)) Q E"
  shows "ensures P (op_bind (op_query f) g) Q E"
  using assms unfolding ensures_def op_bind_def op_query_def by fastforce

lemma ensures_quiet: "quiet m \<Longrightarrow> log_free P \<Longrightarrow> (\<And>s. P s \<Longrightarrow> E s) \<Longrightarrow> ensures P m (\<lambda>_. P) E"
  by (intro ensuresI) (metis quietD log_free_def)+

lemma ensures_keeps: "keeps I m \<Longrightarrow> (\<And>s. I s \<Longrightarrow> E s) \<Longrightarrow> ensures I m (\<lambda>_. I) E"
  unfolding keeps_def by (erule ensures_weaken)

lemma ensures_pre: "ensures P' m Q E \<Longrightarrow> (\<And>s. P s \<Longrightarrow> P' s) \<Longrightarrow> ensures P m Q E"
  by (rule ensures_weaken)

lemma ensures_post: "ensures P m Q' E \<Longrightarrow> (\<And>x s. Q' x s \<Longrightarrow> Q x s) \<Longrightarrow> ensures P m Q E"
  by (rule ensures_weaken)

text \<open>Saving rows.\<close>

lemma within_save_session:
  assumes "within M k N H s" and "counted ss \<longrightarrow> has_counted (ps_db s) (ts_name ss)"
    and "ts_name ss \<in> N \<longrightarrow> counted ss"
  shows "within M k N H (s\<lparr>ps_db := ps_db s\<lparr>db_sessions := save_row ts_name ss (db_sessions (ps_db s))\<rparr>\<rparr>)"
proof -
  let ?db = "ps_db s"
  let ?new = "?db\<lparr>db_sessions := save_row ts_name ss (db_sessions ?db)\<rparr>"
  from assms(1) have d: "distinct (map ts_name (db_sessions ?db))"
    by (simp add: within_def session_names_def)
  from assms(2) have "\<not> (counted ss \<and> \<not> (\<exists>r\<in>set (db_sessions ?db). ts_name r = ts_name ss \<and> counted r))"
    unfolding has_counted_def by blast
  with load_save_row [OF d, of ss] have "load ?new \<le> load ?db"
    by (simp only: load_def) simp
  moreover have "distinct (session_names ?new)"
    using d by (simp add: session_names_def save_row_keys)
  moreover have "\<forall>n\<in>N. has_counted ?new n"
    using assms(1,3) by (auto simp: within_def intro!: save_row_has)
  ultimately show ?thesis using assms(1) by (simp add: within_def side_def)
qed

lemma ensures_save_counted:
  "ts_name ss \<in> N \<Longrightarrow> counted ss \<Longrightarrow> ensures (within M k N H) (save_session ss) (\<lambda>_. within M k N H) E"
  unfolding save_session_def by (rule ensures_db, rule within_save_session) (auto simp: within_def)

lemma keeps_save_counted:
  "ts_name ss \<in> N \<Longrightarrow> counted ss \<Longrightarrow> keeps (within M k N H) (save_session ss)"
  unfolding keeps_def by (rule ensures_save_counted)

lemma keeps_save_uncounted: "\<not> counted ss \<Longrightarrow> ts_name ss \<notin> N \<Longrightarrow> keeps (within M k N H) (save_session ss)"
  unfolding save_session_def by (rule keeps_db, rule within_save_session) auto

lemma keeps_within_db:
  assumes "\<And>db. db_sessions (f db) = db_sessions db" and "\<And>db. db_portal (f db) = db_portal db"
  shows "keeps (within M k N H) (op_db f)"
  using assms by (intro keeps_db) (simp add: within_def side_def load_def session_names_def has_counted_def)

lemma keeps_save_environment: "keeps (within M k N H) (save_environment e)"
  unfolding save_environment_def by (rule keeps_within_db) simp_all

lemma keeps_save_user: "keeps (within M k N H) (save_user u)"
  unfolding save_user_def by (rule keeps_within_db) simp_all

lemma keeps_applications:
  "keeps (within M k N H) (get_or_create_application a)" "keeps (within M k N H) (delete_application cid)"
proof -
  show "keeps (within M k N H) (delete_application cid)"
    unfolding delete_application_def by (rule keeps_within_db) simp_all
  have "keeps (within M k N H) (op_db (\<lambda>db. db\<lparr>db_applications := db_applications db @ [a]\<rparr>))"
    by (rule keeps_within_db) simp_all
  then show "keeps (within M k N H) (get_or_create_application a)"
    unfolding get_or_create_application_def by (intro keeps_intros)
qed

lemma keeps_schedule: "task_ok M t \<Longrightarrow> keeps (within M k N H) (schedule t)"
  by (intro keepsI) (auto simp: schedule_def within_def side_def)

lemma keeps_on_commit: "hook_ok M h \<Longrightarrow> hook_names h \<subseteq> H \<Longrightarrow> keeps (within M k N H) (on_commit h)"
  by (intro keepsI) (auto simp: on_commit_def within_def side_def)

lemma keeps_quiet: "quiet m \<Longrightarrow> keeps (within M k N H) m"
  by (rule quiet_keeps) simp_all

lemmas within_quiet = quiet_basic [THEN keeps_quiet] quiet_operations [THEN keeps_quiet]
  quiet_reports [THEN keeps_quiet] quiet_request [THEN keeps_quiet]

lemmas within_intros = keeps_save_environment keeps_save_user keeps_applications within_quiet
  keeps_bind keeps_then keeps_each keeps_fold keeps_if keeps_option keeps_sum keeps_pair keeps_let keeps_try

text \<open>A new session takes one of the places.\<close>

lemma ensures_insert:
  assumes "counted ss"
  shows "ensures (within M (Suc k) N H) (insert_session ss) (\<lambda>_. within M k (insert (ts_name ss) N) H) (side M)"
  unfolding insert_session_def
proof (rule ensures_bind_query)
  fix db
  show "ensures (\<lambda>s. within M (Suc k) N H s \<and> ps_db s = db)
     (if ts_name ss \<in> set (map ts_name (db_sessions db)) then op_raise IntegrityError
      else op_db (\<lambda>db. db\<lparr>db_sessions := db_sessions db @ [ss]\<rparr>))
     (\<lambda>_. within M k (insert (ts_name ss) N) H) (side M)"
  proof (cases "ts_name ss \<in> set (map ts_name (db_sessions db))")
    case True
    then show ?thesis by (simp, intro ensures_raise) (auto dest: within_side)
  next
    case False
    with assms show ?thesis
      by (auto intro!: ensures_db simp: within_def side_def load_def count_def session_names_def has_counted_def)
  qed
qed


section \<open>Setting up and deploying sessions\<close>

lemma counted_new_session: "counted (new_session e name i now)"
  by (simp add: counted_def is_allocated_def is_available_def new_session_def)

lemma ensures_setup:
  "ensures (within M (Suc k) N H) (setup_workshop_session w e)
     (\<lambda>(e', ss, secret) s. within M k (insert (ts_name ss) N) H s \<and> ts_state ss = SESSION_STARTING) (side M)"
proof -
  let ?P = "within M (Suc k) N H"
  have side: "\<And>s. ?P s \<Longrightarrow> side M s" by (rule within_side)
  have keep: "ensures ?P m (\<lambda>_. ?P) (side M)" if "keeps ?P m" for m :: "unit op"
    using that side by (rule ensures_keeps)
  have insert_new: "ensures ?P (op_then (insert_session ss) (op_return (e', ss, secret)))
      (\<lambda>(e', ss, secret) s. within M k (insert (ts_name ss) N) H s \<and> ts_state ss = SESSION_STARTING) (side M)"
    if "ss = new_session e' name i now" for e' ss secret name i now
    using that counted_new_session
    by (intro ensures_then [OF ensures_insert] ensures_return) (simp_all add: new_session_def)
  show ?thesis
    unfolding setup_workshop_session_def Let_def
    by (intro ensures_then [OF keep] ensures_bind_quiet quiet_intros keeps_save_environment keeps_applications
        insert_new refl side)
      (auto intro!: ensures_raise ensures_bind_quiet ensures_then [OF keep] quiet_intros keeps_applications insert_new side
        split: option.splits)
qed

lemma ensures_setup_sessions:
  "ensures (\<lambda>s. within M (k + n) N H s \<and> fst ` set sessions \<subseteq> N) (setup_sessions w n e sessions)
     (\<lambda>sessions s. \<exists>N'. N \<subseteq> N' \<and> fst ` set sessions \<subseteq> N' \<and> within M k N' H s) (side M)"
proof (induction n arbitrary: e sessions N)
  case 0
  show ?case by (auto intro!: ensures_return)
next
  case (Suc n)
  let ?post = "\<lambda>(e', ss, secret) s. within M (k + n) (insert (ts_name ss) N) H s \<and> ts_state ss = SESSION_STARTING"
  show ?case
  proof (cases "fst ` set sessions \<subseteq> N")
    case True
    show ?thesis
    proof (simp, rule ensures_bind)
      show "ensures (\<lambda>s. within M (Suc (k + n)) N H s \<and> fst ` set sessions \<subseteq> N) (setup_workshop_session w e) ?post (side M)"
        by (rule ensures_pre [OF ensures_setup]) simp
      fix x :: "environment_record \<times> session_record \<times> string"
      obtain e' ss secret where x: "x = (e', ss, secret)" by (cases x)
      from Suc.IH [of "insert (ts_name ss) N" "sessions @ [(ts_name ss, secret)]" e'] True
      have "ensures (within M (k + n) (insert (ts_name ss) N) H) (setup_sessions w n e' (sessions @ [(ts_name ss, secret)]))
        (\<lambda>sessions s. \<exists>N'. insert (ts_name ss) N \<subseteq> N' \<and> fst ` set sessions \<subseteq> N' \<and> within M k N' H s) (side M)"
        by (auto elim!: ensures_pre)
      then show "ensures (?post x) (case x of (e, ss, secret) \<Rightarrow> setup_sessions w n e (sessions @ [(ts_name ss, secret)]))
        (\<lambda>sessions s. \<exists>N'. N \<subseteq> N' \<and> fst ` set sessions \<subseteq> N' \<and> within M k N' H s) (side M)"
        unfolding x by (auto elim!: ensures_weaken)
    qed
  qed (simp add: ensures_def)
qed

lemma ensures_create_new:
  "ensures (within M (Suc k) N H) (create_new_session w e)
     (\<lambda>(e', ss) s. within M k (insert (ts_name ss) N) (insert (ts_name ss) H) s \<and> ts_state ss = SESSION_STARTING) (side M)"
proof -
  have hook: "ensures (\<lambda>s. within M k (insert (ts_name ss) N) H s \<and> ts_state ss = SESSION_STARTING)
      (op_then (on_commit (CreateSession (ts_name ss) secret)) (op_return (e', ss)))
      (\<lambda>(e', ss) s. within M k (insert (ts_name ss) N) (insert (ts_name ss) H) s \<and> ts_state ss = SESSION_STARTING) (side M)"
    for e' :: environment_record and ss secret
    unfolding ensures_def op_then_def op_bind_def op_return_def on_commit_def
    by (auto simp: within_def side_def)
  show ?thesis
    unfolding create_new_session_def
    by (rule ensures_bind [OF ensures_setup]) (auto intro!: hook split: prod.split)
qed

text \<open>A deployment saves the session it deploys, which goes on to be counted.\<close>

lemma counted_running: "ts_owner ss \<noteq> None \<Longrightarrow> counted (mark_as_running e now None ss)"
  by (auto simp: counted_def is_allocated_def is_available_def mark_as_running_def)

lemma counted_waiting: "counted (mark_as_waiting ss)"
  by (auto simp: counted_def is_allocated_def is_available_def mark_as_waiting_def)

lemma keeps_deploy:
  assumes "ts_name ss \<in> N"
  shows "keeps (within M k N H) (create_workshop_session w e ss secret)"
  unfolding create_workshop_session_def Let_def
  using assms
  by (intro within_intros keeps_save_counted counted_waiting counted_running)
    (simp_all add: mark_as_waiting_def mark_as_running_def)


lemma find_row_SomeD: "find_row key k rows = Some r \<Longrightarrow> r \<in> set rows \<and> key r = k"
  unfolding find_row_def by (metis (mono_tags, lifting) find_Some_iff nth_mem)

lemma keeps_with_session:
  assumes "\<And>e ss. ts_name ss = name \<Longrightarrow> keeps (within M k N H) (f e ss)"
  shows "keeps (within M k N H) (with_session name f)"
proof -
  have row: "keeps (within M k N H) (case find_row ts_name name (db_sessions db) of
      None \<Rightarrow> op_raise DoesNotExist | Some ss \<Rightarrow> op_bind (session_environment ss) (\<lambda>e. f e ss))" for db
  proof (cases "find_row ts_name name (db_sessions db)")
    case (Some ss)
    then have "ts_name ss = name" using find_row_SomeD by fast
    with Some show ?thesis by (simp add: keeps_bind within_quiet assms)
  qed (simp add: keeps_raise)
  show ?thesis
    unfolding with_session_def by (rule keeps_bind_query, rule row)
qed

lemma keeps_hook:
  assumes "hook_names h \<subseteq> N" and "hook_ok M h"
  shows "keeps (within M k N H) (run_hook w h)"
proof (cases h)
  case (CreateSession n secret)
  with assms show ?thesis by (auto simp: deploy_session_def intro!: keeps_with_session keeps_deploy)
next
  case (CreateSessions sessions)
  have "keeps (within M k N H) (deploy_session w x)" if "x \<in> set sessions" for x
  proof -
    obtain n secret where x: "x = (n, secret)" by (cases x)
    with assms(1) that CreateSessions have "n \<in> N" by force
    then show ?thesis by (auto simp: deploy_session_def x intro!: keeps_with_session keeps_deploy)
  qed
  with CreateSessions show ?thesis by (auto intro!: keeps_each)
next
  case (CreateRequestResources n)
  then show ?thesis by (auto intro!: keeps_with_session within_intros)
next
  case (ScheduleTask t)
  with assms show ?thesis by (simp add: keeps_schedule)
qed

text \<open>
  A transaction that leaves the sessions its hooks deploy counted stays within the maximum.
\<close>

abbreviation bounded :: "int \<Rightarrow> portal_state \<Rightarrow> bool" where
  "bounded M \<equiv> within M 0 {} {}"

lemma within_clear_hooks: "within M k N H s \<Longrightarrow> within M k N {} (s\<lparr>ps_hooks := []\<rparr>)"
  by (simp add: within_def side_def)

lemma within_restore: "bounded M s \<Longrightarrow> side M t \<Longrightarrow> bounded M (t\<lparr>ps_db := ps_db s, ps_hooks := []\<rparr>)"
  by (simp add: within_def side_def)

lemma keeps_transaction:
  assumes "ensures (bounded M) m (\<lambda>_ s. \<exists>N. within M 0 N N s) (side M)"
  shows "keeps (bounded M) (atomically (run_hook w) m)"
proof (rule keepsI)
  fix s assume inv: "bounded M s"
  obtain r t where m: "m (s\<lparr>ps_hooks := []\<rparr>) = (r, t)" by force
  note start = within_clear_hooks [OF inv]
  show "bounded M (snd (atomically (run_hook w) m s))"
  proof (cases r)
    case (Inl e)
    from ensures_error [OF assms start] m Inl have "side M t" by blast
    with m Inl inv within_restore show ?thesis by (simp add: atomically_def)
  next
    case (Inr x)
    from ensures_result [OF assms start] m Inr obtain N where t: "within M 0 N N t" by blast
    have "keeps (within M 0 N {}) (op_then (op_each (run_hook w) (ps_hooks t)) (op_return x))"
      using t by (intro keeps_then keeps_each keeps_return keeps_hook) (auto simp: within_def side_def)
    from keepsD [OF this within_clear_hooks [OF t]] m Inr show ?thesis
      by (auto simp: atomically_def elim: within_mono)
  qed
qed

lemma keeps_plain_transaction: "keeps (bounded M) m \<Longrightarrow> keeps (bounded M) (atomically (run_hook w) m)"
  by (rule keeps_transaction) (auto intro: ensures_post [OF ensures_keeps] within_side)

section \<open>The pool of reserved sessions\<close>

lemma load_le_active: "load db \<le> count (portal_active_sessions db)"
proof -
  have "length (filter counted rows) \<le> length (filter is_active rows)" for rows
    by (induction rows) (auto simp: counted_def is_allocated_def is_available_def is_active_def intro: le_SucI)
  then show ?thesis by (simp add: load_def count_def portal_active_sessions_def)
qed

lemma allocated_le_load: "count (portal_allocated_sessions db) \<le> load db"
proof -
  have "length (filter is_allocated rows) \<le> length (filter counted rows)" for rows
    by (induction rows) (auto simp: counted_def is_allocated_def is_active_def intro: le_SucI)
  then show ?thesis by (simp add: load_def count_def portal_allocated_sessions_def)
qed

lemma within_room:
  assumes "within M k N H s" and "load (ps_db s) + int k' \<le> M"
  shows "within M k' N H s"
  using assms by (simp add: within_def)

lemma ensures_replace:
  assumes "M > 0" and "tp_sessions_maximum p = M"
  shows "ensures (bounded M) (replace_reserved_session w p e) (\<lambda>_ s. \<exists>N. within M 0 N N s) (side M)"
proof -
  have trivial: "ensures (\<lambda>s. bounded M s \<and> ps_db s = db) (op_return ()) (\<lambda>_ s. \<exists>N. within M 0 N N s) (side M)" for db
    by (auto intro!: ensures_return)
  have create: "ensures (\<lambda>s. bounded M s \<and> ps_db s = db) (op_bind (create_new_session w e) (\<lambda>_. op_return ()))
      (\<lambda>_ s. \<exists>N. within M 0 N N s) (side M)" if "count (portal_active_sessions db) < M" for db
    by (rule ensures_bind, rule ensures_pre [OF ensures_create_new [where k = 0]])
      (use that load_le_active [of db] in \<open>auto intro!: ensures_return elim!: within_room\<close>)
  show ?thesis
    unfolding replace_reserved_session_def using assms create trivial
    by (auto intro!: ensures_bind_query ensures_return)
qed


abbreviation committed :: "int \<Rightarrow> 'a \<Rightarrow> portal_state \<Rightarrow> bool" where
  "committed M \<equiv> \<lambda>_ s. \<exists>N. within M 0 N N s"

lemma ensures_committed: "keeps (bounded M) m \<Longrightarrow> ensures (bounded M) m (committed M) (side M)"
  by (auto intro: ensures_post [OF ensures_keeps] within_side)

text \<open>Stopping a session that nobody owns frees its place.\<close>

lemma not_counted_stopping: "ts_owner ss = None \<Longrightarrow> \<not> counted (mark_as_stopping now ss)"
  by (simp add: counted_def is_allocated_def is_available_def mark_as_stopping_def)

lemma not_counted_stopped: "\<not> counted (mark_as_stopped now ss)"
  by (simp add: counted_def is_allocated_def is_available_def mark_as_stopped_def)

lemma keeps_stop_reserved: "ts_owner ss = None \<Longrightarrow> keeps (bounded M) (stop_reserved_session w e ss)"
  unfolding stop_reserved_session_def Let_def
  by (intro within_intros keeps_save_uncounted not_counted_stopping) simp_all

lemma keeps_stop_available: "ts_owner ss = None \<Longrightarrow> keeps (bounded M) (stop_available_session w ss)"
  unfolding stop_available_session_def by (intro within_intros keeps_stop_reserved)

lemma available_unowned: "ss \<in> set (available_sessions db e) \<Longrightarrow> ts_owner ss = None"
  by (simp add: available_sessions_def)

lemma oldest_unowned: "ss \<in> set (oldest_available db) \<Longrightarrow> ts_owner ss = None"
  by (simp add: oldest_available_def portal_available_sessions_def is_available_def)

lemma keeps_terminate: "keeps (bounded M) (terminate_reserved_sessions w p)"
proof -
  have "keeps (bounded M) (trim_environment w e)" for e
    unfolding trim_environment_def Let_def
    by (rule keeps_bind_query) (auto intro!: within_intros keeps_stop_reserved dest!: in_set_takeD available_unowned)
  then show ?thesis
    unfolding terminate_reserved_sessions_def
    by (intro keeps_bind keeps_then keeps_if keeps_return keeps_query keeps_each)
      (auto intro!: keeps_stop_available dest!: in_set_takeD oldest_unowned)
qed

text \<open>Filling the pool creates no more sessions than there is room for.\<close>

lemma wanted_le_spare: "wanted_sessions db e (Some n) \<le> max 0 n"
  by (auto simp: wanted_sessions_def Let_def)

lemma ensures_reserve:
  assumes "spare \<ge> 0"
  shows "ensures (\<lambda>s. within M (nat spare) N H s \<and> fst ` set sessions \<subseteq> N) (reserve_sessions w es (Some spare) sessions)
     (\<lambda>sessions s. \<exists>N'. N \<subseteq> N' \<and> fst ` set sessions \<subseteq> N' \<and> within M 0 N' H s) (side M)"
  using assms
proof (induction es arbitrary: spare sessions N)
  case Nil
  show ?case by (auto intro!: ensures_return elim: within_mono)
next
  case (Cons e es)
  let ?Q = "\<lambda>sessions s. \<exists>N'. N \<subseteq> N' \<and> fst ` set sessions \<subseteq> N' \<and> within M 0 N' H s"
  show ?case
  proof (simp only: reserve_sessions.simps option.map, rule ensures_bind_query)
    fix db
    define n where "n = wanted_sessions db e (Some spare)"
    define left_over where "left_over = spare - max 0 n"
    have n: "n \<le> spare" and left_over: "left_over \<ge> 0"
      using wanted_le_spare [of db e spare] Cons.prems by (auto simp: n_def left_over_def)
    have room: "nat spare = nat left_over + nat n" using n Cons.prems by (auto simp: left_over_def)
    let ?R = "\<lambda>sessions s. \<exists>N'. N \<subseteq> N' \<and> fst ` set sessions \<subseteq> N' \<and> within M (nat left_over) N' H s"
    have filled: "ensures (\<lambda>s. within M (nat spare) N H s \<and> fst ` set sessions \<subseteq> N) (setup_sessions w (nat n) e sessions) ?R (side M)"
      unfolding room by (rule ensures_setup_sessions)
    have rest: "ensures (?R x) (if left_over \<le> 0 then op_return x else reserve_sessions w es (Some left_over) x) ?Q (side M)" for x
    proof (intro ensures_ex ensures_conj)
      fix N' assume N': "N \<subseteq> N'" "fst ` set x \<subseteq> N'"
      show "ensures (within M (nat left_over) N' H)
          (if left_over \<le> 0 then op_return x else reserve_sessions w es (Some left_over) x) ?Q (side M)"
      proof (cases "left_over \<le> 0")
        case True
        with N' show ?thesis by (simp, intro ensures_return) (blast elim: within_mono)
      next
        case False
        from Cons.IH [OF left_over, of N' x] show ?thesis
          unfolding if_not_P [OF False]
          by (rule ensures_weaken) (simp add: N'(2), meson N'(1) order.trans, assumption)
      qed
    qed
    show "ensures (\<lambda>s. (within M (nat spare) N H s \<and> fst ` set sessions \<subseteq> N) \<and> ps_db s = db)
      (op_bind (setup_sessions w (nat (wanted_sessions db e (Some spare))) e sessions)
        (\<lambda>sessions. let spare = Some (spare - max 0 (wanted_sessions db e (Some spare)))
           in if spare \<noteq> None \<and> the spare \<le> 0 then op_return sessions else reserve_sessions w es spare sessions)) ?Q (side M)"
      by (simp only: n_def [symmetric] Let_def option.sel left_over_def [symmetric] option.distinct simp_thms)
        (rule ensures_pre [OF ensures_bind [OF filled rest]], simp)
  qed
qed

lemma ensures_on_commit:
  "ensures (\<lambda>s. \<exists>N. fst ` set sessions \<subseteq> N \<and> within M 0 N {} s) (on_commit (CreateSessions sessions)) (committed M) (side M)"
  unfolding ensures_def on_commit_def by (auto simp: within_def side_def)

lemma ensures_initiate:
  assumes "M > 0" and "tp_sessions_maximum p = M"
  shows "ensures (bounded M) (initiate_reserved_sessions w p) (committed M) (side M)"
proof -
  let ?spare = "\<lambda>db. M - count (portal_active_sessions db)"
  have fill: "ensures (\<lambda>s. bounded M s \<and> ps_db s = db)
      (op_bind (reserve_sessions w es (Some (?spare db)) []) (\<lambda>sessions. on_commit (CreateSessions sessions)))
      (committed M) (side M)" if "?spare db > 0" for db es
  proof (rule ensures_bind)
    have room: "within M (nat (?spare db)) {} {} s" if "bounded M s" "ps_db s = db" for s
    proof (rule within_room)
      show "within M 0 {} {} s" by (rule that(1))
      from that(2) load_le_active [of db] \<open>?spare db > 0\<close> show "load (ps_db s) + int (nat (?spare db)) \<le> M"
        by simp
    qed
    show "ensures (\<lambda>s. bounded M s \<and> ps_db s = db) (reserve_sessions w es (Some (?spare db)) [])
       (\<lambda>sessions s. \<exists>N. {} \<subseteq> N \<and> fst ` set sessions \<subseteq> N \<and> within M 0 N {} s) (side M)"
      using \<open>?spare db > 0\<close> by (intro ensures_pre [OF ensures_reserve]) (simp_all add: room)
  next
    fix sessions :: "(string \<times> string) list"
    show "ensures (\<lambda>s. \<exists>N. {} \<subseteq> N \<and> fst ` set sessions \<subseteq> N \<and> within M 0 N {} s)
       (on_commit (CreateSessions sessions)) (committed M) (side M)"
      by (rule ensures_pre [OF ensures_on_commit]) simp
  qed
  show ?thesis
    unfolding initiate_reserved_sessions_def using assms fill
    by (auto simp: Let_def intro!: ensures_bind_query ensures_return)
qed


section \<open>Sessions for users\<close>

lemma with_request_result:
  assumes "with_request w e rq ss s = (Inr ss', t)"
  shows "ts_name ss' = ts_name ss" and "ts_state ss' = ts_state ss" and "ts_owner ss' = ts_owner ss"
  using assms by (auto simp: with_request_def op_bind_def op_return_def split: prod.splits sum.splits)

lemma counted_pending: "ts_state ss \<noteq> SESSION_STOPPED \<Longrightarrow> counted (mark_as_pending e now user token timeout ss)"
  by (simp add: counted_def is_allocated_def is_available_def mark_as_pending_def Let_def)

lemma counted_running_for: "counted (mark_as_running e now (Some user) ss)"
  by (simp add: counted_def is_allocated_def is_available_def mark_as_running_def)

lemma mark_as_pending_name [simp]: "ts_name (mark_as_pending e now user token timeout ss) = ts_name ss"
  by (simp add: mark_as_pending_def Let_def)

lemma mark_as_running_name [simp]: "ts_name (mark_as_running e now user ss) = ts_name ss"
  by (simp add: mark_as_running_def)

lemma ensures_start_session:
  "ensures (within M 1 {} {}) (start_session_for_user w e user rq) (committed M) (side M)"
  unfolding start_session_for_user_def
proof (rule ensures_bind)
  let ?post = "\<lambda>(e', ss) s. within M 0 {ts_name ss} {ts_name ss} s \<and> ts_state ss = SESSION_STARTING"
  show "ensures (within M 1 {} {}) (create_new_session w e) ?post (side M)"
    using ensures_create_new [of M 0 "{}" "{}" w e] by simp
  fix x :: "environment_record \<times> session_record"
  obtain e' ss where x: "x = (e', ss)" by (cases x)
  let ?P = "within M 0 {ts_name ss} {ts_name ss}"
  show "ensures (?post x) (case x of (e, ss) \<Rightarrow> op_bind (with_request w e rq ss)
       (\<lambda>ss. op_then (update_session_status w (ts_name ss) (if rq_has_token rq then ''Allocating'' else ''Allocated'') (Some user))
         (op_bind (read_clock w)
            (\<lambda>now. let ss = mark_as_pending e now user (rq_token rq) (rq_timeout rq) ss
                   in op_then (save_session ss)
                     (op_then (report_session_event w e ss (if rq_has_token rq then ''Session/Pending'' else ''Session/Started''))
                        (op_return (Some ss))))))) (committed M) (side M)"
  proof (cases "ts_state ss = SESSION_STARTING")
    case True
    show ?thesis
      unfolding x prod.case
    proof (rule ensures_pre [where P' = ?P], rule ensures_bind_quiet)
      fix ss' s t assume "with_request w e' rq ss s = (Inr ss', t)"
      then have ss': "ts_name ss' = ts_name ss" "ts_state ss' = SESSION_STARTING"
        using True by (simp_all add: with_request_result)
      show "ensures ?P (op_then (update_session_status w (ts_name ss') (if rq_has_token rq then ''Allocating'' else ''Allocated'') (Some user))
         (op_bind (read_clock w)
            (\<lambda>now. let ss = mark_as_pending e' now user (rq_token rq) (rq_timeout rq) ss'
                   in op_then (save_session ss)
                     (op_then (report_session_event w e' ss (if rq_has_token rq then ''Session/Pending'' else ''Session/Started''))
                        (op_return (Some ss)))))) (committed M) (side M)"
        by (rule ensures_post [OF ensures_keeps])
          (auto intro!: within_intros keeps_save_counted counted_pending simp: ss' dest: within_side)
    qed (auto intro: quiet_intros dest: within_side)
  qed (simp add: x ensures_def)
qed

text \<open>When no session is in reserve, only those of users count; stopping one that is makes room.\<close>

lemma load_without_available:
  assumes "oldest_available db = []"
  shows "load db = count (portal_allocated_sessions db)"
proof -
  from assms have "set (portal_available_sessions db) = {}"
    by (metis oldest_available_def set_sort empty_set)
  then have "\<not> is_available ss" if "ss \<in> set (db_sessions db)" for ss
    using that by (simp add: portal_available_sessions_def)
  then have "filter counted (db_sessions db) = filter is_allocated (db_sessions db)"
    by (auto simp: counted_def intro!: filter_cong)
  then show ?thesis by (simp add: load_def portal_allocated_sessions_def)
qed

lemma ensures_stop_available:
  assumes "ss \<in> set (oldest_available db)"
  shows "ensures (\<lambda>s. bounded M s \<and> ps_db s = db) (stop_available_session w ss) (\<lambda>_. within M 1 {} {}) (side M)"
proof -
  let ?P = "\<lambda>s. bounded M s \<and> ps_db s = db"
  have side: "\<And>s. ?P s \<Longrightarrow> side M s" using within_side by blast
  from assms have row: "ss \<in> set (db_sessions db)" "counted ss" "ts_owner ss = None"
    by (auto simp: oldest_available_def portal_available_sessions_def counted_def is_available_def)
  have save: "ensures ?P (save_session (mark_as_stopping now ss)) (\<lambda>_. within M 1 {} {}) (side M)" for now
    unfolding save_session_def
  proof (rule ensures_db)
    fix s assume P: "?P s"
    let ?ss = "mark_as_stopping now ss"
    let ?t = "s\<lparr>ps_db := ps_db s\<lparr>db_sessions := save_row ts_name ?ss (db_sessions (ps_db s))\<rparr>\<rparr>"
    from P row not_counted_stopping have "bounded M ?t" by (intro within_save_session) auto
    moreover have "load (ps_db ?t) + int 1 \<le> M"
    proof -
      from P have "distinct (map ts_name (db_sessions db))" and "count (filter counted (db_sessions db)) \<le> M"
        by (auto simp: within_def load_def session_names_def)
      with load_replace_row [of "db_sessions db" ss ?ss] row not_counted_stopping [of ss now] P show ?thesis
        by (simp add: load_def mark_as_stopping_def)
    qed
    ultimately show "within M 1 {} {} ?t" by (rule within_room)
  qed
  show ?thesis
    unfolding stop_available_session_def stop_reserved_session_def Let_def
    by (intro ensures_bind_quiet ensures_then_quiet quiet_intros within_log_free' side ensures_then [OF save]
        ensures_quiet within_log_free within_side)
qed

lemma ensures_create_for_user:
  assumes "M > 0" and "tp_sessions_maximum p = M"
  shows "ensures (bounded M) (create_session_for_user w p e user rq) (committed M) (side M)"
  unfolding create_session_for_user_def
proof (rule ensures_bind_query)
  fix db
  let ?P = "\<lambda>s. bounded M s \<and> ps_db s = db"
  have none: "ensures ?P (op_return None) (committed M) (side M)"
    by (rule ensures_return) blast
  have start: "ensures ?P (start_session_for_user w e user rq) (committed M) (side M)" if "load db < M"
    using that by (intro ensures_pre [OF ensures_start_session]) (erule conjE, erule within_room, simp)
  have kill: "ensures ?P (op_then (case oldest_available db of [] \<Rightarrow> op_return () | ss # _ \<Rightarrow> stop_available_session w ss)
       (start_session_for_user w e user rq)) (committed M) (side M)"
    if "count (portal_allocated_sessions db) < M"
  proof (cases "oldest_available db")
    case Nil
    then have "load db < M" using that by (simp add: load_without_available)
    from start [OF this] Nil show ?thesis
      by (auto intro: ensures_then_quiet quiet_intros elim: within_side)
  next
    case (Cons ss rest)
    show ?thesis
      unfolding Cons list.case
      by (rule ensures_then [OF ensures_stop_available ensures_start_session]) (simp_all add: Cons)
  qed
  show "ensures ?P (if count (active_sessions (id db) e) \<ge> te_capacity e then op_return None
          else if tp_sessions_maximum p = 0 then start_session_for_user w e user rq
          else if count (portal_allocated_sessions (id db)) \<ge> tp_sessions_maximum p then op_return None
          else if count (portal_active_sessions (id db)) < tp_sessions_maximum p then start_session_for_user w e user rq
          else op_then (case oldest_available (id db) of [] \<Rightarrow> op_return () | ss # _ \<Rightarrow> stop_available_session w ss)
              (start_session_for_user w e user rq)) (committed M) (side M)"
    using assms none start kill load_le_active [of db] by auto
qed


lemma available_session_row:
  assumes "available_session db e = Some ss"
  shows "ss \<in> set (db_sessions db)" and "ts_state ss = SESSION_WAITING" and "ts_owner ss = None"
proof -
  from assms have "ss \<in> set (available_sessions db e)"
    by (auto simp: available_session_def split: list.splits)
  then show "ss \<in> set (db_sessions db)" and "ts_state ss = SESSION_WAITING" and "ts_owner ss = None"
    by (auto simp: available_sessions_def session_set_def)
qed

lemma within_has_counted:
  assumes "within M k N H s" and "ps_db s = db" and "ss \<in> set (db_sessions db)" and "counted ss"
  shows "within M k (insert (ts_name ss) N) H s"
  using assms by (auto simp: within_def has_counted_def)

lemma keeps_hand_over:
  assumes "ts_name ss \<in> N" and "ts_state ss = SESSION_WAITING"
  shows "keeps (within M k N H) (hand_over_session w e user rq ss)"
  unfolding hand_over_session_def Let_def
  using assms by (intro within_intros keeps_save_counted keeps_on_commit counted_pending counted_running_for) auto

lemma ensures_allocate:
  assumes "M > 0" and "tp_sessions_maximum p = M"
  shows "ensures (bounded M) (allocate_session_for_user w p e user rq)
           (\<lambda>found s. committed M found s \<and> (found = None \<longrightarrow> bounded M s)) (side M)"
  unfolding allocate_session_for_user_def
proof (rule ensures_bind_query)
  fix db
  let ?Q = "\<lambda>found s. committed M found s \<and> (found = None \<longrightarrow> bounded M s)"
  show "ensures (\<lambda>s. bounded M s \<and> ps_db s = db)
    (case available_session db e of None \<Rightarrow> op_return None
     | Some ss \<Rightarrow> op_bind (with_request w e rq ss)
              (\<lambda>ss. op_bind (hand_over_session w e user rq ss)
                 (\<lambda>ss. op_then (replace_reserved_session w p e) (op_return (Some ss))))) ?Q (side M)"
  proof (cases "available_session db e")
    case None
    then show ?thesis by (simp, intro ensures_return) blast
  next
    case (Some ss)
    note row = available_session_row [OF Some]
    then have counted: "counted ss" by (simp add: counted_def is_available_def)
    let ?P = "within M 0 {ts_name ss} {}"
    have replace: "ensures ?P (op_then (replace_reserved_session w p e) (op_return (Some ss'))) ?Q (side M)" for ss'
      by (rule ensures_then [OF ensures_pre [OF ensures_replace [OF assms]] ensures_return])
        (auto elim: within_mono)
    have "ensures ?P (op_bind (with_request w e rq ss) (\<lambda>ss. op_bind (hand_over_session w e user rq ss)
       (\<lambda>ss. op_then (replace_reserved_session w p e) (op_return (Some ss))))) ?Q (side M)"
    proof (rule ensures_bind_quiet)
      fix ss' s t assume "with_request w e rq ss s = (Inr ss', t)"
      then have "ts_name ss' = ts_name ss" "ts_state ss' = SESSION_WAITING"
        using row by (simp_all add: with_request_result)
      then show "ensures ?P (op_bind (hand_over_session w e user rq ss')
          (\<lambda>ss. op_then (replace_reserved_session w p e) (op_return (Some ss)))) ?Q (side M)"
        by (intro ensures_bind [OF ensures_keeps replace] keeps_hand_over within_side) auto
    qed (auto intro: quiet_intros dest: within_side)
    moreover have "?P s" if "bounded M s" "ps_db s = db" for s
      using within_has_counted [OF that row(1) counted] .
    ultimately show ?thesis unfolding Some option.case by (blast intro: ensures_pre)
  qed
qed

lemma allocated_for_user_row:
  assumes "allocated_session_for_user db e user = Some ss"
  shows "ss \<in> set (db_sessions db)" and "ts_owner ss = Some user" and "ts_environment ss = te_id e"
    and "ts_state ss \<notin> {SESSION_STOPPING, SESSION_STOPPED}"
proof -
  let ?found = "filter (\<lambda>s. ts_owner s = Some user \<and> ts_state s \<notin> {SESSION_STOPPING, SESSION_STOPPED}) (session_set db e)"
  from assms obtain rest where "?found = ss # rest"
    by (auto simp: allocated_session_for_user_def split: list.splits)
  then have "ss \<in> set ?found" by (metis list.set_intros(1))
  then show "ss \<in> set (db_sessions db)" and "ts_owner ss = Some user" and "ts_environment ss = te_id e"
    and "ts_state ss \<notin> {SESSION_STOPPING, SESSION_STOPPED}"
    by (auto simp: session_set_def)
qed

lemma ensures_retrieve:
  assumes "M > 0" and "tp_sessions_maximum p = M"
  shows "ensures (bounded M) (retrieve_session_for_user w p e user wanted rq) (committed M) (side M)"
  unfolding retrieve_session_for_user_def Let_def
proof (rule ensures_bind_query)
  fix db
  let ?named = "wanted \<notin> {None, Some []}"
  have fresh: "ensures (bounded M) (if ?named then op_return None
      else op_bind (op_query (\<lambda>db. session_permitted_for_user db p user))
        (\<lambda>permitted. if \<not> permitted then op_return None
           else op_bind (allocate_session_for_user w p e (us_username user) rq)
             (\<lambda>ss. case ss of Some ss \<Rightarrow> op_return (Some ss)
                    | None \<Rightarrow> create_session_for_user w p e (us_username user) rq))) (committed M) (side M)"
  proof -
    have none: "ensures (bounded M) (op_return None) (committed M) (side M)"
      by (rule ensures_return) blast
    have "ensures (\<lambda>s. committed M found s \<and> (found = None \<longrightarrow> bounded M s))
       (case found of Some ss \<Rightarrow> op_return (Some ss) | None \<Rightarrow> create_session_for_user w p e (us_username user) rq)
       (committed M) (side M)" for found
    proof (cases found)
      case None
      show ?thesis unfolding None option.case by (rule ensures_pre [OF ensures_create_for_user [OF assms]]) simp
    next
      case (Some ss)
      show ?thesis unfolding Some option.case by (rule ensures_return) simp
    qed
    then have "ensures (bounded M) (op_bind (allocate_session_for_user w p e (us_username user) rq)
       (\<lambda>ss. case ss of Some ss \<Rightarrow> op_return (Some ss) | None \<Rightarrow> create_session_for_user w p e (us_username user) rq))
       (committed M) (side M)"
      by (rule ensures_bind [OF ensures_allocate [OF assms]])
    with none show ?thesis
      by (auto intro!: ensures_bind_quiet quiet_intros dest: within_side)
  qed
  show "ensures (\<lambda>s. bounded M s \<and> ps_db s = db)
     (case allocated_session_for_user db e (us_username user) of
        Some ss \<Rightarrow>
          op_bind (if rq_has_token rq \<and> is_pending ss then op_bind (read_clock w)
              (\<lambda>now. op_then (save_session (mark_as_pending e now (us_username user) (rq_token rq) (rq_timeout rq) ss))
                 (op_return (mark_as_pending e now (us_username user) (rq_token rq) (rq_timeout rq) ss)))
            else op_return ss)
            (\<lambda>ss. op_return (if ?named \<and> Some (ts_name ss) \<noteq> wanted then None else Some ss))
      | None \<Rightarrow> if ?named then op_return None
          else op_bind (op_query (\<lambda>db. session_permitted_for_user db p user))
            (\<lambda>permitted. if \<not> permitted then op_return None
               else op_bind (allocate_session_for_user w p e (us_username user) rq)
                 (\<lambda>ss. case ss of Some ss \<Rightarrow> op_return (Some ss)
                        | None \<Rightarrow> create_session_for_user w p e (us_username user) rq))) (committed M) (side M)"
  proof (cases "allocated_session_for_user db e (us_username user)")
    case None
    show ?thesis unfolding None option.case by (rule ensures_pre [OF fresh]) simp
  next
    case (Some ss)
    note row = allocated_for_user_row [OF Some]
    then have "counted ss" by (auto simp: counted_def is_allocated_def)
    then have P: "within M 0 {ts_name ss} {} s" if "bounded M s" "ps_db s = db" for s
      using within_has_counted [OF that row(1)] by blast
    have "keeps (within M 0 {ts_name ss} {})
       (op_bind (if rq_has_token rq \<and> is_pending ss then op_bind (read_clock w)
              (\<lambda>now. op_then (save_session (mark_as_pending e now (us_username user) (rq_token rq) (rq_timeout rq) ss))
                 (op_return (mark_as_pending e now (us_username user) (rq_token rq) (rq_timeout rq) ss)))
            else op_return ss)
            (\<lambda>ss. op_return (if ?named \<and> Some (ts_name ss) \<noteq> wanted then None else Some ss)))"
      using row(4) by (intro within_intros keeps_save_counted counted_pending) auto
    note kept = ensures_keeps [OF this within_side]
    show ?thesis
      unfolding Some option.case
    proof (rule ensures_weaken [OF kept])
      fix s assume "bounded M s \<and> ps_db s = db"
      with P show "within M 0 {ts_name ss} {} s" by blast
    next
      fix s assume "within M 0 {ts_name ss} {} s"
      then have "within M 0 {} {} s" by (rule within_mono) simp_all
      then show "committed M () s" by blast
    qed
  qed
qed


section \<open>The other operations\<close>

lemma keeps_save_as_stopped: "keeps (bounded M) (save_as_stopped w ss)"
  unfolding save_as_stopped_def
  by (intro within_intros keeps_save_uncounted not_counted_stopped) simp_all

lemma keeps_delete_session:
  assumes "M > 0" and "tp_sessions_maximum p = M"
  shows "keeps (bounded M) (delete_workshop_session w ss e p)"
proof -
  have "ensures (bounded M) (finish_session w ss e p) (committed M) (side M)"
    unfolding finish_session_def
    by (intro ensures_bind [OF ensures_keeps] ensures_then [OF ensures_keeps ensures_replace [OF assms]]
        keeps_save_as_stopped within_intros within_side) auto
  then show ?thesis
    unfolding delete_workshop_session_def by (intro within_intros keeps_transaction)
qed

lemma current_portal_maximum:
  "ensures (bounded M) current_portal (\<lambda>p s. bounded M s \<and> tp_sessions_maximum p = M) (side M)"
  unfolding current_portal_def
  by (rule ensures_bind_query) (auto simp: ensures_def op_return_def op_raise_def within_def split: option.splits)

lemma keeps_with_portal:
  assumes "\<And>p. tp_sessions_maximum p = M \<Longrightarrow> keeps (within M k N H) (f p)"
  shows "keeps (within M k N H) (op_bind current_portal f)"
proof (rule keepsI)
  fix s assume I: "within M k N H s"
  show "within M k N H (snd (op_bind current_portal f s))"
  proof (cases "db_portal (ps_db s)")
    case None
    with I show ?thesis by (simp add: op_bind_def current_portal_def op_query_def op_raise_def)
  next
    case (Some p)
    with I have "tp_sessions_maximum p = M" by (simp add: within_def)
    from keepsD [OF assms [OF this] I] Some show ?thesis
      by (simp add: op_bind_def current_portal_def op_query_def op_return_def)
  qed
qed

lemma keeps_schedule_deletion: "keeps (bounded M) (schedule_deletion w ss event)"
  unfolding schedule_deletion_def
  by (intro keeps_bind within_quiet keeps_with_portal keeps_then keeps_schedule) (simp add: task_ok_def)

lemma keeps_purge: "keeps (bounded M) (purge_expired_workshop_sessions w)"
proof -
  have "keeps (bounded M) (check_activity w e ss)" for e ss
    unfolding check_activity_def by (intro within_intros keeps_schedule_deletion)
  then have "keeps (bounded M) (purge_session w now ss)" for now ss
    unfolding purge_session_def has_vanished_def by (intro within_intros keeps_schedule_deletion)
  then show ?thesis
    unfolding purge_expired_workshop_sessions_def by (intro keeps_plain_transaction within_intros)
qed

lemma keeps_delete_row: "keeps (bounded M) (delete_session_row ss)"
proof -
  have "length (filter counted (filter q rows)) \<le> length (filter counted rows)" for q rows
    by (induction rows) auto
  then have drop: "load (db\<lparr>db_sessions := filter q (db_sessions db)\<rparr>) \<le> load db" for q db
    by (simp add: load_def count_def)
  show ?thesis
    unfolding delete_session_row_def
    by (intro keeps_db)
      (auto simp: within_def side_def session_names_def distinct_map_filter intro: order_trans [OF drop])
qed

lemma keeps_cleanup: "keeps (bounded M) (cleanup_old_sessions_and_users w)"
proof -
  have "keeps (bounded M) (op_db (\<lambda>db. db\<lparr>db_users := f db\<rparr>))" for f
    by (rule keeps_within_db) simp_all
  then have "keeps (bounded M) (delete_unused_user w u)" for u
    unfolding delete_unused_user_def by (intro within_intros)
  then show ?thesis
    unfolding cleanup_old_sessions_and_users_def Let_def
    by (intro keeps_plain_transaction within_intros keeps_delete_row)
qed

lemma keeps_stop_environment: "keeps (bounded M) (stop_environment w e)"
  unfolding stop_environment_def Let_def
  by (intro keeps_then within_intros keeps_bind_query [where g = "op_each (stop_reserved_session w e')" for e'])
    (auto intro!: keeps_each keeps_stop_reserved dest: available_unowned)

lemma keeps_replace_environment: "tp_sessions_maximum p = M \<Longrightarrow> keeps (bounded M) (replace_workshop_environment w p e)"
  unfolding replace_workshop_environment_def
  by (intro within_intros keeps_stop_environment keeps_schedule) (simp add: task_ok_def)

lemma keeps_environment_tasks:
  "keeps (bounded M) (delete_workshop_environments w)"
  "tp_sessions_maximum p = M \<Longrightarrow> keeps (bounded M) (refresh_workshop_environments w p)"
  "keeps (bounded M) (process_workshop_environment w p' workshop position)"
proof -
  have "keeps (bounded M) (delete_if_unused w e)" for e
    unfolding delete_if_unused_def Let_def by (intro within_intros keeps_schedule) (simp add: task_ok_def)
  then show "keeps (bounded M) (delete_workshop_environments w)"
    unfolding delete_workshop_environments_def by (intro keeps_plain_transaction within_intros)
  show "keeps (bounded M) (refresh_workshop_environments w p)" if "tp_sessions_maximum p = M"
    unfolding refresh_workshop_environments_def refresh_if_due_def using that
    by (intro keeps_plain_transaction within_intros keeps_replace_environment)
  show "keeps (bounded M) (process_workshop_environment w p' workshop position)"
    unfolding process_workshop_environment_def environment_for_entry_def duration_setting_def int_setting_def Let_def
    by (intro keeps_plain_transaction within_intros)
qed

lemma ensures_start_environment:
  assumes "M > 0" and "tp_sessions_maximum p = M"
  shows "ensures (bounded M) (start_environment w p e details) (committed M) (side M)"
proof -
  have create: "keeps (bounded M) (op_db (\<lambda>db. db\<lparr>db_workshops := f db\<rparr>))" for f
    by (rule keeps_within_db) simp_all
  have workshop: "keeps (bounded M) (get_or_create_workshop details)"
    unfolding get_or_create_workshop_def by (intro within_intros create)
  have fill: "ensures (bounded M) (op_bind (op_query (\<lambda>db. initial_sessions db p e'))
      (\<lambda>required. op_bind (setup_sessions w (nat required) e' []) (\<lambda>sessions. on_commit (CreateSessions sessions))))
      (committed M) (side M)" for e'
  proof (rule ensures_bind_query, rule ensures_bind)
    fix db
    let ?n = "nat (initial_sessions db p e')"
    have "within M (0 + ?n) {} {} s" if "bounded M s" "ps_db s = db" for s
    proof -
      have "load (ps_db s) + int ?n \<le> M"
        using that assms load_le_active [of db] by (auto simp: initial_sessions_def within_def)
      from within_room [OF that(1) this] show ?thesis by simp
    qed
    then show "ensures (\<lambda>s. bounded M s \<and> ps_db s = db) (setup_sessions w ?n e' [])
        (\<lambda>sessions s. \<exists>N. {} \<subseteq> N \<and> fst ` set sessions \<subseteq> N \<and> within M 0 N {} s) (side M)"
      by (intro ensures_pre [OF ensures_setup_sessions]) simp
  next
    fix sessions :: "(string \<times> string) list"
    show "ensures (\<lambda>s. \<exists>N. {} \<subseteq> N \<and> fst ` set sessions \<subseteq> N \<and> within M 0 N {} s)
       (on_commit (CreateSessions sessions)) (committed M) (side M)"
      by (rule ensures_pre [OF ensures_on_commit]) simp
  qed
  show ?thesis
    unfolding start_environment_def Let_def
    by (intro ensures_bind [OF ensures_keeps [OF workshop]] ensures_then [OF ensures_keeps [OF keeps_save_environment]] fill)
      (auto dest: within_side)
qed

end
