(* ===== verification/Portal_Steps.thy ===== *)
theory Portal_Steps
  imports Portal_Capacity
begin

text \<open>
  The training portal as a whole: its state changes by web requests, watch events and background tasks, in
  any order. Tasks and the views that take the resources lock run one after the other; the views that
  do not take it are single steps here too. The portal's limit on sessions holds in every reachable state.
\<close>

section \<open>Steps\<close>

datatype call =
    RunTask task
  | PortalEvent pyval string pyval
  | WorkshopEvent pyval
  | EnvironmentEvent pyval
  | ViewSession web_request string
  | ActivateSession web_request string
  | TerminateSession web_request string
  | DeleteSessionRequest web_request string
  | AuthorizeSession web_request string
  | SessionConfig web_request string
  | SessionSchedule web_request string
  | ExtendSession web_request string
  | SessionEvent web_request string
  | ViewEnvironment web_request user_record string
  | CreateInEnvironment web_request string
  | EnvironmentStatus web_request string
  | RequestFromEnvironment web_request string
  | ListEnvironments web_request catalog_query
  | ListWorkshops
  | UserSessions web_request string

definition discard :: "'a op \<Rightarrow> unit op" where
  "discard m = op_bind m (\<lambda>_. op_return ())"

fun perform :: "portal_world \<Rightarrow> call \<Rightarrow> unit op" where
  "perform w (RunTask t) = run_task w t"
| "perform w (PortalEvent event_type name body) = training_portal_event w event_type name body"
| "perform w (WorkshopEvent body) = workshop_event w body"
| "perform w (EnvironmentEvent body) = workshop_environment_event body"
| "perform w (ViewSession rq name) = discard (session_view w rq name)"
| "perform w (ActivateSession rq name) = discard (session_activate w rq name)"
| "perform w (TerminateSession rq name) = discard (session_terminate w rq name)"
| "perform w (DeleteSessionRequest rq name) = discard (session_delete w rq name)"
| "perform w (AuthorizeSession rq name) = discard (session_authorize rq name)"
| "perform w (SessionConfig rq name) = discard (session_config rq name)"
| "perform w (SessionSchedule rq name) = discard (session_schedule w rq name)"
| "perform w (ExtendSession rq name) = discard (session_extend w rq name)"
| "perform w (SessionEvent rq name) = discard (session_event w rq name)"
| "perform w (ViewEnvironment rq user name) = discard (environment_view w rq user name)"
| "perform w (CreateInEnvironment rq name) = discard (environment_create w rq name)"
| "perform w (EnvironmentStatus rq name) = discard (environment_status w rq name)"
| "perform w (RequestFromEnvironment rq name) = discard (environment_request w rq name)"
| "perform w (ListEnvironments rq q) = discard (catalog_environments w rq q)"
| "perform w ListWorkshops = discard (catalog_workshops w)"
| "perform w (UserSessions rq name) = discard (user_sessions w rq name)"

text \<open>
  A background task is in the queue until it runs; the reconciliation repeats, so it stays. The portal's
  resource names the process and, as long as the configured maximum is \<open>M\<close>, sets it to \<open>M\<close>.
\<close>

definition sets_maximum :: "int \<Rightarrow> pyval \<Rightarrow> bool" where
  "sets_maximum M body \<longleftrightarrow>
     (\<forall>spec m r a. resource_get body ''spec'' (PDict []) = Inr spec \<longrightarrow> session_limits spec = Inr (m, r, a) \<longrightarrow> m = M)"

fun permitted :: "int \<Rightarrow> portal_state \<Rightarrow> call \<Rightarrow> bool" where
  "permitted M s (RunTask t) = (t \<in> set (ps_tasks s))"
| "permitted M s (PortalEvent event_type name body) = sets_maximum M body"
| "permitted M s _ = True"

fun dequeue :: "call \<Rightarrow> portal_state \<Rightarrow> portal_state" where
  "dequeue (RunTask (Reconciliation name)) s = s"
| "dequeue (RunTask t) s = s\<lparr>ps_tasks := remove1 t (ps_tasks s)\<rparr>"
| "dequeue _ s = s"

inductive portal_step :: "portal_world \<Rightarrow> int \<Rightarrow> portal_state \<Rightarrow> portal_state \<Rightarrow> bool" for w M where
  call: "permitted M s c \<Longrightarrow> t = snd (perform w c (dequeue c s)) \<Longrightarrow> portal_step w M s t"

inductive portal_run :: "portal_world \<Rightarrow> int \<Rightarrow> portal_state \<Rightarrow> portal_state \<Rightarrow> bool" for w M where
  start: "portal_run w M s s"
| step: "portal_run w M s t \<Longrightarrow> portal_step w M t u \<Longrightarrow> portal_run w M s u"

inductive_cases portal_stepE: "portal_step w M s t"

section \<open>Transactions that stay within the limit\<close>

definition commits :: "int \<Rightarrow> 'a op \<Rightarrow> bool" where
  "commits M m \<longleftrightarrow> ensures (bounded M) m (committed M) (side M)"

lemma commits_keeps: "keeps (bounded M) m \<Longrightarrow> commits M m"
  unfolding commits_def by (auto intro: ensures_post [OF ensures_keeps] within_side)

lemma commits_bind: "keeps (bounded M) m \<Longrightarrow> (\<And>x. commits M (f x)) \<Longrightarrow> commits M (op_bind m f)"
  unfolding commits_def by (rule ensures_bind [OF ensures_keeps]) (auto intro: within_side)

lemma commits_then: "keeps (bounded M) m \<Longrightarrow> commits M k \<Longrightarrow> commits M (op_then m k)"
  unfolding op_then_def by (rule commits_bind)

lemma commits_return: "commits M (op_return x)"
  by (rule commits_keeps) (rule keeps_return)

lemma commits_if: "(b \<Longrightarrow> commits M m) \<Longrightarrow> (\<not> b \<Longrightarrow> commits M k) \<Longrightarrow> commits M (if b then m else k)"
  by simp

lemma commits_option:
  "commits M m \<Longrightarrow> (\<And>y. x = Some y \<Longrightarrow> commits M (f y)) \<Longrightarrow> commits M (case x of None \<Rightarrow> m | Some y \<Rightarrow> f y)"
  by (cases x) simp_all

lemma commits_sum:
  "(\<And>y. commits M (f y)) \<Longrightarrow> (\<And>y. commits M (g y)) \<Longrightarrow> commits M (case x of Inl y \<Rightarrow> f y | Inr y \<Rightarrow> g y)"
  by (cases x) simp_all

lemma commits_let: "commits M (f x) \<Longrightarrow> commits M (let y = x in f y)"
  by simp

lemma commits_start:
  assumes "\<And>db. (\<And>p. db_portal db = Some p \<Longrightarrow> tp_sessions_maximum p = M) \<Longrightarrow> commits M (g (f db))"
  shows "commits M (op_bind (op_query f) g)"
  unfolding commits_def
proof (rule ensures_bind_query)
  fix db
  show "ensures (\<lambda>s. bounded M s \<and> ps_db s = db) (g (f db)) (committed M) (side M)"
  proof (cases "\<forall>p. db_portal db = Some p \<longrightarrow> tp_sessions_maximum p = M")
    case True
    with assms [of db] have "ensures (bounded M) (g (f db)) (committed M) (side M)"
      unfolding commits_def by blast
    then show ?thesis by (rule ensures_pre) simp
  next
    case False
    then have "\<not> (bounded M s \<and> ps_db s = db)" for s by (auto simp: within_def)
    then show ?thesis unfolding ensures_def by blast
  qed
qed

lemma commits_portal:
  assumes "\<And>p. tp_sessions_maximum p = M \<Longrightarrow> commits M (f p)"
  shows "commits M (op_bind current_portal f)"
proof -
  have "op_bind current_portal f = op_bind (op_query db_portal)
      (\<lambda>p. case p of None \<Rightarrow> op_raise DoesNotExist | Some p \<Rightarrow> f p)"
    by (auto simp: fun_eq_iff current_portal_def op_bind_def op_query_def op_return_def op_raise_def split: option.splits)
  moreover have "commits M (op_bind (op_query db_portal) (\<lambda>p. case p of None \<Rightarrow> op_raise DoesNotExist | Some p \<Rightarrow> f p))"
    by (rule commits_start) (auto intro: commits_keeps keeps_raise assms split: option.split)
  ultimately show ?thesis by simp
qed

lemma commits_atomically: "commits M m \<Longrightarrow> keeps (bounded M) (atomically (run_hook w) m)"
  unfolding commits_def by (rule keeps_transaction)

lemma commits_code:
  assumes "M > 0" and "tp_sessions_maximum p = M"
  shows "commits M (start_environment w p e details)" "commits M (initiate_reserved_sessions w p)"
    "commits M (retrieve_session_for_user w p e user wanted rq)"
  unfolding commits_def using assms
  by (simp_all add: ensures_start_environment ensures_initiate ensures_retrieve)

lemmas commits_intros = commits_portal commits_if commits_option commits_sum commits_let commits_return

section \<open>Every call keeps the limit\<close>

lemma keeps_activate:
  assumes "M > 0"
  shows "keeps (bounded M) (activate_workshop_environment w resource)"
  unfolding activate_workshop_environment_def
proof (rule commits_atomically, intro commits_bind [OF within_quiet(4)], rule commits_start)
  fix labels portal_name db
  assume maximum: "\<And>p. db_portal db = Some p \<Longrightarrow> tp_sessions_maximum p = M"
  have start: "commits M (start_environment w p e details)" if "db_portal db = Some p" for p e details
    by (rule commits_code(1) [OF assms maximum [OF that]])
  show "commits M (case db_portal db of
             None \<Rightarrow> op_return ()
           | Some p \<Rightarrow>
               if PStr (tp_name p) \<noteq> portal_name then op_return ()
               else
                 op_bind (op_lift (resource_get resource ''metadata.name'' PNone))
              (\<lambda>name. op_bind (case name of
                                  PStr n \<Rightarrow> op_bind (op_query (\<lambda>db. workshop_environment db n)) op_result
                                | _ \<Rightarrow> op_return None)
              (\<lambda>environment. op_bind (op_lift (resource_metadata resource ''uid''))
              (\<lambda>uid. case environment of
                 None \<Rightarrow> op_return ()
               | Some e \<Rightarrow>
                   if te_uid e \<noteq> uid then op_return ()
                   else if te_state e \<noteq> ENV_STARTING then op_return ()
                   else
                     op_bind (op_lift (bindE (resource_status resource) (\<lambda>s. resource_get s ''educates.workshop'' PNone)))
                       (start_environment w p e)))))"
    by (auto intro!: commits_return commits_bind within_quiet keeps_bind start split: option.split pyval.split)
qed

lemma keeps_run_task:
  assumes "M > 0" and "task_ok M t"
  shows "keeps (bounded M) (run_task w t)"
proof (cases t)
  case (Reconciliation name)
  have "keeps (bounded M) (start_reconciliation_task w name)"
    unfolding start_reconciliation_task_def
    by (rule commits_atomically, rule commits_start, intro commits_option commits_if commits_return)
      (auto intro!: commits_keeps keeps_each keeps_schedule simp only: list.set task_ok_def task_portal.simps)
  with Reconciliation show ?thesis by simp
qed (use assms in \<open>simp_all add: task_ok_def keeps_delete_session keeps_activate keeps_environment_tasks keeps_purge
       keeps_cleanup keeps_return within_quiet keeps_plain_transaction keeps_terminate commits_atomically commits_code\<close>)

lemma keeps_shutdown: "keeps (bounded M) (shutdown_workshop_environments w workshops)"
  unfolding shutdown_workshop_environments_def by (intro within_intros keeps_stop_environment)

lemma keeps_update: "keeps (bounded M) (update_workshop_environments w workshops)"
  unfolding update_workshop_environments_def update_workshop_environment_def update_environment_def
    duration_setting_def int_setting_def Let_def
  by (intro within_intros)

lemma keeps_robot: "keeps (bounded M) (initialize_robot_account w body)"
proof -
  have "keeps (bounded M) (add_user w name groups)" for name groups
    unfolding add_user_def Let_def by (intro within_intros)
  then show ?thesis
    unfolding initialize_robot_account_def by (intro within_intros) (auto intro!: within_intros split: pyval.split)
qed

lemma configured_portal_maximum:
  assumes "configured_portal p uid generation spec = Inr p'"
  shows "\<exists>r a. session_limits spec = Inr (tp_sessions_maximum p', r, a)"
  using assms unfolding configured_portal_def by (auto simp: bindE_Inr_iff)

lemma keeps_save_portal: "tp_sessions_maximum p = M \<Longrightarrow> keeps (bounded M) (save_portal p)"
  unfolding save_portal_def
  by (intro keeps_db) (simp add: within_def side_def load_def session_names_def has_counted_def)

lemma keeps_lift_bind:
  assumes "\<And>x. r = Inr x \<Longrightarrow> keeps I (f x)"
  shows "keeps I (op_bind (op_lift r) f)"
  using assms by (cases r) (auto simp: op_bind_def op_lift_def keeps_def ensures_def)

lemma keeps_process_portal:
  assumes "sets_maximum M body"
  shows "keeps (bounded M) (process_training_portal w body)"
proof -
  have configure: "keeps (bounded M) (op_bind (op_lift (configured_portal p uid generation spec))
      (\<lambda>p. op_then (save_portal p) (op_bind (op_lift (workshops_configuration p spec)) (f p))))"
    if "resource_get body ''spec'' (PDict []) = Inr spec"
      and "\<And>p workshops. tp_sessions_maximum p = M \<Longrightarrow> keeps (bounded M) (f p workshops)" for p uid generation spec f
  proof (rule keeps_lift_bind)
    fix p' assume "configured_portal p uid generation spec = Inr p'"
    with configured_portal_maximum assms that(1) have "tp_sessions_maximum p' = M"
      unfolding sets_maximum_def by blast
    then show "keeps (bounded M) (op_then (save_portal p') (op_bind (op_lift (workshops_configuration p' spec)) (f p')))"
      by (intro keeps_then keeps_bind keeps_save_portal keeps_lift that(2))
  qed
  have initiate: "keeps (bounded M) (initiate_workshop_environments p workshops)"
    if "tp_sessions_maximum p = M" for p workshops
    unfolding initiate_workshop_environments_def using that
    by (intro within_intros keeps_schedule) (simp add: task_ok_def)
  show ?thesis
    unfolding process_training_portal_def Let_def
    by (intro keeps_bind keeps_query keeps_lift keeps_if keeps_return keeps_lift_bind configure keeps_then
        keeps_shutdown keeps_update initiate)
qed

lemma keeps_portal_event:
  assumes "sets_maximum M body"
  shows "keeps (bounded M) (training_portal_event w event_type name body)"
  unfolding training_portal_event_def
  by (intro keeps_plain_transaction within_intros keeps_robot keeps_process_portal assms keeps_schedule)
    (simp_all add: task_ok_def)

lemma keeps_workshop_event: "keeps (bounded M) (workshop_event w body)"
proof -
  have "keeps (bounded M) (replace_changed w p uid generation es)" if "tp_sessions_maximum p = M" for p uid generation es
    using that by (induction es) (auto intro!: within_intros keeps_replace_environment split: option.split)
  then show ?thesis
    unfolding workshop_event_def
    by (intro commits_atomically, intro commits_start, intro commits_option commits_if commits_return)
      (auto intro!: commits_keeps within_intros)
qed


text \<open>The views of a session.\<close>

lemma keeps_discard: "keeps I m \<Longrightarrow> keeps I (discard m)"
  unfolding discard_def by (intro keeps_bind keeps_return)

lemma named_session_row:
  assumes "named_session db states name = Some ss"
  shows "ss \<in> set (db_sessions db)" and "ts_state ss \<in> set states" and "ts_name ss = name"
  using find_row_SomeD [OF assms [unfolded named_session_def]] by auto

lemma keeps_on_row:
  assumes "\<And>db. keeps (bounded M) (g (f db)) \<or>
    (\<exists>ss\<in>set (db_sessions db). counted ss \<and> keeps (within M 0 {ts_name ss} {}) (g (f db)))"
  shows "keeps (bounded M) (op_bind (op_query f) g)"
proof (rule keepsI)
  fix s assume I: "bounded M s"
  have eq: "op_bind (op_query f) g s = g (f (ps_db s)) s" by (simp add: op_bind_def op_query_def)
  from assms [of "ps_db s"] show "bounded M (snd (op_bind (op_query f) g s))"
  proof
    assume "keeps (bounded M) (g (f (ps_db s)))"
    from keepsD [OF this I] show ?thesis by (simp add: eq)
  next
    assume "\<exists>ss\<in>set (db_sessions (ps_db s)). counted ss \<and> keeps (within M 0 {ts_name ss} {}) (g (f (ps_db s)))"
    then obtain ss where row: "ss \<in> set (db_sessions (ps_db s))" "counted ss"
      and keeps: "keeps (within M 0 {ts_name ss} {}) (g (f (ps_db s)))" by blast
    from keepsD [OF keeps within_has_counted [OF I refl row]]
    have "within M 0 {ts_name ss} {} (snd (g (f (ps_db s)) s))" .
    then show ?thesis unfolding eq by (rule within_mono) simp_all
  qed
qed

lemma counted_stopping_owned: "ts_owner ss \<noteq> None \<Longrightarrow> counted (mark_as_stopping now ss)"
  by (auto simp: counted_def is_allocated_def mark_as_stopping_def)

lemma keeps_stop_session:
  assumes "ts_owner ss \<noteq> None" and "ts_name ss \<in> N"
    and "\<And>t. task_ok M t \<Longrightarrow> keeps (within M k N H) (hand_over t)"
  shows "keeps (within M k N H) (stop_session w ss hand_over)"
  unfolding stop_session_def Let_def
  using assms
  by (intro keeps_bind within_quiet keeps_then keeps_with_portal keeps_save_counted counted_stopping_owned)
    (auto simp: task_ok_def mark_as_stopping_def)

lemma keeps_current_portal: "keeps (within M k N H) current_portal"
  by (rule keeps_quiet, rule quiet_operations)

lemma keeps_accessible:
  assumes "\<And>ss. refused ss = None \<Longrightarrow>
    keeps (bounded M) (f ss) \<or> counted ss \<and> keeps (within M 0 {ts_name ss} {}) (f ss)"
  shows "keeps (bounded M) (with_accessible_session rq name refused f)"
proof -
  have "keeps (bounded M) (op_bind (op_query (\<lambda>db. allocated_session db name))
       (\<lambda>found. case found of
          None \<Rightarrow> op_return (NotFoundAnswer ''Session does not exist'')
        | Some ss \<Rightarrow>
            (case refused ss of
               Some r \<Rightarrow> op_return r
             | None \<Rightarrow>
                 if \<not> may_access rq ss then op_return (ForbiddenAnswer ''Access to session not permitted'')
                 else f ss)))"
  proof (rule keeps_on_row)
    fix db
    show "keeps (bounded M) (case allocated_session db name of
          None \<Rightarrow> op_return (NotFoundAnswer ''Session does not exist'')
        | Some ss \<Rightarrow>
            (case refused ss of
               Some r \<Rightarrow> op_return r
             | None \<Rightarrow>
                 if \<not> may_access rq ss then op_return (ForbiddenAnswer ''Access to session not permitted'')
                 else f ss)) \<or>
      (\<exists>ss\<in>set (db_sessions db). counted ss \<and> keeps (within M 0 {ts_name ss} {}) (case allocated_session db name of
          None \<Rightarrow> op_return (NotFoundAnswer ''Session does not exist'')
        | Some ss \<Rightarrow>
            (case refused ss of
               Some r \<Rightarrow> op_return r
             | None \<Rightarrow>
                 if \<not> may_access rq ss then op_return (ForbiddenAnswer ''Access to session not permitted'')
                 else f ss)))"
    proof (cases "allocated_session db name")
      case None
      then show ?thesis by (simp add: keeps_return)
    next
      case (Some ss)
      have row: "ss \<in> set (db_sessions db)"
        using named_session_row(1) Some unfolding allocated_session_def by blast
      show ?thesis
      proof (cases "refused ss = None \<and> may_access rq ss")
        case True
        with assms [of ss] row Some show ?thesis by auto
      next
        case False
        with Some show ?thesis by (auto simp: keeps_return split: option.split)
      qed
    qed
  qed
  from keeps_bind [OF keeps_current_portal this] show ?thesis
    unfolding with_accessible_session_def .
qed

lemma in_use_counted: "not_in_use ss = None \<Longrightarrow> counted ss \<and> ts_owner ss \<noteq> None"
  by (auto simp: not_in_use_def counted_def is_allocated_def split: if_splits)

lemma keeps_quiet_view: "quiet m \<Longrightarrow> keeps (bounded M) m"
  by (rule keeps_quiet)

lemma quiet_countdown [quiet_intros]: "quiet (countdown_details w e ss remaining)"
  unfolding countdown_details_def by (intro quiet_intros)

lemma keeps_terminate_view: "keeps (bounded M) (session_terminate w rq name)"
  unfolding session_terminate_def
proof (rule keeps_accessible, rule disjI2)
  fix ss assume "not_in_use ss = None"
  then have "counted ss" and "ts_owner ss \<noteq> None" using in_use_counted by blast+
  then show "counted ss \<and> keeps (within M 0 {ts_name ss} {}) (op_bind (stop_session w ss schedule)
     (\<lambda>ss. op_return (JsonAnswer 200 (PDict
             [(''started'', json_time (ts_started ss)), (''expires'', json_time (ts_expires ss))]))))"
    by (auto intro!: keeps_bind keeps_stop_session keeps_schedule keeps_return)
qed

lemma extend_time_row:
  assumes "extend_time_remaining e now ss = Inr (Some ss')"
  shows "ts_name ss' = ts_name ss" and "ts_state ss' = ts_state ss" and "ts_owner ss' = ts_owner ss"
  using assms by (auto simp: extend_time_remaining_def bindE_Inr_iff Let_def split: if_splits option.splits)

lemma keeps_extend:
  assumes "counted ss" and "ts_name ss \<in> N"
  shows "keeps (within M k N H) (extend_session w e ss)"
proof -
  have "keeps (within M k N H) (op_bind (op_lift (extend_time_remaining e now ss))
       (\<lambda>extended. case extended of None \<Rightarrow> op_return (ss, False)
          | Some ss \<Rightarrow> op_then (save_session ss) (op_return (ss, True))))" for now
  proof (rule keeps_lift_bind)
    fix extended assume *: "extend_time_remaining e now ss = Inr extended"
    show "keeps (within M k N H) (case extended of None \<Rightarrow> op_return (ss, False)
          | Some ss \<Rightarrow> op_then (save_session ss) (op_return (ss, True)))"
    proof (cases extended)
      case (Some ss')
      with * assms have "counted ss'" "ts_name ss' \<in> N"
        by (auto simp: extend_time_row counted_def is_allocated_def is_available_def)
      with Some show ?thesis by (simp add: keeps_then keeps_save_counted keeps_return)
    qed (simp add: keeps_return)
  qed
  note step = this
  show ?thesis
    unfolding extend_session_def
    by (rule keeps_bind, rule within_quiet, rule keeps_bind, rule within_quiet, rule keeps_if, rule keeps_return,
        rule keeps_bind, rule within_quiet, rule step)
qed

lemma keeps_extend_view: "keeps (bounded M) (session_extend w rq name)"
  unfolding session_extend_def
proof (rule keeps_accessible, rule disjI2, rule conjI)
  fix ss assume "not_in_use ss = None"
  then show counted: "counted ss" using in_use_counted by blast
  show "keeps (within M 0 {ts_name ss} {}) (op_bind (session_environment ss)
       (\<lambda>e. op_bind (read_clock w)
       (\<lambda>_. op_bind (extend_session w e ss)
       (\<lambda>(ss, extended). op_bind (read_clock w)
       (\<lambda>now. op_then (if extended then report_session_event w e ss ''Session/Extended'' else op_return ())
         (op_bind (read_clock w)
            (\<lambda>later. op_bind (countdown_details w e ss (time_remaining now ss))
               (\<lambda>countdown. op_return (JsonAnswer 200 (PDict
                  (session_times ss @ [(''extended'', PBool extended), (''expiring'', PBool (is_expiring e later ss))]
                   @ countdown)))))))))))"
    by (intro keeps_bind within_quiet keeps_extend counted keeps_pair keeps_then keeps_if keeps_quiet quiet_countdown) simp_all
qed

lemma keeps_on_named:
  assumes "\<And>db ss. h db = Some ss \<Longrightarrow> ss \<in> set (db_sessions db) \<and>
      (keeps (bounded M) (f ss) \<or> counted ss \<and> keeps (within M 0 {ts_name ss} {}) (f ss))"
    and "\<And>url. keeps (bounded M) (r url)" and "keeps (bounded M) m"
  shows "keeps (bounded M) (op_bind (op_query id)
     (\<lambda>db. case q db of Some url \<Rightarrow> r url | None \<Rightarrow> (case h db of None \<Rightarrow> m | Some ss \<Rightarrow> f ss)))"
proof (rule keeps_on_row)
  fix db
  let ?body = "case q (id db) of Some url \<Rightarrow> r url | None \<Rightarrow> (case h (id db) of None \<Rightarrow> m | Some ss \<Rightarrow> f ss)"
  show "keeps (bounded M) ?body \<or> (\<exists>ss\<in>set (db_sessions db). counted ss \<and> keeps (within M 0 {ts_name ss} {}) ?body)"
  proof (cases "q db")
    case (Some url)
    then show ?thesis by (simp add: assms(2))
  next
    case q: None
    show ?thesis
    proof (cases "h db")
      case None
      with q show ?thesis by (simp add: assms(3))
    next
      case (Some ss)
      with q assms(1) [OF Some] show ?thesis by auto
    qed
  qed
qed

lemma allocated_session_row:
  assumes "allocated_session db name = Some ss"
  shows "ss \<in> set (db_sessions db)" and "ts_owner ss \<noteq> None \<Longrightarrow> counted ss" and "ts_name ss = name"
    and "ts_state ss \<noteq> SESSION_STOPPED"
  using named_session_row [OF assms [unfolded allocated_session_def]]
  by (auto simp: counted_def is_allocated_def)

lemma keeps_activate_view: "keeps (bounded M) (session_activate w rq name)"
proof -
  have run: "keeps (within M 0 {ts_name ss} {}) (activate_session w ss owner)" if "ts_owner ss \<noteq> None" for ss owner
    unfolding activate_session_def Let_def using that
    by (intro keeps_bind within_quiet keeps_then keeps_save_counted counted_running) auto
  have activate: "keeps (bounded M) (activate_with_token w token ss) \<or>
      counted ss \<and> keeps (within M 0 {ts_name ss} {}) (activate_with_token w token ss)"
    if "ts_owner ss \<noteq> None \<longrightarrow> counted ss" for ss token
  proof (cases "ts_owner ss")
    case None
    then show ?thesis by (simp add: activate_with_token_def keeps_return)
  next
    case (Some owner)
    have "keeps (within M 0 {ts_name ss} {}) (activate_with_token w token ss)"
      unfolding activate_with_token_def Some option.case
      by (intro keeps_if keeps_return keeps_bind [OF keeps_quiet] quiet_operations keeps_then run) (simp add: Some)
    with that Some show ?thesis by simp
  qed
  show ?thesis
    unfolding session_activate_def Let_def
    by (intro keeps_if keeps_return keeps_bind [OF keeps_current_portal] keeps_on_named conjI activate impI)
      (blast dest: allocated_session_row)+
qed

lemma keeps_delete_view: "keeps (bounded M) (session_delete w rq name)"
proof -
  have own: "keeps (within M 0 {ts_name ss} {}) (delete_own_session w rq ss)" if "ts_owner ss \<noteq> None" for ss
    unfolding delete_own_session_def Let_def using that
    by (intro keeps_bind keeps_stop_session keeps_on_commit keeps_return) simp_all
  have row: "ss \<in> set (db_sessions db) \<and> counted ss \<and> ts_owner ss \<noteq> None"
    if "allocated_session_of db name user = Some ss" for db ss user
    using that allocated_session_row [of db name]
    by (auto simp: allocated_session_of_def owned_by_def split: option.splits if_splits)
  show ?thesis
    unfolding session_delete_def
    by (intro keeps_plain_transaction keeps_bind [OF keeps_current_portal] keeps_on_named keeps_return)
      (use row own in blast)
qed

text \<open>Requests for sessions.\<close>

lemma keeps_add_user: "keeps (bounded M) (add_user w name groups)"
  unfolding add_user_def Let_def by (intro within_intros)

lemma commits_bind_quiet:
  assumes "commits M m" and "\<And>x. quiet (f x)"
  shows "commits M (op_bind m f)"
  unfolding commits_def
proof (rule ensures_bind)
  show "ensures (bounded M) m (committed M) (side M)" using assms(1) by (simp add: commits_def)
  fix x
  have "log_free (\<lambda>s. \<exists>N. within M 0 N N s)"
    using within_log_free unfolding log_free_def by blast
  from ensures_quiet [OF assms(2) this] show "ensures (committed M x) (f x) (committed M) (side M)"
    by (blast intro: within_side)
qed

lemma keeps_environment_view:
  assumes "M > 0"
  shows "keeps (bounded M) (environment_view w rq user name)"
proof -
  have "commits M (op_bind current_portal (\<lambda>p. op_bind (retrieve_session_for_user w p e user wanted r) (\<lambda>ss. op_return (f ss))))"
    for e wanted r and f :: "session_record option \<Rightarrow> response"
    by (intro commits_portal commits_bind_quiet commits_code assms quiet_intros)
  then show ?thesis
    unfolding environment_view_def Let_def
    by (intro commits_atomically commits_bind [OF keeps_query] commits_bind [OF keeps_result] commits_option commits_return)
qed

lemma commits_request_session:
  assumes "M > 0"
  shows "commits M (request_session w rq e index_url timeout params user)"
proof -
  have answer: "quiet (case found of None \<Rightarrow> op_return (unavailable ''No session available'')
         | Some ss \<Rightarrow>
             (case ts_token ss of
                None \<Rightarrow> op_return (unavailable ''Cannot be reacquired'')
              | Some t \<Rightarrow>
                  if t = [] then op_return (unavailable ''Cannot be reacquired'')
                  else op_bind (environment_workshop e)
                    (\<lambda>wk. op_return (request_answer user e wk index_url ss t))))" for found
    by (intro quiet_intros)
  show ?thesis
    unfolding request_session_def
    by (intro commits_if commits_return commits_bind [OF within_quiet(8)] commits_portal commits_bind_quiet answer
        commits_code assms)
qed

lemma keeps_user_for_request: "keeps (bounded M) (user_for_request w rq name)"
  unfolding user_for_request_def Let_def
  by (intro keeps_bind keeps_query keeps_option keeps_return keeps_add_user keeps_then keeps_save_user within_quiet)

lemma keeps_environment_request:
  assumes "M > 0"
  shows "keeps (bounded M) (environment_request w rq name)"
  unfolding environment_request_def Let_def
  by (intro commits_atomically commits_if commits_return commits_bind [OF keeps_query] commits_bind [OF keeps_result]
      commits_option commits_bind [OF keeps_if [OF within_quiet(8) keeps_return]] commits_bind [OF keeps_lift] commits_sum
      commits_bind [OF keeps_user_for_request] commits_request_session assms)

lemma keeps_environment_create: "keeps (bounded M) (environment_create w rq name)"
  unfolding environment_create_def Let_def
  by (intro keeps_plain_transaction keeps_if keeps_return keeps_bind keeps_add_user keeps_then within_quiet)

text \<open>Views that only read.\<close>

lemma quiet_collect [quiet_intros]: "(\<And>x. quiet (f x)) \<Longrightarrow> quiet (collect f xs)"
  unfolding collect_def by (intro quiet_intros)

lemma quiet_details [quiet_intros]:
  "quiet (expiry_details w e ss)" "quiet (session_data w e ss)" "quiet (sessions_list w rq e)"
  unfolding expiry_details_def session_data_def sessions_list_def by (intro quiet_intros)+

lemma quiet_views:
  "quiet (catalog_environments w rq q)" "quiet (catalog_workshops w)" "quiet (user_sessions w rq name)"
  unfolding catalog_environments_def environment_entry_def catalog_workshops_def workshop_entry_def user_sessions_def
    user_session_entry_def Let_def
  by (intro quiet_intros)+

lemma keeps_reading_views:
  "keeps (bounded M) (session_view w rq name)" "keeps (bounded M) (environment_status w rq name)"
  unfolding session_view_def environment_status_def
  by (intro keeps_plain_transaction keeps_quiet quiet_intros quiet_let)+

lemma keeps_reading_session_views:
  "keeps (bounded M) (session_authorize rq name)" "keeps (bounded M) (session_config rq name)"
  "keeps (bounded M) (session_schedule w rq name)" "keeps (bounded M) (session_event w rq name)"
proof -
  show "keeps (bounded M) (session_authorize rq name)" "keeps (bounded M) (session_config rq name)"
    "keeps (bounded M) (session_schedule w rq name)"
    unfolding session_authorize_def session_config_def session_schedule_def
    by (intro keeps_accessible disjI1 keeps_quiet quiet_intros)+
  have "quiet (case wr_json rq of Some (Some message) \<Rightarrow> m message | _ \<Rightarrow> op_raise (PyError ValueError))"
    if "\<And>message. quiet (m message)" for m :: "pyval \<Rightarrow> response op"
    using that by (auto split: option.split intro: quiet_intros)
  then show "keeps (bounded M) (session_event w rq name)"
    unfolding session_event_def by (intro keeps_accessible disjI1 keeps_quiet quiet_if quiet_intros)
qed

section \<open>The limit holds\<close>

lemma keeps_perform:
  assumes "M > 0" and "permitted M s c" and "bounded M s"
  shows "keeps (bounded M) (perform w c)"
proof (cases c)
  case (RunTask t)
  with assms have "task_ok M t" by (auto simp: within_def side_def)
  with RunTask assms show ?thesis by (simp add: keeps_run_task)
next
  case (EnvironmentEvent body)
  then show ?thesis
    by (auto simp: workshop_environment_event_def task_ok_def intro!: within_intros keeps_schedule)
qed (use assms in \<open>simp_all add: keeps_portal_event keeps_workshop_event keeps_discard keeps_reading_views
      keeps_activate_view keeps_terminate_view keeps_delete_view keeps_reading_session_views keeps_extend_view
      keeps_environment_view keeps_environment_create keeps_environment_request keeps_quiet quiet_views\<close>)

lemma dequeue_bounded: "bounded M s \<Longrightarrow> bounded M (dequeue c s)"
  by (induction c s rule: dequeue.induct) (auto simp: within_def side_def dest: in_set_remove1 [THEN iffD1] notin_set_remove1)

lemma run_bounded:
  assumes "portal_run w M s t" and "M > 0" and "bounded M s"
  shows "bounded M t"
  using assms
proof (induction rule: portal_run.induct)
  case (step s t u)
  then show ?case
    by (auto elim!: portal_stepE intro: keepsD [OF keeps_perform dequeue_bounded])
qed


lemma load_split: "load db = count (portal_allocated_sessions db) + count (portal_available_sessions db)"
proof -
  have "length (filter counted rows) = length (filter is_allocated rows) + length (filter is_available rows)" for rows
    by (induction rows) (auto simp: counted_def is_allocated_def is_available_def)
  then show ?thesis
    by (simp add: load_def count_def portal_allocated_sessions_def portal_available_sessions_def)
qed

text \<open>
  \<^bold>\<open>C1.\<close> The portal's limit: as long as the configured maximum is \<open>M\<close>, no sequence of web requests, watch
  events and background tasks makes the sessions given to users and the sessions in reserve together
  more than \<open>M\<close>, whatever the Kubernetes API and the sessions answer and whichever calls fail.
\<close>

theorem sessions_within_maximum:
  assumes "0 < M" and "within M 0 {} {} s" and "portal_run w M s t"
  shows "count (portal_allocated_sessions (ps_db t)) + count (portal_available_sessions (ps_db t)) \<le> M"
  using run_bounded [OF assms(3,1,2)] by (simp add: within_def load_split)

text \<open>A portal with room for one session, which is in reserve: one user gets it, the next one gets none.\<close>

definition sample_settings :: portal_settings where
  "sample_settings =
     \<lparr>st_portal_name = ''lab'', st_portal_uid = PStr ''u'', st_portal_hostname = ''ui.x'', st_ingress_protocol = ''http'',
      st_ingress_domain = ''x'', st_ingress_secret = [], st_ingress_class = [], st_frame_ancestors = [],
      st_admin_username = ''adm'', st_theme_name = [], st_session_cookie_domain = [], st_portal_index = [],
      st_portal_password = [], st_enable_registration = ''true'', st_registration_type = ''one-step'',
      st_google_tracking_id = None, st_clarity_tracking_id = None, st_amplitude_tracking_id = None\<rparr>"

definition sample_world :: portal_world where
  "sample_world =
     \<lparr>pw_settings = sample_settings, pw_now = (\<lambda>l. seconds (int (length l))),
      pw_random = (\<lambda>l n. ''r'' @ show_nat (length l)), pw_generate = (\<lambda>l v. v),
      pw_kube = (\<lambda>l e. case e of KubeCreate v \<Rightarrow> Inr (PDict [(''metadata'', PDict [(''uid'', PStr ''k'')])])
                       | _ \<Rightarrow> Inl ObjectDoesNotExist),
      pw_http = (\<lambda>l url. Inl ClientError), pw_valid_email = (\<lambda>e. True)\<rparr>"

definition sample_user :: "string \<Rightarrow> user_record" where
  "sample_user name =
     \<lparr>us_username = name, us_first_name = [], us_last_name = [], us_email = [], us_is_staff = False,
      us_is_active = True, us_groups = [], us_date_joined = 0\<rparr>"

definition sample_portal :: portal_record where
  "sample_portal = (fresh_portal ''lab'')\<lparr>tp_uid := PStr ''u'', tp_sessions_maximum := 1\<rparr>"

definition sample_workshop :: workshop_record where
  "sample_workshop =
     \<lparr>wk_name = PStr ''w'', wk_uid = PStr ''1'', wk_generation = PInt 1, wk_title = PNone, wk_description = PNone,
      wk_vendor = PNone, wk_authors = PNone, wk_difficulty = PNone, wk_duration = PNone, wk_tags = PNone,
      wk_labels = [], wk_logo = PNone, wk_url = PNone, wk_ingresses = PList [], wk_params = PList []\<rparr>"

definition sample_environment :: environment_record where
  "sample_environment =
     \<lparr>te_id = 1, te_workshop_name = PStr ''w'', te_resource_name = PStr ''w'', te_workshop = Some sample_workshop,
      te_name = ''lab-w01'', te_uid = PStr ''e'', te_created_at = 0, te_state = ENV_RUNNING, te_position = 1,
      te_capacity = 5, te_initial = 0, te_reserved = 0, te_expires = seconds 3600, te_overtime = 0,
      te_deadline = seconds 7200, te_orphaned = 0, te_overdue = 0, te_refresh = 0, te_registry = PDict [],
      te_env = PList [], te_labels = [], te_tally = 0\<rparr>"

definition sample_session :: session_record where
  "sample_session = (new_session sample_environment ''lab-w01-s001'' ''s001'' 0)\<lparr>ts_state := SESSION_WAITING\<rparr>"

definition sample_db :: portal_db where
  "sample_db =
     \<lparr>db_portal = Some sample_portal, db_workshops = [sample_workshop], db_environments = [sample_environment],
      db_sessions = [sample_session], db_applications = [],
      db_users = map sample_user [''adm'', ''ann'', ''bob'']\<rparr>"

definition sample_state :: "portal_db \<Rightarrow> portal_state" where
  "sample_state db = \<lparr>ps_db = db, ps_hooks = [], ps_tasks = [], ps_log = []\<rparr>"

text \<open>The front end, a robot account, asks for a session in the name of a user.\<close>

definition sample_request :: "string \<Rightarrow> web_request" where
  "sample_request user =
     \<lparr>wr_user = Some ((sample_user ''bot'')\<lparr>us_groups := [''robots'']\<rparr>),
      wr_query = [(''user'', user), (''index_url'', ''x'')],
      wr_query_string = [], wr_content_type = [], wr_json = None\<rparr>"

definition sample_visit :: "string \<Rightarrow> portal_state \<Rightarrow> portal_state" where
  "sample_visit user s = snd (perform sample_world (RequestFromEnvironment (sample_request user) ''lab-w01'') s)"

lemma sample_visit_step: "portal_step sample_world M s (sample_visit user s)"
  unfolding sample_visit_def
  by (rule portal_step.call [where c = "RequestFromEnvironment (sample_request user) ''lab-w01''"]) simp_all

lemma sample_visits:
  "map (\<lambda>ss. (ts_name ss, ts_owner ss)) (db_sessions (ps_db (sample_visit ''bob'' (sample_visit ''ann'' (sample_state sample_db)))))
     = [(''lab-w01-s001'', Some ''ann'')]"
  by code_simp

theorem sessions_within_maximum_witness:
  "count (portal_allocated_sessions (ps_db (sample_visit ''bob'' (sample_visit ''ann'' (sample_state sample_db)))))
   + count (portal_available_sessions (ps_db (sample_visit ''bob'' (sample_visit ''ann'' (sample_state sample_db))))) \<le> 1"
proof (rule sessions_within_maximum)
  show "within 1 0 {} {} (sample_state sample_db)"
    by (simp add: within_def side_def sample_state_def sample_db_def load_def count_def session_names_def sample_portal_def
        sample_session_def new_session_def counted_def is_available_def)
  show "portal_run sample_world 1 (sample_state sample_db) (sample_visit ''bob'' (sample_visit ''ann'' (sample_state sample_db)))"
    by (rule portal_run.step [OF portal_run.step [OF portal_run.start]], rule sample_visit_step, rule sample_visit_step)
qed simp

end
