(* ===== verification/Portal_Times.thy ===== *)
theory Portal_Times
  imports Portal_Config
begin

text \<open>
  Numbers and times of the training portal: how long a session may be extended, how durations are
  written and read, and what the configuration of a workshop is after its defaults and limits.
\<close>

section \<open>Extensions\<close>

lemma extension_threshold_bound: "seconds 300 \<le> extension_threshold e"
  by (simp add: extension_threshold_def)

lemma extension_duration_bound: "seconds 300 \<le> extension_duration e"
  by (simp add: extension_duration_def extension_threshold_bound)

lemma extension_duration_positive: "0 < extension_duration e"
  using extension_duration_bound [of e] by (simp add: seconds_def)

text \<open>Attempts to extend a session at the given times; those that are not permitted leave it alone.\<close>

fun extension_attempts :: "environment_record \<Rightarrow> time list \<Rightarrow> session_record \<Rightarrow> session_record result" where
  "extension_attempts e [] ss = Inr ss"
| "extension_attempts e (now # nows) ss =
     bindE (extend_time_remaining e now ss)
       (\<lambda>extended. extension_attempts e nows (case extended of None \<Rightarrow> ss | Some ss' \<Rightarrow> ss'))"

definition extended_expiry :: "environment_record \<Rightarrow> time \<Rightarrow> time \<Rightarrow> time \<Rightarrow> time" where
  "extended_expiry e started expires now =
     (if expires < started + te_deadline e \<and> expires < now + extension_duration e
      then min (expires + extension_duration e) (started + te_deadline e) else expires)"

lemma extend_time_remaining_running:
  assumes "ts_state ss = SESSION_RUNNING" and "ts_owner ss = Some u"
    and "ts_started ss = Some started" and "ts_expires ss = Some expires"
  shows "extend_time_remaining e now ss =
    Inr (if expires < started + te_deadline e \<and> expires < now + extension_duration e
         then Some (ss\<lparr>ts_expires := Some (extended_expiry e started expires now)\<rparr>) else None)"
  using assms extension_duration_positive [of e]
  by (auto simp: extend_time_remaining_def is_extension_permitted_def remaining_time_def is_allocated_def
        extended_expiry_def min_def)

lemma extended_expiry_bounds:
  "expires \<le> extended_expiry e started expires now"
  "extended_expiry e started expires now \<le> max expires (started + te_deadline e)"
  "extended_expiry e started expires now \<le> max expires (now + 2 * extension_duration e)"
  using extension_duration_positive [of e] by (auto simp: extended_expiry_def)

text \<open>
  \<^bold>\<open>C39.\<close> Extending a running session: however often and whenever its user asks, nothing but the expiry
  changes, it never moves back, it never passes the environment's deadline counted from the start of the
  session (unless it was past that already), and since an extension is given only when less than one
  extension is left, it is never more than two extensions after the last attempt.
\<close>

theorem extensions_bounded:
  assumes "ts_state ss = SESSION_RUNNING" and "ts_owner ss = Some u"
    and "ts_started ss = Some started" and "ts_expires ss = Some expires"
  shows "\<exists>new. extension_attempts e nows ss = Inr (ss\<lparr>ts_expires := Some new\<rparr>)
           \<and> expires \<le> new \<and> new \<le> max expires (started + te_deadline e)
           \<and> (\<forall>latest. (\<forall>now\<in>set nows. now \<le> latest) \<longrightarrow> new \<le> max expires (latest + 2 * extension_duration e))"
  using assms
proof (induction nows arbitrary: ss expires)
  case Nil
  then show ?case by (intro exI [of _ expires]) simp
next
  case (Cons now nows)
  define mid where "mid = extended_expiry e started expires now"
  let ?ss = "ss\<lparr>ts_expires := Some mid\<rparr>"
  have "extension_attempts e (now # nows) ss = extension_attempts e nows ?ss"
    using Cons.prems by (cases ss) (auto simp: extend_time_remaining_running mid_def extended_expiry_def)
  moreover obtain new where "extension_attempts e nows ?ss = Inr (?ss\<lparr>ts_expires := Some new\<rparr>)"
    and "mid \<le> new" and "new \<le> max mid (started + te_deadline e)"
    and "\<And>latest. \<forall>now\<in>set nows. now \<le> latest \<Longrightarrow> new \<le> max mid (latest + 2 * extension_duration e)"
    using Cons.IH [of ?ss mid] Cons.prems by auto
  moreover note extended_expiry_bounds [where expires = expires and e = e and started = started and now = now, folded mid_def]
  ultimately show ?case by (intro exI [of _ new]) (fastforce simp: max_def split: if_splits)
qed

text \<open>A session of one hour may run for two: from the third attempt on the deadline stands.\<close>

definition hour_environment :: environment_record where
  "hour_environment =
     \<lparr>te_id = 1, te_workshop_name = PStr ''lab'', te_resource_name = PStr ''lab'', te_workshop = None, te_name = ''p-w01'',
      te_uid = PStr ''u'', te_created_at = 0, te_state = ENV_RUNNING, te_position = 1, te_capacity = 1, te_initial = 1,
      te_reserved = 0, te_expires = seconds 3600, te_overtime = seconds 1800, te_deadline = seconds 7200,
      te_orphaned = 0, te_overdue = 0, te_refresh = 0, te_registry = PDict [], te_env = PList [], te_labels = [],
      te_tally = 1\<rparr>"

definition hour_session :: session_record where
  "hour_session =
     mark_as_running hour_environment 0 (Some ''ann'')
       (new_session hour_environment ''p-w01-s001'' ''s001'' 0)"

theorem extensions_bounded_witness:
  "\<exists>new. extension_attempts hour_environment [seconds 3000, seconds 4000, seconds 6000, seconds 7000] hour_session
           = Inr (hour_session\<lparr>ts_expires := Some new\<rparr>)
     \<and> seconds 3600 \<le> new \<and> new \<le> seconds 7200 \<and> new \<le> max (seconds 3600) (seconds 7000 + 2 * seconds 1800)"
  using extensions_bounded [of hour_session "''ann''" 0 "seconds 3600" hour_environment
      "[seconds 3000, seconds 4000, seconds 6000, seconds 7000]"]
  by (auto simp: hour_session_def mark_as_running_def new_session_def hour_environment_def seconds_def
        extension_duration_def dest!: spec [of _ "7000000000"])

lemma extensions_reach_deadline:
  "extension_attempts hour_environment [seconds 3000, seconds 4000, seconds 6000, seconds 7000] hour_session
     = Inr (hour_session\<lparr>ts_expires := Some (seconds 7200)\<rparr>)"
  by (simp add: hour_session_def mark_as_running_def new_session_def hour_environment_def seconds_def
        extend_time_remaining_running extended_expiry_def extension_duration_def)

section \<open>Durations\<close>

lemma digit_value_char: "d < 10 \<Longrightarrow> digit_value (digit_char d) = Some d"
  by (simp add: digit_value_def digit_char_def)

lemma int_digits_chars:
  assumes "\<forall>d\<in>set ds. d < 10" and "ds \<noteq> [] \<or> after"
  shows "int_digits (map digit_char ds) after acc = Some (foldl (\<lambda>a d. 10 * a + d) acc ds)"
  using assms by (induction ds arbitrary: after acc) (simp_all add: digit_value_char)

lemma int_digits_show_nat: "int_digits (show_nat n) False 0 = Some n"
  unfolding show_nat_def
  by (subst int_digits_chars) (auto simp: digits_of_nonempty digits_of_value dest: digits_of_bound)

lemma signed_digits_show_int: "signed_digits (show_int n) = Some n"
proof (cases "n < 0")
  case True
  then show ?thesis by (simp add: signed_digits_def show_int_def int_digits_show_nat)
next
  case False
  obtain c cs where c: "show_nat (nat n) = c # cs" using show_nat_nonempty by (cases "show_nat (nat n)") auto
  then have "(of_char c :: nat) \<in> {48..<58}" by (intro show_nat_chars [of c "nat n"]) simp
  then have "c \<noteq> CHR ''-''" "c \<noteq> CHR ''+''" by auto
  with False c int_digits_show_nat [of "nat n"] show ?thesis by (simp add: signed_digits_def show_int_def)
qed

lemma strip_by_id: "s \<noteq> [] \<Longrightarrow> \<not> sp (hd s) \<Longrightarrow> \<not> sp (last s) \<Longrightarrow> strip_by sp s = s"
  by (cases s) (auto simp: strip_by_def dropWhile_append3 dropWhile_eq_self_iff hd_rev simp flip: rev.simps(2))

lemma show_int_chars: "c \<in> set (show_int n) \<Longrightarrow> of_char c \<in> insert 45 {48..<58::nat}"
  using show_nat_chars by (auto simp: show_int_def split: if_splits)

lemma show_int_nonempty: "show_int n \<noteq> []"
  by (simp add: show_int_def show_nat_nonempty)

lemma py_int_show_int: "py_int (show_int n) = Inr n"
proof -
  have "\<not> str_space c" if "c \<in> set (show_int n)" for c
    using show_int_chars [OF that] by (auto simp: str_space_def)
  then have "strip_by str_space (show_int n) = show_int n"
    using show_int_nonempty [of n] by (intro strip_by_id) simp_all
  then show ?thesis by (simp add: py_int_def signed_digits_show_int)
qed

lemma lower_show_int: "lower (show_int n) = show_int n"
  unfolding lower_def
  by (rule map_idI) (drule show_int_chars, auto simp: lower_char_def)

lemma show_int_no_unit: "of_char c \<notin> insert 45 {48..<58::nat} \<Longrightarrow> \<not> suffix [c] (show_int n)"
  using show_int_chars [of c n] by (auto simp: suffix_def)

lemma convert_plain: "convert_duration_to_seconds (PInt n) = Inr n"
  by (simp add: convert_duration_to_seconds_def multipliers_def lower_show_int show_int_no_unit py_int_show_int)

lemma lower_append: "lower (s @ t) = lower s @ lower t"
  by (simp add: lower_def)

lemma convert_unit:
  assumes "(unit, factor) \<in> set multipliers" and "lower u = unit"
  shows "convert_duration_to_seconds (PStr (show_int n @ u)) = Inr (n * factor)"
proof -
  have "find (\<lambda>(unit', _). suffix unit' (lower (show_int n @ u))) multipliers = Some (unit, factor)"
    using assms by (auto simp: multipliers_def lower_append suffix_def)
  moreover have "length u = length unit" using assms(2) by (auto simp: lower_def)
  ultimately show ?thesis by (simp add: convert_duration_to_seconds_def py_int_show_int)
qed

lemma duration_whole_seconds:
  assumes "0 \<le> d" and "seconds 1 dvd d" and "d < seconds (86400 * 1000000000)"
  shows "duration_as_timedelta (whole_seconds d) = Inr d"
  using assms by (auto simp: duration_as_timedelta_def whole_seconds_def convert_plain seconds_def)

text \<open>
  Durations in the configuration are read as written: a number with a unit of seconds, minutes
  or hours, in either case, is that number of units, a number without a unit counts seconds, and a negative
  duration counts as none.
\<close>

theorem durations_read_back:
  assumes "(unit, factor) \<in> set multipliers" and "lower u = unit" and "n * factor < 86400 * 1000000000"
  shows "duration_as_timedelta (PStr (show_int n @ u)) = Inr (seconds (max 0 n * factor))
         \<and> duration_as_timedelta (PInt (n * factor)) = duration_as_timedelta (PStr (show_int n @ u))"
proof -
  have "0 < factor" using assms(1) by (auto simp: multipliers_def)
  then have "max 0 (n * factor) = max 0 n * factor"
    by (simp add: max_def zero_le_mult_iff mult_less_0_iff)
  with assms show ?thesis by (simp add: duration_as_timedelta_def convert_unit convert_plain)
qed

theorem durations_read_back_witness:
  "duration_as_timedelta (PStr (show_int 90 @ ''M'')) = Inr (seconds (max 0 90 * 60))
   \<and> duration_as_timedelta (PInt (90 * 60)) = duration_as_timedelta (PStr (show_int 90 @ ''M''))"
proof (rule durations_read_back)
  show "(''m'', 60) \<in> set multipliers" by (simp add: multipliers_def)
  show "lower ''M'' = ''m''" by code_simp
qed simp

section \<open>Replacement of an environment\<close>



section \<open>Configuration of a workshop\<close>

lemma get_setdefault:
  "dict_get (setdefault k v d) k' =
     (case dict_get d k' of None \<Rightarrow> if k' = k then Some v else None | Some x \<Rightarrow> Some x)"
  by (auto simp: setdefault_def split: option.splits)

lemma get_with_deadline: "k \<noteq> ''deadline'' \<Longrightarrow> dict_get (with_deadline d) k = dict_get d k"
  by (auto simp: with_deadline_def split: option.splits)

text \<open>The keys that get a default when the workshop does not set them, besides the counts and \<open>env\<close>.\<close>

definition workshop_defaults :: "portal_record \<Rightarrow> (string \<times> pyval) list" where
  "workshop_defaults p =
     [(''expires'', tp_default_expires p), (''overtime'', tp_default_overtime p), (''deadline'', tp_default_deadline p),
      (''orphaned'', tp_default_orphaned p), (''overdue'', tp_default_overdue p), (''refresh'', tp_default_refresh p),
      (''registry'', tp_default_registry p), (''labels'', PDict [])]"

definition given_or_default :: "portal_record \<Rightarrow> (string \<times> pyval) list \<Rightarrow> string \<Rightarrow> pyval option" where
  "given_or_default p d k = (case dict_get d k of None \<Rightarrow> dict_get (workshop_defaults p) k | Some v \<Rightarrow> Some v)"

lemma counts_sane:
  fixes capacity reserved initial :: int
  assumes "capacity = max 0 c" and "reserved = max 0 (min r capacity)" and "i' = max 0 (min i capacity)"
    and "initial = (if i' \<noteq> 0 then max i' reserved else i')"
  shows "0 \<le> reserved \<and> reserved \<le> capacity \<and> 0 \<le> initial \<and> initial \<le> capacity \<and> (initial = 0 \<or> reserved \<le> initial)"
proof -
  have "0 \<le> reserved" "reserved \<le> capacity" "0 \<le> i'" "i' \<le> capacity" using assms(1-3) by linarith+
  with assms(4) show ?thesis by (auto simp: max_def)
qed

lemma session_counts_sane:
  assumes "session_counts p workshop = Inr (capacity, reserved, initial)"
  shows "0 \<le> reserved \<and> reserved \<le> capacity \<and> 0 \<le> initial \<and> initial \<le> capacity \<and> (initial = 0 \<or> reserved \<le> initial)"
proof -
  obtain c r i where
    "Inr (max 0 c, max 0 (min r (max 0 c)),
          if max 0 (min i (max 0 c)) \<noteq> 0 then max (max 0 (min i (max 0 c))) (max 0 (min r (max 0 c)))
          else max 0 (min i (max 0 c)))
     = (Inr (capacity, reserved, initial) :: (int \<times> int \<times> int) result)"
    using assms unfolding session_counts_def Let_def by (elim bindE_InrE) (erule that)
  then show ?thesis unfolding sum.inject prod.inject by (elim conjE, intro counts_sane) (erule sym | simp only:)+
qed

text \<open>
  Environment variables: those of the workshop stay in front, and of the portal's those are added whose name
  the workshop does not set.
\<close>

definition named :: "pyval \<Rightarrow> pyval \<Rightarrow> bool" where
  "named n item \<longleftrightarrow> py_index item ''name'' = Inr n"

definition env_merged :: "pyval list \<Rightarrow> pyval list \<Rightarrow> pyval list \<Rightarrow> bool" where
  "env_merged given defaults merged \<longleftrightarrow>
     (\<exists>names extra. mapE (\<lambda>item. py_index item ''name'') given = Inr names \<and> merged = given @ extra
        \<and> (\<forall>item\<in>set extra. \<exists>n. named n item \<and> \<not> list_ex (py_eq n) names \<and> list_ex (named n) defaults)
        \<and> (\<forall>item\<in>set defaults. \<exists>n. named n item \<and> (list_ex (py_eq n) names \<or> list_ex (named n) extra)))"

lemma add_default_env_step:
  assumes "add_default_env names item env = Inr env'"
  obtains n where "named n item"
    and "list_ex (py_eq n) names \<and> env' = env \<or> \<not> list_ex (py_eq n) names \<and> (\<exists>x. named n x \<and> env' = env @ [x])"
  using assms by (auto simp: add_default_env_def bindE_Inr_iff named_def split: if_splits)

lemma add_default_env_fold:
  assumes "foldE (add_default_env names) items env = Inr env'"
  shows "\<exists>extra. env' = env @ extra
    \<and> (\<forall>item\<in>set extra. \<exists>n. named n item \<and> \<not> list_ex (py_eq n) names \<and> list_ex (named n) items)
    \<and> (\<forall>item\<in>set items. \<exists>n. named n item \<and> (list_ex (py_eq n) names \<or> list_ex (named n) extra))"
  using assms
proof (induction items arbitrary: env)
  case Nil
  then show ?case by simp
next
  case (Cons item items)
  from Cons.prems obtain env1 where step: "add_default_env names item env = Inr env1"
    and rest: "foldE (add_default_env names) items env1 = Inr env'"
    by (auto simp: bindE_Inr_iff)
  from Cons.IH [OF rest] obtain extra where extra: "env' = env1 @ extra"
      "\<And>x. x \<in> set extra \<Longrightarrow> \<exists>n. named n x \<and> \<not> list_ex (py_eq n) names \<and> list_ex (named n) items"
      "\<And>x. x \<in> set items \<Longrightarrow> \<exists>n. named n x \<and> (list_ex (py_eq n) names \<or> list_ex (named n) extra)"
    by blast
  from step show ?case
  proof (rule add_default_env_step)
    fix n assume n: "named n item"
      and "list_ex (py_eq n) names \<and> env1 = env \<or> \<not> list_ex (py_eq n) names \<and> (\<exists>x. named n x \<and> env1 = env @ [x])"
    then consider "list_ex (py_eq n) names" "env1 = env"
      | x where "\<not> list_ex (py_eq n) names" "named n x" "env1 = env @ [x]"
      by blast
    then show ?thesis
    proof cases
      case 1
      with n extra show ?thesis by (intro exI [of _ extra]) (simp, metis)
    next
      case (2 x)
      with n extra(2) have "\<forall>y\<in>set (x # extra). \<exists>n. named n y \<and> \<not> list_ex (py_eq n) names \<and> list_ex (named n) (item # items)"
        by (simp, metis)
      moreover from 2 n extra(3) have "\<forall>y\<in>set (item # items). \<exists>n. named n y \<and> (list_ex (py_eq n) names \<or> list_ex (named n) (x # extra))"
        by (simp, metis)
      ultimately show ?thesis using 2 extra(1) by (intro exI [of _ "x # extra"]) simp
    qed
  qed
qed

lemma merged_env_correct:
  assumes "merged_env p env = Inr merged"
  shows "\<exists>given result. py_iter env = Inr given \<and> merged = PList result \<and> env_merged given (tp_default_env p) result"
proof -
  from assms obtain given names result where "py_iter env = Inr given"
    and "mapE (\<lambda>item. py_index item ''name'') given = Inr names"
    and "foldE (add_default_env names) (tp_default_env p) given = Inr result" and "merged = PList result"
    unfolding merged_env_def by (elim bindE_InrE) (simp add: that)
  with add_default_env_fold [OF this(3)] show ?thesis unfolding env_merged_def by metis
qed

text \<open>
  The configuration of a workshop after its defaults and limits: no more sessions in reserve than the
  capacity allows, initial sessions either none or between those two, every other setting as given or else
  the portal's default (where a deadline of zero is the expiry), and the environment variables merged.
\<close>

theorem workshop_configuration_sane:
  assumes "workshop_configuration p (PDict d) = Inr (PDict d')"
  shows "(\<exists>capacity reserved initial.
            dict_get d' ''capacity'' = Some (PInt capacity) \<and> dict_get d' ''reserved'' = Some (PInt reserved)
          \<and> dict_get d' ''initial'' = Some (PInt initial)
          \<and> 0 \<le> reserved \<and> reserved \<le> capacity \<and> 0 \<le> initial \<and> initial \<le> capacity \<and> (initial = 0 \<or> reserved \<le> initial))
       \<and> (\<forall>k. k \<notin> {''capacity'', ''reserved'', ''initial'', ''deadline'', ''env''} \<longrightarrow> dict_get d' k = given_or_default p d k)
       \<and> dict_get d' ''deadline'' =
           (if given_or_default p d ''deadline'' = Some (PStr ''0'') then given_or_default p d ''expires''
            else given_or_default p d ''deadline'')
       \<and> (\<exists>given merged. py_iter (case dict_get d ''env'' of None \<Rightarrow> PList [] | Some v \<Rightarrow> v) = Inr given
            \<and> dict_get d' ''env'' = Some (PList merged) \<and> env_merged given (tp_default_env p) merged)"
proof -
  from assms obtain capacity reserved initial where counts: "session_counts p (PDict d) = Inr (capacity, reserved, initial)"
    by (auto simp: workshop_configuration_def bindE_Inr_iff)
  define d1 where "d1 = dict_set ''initial'' (PInt initial)
                          (dict_set ''reserved'' (PInt reserved) (dict_set ''capacity'' (PInt capacity) d))"
  define d2 where "d2 = setdefault ''env'' (PList []) (setdefault ''labels'' (PDict [])
                          (setdefault ''registry'' (tp_default_registry p) (with_deadline (with_durations p d1))))"
  from assms counts obtain env merged where env: "dict_get d2 ''env'' = Some env" "merged_env p env = Inr merged"
      and d': "d' = dict_set ''env'' merged d2"
    by (auto simp: workshop_configuration_def Let_def bindE_Inr_iff d1_def d2_def split: option.splits)
  note lookups = d2_def d1_def with_durations_def get_setdefault get_with_deadline
  have get: "dict_get d2 k = given_or_default p d k" if "k \<notin> {''capacity'', ''reserved'', ''initial'', ''deadline'', ''env''}" for k
    using that by (cases "dict_get d k") (simp_all add: lookups given_or_default_def workshop_defaults_def)
  have deadline: "dict_get d2 ''deadline'' = (if given_or_default p d ''deadline'' = Some (PStr ''0'') then given_or_default p d ''expires''
            else given_or_default p d ''deadline'')"
    by (cases "dict_get d ''deadline''"; cases "dict_get d ''expires''")
      (simp_all add: lookups with_deadline_def given_or_default_def workshop_defaults_def)
  have d2: "dict_get d2 ''env'' = Some (case dict_get d ''env'' of None \<Rightarrow> PList [] | Some v \<Rightarrow> v)"
    "dict_get d2 ''capacity'' = Some (PInt capacity)" "dict_get d2 ''reserved'' = Some (PInt reserved)"
    "dict_get d2 ''initial'' = Some (PInt initial)"
    by (cases "dict_get d ''env''", simp_all add: lookups)
  with env merged_env_correct obtain given result

    where given: "py_iter (case dict_get d ''env'' of None \<Rightarrow> PList [] | Some v \<Rightarrow> v) = Inr given" "merged = PList result"
      "env_merged given (tp_default_env p) result"
    by (metis option.inject)
  show ?thesis
  proof (intro conjI)
    show "\<exists>given merged. py_iter (case dict_get d ''env'' of None \<Rightarrow> PList [] | Some v \<Rightarrow> v) = Inr given
            \<and> dict_get d' ''env'' = Some (PList merged) \<and> env_merged given (tp_default_env p) merged"
      using given d' by auto
    show "\<exists>capacity reserved initial.
            dict_get d' ''capacity'' = Some (PInt capacity) \<and> dict_get d' ''reserved'' = Some (PInt reserved)
          \<and> dict_get d' ''initial'' = Some (PInt initial)
          \<and> 0 \<le> reserved \<and> reserved \<le> capacity \<and> 0 \<le> initial \<and> initial \<le> capacity \<and> (initial = 0 \<or> reserved \<le> initial)"
      using session_counts_sane [OF counts] d2 d' by auto
  qed (use get deadline d' in auto)
qed

text \<open>More sessions asked for in reserve than fit, one variable of the workshop and one of the portal.\<close>

definition lab_portal :: portal_record where
  "lab_portal = (fresh_portal ''lab'')\<lparr>tp_default_capacity := 3, tp_default_expires := PStr ''60m'',
     tp_default_deadline := PStr ''0'', tp_default_env := [PDict [(''name'', PStr ''A''), (''value'', PStr ''1'')],
       PDict [(''name'', PStr ''B''), (''value'', PStr ''2'')]]\<rparr>"

definition lab_entry :: "(string \<times> pyval) list" where
  "lab_entry = [(''name'', PStr ''w''), (''reserved'', PInt 5), (''env'', PList [PDict [(''name'', PStr ''A'')]])]"

lemma workshop_configuration_defined:
  assumes "session_counts p (PDict d) = Inr counts"
    and "merged_env p (case dict_get d ''env'' of None \<Rightarrow> PList [] | Some v \<Rightarrow> v) = Inr merged"
  shows "\<exists>d'. workshop_configuration p (PDict d) = Inr (PDict d')"
proof -
  obtain capacity reserved initial where counts: "counts = (capacity, reserved, initial)" by (cases counts)
  have "dict_get (setdefault ''env'' (PList []) (setdefault ''labels'' (PDict [])
          (setdefault ''registry'' (tp_default_registry p) (with_deadline (with_durations p
             (dict_set ''initial'' (PInt initial) (dict_set ''reserved'' (PInt reserved) (dict_set ''capacity'' (PInt capacity) d))))))))
          ''env'' = Some (case dict_get d ''env'' of None \<Rightarrow> PList [] | Some v \<Rightarrow> v)"
    by (cases "dict_get d ''env''") (simp_all add: with_durations_def get_setdefault get_with_deadline)
  with assms counts show ?thesis by (simp add: workshop_configuration_def Let_def)
qed

theorem workshop_configuration_sane_witness:
  "\<exists>d' reserved capacity. workshop_configuration lab_portal (PDict lab_entry) = Inr (PDict d')
     \<and> dict_get d' ''reserved'' = Some (PInt reserved) \<and> dict_get d' ''capacity'' = Some (PInt capacity) \<and> reserved \<le> capacity
     \<and> dict_get d' ''deadline'' = Some (PStr ''60m'') \<and> dict_get d' ''name'' = Some (PStr ''w'')"
proof -
  have "session_counts lab_portal (PDict lab_entry) = Inr (3, 3, 3)"
    by (simp add: session_counts_def get_int_def lab_entry_def lab_portal_def fresh_portal_def)
  moreover have "merged_env lab_portal (case dict_get lab_entry ''env'' of None \<Rightarrow> PList [] | Some v \<Rightarrow> v)
      = Inr (PList [PDict [(''name'', PStr ''A'')], PDict [(''name'', PStr ''B''), (''value'', PStr ''2'')]])"
    by (simp add: lab_portal_def lab_entry_def fresh_portal_def merged_env_def add_default_env_def)
  ultimately obtain d' where d': "workshop_configuration lab_portal (PDict lab_entry) = Inr (PDict d')"
    using workshop_configuration_defined by blast
  have "given_or_default lab_portal lab_entry ''deadline'' = Some (PStr ''0'')"
    "given_or_default lab_portal lab_entry ''expires'' = Some (PStr ''60m'')"
    "given_or_default lab_portal lab_entry ''name'' = Some (PStr ''w'')"
    by (simp_all add: given_or_default_def workshop_defaults_def lab_entry_def lab_portal_def)
  with workshop_configuration_sane [OF d'] d' show ?thesis by auto
qed

end
