(* ===== verification/Session_Variables.thy ===== *)
theory Session_Variables
  imports Python_Text
begin

text \<open>
  Variables in the definitions of workshops (\<open>substitute_variables\<close> in
  \<open>session-manager/handlers/helpers.py\<close>): references \<open>$(name)\<close> in the strings of a nested value are
  replaced, round by round, and a string \<open>$(base64(...))\<close> is encoded at the end. The second
  half shows that this is simultaneous substitution when no value contains a dollar sign.
\<close>

section \<open>Substitution\<close>

lemma mapE_cong [fundef_cong]:
  "xs = ys \<Longrightarrow> (\<And>x. x \<in> set ys \<Longrightarrow> f x = g x) \<Longrightarrow> mapE f xs = mapE g ys"
  by (induction xs arbitrary: ys) auto

text \<open>\<open>s.replace(old, new)\<close> for an \<open>old\<close> that is not empty.\<close>

function replace_str :: "string \<Rightarrow> string \<Rightarrow> string \<Rightarrow> string" where
  "replace_str old new [] = []"
| "replace_str old new (c # cs) =
     (if old \<noteq> [] \<and> prefix old (c # cs) then new @ replace_str old new (drop (length old) (c # cs))
      else c # replace_str old new cs)"
  by pat_completeness auto

termination replace_str
  by (relation "measure (\<lambda>(old, new, s). length s)") (auto simp: neq_Nil_conv)

definition reference :: "string \<Rightarrow> string" where
  "reference k = ''$('' @ k @ '')''"

text \<open>The value of a variable must be a string, whether the string refers to it or not.\<close>

definition substitute_one :: "string \<times> pyval \<Rightarrow> string \<Rightarrow> string result" where
  "substitute_one = (\<lambda>(k, v) s. case v of PStr new \<Rightarrow> Inr (replace_str (reference k) new s) | _ \<Rightarrow> Inl TypeError)"

text \<open>A round that gives back the string as it was at the start ends the loop.\<close>

fun substitute_rounds :: "nat \<Rightarrow> (string \<times> pyval) list \<Rightarrow> string \<Rightarrow> string \<Rightarrow> string result" where
  "substitute_rounds 0 vars original s = Inr s"
| "substitute_rounds (Suc n) vars original s =
     (if \<not> sublist ''$('' s then Inr s
      else bindE (foldE substitute_one vars s)
        (\<lambda>s. if s = original then Inr s else substitute_rounds n vars original s))"

definition base64_open :: string where
  "base64_open = ''$(base64(''"

definition encoded :: "string \<Rightarrow> string" where
  "encoded s =
     (if startswith s base64_open \<and> endswith s ''))'' then b64encode (take (length s - 11) (drop 9 s)) else s)"

definition substitute_string :: "(string \<times> pyval) list \<Rightarrow> bool \<Rightarrow> nat \<Rightarrow> string \<Rightarrow> string result" where
  "substitute_string vars encode recurse s =
     bindE (substitute_rounds recurse vars s s) (\<lambda>s. Inr (if encode then encoded s else s))"

fun substitute_variables :: "(string \<times> pyval) list \<Rightarrow> bool \<Rightarrow> nat \<Rightarrow> pyval \<Rightarrow> pyval result" where
  "substitute_variables vars encode recurse (PStr s) =
     bindE (substitute_string vars encode recurse s) (\<lambda>s. Inr (PStr s))"
| "substitute_variables vars encode recurse (PDict d) =
     bindE (mapE (\<lambda>kv. bindE (substitute_variables vars encode recurse (snd kv)) (\<lambda>v. Inr (fst kv, v))) d)
       (\<lambda>d. Inr (PDict d))"
| "substitute_variables vars encode recurse (PList xs) =
     bindE (mapE (substitute_variables vars encode recurse) xs) (\<lambda>xs. Inr (PList xs))"
| "substitute_variables vars encode recurse v = Inr v"

text \<open>The call with its default arguments.\<close>

abbreviation substituted :: "(string \<times> pyval) list \<Rightarrow> pyval \<Rightarrow> pyval result" where
  "substituted vars v \<equiv> substitute_variables vars True 6 v"

section \<open>Templates\<close>

text \<open>
  A template is a text with references. Text has no dollar sign, unless it is the opening of
  \<open>$(base64(...))\<close>; names of variables have no dollar sign and no bracket.
\<close>

datatype piece = Text string | Ref string

fun rendered_piece :: "piece \<Rightarrow> string" where
  "rendered_piece (Text t) = t"
| "rendered_piece (Ref k) = reference k"

definition rendered :: "piece list \<Rightarrow> string" where
  "rendered ps = concat (map rendered_piece ps)"

definition plain :: "string \<Rightarrow> bool" where
  "plain s \<longleftrightarrow> CHR ''$'' \<notin> set s"

definition variable_name :: "string \<Rightarrow> bool" where
  "variable_name k \<longleftrightarrow> set k \<inter> {CHR ''$'', CHR ''('', CHR '')''} = {}"

fun template_piece :: "piece \<Rightarrow> bool" where
  "template_piece (Text t) \<longleftrightarrow> plain t \<or> t = base64_open"
| "template_piece (Ref k) \<longleftrightarrow> variable_name k"

text \<open>What a template stands for: every reference to a variable replaced by its value.\<close>

fun expanded_piece :: "(string \<times> pyval) list \<Rightarrow> piece \<Rightarrow> string" where
  "expanded_piece vars (Text t) = t"
| "expanded_piece vars (Ref k) = (case dict_get vars k of Some (PStr v) \<Rightarrow> v | _ \<Rightarrow> reference k)"

definition expanded :: "(string \<times> pyval) list \<Rightarrow> piece list \<Rightarrow> string" where
  "expanded vars ps = concat (map (expanded_piece vars) ps)"

definition plain_variable :: "string \<times> pyval \<Rightarrow> bool" where
  "plain_variable = (\<lambda>(k, v). variable_name k \<and> (case v of PStr s \<Rightarrow> plain s | _ \<Rightarrow> False))"

section \<open>Correctness\<close>

lemma replace_plain: "plain t \<Longrightarrow> replace_str (reference k) new (t @ s) = t @ replace_str (reference k) new s"
  by (induction t) (auto simp: plain_def reference_def)

lemma replace_reference: "replace_str (reference k) new (reference k @ s) = new @ replace_str (reference k) new s"
proof -
  obtain cs where "reference k = CHR ''$'' # cs" by (simp add: reference_def)
  then show ?thesis by simp
qed

lemma no_match_same_length:
  assumes "prefix (k @ CHR '')'' # r) (j @ CHR '')'' # s)" and "CHR '')'' \<notin> set k" and "CHR '')'' \<notin> set j"
  shows "k = j"
  using assms
proof (induction k arbitrary: j)
  case Nil
  then show ?case by (cases j) auto
next
  case (Cons c k)
  then show ?case by (cases j) auto
qed

lemma replace_other_reference:
  assumes "variable_name k" and "variable_name j" and "k \<noteq> j"
  shows "replace_str (reference k) new (reference j @ s) = reference j @ replace_str (reference k) new s"
proof -
  have "\<not> prefix (reference k) (reference j @ s)"
    using no_match_same_length [of k "[]" j s] assms by (auto simp: reference_def variable_name_def)
  moreover have "reference j @ s = CHR ''$'' # (''('' @ j @ '')'') @ s" by (simp add: reference_def)
  moreover have "plain (''('' @ j @ '')'')" using assms(2) by (auto simp: plain_def variable_name_def)
  ultimately show ?thesis using replace_plain [of "''('' @ j @ '')''" k new s] by (simp add: reference_def)
qed

lemma no_match_text:
  assumes "prefix (k @ '')'') (t @ CHR ''('' # s)" and "CHR ''('' \<notin> set k" and "CHR '')'' \<notin> set t"
  shows False
  using assms
proof (induction t arbitrary: k)
  case Nil
  then show ?case by (cases k) auto
next
  case (Cons c t)
  then show ?case by (cases k) auto
qed

lemma replace_base64_open:
  assumes "variable_name k"
  shows "replace_str (reference k) new (base64_open @ s) = base64_open @ replace_str (reference k) new s"
proof -
  have "\<not> prefix (reference k) (base64_open @ s)"
    using no_match_text [of k "''base64''" s] assms by (auto simp: reference_def base64_open_def variable_name_def)
  moreover have "base64_open @ s = CHR ''$'' # ''(base64('' @ s" by (simp add: base64_open_def)
  moreover have "plain ''(base64(''" by (simp add: plain_def)
  ultimately show ?thesis using replace_plain [of "''(base64(''" k new s] by (simp add: base64_open_def)
qed

fun substituted_piece :: "string \<Rightarrow> string \<Rightarrow> piece \<Rightarrow> piece" where
  "substituted_piece k v (Text t) = Text t"
| "substituted_piece k v (Ref j) = (if j = k then Text v else Ref j)"

lemma replace_rendered:
  assumes "variable_name k" and "list_all template_piece ps"
  shows "replace_str (reference k) v (rendered ps) = rendered (map (substituted_piece k v) ps)"
  using assms(2)
proof (induction ps)
  case (Cons p ps)
  then show ?case
    using assms(1)
    by (cases p) (auto simp: rendered_def replace_plain replace_base64_open replace_reference replace_other_reference)
qed (simp add: rendered_def)

fun resolved_piece :: "(string \<times> pyval) list \<Rightarrow> piece \<Rightarrow> piece" where
  "resolved_piece vars (Text t) = Text t"
| "resolved_piece vars (Ref k) = (case dict_get vars k of Some (PStr v) \<Rightarrow> Text v | _ \<Rightarrow> Ref k)"

lemma expanded_rendered: "expanded vars ps = rendered (map (resolved_piece vars) ps)"
proof -
  have "expanded_piece vars p = rendered_piece (resolved_piece vars p)" for p
    by (cases p) (auto split: option.splits pyval.splits)
  then have "expanded_piece vars = rendered_piece \<circ> resolved_piece vars" by (simp add: fun_eq_iff)
  then show ?thesis by (simp add: expanded_def rendered_def)
qed

lemma resolved_template:
  assumes "list_all plain_variable vars" and "template_piece p"
  shows "template_piece (resolved_piece vars p)"
proof (cases p)
  case (Ref k)
  with assms show ?thesis
    by (fastforce split: option.splits pyval.splits dest: map_of_SomeD simp: list_all_iff plain_variable_def)
qed (use assms in simp)

lemma resolved_twice: "resolved_piece vars (resolved_piece vars p) = resolved_piece vars p"
  by (cases p) (auto split: option.splits pyval.splits)

lemma one_round:
  assumes "list_all plain_variable vars" and "list_all template_piece ps"
  shows "foldE substitute_one vars (rendered ps) = Inr (expanded vars ps)"
  using assms
proof (induction vars arbitrary: ps)
  case Nil
  have "resolved_piece [] p = p" for p by (cases p) simp_all
  then have "resolved_piece [] = id" by (simp add: fun_eq_iff)
  then show ?case by (simp add: expanded_rendered)
next
  case (Cons kv vars)
  from Cons.prems(1) obtain k v where kv: "kv = (k, PStr v)" and "variable_name k" "plain v"
    by (cases kv) (auto simp: plain_variable_def split: pyval.splits)
  let ?ps = "map (substituted_piece k v) ps"
  have "template_piece (substituted_piece k v p)" if "template_piece p" for p
    using that \<open>plain v\<close> by (cases p) simp_all
  with Cons.prems(2) have "list_all template_piece ?ps" by (simp add: list_all_iff)
  with Cons have "foldE substitute_one vars (rendered ?ps) = Inr (expanded vars ?ps)" by simp
  moreover have "resolved_piece vars (substituted_piece k v p) = resolved_piece (kv # vars) p" for p
    by (cases p) (simp_all add: kv)
  ultimately show ?case
    using replace_rendered [OF \<open>variable_name k\<close> Cons.prems(2), of v]
    by (simp add: kv substitute_one_def expanded_rendered comp_def)
qed

lemma no_reference:
  assumes "\<not> sublist ''$('' (rendered ps)"
  shows "expanded vars ps = rendered ps"
proof -
  have "Ref k \<notin> set ps" for k
  proof
    assume "Ref k \<in> set ps"
    then obtain a b where "ps = a @ Ref k # b" by (meson split_list)
    then have "rendered ps = rendered a @ ''$('' @ (k @ '')'' @ rendered b)"
      by (simp add: rendered_def reference_def)
    with assms show False by (metis sublist_appendI)
  qed
  then have "expanded_piece vars p = rendered_piece p" if "p \<in> set ps" for p
    using that by (cases p) auto
  then show ?thesis by (simp add: expanded_def rendered_def cong: map_cong)
qed

lemma all_rounds:
  assumes "list_all plain_variable vars" and "list_all template_piece ps"
  shows "substitute_rounds (Suc n) vars original (rendered ps) = Inr (expanded vars ps)"
  using assms(2)
proof (induction n arbitrary: ps)
  case 0
  then show ?case by (simp add: no_reference one_round [OF assms(1)])
next
  case (Suc n)
  let ?ps = "map (resolved_piece vars) ps"
  have "expanded vars ?ps = expanded vars ps"
    by (simp add: expanded_rendered resolved_twice comp_def)
  moreover have "list_all template_piece ?ps"
    using Suc.prems resolved_template [OF assms(1)] by (simp add: list_all_iff)
  ultimately have "substitute_rounds (Suc n) vars original (expanded vars ps) = Inr (expanded vars ps)"
    using Suc.IH [of ?ps] by (simp only: expanded_rendered)
  then show ?case
    using one_round [OF assms(1) Suc.prems] no_reference [of ps vars]
    by (cases "sublist ''$('' (rendered ps)") (simp_all add: substitute_rounds.simps(2) [of "Suc n"] del: substitute_rounds.simps)
qed

lemma expanded_plain:
  assumes "list_all plain_variable vars" and "list_all (\<lambda>p. case p of Text t \<Rightarrow> plain t | Ref k \<Rightarrow> k \<in> fst ` set vars) ps"
  shows "plain (expanded vars ps)"
proof -
  have "plain (expanded_piece vars p)" if "p \<in> set ps" for p
  proof (cases p)
    case (Ref k)
    with assms(2) that obtain v where "dict_get vars k = Some v"
      by (fastforce simp: list_all_iff map_of_eq_None_iff)
    with Ref assms(1) show ?thesis
      by (auto simp: list_all_iff plain_variable_def dest!: map_of_SomeD split: pyval.splits)
  qed (use assms(2) that in \<open>auto simp: list_all_iff\<close>)
  then show ?thesis by (auto simp: expanded_def plain_def)
qed

text \<open>
  \<^bold>\<open>C38.\<close> Substitution of variables is simultaneous: when no value contains a dollar sign, each reference of
  a template to a variable is replaced by its value, whatever the order of the variables and the number
  of rounds, everything else stays, and a template wrapped in \<open>$(base64(...))\<close> gives text that decodes
  to the expanded template.
\<close>

theorem substitution_simultaneous:
  assumes "list_all plain_variable vars" and "list_all template_piece ps" and "0 < recurse"
  shows "substitute_variables vars encode recurse (PStr (rendered ps)) =
           Inr (PStr (if encode then encoded (expanded vars ps) else expanded vars ps))
    \<and> (\<forall>qs. ps = Text base64_open # qs @ [Text ''))''] \<longrightarrow> b64decode (encoded (expanded vars ps)) = Inr (expanded vars qs))"
proof
  obtain n where "recurse = Suc n" using assms(3) by (cases recurse) auto
  with all_rounds [OF assms(1,2)] show "substitute_variables vars encode recurse (PStr (rendered ps)) =
           Inr (PStr (if encode then encoded (expanded vars ps) else expanded vars ps))"
    by (simp add: substitute_string_def)
  have "encoded (base64_open @ s @ ''))'') = b64encode s" for s
  proof -
    have "suffix ''))'' (base64_open @ s @ ''))'')" by (metis append.assoc suffixI)
    then show ?thesis by (simp add: encoded_def base64_open_def)
  qed
  then show "\<forall>qs. ps = Text base64_open # qs @ [Text ''))''] \<longrightarrow> b64decode (encoded (expanded vars ps)) = Inr (expanded vars qs)"
    by (simp add: expanded_def b64decode_encode)
qed

text \<open>The token that the git application of a workshop passes on.\<close>

definition git_token :: "piece list" where
  "git_token = [Text base64_open, Ref ''git_username'', Text '':'', Ref ''git_password'', Text ''))'']"

theorem substitution_simultaneous_witness:
  "substitute_variables [(''git_password'', PStr ''pw''), (''git_username'', PStr ''lab-s001'')] False 6
       (PStr ''$(base64($(git_username):$(git_password)))'') = Inr (PStr ''$(base64(lab-s001:pw))'')
   \<and> b64decode (encoded (expanded [(''git_password'', PStr ''pw''), (''git_username'', PStr ''lab-s001'')] git_token))
       = Inr ''lab-s001:pw''"
proof -
  let ?vars = "[(''git_password'', PStr ''pw''), (''git_username'', PStr ''lab-s001'')]"
  have "list_all plain_variable ?vars" by (simp add: plain_variable_def variable_name_def plain_def)
  moreover have "list_all template_piece git_token"
    by (simp add: git_token_def plain_def variable_name_def)
  ultimately show ?thesis
    using substitution_simultaneous [of ?vars git_token 6 False]
    by (simp add: git_token_def expanded_def rendered_def reference_def base64_open_def)
qed

end
