(* ===== verification/Operator_Config.thy ===== *)
theory Operator_Config
  imports Session_Variables Kube_Client
begin

text \<open>
  The configuration of the session manager (\<open>session-manager/handlers/operator_config.py\<close>), read once when
  the process starts, and the small helpers of \<open>helpers.py\<close>: the pull policy of an image, owners of
  resources and the applications of a workshop. The parsed configuration file, the environment variable
  for the architecture, the mounted namespace, the canonical name of the API server and the four
  generated passwords are arguments.
\<close>

section \<open>Configuration\<close>

record operator_config =
  oc_platform_arch :: pyval
  oc_namespace :: pyval
  oc_image_repository :: pyval
  oc_runtime_class :: pyval
  oc_cluster_domain :: string
  oc_ingress_domain :: pyval
  oc_ingress_class :: pyval
  oc_ingress_secret :: pyval
  oc_ingress_ca_secret :: pyval
  oc_ingress_protocol :: pyval
  oc_session_cookie_domain :: pyval
  oc_storage_class :: pyval
  oc_storage_user :: pyval
  oc_storage_group :: pyval
  oc_policy_engine :: pyval
  oc_rules_engine :: pyval
  oc_dockerd_mtu :: pyval
  oc_mirror_remote :: pyval
  oc_mirror_username :: pyval
  oc_mirror_password :: pyval
  oc_block_cidrs :: pyval
  oc_default_theme :: pyval
  oc_frame_ancestors :: pyval
  oc_google_tracking_id :: pyval
  oc_clarity_tracking_id :: pyval
  oc_amplitude_tracking_id :: pyval
  oc_analytics_url :: pyval
  oc_admin_username :: pyval
  oc_admin_password :: pyval
  oc_robot_username :: pyval
  oc_robot_password :: pyval
  oc_robot_client_id :: pyval
  oc_robot_client_secret :: pyval
  oc_images :: "(string \<times> pyval) list"

definition image_repository :: "pyval \<Rightarrow> pyval result" where
  "image_repository values =
     bindE (lookup values ''imageRegistry.host'' PNone)
       (\<lambda>host. bindE (lookup values ''imageRegistry.namespace'' PNone)
          (\<lambda>namespace. Inr
             (if \<not> truthy host then PStr ''registry.default.svc.cluster.local''
              else if truthy namespace then PStr (py_str host @ ''/'' @ py_str namespace) else host)))"

definition cluster_domain :: "string \<Rightarrow> string" where
  "cluster_domain canonical =
     (if startswith canonical ''kubernetes.default.svc.''
      then replace_str ''kubernetes.default.svc.'' [] canonical else ''cluster.local'')"

text \<open>The secret named in the configuration, or the one made from the certificate given there.\<close>

definition all_given :: "pyval \<Rightarrow> string list \<Rightarrow> bool result" where
  "all_given v keys =
     (if truthy v then allE (\<lambda>k. bindE (py_get v k) (\<lambda>w. Inr (truthy w))) keys else Inr False)"

definition secret_or_generated :: "pyval \<Rightarrow> string \<Rightarrow> string \<Rightarrow> string list \<Rightarrow> string \<Rightarrow> pyval result" where
  "secret_or_generated values ref_path data_path keys generated =
     bindE (lookup values ref_path PNone)
       (\<lambda>secret. if truthy secret then Inr secret
          else bindE (lookup values data_path (PDict []))
            (\<lambda>certificate. bindE (all_given certificate keys)
               (\<lambda>given. Inr (if given then PStr generated else secret))))"

definition ingress_secret :: "pyval \<Rightarrow> pyval \<Rightarrow> pyval result" where
  "ingress_secret values domain =
     secret_or_generated values ''clusterIngress.tlsCertificateRef.name'' ''clusterIngress.tlsCertificate''
       [''tls.crt'', ''tls.key''] (py_str domain @ ''-tls'')"

definition ingress_ca_secret :: "pyval \<Rightarrow> pyval \<Rightarrow> pyval result" where
  "ingress_ca_secret values domain =
     secret_or_generated values ''clusterIngress.caCertificateRef.name'' ''clusterIngress.caCertificate''
       [''ca.crt''] (py_str domain @ ''-ca'')"

definition ingress_protocol :: "pyval \<Rightarrow> pyval \<Rightarrow> pyval result" where
  "ingress_protocol values secret =
     bindE (lookup values ''clusterIngress.protocol'' (PStr []))
       (\<lambda>protocol. Inr (if truthy protocol then protocol
                         else if truthy secret then PStr ''https'' else PStr ''http''))"

definition image_names :: "string list" where
  "image_names =
     [''training-portal'', ''docker-in-docker'', ''docker-registry'', ''tunnel-manager'', ''image-cache'', ''assets-server'',
      ''base-environment'', ''jdk8-environment'', ''jdk11-environment'', ''jdk17-environment'', ''jdk21-environment'',
      ''conda-environment'', ''loftsh-kubernetes-v1.31'', ''loftsh-kubernetes-v1.32'', ''loftsh-kubernetes-v1.33'',
      ''loftsh-kubernetes-v1.34'', ''loftsh-vcluster'', ''contour-bundle'']"

text \<open>The first entry of \<open>imageVersions\<close> with the name takes the place of the default.\<close>

fun image_override :: "string \<Rightarrow> pyval list \<Rightarrow> pyval \<Rightarrow> pyval result" where
  "image_override name [] img = Inr img"
| "image_override name (item # items) img =
     bindE (py_index item ''name'')
       (\<lambda>n. if n = PStr name then py_index item ''image'' else image_override name items img)"

definition image_reference :: "pyval \<Rightarrow> pyval \<Rightarrow> string \<Rightarrow> pyval result" where
  "image_reference values repository name =
     bindE (lookup values ''version'' (PStr ''latest''))
       (\<lambda>version. bindE (bindE (lookup values ''imageVersions'' (PList [])) py_iter)
          (\<lambda>items. image_override name items
             (PStr (py_str repository @ ''/educates-'' @ name @ '':'' @ py_str version))))"

definition load_operator_config :: "pyval \<Rightarrow> string \<Rightarrow> string option \<Rightarrow> string \<Rightarrow> string list \<Rightarrow> operator_config result" where
  "load_operator_config values arch mounted canonical passwords =
     (let get = (\<lambda>path dflt. lookup values path dflt); pw = (\<lambda>i. PStr (passwords ! i))
      in bindE (case mounted of None \<Rightarrow> get ''operator.namespace'' (PStr ''educates'')
                 | Some text \<Rightarrow> bindE (get ''operator.namespace'' (PStr ''educates'')) (\<lambda>_. Inr (PStr (strip_by str_space text))))
  (\<lambda>namespace. bindE (image_repository values)
  (\<lambda>repository. bindE (get ''clusterRuntime.class'' (PStr []))
  (\<lambda>runtime. bindE (get ''clusterIngress.domain'' (PStr ''educates-local-dev.test''))
  (\<lambda>domain. bindE (get ''clusterIngress.class'' (PStr []))
  (\<lambda>class. bindE (ingress_secret values domain)
  (\<lambda>secret. bindE (ingress_ca_secret values domain)
  (\<lambda>ca_secret. bindE (ingress_protocol values secret)
  (\<lambda>protocol. bindE (get ''sessionCookies.domain'' (PStr []))
  (\<lambda>cookies. bindE (get ''clusterStorage.class'' (PStr []))
  (\<lambda>storage_class. bindE (get ''clusterStorage.user'' PNone)
  (\<lambda>storage_user. bindE (get ''clusterStorage.group'' (PInt 1))
  (\<lambda>storage_group. bindE (get ''clusterSecurity.policyEngine'' PNone)
  (\<lambda>policy. bindE (get ''workshopSecurity.rulesEngine'' PNone)
  (\<lambda>rules. bindE (get ''dockerDaemon.networkMTU'' (PInt 1400))
  (\<lambda>mtu. bindE (get ''dockerDaemon.proxyCache.remoteURL'' PNone)
  (\<lambda>mirror_remote. bindE (get ''dockerDaemon.proxyCache.username'' (PStr []))
  (\<lambda>mirror_username. bindE (get ''dockerDaemon.proxyCache.password'' (PStr []))
  (\<lambda>mirror_password. bindE (get ''clusterNetwork.blockCIDRs'' (PList []))
  (\<lambda>cidrs. bindE (get ''websiteStyling.defaultTheme'' (PStr []))
  (\<lambda>theme. bindE (get ''websiteStyling.frameAncestors'' (PList []))
  (\<lambda>ancestors. bindE (get ''workshopAnalytics.google.trackingId'' (PStr []))
  (\<lambda>google. bindE (get ''workshopAnalytics.clarity.trackingId'' (PStr []))
  (\<lambda>clarity. bindE (get ''workshopAnalytics.amplitude.trackingId'' (PStr []))
  (\<lambda>amplitude. bindE (get ''workshopAnalytics.webhook.url'' (PStr []))
  (\<lambda>webhook. bindE (get ''trainingPortal.credentials.admin.username'' (PStr ''educates''))
  (\<lambda>admin_user. bindE (get ''trainingPortal.credentials.admin.password'' (pw 0))
  (\<lambda>admin_password. bindE (get ''trainingPortal.credentials.robot.username'' (PStr ''robot@educates''))
  (\<lambda>robot_user. bindE (get ''trainingPortal.credentials.robot.password'' (pw 1))
  (\<lambda>robot_password. bindE (get ''trainingPortal.clients.robot.id'' (pw 2))
  (\<lambda>client_id. bindE (get ''trainingPortal.clients.robot.secret'' (pw 3))
  (\<lambda>client_secret. bindE (mapE (\<lambda>n. bindE (image_reference values repository n) (\<lambda>i. Inr (n, i))) image_names)
  (\<lambda>images. Inr
     \<lparr>oc_platform_arch = PStr arch, oc_namespace = namespace, oc_image_repository = repository, oc_runtime_class = runtime,
      oc_cluster_domain = cluster_domain canonical, oc_ingress_domain = domain, oc_ingress_class = class,
      oc_ingress_secret = secret, oc_ingress_ca_secret = ca_secret, oc_ingress_protocol = protocol,
      oc_session_cookie_domain = cookies, oc_storage_class = storage_class, oc_storage_user = storage_user,
      oc_storage_group = storage_group, oc_policy_engine = policy, oc_rules_engine = rules, oc_dockerd_mtu = mtu,
      oc_mirror_remote = mirror_remote, oc_mirror_username = mirror_username, oc_mirror_password = mirror_password,
      oc_block_cidrs = cidrs, oc_default_theme = theme, oc_frame_ancestors = ancestors, oc_google_tracking_id = google,
      oc_clarity_tracking_id = clarity, oc_amplitude_tracking_id = amplitude, oc_analytics_url = webhook,
      oc_admin_username = admin_user, oc_admin_password = admin_password, oc_robot_username = robot_user,
      oc_robot_password = robot_password, oc_robot_client_id = client_id, oc_robot_client_secret = client_secret,
      oc_images = images\<rparr>)))))))))))))))))))))))))))))))))"

definition config_image :: "operator_config \<Rightarrow> string \<Rightarrow> pyval" where
  "config_image cfg name = (case dict_get (oc_images cfg) name of None \<Rightarrow> PNone | Some img \<Rightarrow> img)"

definition workshop_images_table :: "operator_config \<Rightarrow> (string \<times> pyval) list" where
  "workshop_images_table cfg =
     map (\<lambda>n. (n @ '':*'', config_image cfg n))
       [''base-environment'', ''jdk8-environment'', ''jdk11-environment'', ''jdk17-environment'',
        ''jdk21-environment'', ''conda-environment'']"

definition resolve_workshop_image :: "operator_config \<Rightarrow> pyval \<Rightarrow> pyval result" where
  "resolve_workshop_image cfg name =
     (case name of
        PStr s \<Rightarrow>
          (case dict_get (workshop_images_table cfg) s of
             Some img \<Rightarrow> Inr img
           | None \<Rightarrow>
               (case oc_image_repository cfg of
                  PStr repository \<Rightarrow> Inr (PStr (replace_str ''$(image_repository)'' repository s))
                | _ \<Rightarrow> Inl TypeError))
      | PList _ \<Rightarrow> Inl TypeError
      | PDict _ \<Rightarrow> Inl TypeError
      | _ \<Rightarrow> Inl AttributeError)"

end
