(* ===== verification/Session_Helpers.thy ===== *)
theory Session_Helpers
  imports Operator_Config
begin

text \<open>
  The smaller helpers of the session manager: pull policies, owner references and the applications of a
  workshop (\<open>helpers.py\<close>), the git application (\<open>application_git.py\<close>), and the rules of a workshop environment
  for the Kyverno policy engine (\<open>kyverno_rules.py\<close>).
\<close>

section \<open>Images and owners\<close>

definition image_pull_policy :: "string \<Rightarrow> string" where
  "image_pull_policy img =
     (if endswith img '':main'' \<or> endswith img '':master'' \<or> endswith img '':develop'' \<or> endswith img '':latest''
         \<or> CHR '':'' \<notin> set img
      then ''Always'' else ''IfNotPresent'')"

definition pull_policy :: "pyval \<Rightarrow> pyval result" where
  "pull_policy img = (case img of PStr s \<Rightarrow> Inr (PStr (image_pull_policy s)) | _ \<Rightarrow> Inl AttributeError)"

definition same_owner :: "pyval \<Rightarrow> pyval \<Rightarrow> pyval \<Rightarrow> pyval \<Rightarrow> pyval \<Rightarrow> bool result" where
  "same_owner api_version kind name uid ref =
     bindE (lookup ref ''apiVersion'' PNone)
       (\<lambda>v. if \<not> py_eq v api_version then Inr False
            else bindE (lookup ref ''kind'' PNone)
       (\<lambda>k. if \<not> py_eq k kind then Inr False
            else bindE (lookup ref ''name'' PNone)
       (\<lambda>n. if \<not> py_eq n name then Inr False
            else bindE (lookup ref ''uid'' PNone) (\<lambda>u. Inr (py_eq u uid)))))"

definition resource_owned_by :: "pyval \<Rightarrow> pyval \<Rightarrow> bool result" where
  "resource_owned_by child parent =
     bindE (lookup parent ''apiVersion'' PNone)
  (\<lambda>api_version. bindE (lookup parent ''kind'' PNone)
  (\<lambda>kind. bindE (lookup parent ''metadata.name'' PNone)
  (\<lambda>name. bindE (lookup parent ''metadata.uid'' PNone)
  (\<lambda>uid. bindE (bindE (lookup child ''metadata.ownerReferences'' (PList [])) py_iter)
            (anyE (same_owner api_version kind name uid))))))"

section \<open>Applications\<close>

definition application_defaults :: "(string \<times> bool) list" where
  "application_defaults =
     [(''console'', False), (''docker'', False), (''editor'', False), (''files'', False), (''git'', False),
      (''examiner'', False), (''registry'', False), (''slides'', False), (''terminal'', True), (''uploads'', False),
      (''vcluster'', False), (''workshop'', True), (''webdav'', False)]"

definition application_names :: "string list" where
  "application_names = map fst application_defaults"

text \<open>The configuration is the dictionary in the workshop's definition.\<close>

definition is_enabled :: "pyval \<Rightarrow> string \<Rightarrow> pyval result" where
  "is_enabled configuration name =
     bindE (py_get_or configuration name (PDict []))
       (\<lambda>c. py_get_or c ''enabled'' (PBool (case dict_get application_defaults name of None \<Rightarrow> False | Some b \<Rightarrow> b)))"

definition application_enabled :: "pyval \<Rightarrow> string \<Rightarrow> bool result" where
  "application_enabled configuration name = bindE (is_enabled configuration name) (\<lambda>v. Inr (truthy v))"

text \<open>\<open>properties\<close> adds an empty dictionary for a name that has none, so the configuration changes.\<close>

definition application_properties :: "pyval \<Rightarrow> string \<Rightarrow> (pyval \<times> pyval) result" where
  "application_properties configuration name =
     (case configuration of
        PDict d \<Rightarrow>
          (case dict_get d name of
             Some v \<Rightarrow> Inr (v, configuration)
           | None \<Rightarrow> Inr (PDict [], PDict (dict_set name (PDict []) d)))
      | _ \<Rightarrow> Inl AttributeError)"

definition application_property :: "pyval \<Rightarrow> string \<Rightarrow> string \<Rightarrow> pyval \<Rightarrow> (pyval \<times> pyval) result" where
  "application_property configuration name key dflt =
     bindE (application_properties configuration name)
       (\<lambda>(properties, configuration). bindE (lookup properties key dflt) (\<lambda>v. Inr (v, configuration)))"

text \<open>\<open>properties(name)[key] = value\<close>.\<close>

definition set_application_property :: "string \<Rightarrow> string \<Rightarrow> pyval \<Rightarrow> pyval \<Rightarrow> pyval result" where
  "set_application_property name key v configuration =
     bindE (application_properties configuration name)
       (\<lambda>(properties, configuration).
          case (properties, configuration) of
            (PDict p, PDict d) \<Rightarrow> Inr (PDict (dict_set name (PDict (dict_set key v p)) d))
          | _ \<Rightarrow> Inl TypeError)"

section \<open>The git application\<close>

definition git_workshop_spec_patches :: "operator_config \<Rightarrow> pyval" where
  "git_workshop_spec_patches cfg =
     PDict [
      (''spec'', PDict [
        (''session'', PDict [
          (''ingresses'', PList [
            PDict [
              (''name'', PStr ''git''),
              (''port'', PInt 10087),
              (''authentication'', PDict [(''type'', PStr ''none'')])]]),
          (''variables'', PList [
            PDict [(''name'', PStr ''git_protocol''), (''value'', oc_ingress_protocol cfg)],
            PDict [
              (''name'', PStr ''git_host''),
              (''value'', PStr (''git-$(session_name).'' @ py_str (oc_ingress_domain cfg)))],
            PDict [(''name'', PStr ''git_username''), (''value'', PStr ''$(session_name)'')],
            PDict [(''name'', PStr ''git_password''), (''value'', PStr ''$(services_password)'')],
            PDict [
              (''name'', PStr ''git_auth_token''),
              (''value'', PStr ''$(base64($(git_username):$(git_password)))'')]]),
          (''env'', PList [
            PDict [(''name'', PStr ''GIT_PROTOCOL''), (''value'', oc_ingress_protocol cfg)],
            PDict [
              (''name'', PStr ''GIT_HOST''),
              (''value'', PStr (''git-$(session_name).'' @ py_str (oc_ingress_domain cfg)))],
            PDict [(''name'', PStr ''GIT_USERNAME''), (''value'', PStr ''$(session_name)'')],
            PDict [(''name'', PStr ''GIT_PASSWORD''), (''value'', PStr ''$(services_password)'')],
            PDict [
              (''name'', PStr ''GIT_AUTH_TOKEN''),
              (''value'', PStr ''$(base64($(git_username):$(git_password)))'')]])])])]"

section \<open>Kyverno rules\<close>

definition session_namespace_selector :: "string \<Rightarrow> pyval" where
  "session_namespace_selector environment_name =
     PDict [
       (''matchExpressions'', PList [
         PDict [
           (''key'', PStr ''training.educates.dev/environment.name''),
           (''operator'', PStr ''In''),
           (''values'', PList [PStr environment_name])],
         PDict [
           (''key'', PStr ''training.educates.dev/component''),
           (''operator'', PStr ''In''),
           (''values'', PList [PStr ''session''])]])]"

text \<open>
  The selector is stored in the dictionary that \<open>condition.get("resources", {})\<close> gives; for a condition
  without resources that is a new one, which is dropped.
\<close>

definition restrict_resources :: "string \<Rightarrow> pyval \<Rightarrow> pyval result" where
  "restrict_resources environment_name condition =
     bindE (py_get_or condition ''resources'' (PDict []))
       (\<lambda>r. case (r, condition) of
              (PDict d, PDict c) \<Rightarrow>
                Inr (if dict_get c ''resources'' = None then condition
                     else PDict (dict_set ''resources''
                            (PDict (dict_set ''namespaceSelector'' (session_namespace_selector environment_name) d)) c))
            | _ \<Rightarrow> Inl TypeError)"

definition conditions :: "pyval \<Rightarrow> string \<Rightarrow> pyval list result" where
  "conditions rule path = bindE (lookup rule path (PList [])) py_iter"

definition restrict_conditions :: "string \<Rightarrow> pyval list \<Rightarrow> pyval list result" where
  "restrict_conditions environment_name cs =
     bindE (mapE (\<lambda>c. py_get_or c ''resources'' (PDict [])) cs) (\<lambda>_. mapE (restrict_resources environment_name) cs)"

text \<open>\<open>rule["match"][key] = v\<close>, for a rule that has the path.\<close>

definition set_match :: "string \<Rightarrow> pyval \<Rightarrow> pyval \<Rightarrow> pyval" where
  "set_match key v rule =
     (case rule of
        PDict r \<Rightarrow>
          (case dict_get r ''match'' of
             Some (PDict m) \<Rightarrow> PDict (dict_set ''match'' (PDict (dict_set key v m)) r)
           | _ \<Rightarrow> rule)
      | _ \<Rightarrow> rule)"

definition restrict_rule :: "string \<Rightarrow> pyval \<Rightarrow> pyval result" where
  "restrict_rule environment_name rule =
     bindE (conditions rule ''match.all'')
       (\<lambda>cs. if cs \<noteq> []
          then bindE (restrict_conditions environment_name cs) (\<lambda>cs. Inr (set_match ''all'' (PList cs) rule))
          else bindE (conditions rule ''match.any'')
            (\<lambda>cs. if cs \<noteq> []
               then bindE (restrict_conditions environment_name cs) (\<lambda>cs. Inr (set_match ''any'' (PList cs) rule))
               else bindE (lookup rule ''match.resources'' (PDict []))
                 (\<lambda>r. case r of
                        PDict d \<Rightarrow> bindE (lookup rule ''match.resources'' PNone)
                          (\<lambda>given. Inr (if given = PNone then rule
                             else set_match ''resources''
                                    (PDict (dict_set ''namespaceSelector'' (session_namespace_selector environment_name) d)) rule))
                      | _ \<Rightarrow> Inl TypeError)))"

definition name_rule :: "pyval \<Rightarrow> nat \<Rightarrow> nat \<Rightarrow> pyval \<Rightarrow> pyval result" where
  "name_rule policy_name total_rules index rule =
     (case rule of
        PDict r \<Rightarrow> Inr (PDict (dict_set ''name''
          (if total_rules \<noteq> 1 then PStr (py_str policy_name @ ''/'' @ show_nat index) else policy_name) r))
      | _ \<Rightarrow> Inl TypeError)"

definition environment_rule :: "string \<Rightarrow> pyval \<Rightarrow> pyval \<Rightarrow> nat \<Rightarrow> nat \<times> pyval \<Rightarrow> pyval list result" where
  "environment_rule environment_name exclude policy_name total_rules =
     (\<lambda>(index, rule). bindE (bindE (name_rule policy_name total_rules index rule) (restrict_rule environment_name))
        (\<lambda>rule. bindE (py_in policy_name exclude) (\<lambda>excluded. Inr (if excluded then [] else [rule]))))"

definition policy_rules :: "string \<Rightarrow> pyval \<Rightarrow> pyval \<Rightarrow> pyval list result" where
  "policy_rules environment_name exclude policy =
     bindE (lookup policy ''metadata.name'' PNone)
  (\<lambda>policy_name. bindE (bindE (lookup policy ''spec.rules'' (PList [])) py_iter)
  (\<lambda>rules. bindE (mapE (environment_rule environment_name exclude policy_name (length rules)) (zip [1..<length rules + 1] rules))
     (\<lambda>restricted. Inr (concat restricted))))"

definition kyverno_environment_rules :: "pyval list \<Rightarrow> pyval \<Rightarrow> string \<Rightarrow> pyval list result" where
  "kyverno_environment_rules policies workshop_spec environment_name =
     bindE (lookup workshop_spec ''session.namespaces.security.rules.action'' (PStr ''Enforce''))
  (\<lambda>action. bindE (lookup workshop_spec ''session.namespaces.security.rules.exclude'' (PList []))
  (\<lambda>exclude. bindE (mapE (policy_rules environment_name exclude) policies)
     (\<lambda>rules. Inr
        (if concat rules = [] then []
         else [PDict [
            (''apiVersion'', PStr ''kyverno.io/v1''),
            (''kind'', PStr ''ClusterPolicy''),
            (''metadata'', PDict [(''name'', PStr (''educates-environment-'' @ environment_name))]),
            (''spec'', PDict [
              (''validationFailureAction'', action),
              (''background'', PBool True),
              (''rules'', PList (concat rules))])]]))))"

end
