(* ===== verification/Session_World.thy ===== *)
theory Session_World
  imports Session_Helpers
begin

text \<open>
  What the handlers of the session manager have around them: the API server, the configuration and the
  libraries they call, the events they report (\<open>session-manager/handlers/analytics.py\<close>), and the status they
  leave on the resource they handle. The second half reads the trace of what a handler did.
\<close>

section \<open>Surroundings of the handlers\<close>

text \<open>
  The API server, the configuration, random text of a length, \<open>kopf.adopt\<close> with an explicit owner,
  \<open>kopf.append_owner_reference\<close>, \<open>json.dumps\<close>, \<open>yaml.dump\<close>, \<open>yaml.dump_all\<close>, the documents of a YAML file
  shipped with the manager, a new SSH key pair, private and public, \<open>bcrypt.hashpw\<close> with a new salt, and the
  text of an exception.
\<close>

record operator_world =
  ow_api :: kube_api
  ow_config :: operator_config
  ow_random :: "kube_call list \<Rightarrow> nat \<Rightarrow> string"
  ow_adopt :: "pyval \<Rightarrow> pyval \<Rightarrow> pyval"
  ow_own :: "pyval \<Rightarrow> pyval \<Rightarrow> pyval"
  ow_json :: "pyval \<Rightarrow> string"
  ow_yaml :: "pyval \<Rightarrow> string"
  ow_yaml_all :: "pyval list \<Rightarrow> string"
  ow_packages :: "string \<Rightarrow> pyval list"
  ow_keys :: "kube_call list \<Rightarrow> string \<times> string"
  ow_bcrypt :: "kube_call list \<Rightarrow> string \<Rightarrow> string"
  ow_text :: "kube_error \<Rightarrow> string"

definition pause :: "unit kube" where
  "pause tr = (Inr (), Pause # tr)"

definition set_status :: "pyval \<Rightarrow> unit kube" where
  "set_status v tr = (Inr (), SetStatus v # tr)"

definition draw :: "operator_world \<Rightarrow> nat \<Rightarrow> string kube" where
  "draw w n tr = (Inr (ow_random w tr n), Draw n # tr)"

definition create_object :: "operator_world \<Rightarrow> pyval \<Rightarrow> pyval kube" where
  "create_object w obj = kube_write (ow_api w) (Create obj)"

definition educates_status :: "(string \<times> pyval) list \<Rightarrow> pyval" where
  "educates_status d = PDict [(''educates'', PDict d)]"

definition report_analytics_event :: "operator_world \<Rightarrow> string \<Rightarrow> pyval \<Rightarrow> unit kube" where
  "report_analytics_event w event data tr =
     (Inr (), if truthy (oc_analytics_url (ow_config w)) then Report event data # tr else tr)"

section \<open>Reading a trace\<close>

fun is_status :: "kube_call \<Rightarrow> bool" where
  "is_status (SetStatus v) = True"
| "is_status _ = False"

text \<open>The status that is left, and the objects created, in their order.\<close>

fun final_status :: "kube_call list \<Rightarrow> pyval option" where
  "final_status [] = None"
| "final_status (SetStatus v # tr) = Some v"
| "final_status (_ # tr) = final_status tr"

fun creations :: "kube_call list \<Rightarrow> pyval list" where
  "creations [] = []"
| "creations (Create obj # tr) = creations tr @ [obj]"
| "creations (_ # tr) = creations tr"

definition phase :: "string \<Rightarrow> pyval option \<Rightarrow> bool" where
  "phase p status \<longleftrightarrow> (\<exists>rest. status = Some (educates_status ((''phase'', PStr p) # rest)))"

lemma creations_append: "creations (a @ b) = creations b @ creations a"
proof (induction a)
  case (Cons c a)
  then show ?case by (cases c) simp_all
qed simp

lemmas kube_simps = kube_bind_def kube_return_def kube_raise_def kube_lift_def kube_try_def set_status_def

definition reported :: "operator_world \<Rightarrow> string \<Rightarrow> pyval \<Rightarrow> kube_call list" where
  "reported w event data = (if truthy (oc_analytics_url (ow_config w)) then [Report event data] else [])"

lemma report_trace: "report_analytics_event w event data tr = (Inr (), reported w event data @ tr)"
  by (simp add: report_analytics_event_def reported_def)

lemma reported_quiet [simp]:
  "creations (reported w event data @ tr) = creations tr" "final_status (reported w event data @ tr) = final_status tr"
  by (simp_all add: reported_def)

lemma reported_nothing [simp]:
  "creations (reported w event data) = []" "final_status (reported w event data) = None"
  by (simp_all add: reported_def)

section \<open>Calls of the operations\<close>

lemma runs_status [runs_intros]: "P tr (SetStatus v) \<Longrightarrow> runs P (set_status v) tr"
  by (simp add: runs_def set_status_def exI [of _ "[SetStatus v]"])

lemma runs_draw [runs_intros]: "P tr (Draw n) \<Longrightarrow> runs P (draw w n) tr"
  by (simp add: runs_def draw_def exI [of _ "[Draw n]"])

lemma runs_create [runs_intros]: "P tr (Create obj) \<Longrightarrow> runs P (create_object w obj) tr"
  by (simp add: create_object_def runs_intros)

lemma runs_pause [runs_intros]: "P tr Pause \<Longrightarrow> runs P pause tr"
  by (simp add: runs_def pause_def exI [of _ "[Pause]"])

lemma runs_report [runs_intros]: "(\<And>e d. P tr (Report e d)) \<Longrightarrow> runs P (report_analytics_event w event data) tr"
  by (simp add: runs_def report_analytics_event_def exI [of _ "[Report event data]"])

lemma py_get_or_Inr: "py_get_or v k d = Inr x \<longleftrightarrow> (\<exists>e. v = PDict e \<and> x = (case dict_get e k of None \<Rightarrow> d | Some y \<Rightarrow> y))"
  by (cases v) auto

lemma kube_bind_Inr: "kube_bind m f tr = (Inr y, tr'') \<longleftrightarrow> (\<exists>x tr'. m tr = (Inr x, tr') \<and> f x tr' = (Inr y, tr''))"
  by (auto simp: kube_bind_def split: prod.splits sum.splits)

section \<open>A sample\<close>

definition lab_config :: operator_config where
  "lab_config =
     \<lparr>oc_platform_arch = PStr ''amd64'', oc_namespace = PStr ''educates'', oc_image_repository = PStr ''ghcr.io/educates'',
      oc_runtime_class = PStr [], oc_cluster_domain = ''cluster.local'', oc_ingress_domain = PStr ''x.test'',
      oc_ingress_class = PStr [], oc_ingress_secret = PNone, oc_ingress_ca_secret = PNone, oc_ingress_protocol = PStr ''http'',
      oc_session_cookie_domain = PStr [], oc_storage_class = PStr [], oc_storage_user = PNone, oc_storage_group = PInt 1,
      oc_policy_engine = PNone, oc_rules_engine = PNone, oc_dockerd_mtu = PInt 1400, oc_mirror_remote = PNone,
      oc_mirror_username = PStr [], oc_mirror_password = PStr [], oc_block_cidrs = PList [], oc_default_theme = PStr [],
      oc_frame_ancestors = PList [], oc_google_tracking_id = PStr [], oc_clarity_tracking_id = PStr [],
      oc_amplitude_tracking_id = PStr [], oc_analytics_url = PStr [], oc_admin_username = PStr ''educates'',
      oc_admin_password = PStr ''a'', oc_robot_username = PStr ''robot@educates'', oc_robot_password = PStr ''b'',
      oc_robot_client_id = PStr ''c'', oc_robot_client_secret = PStr ''d'', oc_images = []\<rparr>"

definition lab_world :: operator_world where
  "lab_world =
     \<lparr>ow_api = \<lparr>ka_get = \<lambda>tr k ns n. Inr (PDict []), ka_query = \<lambda>tr k ns. Inr [], ka_write = \<lambda>tr c. Inr PNone\<rparr>,
      ow_config = lab_config, ow_random = \<lambda>tr n. ''r'', ow_adopt = \<lambda>obj owner. obj, ow_own = \<lambda>obj owner. obj, ow_json = \<lambda>v. [],
      ow_yaml = \<lambda>v. [], ow_yaml_all = \<lambda>vs. [], ow_packages = \<lambda>f. [], ow_keys = \<lambda>tr. (''private'', ''public''),
      ow_bcrypt = \<lambda>tr s. s, ow_text = \<lambda>e. ''error''\<rparr>"

end
