(* ===== verification/Session_Overlay.thy ===== *)
theory Session_Overlay
  imports Python_Values
begin

text \<open>
  Patches to resources (\<open>smart_overlay_merge\<close> in \<open>session-manager/handlers/helpers.py\<close>): dictionaries
  are merged key by key, and items of a list with the same name are merged with each other. The function
  changes its target in place; here it returns the changed target. Patches that are applied twice change
  nothing the second time.
\<close>

section \<open>The merge\<close>

fun is_container :: "pyval \<Rightarrow> bool" where
  "is_container (PDict d) = True"
| "is_container (PList xs) = True"
| "is_container _ = False"

text \<open>\<open>type(v) == type(w)\<close>.\<close>

fun same_type :: "pyval \<Rightarrow> pyval \<Rightarrow> bool" where
  "same_type PNone PNone = True"
| "same_type (PBool _) (PBool _) = True"
| "same_type (PInt _) (PInt _) = True"
| "same_type (PStr _) (PStr _) = True"
| "same_type (PList _) (PList _) = True"
| "same_type (PDict _) (PDict _) = True"
| "same_type _ _ = False"

text \<open>The name of an item of a patch, and whether an item of the target has it.\<close>

fun patch_name :: "string \<Rightarrow> pyval \<Rightarrow> pyval option" where
  "patch_name attr (PDict e) = dict_get e attr"
| "patch_name attr _ = None"

fun has_name :: "string \<Rightarrow> pyval \<Rightarrow> pyval \<Rightarrow> bool" where
  "has_name attr n (PDict e) = py_eq (case dict_get e attr of None \<Rightarrow> PNone | Some v \<Rightarrow> v) n"
| "has_name attr n _ = False"

fun first_index :: "('a \<Rightarrow> bool) \<Rightarrow> 'a list \<Rightarrow> nat option" where
  "first_index p [] = None"
| "first_index p (x # xs) = (if p x then Some 0 else map_option Suc (first_index p xs))"

text \<open>What is raised when a list is merged into something else.\<close>

definition no_list_error :: "string \<Rightarrow> pyval \<Rightarrow> pyval list \<Rightarrow> py_error" where
  "no_list_error attr target patch =
     (if patch_name attr (hd patch) \<noteq> None \<and> (case target of PDict _ \<Rightarrow> False | PStr _ \<Rightarrow> False | _ \<Rightarrow> True)
      then TypeError else AttributeError)"

text \<open>A name is merged with the first item of that name, unless an item of it was appended before.\<close>

fun overlay :: "string \<Rightarrow> pyval \<Rightarrow> pyval \<Rightarrow> pyval result"
  and overlay_dict :: "string \<Rightarrow> (string \<times> pyval) list \<Rightarrow> (string \<times> pyval) list \<Rightarrow> (string \<times> pyval) list result"
  and overlay_list :: "string \<Rightarrow> pyval list \<Rightarrow> pyval list \<Rightarrow> pyval list \<Rightarrow> pyval list result" where
  "overlay attr target (PDict p) =
     (case target of
        PDict d \<Rightarrow> bindE (overlay_dict attr d p) (\<lambda>d. Inr (PDict d))
      | _ \<Rightarrow> if p = [] then Inr target else Inl TypeError)"
| "overlay attr target (PList p) =
     (case target of
        PList xs \<Rightarrow> bindE (overlay_list attr xs p []) (\<lambda>xs. Inr (PList xs))
      | _ \<Rightarrow> if p = [] then Inr target else Inl (no_list_error attr target p))"
| "overlay attr target patch = Inr target"
| "overlay_dict attr d [] = Inr d"
| "overlay_dict attr d (kv # p) =
     bindE (case dict_get d (fst kv) of
              None \<Rightarrow> Inr (snd kv)
            | Some w \<Rightarrow> if same_type w (snd kv) \<and> is_container (snd kv) then overlay attr w (snd kv) else Inr (snd kv))
       (\<lambda>v. overlay_dict attr (dict_set (fst kv) v d) p)"
| "overlay_list attr xs [] appended = Inr xs"
| "overlay_list attr xs (x # p) appended =
     (case patch_name attr x of
        None \<Rightarrow> overlay_list attr (xs @ [x]) p appended
      | Some n \<Rightarrow>
          if list_ex (py_eq n) appended then overlay_list attr (xs @ [x]) p appended
          else
            (case first_index (has_name attr n) xs of
               None \<Rightarrow> overlay_list attr (xs @ [x]) p (appended @ [n])
             | Some i \<Rightarrow> bindE (overlay attr (xs ! i) x) (\<lambda>y. overlay_list attr (xs[i := y]) p appended)))"

section \<open>Patches applied twice\<close>

text \<open>A patch whose lists hold items of different names.\<close>

definition string_name :: "string \<Rightarrow> pyval \<Rightarrow> string option" where
  "string_name attr x = (case patch_name attr x of Some (PStr n) \<Rightarrow> Some n | _ \<Rightarrow> None)"

fun named_patch :: "string \<Rightarrow> pyval \<Rightarrow> bool" where
  "named_patch attr (PDict p) \<longleftrightarrow> distinct (map fst p) \<and> list_all (\<lambda>kv. named_patch attr (snd kv)) p"
| "named_patch attr (PList p) \<longleftrightarrow>
     list_all (\<lambda>x. string_name attr x \<noteq> None) p \<and> distinct (map (string_name attr) p) \<and> list_all (named_patch attr) p"
| "named_patch attr v \<longleftrightarrow> True"

text \<open>What it means that a target holds a patch already, for an entry of a dictionary and an item of a list.\<close>

definition holds_entry :: "string \<Rightarrow> (string \<times> pyval) list \<Rightarrow> string \<times> pyval \<Rightarrow> bool" where
  "holds_entry attr d kv \<longleftrightarrow>
     (\<exists>w. dict_get d (fst kv) = Some w
        \<and> (if same_type w (snd kv) \<and> is_container (snd kv) then overlay attr w (snd kv) = Inr w else w = snd kv))"

definition holds_item :: "string \<Rightarrow> pyval list \<Rightarrow> pyval \<Rightarrow> bool" where
  "holds_item attr xs x \<longleftrightarrow>
     (\<exists>n i. patch_name attr x = Some (PStr n) \<and> first_index (has_name attr (PStr n)) xs = Some i
        \<and> overlay attr (xs ! i) x = Inr (xs ! i))"

lemma first_index_Some:
  "first_index p xs = Some i \<longleftrightarrow> i < length xs \<and> p (xs ! i) \<and> (\<forall>j<i. \<not> p (xs ! j))"
proof (induction xs arbitrary: i)
  case (Cons x xs)
  then show ?case by (cases i) (auto simp: nth_Cons split: nat.splits)
qed simp

lemma first_index_None: "first_index p xs = None \<longleftrightarrow> (\<forall>x\<in>set xs. \<not> p x)"
  by (induction xs) auto

lemma first_index_append: "first_index p xs = Some i \<Longrightarrow> first_index p (xs @ ys) = Some i"
  by (auto simp: first_index_Some nth_append)

lemma dict_set_same: "dict_get d k = Some v \<Longrightarrow> dict_set k v d = d"
  by (induction d) (auto split: if_splits)

lemma overlay_dict_held:
  "list_all (holds_entry attr d) p \<Longrightarrow> overlay_dict attr d p = Inr d"
  by (induction p) (auto simp: holds_entry_def dict_set_same split: if_splits)

lemma overlay_list_held:
  "list_all (holds_item attr xs) p \<Longrightarrow> overlay_list attr xs p [] = Inr xs"
  by (induction p) (auto simp: holds_item_def)

lemma has_string_name: "has_name attr (PStr n) x \<longleftrightarrow> string_name attr x = Some n"
proof (cases x)
  case (PDict e)
  then show ?thesis by (cases "dict_get e attr") (auto simp: string_name_def split: pyval.splits)
qed (simp_all add: string_name_def)

lemma overlay_self:
  assumes "named_patch attr v"
  shows "overlay attr v v = Inr v"
  using assms
proof (induction v)
  case (PList p)
  have "holds_item attr p x" if x: "x \<in> set p" for x
  proof -
    from x PList.prems obtain n where n: "string_name attr x = Some n" by (auto simp: list_all_iff)
    from x obtain i where i: "i < length p" "p ! i = x" by (auto simp: in_set_conv_nth)
    have "string_name attr (p ! j) \<noteq> Some n" if "j < i" for j
      using that i n PList.prems nth_eq_iff_index_eq [of "map (string_name attr) p" j i] by auto
    with i n have "first_index (has_name attr (PStr n)) p = Some i"
      by (auto simp: first_index_Some has_string_name)
    moreover have "overlay attr (p ! i) x = Inr (p ! i)"
      using PList i x by (simp add: list_all_iff)
    ultimately show ?thesis
      using n by (auto simp: holds_item_def string_name_def split: option.splits pyval.splits)
  qed
  then show ?case by (simp add: overlay_list_held list_all_iff)
next
  case (PDict p)
  have "holds_entry attr p kv" if "kv \<in> set p" for kv
  proof -
    obtain k v where kv: "kv = (k, v)" by (cases kv)
    from that PDict.prems have "dict_get p k = Some v" "named_patch attr v" by (auto simp: kv list_all_iff)
    moreover from this PDict.IH [of kv v] that have "overlay attr v v = Inr v" by (simp add: kv prod_set_simps)
    ultimately show ?thesis by (simp add: holds_entry_def kv)
  qed
  then show ?case by (simp add: overlay_dict_held list_all_iff)
qed simp_all

lemma overlay_keeps_type: "overlay attr t p = Inr t' \<Longrightarrow> same_type t t'"
  by (cases p; cases t) (auto simp: bindE_Inr_iff split: if_splits)

lemma overlay_dict_holds:
  assumes "overlay_dict attr d p = Inr d'" and "distinct (map fst p)" and "list_all (\<lambda>kv. named_patch attr (snd kv)) p"
    and "\<And>kv t t'. kv \<in> set p \<Longrightarrow> overlay attr t (snd kv) = Inr t' \<Longrightarrow> overlay attr t' (snd kv) = Inr t'"
  shows "list_all (holds_entry attr d') p \<and> (\<forall>k. k \<notin> fst ` set p \<longrightarrow> dict_get d' k = dict_get d k)"
  using assms
proof (induction p arbitrary: d)
  case (Cons kv p)
  from Cons.prems(1) obtain v where rest: "overlay_dict attr (dict_set (fst kv) v d) p = Inr d'"
    and v: "(case dict_get d (fst kv) of None \<Rightarrow> Inr (snd kv)
             | Some w \<Rightarrow> if same_type w (snd kv) \<and> is_container (snd kv) then overlay attr w (snd kv) else Inr (snd kv)) = Inr v"
    by (auto simp: bindE_Inr_iff)
  from Cons.IH [OF rest] Cons.prems have IH: "list_all (holds_entry attr d') p"
    "\<And>k. k \<notin> fst ` set p \<Longrightarrow> dict_get d' k = dict_get (dict_set (fst kv) v d) k"
    by auto
  have "dict_get d' (fst kv) = Some v" using IH(2) [of "fst kv"] Cons.prems(2) by auto
  moreover have "v = snd kv \<or> is_container (snd kv) \<and> same_type v (snd kv) \<and> overlay attr v (snd kv) = Inr v"
  proof (cases "dict_get d (fst kv)")
    case (Some w)
    show ?thesis
    proof (cases "same_type w (snd kv) \<and> is_container (snd kv)")
      case True
      with v Some have o: "overlay attr w (snd kv) = Inr v" by simp
      from overlay_keeps_type [OF this] True have "same_type v (snd kv)"
        by (cases w; cases v; cases "snd kv") simp_all
      with o True Cons.prems(4) show ?thesis by simp
    qed (use v Some in \<open>simp split: if_splits\<close>)
  qed (use v in simp)
  moreover have "overlay attr (snd kv) (snd kv) = Inr (snd kv)"
    using Cons.prems(3) by (simp add: overlay_self)
  ultimately have "holds_entry attr d' kv" by (auto simp: holds_entry_def)
  with IH Cons.prems(2) show ?case by auto
qed simp

lemma overlay_dict_scalar:
  assumes "overlay_dict attr d p = Inr d'" and "distinct (map fst p)"
  shows "(\<forall>k. k \<notin> fst ` set p \<longrightarrow> dict_get d' k = dict_get d k)
       \<and> (\<forall>k v. (k, v) \<in> set p \<longrightarrow> \<not> is_container v \<longrightarrow> dict_get d' k = Some v)"
  using assms
proof (induction p arbitrary: d)
  case (Cons kv p)
  from Cons.prems(1) obtain v where rest: "overlay_dict attr (dict_set (fst kv) v d) p = Inr d'"
    and v: "(case dict_get d (fst kv) of None \<Rightarrow> Inr (snd kv)
             | Some w \<Rightarrow> if same_type w (snd kv) \<and> is_container (snd kv) then overlay attr w (snd kv) else Inr (snd kv)) = Inr v"
    by (auto simp: bindE_Inr_iff)
  have "v = snd kv" if "\<not> is_container (snd kv)" using v that by (auto split: option.splits)
  with Cons.IH [OF rest] Cons.prems(2) show ?case by auto
qed simp

lemma overlay_keeps_name:
  assumes "overlay attr t x = Inr y" and "string_name attr t = Some n" and "string_name attr x = Some n"
    and "named_patch attr x"
  shows "string_name attr y = Some n"
proof -
  from assms(2,3) obtain d p where t: "t = PDict d" and x: "x = PDict p"
    by (cases t; cases x) (auto simp: string_name_def)
  with assms(1) obtain d' where d': "overlay_dict attr d p = Inr d'" and y: "y = PDict d'"
    by (auto simp: bindE_Inr_iff)
  from assms(3) x have "dict_get p attr = Some (PStr n)"
    by (auto simp: string_name_def split: option.splits pyval.splits)
  then have "(attr, PStr n) \<in> set p" by (rule map_of_SomeD)
  with overlay_dict_scalar [OF d'] assms(4) x have "dict_get d' attr = Some (PStr n)" by auto
  then show ?thesis by (simp add: y string_name_def)
qed

lemma has_name_update:
  assumes "first_index (has_name attr (PStr n)) xs = Some i" and "string_name attr y = Some n" and "m \<noteq> n"
  shows "first_index (has_name attr (PStr m)) (xs[i := y]) = first_index (has_name attr (PStr m)) xs"
proof -
  have i: "i < length xs" "string_name attr (xs ! i) = Some n"
    using assms(1) by (auto simp: first_index_Some has_string_name)
  have same: "has_name attr (PStr m) (xs[i := y] ! j) = has_name attr (PStr m) (xs ! j)" if "j < length xs" for j
    using i assms(2,3) that by (cases "j = i") (auto simp: has_string_name)
  show ?thesis
  proof (cases "first_index (has_name attr (PStr m)) xs")
    case None
    have "\<not> has_name attr (PStr m) z" if z: "z \<in> set (xs[i := y])" for z
    proof -
      from z obtain j where "j < length xs" and "z = xs[i := y] ! j" by (auto simp: in_set_conv_nth)
      with same None show ?thesis by (simp add: first_index_None)
    qed
    then have "first_index (has_name attr (PStr m)) (xs[i := y]) = None" unfolding first_index_None by blast
    with None show ?thesis by simp
  next
    case (Some j)
    with same have "first_index (has_name attr (PStr m)) (xs[i := y]) = Some j"
      unfolding first_index_Some by (metis length_list_update order.strict_trans)
    with Some show ?thesis by simp
  qed
qed

lemma overlay_list_holds:
  assumes "overlay_list attr xs p appended = Inr ys"
    and "list_all (\<lambda>x. string_name attr x \<noteq> None) p" and "distinct (map (string_name attr) p)"
    and "list_all (named_patch attr) p" and "\<And>n. Some n \<in> string_name attr ` set p \<Longrightarrow> \<not> list_ex (py_eq (PStr n)) appended"
    and "\<And>x t t'. x \<in> set p \<Longrightarrow> overlay attr t x = Inr t' \<Longrightarrow> overlay attr t' x = Inr t'"
  shows "list_all (holds_item attr ys) p
       \<and> (\<forall>z. string_name attr z \<notin> string_name attr ` set p \<longrightarrow> holds_item attr xs z \<longrightarrow> holds_item attr ys z)"
  using assms
proof (induction p arbitrary: xs appended)
  case (Cons x p)
  from Cons.prems(2) obtain n where n: "string_name attr x = Some n" by auto
  then have name: "patch_name attr x = Some (PStr n)" by (auto simp: string_name_def split: option.splits pyval.splits)
  have "Some n \<in> string_name attr ` set (x # p)" unfolding n [symmetric] by simp
  with Cons.prems(5) have not_appended: "\<not> list_ex (py_eq (PStr n)) appended" by blast
  obtain xs1 appended1 where rest: "overlay_list attr xs1 p appended1 = Inr ys"
    and app: "appended1 = appended \<or> appended1 = appended @ [PStr n]"
    and here: "holds_item attr xs1 x"
    and others: "\<And>z. string_name attr z \<noteq> Some n \<Longrightarrow> holds_item attr xs z \<Longrightarrow> holds_item attr xs1 z"
  proof (cases "first_index (has_name attr (PStr n)) xs")
    case None
    have "first_index (has_name attr (PStr n)) (xs @ [x]) = Some (length xs)"
      using None n by (auto simp: first_index_None first_index_Some has_string_name nth_append)
    moreover have "overlay attr x x = Inr x" using Cons.prems(4) by (simp add: overlay_self)
    ultimately have "holds_item attr (xs @ [x]) x" using name by (auto simp: holds_item_def)
    moreover have "holds_item attr (xs @ [x]) z" if "holds_item attr xs z" for z
      using that first_index_append [of _ xs _ "[x]"]
      unfolding holds_item_def by (metis first_index_Some nth_append)
    ultimately show thesis using that [of "xs @ [x]" "appended @ [PStr n]"] None Cons.prems(1) name not_appended by simp
  next
    case (Some i)
    then obtain y where y: "overlay attr (xs ! i) x = Inr y" and rest: "overlay_list attr (xs[i := y]) p appended = Inr ys"
      using Cons.prems(1) name not_appended by (auto simp: bindE_Inr_iff)
    have i: "i < length xs" "string_name attr (xs ! i) = Some n"
      using Some by (auto simp: first_index_Some has_string_name)
    have yn: "string_name attr y = Some n" using overlay_keeps_name [OF y i(2) n] Cons.prems(4) by simp
    have "first_index (has_name attr (PStr n)) (xs[i := y]) = Some i"
      using Some yn by (auto simp: first_index_Some has_string_name nth_list_update)
    moreover have "overlay attr y x = Inr y" using Cons.prems(6) [OF _ y] by simp
    ultimately have "holds_item attr (xs[i := y]) x" using name i(1) by (auto simp: holds_item_def)
    moreover have "holds_item attr (xs[i := y]) z" if "string_name attr z \<noteq> Some n" and z: "holds_item attr xs z" for z
    proof -
      from z obtain m j where m: "patch_name attr z = Some (PStr m)"
        and j: "first_index (has_name attr (PStr m)) xs = Some j" "overlay attr (xs ! j) z = Inr (xs ! j)"
        by (auto simp: holds_item_def)
      with that(1) have "m \<noteq> n" by (auto simp: string_name_def)
      moreover have "j \<noteq> i" using j(1) i(2) \<open>m \<noteq> n\<close> by (auto simp: first_index_Some has_string_name)
      ultimately show ?thesis
        using has_name_update [OF Some yn] m j by (auto simp: holds_item_def)
    qed
    ultimately show thesis using that [of "xs[i := y]" appended] rest by simp
  qed
  have "list_all (holds_item attr ys) p
       \<and> (\<forall>z. string_name attr z \<notin> string_name attr ` set p \<longrightarrow> holds_item attr xs1 z \<longrightarrow> holds_item attr ys z)"
  proof (rule Cons.IH [OF rest])
    fix m assume m: "Some m \<in> string_name attr ` set p"
    then have "m \<noteq> n" using Cons.prems(3) n by auto
    moreover from m have "Some m \<in> string_name attr ` set (x # p)" by (simp only: list.set image_insert insertI2)
    then have "\<not> list_ex (py_eq (PStr m)) appended" by (rule Cons.prems(5))
    ultimately show "\<not> list_ex (py_eq (PStr m)) appended1" using app by auto
  qed (use Cons.prems in auto)
  moreover have "string_name attr x \<notin> string_name attr ` set p" using Cons.prems(3) by simp
  ultimately show ?case using here others n by auto
qed simp

text \<open>
  A patch whose lists hold items of different names can be applied again without effect: whatever the
  target, merging the patch into the result of the first merge gives that result.
\<close>

theorem overlay_idempotent:
  assumes "named_patch attr patch" and "overlay attr target patch = Inr target'"
  shows "overlay attr target' patch = Inr target'"
  using assms
proof (induction patch arbitrary: target target')
  case (PList p)
  show ?case
  proof (cases target)
    case (PList xs)
    with PList.prems obtain ys where ys: "overlay_list attr xs p [] = Inr ys" and t: "target' = PList ys"
      by (auto simp: bindE_Inr_iff)
    have "list_all (\<lambda>x. string_name attr x \<noteq> None) p" "distinct (map (string_name attr) p)" "list_all (named_patch attr) p"
      using PList.prems(1) by simp_all
    moreover from this(3) PList.IH have "overlay attr t' x = Inr t'" if "x \<in> set p" and "overlay attr t x = Inr t'" for x t t'
      using that by (simp add: list_all_iff)
    ultimately have "list_all (holds_item attr ys) p" by (intro overlay_list_holds [OF ys, THEN conjunct1]) simp_all
    then show ?thesis by (simp add: t overlay_list_held)
  qed (use PList.prems in \<open>auto split: if_splits\<close>)
next
  case (PDict p)
  show ?case
  proof (cases target)
    case (PDict d)
    with PDict.prems obtain d' where d': "overlay_dict attr d p = Inr d'" and t: "target' = PDict d'"
      by (auto simp: bindE_Inr_iff)
    have "overlay attr t' (snd kv) = Inr t'" if "kv \<in> set p" and "overlay attr t (snd kv) = Inr t'" for kv t t'
    proof -
      have "snd kv \<in> Basic_BNFs.snds kv" by (cases kv) (simp add: prod_set_simps)
      with that PDict.IH [of kv "snd kv" t t'] PDict.prems(1) show ?thesis by (simp add: list_all_iff)
    qed
    with overlay_dict_holds [OF d'] PDict.prems(1) have "list_all (holds_entry attr d') p" by auto
    then show ?thesis by (simp add: t overlay_dict_held)
  qed (use PDict.prems in \<open>auto split: if_splits\<close>)
qed simp_all

text \<open>A variable of a container is changed, another one is added, and then both are there.\<close>

definition container_patch :: pyval where
  "container_patch =
     PDict [(''env'', PList [PDict [(''name'', PStr ''B'')], PDict [(''name'', PStr ''A''), (''value'', PStr ''2'')]])]"

theorem overlay_idempotent_witness:
  "overlay ''name'' (PDict [(''env'', PList [PDict [(''name'', PStr ''A''), (''value'', PStr ''2'')], PDict [(''name'', PStr ''B'')]])])
     container_patch
   = Inr (PDict [(''env'', PList [PDict [(''name'', PStr ''A''), (''value'', PStr ''2'')], PDict [(''name'', PStr ''B'')]])])"
proof (rule overlay_idempotent)
  show "named_patch ''name'' container_patch" by (simp add: container_patch_def string_name_def)
  show "overlay ''name'' (PDict [(''env'', PList [PDict [(''name'', PStr ''A''), (''value'', PStr ''1'')]])]) container_patch
    = Inr (PDict [(''env'', PList [PDict [(''name'', PStr ''A''), (''value'', PStr ''2'')], PDict [(''name'', PStr ''B'')]])])"
    by (simp add: container_patch_def)
qed

end
