(* ===== verification/Session_Namespaces.thy ===== *)
theory Session_Namespaces
  imports Session_World Session_Overlay
begin

text \<open>
  The namespaces of a workshop session (\<open>_setup_session_namespace\<close> in
  \<open>session-manager/handlers/workshopsession.py\<close>): resource limits and quotas by budget
  (\<open>namespace_budgets.py\<close>), network policy, role bindings and the secret for the image registry. The second half
  follows the calls that are made.
\<close>

section \<open>Budgets\<close>

text \<open>The maximum of a container, its default, the storage of a volume, and the numbers of objects.\<close>

fun sized_budget ::
    "string \<Rightarrow> string \<times> string \<Rightarrow> string \<times> string \<Rightarrow> string \<Rightarrow> (string \<times> string \<times> string \<times> string) \<Rightarrow> pyval" where
  "sized_budget name (cpu, memory) (default_cpu, default_memory) storage (claims, controllers, secrets, services) =
     PDict [
       (''resource-limits'', PDict [
         (''kind'', PStr ''LimitRange''),
         (''apiVersion'', PStr ''v1''),
         (''metadata'', PDict [
           (''name'', PStr ''resource-limits''),
           (''annotations'', PDict [(''resource-budget'', PStr name)])]),
         (''spec'', PDict [
           (''limits'', PList [
             PDict [
               (''type'', PStr ''Pod''),
               (''min'', PDict [(''cpu'', PStr ''1m''), (''memory'', PStr ''1M'')]),
               (''max'', PDict [(''cpu'', PStr cpu), (''memory'', PStr memory)])],
             PDict [
               (''type'', PStr ''Container''),
               (''min'', PDict [(''cpu'', PStr ''1m''), (''memory'', PStr ''1M'')]),
               (''max'', PDict [(''cpu'', PStr cpu), (''memory'', PStr memory)]),
               (''default'', PDict [(''cpu'', PStr default_cpu), (''memory'', PStr default_memory)]),
               (''defaultRequest'', PDict [(''cpu'', PStr ''50m''), (''memory'', PStr ''128Mi'')])],
             PDict [
               (''type'', PStr ''PersistentVolumeClaim''),
               (''min'', PDict [(''storage'', PStr ''1Gi'')]),
               (''max'', PDict [(''storage'', PStr storage)])]])])]),
       (''compute-resources'', PDict [
         (''kind'', PStr ''ResourceQuota''),
         (''apiVersion'', PStr ''v1''),
         (''metadata'', PDict [
           (''name'', PStr ''compute-resources''),
           (''annotations'', PDict [(''resource-budget'', PStr name)])]),
         (''spec'', PDict [
           (''hard'', PDict [(''limits.cpu'', PStr cpu), (''limits.memory'', PStr memory)]),
           (''scopes'', PList [PStr ''NotTerminating''])])]),
       (''compute-resources-timebound'', PDict [
         (''kind'', PStr ''ResourceQuota''),
         (''apiVersion'', PStr ''v1''),
         (''metadata'', PDict [
           (''name'', PStr ''compute-resources-timebound''),
           (''annotations'', PDict [(''resource-budget'', PStr name)])]),
         (''spec'', PDict [
           (''hard'', PDict [(''limits.cpu'', PStr cpu), (''limits.memory'', PStr memory)]),
           (''scopes'', PList [PStr ''Terminating''])])]),
       (''object-counts'', PDict [
         (''kind'', PStr ''ResourceQuota''),
         (''apiVersion'', PStr ''v1''),
         (''metadata'', PDict [
           (''name'', PStr ''object-counts''),
           (''annotations'', PDict [(''resource-budget'', PStr name)])]),
         (''spec'', PDict [
           (''hard'', PDict [
             (''persistentvolumeclaims'', PStr claims),
             (''replicationcontrollers'', PStr controllers),
             (''secrets'', PStr secrets),
             (''services'', PStr services)])])])]"

definition small_budget :: pyval where
  "small_budget = sized_budget ''small'' (''1'', ''1Gi'') (''250m'', ''256Mi'') ''1Gi'' (''3'', ''10'', ''20'', ''5'')"

definition medium_budget :: pyval where
  "medium_budget = sized_budget ''medium'' (''2'', ''2Gi'') (''500m'', ''512Mi'') ''5Gi'' (''6'', ''15'', ''25'', ''10'')"

definition large_budget :: pyval where
  "large_budget = sized_budget ''large'' (''4'', ''4Gi'') (''500m'', ''512Mi'') ''10Gi'' (''12'', ''25'', ''35'', ''20'')"

definition xlarge_budget :: pyval where
  "xlarge_budget = sized_budget ''x-large'' (''8'', ''8Gi'') (''500m'', ''512Mi'') ''20Gi'' (''18'', ''35'', ''45'', ''30'')"

definition xxlarge_budget :: pyval where
  "xxlarge_budget = sized_budget ''xx-large'' (''8'', ''12Gi'') (''500m'', ''512Mi'') ''20Gi'' (''24'', ''45'', ''55'', ''40'')"

definition xxxlarge_budget :: pyval where
  "xxxlarge_budget = sized_budget ''xxx-large'' (''8'', ''16Gi'') (''500m'', ''512Mi'') ''20Gi'' (''30'', ''55'', ''65'', ''50'')"

definition namespace_budgets :: "(string \<times> pyval) list" where
  "namespace_budgets = [(''small'', small_budget), (''medium'', medium_budget), (''large'', large_budget), (''x-large'', xlarge_budget), (''xx-large'', xxlarge_budget), (''xxx-large'', xxxlarge_budget)]"

section \<open>Labels\<close>

text \<open>The names that every object of a session is labelled with.\<close>

record session_names =
  sn_workshop_name :: pyval
  sn_portal_name :: pyval
  sn_portal_uid :: pyval
  sn_environment_name :: pyval
  sn_environment_uid :: pyval
  sn_session_name :: pyval
  sn_workshop_namespace :: pyval
  sn_service_account :: pyval

definition session_labels :: "session_names \<Rightarrow> (string \<times> pyval) list" where
  "session_labels sn =
     [
       (''training.educates.dev/component'', PStr ''session''),
       (''training.educates.dev/workshop.name'', sn_workshop_name sn),
       (''training.educates.dev/portal.name'', sn_portal_name sn),
       (''training.educates.dev/portal.uid'', sn_portal_uid sn),
       (''training.educates.dev/environment.name'', sn_environment_name sn),
       (''training.educates.dev/environment.uid'', sn_environment_uid sn),
       (''training.educates.dev/session.name'', sn_session_name sn)]"

definition dict_update :: "('k \<times> 'v) list \<Rightarrow> ('k \<times> 'v) list \<Rightarrow> ('k \<times> 'v) list" where
  "dict_update new d = fold (\<lambda>(k, v). dict_set k v) new d"

text \<open>\<open>obj["metadata"].setdefault("labels", {}).update(labels)\<close> and \<open>obj["metadata"][key] = v\<close>.\<close>

definition add_labels :: "(string \<times> pyval) list \<Rightarrow> pyval \<Rightarrow> pyval result" where
  "add_labels labels obj =
     bindE (py_index obj ''metadata'')
       (\<lambda>m. case (obj, m) of
              (PDict d, PDict md) \<Rightarrow>
                (case (case dict_get md ''labels'' of None \<Rightarrow> PDict [] | Some l \<Rightarrow> l) of
                   PDict l \<Rightarrow> Inr (PDict (dict_set ''metadata'' (PDict (dict_set ''labels'' (PDict (dict_update labels l)) md)) d))
                 | _ \<Rightarrow> Inl AttributeError)
            | _ \<Rightarrow> Inl AttributeError)"

definition set_metadata :: "string \<Rightarrow> pyval \<Rightarrow> pyval \<Rightarrow> pyval result" where
  "set_metadata key v obj =
     bindE (py_index obj ''metadata'')
       (\<lambda>m. case (obj, m) of
              (PDict d, PDict md) \<Rightarrow> Inr (PDict (dict_set ''metadata'' (PDict (dict_set key v md)) d))
            | _ \<Rightarrow> Inl TypeError)"

section \<open>Setting up a namespace\<close>

primrec await_service_account :: "operator_world \<Rightarrow> pyval \<Rightarrow> nat \<Rightarrow> unit kube" where
  "await_service_account w target 0 = kube_return ()"
| "await_service_account w target (Suc n) =
     kube_bind
       (kube_try (kube_bind (kube_get (ow_api w) ''ServiceAccount'' target (PStr ''default'')) (\<lambda>_. kube_return True))
          (\<lambda>e. if e = ObjectDoesNotExist then kube_bind pause (\<lambda>_. kube_return False) else kube_raise e))
       (\<lambda>found. if found then kube_return () else await_service_account w target n)"

text \<open>A key that cannot be hashed raises; any other key that is not a string is not in the table.\<close>

definition table_get :: "(string \<times> 'a) list \<Rightarrow> pyval \<Rightarrow> 'a option result" where
  "table_get table key =
     (case key of
        PStr k \<Rightarrow> Inr (dict_get table k)
      | PList _ \<Rightarrow> Inl TypeError
      | PDict _ \<Rightarrow> Inl TypeError
      | _ \<Rightarrow> Inr None)"

text \<open>The budget that applies: \<open>None\<close> for \<open>default\<close>, and for \<open>custom\<close>, which has no definition of its own either.\<close>

datatype budget_choice = DefaultBudget | CustomBudget | SizedBudget pyval

definition choose_budget :: "pyval \<Rightarrow> budget_choice result" where
  "choose_budget budget =
     (if budget = PStr ''custom'' then Inr CustomBudget
      else bindE (table_get namespace_budgets budget)
             (\<lambda>b. Inr (case b of None \<Rightarrow> DefaultBudget | Some item \<Rightarrow> SizedBudget item)))"

text \<open>Limits of the workshop, a dictionary by the resource definition, change the limits for containers.\<close>

definition limits_definition :: "pyval \<Rightarrow> pyval \<Rightarrow> pyval result" where
  "limits_definition item limits =
     bindE (py_index item ''resource-limits'')
       (\<lambda>definition.
          if \<not> truthy limits then Inr definition
          else
            (case limits of
               PDict l \<Rightarrow>
                 bindE (lookup definition ''spec.limits'' PNone)
                   (\<lambda>given. bindE (overlay ''type'' given (PList [PDict (dict_update l [(''type'', PStr ''Container'')])]))
                      (\<lambda>merged. case definition of
                         PDict d \<Rightarrow>
                           bindE (py_index definition ''spec'')
                             (\<lambda>spec. case spec of
                                PDict s \<Rightarrow> Inr (PDict (dict_set ''spec'' (PDict (dict_set ''limits'' merged s)) d))
                              | _ \<Rightarrow> Inl TypeError)
                       | _ \<Rightarrow> Inl TypeError))
             | _ \<Rightarrow> Inl TypeError))"

definition delete_quietly :: "operator_world \<Rightarrow> pyval \<Rightarrow> unit kube" where
  "delete_quietly w obj =
     kube_try (kube_bind (kube_write (ow_api w) (Delete obj)) (\<lambda>_. kube_return ()))
       (\<lambda>e. if e = ObjectDoesNotExist then kube_return () else kube_raise e)"

definition delete_all :: "operator_world \<Rightarrow> string \<Rightarrow> pyval \<Rightarrow> unit kube" where
  "delete_all w kind target =
     kube_bind (kube_query (ow_api w) kind target) (kube_each (delete_quietly w))"

definition is_ipv6_block :: "pyval \<Rightarrow> bool result" where
  "is_ipv6_block block = py_in (PStr '':'') block"

definition block_egress :: "pyval list \<Rightarrow> pyval list \<Rightarrow> pyval list" where
  "block_egress ipv4 ipv6 =
     (if ipv4 = [] then [] else
        [PDict [(''to'', PList [PDict [(''ipBlock'', PDict [(''cidr'', PStr ''0.0.0.0/0''), (''except'', PList ipv4)])]])]])
   @ (if ipv6 = [] then [] else
        [PDict [(''to'', PList [PDict [(''ipBlock'', PDict [(''cidr'', PStr ''::/0''), (''except'', PList ipv6)])]])]])"

definition network_policy_body :: "session_names \<Rightarrow> pyval \<Rightarrow> pyval list \<Rightarrow> pyval" where
  "network_policy_body sn target egress =
     PDict [
       (''apiVersion'', PStr ''networking.k8s.io/v1''),
       (''kind'', PStr ''NetworkPolicy''),
       (''metadata'', PDict [
         (''name'', PStr ''educates-network-policy''),
         (''namespace'', target),
         (''labels'', PDict (session_labels sn))]),
       (''spec'', PDict [(''policyTypes'', PList [PStr ''Egress'']), (''egress'', PList egress)])]"

definition create_network_policy :: "operator_world \<Rightarrow> session_names \<Rightarrow> pyval \<Rightarrow> pyval \<Rightarrow> unit kube" where
  "create_network_policy w sn owner target =
     (if \<not> truthy (oc_block_cidrs (ow_config w)) then kube_return ()
      else
        kube_bind (kube_lift (py_iter (oc_block_cidrs (ow_config w))))
          (\<lambda>blocks. kube_bind (kube_lift (filterE is_ipv6_block blocks))
          (\<lambda>ipv6. kube_bind (kube_lift (filterE (\<lambda>b. bindE (is_ipv6_block b) (\<lambda>v6. Inr (\<not> v6))) blocks))
          (\<lambda>ipv4. kube_bind (create_object w (ow_adopt w (network_policy_body sn target (block_egress ipv4 ipv6)) owner))
             (\<lambda>_. kube_return ())))))"

definition role_mappings :: "(string \<times> string option) list" where
  "role_mappings =
     [(''admin'', Some ''educates-admin-session-role''), (''edit'', Some ''educates-edit-session-role''),
      (''view'', Some ''educates-view-session-role''), (''cluster-admin'', Some ''cluster-admin''), (''custom'', None)]"

definition role_resource_name :: "pyval \<Rightarrow> string option result" where
  "role_resource_name role =
     bindE (table_get role_mappings role)
       (\<lambda>name. Inr
          (case name of
             Some (Some n) \<Rightarrow> Some n
           | _ \<Rightarrow> if role \<noteq> PStr ''custom'' then Some ''educates-view-session-role'' else None))"

definition role_binding_body :: "session_names \<Rightarrow> pyval \<Rightarrow> string \<Rightarrow> pyval" where
  "role_binding_body sn target role_name =
     PDict [
       (''apiVersion'', PStr ''rbac.authorization.k8s.io/v1''),
       (''kind'', PStr ''RoleBinding''),
       (''metadata'', PDict [
         (''name'', PStr ''educates-session-role''),
         (''namespace'', target),
         (''labels'', PDict (session_labels sn))]),
       (''roleRef'', PDict [
         (''apiGroup'', PStr ''rbac.authorization.k8s.io''),
         (''kind'', PStr ''ClusterRole''),
         (''name'', PStr role_name)]),
       (''subjects'', PList [
         PDict [
           (''kind'', PStr ''ServiceAccount''),
           (''name'', sn_service_account sn),
           (''namespace'', sn_workshop_namespace sn)]])]"

definition psp_role_binding_body :: "session_names \<Rightarrow> pyval \<Rightarrow> pyval \<Rightarrow> pyval" where
  "psp_role_binding_body sn target policy =
     PDict [
       (''apiVersion'', PStr ''rbac.authorization.k8s.io/v1''),
       (''kind'', PStr ''RoleBinding''),
       (''metadata'', PDict [
         (''name'', PStr ''educates-security-policy''),
         (''namespace'', target),
         (''labels'', PDict (session_labels sn))]),
       (''roleRef'', PDict [
         (''apiGroup'', PStr ''rbac.authorization.k8s.io''),
         (''kind'', PStr ''ClusterRole''),
         (''name'', PStr (''educates-'' @ py_str policy @ ''-psp''))]),
       (''subjects'', PList [
         PDict [
           (''apiGroup'', PStr ''rbac.authorization.k8s.io''),
           (''kind'', PStr ''Group''),
           (''name'', PStr (''system:serviceaccounts:'' @ py_str target))]])]"

definition scc_role_binding_body :: "session_names \<Rightarrow> pyval \<Rightarrow> pyval \<Rightarrow> pyval" where
  "scc_role_binding_body sn target policy =
     PDict [
       (''apiVersion'', PStr ''rbac.authorization.k8s.io/v1''),
       (''kind'', PStr ''RoleBinding''),
       (''metadata'', PDict [
         (''name'', PStr ''educates-security-policy''),
         (''namespace'', target),
         (''labels'', PDict (session_labels sn))]),
       (''roleRef'', PDict [
         (''apiGroup'', PStr ''rbac.authorization.k8s.io''),
         (''kind'', PStr ''ClusterRole''),
         (''name'', PStr (''educates-'' @ py_str policy @ ''-scc''))]),
       (''subjects'', PList [
         PDict [
           (''apiGroup'', PStr ''rbac.authorization.k8s.io''),
           (''kind'', PStr ''Group''),
           (''name'', PStr (''system:serviceaccounts:'' @ py_str target))]])]"

definition create_role_bindings :: "operator_world \<Rightarrow> session_names \<Rightarrow> pyval \<Rightarrow> pyval \<Rightarrow> pyval \<Rightarrow> unit kube" where
  "create_role_bindings w sn target role policy =
     kube_bind (kube_lift (role_resource_name role))
       (\<lambda>name. kube_bind (case name of None \<Rightarrow> kube_return PNone | Some n \<Rightarrow> create_object w (role_binding_body sn target n))
       (\<lambda>_. kube_bind (if oc_policy_engine (ow_config w) = PStr ''pod-security-policies''
                         then create_object w (psp_role_binding_body sn target policy) else kube_return PNone)
       (\<lambda>_. kube_bind (if oc_policy_engine (ow_config w) = PStr ''security-context-constraints''
                         then create_object w (scc_role_binding_body sn target policy) else kube_return PNone)
          (\<lambda>_. kube_return ()))))"

definition registry_secret_body :: "operator_world \<Rightarrow> session_names \<Rightarrow> pyval \<Rightarrow> pyval \<Rightarrow> pyval \<Rightarrow> pyval" where
  "registry_secret_body w sn target registry_secret registry_config =
     PDict [
       (''apiVersion'', PStr ''v1''),
       (''kind'', PStr ''Secret''),
       (''metadata'', PDict [
         (''name'', registry_secret),
         (''namespace'', target),
         (''labels'', PDict (session_labels sn))]),
       (''type'', PStr ''kubernetes.io/dockerconfigjson''),
       (''stringData'', PDict [(''.dockerconfigjson'', PStr (ow_json w registry_config))])]"

text \<open>An enabled registry is in the configuration, so reading its properties leaves that as it is.\<close>

definition registry_property :: "pyval \<Rightarrow> string \<Rightarrow> pyval result" where
  "registry_property applications key =
     bindE (application_property applications ''registry'' key PNone) (\<lambda>(v, _). Inr v)"

definition create_registry_secret :: "operator_world \<Rightarrow> session_names \<Rightarrow> pyval \<Rightarrow> pyval \<Rightarrow> unit kube" where
  "create_registry_secret w sn target applications =
     kube_bind (kube_lift (application_enabled applications ''registry''))
       (\<lambda>enabled. if \<not> enabled then kube_return ()
          else
            kube_bind (kube_lift (registry_property applications ''host''))
         (\<lambda>host. kube_bind (kube_lift (registry_property applications ''username''))
         (\<lambda>_. kube_bind (kube_lift (registry_property applications ''password''))
         (\<lambda>_. kube_bind (kube_lift (registry_property applications ''basic_auth_token''))
         (\<lambda>token. kube_bind (kube_lift (registry_property applications ''secret''))
         (\<lambda>secret. kube_bind
            (create_object w (registry_secret_body w sn target secret
               (PDict [(''auths'', PDict [(py_str host, PDict [(''auth'', PStr (py_str token))])])])))
            (\<lambda>_. kube_return ())))))))"

definition create_budget_object :: "operator_world \<Rightarrow> session_names \<Rightarrow> pyval \<Rightarrow> pyval result \<Rightarrow> unit kube" where
  "create_budget_object w sn target definition =
     kube_bind (kube_lift (bindE definition (\<lambda>d. bindE (add_labels (session_labels sn) d) (set_metadata ''namespace'' target))))
       (\<lambda>body. kube_bind (create_object w body) (\<lambda>_. kube_return ()))"

text \<open>
  The loop is meant to look at the quotas until their status is there; its \<open>continue\<close> belongs to the
  inner loop, so it always ends after the first look.
\<close>

definition quota_pending :: "pyval \<Rightarrow> bool result" where
  "quota_pending quota =
     bindE (py_get quota ''status'')
       (\<lambda>status. if \<not> truthy status then Inr True
          else bindE (py_get status ''used'')
            (\<lambda>used. if \<not> truthy used then Inr True
               else bindE (py_get status ''hard'') (\<lambda>hard. Inr (\<not> truthy hard))))"

definition check_quota :: "pyval \<Rightarrow> unit kube" where
  "check_quota quota = kube_bind (kube_lift (quota_pending quota)) (\<lambda>pending. if pending then pause else kube_return ())"

definition check_quotas :: "operator_world \<Rightarrow> pyval \<Rightarrow> unit kube" where
  "check_quotas w target = kube_bind (kube_query (ow_api w) ''ResourceQuota'' target) (kube_each check_quota)"

definition create_budget :: "operator_world \<Rightarrow> session_names \<Rightarrow> pyval \<Rightarrow> pyval \<Rightarrow> pyval result \<Rightarrow> unit kube" where
  "create_budget w sn target item limits =
     kube_bind (create_budget_object w sn target limits)
       (\<lambda>_. kube_bind (create_budget_object w sn target (py_index item ''compute-resources''))
       (\<lambda>_. kube_bind (create_budget_object w sn target (py_index item ''compute-resources-timebound''))
       (\<lambda>_. kube_bind (create_budget_object w sn target (py_index item ''object-counts''))
       (\<lambda>_. check_quotas w target))))"

definition setup_session_namespace ::
    "operator_world \<Rightarrow> session_names \<Rightarrow> pyval \<Rightarrow> pyval \<Rightarrow> pyval \<Rightarrow> pyval \<Rightarrow> pyval \<Rightarrow> pyval \<Rightarrow> pyval \<Rightarrow> unit kube" where
  "setup_session_namespace w sn owner target applications role budget limits policy =
     kube_bind (await_service_account w target 25)
  (\<lambda>_. kube_bind (kube_lift (choose_budget budget))
  (\<lambda>choice. kube_bind (case choice of SizedBudget item \<Rightarrow> kube_lift (limits_definition item limits) | _ \<Rightarrow> kube_return PNone)
  (\<lambda>definition. kube_bind (if choice = DefaultBudget then kube_return () else delete_all w ''LimitRange'' target)
  (\<lambda>_. kube_bind (if choice = DefaultBudget then kube_return () else delete_all w ''ResourceQuota'' target)
  (\<lambda>_. kube_bind (create_network_policy w sn owner target)
  (\<lambda>_. kube_bind (create_role_bindings w sn target role policy)
  (\<lambda>_. kube_bind (create_registry_secret w sn target applications)
  (\<lambda>_. case choice of
          SizedBudget item \<Rightarrow> create_budget w sn target item (Inr definition)
        | _ \<Rightarrow> kube_return ()))))))))"

end
