(* ===== verification/Workshop_Allocations.thy ===== *)
theory Workshop_Allocations
  imports Session_Namespaces
begin

text \<open>
  Allocation of a workshop session to a user (\<open>session-manager/handlers/workshopallocation.py\<close>): the handler
  waits until the environment, the session and the secrets with its variables are known, and creates
  the request objects of the workshop with the variables substituted. The indexes that kopf keeps with the
  index handlers are arguments.
\<close>

section \<open>Indexes\<close>

text \<open>Environments and sessions by name, secrets by namespace and name; an index has all values of a key.\<close>

record allocation_indexes =
  ix_environments :: "(pyval \<times> pyval list) list"
  ix_sessions :: "(pyval \<times> pyval list) list"
  ix_session_variables :: "((pyval \<times> pyval) \<times> pyval list) list"
  ix_request_variables :: "((pyval \<times> pyval) \<times> pyval list) list"

definition workshop_environment_index :: "pyval \<Rightarrow> pyval \<Rightarrow> pyval \<times> pyval" where
  "workshop_environment_index name body = (name, body)"

definition workshop_session_index :: "pyval \<Rightarrow> pyval \<Rightarrow> pyval \<times> pyval" where
  "workshop_session_index name body = (name, body)"

text \<open>Both index handlers for secrets read the labels for the log, which raises when they are not there.\<close>

definition variables_secret_index :: "pyval \<Rightarrow> pyval \<Rightarrow> pyval \<Rightarrow> ((pyval \<times> pyval) \<times> pyval) result" where
  "variables_secret_index namespace name body =
     bindE (bindE (py_index body ''metadata'') (\<lambda>m. py_index m ''labels''))
       (\<lambda>labels. bindE (py_index labels ''training.educates.dev/environment.name'')
       (\<lambda>_. bindE (py_index labels ''training.educates.dev/session.name'')
       (\<lambda>_. bindE (py_get_or body ''data'' (PDict [])) (\<lambda>data. Inr ((namespace, name), data)))))"

definition index_first :: "('k \<times> pyval list) list \<Rightarrow> 'k \<Rightarrow> pyval result" where
  "index_first ix k = (case dict_get ix k of Some (v # _) \<Rightarrow> Inr v | Some [] \<Rightarrow> Inl ValueError | None \<Rightarrow> Inl KeyError)"

section \<open>Outcomes of the handler\<close>

text \<open>What the handler was called with: the resource and how often and how long it was tried.\<close>

record allocation_request =
  al_name :: pyval
  al_uid :: pyval
  al_body :: pyval
  al_meta :: pyval
  al_spec :: pyval
  al_retry :: int
  al_runtime :: int

definition event_data :: "allocation_request \<Rightarrow> (string \<times> pyval) list" where
  "event_data rq = [(''kind'', PStr ''WorkshopAllocation''), (''name'', al_name rq), (''uid'', al_uid rq), (''retry'', PInt (al_retry rq))]"

definition fail_allocation :: "operator_world \<Rightarrow> allocation_request \<Rightarrow> string \<Rightarrow> string \<Rightarrow> 'a kube" where
  "fail_allocation w rq message report =
     kube_bind (set_status (educates_status [(''phase'', PStr ''Failed''), (''message'', PStr message)]))
       (\<lambda>_. kube_bind (report_analytics_event w ''Resource/PermanentError'' (PDict (event_data rq @ [(''message'', PStr report)])))
          (\<lambda>_. kube_raise (Raised PermanentError)))"

definition retry_allocation :: "'a kube" where
  "retry_allocation =
     kube_bind (set_status (educates_status [(''phase'', PStr ''Pending'')]))
       (\<lambda>_. kube_raise (Raised (TemporaryError 5)))"

text \<open>The runtime counts microseconds; after 45 seconds what is missing will not come.\<close>

definition overdue :: "allocation_request \<Rightarrow> bool" where
  "overdue rq \<longleftrightarrow> al_runtime rq \<ge> 45 * 1000000"

definition missing_record :: "operator_world \<Rightarrow> allocation_request \<Rightarrow> string \<Rightarrow> string \<Rightarrow> 'a kube" where
  "missing_record w rq message report =
     (if overdue rq then fail_allocation w rq message report else retry_allocation)"

definition require :: "operator_world \<Rightarrow> allocation_request \<Rightarrow> ('k \<times> pyval list) list \<Rightarrow> 'k \<Rightarrow> string \<Rightarrow> string \<Rightarrow> unit kube" where
  "require w rq ix k message report =
     (if dict_get ix k \<noteq> None then kube_return () else missing_record w rq message report)"

section \<open>Variables\<close>

fun decoded_variable :: "string \<times> pyval \<Rightarrow> (string \<times> pyval) list \<Rightarrow> (string \<times> pyval) list result" where
  "decoded_variable (k, PStr v) vars = bindE (b64decode v) (\<lambda>text. Inr (dict_set k (PStr text) vars))"
| "decoded_variable _ vars = Inl AttributeError"

definition add_variables :: "pyval \<Rightarrow> (string \<times> pyval) list \<Rightarrow> (string \<times> pyval) list result" where
  "add_variables cached vars = bindE (py_items cached) (\<lambda>items. foldE decoded_variable items vars)"

text \<open>Request variables, then those of the user, then those of the session, so that the last win.\<close>

definition all_data_variables :: "pyval \<Rightarrow> pyval \<Rightarrow> pyval \<Rightarrow> (string \<times> pyval) list result" where
  "all_data_variables request user session =
     bindE (add_variables request []) (\<lambda>vars. bindE (add_variables user vars) (add_variables session))"

section \<open>Request objects\<close>

definition request_labels :: "session_names \<Rightarrow> (string \<times> pyval) list" where
  "request_labels sn =
     [(''training.educates.dev/component'', PStr ''request''),
      (''training.educates.dev/component.group'', PStr ''objects''),
      (''training.educates.dev/workshop.name'', sn_workshop_name sn),
      (''training.educates.dev/portal.name'', sn_portal_name sn),
      (''training.educates.dev/portal.uid'', sn_portal_uid sn),
      (''training.educates.dev/environment.name'', sn_environment_name sn),
      (''training.educates.dev/environment.uid'', sn_environment_uid sn),
      (''training.educates.dev/session.name'', sn_session_name sn),
      (''training.educates.dev/session.objects'', PStr ''true'')]"

definition default_namespace :: "pyval \<Rightarrow> pyval \<Rightarrow> pyval result" where
  "default_namespace namespace obj =
     bindE (bindE (py_index obj ''metadata'') (\<lambda>m. py_get m ''namespace''))
       (\<lambda>given. if truthy given then Inr obj else set_metadata ''namespace'' namespace obj)"

text \<open>Namespaces are excluded from wildcards of the secret generator.\<close>

definition is_namespace :: "pyval \<Rightarrow> bool result" where
  "is_namespace obj =
     bindE (py_index obj ''apiVersion'')
       (\<lambda>v. if v \<noteq> PStr ''v1'' then Inr False
          else bindE (py_index obj ''kind'')
            (\<lambda>k. case k of PStr s \<Rightarrow> Inr (lower s = ''namespace'') | _ \<Rightarrow> Inl AttributeError))"

definition set_annotation :: "string \<Rightarrow> pyval \<Rightarrow> pyval \<Rightarrow> pyval result" where
  "set_annotation key v obj =
     bindE (py_index obj ''metadata'')
       (\<lambda>m. bindE (py_get_or m ''annotations'' (PDict []))
          (\<lambda>a. case a of PDict d \<Rightarrow> set_metadata ''annotations'' (PDict (dict_set key v d)) obj | _ \<Rightarrow> Inl TypeError))"

definition request_object :: "operator_world \<Rightarrow> allocation_request \<Rightarrow> session_names \<Rightarrow> (string \<times> pyval) list \<Rightarrow> pyval \<Rightarrow> pyval result" where
  "request_object w rq sn vars obj =
     bindE (substituted vars obj)
  (\<lambda>obj. bindE (default_namespace (sn_session_name sn) obj)
  (\<lambda>obj. bindE (add_labels (request_labels sn) obj)
  (\<lambda>obj. let obj = ow_adopt w obj (al_body rq)
          in bindE (bindE (py_index obj ''metadata'') (\<lambda>m. py_index m ''name''))
  (\<lambda>_. bindE (bindE (py_index obj ''metadata'') (\<lambda>m. py_index m ''namespace''))
  (\<lambda>_. bindE (py_index obj ''kind'')
  (\<lambda>_. bindE (is_namespace obj)
  (\<lambda>namespace. if namespace then set_annotation ''secretgen.carvel.dev/excluded-from-wildcard-matching'' (PStr []) obj
                else Inr obj)))))))"

definition creation_failure :: "session_names \<Rightarrow> pyval \<Rightarrow> string" where
  "creation_failure sn obj =
     (let m = (\<lambda>k. case py_index obj ''metadata'' of Inr m \<Rightarrow> (case py_index m k of Inr v \<Rightarrow> py_str v | _ \<Rightarrow> []) | _ \<Rightarrow> []);
          kind = (case py_index obj ''kind'' of Inr v \<Rightarrow> py_str v | _ \<Rightarrow> [])
      in ''Unable to create workshop request objects for workshop session, failed on creating workshop request object ''
         @ m ''name'' @ '' of type '' @ kind @ '' in namespace '' @ m ''namespace'' @ '' for workshop session ''
         @ py_str (sn_session_name sn) @ ''.'')"

definition create_request_object :: "operator_world \<Rightarrow> allocation_request \<Rightarrow> session_names \<Rightarrow> (string \<times> pyval) list \<Rightarrow> pyval \<Rightarrow> unit kube" where
  "create_request_object w rq sn vars obj =
     kube_bind (kube_lift (request_object w rq sn vars obj))
       (\<lambda>obj. kube_try (kube_bind (create_object w obj) (\<lambda>_. kube_return ()))
          (\<lambda>_. kube_bind (report_analytics_event w ''Resource/PermanentError''
                           (PDict (event_data rq @ [(''message'', PStr (creation_failure sn obj))])))
             (\<lambda>_. kube_bind (set_status (educates_status [(''phase'', PStr ''Failed''), (''message'', PStr (creation_failure sn obj))]))
                (\<lambda>_. kube_raise (Raised PermanentError)))))"

section \<open>The handler\<close>

definition label_or_empty :: "pyval \<Rightarrow> string \<Rightarrow> pyval result" where
  "label_or_empty meta key =
     bindE (py_get_or meta ''labels'' (PDict [])) (\<lambda>labels. py_get_or labels key (PStr []))"

definition request_objects :: "pyval \<Rightarrow> pyval list result" where
  "request_objects workshop_spec =
     bindE (py_get workshop_spec ''request'')
       (\<lambda>request. if truthy request then bindE (py_get_or request ''objects'' (PList [])) py_iter else Inr [])"

definition allocation_names :: "allocation_request \<Rightarrow> session_names result" where
  "allocation_names rq =
     bindE (label_or_empty (al_meta rq) ''training.educates.dev/portal.name'')
  (\<lambda>portal_name. bindE (label_or_empty (al_meta rq) ''training.educates.dev/portal.uid'')
  (\<lambda>portal_uid. bindE (bindE (py_index (al_spec rq) ''environment'') (\<lambda>e. py_index e ''name''))
  (\<lambda>environment_name. bindE (label_or_empty (al_meta rq) ''training.educates.dev/environment.uid'')
  (\<lambda>environment_uid. bindE (bindE (py_index (al_spec rq) ''session'') (\<lambda>s. py_index s ''name''))
  (\<lambda>session_name. Inr
     \<lparr>sn_workshop_name = PNone, sn_portal_name = portal_name, sn_portal_uid = portal_uid,
      sn_environment_name = environment_name, sn_environment_uid = environment_uid, sn_session_name = session_name,
      sn_workshop_namespace = environment_name, sn_service_account = session_name\<rparr>)))))"

definition secret_key :: "session_names \<Rightarrow> string \<Rightarrow> pyval \<times> pyval" where
  "secret_key sn ending = (sn_workshop_namespace sn, PStr (py_str (sn_session_name sn) @ ending))"

definition unavailable :: "string \<Rightarrow> pyval \<Rightarrow> string" where
  "unavailable what name = what @ '' '' @ py_str name @ '' is not available.''"

definition unavailable_for :: "string \<Rightarrow> pyval \<Rightarrow> pyval \<Rightarrow> string" where
  "unavailable_for what name request =
     what @ '' '' @ py_str name @ '' is not available for workshop allocation request '' @ py_str request @ ''.''"

definition require_records :: "operator_world \<Rightarrow> allocation_request \<Rightarrow> allocation_indexes \<Rightarrow> session_names \<Rightarrow> unit kube" where
  "require_records w rq ix sn =
     (let environment = unavailable ''Workshop environment'' (sn_environment_name sn);
          session = unavailable ''Workshop session'' (sn_session_name sn);
          variables = unavailable ''Session variables secret'' (snd (secret_key sn ''-session''));
          request = secret_key sn ''-request''; user = secret_key sn ''-user''
      in kube_bind (require w rq (ix_environments ix) (sn_environment_name sn) environment environment)
    (\<lambda>_. kube_bind (require w rq (ix_sessions ix) (sn_session_name sn) session session)
    (\<lambda>_. kube_bind (require w rq (ix_session_variables ix) (secret_key sn ''-session'') variables variables)
    (\<lambda>_. kube_bind (require w rq (ix_request_variables ix) request
                      (unavailable ''Request variables secret'' (snd request))
                      (unavailable_for ''Request variables secret'' (snd request) (al_name rq)))
    (\<lambda>_. require w rq (ix_request_variables ix) user
            (unavailable ''Request variables secret'' (snd user))
            (unavailable_for ''Request variables secret'' (snd user) (al_name rq)))))))"

definition allocation_variables :: "allocation_indexes \<Rightarrow> session_names \<Rightarrow> (string \<times> pyval) list result" where
  "allocation_variables ix sn =
     bindE (index_first (ix_session_variables ix) (secret_key sn ''-session''))
  (\<lambda>session. bindE (index_first (ix_request_variables ix) (secret_key sn ''-request''))
  (\<lambda>request. bindE (index_first (ix_request_variables ix) (secret_key sn ''-user''))
  (\<lambda>user. all_data_variables request user session)))"

definition workshop_allocation_create :: "operator_world \<Rightarrow> allocation_indexes \<Rightarrow> allocation_request \<Rightarrow> unit kube" where
  "workshop_allocation_create w ix rq =
     kube_bind (kube_lift (allocation_names rq))
  (\<lambda>sn. kube_bind (report_analytics_event w ''Resource/Create'' (PDict (event_data rq)))
  (\<lambda>_. kube_bind (require_records w rq ix sn)
  (\<lambda>_. kube_bind (kube_lift (index_first (ix_environments ix) (sn_environment_name sn)))
  (\<lambda>environment. kube_bind (kube_lift (allocation_variables ix sn))
  (\<lambda>vars. kube_bind (kube_lift (lookup environment ''status.educates.workshop.name'' PNone))
  (\<lambda>workshop_name. kube_bind (kube_lift (lookup environment ''status.educates.workshop.spec'' PNone))
  (\<lambda>workshop_spec. kube_bind (kube_lift (request_objects workshop_spec))
  (\<lambda>objects. kube_bind (kube_each (create_request_object w rq (sn\<lparr>sn_workshop_name := workshop_name\<rparr>) vars) objects)
  (\<lambda>_. set_status (educates_status [(''phase'', PStr ''Allocated''), (''message'', PNone)]))))))))))"

end
