(* ===== verification/Allocation_Outcomes.thy ===== *)
theory Allocation_Outcomes
  imports Workshop_Allocations
begin

text \<open>
  What becomes of an allocation request: how long it waits for what it needs, which objects are created
  and in which order, and which value a variable has.
\<close>

section \<open>Waiting for the records\<close>

definition recorded :: "allocation_indexes \<Rightarrow> session_names \<Rightarrow> bool" where
  "recorded ix sn \<longleftrightarrow>
     dict_get (ix_environments ix) (sn_environment_name sn) \<noteq> None
   \<and> dict_get (ix_sessions ix) (sn_session_name sn) \<noteq> None
   \<and> dict_get (ix_session_variables ix) (secret_key sn ''-session'') \<noteq> None
   \<and> dict_get (ix_request_variables ix) (secret_key sn ''-request'') \<noteq> None
   \<and> dict_get (ix_request_variables ix) (secret_key sn ''-user'') \<noteq> None"

lemma retry_trace:
  "retry_allocation tr = (Inl (Raised (TemporaryError 5)), SetStatus (educates_status [(''phase'', PStr ''Pending'')]) # tr)"
  by (simp add: retry_allocation_def kube_simps)

lemma fail_trace:
  "fail_allocation w rq message report tr =
     (Inl (Raised PermanentError),
      reported w ''Resource/PermanentError'' (PDict (event_data rq @ [(''message'', PStr report)])) @
      SetStatus (educates_status [(''phase'', PStr ''Failed''), (''message'', PStr message)]) # tr)"
  by (simp add: fail_allocation_def kube_simps report_trace)

lemma require_records_recorded: "recorded ix sn \<Longrightarrow> require_records w rq ix sn tr = (Inr (), tr)"
  by (auto simp: require_records_def require_def recorded_def kube_simps Let_def)

definition waits :: "operator_world \<Rightarrow> allocation_request \<Rightarrow> kube_call list \<Rightarrow> (kube_error + 'a) \<times> kube_call list \<Rightarrow> bool" where
  "waits w rq tr = (\<lambda>(r, tr').
     if overdue rq then r = Inl (Raised PermanentError) \<and> phase ''Failed'' (final_status tr') \<and> creations tr' = creations tr
     else r = Inl (Raised (TemporaryError 5)) \<and> phase ''Pending'' (final_status tr') \<and> creations tr' = creations tr)"

lemma missing_record_waits: "waits w rq tr (missing_record w rq message report tr)"
  by (simp add: waits_def missing_record_def retry_trace fail_trace phase_def educates_status_def)

lemma waits_bind: "waits w rq tr (m tr) \<Longrightarrow> waits w rq tr (kube_bind m f tr)"
  by (cases "m tr") (auto simp: waits_def kube_bind_def split: if_splits)

lemma require_cases:
  "dict_get ix k = None \<and> waits w rq tr (require w rq ix k message report tr)
   \<or> dict_get ix k \<noteq> None \<and> require w rq ix k message report tr = (Inr (), tr)"
  by (auto simp: require_def missing_record_waits kube_return_def)

lemma bind_require:
  "(dict_get ix k \<noteq> None \<Longrightarrow> waits w rq tr (f () tr)) \<Longrightarrow> waits w rq tr (kube_bind (require w rq ix k message report) f tr)"
  using require_cases [of ix k w rq tr message report]
  by (elim disjE conjE) (rule waits_bind, assumption, simp add: kube_bind_def)

lemma require_records_waits:
  assumes "\<not> recorded ix sn"
  shows "waits w rq tr (require_records w rq ix sn tr)"
proof -
  have last: "waits w rq tr (require w rq d k m r tr)" if "dict_get d k = None"
    for d :: "((pyval \<times> pyval) \<times> pyval list) list" and k m r
    using require_cases [of d k w rq tr m r] that by simp
  show ?thesis
    unfolding require_records_def Let_def
    by (intro bind_require last) (use assms in \<open>simp add: recorded_def\<close>)
qed

section \<open>Creating the objects\<close>

definition accepts :: "operator_world \<Rightarrow> kube_call list \<Rightarrow> pyval list \<Rightarrow> bool" where
  "accepts w tr objs \<longleftrightarrow> (\<forall>i<length objs. \<exists>v. ka_write (ow_api w) (rev (map Create (take i objs)) @ tr) (Create (objs ! i)) = Inr v)"

lemma create_request_object_trace:
  assumes "request_object w rq sn vars obj = Inr obj'"
  shows "create_request_object w rq sn vars obj tr =
    (case ka_write (ow_api w) tr (Create obj') of
       Inr _ \<Rightarrow> (Inr (), Create obj' # tr)
     | Inl _ \<Rightarrow>
         (Inl (Raised PermanentError),
          SetStatus (educates_status [(''phase'', PStr ''Failed''), (''message'', PStr (creation_failure sn obj'))]) #
          reported w ''Resource/PermanentError'' (PDict (event_data rq @ [(''message'', PStr (creation_failure sn obj'))])) @
          Create obj' # tr))"
  using assms
  by (simp add: create_request_object_def kube_simps create_object_def kube_write_def report_trace split: sum.split)

lemma accepts_Cons:
  "accepts w tr (obj # objs) \<longleftrightarrow>
     (\<exists>v. ka_write (ow_api w) tr (Create obj) = Inr v) \<and> accepts w (Create obj # tr) objs"
  by (simp add: accepts_def All_less_Suc2)

lemma create_objects_accepted:
  assumes "mapE (request_object w rq sn vars) objs = Inr objs'" and "accepts w tr objs'"
  shows "kube_each (create_request_object w rq sn vars) objs tr = (Inr (), rev (map Create objs') @ tr)"
  using assms
proof (induction objs arbitrary: objs' tr)
  case (Cons obj objs)
  then show ?case
    by (auto simp: bindE_Inr_iff accepts_Cons kube_bind_def create_request_object_trace)
qed (simp add: kube_return_def)

lemma create_objects_rejected:
  assumes "mapE (request_object w rq sn vars) objs = Inr objs'" and "\<not> accepts w tr objs'"
  shows "\<exists>k tr'. k < length objs' \<and> kube_each (create_request_object w rq sn vars) objs tr = (Inl (Raised PermanentError), tr')
           \<and> phase ''Failed'' (final_status tr') \<and> creations tr' = creations tr @ take (Suc k) objs'"
  using assms
proof (induction objs arbitrary: objs' tr)
  case (Cons obj objs)
  then obtain obj' rest where obj: "request_object w rq sn vars obj = Inr obj'"
    and rest: "mapE (request_object w rq sn vars) objs = Inr rest" and objs': "objs' = obj' # rest"
    by (auto simp: bindE_Inr_iff)
  show ?case
  proof (cases "ka_write (ow_api w) tr (Create obj')")
    case (Inl e)
    with obj objs' show ?thesis
      by (intro exI [of _ 0]) (simp add: kube_bind_def create_request_object_trace phase_def educates_status_def)
  next
    case (Inr v)
    with Cons.prems(2) objs' have "\<not> accepts w (Create obj' # tr) rest" by (simp add: accepts_Cons)
    from Cons.IH [OF rest this] obtain k tr' where "k < length rest"
      and "kube_each (create_request_object w rq sn vars) objs (Create obj' # tr) = (Inl (Raised PermanentError), tr')"
      and "phase ''Failed'' (final_status tr')" and "creations tr' = creations (Create obj' # tr) @ take (Suc k) rest"
      by blast
    with obj objs' Inr show ?thesis
      by (intro exI [of _ "Suc k"] exI [of _ tr']) (simp add: kube_bind_def create_request_object_trace)
  qed
qed (simp add: accepts_def)

section \<open>Outcomes\<close>

text \<open>What the handler reads once everything is recorded: the objects it is going to create.\<close>

definition prepared_objects :: "operator_world \<Rightarrow> allocation_indexes \<Rightarrow> allocation_request \<Rightarrow> session_names \<Rightarrow> pyval list result" where
  "prepared_objects w ix rq sn =
     bindE (index_first (ix_environments ix) (sn_environment_name sn))
  (\<lambda>environment. bindE (allocation_variables ix sn)
  (\<lambda>vars. bindE (lookup environment ''status.educates.workshop.name'' PNone)
  (\<lambda>workshop_name. bindE (lookup environment ''status.educates.workshop.spec'' PNone)
  (\<lambda>workshop_spec. bindE (request_objects workshop_spec)
     (mapE (request_object w rq (sn\<lparr>sn_workshop_name := workshop_name\<rparr>) vars))))))"

lemma handler_start:
  assumes "allocation_names rq = Inr sn"
  shows "workshop_allocation_create w ix rq tr =
    kube_bind (require_records w rq ix sn)
  (\<lambda>_. kube_bind (kube_lift (index_first (ix_environments ix) (sn_environment_name sn)))
  (\<lambda>environment. kube_bind (kube_lift (allocation_variables ix sn))
  (\<lambda>vars. kube_bind (kube_lift (lookup environment ''status.educates.workshop.name'' PNone))
  (\<lambda>workshop_name. kube_bind (kube_lift (lookup environment ''status.educates.workshop.spec'' PNone))
  (\<lambda>workshop_spec. kube_bind (kube_lift (request_objects workshop_spec))
  (\<lambda>objects. kube_bind (kube_each (create_request_object w rq (sn\<lparr>sn_workshop_name := workshop_name\<rparr>) vars) objects)
  (\<lambda>_. set_status (educates_status [(''phase'', PStr ''Allocated''), (''message'', PNone)]))))))))
    (reported w ''Resource/Create'' (PDict (event_data rq)) @ tr)"
  using assms by (simp add: workshop_allocation_create_def kube_bind_def kube_lift_def report_trace)

text \<open>
  \<^bold>\<open>C15.\<close> An allocation request is settled. While a record is missing the handler asks to be called again
  in five seconds, and from 45 seconds on it fails for good; it creates nothing in either case. With all records there it
  creates the request objects in their order: all of them, and the request is allocated, or those up to the first
  one that is refused, and it has failed.
\<close>

theorem allocation_settled:
  assumes "allocation_names rq = Inr sn" and "workshop_allocation_create w ix rq [] = (r, tr)"
  shows "(\<not> recorded ix sn \<and> \<not> overdue rq \<longrightarrow>
            r = Inl (Raised (TemporaryError 5)) \<and> phase ''Pending'' (final_status tr) \<and> creations tr = [])
       \<and> (\<not> recorded ix sn \<and> overdue rq \<longrightarrow>
            r = Inl (Raised PermanentError) \<and> phase ''Failed'' (final_status tr) \<and> creations tr = [])
       \<and> (\<forall>objs. recorded ix sn \<and> prepared_objects w ix rq sn = Inr objs \<longrightarrow>
            r = Inr () \<and> phase ''Allocated'' (final_status tr) \<and> creations tr = objs
          \<or> r = Inl (Raised PermanentError) \<and> phase ''Failed'' (final_status tr)
             \<and> (\<exists>k<length objs. creations tr = take (Suc k) objs))"
proof -
  let ?tr = "reported w ''Resource/Create'' (PDict (event_data rq)) @ []"
  note start = assms(2) [unfolded handler_start [OF assms(1)]]
  have missing: "waits w rq ?tr (r, tr)" if "\<not> recorded ix sn"
    unfolding start [symmetric] by (rule waits_bind) (rule require_records_waits [OF that])
  have settled: "r = Inr () \<and> phase ''Allocated'' (final_status tr) \<and> creations tr = objs
          \<or> r = Inl (Raised PermanentError) \<and> phase ''Failed'' (final_status tr)
             \<and> (\<exists>k<length objs. creations tr = take (Suc k) objs)"
    if "recorded ix sn" and prepared: "prepared_objects w ix rq sn = Inr objs" for objs
  proof -
    from prepared obtain environment vars workshop_name workshop_spec objects where
      reads: "index_first (ix_environments ix) (sn_environment_name sn) = Inr environment"
        "allocation_variables ix sn = Inr vars" "lookup environment ''status.educates.workshop.name'' PNone = Inr workshop_name"
        "lookup environment ''status.educates.workshop.spec'' PNone = Inr workshop_spec" "request_objects workshop_spec = Inr objects"
      and objs: "mapE (request_object w rq (sn\<lparr>sn_workshop_name := workshop_name\<rparr>) vars) objects = Inr objs"
      unfolding prepared_objects_def by (elim bindE_InrE) (rule that)
    have run: "(r, tr) = kube_bind (kube_each (create_request_object w rq (sn\<lparr>sn_workshop_name := workshop_name\<rparr>) vars) objects)
        (\<lambda>_. set_status (educates_status [(''phase'', PStr ''Allocated''), (''message'', PNone)])) ?tr"
      using start reads require_records_recorded [OF \<open>recorded ix sn\<close>, of w rq ?tr] by (simp add: kube_bind_def kube_lift_def)
    show ?thesis
    proof (cases "accepts w ?tr objs")
      case True
      have "creations (rev (map Create objs)) = objs" by (induction objs) (simp_all add: creations_append)
      with run create_objects_accepted [OF objs True] show ?thesis
        by (simp add: kube_bind_def set_status_def phase_def educates_status_def creations_append)
    next
      case False
      with run create_objects_rejected [OF objs False] show ?thesis by (auto simp: kube_bind_def)
    qed
  qed
  show ?thesis using missing settled by (auto simp: waits_def)
qed

text \<open>A workshop with one request object, whose records are all there.\<close>

definition lab_object :: pyval where
  "lab_object =
     PDict [(''apiVersion'', PStr ''v1''), (''kind'', PStr ''ConfigMap''), (''metadata'', PDict [(''name'', PStr ''notes'')])]"

definition lab_indexes :: allocation_indexes where
  "lab_indexes =
     \<lparr>ix_environments = [(PStr ''w01'', [PDict [(''status'', PDict [(''educates'', PDict [(''workshop'', PDict [
         (''name'', PStr ''lab''), (''spec'', PDict [(''request'', PDict [(''objects'', PList [lab_object])])])])])])]])],
      ix_sessions = [(PStr ''w01-s001'', [PDict []])],
      ix_session_variables = [((PStr ''w01'', PStr ''w01-s001-session''), [PDict []])],
      ix_request_variables = [((PStr ''w01'', PStr ''w01-s001-request''), [PDict []]),
                              ((PStr ''w01'', PStr ''w01-s001-user''), [PDict []])]\<rparr>"

definition lab_request :: allocation_request where
  "lab_request =
     \<lparr>al_name = PStr ''w01-s001'', al_uid = PStr ''u'', al_body = PDict [], al_meta = PDict [],
      al_spec = PDict [(''environment'', PDict [(''name'', PStr ''w01'')]), (''session'', PDict [(''name'', PStr ''w01-s001'')])],
      al_retry = 0, al_runtime = 46 * 1000000\<rparr>"

definition lab_names :: session_names where
  "lab_names =
     \<lparr>sn_workshop_name = PNone, sn_portal_name = PStr [], sn_portal_uid = PStr [], sn_environment_name = PStr ''w01'',
      sn_environment_uid = PStr [], sn_session_name = PStr ''w01-s001'', sn_workshop_namespace = PStr ''w01'',
      sn_service_account = PStr ''w01-s001''\<rparr>"

definition lab_created :: pyval where
  "lab_created =
     PDict [(''apiVersion'', PStr ''v1''), (''kind'', PStr ''ConfigMap''),
       (''metadata'', PDict [(''name'', PStr ''notes''), (''namespace'', PStr ''w01-s001''),
          (''labels'', PDict (request_labels (lab_names\<lparr>sn_workshop_name := PStr ''lab''\<rparr>)))])]"

theorem allocation_settled_witness:
  "creations (snd (workshop_allocation_create lab_world lab_indexes lab_request [])) = [lab_created]
   \<and> fst (workshop_allocation_create lab_world (lab_indexes\<lparr>ix_request_variables := []\<rparr>) lab_request [])
      = Inl (Raised PermanentError)"
proof
  have names: "allocation_names lab_request = Inr lab_names" by code_simp
  have "recorded lab_indexes lab_names" by code_simp
  moreover have "prepared_objects lab_world lab_indexes lab_request lab_names = Inr [lab_created]" by code_simp
  moreover have "fst (workshop_allocation_create lab_world lab_indexes lab_request []) = Inr ()" by code_simp
  ultimately show "creations (snd (workshop_allocation_create lab_world lab_indexes lab_request [])) = [lab_created]"
    using allocation_settled [OF names, of lab_world lab_indexes] by (metis Inl_Inr_False prod.collapse)
  have "\<not> recorded (lab_indexes\<lparr>ix_request_variables := []\<rparr>) lab_names" by code_simp
  moreover have "overdue lab_request" by code_simp
  ultimately show "fst (workshop_allocation_create lab_world (lab_indexes\<lparr>ix_request_variables := []\<rparr>) lab_request [])
      = Inl (Raised PermanentError)"
    using allocation_settled [OF names, of lab_world "lab_indexes\<lparr>ix_request_variables := []\<rparr>"] by (metis prod.collapse)
qed

section \<open>Whose variables count\<close>

definition decoded_text :: "pyval \<Rightarrow> pyval" where
  "decoded_text v = (case v of PStr e \<Rightarrow> (case b64decode e of Inr t \<Rightarrow> PStr t | Inl _ \<Rightarrow> PNone) | _ \<Rightarrow> PNone)"

lemma decoded_variable_Inr:
  "decoded_variable (k, v) vars = Inr vars' \<Longrightarrow> vars' = dict_set k (decoded_text v) vars"
  by (cases v) (auto simp: decoded_text_def bindE_Inr_iff)

lemma decoded_variables:
  assumes "foldE decoded_variable items vars = Inr vars'" and "distinct (map fst items)"
  shows "dict_get vars' k = (case dict_get items k of None \<Rightarrow> dict_get vars k | Some v \<Rightarrow> Some (decoded_text v))"
  using assms
proof (induction items arbitrary: vars)
  case (Cons kv items)
  obtain j v where kv: "kv = (j, v)" by (cases kv)
  with Cons.prems(1) have "foldE decoded_variable items (dict_set j (decoded_text v) vars) = Inr vars'"
    by (auto simp: bindE_Inr_iff dest!: decoded_variable_Inr)
  from Cons.IH [OF this] Cons.prems(2) kv
  have "dict_get vars' k = (case dict_get items k of None \<Rightarrow> dict_get (dict_set j (decoded_text v) vars) k | Some v \<Rightarrow> Some (decoded_text v))"
    by simp
  moreover have "dict_get items j = None" using Cons.prems(2) kv by (simp add: map_of_eq_None_iff)
  ultimately show ?case by (cases "k = j"; cases "dict_get items k") (simp_all add: kv)
qed simp

text \<open>
  Whatever parameters a user gives with a request, the variables that the session itself defines keep
  their values in its request objects: a variable has the value of the session's secret, else that of the
  user's, else that of the request's, and there are no others.
\<close>

theorem session_variables_win:
  assumes "all_data_variables (PDict request) (PDict user) (PDict session) = Inr vars"
    and "distinct (map fst request)" and "distinct (map fst user)" and "distinct (map fst session)"
  shows "dict_get vars k = map_option decoded_text
           (case dict_get session k of Some v \<Rightarrow> Some v
            | None \<Rightarrow> (case dict_get user k of Some v \<Rightarrow> Some v | None \<Rightarrow> dict_get request k))"
proof -
  from assms(1) obtain d e where "foldE decoded_variable request [] = Inr d" and "foldE decoded_variable user d = Inr e"
    and "foldE decoded_variable session e = Inr vars"
    by (auto simp: all_data_variables_def add_variables_def bindE_Inr_iff)
  then show ?thesis
    using decoded_variables [OF _ assms(2), of "[]" d k] decoded_variables [OF _ assms(3), of d e k]
      decoded_variables [OF _ assms(4), of e vars k]
    by (auto split: option.splits)
qed

text \<open>A user who gives a session name does not get it.\<close>

theorem session_variables_win_witness:
  "\<exists>vars. all_data_variables (PDict [(''colour'', PStr (b64encode ''red'')), (''session_name'', PStr (b64encode ''other''))])
       (PDict [(''username'', PStr (b64encode ''ann''))]) (PDict [(''session_name'', PStr (b64encode ''w01-s001''))]) = Inr vars
   \<and> dict_get vars ''session_name'' = Some (PStr ''w01-s001'') \<and> dict_get vars ''colour'' = Some (PStr ''red'')"
proof -
  let ?r = "[(''colour'', PStr (b64encode ''red'')), (''session_name'', PStr (b64encode ''other''))]"
  let ?u = "[(''username'', PStr (b64encode ''ann''))]" and ?s = "[(''session_name'', PStr (b64encode ''w01-s001''))]"
  obtain vars where vars: "all_data_variables (PDict ?r) (PDict ?u) (PDict ?s) = Inr vars"
    by (simp add: all_data_variables_def add_variables_def b64decode_encode del: b64encode.simps)
  have "decoded_text (PStr (b64encode t)) = PStr t" for t
    by (simp add: decoded_text_def b64decode_encode)
  with vars session_variables_win [OF vars, of "''session_name''"] session_variables_win [OF vars, of "''colour''"]
  show ?thesis by (simp del: b64encode.simps)
qed

end
