(* ===== verification/Session_Requests.thy ===== *)
theory Session_Requests
  imports Session_World
begin

text \<open>
  Requests for a session of an environment that a user makes with a custom resource
  (\<open>session-manager/handlers/workshoprequest.py\<close>): the check of the request against the environment, the session
  that is created for it under a name not yet in use, and its deletion with the request.
\<close>

section \<open>The request\<close>

record workshop_request =
  wr_name :: pyval
  wr_uid :: pyval
  wr_namespace :: pyval
  wr_spec :: pyval

text \<open>\<open>kopf.TemporaryError\<close> without a delay is tried again after a minute.\<close>

definition still_pending :: "'a kube" where
  "still_pending =
     kube_bind (set_status (educates_status [(''phase'', PStr ''Pending'')])) (\<lambda>_. kube_raise (Raised (TemporaryError 60)))"

definition request_failed :: "'a kube" where
  "request_failed =
     kube_bind (set_status (educates_status [(''phase'', PStr ''Failed'')])) (\<lambda>_. kube_raise (Raised PermanentError))"

definition requested_environment :: "workshop_request \<Rightarrow> pyval result" where
  "requested_environment rq = bindE (py_index (wr_spec rq) ''environment'') (\<lambda>e. py_index e ''name'')"

definition find_environment :: "operator_world \<Rightarrow> pyval \<Rightarrow> pyval kube" where
  "find_environment w name =
     kube_try (kube_get (ow_api w) ''WorkshopEnvironment'' PNone name)
       (\<lambda>e. if e = ObjectDoesNotExist then still_pending else kube_raise e)"

section \<open>Permission\<close>

text \<open>
  \<open>substitute_variables(obj, "workshop_namespace")\<close>: a string has no items, so that a string with a reference
  raises and every other value stays as it is.
\<close>

fun substitute_name :: "pyval \<Rightarrow> pyval result" where
  "substitute_name (PStr s) = (if sublist ''$('' s then Inl AttributeError else Inr (PStr s))"
| "substitute_name (PDict d) =
     bindE (mapE (\<lambda>kv. bindE (substitute_name (snd kv)) (\<lambda>v. Inr (fst kv, v))) d) (\<lambda>d. Inr (PDict d))"
| "substitute_name (PList xs) = bindE (mapE substitute_name xs) (\<lambda>xs. Inr (PList xs))"
| "substitute_name v = Inr v"

text \<open>
  \<open>map(substitute_variables, namespaces, environment_variables)\<close> goes through the list and through the one
  key of the dictionary side by side and ends with the shorter of the two.
\<close>

definition permitted_namespaces :: "pyval \<Rightarrow> pyval list result" where
  "permitted_namespaces request =
     bindE (py_get_or request ''namespaces'' (PList [])) (\<lambda>v. bindE (py_iter v) (\<lambda>xs. mapE substitute_name (take 1 xs)))"

definition check_namespace :: "workshop_request \<Rightarrow> pyval \<Rightarrow> bool result" where
  "check_namespace rq request =
     bindE (permitted_namespaces request) (\<lambda>ns. Inr (ns = [] \<or> list_ex (py_eq (wr_namespace rq)) ns))"

definition check_token :: "workshop_request \<Rightarrow> pyval \<Rightarrow> bool result" where
  "check_token rq request =
     bindE (py_get request ''token'')
       (\<lambda>token. if \<not> truthy token then Inr True
          else bindE (bindE (py_index (wr_spec rq) ''environment'') (\<lambda>e. py_get e ''token'')) (\<lambda>given. Inr (py_eq given token)))"

definition unless_pending :: "bool \<Rightarrow> unit kube" where
  "unless_pending ok = (if ok then kube_return () else still_pending)"

definition check_permission :: "workshop_request \<Rightarrow> pyval \<Rightarrow> unit kube" where
  "check_permission rq environment =
     kube_bind (kube_lift (bindE (py_index environment ''spec'') (\<lambda>s. py_get s ''request'')))
       (\<lambda>request. if \<not> truthy request then kube_return ()
          else
            kube_bind (kube_lift (py_get_or request ''enabled'' (PBool False)))
         (\<lambda>enabled. kube_bind (unless_pending (truthy enabled))
         (\<lambda>_. kube_bind (kube_lift (check_namespace rq request))
         (\<lambda>ok. kube_bind (unless_pending ok)
         (\<lambda>_. kube_bind (kube_lift (check_token rq request)) unless_pending)))))"

section \<open>The session\<close>

definition session_user :: "pyval \<Rightarrow> (pyval \<times> pyval) result" where
  "session_user environment =
     bindE (bindE (py_index environment ''spec'') (\<lambda>s. py_get s ''session''))
       (\<lambda>session. if \<not> truthy session then Inr (PStr ''educates'', PNone)
          else bindE (py_get_or session ''username'' (PStr ''educates''))
                 (\<lambda>u. bindE (py_get session ''password'') (\<lambda>p. Inr (u, p))))"

definition session_env :: "pyval \<Rightarrow> pyval result" where
  "session_env environment =
     bindE (py_get_or environment ''spec'' (PDict []))
       (\<lambda>s. bindE (py_get_or s ''session'' (PDict [])) (\<lambda>s. py_get_or s ''env'' (PList [])))"

definition requested_name :: "pyval \<Rightarrow> string \<Rightarrow> string" where
  "requested_name environment_name session_id = py_str environment_name @ ''-'' @ session_id"

definition requested_session_body ::
    "operator_config \<Rightarrow> workshop_request \<Rightarrow> pyval \<Rightarrow> pyval \<times> pyval \<Rightarrow> pyval \<Rightarrow> string \<Rightarrow> pyval" where
  "requested_session_body cfg rq environment_name user env session_id =
     PDict [
       (''apiVersion'', PStr ''training.educates.dev/v1beta1''),
       (''kind'', PStr ''WorkshopSession''),
       (''metadata'', PDict [(''name'', PStr (requested_name environment_name session_id)), (''labels'', PDict [])]),
       (''spec'', PDict [
         (''environment'', PDict [(''name'', environment_name)]),
         (''session'', PDict [
           (''id'', PStr session_id),
           (''username'', fst user),
           (''password'', snd user),
           (''ingress'', PDict [(''domain'', oc_ingress_domain cfg), (''secret'', oc_ingress_secret cfg)]),
           (''env'', env)]),
         (''request'', PDict [
           (''namespace'', wr_namespace rq),
           (''kind'', PStr ''WorkshopRequest''),
           (''apiVersion'', PStr ''training.educates.dev/v1beta1''),
           (''name'', wr_name rq),
           (''uid'', wr_uid rq)])])]"

text \<open>
  Whether the name was taken. Only an \<open>HTTPError\<close> has the attribute \<open>code\<close>, and one with another code
  falls through to the query for the session.
\<close>

definition name_taken :: "kube_error \<Rightarrow> bool kube" where
  "name_taken e =
     (if is_PyKubeError e
      then (case e of HTTPError code \<Rightarrow> kube_return (code = 409) | _ \<Rightarrow> kube_raise (Raised AttributeError))
      else kube_raise e)"

definition attempt_session ::
    "operator_world \<Rightarrow> workshop_request \<Rightarrow> pyval \<Rightarrow> pyval \<Rightarrow> pyval \<times> pyval \<Rightarrow> pyval \<Rightarrow> string \<Rightarrow> (string \<times> pyval) option kube" where
  "attempt_session w rq environment_name environment user env session_id =
     kube_bind (kube_try
         (kube_bind (create_object w (ow_own w (requested_session_body (ow_config w) rq environment_name user env session_id) environment))
            (\<lambda>_. kube_return False)) name_taken)
       (\<lambda>taken. if taken then kube_return None
          else kube_bind (kube_try (kube_get (ow_api w) ''WorkshopSession'' PNone (PStr (requested_name environment_name session_id)))
                            (\<lambda>_. request_failed))
                 (\<lambda>session. kube_return (Some (session_id, session))))"

text \<open>The loop, with the attempts that are left after twenty of them.\<close>

primrec place_session ::
    "operator_world \<Rightarrow> workshop_request \<Rightarrow> pyval \<Rightarrow> pyval \<Rightarrow> pyval \<times> pyval \<Rightarrow> pyval \<Rightarrow> nat \<Rightarrow> (string \<times> pyval) kube" where
  "place_session w rq environment_name environment user env 0 = request_failed"
| "place_session w rq environment_name environment user env (Suc n) =
     kube_bind (draw w 5)
       (\<lambda>session_id. kube_bind (attempt_session w rq environment_name environment user env session_id)
          (\<lambda>placed. case placed of
             Some s \<Rightarrow> kube_return s
           | None \<Rightarrow> place_session w rq environment_name environment user env n))"

definition request_result :: "operator_config \<Rightarrow> pyval \<Rightarrow> pyval \<times> pyval \<Rightarrow> string \<Rightarrow> pyval \<Rightarrow> pyval" where
  "request_result cfg environment_name user session_id session_uid =
     PDict [
       (''phase'', PStr ''Running''),
       (''url'', PStr (py_str (oc_ingress_protocol cfg) @ ''://'' @ requested_name environment_name session_id @ ''.''
                         @ py_str (oc_ingress_domain cfg))),
       (''username'', fst user),
       (''password'', snd user),
       (''session'', PDict [
         (''kind'', PStr ''WorkshopSession''),
         (''apiVersion'', PStr ''training.educates.dev/v1beta1''),
         (''name'', PStr (requested_name environment_name session_id)),
         (''uid'', session_uid)])]"

definition generated_password :: "operator_world \<Rightarrow> pyval \<Rightarrow> pyval kube" where
  "generated_password w password =
     (if password = PNone then kube_bind (draw w 12) (\<lambda>p. kube_return (PStr p)) else kube_return password)"

definition workshop_request_create :: "operator_world \<Rightarrow> workshop_request \<Rightarrow> pyval kube" where
  "workshop_request_create w rq =
     kube_bind (kube_lift (requested_environment rq))
  (\<lambda>environment_name. kube_bind (find_environment w environment_name)
  (\<lambda>environment. kube_bind (check_permission rq environment)
  (\<lambda>_. kube_bind (kube_lift (session_user environment))
  (\<lambda>(username, password). kube_bind (generated_password w password)
  (\<lambda>password. kube_bind (kube_lift (session_env environment))
  (\<lambda>env. kube_bind (place_session w rq environment_name environment (username, password) env 20)
  (\<lambda>(session_id, session). kube_bind (kube_lift (bindE (py_index session ''metadata'') (\<lambda>m. py_index m ''uid'')))
  (\<lambda>session_uid. kube_return (request_result (ow_config w) environment_name (username, password) session_id session_uid)))))))))"

section \<open>Deletion\<close>

definition request_matches :: "workshop_request \<Rightarrow> pyval \<Rightarrow> bool result" where
  "request_matches rq request =
     (if \<not> truthy request then Inr False
      else bindE (py_get request ''namespace'')
        (\<lambda>ns. if \<not> py_eq ns (wr_namespace rq) then Inr False
           else bindE (py_get request ''name'')
        (\<lambda>n. if \<not> py_eq n (wr_name rq) then Inr False
           else bindE (py_get request ''uid'') (\<lambda>u. Inr (py_eq u (wr_uid rq))))))"

definition session_for_request :: "workshop_request \<Rightarrow> pyval \<Rightarrow> bool result" where
  "session_for_request rq session =
     bindE (bindE (py_index session ''spec'') (\<lambda>s. py_get s ''request'')) (request_matches rq)"

definition delete_session :: "operator_world \<Rightarrow> workshop_request \<Rightarrow> pyval \<Rightarrow> unit kube" where
  "delete_session w rq session =
     kube_bind (kube_lift (session_for_request rq session))
       (\<lambda>ours. if \<not> ours then kube_return ()
          else kube_try (kube_bind (kube_write (ow_api w) (Delete session)) (\<lambda>_. kube_return ()))
                 (\<lambda>e. if e = ObjectDoesNotExist then kube_return () else kube_raise e))"

definition workshop_request_delete :: "operator_world \<Rightarrow> workshop_request \<Rightarrow> pyval \<Rightarrow> unit kube" where
  "workshop_request_delete w rq status =
     kube_bind (kube_lift (bindE (py_get_or status ''educates'' (PDict [])) (\<lambda>e. py_get e ''session'')))
       (\<lambda>details. if \<not> truthy details then kube_return ()
          else
            kube_bind (kube_lift (py_index details ''name''))
         (\<lambda>name. kube_bind
            (kube_try (kube_bind (kube_get (ow_api w) ''WorkshopSession'' PNone name) (\<lambda>s. kube_return (Some s)))
               (\<lambda>e. if e = ObjectDoesNotExist then kube_return None else kube_raise e))
            (\<lambda>found. case found of None \<Rightarrow> kube_return () | Some session \<Rightarrow> delete_session w rq session)))"

end
