(* ===== verification/Request_Outcomes.thy ===== *)
theory Request_Outcomes
  imports Session_Requests
begin

text \<open>
  What becomes of a request for a session: who gets one, how often a name is tried, and which session goes when
  the request is deleted.
\<close>

section \<open>Permission\<close>

lemma mapE_same: "mapE f xs = Inr ys \<Longrightarrow> (\<And>x y. x \<in> set xs \<Longrightarrow> f x = Inr y \<Longrightarrow> y = x) \<Longrightarrow> ys = xs"
  by (induction xs arbitrary: ys) (auto simp: bindE_Inr_iff)

lemma substitute_name_same: "substitute_name v = Inr v' \<Longrightarrow> v' = v"
proof (induction v arbitrary: v' rule: substitute_name.induct)
  case (2 d)
  then show ?case by (fastforce simp: bindE_Inr_iff elim: mapE_same)
next
  case (3 xs)
  then show ?case by (auto simp: bindE_Inr_iff elim: mapE_same)
qed (auto split: if_splits)

text \<open>
  The contract of an environment: without requests in its definition everybody may ask; else they must be enabled, a namespace
  given first is the requester's, and a token given is the request's.
\<close>

definition admits :: "workshop_request \<Rightarrow> pyval \<Rightarrow> bool" where
  "admits rq environment \<longleftrightarrow>
     (\<exists>spec. py_index environment ''spec'' = Inr (PDict spec)
      \<and> (case dict_get spec ''request'' of
           Some (PDict r) \<Rightarrow> r = [] \<or>
             ((\<exists>enabled. dict_get r ''enabled'' = Some enabled \<and> truthy enabled)
              \<and> (\<forall>first rest. dict_get r ''namespaces'' = Some (PList (first # rest)) \<longrightarrow> py_eq (wr_namespace rq) first)
              \<and> (\<forall>token. dict_get r ''token'' = Some token \<and> truthy token \<longrightarrow>
                   (\<exists>e. py_index (wr_spec rq) ''environment'' = Inr (PDict e)
                      \<and> py_eq (case dict_get e ''token'' of None \<Rightarrow> PNone | Some t \<Rightarrow> t) token)))
         | Some r \<Rightarrow> \<not> truthy r
         | None \<Rightarrow> True))"

lemma still_pending_not_Inr [simp]: "still_pending tr \<noteq> (Inr x, tr')"
  by (simp add: still_pending_def kube_simps)

lemma unless_pending_Inr: "unless_pending ok tr = (Inr x, tr') \<longleftrightarrow> ok \<and> tr' = tr"
  by (auto simp: unless_pending_def kube_return_def)

lemma check_namespace_first:
  assumes "check_namespace rq (PDict r) = Inr True" and "dict_get r ''namespaces'' = Some (PList (first # rest))"
  shows "py_eq (wr_namespace rq) first"
  using assms by (auto simp: check_namespace_def permitted_namespaces_def bindE_Inr_iff dest!: substitute_name_same)

lemma check_permission_admits:
  assumes "check_permission rq environment tr = (Inr x, tr')"
  shows "tr' = tr \<and> admits rq environment"
proof -
  from assms obtain spec where spec: "py_index environment ''spec'' = Inr (PDict spec)"
    by (auto simp: check_permission_def kube_bind_Inr kube_lift_Inr bindE_Inr_iff py_get_or_Inr)
  show ?thesis
  proof (cases "dict_get spec ''request''")
    case None
    with assms spec show ?thesis by (simp add: check_permission_def admits_def kube_simps)
  next
    case (Some request)
    show ?thesis
    proof (cases "truthy request")
      case False
      with assms spec Some show ?thesis
        by (cases request) (simp_all add: check_permission_def admits_def kube_simps)
    next
      case True
      with assms spec Some obtain enabled where
        reads: "py_get_or request ''enabled'' (PBool False) = Inr enabled" "truthy enabled"
          "check_namespace rq request = Inr True" "check_token rq request = Inr True" and tr': "tr' = tr"
        by (auto simp: check_permission_def kube_bind_Inr kube_lift_Inr unless_pending_Inr)
      then obtain r where r: "request = PDict r" by (auto simp: py_get_or_Inr)
      have "\<exists>e. py_index (wr_spec rq) ''environment'' = Inr (PDict e)
          \<and> py_eq (case dict_get e ''token'' of None \<Rightarrow> PNone | Some t \<Rightarrow> t) token"
        if "dict_get r ''token'' = Some token" "truthy token" for token
        using reads(4) that by (auto simp: r check_token_def bindE_Inr_iff py_get_or_Inr)
      moreover have "\<exists>enabled. dict_get r ''enabled'' = Some enabled \<and> truthy enabled"
        using reads(1,2) by (auto simp: r split: option.splits)
      ultimately show ?thesis
        using spec Some tr' check_namespace_first reads(3) by (auto simp: admits_def r)
    qed
  qed
qed

section \<open>Names\<close>

text \<open>A session that may be created: for an environment that was found and admits the request, at most the twentieth try.\<close>

definition rightful_session :: "operator_world \<Rightarrow> workshop_request \<Rightarrow> kube_call list \<Rightarrow> pyval \<Rightarrow> bool" where
  "rightful_session w rq tr obj \<longleftrightarrow>
     (\<exists>name environment user env session_id.
        requested_environment rq = Inr name \<and> got (ow_api w) tr ''WorkshopEnvironment'' PNone name environment
      \<and> admits rq environment \<and> length (creations tr) < 20
      \<and> obj = ow_own w (requested_session_body (ow_config w) rq name user env session_id) environment)"

definition request_call :: "operator_world \<Rightarrow> workshop_request \<Rightarrow> kube_call list \<Rightarrow> kube_call \<Rightarrow> bool" where
  "request_call w rq tr c \<longleftrightarrow> (case c of Create obj \<Rightarrow> rightful_session w rq tr obj | _ \<Rightarrow> \<not> is_write c)"

lemma runs_pending [runs_intros]: "(\<And>v. P tr (SetStatus v)) \<Longrightarrow> runs P still_pending tr"
  unfolding still_pending_def by (intro runs_intros)

lemma runs_failed [runs_intros]: "(\<And>v. P tr (SetStatus v)) \<Longrightarrow> runs P request_failed tr"
  unfolding request_failed_def by (intro runs_intros)

lemma request_call_reads [simp]:
  "request_call w rq tr (Get k ns n)" "request_call w rq tr (SetStatus v)" "request_call w rq tr (Draw i)"
  by (simp_all add: request_call_def)

lemma runs_check_permission: "runs (request_call w rq) (check_permission rq environment) tr"
  unfolding check_permission_def unless_pending_def by (auto intro!: runs_intros split: if_splits)

lemma attempt_creations:
  "attempt_session w rq name environment user env i tr = (r, tr') \<Longrightarrow> length (creations tr') \<le> Suc (length (creations tr))"
  by (auto simp: attempt_session_def kube_simps create_object_def kube_write_def kube_get_def name_taken_def request_failed_def
      split: sum.splits kube_error.splits if_splits)

lemma runs_name_taken [runs_intros]: "runs P (name_taken e) tr"
  by (auto simp: name_taken_def intro!: runs_intros split: kube_error.splits)

lemma runs_attempt:
  assumes "requested_environment rq = Inr name" and "got (ow_api w) tr ''WorkshopEnvironment'' PNone name environment"
    and "admits rq environment" and "length (creations tr) < 20"
  shows "runs (request_call w rq) (attempt_session w rq name environment user env i) tr"
proof -
  have "request_call w rq tr (Create (ow_own w (requested_session_body (ow_config w) rq name user env i) environment))"
    unfolding request_call_def rightful_session_def kube_call.case using assms by blast
  then show ?thesis
    unfolding attempt_session_def by (auto intro!: runs_intros)
qed

lemma runs_place:
  assumes "requested_environment rq = Inr name" and "admits rq environment"
    and "got (ow_api w) tr ''WorkshopEnvironment'' PNone name environment" and "length (creations tr) + n \<le> 20"
  shows "runs (request_call w rq) (place_session w rq name environment user env n) tr"
  using assms(3,4)
proof (induction n arbitrary: tr)
  case (Suc n)
  have drawn: "got (ow_api w) (Draw 5 # tr) ''WorkshopEnvironment'' PNone name environment"
    by (rule got_later [OF Suc.prems(1)])
  have first: "runs (request_call w rq) (attempt_session w rq name environment user env i) (Draw 5 # tr)" for i
    by (rule runs_attempt [OF assms(1) drawn assms(2)]) (use Suc.prems(2) in simp)
  have "runs (request_call w rq) (place_session w rq name environment user env n) tr'"
    if "attempt_session w rq name environment user env i (Draw 5 # tr) = (Inr None, tr')" for i tr'
  proof (rule Suc.IH)
    from runs_extends [OF first that] show "got (ow_api w) tr' ''WorkshopEnvironment'' PNone name environment"
      using got_append [OF drawn] by blast
    show "length (creations tr') + n \<le> 20" using attempt_creations [OF that] Suc.prems(2) by simp
  qed
  then show ?case
    by (auto simp: draw_def intro!: runs_intros first split: option.splits)
qed (simp add: runs_intros)

lemma find_environment_got:
  "find_environment w name tr = (Inr environment, tr') \<Longrightarrow>
     tr' = Get ''WorkshopEnvironment'' PNone name # tr \<and> got (ow_api w) tr' ''WorkshopEnvironment'' PNone name environment"
  by (auto simp: find_environment_def kube_simps still_pending_def kube_get_def got_now split: sum.splits if_splits)

lemma runs_find_environment: "runs (request_call w rq) (find_environment w name) tr"
  unfolding find_environment_def by (auto intro!: runs_intros)

lemma runs_password: "runs (request_call w rq) (generated_password w p) tr"
  unfolding generated_password_def by (auto intro!: runs_intros)

lemma generated_password_keeps:
  "generated_password w p tr = (r, tr') \<Longrightarrow> \<exists>b. tr' = b @ tr \<and> creations tr' = creations tr"
  by (auto simp: generated_password_def kube_simps draw_def split: if_splits)

text \<open>
  \<^bold>\<open>C33.\<close> The only thing that a request writes is a session, for an environment that was found and admits the
  request: requests are enabled there, the namespace that is named first is the requester's, and the token, if there is
  one, is right. No more than twenty names are tried.
\<close>

theorem request_sessions_rightful:
  assumes "snd (workshop_request_create w rq []) = later @ c # before" and "is_write c"
  shows "\<exists>obj. c = Create obj \<and> rightful_session w rq before obj"
proof -
  have "runs (request_call w rq) (workshop_request_create w rq) []"
    unfolding workshop_request_create_def
  proof (intro runs_bind_lift runs_bind runs_find_environment runs_check_permission)
    fix name environment tr x tr' user
    assume name: "requested_environment rq = Inr name" and found: "find_environment w name [] = (Inr environment, tr)"
      and allowed: "check_permission rq environment tr = (Inr x, tr')"
    have env: "tr' = tr" "admits rq environment" using check_permission_admits [OF allowed] by auto
    have start: "creations tr = []" "got (ow_api w) tr ''WorkshopEnvironment'' PNone name environment"
      using find_environment_got [OF found] by auto
    have place: "runs (request_call w rq) (place_session w rq name environment u e 20) tr2"
      if "generated_password w p tr = (Inr q, tr2)" for u e p q tr2
      using generated_password_keeps [OF that] start env(2) name
      by (auto intro!: runs_place got_append)
    show "runs (request_call w rq)
        (case user of (username, password) \<Rightarrow> kube_bind (generated_password w password)
           (\<lambda>password. kube_bind (kube_lift (session_env environment))
           (\<lambda>env. kube_bind (place_session w rq name environment (username, password) env 20)
           (\<lambda>(session_id, session). kube_bind (kube_lift (bindE (py_index session ''metadata'') (\<lambda>m. py_index m ''uid'')))
           (\<lambda>session_uid. kube_return (request_result (ow_config w) name (username, password) session_id session_uid)))))) tr'"
      unfolding env(1)
      by (cases user) (auto intro!: runs_bind_lift runs_bind [OF runs_password] runs_bind [OF place] runs_return)
  qed
  from runs_call [OF this assms(1)] have "request_call w rq before c" by simp
  with assms(2) show ?thesis by (cases c) (simp_all add: request_call_def)
qed

text \<open>An environment that takes requests from one namespace with a token, and a request for it.\<close>

definition open_environment :: pyval where
  "open_environment =
     PDict [(''metadata'', PDict [(''name'', PStr ''w01'')]),
       (''spec'', PDict [(''request'', PDict [(''enabled'', PBool True), (''namespaces'', PList [PStr ''class'']), (''token'', PStr ''t'')])])]"

definition class_request :: workshop_request where
  "class_request =
     \<lparr>wr_name = PStr ''ann'', wr_uid = PStr ''u1'', wr_namespace = PStr ''class'',
      wr_spec = PDict [(''environment'', PDict [(''name'', PStr ''w01''), (''token'', PStr ''t'')])]\<rparr>"

definition class_session :: pyval where
  "class_session =
     PDict [(''metadata'', PDict [(''name'', PStr ''w01-r''), (''uid'', PStr ''u2'')]),
       (''spec'', PDict [(''request'', PDict [(''namespace'', PStr ''class''), (''name'', PStr ''ann''), (''uid'', PStr ''u1'')])])]"

definition class_world :: operator_world where
  "class_world = lab_world\<lparr>ow_api := ow_api lab_world\<lparr>ka_get :=
     \<lambda>tr k ns n. Inr (if k = ''WorkshopEnvironment'' then open_environment else class_session)\<rparr>\<rparr>"

definition class_body :: pyval where
  "class_body = requested_session_body lab_config class_request (PStr ''w01'') (PStr ''educates'', PStr ''r'') (PList []) ''r''"

lemma class_created:
  "workshop_request_create class_world class_request [] =
     (Inr (request_result lab_config (PStr ''w01'') (PStr ''educates'', PStr ''r'') ''r'' (PStr ''u2'')),
      [Get ''WorkshopSession'' PNone (PStr ''w01-r''), Create class_body, Draw 5, Draw 12, Get ''WorkshopEnvironment'' PNone (PStr ''w01'')])"
  by code_simp

theorem request_sessions_rightful_witness:
  "rightful_session class_world class_request [Draw 5, Draw 12, Get ''WorkshopEnvironment'' PNone (PStr ''w01'')] class_body"
  using request_sessions_rightful [of class_world class_request "[Get ''WorkshopSession'' PNone (PStr ''w01-r'')]" "Create class_body"
      "[Draw 5, Draw 12, Get ''WorkshopEnvironment'' PNone (PStr ''w01'')]"]
  by (simp add: class_created)

section \<open>Deletion\<close>

lemma attempt_session_placed:
  assumes "attempt_session w rq name environment user env i tr = (Inr (Some s), tr')"
  shows "fst s = i
     \<and> tr' = Get ''WorkshopSession'' PNone (PStr (requested_name name i)) #
             Create (ow_own w (requested_session_body (ow_config w) rq name user env i) environment) # tr"
  using assms
  by (auto simp: attempt_session_def kube_simps create_object_def kube_write_def kube_get_def name_taken_def request_failed_def
      split: sum.splits kube_error.splits if_splits)

lemma place_session_placed:
  assumes "place_session w rq name environment user env n tr = (Inr s, tr')"
  shows "\<exists>before. tr' = Get ''WorkshopSession'' PNone (PStr (requested_name name (fst s))) #
                     Create (ow_own w (requested_session_body (ow_config w) rq name user env (fst s)) environment) # before"
  using assms
proof (induction n arbitrary: tr)
  case (Suc n)
  from Suc.prems obtain i placed tr2
    where attempt: "attempt_session w rq name environment user env i (Draw 5 # tr) = (Inr placed, tr2)"
      and rest: "(case placed of Some s \<Rightarrow> kube_return s | None \<Rightarrow> place_session w rq name environment user env n) tr2 = (Inr s, tr')"
    by (auto simp: draw_def kube_bind_Inr)
  show ?case
  proof (cases placed)
    case None
    with rest Suc.IH show ?thesis by simp
  next
    case (Some p)
    with rest attempt_session_placed [OF attempt [unfolded Some]] show ?thesis by (auto simp: kube_return_def)
  qed
qed (simp add: request_failed_def kube_simps)

lemma own_session_recognised:
  assumes "wr_namespace rq = PStr ns" and "wr_name rq = PStr n" and "wr_uid rq = PStr u"
  shows "session_for_request rq (requested_session_body cfg rq name user env i) = Inr True"
  using assms by (simp add: session_for_request_def requested_session_body_def request_matches_def)



end
