(* ===== verification/Namespace_Writes.thy ===== *)
theory Namespace_Writes
  imports Session_Namespaces
begin

text \<open>
  What the set-up of a session's namespace writes: everything is created in that namespace with the
  session's labels, only quotas and limits found there are deleted, and roles are bound as the workshop says.
\<close>

section \<open>Objects in a namespace\<close>

definition metadata_of :: "pyval \<Rightarrow> (string \<times> pyval) list option" where
  "metadata_of obj =
     (case obj of PDict d \<Rightarrow> (case dict_get d ''metadata'' of Some (PDict md) \<Rightarrow> Some md | _ \<Rightarrow> None) | _ \<Rightarrow> None)"

definition in_namespace :: "pyval \<Rightarrow> pyval \<Rightarrow> bool" where
  "in_namespace target obj \<longleftrightarrow> (\<exists>md. metadata_of obj = Some md \<and> dict_get md ''namespace'' = Some target)"

definition labelled :: "(string \<times> pyval) list \<Rightarrow> pyval \<Rightarrow> bool" where
  "labelled labels obj \<longleftrightarrow>
     (\<exists>md l. metadata_of obj = Some md \<and> dict_get md ''labels'' = Some (PDict l)
         \<and> (\<forall>(k, v)\<in>set labels. dict_get l k = Some v))"

definition kind_of :: "pyval \<Rightarrow> pyval option" where
  "kind_of obj = (case obj of PDict d \<Rightarrow> dict_get d ''kind'' | _ \<Rightarrow> None)"

text \<open>\<open>kopf.adopt\<close> adds to the metadata of an object, it does not replace what is there, nor its kind.\<close>

definition adopt_adds :: "operator_world \<Rightarrow> bool" where
  "adopt_adds w \<longleftrightarrow>
     (\<forall>obj owner. kind_of (ow_adopt w obj owner) = kind_of obj
        \<and> (\<forall>t. in_namespace t obj \<longrightarrow> in_namespace t (ow_adopt w obj owner))
        \<and> (\<forall>ls. labelled ls obj \<longrightarrow> labelled ls (ow_adopt w obj owner)))"

lemma dict_update_get:
  "distinct (map fst new) \<Longrightarrow> (k, v) \<in> set new \<Longrightarrow> dict_get (dict_update new d) k = Some v"
proof (induction new arbitrary: d)
  case (Cons kv new)
  have keep: "k' \<notin> fst ` set new \<Longrightarrow> dict_get (dict_update new d) k' = dict_get d k'" for d k'
    by (induction new arbitrary: d) (auto simp: dict_update_def)
  show ?case
  proof (cases "(k, v) \<in> set new")
    case True
    with Cons show ?thesis by (simp add: dict_update_def)
  next
    case False
    with Cons.prems have "kv = (k, v)" and "k \<notin> fst ` set new" by (auto simp: image_iff)
    with keep [of k "dict_set k v d"] show ?thesis by (simp add: dict_update_def)
  qed
qed simp

lemma session_labels_distinct [simp]: "distinct (map fst (session_labels sn))"
  by (simp add: session_labels_def)

lemma add_labels_Inr:
  assumes "add_labels labels obj = Inr obj'"
  obtains d md l where "obj = PDict d"
    and "obj' = PDict (dict_set ''metadata'' (PDict (dict_set ''labels'' (PDict (dict_update labels l)) md)) d)"
proof -
  from assms obtain d where d: "obj = PDict d" by (cases obj) (auto simp: add_labels_def)
  with assms obtain m where m: "dict_get d ''metadata'' = Some m" by (auto simp: add_labels_def bindE_Inr_iff split: option.splits)
  with d assms obtain md where md: "m = PDict md" by (cases m) (auto simp: add_labels_def)
  define l where "l = (case dict_get md ''labels'' of None \<Rightarrow> PDict [] | Some l \<Rightarrow> l)"
  have "(case l of PDict l \<Rightarrow> Inr (PDict (dict_set ''metadata'' (PDict (dict_set ''labels'' (PDict (dict_update labels l)) md)) d))
         | _ \<Rightarrow> Inl AttributeError) = Inr obj'"
    using assms by (simp add: add_labels_def d m md l_def)
  with that [OF d] show thesis by (cases l) auto
qed

lemma add_labels_labelled:
  "add_labels labels obj = Inr obj' \<Longrightarrow> distinct (map fst labels) \<Longrightarrow> labelled labels obj' \<and> kind_of obj' = kind_of obj"
  by (elim add_labels_Inr) (auto simp: labelled_def metadata_of_def kind_of_def dict_update_get)

lemma set_metadata_Inr:
  assumes "set_metadata key v obj = Inr obj'"
  obtains d md where "obj = PDict d" and "dict_get d ''metadata'' = Some (PDict md)"
    and "obj' = PDict (dict_set ''metadata'' (PDict (dict_set key v md)) d)"
proof -
  from assms obtain d where d: "obj = PDict d" by (cases obj) (auto simp: set_metadata_def)
  with assms obtain m where m: "dict_get d ''metadata'' = Some m" by (auto simp: set_metadata_def bindE_Inr_iff split: option.splits)
  with d assms obtain md where "m = PDict md" by (cases m) (auto simp: set_metadata_def)
  with d m assms that show thesis by (simp add: set_metadata_def)
qed

lemma set_namespace_in:
  "set_metadata ''namespace'' target obj = Inr obj' \<Longrightarrow>
     in_namespace target obj' \<and> kind_of obj' = kind_of obj \<and> (\<forall>ls. labelled ls obj \<longrightarrow> labelled ls obj')"
  by (elim set_metadata_Inr) (auto simp: labelled_def in_namespace_def metadata_of_def kind_of_def)

section \<open>The writes\<close>

text \<open>
  A role binding either gives the session's service account a role of a session, or \<open>cluster-admin\<close> if the workshop asks
  for it, or gives the service accounts of the namespace its security policy.
\<close>

definition session_roles :: "string set" where
  "session_roles = {''educates-admin-session-role'', ''educates-edit-session-role'', ''educates-view-session-role''}"

definition binds :: "pyval \<Rightarrow> string \<Rightarrow> pyval \<Rightarrow> bool" where
  "binds obj role subject \<longleftrightarrow>
     (\<exists>d r s. obj = PDict d \<and> dict_get d ''roleRef'' = Some (PDict r) \<and> dict_get r ''name'' = Some (PStr role)
        \<and> dict_get d ''subjects'' = Some (PList [PDict s])
        \<and> PDict s = subject)"

definition rightful_binding :: "operator_world \<Rightarrow> session_names \<Rightarrow> pyval \<Rightarrow> pyval \<Rightarrow> pyval \<Rightarrow> pyval \<Rightarrow> bool" where
  "rightful_binding w sn target role policy obj \<longleftrightarrow>
     (\<exists>r. (r \<in> session_roles \<or> r = ''cluster-admin'' \<and> role = PStr ''cluster-admin'')
        \<and> binds obj r (PDict [(''kind'', PStr ''ServiceAccount''), (''name'', sn_service_account sn), (''namespace'', sn_workshop_namespace sn)]))
   \<or> (\<exists>engine\<in>{''psp'', ''scc''}. binds obj (''educates-'' @ py_str policy @ ''-'' @ engine)
          (PDict [(''apiGroup'', PStr ''rbac.authorization.k8s.io''), (''kind'', PStr ''Group''),
                  (''name'', PStr (''system:serviceaccounts:'' @ py_str target))]))"

definition default_budget :: "pyval \<Rightarrow> bool" where
  "default_budget budget \<longleftrightarrow> choose_budget budget = Inr DefaultBudget"

definition namespace_write ::
    "operator_world \<Rightarrow> session_names \<Rightarrow> pyval \<Rightarrow> pyval \<Rightarrow> pyval \<Rightarrow> pyval \<Rightarrow> kube_call list \<Rightarrow> kube_call \<Rightarrow> bool" where
  "namespace_write w sn target role budget policy before c \<longleftrightarrow>
     (case c of
        Create obj \<Rightarrow> in_namespace target obj \<and> labelled (session_labels sn) obj
          \<and> (kind_of obj = Some (PStr ''RoleBinding'') \<longrightarrow> rightful_binding w sn target role policy obj)
      | Delete obj \<Rightarrow> \<not> default_budget budget
          \<and> (listed (ow_api w) before ''LimitRange'' target obj \<or> listed (ow_api w) before ''ResourceQuota'' target obj)
      | _ \<Rightarrow> \<not> is_write c)"

lemma namespace_write_reads [simp]:
  "namespace_write w sn target role budget policy tr (Get k ns n)"
  "namespace_write w sn target role budget policy tr (Query k ns)"
  "namespace_write w sn target role budget policy tr Pause"
  by (simp_all add: namespace_write_def)

lemma runs_await [runs_intros]:
  "(\<And>t k ns n. P t (Get k ns n)) \<Longrightarrow> (\<And>t. P t Pause) \<Longrightarrow> runs P (await_service_account w target n) tr"
  by (induction n arbitrary: tr) (auto intro!: runs_intros)

lemma runs_delete_all:
  assumes "\<And>t obj. listed (ow_api w) t kind target obj \<Longrightarrow> P t (Delete obj)" and "\<And>t. P t (Query kind target)"
  shows "runs P (delete_all w kind target) tr"
  unfolding delete_all_def
  by (intro runs_query_each assms(2)) (auto simp: delete_quietly_def intro!: runs_intros assms(1))

lemmas body_defs = in_namespace_def labelled_def metadata_of_def kind_of_def

lemma runs_network_policy:
  assumes "adopt_adds w"
  shows "runs (namespace_write w sn target role budget policy) (create_network_policy w sn owner target) tr"
proof -
  have "in_namespace target (network_policy_body sn target egress)" "labelled (session_labels sn) (network_policy_body sn target egress)"
    "kind_of (network_policy_body sn target egress) = Some (PStr ''NetworkPolicy'')" for egress
    by (auto simp: network_policy_body_def body_defs intro!: map_of_is_SomeI)
  with assms have "namespace_write w sn target role budget policy t
      (Create (ow_adopt w (network_policy_body sn target egress) owner))" for t egress
    by (auto simp: namespace_write_def adopt_adds_def)
  then show ?thesis unfolding create_network_policy_def by (auto intro!: runs_intros)
qed

lemma role_resource_name_rightful:
  "role_resource_name role = Inr (Some r) \<Longrightarrow> r \<in> session_roles \<or> r = ''cluster-admin'' \<and> role = PStr ''cluster-admin''"
  by (auto simp: role_resource_name_def table_get_def role_mappings_def session_roles_def bindE_Inr_iff
      split: pyval.splits if_splits option.splits)

lemma runs_role_bindings:
  "runs (namespace_write w sn target role budget policy) (create_role_bindings w sn target role policy) tr"
proof -
  let ?ok = "\<lambda>t obj. namespace_write w sn target role budget policy t (Create obj)"
  have "?ok t (role_binding_body sn target r)" if "role_resource_name role = Inr (Some r)" for t r
    using role_resource_name_rightful [OF that]
    by (auto simp: namespace_write_def role_binding_body_def body_defs rightful_binding_def binds_def intro!: map_of_is_SomeI)
  moreover have "?ok t (psp_role_binding_body sn target policy)" "?ok t (scc_role_binding_body sn target policy)" for t
    by (auto simp: namespace_write_def psp_role_binding_body_def scc_role_binding_body_def body_defs rightful_binding_def binds_def
        intro!: map_of_is_SomeI)
  ultimately show ?thesis
    unfolding create_role_bindings_def by (auto intro!: runs_bind_lift runs_intros split: option.splits)
qed

lemma runs_registry_secret:
  "runs (namespace_write w sn target role budget policy) (create_registry_secret w sn target applications) tr"
  unfolding create_registry_secret_def
  by (auto simp: namespace_write_def registry_secret_body_def body_defs intro!: runs_intros map_of_is_SomeI)

lemma budget_kinds:
  "item \<in> set (map snd namespace_budgets) \<Longrightarrow> py_index item key = Inr d \<Longrightarrow> kind_of d \<noteq> Some (PStr ''RoleBinding'')"
  by (auto simp: namespace_budgets_def small_budget_def medium_budget_def large_budget_def xlarge_budget_def xxlarge_budget_def
      xxxlarge_budget_def kind_of_def split: if_splits)

lemma choose_budget_item: "choose_budget budget = Inr (SizedBudget item) \<Longrightarrow> item \<in> set (map snd namespace_budgets)"
  by (auto simp: choose_budget_def table_get_def bindE_Inr_iff split: if_splits option.splits pyval.splits dest!: map_of_SomeD intro: rev_image_eqI)

lemma limits_definition_kind:
  assumes "limits_definition item limits = Inr d" and "item \<in> set (map snd namespace_budgets)"
  shows "kind_of d \<noteq> Some (PStr ''RoleBinding'')"
proof -
  from assms(1) obtain d0 where d0: "py_index item ''resource-limits'' = Inr d0"
    by (auto simp: limits_definition_def bindE_Inr_iff)
  have "d = d0 \<or> (\<exists>e spec. d0 = PDict e \<and> d = PDict (dict_set ''spec'' spec e))"
  proof (cases "truthy limits")
    case True
    with assms(1) d0 obtain l merged where "limits = PDict l"
      and "(case d0 of
              PDict e \<Rightarrow> bindE (py_index d0 ''spec'') (\<lambda>spec. case spec of
                PDict s \<Rightarrow> Inr (PDict (dict_set ''spec'' (PDict (dict_set ''limits'' merged s)) e)) | _ \<Rightarrow> Inl TypeError)
            | _ \<Rightarrow> Inl TypeError) = Inr d"
      by (cases limits) (auto simp: limits_definition_def bindE_Inr_iff simp del: overlay.simps py_index.simps)
    then obtain e x where "d0 = PDict e"
      and "(case x of PDict s \<Rightarrow> Inr (PDict (dict_set ''spec'' (PDict (dict_set ''limits'' merged s)) e)) | _ \<Rightarrow> Inl TypeError) = Inr d"
      by (cases d0) (auto elim: bindE_InrE)
    then show ?thesis by (cases x) auto
  qed (use assms(1) d0 in \<open>simp add: limits_definition_def\<close>)
  then have "kind_of d = kind_of d0" by (auto simp: kind_of_def)
  with budget_kinds [OF assms(2) d0] show ?thesis by simp
qed

lemma runs_budget_object:
  assumes "\<And>d. definition = Inr d \<Longrightarrow> kind_of d \<noteq> Some (PStr ''RoleBinding'')"
  shows "runs (namespace_write w sn target role budget policy) (create_budget_object w sn target definition) tr"
  unfolding create_budget_object_def
proof (rule runs_bind_lift)
  fix body assume "bindE definition (\<lambda>d. bindE (add_labels (session_labels sn) d) (set_metadata ''namespace'' target)) = Inr body"
  then obtain d d' where "definition = Inr d" and l: "add_labels (session_labels sn) d = Inr d'"
    and n: "set_metadata ''namespace'' target d' = Inr body"
    by (auto simp: bindE_Inr_iff)
  with assms add_labels_labelled [OF l] set_namespace_in [OF n]
  have "namespace_write w sn target role budget policy t (Create body)" for t by (simp add: namespace_write_def)
  then show "runs (namespace_write w sn target role budget policy) (kube_bind (create_object w body) (\<lambda>_. kube_return ())) tr"
    by (intro runs_intros)
qed

lemma runs_create_budget:
  assumes "item \<in> set (map snd namespace_budgets)" and "kind_of limits \<noteq> Some (PStr ''RoleBinding'')"
  shows "runs (namespace_write w sn target role budget policy) (create_budget w sn target item (Inr limits)) tr"
  unfolding create_budget_def check_quotas_def check_quota_def
  using assms budget_kinds [OF assms(1)]
  by (intro runs_bind runs_budget_object runs_query runs_each) (auto intro!: runs_intros)

lemma runs_setup_writes:
  assumes "adopt_adds w"
  shows "runs (namespace_write w sn target role budget policy)
           (setup_session_namespace w sn owner target applications role budget limits policy) tr"
proof -
  let ?runs = "\<lambda>m :: unit kube. runs (namespace_write w sn target role budget policy) m"
  have deletes: "?runs (if choice = DefaultBudget then kube_return () else delete_all w kind target) tr"
    if "choose_budget budget = Inr choice" and "kind \<in> {''LimitRange'', ''ResourceQuota''}" for choice kind tr
    using that by (auto simp: namespace_write_def default_budget_def intro!: runs_intros runs_delete_all)
  have budgets: "?runs (case choice of SizedBudget item \<Rightarrow> create_budget w sn target item (Inr body) | _ \<Rightarrow> kube_return ()) tr'"
    if "choose_budget budget = Inr choice"
      and "(case choice of SizedBudget item \<Rightarrow> kube_lift (limits_definition item limits) | _ \<Rightarrow> kube_return PNone) tr = (Inr body, tr2)"
    for choice body tr tr2 tr'
  proof (cases choice)
    case (SizedBudget item)
    with that have "item \<in> set (map snd namespace_budgets)" and "limits_definition item limits = Inr body"
      using choose_budget_item by (auto simp: kube_lift_Inr simp del: set_map)
    with SizedBudget show ?thesis by (simp add: runs_create_budget limits_definition_kind)
  qed (simp_all add: runs_return)
  show ?thesis
    unfolding setup_session_namespace_def
    by (intro runs_bind runs_bind_lift runs_await runs_network_policy runs_role_bindings runs_registry_secret assms deletes budgets)
      (auto intro: runs_intros split: budget_choice.splits)
qed

text \<open>
  \<^bold>\<open>C32.\<close> Setting up a namespace of a session stays within it: whatever is created is in that namespace and
  has the labels of the session; a role binding gives the session's account one of the session roles, or \<open>cluster-admin\<close> only
  where the workshop asks for that, or the namespace its security policy; and what is deleted is a limit or quota that was
  found there, unless the default budget is used.
\<close>

theorem namespace_setup_confined:
  assumes "adopt_adds w"
    and "snd (setup_session_namespace w sn owner target applications role budget limits policy []) = later @ c # before"
  shows "namespace_write w sn target role budget policy before c"
  using runs_call [OF runs_setup_writes [OF assms(1)] assms(2)] by simp

text \<open>A workshop that asks for \<open>cluster-admin\<close> in a small namespace.\<close>

definition lab_session :: session_names where
  "lab_session =
     \<lparr>sn_workshop_name = PStr ''lab'', sn_portal_name = PStr ''p'', sn_portal_uid = PStr ''1'', sn_environment_name = PStr ''w01'',
      sn_environment_uid = PStr ''2'', sn_session_name = PStr ''w01-s001'', sn_workshop_namespace = PStr ''w01'',
      sn_service_account = PStr ''w01-s001''\<rparr>"

definition lab_calls :: "kube_call list" where
  "lab_calls = snd (setup_session_namespace lab_world lab_session (PDict []) (PStr ''w01-s001'') (PDict [])
     (PStr ''cluster-admin'') (PStr ''small'') (PDict []) (PStr ''restricted'') [])"

theorem namespace_setup_confined_witness:
  "length lab_calls = 9
   \<and> lab_calls ! 5 = Create (role_binding_body lab_session (PStr ''w01-s001'') ''cluster-admin'')
   \<and> namespace_write lab_world lab_session (PStr ''w01-s001'') (PStr ''cluster-admin'') (PStr ''small'') (PStr ''restricted'')
       (drop 6 lab_calls) (lab_calls ! 5)"
proof -
  have len: "length lab_calls = 9" by code_simp
  have nth: "lab_calls ! 5 = Create (role_binding_body lab_session (PStr ''w01-s001'') ''cluster-admin'')" by code_simp
  have "adopt_adds lab_world" by (simp add: adopt_adds_def lab_world_def)
  from namespace_setup_confined [OF this, of lab_session "PDict []" "PStr ''w01-s001''" "PDict []" "PStr ''cluster-admin''"
      "PStr ''small''" "PDict []" "PStr ''restricted''" "take 5 lab_calls" "lab_calls ! 5" "drop 6 lab_calls"]
  moreover have "lab_calls = take 5 lab_calls @ lab_calls ! 5 # drop 6 lab_calls"
    using id_take_nth_drop [of 5 lab_calls] len by simp
  ultimately show ?thesis using len nth by (metis lab_calls_def)
qed

end
