(* ===== verification/Portal_Deployment.thy ===== *)
theory Portal_Deployment
  imports Session_Namespaces
begin

text \<open>
  The deployment of a training portal (\<open>session-manager/handlers/trainingportal.py\<close>): settings from the custom
  resource and the operator's configuration, the namespace of the portal and the retries around it, and the
  resources that are created in it.
\<close>

section \<open>Settings\<close>

text \<open>What the handler was called with: the resource, how often it was retried and for how long, in microseconds.\<close>

record portal_request =
  pq_name :: string
  pq_uid :: pyval
  pq_body :: pyval
  pq_spec :: pyval
  pq_status :: pyval
  pq_retry :: int
  pq_runtime :: int

record portal_settings =
  pd_name :: string
  pd_uid :: pyval
  pd_namespace :: string
  pd_hostname :: pyval
  pd_admin_username :: pyval
  pd_admin_password :: pyval
  pd_robot_username :: pyval
  pd_robot_password :: pyval
  pd_robot_client_id :: pyval
  pd_robot_client_secret :: pyval
  pd_title :: pyval
  pd_password :: pyval
  pd_index :: pyval
  pd_logo :: pyval
  pd_theme_name :: pyval
  pd_frame_ancestors :: string
  pd_cookie_domain :: pyval
  pd_registration_type :: pyval
  pd_enable_registration :: string
  pd_catalog_visibility :: pyval
  pd_google_tracking_id :: pyval
  pd_clarity_tracking_id :: pyval
  pd_amplitude_tracking_id :: pyval
  pd_analytics_url :: pyval

definition portal_namespace :: "string \<Rightarrow> string" where
  "portal_namespace name = name @ ''-ui''"

definition portal_hostname :: "operator_config \<Rightarrow> string \<Rightarrow> pyval \<Rightarrow> pyval result" where
  "portal_hostname cfg name ingress_hostname =
     (if \<not> truthy ingress_hostname then Inr (PStr (name @ ''-ui.'' @ py_str (oc_ingress_domain cfg)))
      else bindE (py_in (PStr ''.'') ingress_hostname)
        (\<lambda>qualified. Inr (if \<not> qualified then PStr (py_str ingress_hostname @ ''.'' @ py_str (oc_ingress_domain cfg))
                            else ingress_hostname)))"

definition portal_url :: "operator_config \<Rightarrow> portal_settings \<Rightarrow> string" where
  "portal_url cfg ps = py_str (oc_ingress_protocol cfg) @ ''://'' @ py_str (pd_hostname ps)"

text \<open>\<open>",".join(v)\<close>.\<close>

definition string_item :: "pyval \<Rightarrow> string result" where
  "string_item v = (case v of PStr s \<Rightarrow> Inr s | _ \<Rightarrow> Inl TypeError)"

definition comma_joined :: "pyval \<Rightarrow> string result" where
  "comma_joined v = bindE (py_iter v) (\<lambda>items. bindE (mapE string_item items) (\<lambda>ss. Inr (join_with CHR '','' ss)))"

definition or_default :: "pyval \<Rightarrow> pyval \<Rightarrow> pyval" where
  "or_default dflt v = (if truthy v then v else dflt)"

definition load_portal_settings :: "operator_config \<Rightarrow> portal_request \<Rightarrow> portal_settings result" where
  "load_portal_settings cfg rq =
     (let get = lookup (pq_spec rq)
      in bindE (bindE (get ''portal.ingress.hostname'' PNone) (portal_hostname cfg (pq_name rq)))
  (\<lambda>hostname. bindE (get ''portal.credentials.admin.username'' (oc_admin_username cfg))
  (\<lambda>admin_username. bindE (get ''portal.credentials.admin.password'' (oc_admin_password cfg))
  (\<lambda>admin_password. bindE (get ''portal.credentials.robot.username'' (oc_robot_username cfg))
  (\<lambda>robot_username. bindE (get ''portal.credentials.robot.password'' (oc_robot_password cfg))
  (\<lambda>robot_password. bindE (get ''portal.clients.robot.id'' (oc_robot_client_id cfg))
  (\<lambda>client_id. bindE (get ''portal.clients.robot.secret'' (oc_robot_client_secret cfg))
  (\<lambda>client_secret. bindE (get ''portal.title'' (PStr ''Workshops''))
  (\<lambda>title. bindE (get ''portal.password'' (PStr []))
  (\<lambda>password. bindE (get ''portal.index'' (PStr []))
  (\<lambda>index. bindE (get ''portal.logo'' (PStr []))
  (\<lambda>logo. bindE (get ''portal.theme.name'' (oc_default_theme cfg))
  (\<lambda>theme. bindE (bindE (get ''portal.theme.frame.ancestors'' (oc_frame_ancestors cfg)) comma_joined)
  (\<lambda>ancestors. bindE (get ''portal.cookies.domain'' PNone)
  (\<lambda>cookies. bindE (get ''portal.registration.type'' (PStr ''one-step''))
  (\<lambda>registration. bindE (get ''portal.registration.enabled'' (PBool True))
  (\<lambda>enabled. bindE (get ''portal.catalog.visibility'' (PStr ''private''))
  (\<lambda>visibility. bindE (get ''analytics.google.trackingId'' (oc_google_tracking_id cfg))
  (\<lambda>google. bindE (get ''analytics.clarity.trackingId'' (oc_clarity_tracking_id cfg))
  (\<lambda>clarity. bindE (get ''analytics.amplitude.trackingId'' (oc_amplitude_tracking_id cfg))
  (\<lambda>amplitude. bindE (get ''analytics.webhook.url'' (oc_analytics_url cfg))
  (\<lambda>webhook. Inr
     \<lparr>pd_name = pq_name rq, pd_uid = pq_uid rq, pd_namespace = portal_namespace (pq_name rq), pd_hostname = hostname,
      pd_admin_username = admin_username, pd_admin_password = admin_password, pd_robot_username = robot_username,
      pd_robot_password = robot_password, pd_robot_client_id = client_id, pd_robot_client_secret = client_secret,
      pd_title = title, pd_password = password, pd_index = index, pd_logo = logo,
      pd_theme_name = or_default (PStr ''default-website-theme'') theme, pd_frame_ancestors = ancestors,
      pd_cookie_domain = or_default (oc_session_cookie_domain cfg) cookies, pd_registration_type = registration,
      pd_enable_registration = lower (py_str enabled), pd_catalog_visibility = visibility, pd_google_tracking_id = google,
      pd_clarity_tracking_id = clarity, pd_amplitude_tracking_id = amplitude, pd_analytics_url = webhook\<rparr>))))))))))))))))))))))"

section \<open>Outcomes of an attempt\<close>

definition portal_event :: "portal_request \<Rightarrow> (string \<times> pyval) list" where
  "portal_event rq =
     [(''kind'', PStr ''TrainingPortal''), (''name'', PStr (pq_name rq)), (''uid'', pq_uid rq), (''retry'', PInt (pq_retry rq))]"

definition portal_outcome :: "operator_world \<Rightarrow> portal_request \<Rightarrow> string \<Rightarrow> string \<Rightarrow> string \<Rightarrow> py_error \<Rightarrow> 'a kube" where
  "portal_outcome w rq state message event e =
     kube_bind (set_status (educates_status [(''phase'', PStr state), (''message'', PStr message)]))
       (\<lambda>_. kube_bind (report_analytics_event w event (PDict (portal_event rq @ [(''message'', PStr message)])))
          (\<lambda>_. kube_raise (Raised e)))"

definition portal_retry :: "operator_world \<Rightarrow> portal_request \<Rightarrow> string \<Rightarrow> string \<Rightarrow> 'a kube" where
  "portal_retry w rq state message = portal_outcome w rq state message ''Resource/TemporaryError'' (TemporaryError 30)"

definition portal_overdue :: "portal_request \<Rightarrow> bool" where
  "portal_overdue rq \<longleftrightarrow> pq_runtime rq \<ge> 300 * 1000000"

section \<open>The namespace\<close>

definition delete_portal_namespace :: "operator_world \<Rightarrow> portal_request \<Rightarrow> pyval \<Rightarrow> unit kube" where
  "delete_portal_namespace w rq namespace =
     kube_bind
       (kube_try (kube_bind (kube_write (ow_api w) (Delete namespace)) (\<lambda>_. kube_return ()))
          (\<lambda>e. if is_KubernetesError e
                then portal_retry w rq ''Retrying'' (''Failed to delete namespace '' @ portal_namespace (pq_name rq) @ ''.'')
                else kube_raise e))
       (\<lambda>_. portal_retry w rq ''Retrying'' (''Deleting '' @ portal_namespace (pq_name rq) @ '' and retrying.''))"

text \<open>A namespace that is already there ends the attempt in every case.\<close>

definition existing_namespace :: "operator_world \<Rightarrow> portal_request \<Rightarrow> pyval \<Rightarrow> unit kube" where
  "existing_namespace w rq namespace =
     kube_bind (kube_lift (resource_owned_by namespace (pq_body rq)))
       (\<lambda>owned.
          if \<not> owned then
            (let message = ''Namespace '' @ portal_namespace (pq_name rq) @ '' already exists.''
             in if portal_overdue rq then portal_outcome w rq ''Failed'' message ''Resource/PermanentError'' PermanentError
                else portal_retry w rq ''Pending'' message)
          else
            kube_bind (kube_lift (lookup (pq_status rq) ''educates.phase'' PNone))
              (\<lambda>state.
                 if \<not> py_eq state (PStr ''Retrying'') then
                   portal_retry w rq ''Unknown''
                     (''Training portal '' @ pq_name rq @ '' in unexpected state '' @ py_str state @ ''.'')
                 else if portal_overdue rq then
                   portal_outcome w rq ''Failed'' (''Unable to setup training portal '' @ pq_name rq @ ''.'')
                     ''Resource/TemporaryError'' PermanentError
                 else delete_portal_namespace w rq namespace))"

definition find_portal_namespace :: "operator_world \<Rightarrow> portal_request \<Rightarrow> pyval option kube" where
  "find_portal_namespace w rq =
     kube_try (kube_bind (kube_get (ow_api w) ''Namespace'' PNone (PStr (portal_namespace (pq_name rq)))) (\<lambda>n. kube_return (Some n)))
       (\<lambda>e. if e = ObjectDoesNotExist then kube_return None
             else if is_KubernetesError e then
               portal_retry w rq ''Unknown'' (''Unexpected error querying namespace '' @ portal_namespace (pq_name rq) @ ''.'')
             else kube_raise e)"

definition portal_labels :: "portal_settings \<Rightarrow> (string \<times> pyval) list" where
  "portal_labels ps =
     [(''training.educates.dev/component'', PStr ''portal''),
      (''training.educates.dev/portal.name'', PStr (pd_name ps)),
      (''training.educates.dev/portal.uid'', pd_uid ps)]"

definition portal_namespace_labels :: "operator_config \<Rightarrow> portal_settings \<Rightarrow> (string \<times> pyval) list" where
  "portal_namespace_labels cfg ps =
     [
       (''training.educates.dev/component'', PStr ''portal''),
       (''training.educates.dev/portal.name'', PStr (pd_name ps)),
       (''training.educates.dev/portal.uid'', pd_uid ps),
       (''training.educates.dev/policy.engine'', oc_policy_engine cfg),
       (''training.educates.dev/policy.name'', PStr ''baseline'')]
     @ (if oc_policy_engine cfg = PStr ''pod-security-standards''
        then [(''pod-security.kubernetes.io/enforce'', PStr ''baseline'')] else [])"

definition portal_namespace_body :: "operator_config \<Rightarrow> portal_settings \<Rightarrow> pyval" where
  "portal_namespace_body cfg ps =
     PDict [
       (''apiVersion'', PStr ''v1''),
       (''kind'', PStr ''Namespace''),
       (''metadata'', PDict [
         (''name'', PStr (pd_namespace ps)),
         (''labels'', PDict (portal_namespace_labels cfg ps)),
         (''annotations'', PDict [(''secretgen.carvel.dev/excluded-from-wildcard-matching'', PStr [])])])]"

definition create_portal_namespace :: "operator_world \<Rightarrow> portal_request \<Rightarrow> portal_settings \<Rightarrow> pyval kube" where
  "create_portal_namespace w rq ps =
     kube_try
       (kube_bind (create_object w (ow_adopt w (portal_namespace_body (ow_config w) ps) (pq_body rq)))
          (\<lambda>_. kube_get (ow_api w) ''Namespace'' PNone (PStr (pd_namespace ps))))
       (\<lambda>e. if is_KubernetesError e
             then portal_retry w rq ''Retrying'' (''Failed to create namespace '' @ pd_namespace ps @ ''.'')
             else kube_raise e)"

section \<open>Resources\<close>

definition portal_psp_binding :: "portal_settings \<Rightarrow> pyval" where
  "portal_psp_binding ps =
     PDict [
       (''apiVersion'', PStr ''rbac.authorization.k8s.io/v1''),
       (''kind'', PStr ''RoleBinding''),
       (''metadata'', PDict [
         (''name'', PStr ''educates-security-policy''),
         (''namespace'', PStr (pd_namespace ps)),
         (''labels'', PDict (portal_labels ps))]),
       (''roleRef'', PDict [
         (''apiGroup'', PStr ''rbac.authorization.k8s.io''),
         (''kind'', PStr ''ClusterRole''),
         (''name'', PStr ''educates-baseline-psp'')]),
       (''subjects'', PList [
         PDict [
           (''apiGroup'', PStr ''rbac.authorization.k8s.io''),
           (''kind'', PStr ''Group''),
           (''name'', PStr (''system:serviceaccounts:'' @ pd_namespace ps))]])]"

definition portal_scc_binding :: "portal_settings \<Rightarrow> pyval" where
  "portal_scc_binding ps =
     PDict [
       (''apiVersion'', PStr ''rbac.authorization.k8s.io/v1''),
       (''kind'', PStr ''RoleBinding''),
       (''metadata'', PDict [
         (''name'', PStr ''educates-security-policy''),
         (''namespace'', PStr (pd_namespace ps)),
         (''labels'', PDict (portal_labels ps))]),
       (''roleRef'', PDict [
         (''apiGroup'', PStr ''rbac.authorization.k8s.io''),
         (''kind'', PStr ''ClusterRole''),
         (''name'', PStr ''educates-baseline-scc'')]),
       (''subjects'', PList [
         PDict [
           (''apiGroup'', PStr ''rbac.authorization.k8s.io''),
           (''kind'', PStr ''Group''),
           (''name'', PStr (''system:serviceaccounts:'' @ pd_namespace ps))]])]"

definition apply_portal_policy :: "operator_world \<Rightarrow> portal_settings \<Rightarrow> unit kube" where
  "apply_portal_policy w ps =
     kube_bind (if oc_policy_engine (ow_config w) = PStr ''pod-security-policies''
                then create_object w (portal_psp_binding ps) else kube_return PNone)
       (\<lambda>_. kube_bind (if oc_policy_engine (ow_config w) = PStr ''security-context-constraints''
                         then create_object w (portal_scc_binding ps) else kube_return PNone)
          (\<lambda>_. kube_return ()))"

definition portal_service_account :: "portal_settings \<Rightarrow> pyval" where
  "portal_service_account ps =
     PDict [
       (''apiVersion'', PStr ''v1''),
       (''kind'', PStr ''ServiceAccount''),
       (''metadata'', PDict [
         (''name'', PStr ''training-portal''),
         (''namespace'', PStr (pd_namespace ps)),
         (''labels'', PDict (portal_labels ps))])]"

definition portal_account_token :: "portal_settings \<Rightarrow> pyval" where
  "portal_account_token ps =
     PDict [
       (''apiVersion'', PStr ''v1''),
       (''kind'', PStr ''Secret''),
       (''metadata'', PDict [
         (''name'', PStr ''training-portal-token''),
         (''namespace'', PStr (pd_namespace ps)),
         (''annotations'', PDict [(''kubernetes.io/service-account.name'', PStr ''training-portal'')]),
         (''labels'', PDict (portal_labels ps))]),
       (''type'', PStr ''kubernetes.io/service-account-token'')]"

definition portal_role_binding :: "portal_settings \<Rightarrow> pyval" where
  "portal_role_binding ps =
     PDict [
       (''apiVersion'', PStr ''rbac.authorization.k8s.io/v1''),
       (''kind'', PStr ''ClusterRoleBinding''),
       (''metadata'', PDict [
         (''name'', PStr (''educates-training-portal-'' @ pd_namespace ps)),
         (''labels'', PDict (portal_labels ps))]),
       (''roleRef'', PDict [
         (''apiGroup'', PStr ''rbac.authorization.k8s.io''),
         (''kind'', PStr ''ClusterRole''),
         (''name'', PStr ''educates-training-portal'')]),
       (''subjects'', PList [
         PDict [
           (''kind'', PStr ''ServiceAccount''),
           (''name'', PStr ''training-portal''),
           (''namespace'', PStr (pd_namespace ps))]])]"

definition portal_claim_spec :: "operator_config \<Rightarrow> (string \<times> pyval) list" where
  "portal_claim_spec cfg =
     [
       (''accessModes'', PList [PStr ''ReadWriteOnce'']),
       (''resources'', PDict [(''requests'', PDict [(''storage'', PStr ''1Gi'')])])]
     @ (if truthy (oc_storage_class cfg) then [(''storageClassName'', oc_storage_class cfg)] else [])"

definition portal_volume_claim :: "operator_config \<Rightarrow> portal_settings \<Rightarrow> pyval" where
  "portal_volume_claim cfg ps =
     PDict [
       (''apiVersion'', PStr ''v1''),
       (''kind'', PStr ''PersistentVolumeClaim''),
       (''metadata'', PDict [
         (''name'', PStr ''training-portal''),
         (''namespace'', PStr (pd_namespace ps)),
         (''labels'', PDict (portal_labels ps))]),
       (''spec'', PDict (portal_claim_spec cfg))]"

definition portal_config_map :: "portal_settings \<Rightarrow> pyval" where
  "portal_config_map ps =
     PDict [
       (''apiVersion'', PStr ''v1''),
       (''kind'', PStr ''ConfigMap''),
       (''metadata'', PDict [
         (''name'', PStr ''training-portal''),
         (''namespace'', PStr (pd_namespace ps)),
         (''labels'', PDict (portal_labels ps))]),
       (''data'', PDict [(''logo'', pd_logo ps)])]"

definition portal_env :: "operator_config \<Rightarrow> portal_settings \<Rightarrow> pyval list" where
  "portal_env cfg ps =
     [
       PDict [(''name'', PStr ''TRAINING_PORTAL''), (''value'', PStr (pd_name ps))],
       PDict [(''name'', PStr ''PORTAL_UID''), (''value'', pd_uid ps)],
       PDict [(''name'', PStr ''PORTAL_HOSTNAME''), (''value'', pd_hostname ps)],
       PDict [(''name'', PStr ''PORTAL_TITLE''), (''value'', pd_title ps)],
       PDict [(''name'', PStr ''PORTAL_PASSWORD''), (''value'', pd_password ps)],
       PDict [(''name'', PStr ''PORTAL_INDEX''), (''value'', pd_index ps)],
       PDict [(''name'', PStr ''THEME_NAME''), (''value'', pd_theme_name ps)],
       PDict [(''name'', PStr ''FRAME_ANCESTORS''), (''value'', PStr (pd_frame_ancestors ps))],
       PDict [(''name'', PStr ''ADMIN_USERNAME''), (''value'', pd_admin_username ps)],
       PDict [(''name'', PStr ''ADMIN_PASSWORD''), (''value'', pd_admin_password ps)],
       PDict [(''name'', PStr ''INGRESS_DOMAIN''), (''value'', oc_ingress_domain cfg)],
       PDict [(''name'', PStr ''SESSION_COOKIE_DOMAIN''), (''value'', pd_cookie_domain ps)],
       PDict [(''name'', PStr ''REGISTRATION_TYPE''), (''value'', pd_registration_type ps)],
       PDict [
         (''name'', PStr ''ENABLE_REGISTRATION''),
         (''value'', PStr (pd_enable_registration ps))],
       PDict [(''name'', PStr ''CATALOG_VISIBILITY''), (''value'', pd_catalog_visibility ps)],
       PDict [(''name'', PStr ''INGRESS_CLASS''), (''value'', oc_ingress_class cfg)],
       PDict [(''name'', PStr ''INGRESS_PROTOCOL''), (''value'', oc_ingress_protocol cfg)],
       PDict [(''name'', PStr ''INGRESS_SECRET''), (''value'', oc_ingress_secret cfg)],
       PDict [(''name'', PStr ''GOOGLE_TRACKING_ID''), (''value'', pd_google_tracking_id ps)],
       PDict [(''name'', PStr ''CLARITY_TRACKING_ID''), (''value'', pd_clarity_tracking_id ps)],
       PDict [(''name'', PStr ''AMPLITUDE_TRACKING_ID''), (''value'', pd_amplitude_tracking_id ps)],
       PDict [(''name'', PStr ''ANALYTICS_WEBHOOK_URL''), (''value'', pd_analytics_url ps)]]"

text \<open>The certificate authority is mounted when both secrets are there.\<close>

definition with_ingress_ca :: "operator_config \<Rightarrow> bool" where
  "with_ingress_ca cfg \<longleftrightarrow> truthy (oc_ingress_secret cfg) \<and> truthy (oc_ingress_ca_secret cfg)"

definition portal_mounts :: "operator_config \<Rightarrow> pyval list" where
  "portal_mounts cfg =
     [
       PDict [(''name'', PStr ''data''), (''mountPath'', PStr ''/opt/app-root/data'')],
       PDict [(''name'', PStr ''config''), (''mountPath'', PStr ''/opt/app-root/config'')],
       PDict [(''name'', PStr ''theme''), (''mountPath'', PStr ''/opt/app-root/static/theme'')],
       PDict [
         (''name'', PStr ''token''),
         (''mountPath'', PStr ''/var/run/secrets/kubernetes.io/serviceaccount''),
         (''readOnly'', PBool True)]]
     @ (if with_ingress_ca cfg then [
        PDict [
          (''name'', PStr ''ingress-ca''),
          (''mountPath'', PStr ''/opt/app-root/certs/ingress-ca''),
          (''readOnly'', PBool True)]] else [])"

definition portal_volumes :: "operator_config \<Rightarrow> portal_settings \<Rightarrow> pyval list" where
  "portal_volumes cfg ps =
     [
       PDict [
         (''name'', PStr ''data''),
         (''persistentVolumeClaim'', PDict [(''claimName'', PStr ''training-portal'')])],
       PDict [
         (''name'', PStr ''config''),
         (''configMap'', PDict [(''name'', PStr ''training-portal'')])],
       PDict [(''name'', PStr ''theme''), (''secret'', PDict [(''secretName'', pd_theme_name ps)])],
       PDict [
         (''name'', PStr ''token''),
         (''secret'', PDict [(''secretName'', PStr ''training-portal-token'')])]]
     @ (if with_ingress_ca cfg then [
        PDict [
          (''name'', PStr ''ingress-ca''),
          (''secret'', PDict [(''secretName'', oc_ingress_ca_secret cfg)])]] else [])"

definition storage_init_container :: "operator_config \<Rightarrow> pyval \<Rightarrow> pyval" where
  "storage_init_container cfg pull =
     PDict [
       (''name'', PStr ''storage-permissions-initialization''),
       (''image'', config_image cfg ''training-portal''),
       (''imagePullPolicy'', pull),
       (''securityContext'', PDict [(''runAsUser'', PInt 0)]),
       (''command'', PList [PStr ''/bin/sh'', PStr ''-c'']),
       (''args'', PList [
         PStr (''chown '' @ py_str (oc_storage_user cfg) @ '':'' @ py_str (oc_storage_group cfg) @ '' /mnt && chmod og+rwx /mnt'')]),
       (''resources'', PDict [
         (''requests'', PDict [(''memory'', PStr ''256Mi'')]),
         (''limits'', PDict [(''memory'', PStr ''256Mi'')])]),
       (''volumeMounts'', PList [PDict [(''name'', PStr ''data''), (''mountPath'', PStr ''/mnt'')]])]"

definition portal_pod_spec :: "operator_config \<Rightarrow> portal_settings \<Rightarrow> pyval \<Rightarrow> (string \<times> pyval) list" where
  "portal_pod_spec cfg ps pull =
     [
       (''serviceAccountName'', PStr ''training-portal''),
       (''automountServiceAccountToken'', PBool False),
       (''securityContext'', PDict [
         (''runAsUser'', PInt 1001),
         (''fsGroup'', oc_storage_group cfg),
         (''supplementalGroups'', PList [oc_storage_group cfg])]),
       (''containers'', PList [
         PDict [
           (''name'', PStr ''portal''),
           (''image'', config_image cfg ''training-portal''),
           (''imagePullPolicy'', pull),
           (''securityContext'', PDict [
             (''allowPrivilegeEscalation'', PBool False),
             (''capabilities'', PDict [(''drop'', PList [PStr ''ALL''])]),
             (''runAsNonRoot'', PBool True)]),
           (''resources'', PDict [
             (''requests'', PDict [(''memory'', PStr ''256Mi'')]),
             (''limits'', PDict [(''memory'', PStr ''256Mi'')])]),
           (''ports'', PList [
             PDict [(''containerPort'', PInt 8080), (''protocol'', PStr ''TCP'')],
             PDict [(''containerPort'', PInt 8081), (''protocol'', PStr ''TCP'')]]),
           (''readinessProbe'', PDict [
             (''httpGet'', PDict [(''path'', PStr ''/healthz''), (''port'', PInt 8081)]),
             (''initialDelaySeconds'', PInt 10),
             (''periodSeconds'', PInt 10)]),
           (''livenessProbe'', PDict [
             (''httpGet'', PDict [(''path'', PStr ''/healthz''), (''port'', PInt 8081)]),
             (''initialDelaySeconds'', PInt 15),
             (''periodSeconds'', PInt 10)]),
           (''env'', PList (portal_env cfg ps)),
           (''volumeMounts'', PList (portal_mounts cfg))]]),
       (''volumes'', PList (portal_volumes cfg ps))]
     @ (if truthy (oc_storage_user cfg) then [(''initContainers'', PList [storage_init_container cfg pull])] else [])"

definition portal_deployment :: "operator_config \<Rightarrow> portal_settings \<Rightarrow> pyval \<Rightarrow> pyval" where
  "portal_deployment cfg ps pull =
     PDict [
       (''apiVersion'', PStr ''apps/v1''),
       (''kind'', PStr ''Deployment''),
       (''metadata'', PDict [
         (''name'', PStr ''training-portal''),
         (''namespace'', PStr (pd_namespace ps)),
         (''labels'', PDict [
           (''training.educates.dev/component'', PStr ''portal''),
           (''training.educates.dev/portal.name'', PStr (pd_name ps)),
           (''training.educates.dev/portal.uid'', pd_uid ps),
           (''training.educates.dev/portal.services.dashboard'', PStr ''true'')])]),
       (''spec'', PDict [
         (''replicas'', PInt 1),
         (''selector'', PDict [(''matchLabels'', PDict [(''deployment'', PStr ''training-portal'')])]),
         (''strategy'', PDict [(''type'', PStr ''Recreate'')]),
         (''template'', PDict [
           (''metadata'', PDict [
             (''labels'', PDict [
               (''deployment'', PStr ''training-portal''),
               (''training.educates.dev/component'', PStr ''portal''),
               (''training.educates.dev/portal.name'', PStr (pd_name ps)),
               (''training.educates.dev/portal.uid'', pd_uid ps),
               (''training.educates.dev/portal.services.dashboard'', PStr ''true'')])]),
           (''spec'', PDict (portal_pod_spec cfg ps pull))])])]"

definition portal_service :: "portal_settings \<Rightarrow> pyval" where
  "portal_service ps =
     PDict [
       (''apiVersion'', PStr ''v1''),
       (''kind'', PStr ''Service''),
       (''metadata'', PDict [
         (''name'', PStr ''training-portal''),
         (''namespace'', PStr (pd_namespace ps)),
         (''labels'', PDict (portal_labels ps))]),
       (''spec'', PDict [
         (''type'', PStr ''ClusterIP''),
         (''ports'', PList [
           PDict [(''port'', PInt 80), (''protocol'', PStr ''TCP''), (''targetPort'', PInt 8080)]]),
         (''selector'', PDict [(''deployment'', PStr ''training-portal'')])])]"

definition ingress_annotations :: "operator_config \<Rightarrow> (string \<times> pyval) list" where
  "ingress_annotations cfg =
     (if truthy (oc_ingress_secret cfg) then
        [
          (''ingress.kubernetes.io/force-ssl-redirect'', PStr ''true''),
          (''nginx.ingress.kubernetes.io/ssl-redirect'', PStr ''true''),
          (''nginx.ingress.kubernetes.io/force-ssl-redirect'', PStr ''true'')]
      else [])"

definition portal_ingress_spec :: "operator_config \<Rightarrow> portal_settings \<Rightarrow> pyval \<Rightarrow> (string \<times> pyval) list" where
  "portal_ingress_spec cfg ps tls =
     [
       (''rules'', PList [
         PDict [
           (''host'', pd_hostname ps),
           (''http'', PDict [
             (''paths'', PList [
               PDict [
                 (''path'', PStr ''/''),
                 (''pathType'', PStr ''Prefix''),
                 (''backend'', PDict [
                   (''service'', PDict [
                     (''name'', PStr ''training-portal''),
                     (''port'', PDict [(''number'', PInt 80)])])])]])])]])]
     @ (if truthy (oc_ingress_class cfg) then [(''ingressClassName'', oc_ingress_class cfg)] else [])
     @ (if truthy (oc_ingress_secret cfg)
        then [(''tls'', PList [PDict [(''hosts'', PList [pd_hostname ps]), (''secretName'', tls)]])] else [])"

definition portal_ingress :: "operator_config \<Rightarrow> portal_settings \<Rightarrow> pyval \<Rightarrow> pyval" where
  "portal_ingress cfg ps tls =
     PDict [
       (''apiVersion'', PStr ''networking.k8s.io/v1''),
       (''kind'', PStr ''Ingress''),
       (''metadata'', PDict [
         (''name'', PStr ''training-portal''),
         (''namespace'', PStr (pd_namespace ps)),
         (''labels'', PDict (portal_labels ps)),
         (''annotations'', PDict (ingress_annotations cfg))]),
       (''spec'', PDict (portal_ingress_spec cfg ps tls))]"

text \<open>Secrets are copied into the namespace of the portal.\<close>

definition copier_rule :: "portal_settings \<Rightarrow> pyval \<Rightarrow> pyval \<Rightarrow> pyval" where
  "copier_rule ps secret source =
     PDict [
       (''sourceSecret'', PDict [(''name'', secret), (''namespace'', source)]),
       (''targetNamespaces'', PDict [(''nameSelector'', PDict [(''matchNames'', PList [PStr (pd_namespace ps)])])])]"

definition ca_copier_rule :: "operator_config \<Rightarrow> portal_settings \<Rightarrow> pyval" where
  "ca_copier_rule cfg ps =
     PDict [
       (''sourceSecret'', PDict [(''name'', oc_ingress_ca_secret cfg), (''namespace'', oc_namespace cfg)]),
       (''targetNamespaces'', PDict [(''nameSelector'', PDict [(''matchNames'', PList [PStr (pd_namespace ps)])])]),
       (''reclaimPolicy'', PStr ''Delete'')]"

definition ingress_copier :: "portal_settings \<Rightarrow> pyval list \<Rightarrow> pyval" where
  "ingress_copier ps rules =
     PDict [
       (''apiVersion'', PStr ''secrets.educates.dev/v1beta1''),
       (''kind'', PStr ''SecretCopier''),
       (''metadata'', PDict [
         (''name'', PStr (''educates-ingress-secret-'' @ pd_namespace ps)),
         (''labels'', PDict (portal_labels ps))]),
       (''spec'', PDict [(''rules'', PList rules)])]"

definition theme_copier :: "portal_settings \<Rightarrow> pyval list \<Rightarrow> pyval" where
  "theme_copier ps rules =
     PDict [
       (''apiVersion'', PStr ''secrets.educates.dev/v1beta1''),
       (''kind'', PStr ''SecretCopier''),
       (''metadata'', PDict [
         (''name'', PStr (''educates-website-theme-'' @ pd_namespace ps)),
         (''labels'', PDict (portal_labels ps))]),
       (''spec'', PDict [(''rules'', PList rules)])]"

text \<open>
  The rules of the copier for the secrets of the ingress, none if there is nothing to copy. For a certificate of
  the portal that is already in its namespace there is no copier, and the rule for the certificate authority
  is then added to an empty string, which has no \<open>get\<close>.
\<close>

definition ingress_rules :: "operator_config \<Rightarrow> portal_settings \<Rightarrow> pyval \<Rightarrow> pyval \<Rightarrow> pyval list option result" where
  "ingress_rules cfg ps secret source =
     (if \<not> truthy (oc_ingress_secret cfg) then Inr None
      else
        (let rules = (if truthy secret
                      then (if truthy source \<and> \<not> py_eq source (PStr (pd_namespace ps)) then Some [copier_rule ps secret source] else None)
                      else Some [copier_rule ps (oc_ingress_secret cfg) (oc_namespace cfg)])
         in if \<not> truthy (oc_ingress_ca_secret cfg) then Inr rules
            else (case rules of None \<Rightarrow> Inl AttributeError | Some rs \<Rightarrow> Inr (Some (rs @ [ca_copier_rule cfg ps])))))"

definition portal_resources :: "operator_world \<Rightarrow> portal_request \<Rightarrow> portal_settings \<Rightarrow> pyval \<Rightarrow> pyval list result" where
  "portal_resources w rq ps namespace =
     (let cfg = ow_config w; get = (\<lambda>k. if truthy (oc_ingress_secret cfg) then lookup (pq_spec rq) k PNone else Inr PNone)
      in bindE (pull_policy (config_image cfg ''training-portal''))
    (\<lambda>pull. bindE (get ''portal.ingress.tlsCertificateRef.name'')
    (\<lambda>secret. bindE (get ''portal.ingress.tlsCertificateRef.namespace'')
    (\<lambda>source. bindE (ingress_rules cfg ps secret source)
    (\<lambda>rules. Inr
       ((case rules of None \<Rightarrow> [] | Some rs \<Rightarrow> [ow_adopt w (ingress_copier ps rs) namespace])
        @ [ow_adopt w (theme_copier ps [copier_rule ps (pd_theme_name ps) (oc_namespace cfg)]) namespace,
           portal_service_account ps, portal_account_token ps, ow_adopt w (portal_role_binding ps) namespace,
           portal_volume_claim cfg ps, portal_config_map ps, portal_service ps,
           portal_ingress cfg ps (if truthy secret then secret else oc_ingress_secret cfg),
           portal_deployment cfg ps pull]))))))"

definition create_portal_resources :: "operator_world \<Rightarrow> portal_request \<Rightarrow> pyval list \<Rightarrow> unit kube" where
  "create_portal_resources w rq objs =
     kube_try (kube_each (\<lambda>obj. kube_bind (create_object w obj) (\<lambda>_. kube_return ())) objs)
       (\<lambda>e. if is_KubernetesError e
             then portal_retry w rq ''Retrying'' (''Unexpected error creating training portal '' @ pq_name rq @ ''.'')
             else kube_raise e)"

section \<open>The handler\<close>

definition running_status :: "operator_config \<Rightarrow> portal_settings \<Rightarrow> pyval" where
  "running_status cfg ps =
     educates_status
       [(''phase'', PStr ''Running''), (''message'', PNone), (''namespace'', PStr (pd_namespace ps)), (''url'', PStr (portal_url cfg ps)),
        (''credentials'', PDict [
           (''admin'', PDict [(''username'', pd_admin_username ps), (''password'', pd_admin_password ps)]),
           (''robot'', PDict [(''username'', pd_robot_username ps), (''password'', pd_robot_password ps)])]),
        (''clients'', PDict [(''robot'', PDict [(''id'', pd_robot_client_id ps), (''secret'', pd_robot_client_secret ps)])])]"

definition provision_portal :: "operator_world \<Rightarrow> portal_request \<Rightarrow> portal_settings \<Rightarrow> unit kube" where
  "provision_portal w rq ps =
     kube_bind (create_portal_namespace w rq ps)
  (\<lambda>namespace. kube_bind (apply_portal_policy w ps)
  (\<lambda>_. kube_bind (delete_all w ''LimitRange'' (PStr (pd_namespace ps)))
  (\<lambda>_. kube_bind (delete_all w ''ResourceQuota'' (PStr (pd_namespace ps)))
  (\<lambda>_. kube_bind (kube_lift (portal_resources w rq ps namespace)) (create_portal_resources w rq)))))"

definition deploy_portal :: "operator_world \<Rightarrow> portal_request \<Rightarrow> portal_settings \<Rightarrow> unit kube" where
  "deploy_portal w rq ps =
     kube_bind (provision_portal w rq ps)
  (\<lambda>_. kube_bind (report_analytics_event w ''Resource/Ready'' (PDict (portal_event rq)))
  (\<lambda>_. set_status (running_status (ow_config w) ps)))"

definition training_portal_create :: "operator_world \<Rightarrow> portal_request \<Rightarrow> unit kube" where
  "training_portal_create w rq =
     kube_bind (report_analytics_event w ''Resource/Create'' (PDict (portal_event rq)))
  (\<lambda>_. kube_bind (kube_lift (load_portal_settings (ow_config w) rq))
  (\<lambda>ps. kube_bind (find_portal_namespace w rq)
  (\<lambda>found. case found of Some namespace \<Rightarrow> existing_namespace w rq namespace | None \<Rightarrow> deploy_portal w rq ps)))"

end
