(* ===== verification/Portal_Attempts.thy ===== *)
theory Portal_Attempts
  imports Portal_Deployment
begin

text \<open>
  Attempts to deploy a training portal: whose namespace is deleted, when the portal is reported as running, and
  a configuration for which that never happens.
\<close>

section \<open>Only what the portal owns\<close>

lemma settings_namespace:
  "load_portal_settings cfg rq = Inr ps \<Longrightarrow> pd_namespace ps = portal_namespace (pq_name rq) \<and> pd_name ps = pq_name rq"
  by (auto simp: load_portal_settings_def Let_def bindE_Inr_iff)

definition portal_phase :: "portal_request \<Rightarrow> string \<Rightarrow> bool" where
  "portal_phase rq p \<longleftrightarrow> lookup (pq_status rq) ''educates.phase'' PNone = Inr (PStr p)"

text \<open>
  What an attempt may write. Nothing is created before the namespace was found to be missing. The namespace is
  deleted only if it was found, belongs to the portal, and an attempt before this one failed not too long ago; limits and
  quotas are deleted in a namespace that was just created.
\<close>

definition portal_write :: "operator_world \<Rightarrow> portal_request \<Rightarrow> kube_call list \<Rightarrow> kube_call \<Rightarrow> bool" where
  "portal_write w rq before c \<longleftrightarrow>
     (let ns = PStr (portal_namespace (pq_name rq))
      in case c of
           Create obj \<Rightarrow> missing (ow_api w) before ''Namespace'' PNone ns
         | Delete obj \<Rightarrow>
             got (ow_api w) before ''Namespace'' PNone ns obj \<and> resource_owned_by obj (pq_body rq) = Inr True
               \<and> portal_phase rq ''Retrying'' \<and> \<not> portal_overdue rq
           \<or> missing (ow_api w) before ''Namespace'' PNone ns
               \<and> (listed (ow_api w) before ''LimitRange'' ns obj \<or> listed (ow_api w) before ''ResourceQuota'' ns obj)
         | _ \<Rightarrow> \<not> is_write c)"

lemma portal_write_reads [simp]:
  "portal_write w rq tr (Get k ns n)" "portal_write w rq tr (Query k ns)" "portal_write w rq tr (SetStatus v)"
  "portal_write w rq tr (Report e d)" "portal_write w rq tr (Draw i)"
  by (simp_all add: portal_write_def)

lemma missing_append: "missing api tr kind ns name \<Longrightarrow> missing api (b @ tr) kind ns name"
  unfolding missing_def by (metis append.assoc)

lemma runs_outcome [runs_intros]:
  "(\<And>t v. P t (SetStatus v)) \<Longrightarrow> (\<And>t e d. P t (Report e d)) \<Longrightarrow> runs P (portal_outcome w rq state message event e) tr"
  unfolding portal_outcome_def by (intro runs_intros) auto

lemma runs_retry [runs_intros]:
  "(\<And>t v. P t (SetStatus v)) \<Longrightarrow> (\<And>t e d. P t (Report e d)) \<Longrightarrow> runs P (portal_retry w rq state message) tr"
  unfolding portal_retry_def by (intro runs_intros)

lemma runs_existing:
  assumes "got (ow_api w) tr ''Namespace'' PNone (PStr (portal_namespace (pq_name rq))) namespace"
  shows "runs (portal_write w rq) (existing_namespace w rq namespace) tr"
  unfolding existing_namespace_def Let_def delete_portal_namespace_def
  using assms
  by (auto intro!: runs_bind_lift runs_intros simp: portal_write_def portal_phase_def Let_def)

text \<open>Everything after the namespace was found to be missing.\<close>

lemma runs_from_missing:
  assumes "missing (ow_api w) tr ''Namespace'' PNone (PStr (portal_namespace (pq_name rq)))"
    and "runs (\<lambda>before c. missing (ow_api w) before ''Namespace'' PNone (PStr (portal_namespace (pq_name rq))) \<longrightarrow> portal_write w rq before c) m tr"
  shows "runs (portal_write w rq) m tr"
  using assms(2) by (rule runs_mono) (use missing_append [OF assms(1)] in blast)

lemma runs_deploy:
  assumes "missing (ow_api w) tr ''Namespace'' PNone (PStr (portal_namespace (pq_name rq)))"
    and "pd_namespace ps = portal_namespace (pq_name rq)"
  shows "runs (portal_write w rq) (deploy_portal w rq ps) tr"
proof (rule runs_from_missing [OF assms(1)])
  let ?P = "\<lambda>before c. missing (ow_api w) before ''Namespace'' PNone (PStr (portal_namespace (pq_name rq))) \<longrightarrow> portal_write w rq before c"
  have create: "?P t (Create obj)" for t obj by (simp add: portal_write_def Let_def)
  have delete: "runs ?P (delete_all w kind (PStr (pd_namespace ps))) t" if "kind \<in> {''LimitRange'', ''ResourceQuota''}" for kind t
    unfolding delete_all_def using that assms(2)
    by (intro runs_query_each) (auto simp: delete_quietly_def portal_write_def Let_def intro!: runs_intros)
  show "runs ?P (deploy_portal w rq ps) tr"
    unfolding deploy_portal_def provision_portal_def create_portal_namespace_def apply_portal_policy_def create_portal_resources_def
    by (intro runs_bind runs_lift runs_try runs_each delete runs_create create)
      (auto intro!: runs_intros create runs_each)
qed

text \<open>
  \<^bold>\<open>C35.\<close> An attempt to deploy a portal never touches a namespace of somebody else: if the namespace is there, nothing is
  created, and it is deleted only if the portal owns it and a failed attempt is being retried; everything else
  is written after the namespace was found to be missing.
\<close>

theorem portal_touches_only_its_own:
  assumes "snd (training_portal_create w rq []) = later @ c # before"
  shows "portal_write w rq before c"
proof -
  have found: "runs (portal_write w rq) (find_portal_namespace w rq) tr" for tr
    unfolding find_portal_namespace_def by (auto intro!: runs_intros)
  have rest: "runs (portal_write w rq)
      (case answer of Some namespace \<Rightarrow> existing_namespace w rq namespace | None \<Rightarrow> deploy_portal w rq ps) tr'"
    if "load_portal_settings (ow_config w) rq = Inr ps" and "find_portal_namespace w rq tr = (Inr answer, tr')" for ps answer tr tr'
  proof -
    have "answer = None \<and> missing (ow_api w) tr' ''Namespace'' PNone (PStr (portal_namespace (pq_name rq)))
        \<or> (\<exists>namespace. answer = Some namespace
             \<and> got (ow_api w) tr' ''Namespace'' PNone (PStr (portal_namespace (pq_name rq))) namespace)"
      using that(2)
      by (auto simp: find_portal_namespace_def portal_retry_def portal_outcome_def kube_simps kube_get_def report_trace
          got_now missing_now split: sum.splits if_splits)
    then show ?thesis using settings_namespace [OF that(1)] by (auto intro: runs_existing runs_deploy)
  qed
  have "runs (portal_write w rq) (training_portal_create w rq) []"
    unfolding training_portal_create_def
    by (intro runs_bind runs_bind_lift runs_report found rest) auto
  from runs_call [OF this assms] show ?thesis by simp
qed

text \<open>A portal that was just defined, its namespace, and an API that knows the namespace once something was created.\<close>

definition first_attempt :: portal_request where
  "first_attempt =
     \<lparr>pq_name = ''lab'', pq_uid = PStr ''u'',
      pq_body = PDict [(''apiVersion'', PStr ''v1''), (''kind'', PStr ''TrainingPortal''),
                       (''metadata'', PDict [(''name'', PStr ''lab''), (''uid'', PStr ''u'')])],
      pq_spec = PDict [], pq_status = PDict [], pq_retry = 0, pq_runtime = 0\<rparr>"

definition later_attempt :: portal_request where
  "later_attempt = first_attempt\<lparr>pq_status := educates_status [(''phase'', PStr ''Retrying'')], pq_runtime := 60 * 1000000\<rparr>"

definition lab_namespace :: pyval where
  "lab_namespace =
     PDict [(''metadata'', PDict [(''name'', PStr ''lab-ui''), (''ownerReferences'', PList [PDict [
       (''apiVersion'', PStr ''v1''), (''kind'', PStr ''TrainingPortal''), (''name'', PStr ''lab''), (''uid'', PStr ''u'')]])])]"

definition deploy_world :: operator_world where
  "deploy_world = lab_world
     \<lparr>ow_config := lab_config\<lparr>oc_images := [(''training-portal'', PStr ''portal:1.0'')]\<rparr>,
      ow_api := ow_api lab_world\<lparr>ka_get := \<lambda>tr k ns n. if creations tr = [] then Inl ObjectDoesNotExist else Inr lab_namespace\<rparr>\<rparr>"

definition retry_world :: operator_world where
  "retry_world = deploy_world\<lparr>ow_api := ow_api lab_world\<lparr>ka_get := \<lambda>tr k ns n. Inr lab_namespace\<rparr>\<rparr>"

theorem portal_touches_only_its_own_witness:
  "snd (training_portal_create retry_world later_attempt []) =
     [SetStatus (educates_status [(''phase'', PStr ''Retrying''), (''message'', PStr ''Deleting lab-ui and retrying.'')]),
      Delete lab_namespace, Get ''Namespace'' PNone (PStr ''lab-ui'')]
   \<and> portal_write retry_world later_attempt [Get ''Namespace'' PNone (PStr ''lab-ui'')] (Delete lab_namespace)"
proof
  show run: "snd (training_portal_create retry_world later_attempt []) =
     [SetStatus (educates_status [(''phase'', PStr ''Retrying''), (''message'', PStr ''Deleting lab-ui and retrying.'')]),
      Delete lab_namespace, Get ''Namespace'' PNone (PStr ''lab-ui'')]"
    by code_simp
  show "portal_write retry_world later_attempt [Get ''Namespace'' PNone (PStr ''lab-ui'')] (Delete lab_namespace)"
    by (rule portal_touches_only_its_own
        [of _ _ "[SetStatus (educates_status [(''phase'', PStr ''Retrying''), (''message'', PStr ''Deleting lab-ui and retrying.'')])]"])
      (simp add: run)
qed

section \<open>When the portal is running\<close>

definition policy_objects :: "operator_config \<Rightarrow> portal_settings \<Rightarrow> pyval list" where
  "policy_objects cfg ps =
     (if oc_policy_engine cfg = PStr ''pod-security-policies'' then [portal_psp_binding ps] else [])
   @ (if oc_policy_engine cfg = PStr ''security-context-constraints'' then [portal_scc_binding ps] else [])"

text \<open>Everything that belongs to a portal, in the order of its creation.\<close>

definition deployed :: "operator_world \<Rightarrow> portal_request \<Rightarrow> portal_settings \<Rightarrow> pyval list \<Rightarrow> bool" where
  "deployed w rq ps objs \<longleftrightarrow>
     (\<exists>namespace resources. portal_resources w rq ps namespace = Inr resources
        \<and> objs = ow_adopt w (portal_namespace_body (ow_config w) ps) (pq_body rq) # policy_objects (ow_config w) ps @ resources)"

definition silent :: "kube_call \<Rightarrow> bool" where
  "silent c \<longleftrightarrow> (case c of SetStatus v \<Rightarrow> \<not> phase ''Running'' (Some v) | _ \<Rightarrow> True)"

definition no_creation :: "kube_call \<Rightarrow> bool" where
  "no_creation c \<longleftrightarrow> (case c of Create obj \<Rightarrow> False | _ \<Rightarrow> True)"

lemma runs_silent:
  assumes "runs (\<lambda>_. silent) m tr" and "m tr = (r, tr')" and "\<not> phase p (final_status tr)" and "p = ''Running''"
  shows "\<not> phase p (final_status tr')"
proof -
  have "calls_ok (\<lambda>_. silent) tr new \<Longrightarrow> \<not> phase p (final_status (new @ tr))" for new
    using assms(3,4)
  proof (induction new)
    case (Cons c new)
    then show ?case by (cases c) (simp_all add: silent_def)
  qed simp
  with assms(1,2) show ?thesis by (auto simp: runs_def)
qed

lemma runs_no_creation:
  assumes "runs (\<lambda>_. no_creation) m tr" and "m tr = (r, tr')"
  shows "creations tr' = creations tr"
proof -
  have "calls_ok (\<lambda>_. no_creation) tr new \<Longrightarrow> creations (new @ tr) = creations tr" for new
  proof (induction new)
    case (Cons c new)
    then show ?case by (cases c) (simp_all add: no_creation_def)
  qed simp
  with assms show ?thesis by (auto simp: runs_def)
qed

lemma silent_calls [simp]:
  "silent (Get k ns n)" "silent (Query k ns)" "silent (Create obj)" "silent (Delete obj)" "silent (Report e d)"
  "silent (SetStatus (educates_status [(''phase'', PStr p), m])) \<longleftrightarrow> p \<noteq> ''Running''"
  by (simp_all add: silent_def phase_def educates_status_def)

lemma runs_outcome_silent:
  "state \<noteq> ''Running'' \<Longrightarrow> runs (\<lambda>_. silent) (portal_outcome w rq state message event e) tr"
  unfolding portal_outcome_def by (intro runs_intros) simp_all

lemma runs_retry_silent: "state \<noteq> ''Running'' \<Longrightarrow> runs (\<lambda>_. silent) (portal_retry w rq state message) tr"
  by (simp add: portal_retry_def runs_outcome_silent)

lemmas silent_intros = runs_outcome_silent runs_retry_silent runs_bind runs_lift runs_try runs_each runs_create runs_write
  runs_get runs_query runs_return runs_raise runs_report

lemma delete_all_quiet:
  "runs (\<lambda>_. silent) (delete_all w kind ns) tr" "runs (\<lambda>_. no_creation) (delete_all w kind ns) tr"
  unfolding delete_all_def delete_quietly_def by (auto intro!: silent_intros simp: no_creation_def)

lemma existing_silent: "runs (\<lambda>_. silent) (existing_namespace w rq namespace) tr"
  unfolding existing_namespace_def delete_portal_namespace_def Let_def by (auto intro!: silent_intros)

lemma provision_silent: "runs (\<lambda>_. silent) (provision_portal w rq ps) tr"
  unfolding provision_portal_def create_portal_namespace_def apply_portal_policy_def create_portal_resources_def
  by (intro runs_bind runs_lift runs_try runs_each delete_all_quiet runs_create) (auto intro!: silent_intros)

lemma existing_never_succeeds: "existing_namespace w rq namespace tr \<noteq> (Inr x, tr')"
  by (auto simp: existing_namespace_def delete_portal_namespace_def portal_retry_def portal_outcome_def kube_bind_Inr kube_raise_def
      Let_def split: if_splits)

lemma outcome_never_succeeds [simp]:
  "portal_outcome w rq state message event e tr \<noteq> (Inr x, tr')" "portal_retry w rq state message tr \<noteq> (Inr x, tr')"
  by (simp_all add: portal_retry_def portal_outcome_def kube_bind_Inr kube_raise_def)

lemma kube_try_Inr:
  "kube_try m h tr = (Inr x, tr'') \<longleftrightarrow> m tr = (Inr x, tr'') \<or> (\<exists>e tr'. m tr = (Inl e, tr') \<and> h e tr' = (Inr x, tr''))"
  by (auto simp: kube_try_def split: prod.splits sum.splits)

lemma create_object_Inr: "create_object w obj tr = (Inr x, tr') \<Longrightarrow> creations tr' = creations tr @ [obj]"
  by (auto simp: create_object_def kube_write_def)

lemma create_each_Inr:
  "kube_each (\<lambda>obj. kube_bind (create_object w obj) (\<lambda>_. kube_return ())) objs tr = (Inr x, tr') \<Longrightarrow>
     creations tr' = creations tr @ objs"
  by (induction objs arbitrary: tr)
    (auto simp: kube_bind_Inr kube_return_def dest!: create_object_Inr)

lemma provision_deploys:
  assumes "provision_portal w rq ps tr = (Inr x, tr')" and "creations tr = []"
  shows "deployed w rq ps (creations tr')"
proof -
  from assms(1) obtain namespace tr1 tr2 tr3 tr4 objs where
    ns: "create_portal_namespace w rq ps tr = (Inr namespace, tr1)" and policy: "apply_portal_policy w ps tr1 = (Inr (), tr2)"
    and limits: "delete_all w ''LimitRange'' (PStr (pd_namespace ps)) tr2 = (Inr (), tr3)"
    and quotas: "delete_all w ''ResourceQuota'' (PStr (pd_namespace ps)) tr3 = (Inr (), tr4)"
    and objs: "portal_resources w rq ps namespace = Inr objs" and rest: "create_portal_resources w rq objs tr4 = (Inr x, tr')"
    by (auto simp: provision_portal_def kube_bind_Inr kube_lift_Inr)
  have "creations tr1 = [ow_adopt w (portal_namespace_body (ow_config w) ps) (pq_body rq)]"
    using ns assms(2)
    by (auto simp: create_portal_namespace_def kube_try_Inr kube_bind_Inr kube_get_def kube_raise_def dest!: create_object_Inr split: if_splits)
  moreover have "creations tr2 = creations tr1 @ policy_objects (ow_config w) ps"
    using policy
    by (auto simp: apply_portal_policy_def policy_objects_def kube_bind_Inr kube_return_def dest!: create_object_Inr split: if_splits)
  moreover have "creations tr4 = creations tr2"
    using runs_no_creation [OF delete_all_quiet(2) limits] runs_no_creation [OF delete_all_quiet(2) quotas] by simp
  moreover have "creations tr' = creations tr4 @ objs"
    using rest by (auto simp: create_portal_resources_def kube_try_Inr kube_raise_def dest!: create_each_Inr split: if_splits)
  ultimately show ?thesis using objs by (auto simp: deployed_def)
qed

lemma found_silent: "runs (\<lambda>_. silent) (find_portal_namespace w rq) tr"
  unfolding find_portal_namespace_def by (auto intro!: silent_intros)

lemma found_no_creation: "find_portal_namespace w rq tr = (r, tr') \<Longrightarrow> creations tr' = creations tr"
  by (auto simp: find_portal_namespace_def portal_retry_def portal_outcome_def kube_simps kube_get_def report_trace
      split: sum.splits if_splits)

lemma found_missing: "find_portal_namespace w rq tr = (Inr None, tr') \<Longrightarrow> final_status tr' = final_status tr"
  by (auto simp: find_portal_namespace_def kube_try_def kube_bind_def kube_return_def kube_raise_def kube_get_def split: if_splits sum.splits)

lemma running_phase: "phase ''Running'' (Some (running_status cfg ps))"
  by (simp add: phase_def running_status_def educates_status_def)

lemma deploy_cases:
  assumes "deploy_portal w rq ps tr = (r, tr')" and "creations tr = []" and "final_status tr = None"
  shows "r = Inr () \<and> final_status tr' = Some (running_status (ow_config w) ps) \<and> deployed w rq ps (creations tr')
       \<or> (\<exists>e. r = Inl e) \<and> \<not> phase ''Running'' (final_status tr')"
proof (cases "provision_portal w rq ps tr")
  case (Pair q tr1)
  show ?thesis
  proof (cases q)
    case (Inl e)
    have "\<not> phase ''Running'' (final_status tr1)"
      by (rule runs_silent [OF provision_silent Pair]) (simp_all add: assms(3) phase_def)
    with Pair Inl assms(1) show ?thesis by (auto simp: deploy_portal_def kube_bind_def)
  next
    case (Inr x)
    with Pair assms(1) have "r = Inr ()" and "final_status tr' = Some (running_status (ow_config w) ps)"
      and "creations tr' = creations tr1"
      by (auto simp: deploy_portal_def kube_bind_def report_trace set_status_def)
    with provision_deploys [OF Pair [unfolded Inr] assms(2)] show ?thesis by simp
  qed
qed

text \<open>
  \<^bold>\<open>C36.\<close> A portal is reported as running exactly when the attempt to deploy it succeeded, and then all of its objects
  have been created, in their order: the namespace first and the deployment, which starts the
  workload, last.
\<close>

theorem running_when_deployed:
  assumes "training_portal_create w rq [] = (r, tr)"
  shows "(phase ''Running'' (final_status tr) \<longleftrightarrow> r = Inr ())
       \<and> (r = Inr () \<longrightarrow>
            (\<exists>ps pull. load_portal_settings (ow_config w) rq = Inr ps \<and> deployed w rq ps (creations tr)
               \<and> final_status tr = Some (running_status (ow_config w) ps)
               \<and> last (creations tr) = portal_deployment (ow_config w) ps pull))"
proof (cases "load_portal_settings (ow_config w) rq")
  case (Inl e)
  with assms show ?thesis
    by (auto simp: training_portal_create_def kube_simps report_trace phase_def)
next
  case (Inr ps)
  let ?tr = "reported w ''Resource/Create'' (PDict (portal_event rq)) @ []"
  obtain q tr1 where found: "find_portal_namespace w rq ?tr = (q, tr1)" by fastforce
  from assms Inr found have run:
    "(case q of Inl e \<Rightarrow> (Inl e, tr1)
      | Inr None \<Rightarrow> deploy_portal w rq ps tr1 | Inr (Some namespace) \<Rightarrow> existing_namespace w rq namespace tr1) = (r, tr)"
    by (auto simp: training_portal_create_def kube_bind_def kube_lift_def report_trace split: sum.splits option.splits)
  have quiet: "\<not> phase ''Running'' (final_status tr1)"
    by (rule runs_silent [OF found_silent found]) (simp_all add: phase_def)
  have none: "creations tr1 = []" using found_no_creation [OF found] by simp
  consider (failed) e where "q = Inl e" | (missing) "q = Inr None" | (there) namespace where "q = Inr (Some namespace)"
    by (metis option.exhaust sum.exhaust)
  then show ?thesis
  proof cases
    case failed
    with run quiet show ?thesis by auto
  next
    case there
    then have "existing_namespace w rq namespace tr1 = (r, tr)" using run by simp
    with runs_silent [OF existing_silent this quiet] existing_never_succeeds show ?thesis by auto
  next
    case missing
    with found have "final_status tr1 = None" by (simp add: found_missing)
    moreover have "deploy_portal w rq ps tr1 = (r, tr)" using run missing by simp
    moreover have "\<exists>pull. last objs = portal_deployment (ow_config w) ps pull" if "deployed w rq ps objs" for objs
      using that by (auto simp: deployed_def portal_resources_def Let_def bindE_Inr_iff split: option.splits)
    ultimately show ?thesis using deploy_cases [of w rq ps tr1 r tr] none Inr running_phase by auto
  qed
qed

theorem running_when_deployed_witness:
  "phase ''Running'' (final_status (snd (training_portal_create deploy_world first_attempt [])))
   \<and> length (creations (snd (training_portal_create deploy_world first_attempt []))) = 10"
proof
  have ok: "fst (training_portal_create deploy_world first_attempt []) = Inr ()" by code_simp
  then show "phase ''Running'' (final_status (snd (training_portal_create deploy_world first_attempt [])))"
    using running_when_deployed [OF prod.collapse [symmetric], of deploy_world first_attempt] by simp
  show "length (creations (snd (training_portal_create deploy_world first_attempt []))) = 10" by code_simp
qed

section \<open>A portal with its own certificate\<close>

text \<open>
  \<^bold>\<open>C37.\<close> On a cluster with a certificate authority, a portal whose own certificate is already in its namespace can never be
  deployed: no attempt succeeds, whatever the API answers. Once the namespace is there, with a status that is not
  \<open>Retrying\<close>, because the exception that was raised set none, further attempts create and delete nothing and leave the
  status \<open>Unknown\<close>.
\<close>

theorem own_certificate_never_deployed:
  assumes "truthy (oc_ingress_secret (ow_config w))" and "truthy (oc_ingress_ca_secret (ow_config w))"
    and "lookup (pq_spec rq) ''portal.ingress.tlsCertificateRef.name'' PNone = Inr (PStr secret)" and "secret \<noteq> []"
    and "lookup (pq_spec rq) ''portal.ingress.tlsCertificateRef.namespace'' PNone \<in>
           {Inr PNone, Inr (PStr (portal_namespace (pq_name rq)))}"
    and "training_portal_create w rq [] = (r, tr)"
  shows "r \<noteq> Inr ()
       \<and> (\<forall>ps namespace p.
            load_portal_settings (ow_config w) rq = Inr ps
          \<and> ka_get (ow_api w) (reported w ''Resource/Create'' (PDict (portal_event rq))) ''Namespace'' PNone
              (PStr (portal_namespace (pq_name rq))) = Inr namespace
          \<and> resource_owned_by namespace (pq_body rq) = Inr True
          \<and> lookup (pq_status rq) ''educates.phase'' PNone = Inr p \<and> p \<noteq> PStr ''Retrying'' \<longrightarrow>
            r = Inl (Raised (TemporaryError 30)) \<and> phase ''Unknown'' (final_status tr) \<and> (\<forall>c\<in>set tr. \<not> is_write c))"
proof -
  have "portal_resources w rq ps namespace \<noteq> Inr objs" if "load_portal_settings (ow_config w) rq = Inr ps" for ps namespace objs
    using assms(1-5) settings_namespace [OF that]
    by (auto simp: portal_resources_def Let_def bindE_Inr_iff ingress_rules_def)
  moreover have "r = Inr () \<longrightarrow> (\<exists>ps. load_portal_settings (ow_config w) rq = Inr ps \<and> deployed w rq ps (creations tr))"
  proof
    assume "r = Inr ()"
    with assms(6) obtain ps tr1 where ps: "load_portal_settings (ow_config w) rq = Inr ps"
      and found: "find_portal_namespace w rq (reported w ''Resource/Create'' (PDict (portal_event rq))) = (Inr None, tr1)"
      and deploy: "deploy_portal w rq ps tr1 = (Inr (), tr)"
      using existing_never_succeeds
      by (auto simp: training_portal_create_def kube_bind_Inr kube_lift_Inr report_trace split: option.splits)
    from deploy_cases [OF deploy] found_no_creation [OF found] found_missing [OF found] ps
    show "\<exists>ps. load_portal_settings (ow_config w) rq = Inr ps \<and> deployed w rq ps (creations tr)" by auto
  qed
  ultimately have "r \<noteq> Inr ()" by (auto simp: deployed_def)
  moreover have "r = Inl (Raised (TemporaryError 30)) \<and> phase ''Unknown'' (final_status tr) \<and> (\<forall>c\<in>set tr. \<not> is_write c)"
    if "load_portal_settings (ow_config w) rq = Inr ps"
      and "ka_get (ow_api w) (reported w ''Resource/Create'' (PDict (portal_event rq))) ''Namespace'' PNone
              (PStr (portal_namespace (pq_name rq))) = Inr namespace"
      and "resource_owned_by namespace (pq_body rq) = Inr True"
      and "lookup (pq_status rq) ''educates.phase'' PNone = Inr p" and "p \<noteq> PStr ''Retrying''" for ps namespace p
    using assms(6) that
    by (auto simp: training_portal_create_def kube_simps report_trace find_portal_namespace_def kube_get_def existing_namespace_def
        portal_retry_def portal_outcome_def phase_def educates_status_def reported_def split: if_splits)
  ultimately show ?thesis by blast
qed

text \<open>The portal names a certificate, and leaves its namespace open.\<close>

definition own_certificate :: "portal_request" where
  "own_certificate = first_attempt\<lparr>pq_spec := PDict [(''portal'', PDict [(''ingress'', PDict [
     (''tlsCertificateRef'', PDict [(''name'', PStr ''mine'')])])])]\<rparr>"

definition with_secrets :: "operator_world \<Rightarrow> operator_world" where
  "with_secrets w = w\<lparr>ow_config := ow_config w\<lparr>oc_ingress_secret := PStr ''tls'', oc_ingress_ca_secret := PStr ''ca''\<rparr>\<rparr>"

theorem own_certificate_never_deployed_witness:
  "fst (training_portal_create (with_secrets deploy_world) own_certificate []) \<noteq> Inr ()
   \<and> phase ''Unknown'' (final_status (snd (training_portal_create (with_secrets retry_world) own_certificate [])))"
proof
  have reads: "lookup (pq_spec own_certificate) ''portal.ingress.tlsCertificateRef.name'' PNone = Inr (PStr ''mine'')"
    "lookup (pq_spec own_certificate) ''portal.ingress.tlsCertificateRef.namespace'' PNone = Inr PNone"
    "lookup (pq_status own_certificate) ''educates.phase'' PNone = Inr PNone"
    by code_simp+
  have secrets: "truthy (oc_ingress_secret (ow_config (with_secrets v)))" "truthy (oc_ingress_ca_secret (ow_config (with_secrets v)))" for v
    by (simp_all add: with_secrets_def)
  note never = own_certificate_never_deployed [OF secrets reads(1) _ _ prod.collapse [symmetric]]
  show "fst (training_portal_create (with_secrets deploy_world) own_certificate []) \<noteq> Inr ()"
    using never [of deploy_world] reads(2) by simp
  have "isl (load_portal_settings (ow_config (with_secrets retry_world)) own_certificate) = False" by code_simp
  then have "\<exists>ps. load_portal_settings (ow_config (with_secrets retry_world)) own_certificate = Inr ps" by (metis isl_def sum.exhaust)
  moreover have "resource_owned_by lab_namespace (pq_body own_certificate) = Inr True" by code_simp
  moreover have "ka_get (ow_api (with_secrets retry_world)) tr k ns n = Inr lab_namespace" for tr k ns n
    by (simp add: with_secrets_def retry_world_def)
  ultimately show "phase ''Unknown'' (final_status (snd (training_portal_create (with_secrets retry_world) own_certificate [])))"
    using never [of retry_world] reads(2,3) by auto
qed

end
