(* ===== verification/Session_Applications.thy ===== *)
theory Session_Applications
  imports Session_Namespaces
begin

text \<open>
  The applications of a workshop session with parts of their own
  (\<open>session-manager/handlers/applications.py\<close>): git, and a virtual cluster
  (\<open>application_vcluster.py\<close>) with the ingress controller Contour. The YAML files shipped with the session manager
  are a parameter.
\<close>

section \<open>Changes to nested dictionaries\<close>

text \<open>\<open>obj[k1][k2]... = f(obj[k1][k2]...)\<close>, and the assignment of a value, whose last key need not be there.\<close>

definition set_key :: "string \<Rightarrow> pyval \<Rightarrow> pyval \<Rightarrow> pyval result" where
  "set_key k v obj = (case obj of PDict d \<Rightarrow> Inr (PDict (dict_set k v d)) | _ \<Rightarrow> Inl TypeError)"

fun change_path :: "string list \<Rightarrow> (pyval \<Rightarrow> pyval result) \<Rightarrow> pyval \<Rightarrow> pyval result" where
  "change_path [] f obj = f obj"
| "change_path (k # ks) f obj =
     bindE (py_index obj k) (\<lambda>v. bindE (change_path ks f v) (\<lambda>v. set_key k v obj))"

definition put_path :: "string list \<Rightarrow> string \<Rightarrow> pyval \<Rightarrow> pyval \<Rightarrow> pyval result" where
  "put_path ks k v = change_path ks (set_key k v)"

text \<open>A Python list that is changed in place.\<close>

definition on_list :: "(pyval list \<Rightarrow> pyval list result) \<Rightarrow> pyval \<Rightarrow> pyval result" where
  "on_list f v = (case v of PList xs \<Rightarrow> bindE (f xs) (\<lambda>ys. Inr (PList ys)) | _ \<Rightarrow> Inl AttributeError)"

definition list_append :: "pyval \<Rightarrow> pyval \<Rightarrow> pyval result" where
  "list_append x = on_list (\<lambda>xs. Inr (xs @ [x]))"

definition list_extend :: "pyval list \<Rightarrow> pyval \<Rightarrow> pyval result" where
  "list_extend ys = on_list (\<lambda>xs. Inr (xs @ ys))"

section \<open>Sorting strings\<close>

fun string_le :: "string \<Rightarrow> string \<Rightarrow> bool" where
  "string_le [] t = True"
| "string_le (c # s) [] = False"
| "string_le (c # s) (d # t) = ((of_char c :: nat) < of_char d \<or> c = d \<and> string_le s t)"

fun insert_string :: "string \<Rightarrow> string list \<Rightarrow> string list" where
  "insert_string s [] = [s]"
| "insert_string s (t # ts) = (if string_le s t then s # t # ts else t # insert_string s ts)"

definition sorted_strings :: "string list \<Rightarrow> string list" where
  "sorted_strings ss = foldr insert_string ss []"

definition string_element :: "pyval \<Rightarrow> string result" where
  "string_element v = (case v of PStr s \<Rightarrow> Inr s | _ \<Rightarrow> Inl TypeError)"

section \<open>Contour\<close>

definition contour_files :: "string list" where
  "contour_files =
     [''00-common.yaml'', ''01-contour-config.yaml'', ''01-crds.yaml'', ''02-job-certgen.yaml'', ''02-role-contour.yaml'',
      ''02-rbac.yaml'', ''02-service-contour.yaml'']"

definition contour_file :: "operator_world \<Rightarrow> string \<Rightarrow> pyval list" where
  "contour_file w name = ow_packages w (''contour/upstream/'' @ name)"

definition is_kind :: "string \<Rightarrow> pyval \<Rightarrow> bool result" where
  "is_kind kind obj = bindE (py_get obj ''kind'') (\<lambda>k. Inr (py_eq k (PStr kind)))"

definition single_replica :: "pyval \<Rightarrow> pyval result" where
  "single_replica obj =
     bindE (is_kind ''Deployment'' obj) (\<lambda>yes. if yes then put_path [''spec''] ''replicas'' (PInt 1) obj else Inr obj)"

definition drop_host_port :: "pyval \<Rightarrow> pyval result" where
  "drop_host_port port = (case port of PDict p \<Rightarrow> Inr (PDict (dict_pop ''hostPort'' p)) | _ \<Rightarrow> Inl AttributeError)"

definition drop_host_ports :: "pyval \<Rightarrow> pyval result" where
  "drop_host_ports container =
     bindE (py_get_or container ''ports'' (PList []))
       (\<lambda>ports. if dict_get (case container of PDict c \<Rightarrow> c | _ \<Rightarrow> []) ''ports'' = None then Inr container
          else bindE (on_list (mapE drop_host_port) ports) (\<lambda>ports. set_key ''ports'' ports container))"

definition without_host_ports :: "pyval \<Rightarrow> pyval result" where
  "without_host_ports obj =
     bindE (is_kind ''DaemonSet'' obj)
       (\<lambda>yes. if yes then change_path [''spec'', ''template'', ''spec'', ''containers''] (on_list (mapE drop_host_ports)) obj
          else Inr obj)"

definition contour_objects :: "operator_world \<Rightarrow> pyval list result" where
  "contour_objects w =
     bindE (mapE single_replica (contour_file w ''03-contour.yaml''))
       (\<lambda>contour. bindE (mapE without_host_ports (contour_file w ''03-envoy.yaml''))
          (\<lambda>envoy. Inr (concat (map (contour_file w) contour_files) @ contour @ envoy)))"

definition contour_service :: pyval where
  "contour_service =
     PDict [
       (''apiVersion'', PStr ''v1''),
       (''kind'', PStr ''Service''),
       (''metadata'', PDict [(''name'', PStr ''envoy''), (''namespace'', PStr ''projectcontour'')]),
       (''spec'', PDict [
         (''type'', PStr ''ClusterIP''),
         (''ports'', PList [
           PDict [
             (''name'', PStr ''http''),
             (''port'', PInt 80),
             (''protocol'', PStr ''TCP''),
             (''targetPort'', PInt 8080)],
           PDict [
             (''name'', PStr ''https''),
             (''port'', PInt 443),
             (''protocol'', PStr ''TCP''),
             (''targetPort'', PInt 8443)]]),
         (''selector'', PDict [(''app'', PStr ''envoy'')])])]"

definition envoy_mapping :: pyval where
  "envoy_mapping = PDict [(''from'', PStr ''projectcontour/envoy''), (''to'', PStr ''my-vcluster-envoy'')]"

section \<open>The virtual cluster\<close>

definition vcluster_workshop_spec_patches :: "pyval \<Rightarrow> pyval result" where
  "vcluster_workshop_spec_patches workshop_spec =
     bindE (lookup workshop_spec ''session.namespaces.security.policy'' (PStr ''baseline'')) (\<lambda>policy. Inr
     (PDict [
       (''spec'', PDict [
         (''session'', PDict [
           (''namespaces'', PDict [
             (''security'', PDict [(''policy'', policy), (''token'', PDict [(''enabled'', PBool False)])])]),
           (''applications'', PDict [(''console'', PDict [(''octant'', PDict [(''version'', PStr ''latest'')])])]),
           (''variables'', PList [
             PDict [
               (''name'', PStr ''vcluster_secret''),
               (''value'', PStr ''$(session_namespace)-vc-kubeconfig'')],
             PDict [
               (''name'', PStr ''vcluster_namespace''),
               (''value'', PStr ''$(session_namespace)-vc'')]])])])]))"

definition default_kubernetes :: string where
  "default_kubernetes = ''1.33''"

definition kubernetes_versions :: "operator_config \<Rightarrow> (string \<times> pyval) list" where
  "kubernetes_versions cfg =
     map (\<lambda>v. (v, config_image cfg (''loftsh-kubernetes-v'' @ v))) [''1.31'', ''1.32'', ''1.33'', ''1.34'']"

definition kubernetes_image :: "operator_config \<Rightarrow> pyval \<Rightarrow> pyval result" where
  "kubernetes_image cfg version =
     bindE (table_get (kubernetes_versions cfg) version)
       (\<lambda>img. Inr (case img of Some i \<Rightarrow> i
                    | None \<Rightarrow> (case dict_get (kubernetes_versions cfg) default_kubernetes of Some i \<Rightarrow> i | None \<Rightarrow> PNone)))"

definition ingress_subdomains :: "pyval \<Rightarrow> string list result" where
  "ingress_subdomains properties =
     bindE (lookup properties ''ingress.subdomains'' (PList []))
       (\<lambda>v. case v of
              PList xs \<Rightarrow> bindE (mapE string_element xs) (\<lambda>ss. Inr (sorted_strings (ss @ [''default''])))
            | _ \<Rightarrow> Inl TypeError)"

definition enabled_field :: "bool \<Rightarrow> pyval" where
  "enabled_field b = PDict [(''enabled'', PBool b)]"

text \<open>The reference configuration with the changes for a session.\<close>

definition vcluster_config :: "operator_world \<Rightarrow> bool \<Rightarrow> pyval \<Rightarrow> pyval \<Rightarrow> pyval \<Rightarrow> pyval result" where
  "vcluster_config w sync_ingresses from_virtual from_host manifests =
     bindE (put_path [''sync'', ''toHost''] ''serviceAccounts'' (enabled_field True)
              (case ow_packages w ''vcluster/vcluster-all-config.yaml'' of [] \<Rightarrow> PNone | doc # _ \<Rightarrow> doc))
  (\<lambda>c. bindE (put_path [''sync'', ''toHost''] ''ingresses'' (enabled_field sync_ingresses) c)
  (\<lambda>c. bindE (put_path [''sync'', ''fromHost''] ''storageClasses'' (enabled_field True) c)
  (\<lambda>c. bindE (put_path [''sync'', ''fromHost''] ''ingressClasses'' (enabled_field True) c)
  (\<lambda>c. bindE (put_path [''networking'', ''replicateServices''] ''toHost'' from_virtual c)
  (\<lambda>c. bindE (put_path [''networking'', ''replicateServices''] ''fromHost'' from_host c)
  (\<lambda>c. bindE (put_path [] ''exportKubeConfig''
                (PDict [(''context'', PStr ''my-vcluster''),
                        (''server'', PStr ''https://my-vcluster.$(vcluster_namespace).svc.$(cluster_domain)'')]) c)
  (\<lambda>c. bindE (put_path [''policies'', ''resourceQuota''] ''enabled'' (PBool False) c)
  (\<lambda>c. bindE (put_path [''policies'', ''limitRange''] ''enabled'' (PBool False) c)
  (\<lambda>c. bindE (put_path [''controlPlane'', ''proxy''] ''extraSANs''
                (PList [PStr ''my-vcluster.$(vcluster_namespace)'', PStr ''my-vcluster.$(vcluster_namespace).svc.$(cluster_domain)'']) c)
       (put_path [''experimental'', ''deploy'', ''vcluster''] ''manifests'' manifests))))))))))"

definition vcluster_base_objects :: "string \<Rightarrow> pyval list" where
  "vcluster_base_objects config_text = [
      PDict [
        (''apiVersion'', PStr ''v1''),
        (''kind'', PStr ''Namespace''),
        (''metadata'', PDict [
          (''name'', PStr ''$(session_namespace)-vc''),
          (''annotations'', PDict [
            (''secretgen.carvel.dev/excluded-from-wildcard-matching'', PStr []),
            (''training.educates.dev/session.role'', PStr ''custom''),
            (''training.educates.dev/session.budget'', PStr ''custom''),
            (''training.educates.dev/session.policy'', PStr ''baseline'')])])],
      PDict [
        (''apiVersion'', PStr ''secrets.educates.dev/v1beta1''),
        (''kind'', PStr ''SecretCopier''),
        (''metadata'', PDict [(''name'', PStr ''$(session_namespace)-vc-kubeconfig'')]),
        (''spec'', PDict [
          (''rules'', PList [
            PDict [
              (''sourceSecret'', PDict [
                (''name'', PStr ''vc-my-vcluster''),
                (''namespace'', PStr ''$(session_namespace)-vc'')]),
              (''targetNamespaces'', PDict [
                (''nameSelector'', PDict [(''matchNames'', PList [PStr ''$(workshop_namespace)''])])]),
              (''targetSecret'', PDict [(''name'', PStr ''$(vcluster_secret)'')]),
              (''reclaimPolicy'', PStr ''Delete'')]])])],
      PDict [
        (''apiVersion'', PStr ''v1''),
        (''kind'', PStr ''ServiceAccount''),
        (''metadata'', PDict [
          (''name'', PStr ''vc-my-vcluster''),
          (''namespace'', PStr ''$(session_namespace)-vc'')])],
      PDict [
        (''apiVersion'', PStr ''v1''),
        (''kind'', PStr ''ServiceAccount''),
        (''metadata'', PDict [
          (''name'', PStr ''vc-workload-my-vcluster''),
          (''namespace'', PStr ''$(session_namespace)'')])],
      PDict [
        (''apiVersion'', PStr ''v1''),
        (''kind'', PStr ''Secret''),
        (''metadata'', PDict [
          (''name'', PStr ''vc-config-my-vcluster''),
          (''namespace'', PStr ''$(session_namespace)-vc'')]),
        (''stringData'', PDict [(''config.yaml'', PStr config_text)])]]"

definition vcluster_access_objects :: "pyval list" where
  "vcluster_access_objects = [
      PDict [
        (''apiVersion'', PStr ''rbac.authorization.k8s.io/v1''),
        (''kind'', PStr ''ClusterRole''),
        (''metadata'', PDict [(''name'', PStr ''my-vcluster-$(session_namespace)-vc'')]),
        (''rules'', PList [
          PDict [
            (''apiGroups'', PList [PStr ''networking.k8s.io'']),
            (''resources'', PList [PStr ''ingressclasses'']),
            (''verbs'', PList [PStr ''get'', PStr ''list'', PStr ''watch''])],
          PDict [
            (''apiGroups'', PList [PStr ''storage.k8s.io'']),
            (''resources'', PList [PStr ''storageclasses'']),
            (''verbs'', PList [PStr ''get'', PStr ''list'', PStr ''watch''])],
          PDict [
            (''apiGroups'', PList [PStr []]),
            (''resources'', PList [PStr ''services'', PStr ''endpoints'']),
            (''verbs'', PList [PStr ''get'', PStr ''list'', PStr ''watch''])]])],
      PDict [
        (''apiVersion'', PStr ''rbac.authorization.k8s.io/v1''),
        (''kind'', PStr ''Role''),
        (''metadata'', PDict [(''name'', PStr ''my-vcluster''), (''namespace'', PStr ''$(session_namespace)-vc'')]),
        (''rules'', PList [
          PDict [
            (''apiGroups'', PList [PStr []]),
            (''resources'', PList [
              PStr ''configmaps'',
              PStr ''secrets'',
              PStr ''services'',
              PStr ''serviceaccounts'',
              PStr ''pods'',
              PStr ''pods/attach'',
              PStr ''pods/portforward'',
              PStr ''pods/exec'',
              PStr ''pods/status'',
              PStr ''endpoints'',
              PStr ''persistentvolumeclaims'']),
            (''verbs'', PList [
              PStr ''create'',
              PStr ''delete'',
              PStr ''patch'',
              PStr ''update'',
              PStr ''get'',
              PStr ''list'',
              PStr ''watch''])],
          PDict [
            (''apiGroups'', PList [PStr []]),
            (''resources'', PList [PStr ''events'', PStr ''pods/log'']),
            (''verbs'', PList [PStr ''get'', PStr ''list'', PStr ''watch''])],
          PDict [
            (''apiGroups'', PList [PStr ''discovery.k8s.io'']),
            (''resources'', PList [PStr ''endpointslices'']),
            (''verbs'', PList [PStr ''get'', PStr ''list'', PStr ''watch'', PStr ''update''])],
          PDict [
            (''apiGroups'', PList [PStr ''networking.k8s.io'']),
            (''resources'', PList [PStr ''ingresses'']),
            (''verbs'', PList [
              PStr ''create'',
              PStr ''delete'',
              PStr ''patch'',
              PStr ''update'',
              PStr ''get'',
              PStr ''list'',
              PStr ''watch''])],
          PDict [
            (''apiGroups'', PList [PStr ''apps'']),
            (''resources'', PList [PStr ''statefulsets'', PStr ''replicasets'', PStr ''deployments'']),
            (''verbs'', PList [PStr ''get'', PStr ''list'', PStr ''watch''])]])],
      PDict [
        (''apiVersion'', PStr ''rbac.authorization.k8s.io/v1''),
        (''kind'', PStr ''RoleBinding''),
        (''metadata'', PDict [(''name'', PStr ''my-vcluster''), (''namespace'', PStr ''$(session_namespace)-vc'')]),
        (''subjects'', PList [
          PDict [
            (''kind'', PStr ''ServiceAccount''),
            (''name'', PStr ''vc-my-vcluster''),
            (''namespace'', PStr ''$(session_namespace)-vc'')]]),
        (''roleRef'', PDict [
          (''kind'', PStr ''Role''),
          (''name'', PStr ''my-vcluster''),
          (''apiGroup'', PStr ''rbac.authorization.k8s.io'')])]]"

definition vcluster_binding_objects :: "pyval list" where
  "vcluster_binding_objects = [
      PDict [
        (''apiVersion'', PStr ''rbac.authorization.k8s.io/v1''),
        (''kind'', PStr ''Role''),
        (''metadata'', PDict [(''name'', PStr ''my-vcluster''), (''namespace'', PStr ''$(session_namespace)'')]),
        (''rules'', PList [
          PDict [
            (''apiGroups'', PList [PStr []]),
            (''resources'', PList [
              PStr ''configmaps'',
              PStr ''secrets'',
              PStr ''services'',
              PStr ''pods'',
              PStr ''pods/attach'',
              PStr ''pods/portforward'',
              PStr ''pods/exec'',
              PStr ''endpoints'',
              PStr ''persistentvolumeclaims'']),
            (''verbs'', PList [
              PStr ''create'',
              PStr ''delete'',
              PStr ''patch'',
              PStr ''update'',
              PStr ''get'',
              PStr ''list'',
              PStr ''watch''])],
          PDict [
            (''apiGroups'', PList [PStr []]),
            (''resources'', PList [PStr ''events'', PStr ''pods/log'']),
            (''verbs'', PList [PStr ''get'', PStr ''list'', PStr ''watch''])],
          PDict [
            (''apiGroups'', PList [PStr ''networking.k8s.io'']),
            (''resources'', PList [PStr ''ingresses'']),
            (''verbs'', PList [
              PStr ''create'',
              PStr ''delete'',
              PStr ''patch'',
              PStr ''update'',
              PStr ''get'',
              PStr ''list'',
              PStr ''watch''])],
          PDict [
            (''apiGroups'', PList [PStr ''apps'']),
            (''resources'', PList [PStr ''statefulsets'', PStr ''replicasets'', PStr ''deployments'']),
            (''verbs'', PList [PStr ''get'', PStr ''list'', PStr ''watch''])]])],
      PDict [
        (''apiVersion'', PStr ''rbac.authorization.k8s.io/v1''),
        (''kind'', PStr ''RoleBinding''),
        (''metadata'', PDict [(''name'', PStr ''my-vcluster''), (''namespace'', PStr ''$(session_namespace)'')]),
        (''subjects'', PList [
          PDict [
            (''kind'', PStr ''ServiceAccount''),
            (''name'', PStr ''vc-my-vcluster''),
            (''namespace'', PStr ''$(session_namespace)-vc'')]]),
        (''roleRef'', PDict [
          (''kind'', PStr ''Role''),
          (''name'', PStr ''my-vcluster''),
          (''apiGroup'', PStr ''rbac.authorization.k8s.io'')])],
      PDict [
        (''apiVersion'', PStr ''rbac.authorization.k8s.io/v1''),
        (''kind'', PStr ''ClusterRoleBinding''),
        (''metadata'', PDict [(''name'', PStr ''my-vcluster-$(session_namespace)-vc'')]),
        (''subjects'', PList [
          PDict [
            (''kind'', PStr ''ServiceAccount''),
            (''name'', PStr ''vc-my-vcluster''),
            (''namespace'', PStr ''$(session_namespace)-vc'')]]),
        (''roleRef'', PDict [
          (''kind'', PStr ''ClusterRole''),
          (''name'', PStr ''my-vcluster-$(session_namespace)-vc''),
          (''apiGroup'', PStr ''rbac.authorization.k8s.io'')])],
      PDict [
        (''apiVersion'', PStr ''v1''),
        (''kind'', PStr ''Service''),
        (''metadata'', PDict [(''name'', PStr ''my-vcluster''), (''namespace'', PStr ''$(session_namespace)-vc'')]),
        (''spec'', PDict [
          (''type'', PStr ''ClusterIP''),
          (''ports'', PList [
            PDict [
              (''name'', PStr ''https''),
              (''port'', PInt 443),
              (''targetPort'', PInt 8443),
              (''protocol'', PStr ''TCP'')],
            PDict [
              (''name'', PStr ''kubelet''),
              (''port'', PInt 10250),
              (''targetPort'', PInt 8443),
              (''protocol'', PStr ''TCP'')]]),
          (''selector'', PDict [(''app'', PStr ''vcluster''), (''release'', PStr ''my-vcluster'')])])],
      PDict [
        (''apiVersion'', PStr ''v1''),
        (''kind'', PStr ''Service''),
        (''metadata'', PDict [
          (''name'', PStr ''my-vcluster-headless''),
          (''namespace'', PStr ''$(session_namespace)-vc'')]),
        (''spec'', PDict [
          (''ports'', PList [
            PDict [
              (''name'', PStr ''https''),
              (''port'', PInt 443),
              (''targetPort'', PInt 8443),
              (''protocol'', PStr ''TCP'')]]),
          (''clusterIP'', PStr ''None''),
          (''selector'', PDict [(''app'', PStr ''vcluster''), (''release'', PStr ''my-vcluster'')])])]]"

definition syncer_container :: "operator_config \<Rightarrow> pyval \<Rightarrow> pyval \<Rightarrow> pyval" where
  "syncer_container cfg storage memory =
     PDict [
       (''name'', PStr ''syncer''),
       (''image'', config_image cfg ''loftsh-vcluster''),
       (''livenessProbe'', PDict [
         (''httpGet'', PDict [(''path'', PStr ''/healthz''), (''port'', PInt 8443), (''scheme'', PStr ''HTTPS'')]),
         (''initialDelaySeconds'', PInt 60),
         (''periodSeconds'', PInt 2),
         (''timeoutSeconds'', PInt 3),
         (''failureThreshold'', PInt 60)]),
       (''readinessProbe'', PDict [
         (''httpGet'', PDict [(''path'', PStr ''/readyz''), (''port'', PInt 8443), (''scheme'', PStr ''HTTPS'')]),
         (''periodSeconds'', PInt 2),
         (''timeoutSeconds'', PInt 3),
         (''failureThreshold'', PInt 60)]),
       (''startupProbe'', PDict [
         (''httpGet'', PDict [(''path'', PStr ''/readyz''), (''port'', PInt 8443), (''scheme'', PStr ''HTTPS'')]),
         (''periodSeconds'', PInt 6),
         (''timeoutSeconds'', PInt 3),
         (''failureThreshold'', PInt 300)]),
       (''securityContext'', PDict [
         (''allowPrivilegeEscalation'', PBool False),
         (''runAsNonRoot'', PBool True),
         (''runAsGroup'', PInt 1001),
         (''runAsUser'', PInt 12345)]),
       (''resources'', PDict [
         (''limits'', PDict [(''ephemeral-storage'', storage), (''memory'', memory)]),
         (''requests'', PDict [(''cpu'', PStr ''200m''), (''ephemeral-storage'', storage), (''memory'', memory)])]),
       (''env'', PList [
         PDict [(''name'', PStr ''VCLUSTER_NAME''), (''value'', PStr ''my-vcluster'')],
         PDict [
           (''name'', PStr ''POD_NAME''),
           (''valueFrom'', PDict [(''fieldRef'', PDict [(''fieldPath'', PStr ''metadata.name'')])])],
         PDict [
           (''name'', PStr ''POD_IP''),
           (''valueFrom'', PDict [(''fieldRef'', PDict [(''fieldPath'', PStr ''status.podIP'')])])],
         PDict [
           (''name'', PStr ''NODE_NAME''),
           (''valueFrom'', PDict [(''fieldRef'', PDict [(''fieldPath'', PStr ''spec.nodeName'')])])],
         PDict [
           (''name'', PStr ''NODE_IP''),
           (''valueFrom'', PDict [(''fieldRef'', PDict [(''fieldPath'', PStr ''status.hostIP'')])])]]),
       (''volumeMounts'', PList [
         PDict [(''name'', PStr ''data''), (''mountPath'', PStr ''/data'')],
         PDict [(''name'', PStr ''binaries''), (''mountPath'', PStr ''/binaries'')],
         PDict [(''name'', PStr ''certs''), (''mountPath'', PStr ''/pki'')],
         PDict [(''name'', PStr ''helm-cache''), (''mountPath'', PStr ''/.cache/helm'')],
         PDict [(''name'', PStr ''vcluster-config''), (''mountPath'', PStr ''/var/lib/vcluster'')],
         PDict [(''name'', PStr ''tmp''), (''mountPath'', PStr ''/tmp'')]])]"

definition vcluster_stateful_set :: "operator_config \<Rightarrow> pyval \<Rightarrow> pyval \<Rightarrow> pyval \<Rightarrow> pyval" where
  "vcluster_stateful_set cfg kubernetes storage memory =
     PDict [
       (''apiVersion'', PStr ''apps/v1''),
       (''kind'', PStr ''StatefulSet''),
       (''metadata'', PDict [(''name'', PStr ''my-vcluster''), (''namespace'', PStr ''$(session_namespace)-vc'')]),
       (''spec'', PDict [
         (''serviceName'', PStr ''my-vcluster-headless''),
         (''replicas'', PInt 1),
         (''selector'', PDict [
           (''matchLabels'', PDict [(''app'', PStr ''vcluster''), (''release'', PStr ''my-vcluster'')])]),
         (''volumeClaimTemplates'', PList [
           PDict [
             (''metadata'', PDict [(''name'', PStr ''data'')]),
             (''spec'', PDict [
               (''accessModes'', PList [PStr ''ReadWriteOnce'']),
               (''storageClassName'', PNone),
               (''resources'', PDict [(''requests'', PDict [(''storage'', storage)])])])]]),
         (''template'', PDict [
           (''metadata'', PDict [
             (''labels'', PDict [(''app'', PStr ''vcluster''), (''release'', PStr ''my-vcluster'')])]),
           (''spec'', PDict [
             (''terminationGracePeriodSeconds'', PInt 10),
             (''nodeSelector'', PDict []),
             (''affinity'', PDict []),
             (''tolerations'', PList []),
             (''serviceAccountName'', PStr ''vc-my-vcluster''),
             (''volumes'', PList [
               PDict [(''name'', PStr ''helm-cache''), (''emptyDir'', PDict [])],
               PDict [(''name'', PStr ''binaries''), (''emptyDir'', PDict [])],
               PDict [(''name'', PStr ''tmp''), (''emptyDir'', PDict [])],
               PDict [(''name'', PStr ''certs''), (''emptyDir'', PDict [])],
               PDict [
                 (''name'', PStr ''vcluster-config''),
                 (''secret'', PDict [(''secretName'', PStr ''vc-config-my-vcluster'')])]]),
             (''securityContext'', PDict [
               (''fsGroup'', oc_storage_group cfg),
               (''supplementalGroups'', PList [oc_storage_group cfg])]),
             (''initContainers'', PList [
               PDict [
                 (''name'', PStr ''kubernetes''),
                 (''image'', kubernetes),
                 (''command'', PList [PStr ''cp'']),
                 (''args'', PList [PStr ''-r'', PStr ''/kubernetes/.'', PStr ''/binaries/'']),
                 (''volumeMounts'', PList [PDict [(''mountPath'', PStr ''/binaries''), (''name'', PStr ''binaries'')]]),
                 (''securityContext'', PDict []),
                 (''resources'', PDict [
                   (''limits'', PDict [(''cpu'', PStr ''100m''), (''memory'', PStr ''256Mi'')]),
                   (''requests'', PDict [(''cpu'', PStr ''40m''), (''memory'', PStr ''64Mi'')])])]]),
             (''containers'', PList [syncer_container cfg storage memory])])])])]"

definition session_domain_rule :: pyval where
  "session_domain_rule =
     PDict [
       (''host'', PStr ''*.$(session_namespace).$(ingress_domain)''),
       (''http'', PDict [
         (''paths'', PList [
           PDict [
             (''path'', PStr ''/''),
             (''pathType'', PStr ''Prefix''),
             (''backend'', PDict [
               (''service'', PDict [
                 (''name'', PStr ''my-vcluster-envoy''),
                 (''port'', PDict [(''number'', PInt 80)])])])]])])]"

definition subdomain_rule :: "string \<Rightarrow> pyval" where
  "subdomain_rule subdomain =
     PDict [
       (''host'', PStr (''*.'' @ subdomain @ ''.$(session_namespace).$(ingress_domain)'')),
       (''http'', PDict [
         (''paths'', PList [
           PDict [
             (''path'', PStr ''/''),
             (''pathType'', PStr ''Prefix''),
             (''backend'', PDict [
               (''service'', PDict [
                 (''name'', PStr ''my-vcluster-envoy''),
                 (''port'', PDict [(''number'', PInt 80)])])])]])])]"

definition vcluster_ingress :: "pyval list \<Rightarrow> pyval" where
  "vcluster_ingress rules =
     PDict [
       (''apiVersion'', PStr ''networking.k8s.io/v1''),
       (''kind'', PStr ''Ingress''),
       (''metadata'', PDict [
         (''name'', PStr ''contour-$(session_namespace)''),
         (''namespace'', PStr ''$(session_namespace)-vc''),
         (''annotations'', PDict [
           (''nginx.ingress.kubernetes.io/proxy-send-timeout'', PStr ''3600''),
           (''nginx.ingress.kubernetes.io/proxy-read-timeout'', PStr ''3600''),
           (''projectcontour.io/websocket-routes'', PStr ''/''),
           (''projectcontour.io/response-timeout'', PStr ''3600s'')])]),
       (''spec'', PDict [(''rules'', PList rules)])]"

definition vcluster_session_objects_list :: "operator_world \<Rightarrow> pyval \<Rightarrow> pyval list result" where
  "vcluster_session_objects_list w properties =
     (let cfg = ow_config w; get = lookup properties
      in bindE (get ''resources.syncer.memory'' (PStr ''1Gi''))
    (\<lambda>memory. bindE (get ''resources.syncer.storage'' (PStr ''5Gi''))
    (\<lambda>storage. bindE (bindE (get ''version'' (PStr default_kubernetes)) (kubernetes_image cfg))
    (\<lambda>kubernetes. bindE (get ''ingress.enabled'' (PBool False))
    (\<lambda>ingress. bindE (ingress_subdomains properties)
    (\<lambda>subdomains. bindE (get ''services.fromVirtual'' (PList []))
    (\<lambda>from_virtual. bindE (get ''services.fromHost'' (PList []))
    (\<lambda>from_host. bindE (get ''objects'' (PList []))
    (\<lambda>given. bindE (if truthy ingress then bindE (contour_objects w) (\<lambda>cs. list_extend (cs @ [contour_service]) given) else Inr given)
    (\<lambda>manifests. bindE (if truthy ingress then list_append envoy_mapping from_virtual else Inr from_virtual)
    (\<lambda>from_virtual. bindE (py_iter manifests)
    (\<lambda>manifests. bindE (vcluster_config w (\<not> truthy ingress) from_virtual from_host (PStr (ow_yaml_all w manifests)))
    (\<lambda>config. Inr
       (vcluster_base_objects (ow_yaml w config) @ vcluster_access_objects @ vcluster_binding_objects
        @ [vcluster_stateful_set cfg kubernetes storage memory]
        @ (if truthy ingress
           then [vcluster_ingress (session_domain_rule # map subdomain_rule (filter (\<lambda>s. s \<noteq> []) subdomains))] else [])))))))))))))))"

definition vcluster_pod_template_spec_patches :: pyval where
  "vcluster_pod_template_spec_patches =
     PDict [
       (''containers'', PList [
         PDict [
           (''name'', PStr ''workshop''),
           (''volumeMounts'', PList [
             PDict [(''name'', PStr ''kubeconfig''), (''mountPath'', PStr ''/opt/kubeconfig'')]])]]),
       (''volumes'', PList [
         PDict [
           (''name'', PStr ''kubeconfig''),
           (''secret'', PDict [(''secretName'', PStr ''$(vcluster_secret)'')])]])]"

section \<open>Applications by name\<close>

definition workshop_spec_patches :: "operator_config \<Rightarrow> string \<Rightarrow> pyval \<Rightarrow> pyval result" where
  "workshop_spec_patches cfg application workshop_spec =
     (if application = ''git'' then Inr (git_workshop_spec_patches cfg)
      else if application = ''vcluster'' then vcluster_workshop_spec_patches workshop_spec
      else Inr (PDict []))"

definition environment_objects_list :: "string \<Rightarrow> pyval list" where
  "environment_objects_list application = []"

definition session_objects_list :: "operator_world \<Rightarrow> string \<Rightarrow> pyval \<Rightarrow> pyval list result" where
  "session_objects_list w application properties =
     (if application = ''vcluster'' then vcluster_session_objects_list w properties else Inr [])"

definition pod_template_spec_patches :: "string \<Rightarrow> pyval" where
  "pod_template_spec_patches application =
     (if application = ''vcluster'' then vcluster_pod_template_spec_patches else PDict [])"

end
