(* ===== verification/Workshop_Sessions.thy ===== *)
theory Workshop_Sessions
  imports Workshop_Allocations Session_Requests Session_Applications
begin

text \<open>
  The first part of the creation of a workshop session (\<open>workshop_session_create\<close> in
  \<open>session-manager/handlers/workshopsession.py\<close>), up to the objects of the workshop: the environment it is created
  in, its namespaces and accounts, the variables of the session, its storage, and the objects that the applications
  and the workshop ask for.
\<close>

section \<open>The session\<close>

record session_request =
  sq_name :: pyval
  sq_uid :: pyval
  sq_body :: pyval
  sq_meta :: pyval
  sq_spec :: pyval
  sq_retry :: int

text \<open>The local variables of the handler that later steps read.\<close>

record session_details =
  sx_names :: session_names
  sx_session_id :: pyval
  sx_namespace :: string
  sx_environment :: pyval
  sx_workshop_spec :: pyval
  sx_workshop_version :: pyval
  sx_applications :: pyval
  sx_hostname :: string
  sx_url :: string
  sx_cookie_domain :: pyval
  sx_role :: pyval
  sx_budget :: pyval
  sx_limits :: pyval
  sx_policy :: string
  sx_registry :: "(string \<times> pyval) list"
  sx_services_password :: string
  sx_config_password :: pyval
  sx_secrets :: "(string \<times> pyval) list"
  sx_repository :: pyval
  sx_assets :: string
  sx_cache :: string
  sx_image :: pyval
  sx_image_policy :: pyval
  sx_vars :: "(string \<times> pyval) list"
  sx_storage :: pyval
  sx_volume_name :: pyval
  sx_volume_subpath :: pyval

definition session_event :: "session_request \<Rightarrow> (string \<times> pyval) list" where
  "session_event rq =
     [(''kind'', PStr ''WorkshopSession''), (''name'', sq_name rq), (''uid'', sq_uid rq), (''retry'', PInt (sq_retry rq))]"

text \<open>\<open>v.get(k1, {}).get(k2, {})...\<close>\<close>

fun get_dicts :: "pyval \<Rightarrow> string list \<Rightarrow> pyval result" where
  "get_dicts v [] = Inr v"
| "get_dicts v (k # ks) = bindE (py_get_or v k (PDict [])) (\<lambda>v. get_dicts v ks)"

definition get_under :: "pyval \<Rightarrow> string list \<Rightarrow> string \<Rightarrow> pyval \<Rightarrow> pyval result" where
  "get_under v ks k d = bindE (get_dicts v ks) (\<lambda>v. py_get_or v k d)"

section \<open>Environment and workshop\<close>

text \<open>What is known before the environment is ready; the name of the workshop comes later.\<close>

definition identify_session :: "session_request \<Rightarrow> pyval \<Rightarrow> pyval \<Rightarrow> session_details result" where
  "identify_session rq environment_name environment =
     bindE (bindE (py_index (sq_spec rq) ''session'') (\<lambda>s. py_index s ''id''))
  (\<lambda>session_id. bindE (bindE (py_index environment ''metadata'') (\<lambda>m. py_index m ''uid''))
  (\<lambda>environment_uid. bindE (label_or_empty (sq_meta rq) ''training.educates.dev/portal.name'')
  (\<lambda>portal_name. bindE (label_or_empty (sq_meta rq) ''training.educates.dev/portal.uid'')
  (\<lambda>portal_uid.
     let namespace = py_str environment_name @ ''-'' @ py_str session_id
     in Inr
       \<lparr>sx_names =
          \<lparr>sn_workshop_name = PNone, sn_portal_name = portal_name, sn_portal_uid = portal_uid,
           sn_environment_name = environment_name, sn_environment_uid = environment_uid, sn_session_name = sq_name rq,
           sn_workshop_namespace = environment_name, sn_service_account = PStr namespace\<rparr>,
        sx_session_id = session_id, sx_namespace = namespace, sx_environment = environment,
        sx_workshop_spec = PNone, sx_workshop_version = PNone, sx_applications = PNone, sx_hostname = [], sx_url = [],
        sx_cookie_domain = PNone, sx_role = PStr ''admin'', sx_budget = PStr ''default'', sx_limits = PDict [],
        sx_policy = ''restricted'', sx_registry = [], sx_services_password = [], sx_config_password = PNone,
        sx_secrets = [], sx_repository = PNone, sx_assets = [], sx_cache = [], sx_image = PNone, sx_image_policy = PNone, sx_vars = [],
        sx_storage = PNone, sx_volume_name = PNone,
        sx_volume_subpath = PNone\<rparr>))))"

definition environment_ready :: "pyval \<Rightarrow> bool result" where
  "environment_ready environment =
     bindE (py_get environment ''status'')
       (\<lambda>status. if truthy status then bindE (py_get status ''educates'') (\<lambda>e. Inr (truthy e)) else Inr False)"

definition workshop_details :: "pyval \<Rightarrow> string \<Rightarrow> pyval result" where
  "workshop_details environment key =
     bindE (py_index environment ''status'')
  (\<lambda>s. bindE (py_index s ''educates'') (\<lambda>e. bindE (py_index e ''workshop'') (\<lambda>w. py_index w key)))"

definition read_workshop :: "operator_config \<Rightarrow> session_details \<Rightarrow> session_details result" where
  "read_workshop cfg sx =
     bindE (workshop_details (sx_environment sx) ''name'')
  (\<lambda>workshop_name. bindE (workshop_details (sx_environment sx) ''spec'')
  (\<lambda>workshop_spec. bindE (py_get_or workshop_spec ''version'' (PStr ''latest''))
  (\<lambda>workshop_version. bindE (bindE (py_index workshop_spec ''session'') (\<lambda>s. py_get_or s ''applications'' (PDict [])))
  (\<lambda>applications. bindE (bindE (py_index (sx_environment sx) ''spec'') (\<lambda>s. get_under s [''cookies''] ''domain'' PNone))
  (\<lambda>cookie_domain.
     let hostname = sx_namespace sx @ ''.'' @ py_str (oc_ingress_domain cfg)
     in Inr (sx\<lparr>sx_names := (sx_names sx)\<lparr>sn_workshop_name := workshop_name\<rparr>, sx_workshop_spec := workshop_spec,
                sx_workshop_version := workshop_version, sx_applications := applications, sx_hostname := hostname,
                sx_url := py_str (oc_ingress_protocol cfg) @ ''://'' @ hostname,
                sx_cookie_domain := (if truthy cookie_domain then cookie_domain else oc_session_cookie_domain cfg)\<rparr>))))))"

definition security_policies :: "(string \<times> string) list" where
  "security_policies =
     [(''restricted'', ''restricted''), (''baseline'', ''baseline''), (''privileged'', ''privileged''),
      (''nonroot'', ''restricted''), (''anyuid'', ''baseline''), (''custom'', ''privileged'')]"

definition resolve_security_policy :: "pyval \<Rightarrow> string result" where
  "resolve_security_policy name =
     bindE (table_get security_policies name) (\<lambda>p. Inr (case p of None \<Rightarrow> ''restricted'' | Some p \<Rightarrow> p))"

definition read_namespaces :: "session_details \<Rightarrow> session_details result" where
  "read_namespaces sx =
     bindE (py_get (sx_workshop_spec sx) ''session'')
       (\<lambda>session. if \<not> truthy session then Inr sx
          else bindE (get_under session [''namespaces''] ''role'' (sx_role sx))
         (\<lambda>role. bindE (get_under session [''namespaces''] ''budget'' (sx_budget sx))
         (\<lambda>budget. bindE (get_under session [''namespaces''] ''limits'' (sx_limits sx))
         (\<lambda>limits. bindE (bindE (get_under session [''namespaces'', ''security''] ''policy'' (PStr (sx_policy sx)))
                            resolve_security_policy)
         (\<lambda>policy. Inr (sx\<lparr>sx_role := role, sx_budget := budget, sx_limits := limits, sx_policy := policy\<rparr>))))))"

section \<open>Passwords and secrets\<close>

text \<open>The variables for the image registry of the session.\<close>

definition registry_variables :: "operator_config \<Rightarrow> string \<Rightarrow> string \<Rightarrow> (string \<times> pyval) list" where
  "registry_variables cfg namespace password =
     [(''registry_host'', PStr (''registry-'' @ namespace @ ''.'' @ py_str (oc_ingress_domain cfg))),
      (''registry_username'', PStr namespace),
      (''registry_password'', PStr password),
      (''registry_auth_token'', PStr (b64encode (namespace @ '':'' @ password))),
      (''registry_secret'', PStr ''educates-registry-credentials'')]"

definition registry_properties :: "(string \<times> string) list" where
  "registry_properties =
     [(''host'', ''registry_host''), (''username'', ''registry_username''), (''password'', ''registry_password''),
      (''basic_auth_token'', ''registry_auth_token''), (''secret'', ''registry_secret'')]"

definition set_registry_property :: "(string \<times> pyval) list \<Rightarrow> string \<times> string \<Rightarrow> pyval \<Rightarrow> pyval result" where
  "set_registry_property vars = (\<lambda>(key, var).
     set_application_property ''registry'' key (case dict_get vars var of None \<Rightarrow> PNone | Some v \<Rightarrow> v))"

definition prepare_registry :: "operator_world \<Rightarrow> session_details \<Rightarrow> session_details kube" where
  "prepare_registry w sx =
     kube_bind (kube_lift (application_enabled (sx_applications sx) ''registry''))
       (\<lambda>enabled. if \<not> enabled then kube_return sx
          else
            kube_bind (draw w 32)
         (\<lambda>password.
            let vars = registry_variables (ow_config w) (sx_namespace sx) password
            in kube_bind (kube_lift (foldE (set_registry_property vars) registry_properties (sx_applications sx)))
              (\<lambda>applications. kube_return (sx\<lparr>sx_applications := applications, sx_registry := vars\<rparr>))))"

definition choose_passwords :: "operator_world \<Rightarrow> session_request \<Rightarrow> session_details \<Rightarrow> session_details kube" where
  "choose_passwords w rq sx =
     kube_bind (draw w 32)
  (\<lambda>services. kube_bind (kube_lift (bindE (py_index (sq_spec rq) ''session'')
                                       (\<lambda>s. get_under s [''config''] ''password'' (PStr []))))
  (\<lambda>given. kube_bind (if truthy given then kube_return given else kube_bind (draw w 32) (\<lambda>p. kube_return (PStr p)))
  (\<lambda>config. kube_return (sx\<lparr>sx_services_password := services, sx_config_password := config\<rparr>))))"

definition not_yet :: "nat \<Rightarrow> 'a kube" where
  "not_yet delay =
     kube_bind (set_status (educates_status [(''phase'', PStr ''Pending'')]))
       (\<lambda>_. kube_raise (Raised (TemporaryError (int delay))))"

definition without_managed_fields :: "pyval \<Rightarrow> pyval result" where
  "without_managed_fields obj =
     bindE (py_index obj ''metadata'')
       (\<lambda>m. case (obj, m) of
              (PDict d, PDict md) \<Rightarrow> Inr (PDict (dict_set ''metadata'' (PDict (dict_pop ''managedFields'' md)) d))
            | _ \<Rightarrow> Inl AttributeError)"

definition copy_secret ::
    "operator_world \<Rightarrow> session_details \<Rightarrow> pyval \<Rightarrow> (string \<times> pyval) list \<Rightarrow> (string \<times> pyval) list kube" where
  "copy_secret w sx item secrets =
     kube_bind (kube_lift (py_index item ''name''))
  (\<lambda>name. kube_bind (kube_try (kube_get (ow_api w) ''Secret'' (sn_workshop_namespace (sx_names sx)) name)
                       (\<lambda>e. if e = ObjectDoesNotExist then not_yet 15
                            else if is_KubernetesError e then not_yet 60 else kube_raise e))
  (\<lambda>secret. kube_bind (kube_lift (without_managed_fields secret))
  (\<lambda>secret. kube_return (dict_set (py_str name @ ''.yaml'') (PStr (b64encode (ow_yaml w secret))) secrets))))"

definition copy_secrets :: "operator_world \<Rightarrow> session_details \<Rightarrow> session_details kube" where
  "copy_secrets w sx =
     kube_bind (kube_lift (bindE (get_under (sx_workshop_spec sx) [''environment''] ''secrets'' (PList [])) py_iter))
  (\<lambda>items. kube_bind (kube_fold (copy_secret w sx) items [])
  (\<lambda>secrets. kube_return (sx\<lparr>sx_secrets := secrets\<rparr>)))"

section \<open>Namespaces\<close>

definition policy_labels :: "operator_config \<Rightarrow> string \<Rightarrow> (string \<times> pyval) list" where
  "policy_labels cfg policy =
     [(''training.educates.dev/policy.engine'', oc_policy_engine cfg), (''training.educates.dev/policy.name'', PStr policy)]"

definition enforce_label :: "operator_config \<Rightarrow> string \<Rightarrow> (string \<times> pyval) list" where
  "enforce_label cfg policy =
     (if oc_policy_engine cfg = PStr ''pod-security-standards'' then [(''pod-security.kubernetes.io/enforce'', PStr policy)] else [])"

definition session_namespace_body :: "operator_config \<Rightarrow> session_names \<Rightarrow> pyval \<Rightarrow> string \<Rightarrow> pyval" where
  "session_namespace_body cfg sn name policy =
     PDict [
       (''apiVersion'', PStr ''v1''),
       (''kind'', PStr ''Namespace''),
       (''metadata'', PDict [
         (''name'', name),
         (''labels'', PDict (session_labels sn @ policy_labels cfg policy @ enforce_label cfg policy)),
         (''annotations'', PDict [(''secretgen.carvel.dev/excluded-from-wildcard-matching'', PStr [])])])]"

text \<open>
  The creation of an object that may exist; only an \<open>HTTPError\<close> has the attribute \<open>code\<close>, so that the other
  exceptions of the library end in an \<open>AttributeError\<close>.
\<close>

definition create_unless :: "operator_world \<Rightarrow> string \<Rightarrow> pyval \<Rightarrow> unit kube" where
  "create_unless w left obj =
     kube_try (kube_bind (create_object w obj) (\<lambda>_. kube_return ()))
       (\<lambda>e. if is_PyKubeError e
            then (case e of
                    HTTPError code \<Rightarrow>
                      (if code = 409
                       then kube_bind (set_status (educates_status [(''phase'', PStr left)]))
                              (\<lambda>_. kube_raise (Raised (TemporaryError 60)))
                       else kube_raise e)
                  | _ \<Rightarrow> kube_raise (Raised AttributeError))
            else kube_raise e)"

definition create_session_namespace :: "operator_world \<Rightarrow> session_request \<Rightarrow> session_details \<Rightarrow> pyval kube" where
  "create_session_namespace w rq sx =
     kube_bind (create_unless w ''Pending''
                  (ow_adopt w (session_namespace_body (ow_config w) (sx_names sx) (PStr (sx_namespace sx)) (sx_policy sx)) (sq_body rq)))
       (\<lambda>_. kube_try (kube_get (ow_api w) ''Namespace'' PNone (PStr (sx_namespace sx)))
              (\<lambda>e. if is_KubernetesError e then request_failed else kube_raise e))"

definition new_keys :: "operator_world \<Rightarrow> (string \<times> string) kube" where
  "new_keys w tr = (Inr (ow_keys w tr), tr)"

section \<open>Accounts\<close>

definition session_account :: "session_names \<Rightarrow> pyval" where
  "session_account sn =
     PDict [
       (''apiVersion'', PStr ''v1''),
       (''kind'', PStr ''ServiceAccount''),
       (''metadata'', PDict [
         (''name'', sn_service_account sn),
         (''namespace'', sn_workshop_namespace sn),
         (''labels'', PDict (session_labels sn))])]"

definition session_account_token :: "session_names \<Rightarrow> pyval" where
  "session_account_token sn =
     PDict [
       (''apiVersion'', PStr ''v1''),
       (''kind'', PStr ''Secret''),
       (''metadata'', PDict [
         (''name'', PStr (py_str (sn_service_account sn) @ ''-token'')),
         (''namespace'', sn_workshop_namespace sn),
         (''annotations'', PDict [(''kubernetes.io/service-account.name'', sn_service_account sn)]),
         (''labels'', PDict [
           (''training.educates.dev/component'', PStr ''portal''),
           (''training.educates.dev/portal.name'', sn_portal_name sn),
           (''training.educates.dev/portal.uid'', sn_portal_uid sn)])]),
       (''type'', PStr ''kubernetes.io/service-account-token'')]"

definition web_console_binding :: "session_names \<Rightarrow> string \<Rightarrow> pyval" where
  "web_console_binding sn ns =
     PDict [
       (''apiVersion'', PStr ''rbac.authorization.k8s.io/v1''),
       (''kind'', PStr ''ClusterRoleBinding''),
       (''metadata'', PDict [
         (''name'', PStr (''educates-web-console-'' @ ns)),
         (''labels'', PDict (session_labels sn))]),
       (''roleRef'', PDict [
         (''apiGroup'', PStr ''rbac.authorization.k8s.io''),
         (''kind'', PStr ''ClusterRole''),
         (''name'', PStr (''educates-web-console-'' @ py_str (sn_workshop_namespace sn)))]),
       (''subjects'', PList [
         PDict [
           (''kind'', PStr ''ServiceAccount''),
           (''namespace'', sn_workshop_namespace sn),
           (''name'', sn_service_account sn)]])]"

definition create_or_fail :: "operator_world \<Rightarrow> string \<Rightarrow> pyval \<Rightarrow> unit kube" where
  "create_or_fail w what obj =
     kube_try (kube_bind (create_object w obj) (\<lambda>_. kube_return ()))
       (\<lambda>e. if is_PyKubeError e
            then kube_bind (set_status (educates_status
                   [(''phase'', PStr ''Failed''), (''message'', PStr (''Failed to create '' @ what @ '': '' @ ow_text w e))]))
                 (\<lambda>_. kube_raise (Raised PermanentError))
            else kube_raise e)"

definition create_accounts :: "operator_world \<Rightarrow> session_details \<Rightarrow> pyval \<Rightarrow> unit kube" where
  "create_accounts w sx namespace =
     (let sn = sx_names sx; ns = sx_namespace sx
      in kube_bind (create_or_fail w (''service account '' @ ns) (ow_adopt w (session_account sn) namespace))
    (\<lambda>_. kube_bind (create_or_fail w (''access token '' @ ns @ ''-token'') (ow_adopt w (session_account_token sn) namespace))
    (\<lambda>_. create_or_fail w (''cluster role binding educates-web-console-'' @ ns) (ow_adopt w (web_console_binding sn ns) namespace))))"

section \<open>Variables\<close>

definition exposed_host :: "session_details \<Rightarrow> string \<Rightarrow> string \<Rightarrow> string \<Rightarrow> operator_config \<Rightarrow> string result" where
  "exposed_host sx setting internal external cfg =
     bindE (lookup (sx_workshop_spec sx) setting (PBool False))
       (\<lambda>ingress. let ns = py_str (sn_workshop_namespace (sx_names sx))
          in Inr (if truthy ingress then external @ ''-'' @ ns @ ''.'' @ py_str (oc_ingress_domain cfg)
                  else internal @ ''.'' @ ns @ ''.svc.'' @ oc_cluster_domain cfg))"

definition chosen_repository :: "operator_config \<Rightarrow> pyval \<Rightarrow> pyval result" where
  "chosen_repository cfg environment =
     bindE (lookup environment ''spec.registry.host'' PNone)
  (\<lambda>host. bindE (lookup environment ''spec.registry.namespace'' PNone)
  (\<lambda>namespace. Inr (if \<not> truthy host then oc_image_repository cfg
                     else if truthy namespace then PStr (py_str host @ ''/'' @ py_str namespace) else host)))"

definition base_variables ::
    "operator_config \<Rightarrow> session_request \<Rightarrow> session_details \<Rightarrow> string \<times> string \<Rightarrow> (string \<times> pyval) list" where
  "base_variables cfg rq sx keys =
     (let sn = sx_names sx; port = (if oc_ingress_protocol cfg = PStr ''https'' then ''443'' else ''80'')
      in [
             (''workshop_session_uid'', sq_uid rq),
             (''platform_arch'', oc_platform_arch cfg),
             (''image_repository'', sx_repository sx),
             (''oci_image_cache'', PStr (sx_cache sx)),
             (''assets_repository'', PStr (sx_assets sx)),
             (''session_id'', sx_session_id sx),
             (''session_name'', sn_session_name sn),
             (''session_namespace'', PStr (sx_namespace sx)),
             (''service_account'', sn_service_account sn),
             (''workshop_name'', sn_workshop_name sn),
             (''workshop_version'', sx_workshop_version sx),
             (''environment_name'', sn_environment_name sn),
             (''workshop_namespace'', sn_workshop_namespace sn),
             (''training_portal'', sn_portal_name sn),
             (''session_url'', PStr (sx_url sx)),
             (''session_hostname'', PStr (sx_hostname sx)),
             (''cluster_domain'', PStr (oc_cluster_domain cfg)),
             (''ingress_domain'', oc_ingress_domain cfg),
             (''ingress_protocol'', oc_ingress_protocol cfg),
             (''ingress_port'', PStr port),
             (''ingress_port_suffix'', PStr []),
             (''ingress_secret'', oc_ingress_secret cfg),
             (''ingress_class'', oc_ingress_class cfg),
             (''storage_class'', oc_storage_class cfg),
             (''ssh_private_key'', PStr (fst keys)),
             (''ssh_public_key'', PStr (snd keys)),
             (''ssh_keys_secret'', PStr (sx_namespace sx @ ''-ssh-keys'')),
             (''services_password'', PStr (sx_services_password sx)),
             (''config_password'', sx_config_password sx)])"

definition workshop_image :: "operator_config \<Rightarrow> session_details \<Rightarrow> (string \<times> pyval) list \<Rightarrow> pyval result" where
  "workshop_image cfg sx vars =
     bindE (py_get_or (sx_workshop_spec sx) ''workshop'' (PDict []))
  (\<lambda>workshop. bindE (get_under (sx_workshop_spec sx) [''content''] ''image'' (PStr ''base-environment:*''))
  (\<lambda>content. bindE (py_get_or workshop ''image'' content)
  (\<lambda>img. bindE (substituted vars img) (resolve_workshop_image cfg))))"

definition read_image :: "operator_config \<Rightarrow> session_details \<Rightarrow> (string \<times> pyval) list \<Rightarrow> session_details result" where
  "read_image cfg sx vars =
     bindE (pull_policy (config_image cfg ''base-environment''))
  (\<lambda>_. bindE (workshop_image cfg sx vars)
  (\<lambda>img. bindE (pull_policy img)
  (\<lambda>policy. Inr (sx\<lparr>sx_image := img, sx_image_policy := policy,
                     sx_vars := dict_set ''workshop_image_pull_policy'' policy (dict_set ''workshop_image'' img vars)\<rparr>))))"

text \<open>The name of a variable is a string by the schema of the resource.\<close>

definition add_variable :: "pyval \<Rightarrow> (string \<times> pyval) list \<Rightarrow> (string \<times> pyval) list result" where
  "add_variable variable vars =
     bindE (bindE (py_index variable ''value'') (substituted vars))
       (\<lambda>v. bindE (py_index variable ''name'')
          (\<lambda>name. case name of PStr k \<Rightarrow> Inr (dict_set k v vars) | _ \<Rightarrow> Inl TypeError))"

definition session_variables ::
    "operator_config \<Rightarrow> session_request \<Rightarrow> session_details \<Rightarrow> string \<times> string \<Rightarrow> session_details result" where
  "session_variables cfg rq sx keys =
     bindE (exposed_host sx ''environment.assets.ingress.enabled'' ''assets-server'' ''assets'' cfg)
  (\<lambda>assets. bindE (exposed_host sx ''environment.images.ingress.enabled'' ''image-cache'' ''images'' cfg)
  (\<lambda>cache. bindE (chosen_repository cfg (sx_environment sx))
  (\<lambda>repository. let sx = sx\<lparr>sx_repository := repository, sx_assets := assets, sx_cache := cache\<rparr> in
     bindE (read_image cfg sx (base_variables cfg rq sx keys))
  (\<lambda>sx. bindE (bindE (bindE (py_get (sx_workshop_spec sx) ''session'') (\<lambda>s. py_get_or s ''variables'' (PList []))) py_iter)
  (\<lambda>own. bindE (foldE add_variable own (sx_vars sx))
  (\<lambda>vars. bindE (application_enabled (sx_applications sx) ''registry'')
  (\<lambda>registry. Inr (sx\<lparr>sx_vars := (if registry then dict_update (sx_registry sx) vars else vars)\<rparr>))))))))"

section \<open>Storage and the secret with the variables\<close>

definition claim_spec :: "operator_config \<Rightarrow> pyval \<Rightarrow> (string \<times> pyval) list" where
  "claim_spec cfg storage =
     [
       (''accessModes'', PList [PStr ''ReadWriteOnce'']),
       (''resources'', PDict [(''requests'', PDict [(''storage'', storage)])])]
     @ (if truthy (oc_storage_class cfg) then [(''storageClassName'', oc_storage_class cfg)] else [])"

definition session_volume_claim :: "operator_config \<Rightarrow> session_names \<Rightarrow> string \<Rightarrow> pyval \<Rightarrow> pyval" where
  "session_volume_claim cfg sn ns storage =
     PDict [
       (''apiVersion'', PStr ''v1''),
       (''kind'', PStr ''PersistentVolumeClaim''),
       (''metadata'', PDict [
         (''name'', PStr ns),
         (''namespace'', sn_workshop_namespace sn),
         (''labels'', PDict (session_labels sn))]),
       (''spec'', PDict (claim_spec cfg storage))]"

definition read_storage :: "session_details \<Rightarrow> session_details result" where
  "read_storage sx =
     (let resources = get_under (sx_workshop_spec sx) [''session'', ''resources'']
      in bindE (resources ''storage'' PNone)
    (\<lambda>storage. bindE (bindE (get_under (sx_workshop_spec sx) [''session'', ''resources'', ''volume''] ''name'' (PStr []))
                        (substituted (sx_vars sx)))
    (\<lambda>volume. if truthy volume
       then bindE (bindE (get_under (sx_workshop_spec sx) [''session'', ''resources'', ''volume''] ''subPath'' (PStr []))
                     (substituted (sx_vars sx)))
              (\<lambda>subpath. Inr (sx\<lparr>sx_storage := PNone, sx_volume_name := volume, sx_volume_subpath := subpath\<rparr>))
       else Inr (sx\<lparr>sx_storage := storage, sx_volume_name := volume, sx_volume_subpath := PStr []\<rparr>))))"

definition claim_storage :: "operator_world \<Rightarrow> session_details \<Rightarrow> pyval \<Rightarrow> unit kube" where
  "claim_storage w sx namespace =
     (if truthy (sx_storage sx)
      then kube_bind (create_object w (ow_adopt w
                       (session_volume_claim (ow_config w) (sx_names sx) (sx_namespace sx) (sx_storage sx)) namespace))
             (\<lambda>_. kube_return ())
      else kube_return ())"

definition encoded_value :: "string \<times> pyval \<Rightarrow> (string \<times> pyval) result" where
  "encoded_value = (\<lambda>(k, v). case v of PStr s \<Rightarrow> Inr (k, PStr (b64encode s)) | _ \<Rightarrow> Inl AttributeError)"

definition variables_secret :: "session_names \<Rightarrow> string \<Rightarrow> (string \<times> pyval) list \<Rightarrow> pyval" where
  "variables_secret sn ns data =
     PDict [
       (''apiVersion'', PStr ''v1''),
       (''kind'', PStr ''Secret''),
       (''metadata'', PDict [
         (''name'', PStr (ns @ ''-session'')),
         (''namespace'', sn_workshop_namespace sn),
         (''labels'', PDict [
           (''training.educates.dev/component'', PStr ''session''),
           (''training.educates.dev/component.group'', PStr ''variables''),
           (''training.educates.dev/workshop.name'', sn_workshop_name sn),
           (''training.educates.dev/portal.name'', sn_portal_name sn),
           (''training.educates.dev/portal.uid'', sn_portal_uid sn),
           (''training.educates.dev/environment.name'', sn_environment_name sn),
           (''training.educates.dev/environment.uid'', sn_environment_uid sn),
           (''training.educates.dev/session.name'', sn_session_name sn)])]),
       (''data'', PDict data)]"

definition save_variables :: "operator_world \<Rightarrow> session_details \<Rightarrow> pyval \<Rightarrow> unit kube" where
  "save_variables w sx namespace =
     kube_bind (kube_lift (mapE encoded_value (sx_vars sx)))
       (\<lambda>data. create_unless w ''Failed''
          (ow_adopt w (variables_secret (sx_names sx) (sx_namespace sx) data) namespace))"

section \<open>Secondary namespaces\<close>

definition secondary_namespace :: "operator_world \<Rightarrow> session_details \<Rightarrow> pyval \<Rightarrow> pyval \<Rightarrow> unit kube" where
  "secondary_namespace w sx namespace item =
     kube_bind (kube_lift (bindE (py_index item ''name'') (substituted (sx_vars sx))))
  (\<lambda>target. kube_bind (kube_lift (py_get_or item ''role'' (sx_role sx)))
  (\<lambda>role. kube_bind (kube_lift (py_get_or item ''budget'' (sx_budget sx)))
  (\<lambda>budget. kube_bind (kube_lift (py_get_or item ''limits'' (PDict [])))
  (\<lambda>limits. kube_bind (kube_lift (bindE (get_under item [''security''] ''policy'' (PStr (sx_policy sx))) resolve_security_policy))
  (\<lambda>policy. kube_bind (create_unless w ''Failed''
                          (ow_adopt w (session_namespace_body (ow_config w) (sx_names sx) target policy) namespace))
  (\<lambda>_. setup_session_namespace w (sx_names sx) namespace target (sx_applications sx) role budget limits (PStr policy)))))))"

definition secondary_namespaces :: "operator_world \<Rightarrow> session_details \<Rightarrow> pyval \<Rightarrow> unit kube" where
  "secondary_namespaces w sx namespace =
     kube_bind (kube_lift (py_get (sx_workshop_spec sx) ''session''))
       (\<lambda>session. if \<not> truthy session then kube_return ()
          else kube_bind (kube_lift (bindE (get_under session [''namespaces''] ''secondary'' (PList [])) py_iter))
                 (kube_each (secondary_namespace w sx namespace)))"

section \<open>Objects of the applications and the workshop\<close>

definition application_objects :: "operator_world \<Rightarrow> session_details \<Rightarrow> string \<Rightarrow> pyval list result" where
  "application_objects w sx application =
     bindE (application_enabled (sx_applications sx) application)
       (\<lambda>enabled. if \<not> enabled then Inr []
          else bindE (application_properties (sx_applications sx) application)
                 (\<lambda>(properties, _). session_objects_list w application properties))"

definition requested_objects :: "operator_world \<Rightarrow> session_details \<Rightarrow> pyval list result" where
  "requested_objects w sx =
     bindE (mapE (application_objects w sx) application_names)
       (\<lambda>objects. bindE (py_get (sx_workshop_spec sx) ''session'')
          (\<lambda>session. if \<not> truthy session then Inr (concat objects)
             else bindE (bindE (py_get_or session ''objects'' (PList [])) py_iter)
                    (\<lambda>own. Inr (concat objects @ own))))"

definition object_labels :: "session_names \<Rightarrow> (string \<times> pyval) list" where
  "object_labels sn = session_labels sn @ [(''training.educates.dev/session.objects'', PStr ''true'')]"

text \<open>Name, namespace, kind and version of an object, and the object with its labels.\<close>

record object_reference =
  or_name :: pyval
  or_namespace :: pyval
  or_kind :: pyval
  or_version :: pyval

definition session_object :: "session_details \<Rightarrow> pyval \<Rightarrow> (object_reference \<times> pyval) result" where
  "session_object sx obj =
     bindE (substituted (sx_vars sx) obj)
  (\<lambda>obj. bindE (default_namespace (PStr (sx_namespace sx)) obj)
  (\<lambda>obj. bindE (bindE (py_index obj ''metadata'') (\<lambda>m. py_index m ''name''))
  (\<lambda>name. bindE (bindE (py_index obj ''metadata'') (\<lambda>m. py_index m ''namespace''))
  (\<lambda>ns. bindE (py_index obj ''kind'')
  (\<lambda>kind. bindE (py_index obj ''apiVersion'')
  (\<lambda>version. bindE (add_labels (object_labels (sx_names sx)) obj)
  (\<lambda>obj. Inr (\<lparr>or_name = name, or_namespace = ns, or_kind = kind, or_version = version\<rparr>, obj))))))))"

definition core_kind :: "string \<Rightarrow> object_reference \<Rightarrow> bool result" where
  "core_kind kind ref =
     (if or_version ref \<noteq> PStr ''v1'' then Inr False
      else case or_kind ref of PStr k \<Rightarrow> Inr (lower k = kind) | _ \<Rightarrow> Inl AttributeError)"

definition object_failure :: "object_reference \<Rightarrow> session_names \<Rightarrow> string" where
  "object_failure ref sn =
     ''Unable to create workshop session objects, failed creating object '' @ py_str (or_name ref) @ '' of type ''
     @ py_str (or_kind ref) @ '' in namespace '' @ py_str (or_namespace ref) @ '' for workshop session ''
     @ py_str (sn_session_name sn) @ ''.''"

definition create_requested :: "operator_world \<Rightarrow> session_request \<Rightarrow> session_details \<Rightarrow> object_reference \<Rightarrow> pyval \<Rightarrow> unit kube" where
  "create_requested w rq sx ref obj =
     (let message = (''message'', PStr (object_failure ref (sx_names sx)))
      in kube_try (kube_bind (create_object w obj) (\<lambda>_. kube_return ()))
        (\<lambda>_. kube_bind (report_analytics_event w ''Resource/PermanentError'' (PDict (session_event rq @ [message])))
           (\<lambda>_. kube_bind (set_status (educates_status [(''phase'', PStr ''Failed''), message]))
              (\<lambda>_. kube_raise (Raised PermanentError)))))"

text \<open>The limits that the annotations of a namespace ask for: the annotation, the limit and its resource.\<close>

definition limit_annotations :: "(string \<times> string \<times> string) list" where
  "limit_annotations =
     [(''min.cpu'', ''min'', ''cpu''), (''min.memory'', ''min'', ''memory''),
      (''max.cpu'', ''max'', ''cpu''), (''max.memory'', ''max'', ''memory''),
      (''defaultrequest.cpu'', ''defaultRequest'', ''cpu''), (''defaultrequest.memory'', ''defaultRequest'', ''memory''),
      (''default.cpu'', ''default'', ''cpu''), (''default.memory'', ''default'', ''memory'')]"

definition dict_in :: "(string \<times> pyval) list \<Rightarrow> string \<Rightarrow> (string \<times> pyval) list" where
  "dict_in d k = (case dict_get d k of Some (PDict x) \<Rightarrow> x | _ \<Rightarrow> [])"

definition annotated_limit ::
    "(string \<times> pyval) list \<Rightarrow> string \<times> string \<times> string \<Rightarrow> (string \<times> pyval) list \<Rightarrow> (string \<times> pyval) list" where
  "annotated_limit annotations = (\<lambda>(annotation, limit, resource) limits.
     (case dict_get annotations (''training.educates.dev/session.limits.'' @ annotation) of
        None \<Rightarrow> limits
      | Some v \<Rightarrow> if truthy v then dict_set limit (PDict (dict_set resource v (dict_in limits limit))) limits else limits))"

definition annotated_limits :: "(string \<times> pyval) list \<Rightarrow> pyval" where
  "annotated_limits annotations = PDict (fold (annotated_limit annotations) limit_annotations [])"

definition annotations_of :: "pyval \<Rightarrow> (string \<times> pyval) list result" where
  "annotations_of obj =
     bindE (py_index obj ''metadata'')
       (\<lambda>m. bindE (py_index m ''annotations'') (\<lambda>a. case a of PDict d \<Rightarrow> Inr d | _ \<Rightarrow> Inl AttributeError))"

definition annotation_or :: "(string \<times> pyval) list \<Rightarrow> string \<Rightarrow> pyval \<Rightarrow> pyval" where
  "annotation_or annotations k d = (case dict_get annotations (''training.educates.dev/session.'' @ k) of None \<Rightarrow> d | Some v \<Rightarrow> v)"

definition create_namespace_object ::
    "operator_world \<Rightarrow> session_request \<Rightarrow> session_details \<Rightarrow> pyval \<Rightarrow> object_reference \<Rightarrow> pyval \<Rightarrow> pyval kube" where
  "create_namespace_object w rq sx namespace ref obj =
     kube_bind (kube_lift (set_annotation ''secretgen.carvel.dev/excluded-from-wildcard-matching'' (PStr []) obj))
  (\<lambda>obj. kube_bind (kube_lift (annotations_of obj))
  (\<lambda>annotations. kube_bind (kube_lift (resolve_security_policy (annotation_or annotations ''policy'' (PStr (sx_policy sx)))))
  (\<lambda>policy. kube_bind (kube_lift (bindE (add_labels (policy_labels (ow_config w) policy) obj)
                                     (add_labels (enforce_label (ow_config w) policy))))
  (\<lambda>obj. kube_bind (create_requested w rq sx ref obj)
  (\<lambda>_. kube_bind (kube_lift (bindE (py_index obj ''metadata'') (\<lambda>m. py_index m ''name'')))
  (\<lambda>target. kube_bind (setup_session_namespace w (sx_names sx) namespace target (sx_applications sx)
                          (annotation_or annotations ''role'' (sx_role sx)) (annotation_or annotations ''budget'' (sx_budget sx))
                          (annotated_limits annotations) (PStr policy))
  (\<lambda>_. kube_return obj)))))))"

text \<open>The loop over the quota's status ends with a \<open>continue\<close> and never with a \<open>break\<close>: it always looks 25 times.\<close>

primrec await_quota :: "operator_world \<Rightarrow> pyval \<Rightarrow> pyval \<Rightarrow> nat \<Rightarrow> unit kube" where
  "await_quota w ns name 0 = kube_return ()"
| "await_quota w ns name (Suc n) =
     kube_bind (kube_get (ow_api w) ''ResourceQuota'' ns name)
       (\<lambda>quota. kube_bind (check_quota quota) (\<lambda>_. await_quota w ns name n))"

definition await_created_quota :: "operator_world \<Rightarrow> object_reference \<Rightarrow> pyval \<Rightarrow> unit kube" where
  "await_created_quota w ref obj =
     kube_bind (kube_lift (core_kind ''resourcequota'' ref))
       (\<lambda>quota. if \<not> quota then kube_return ()
          else kube_bind (kube_lift (bindE (py_index obj ''metadata'') (\<lambda>m. py_index m ''namespace'')))
                 (\<lambda>ns. kube_bind (kube_lift (bindE (py_index obj ''metadata'') (\<lambda>m. py_index m ''name'')))
                    (\<lambda>name. await_quota w ns name 25)))"

definition create_session_object :: "operator_world \<Rightarrow> session_request \<Rightarrow> session_details \<Rightarrow> pyval \<Rightarrow> pyval \<Rightarrow> unit kube" where
  "create_session_object w rq sx namespace obj =
     kube_bind (kube_lift (session_object sx obj))
       (\<lambda>(ref, obj). let obj = ow_adopt w obj namespace
          in kube_bind (kube_lift (core_kind ''namespace'' ref))
            (\<lambda>is_ns. kube_bind (if is_ns then create_namespace_object w rq sx namespace ref obj
                                 else kube_bind (create_requested w rq sx ref obj) (\<lambda>_. kube_return obj))
               (await_created_quota w ref)))"

section \<open>The steps\<close>

definition find_session_environment :: "operator_world \<Rightarrow> session_request \<Rightarrow> session_details kube" where
  "find_session_environment w rq =
     kube_bind (kube_lift (bindE (py_index (sq_spec rq) ''environment'') (\<lambda>e. py_index e ''name'')))
  (\<lambda>environment_name. kube_bind (find_environment w environment_name)
  (\<lambda>environment. kube_bind (kube_lift (identify_session rq environment_name environment))
  (\<lambda>sx. kube_bind (kube_lift (environment_ready environment))
  (\<lambda>ready. kube_bind (unless_pending ready)
  (\<lambda>_. kube_bind (kube_lift (bindE (read_workshop (ow_config w) sx) read_namespaces))
  (\<lambda>sx. kube_bind (prepare_registry w sx)
  (\<lambda>sx. kube_bind (choose_passwords w rq sx) (copy_secrets w))))))))"

definition provision_session :: "operator_world \<Rightarrow> session_request \<Rightarrow> session_details \<Rightarrow> pyval \<Rightarrow> string \<times> string \<Rightarrow> session_details kube" where
  "provision_session w rq sx namespace keys =
     kube_bind (create_accounts w sx namespace)
  (\<lambda>_. kube_bind (setup_session_namespace w (sx_names sx) namespace (PStr (sx_namespace sx)) (sx_applications sx)
                     (sx_role sx) (sx_budget sx) (sx_limits sx) (PStr (sx_policy sx)))
  (\<lambda>_. kube_bind (kube_lift (bindE (session_variables (ow_config w) rq sx keys) read_storage))
  (\<lambda>sx. kube_bind (claim_storage w sx namespace)
  (\<lambda>_. kube_bind (save_variables w sx namespace)
  (\<lambda>_. kube_bind (secondary_namespaces w sx namespace)
  (\<lambda>_. kube_bind (kube_lift (requested_objects w sx))
  (\<lambda>objects. kube_bind (kube_each (create_session_object w rq sx namespace) objects)
  (\<lambda>_. kube_return sx))))))))"

text \<open>
  Up to the namespace the status is pending, so that the handler is tried again; from then on it is failed until
  the session is running.
\<close>

definition prepare_session :: "operator_world \<Rightarrow> session_request \<Rightarrow> (session_details \<times> pyval \<times> (string \<times> string)) kube" where
  "prepare_session w rq =
     kube_bind (report_analytics_event w ''Resource/Create'' (PDict (session_event rq)))
  (\<lambda>_. kube_bind (set_status (educates_status [(''phase'', PStr ''Pending'')]))
  (\<lambda>_. kube_bind (find_session_environment w rq)
  (\<lambda>sx. kube_bind (create_session_namespace w rq sx)
  (\<lambda>namespace. kube_bind (new_keys w)
  (\<lambda>keys. kube_bind (set_status (educates_status [(''phase'', PStr ''Failed'')]))
  (\<lambda>_. kube_bind (provision_session w rq sx namespace keys)
  (\<lambda>sx. kube_return (sx, namespace, keys))))))))"

end
