(* ===== verification/Session_Dashboard.thy ===== *)
theory Session_Dashboard
  imports Workshop_Sessions
begin

text \<open>
  The pod of a workshop session (\<open>workshop_session_create\<close> in
  \<open>session-manager/handlers/workshopsession.py\<close>): the container with the dashboard, the volumes and the containers
  that fill them, and the patches of applications, workshop and session.
\<close>

section \<open>Settings of the dashboard\<close>

record dashboard =
  db_config_secret :: string
  db_username :: pyval
  db_password :: pyval
  db_memory :: pyval
  db_google :: pyval
  db_clarity :: pyval
  db_amplitude :: pyval
  db_env_from :: pyval
  db_token :: bool

text \<open>The secret with the configuration of the workshop: the first request object of the right kind and name.\<close>

definition is_config_secret :: "session_details \<Rightarrow> pyval \<Rightarrow> bool result" where
  "is_config_secret sx obj =
     bindE (py_index obj ''kind'')
       (\<lambda>kind. if kind \<noteq> PStr ''Secret'' then Inr False
          else bindE (bindE (bindE (py_index obj ''metadata'') (\<lambda>m. py_index m ''name'')) (substituted (sx_vars sx)))
                 (\<lambda>name. Inr (name = PStr (py_str (sn_session_name (sx_names sx)) @ ''-config''))))"

definition config_secret_name :: "session_details \<Rightarrow> string result" where
  "config_secret_name sx =
     bindE (bindE (get_under (sx_workshop_spec sx) [''request''] ''objects'' (PList [])) py_iter)
       (\<lambda>objects. bindE (anyE (is_config_secret sx) objects)
          (\<lambda>found. Inr (if found then py_str (sn_session_name (sx_names sx)) @ ''-config'' else ''workshop-config'')))"

definition read_dashboard :: "operator_config \<Rightarrow> session_request \<Rightarrow> session_details \<Rightarrow> dashboard result" where
  "read_dashboard cfg rq sx =
     (let tracking = (\<lambda>vendor dflt. get_under (sq_spec rq) [''analytics'', vendor] ''trackingId'' dflt)
      in bindE (config_secret_name sx)
    (\<lambda>config_secret. bindE (bindE (py_index (sq_spec rq) ''session'') (\<lambda>s. py_get_or s ''username'' (PStr [])))
    (\<lambda>username. bindE (bindE (py_index (sq_spec rq) ''session'') (\<lambda>s. py_get_or s ''password'' (PStr [])))
    (\<lambda>password. bindE (application_enabled (sx_applications sx) ''editor'')
    (\<lambda>editor. bindE (get_under (sx_workshop_spec sx) [''session'', ''resources''] ''memory''
                        (PStr (if editor then ''1Gi'' else ''512Mi'')))
    (\<lambda>memory. bindE (tracking ''google'' (oc_google_tracking_id cfg))
    (\<lambda>google. bindE (tracking ''clarity'' (oc_clarity_tracking_id cfg))
    (\<lambda>clarity. bindE (tracking ''amplitude'' (oc_amplitude_tracking_id cfg))
    (\<lambda>amplitude. bindE (bindE (get_under (sx_workshop_spec sx) [''session''] ''envFrom'' (PList [])) (substituted (sx_vars sx)))
    (\<lambda>env_from. bindE (bindE (py_index (sx_workshop_spec sx) ''session'')
                          (\<lambda>s. get_under s [''namespaces'', ''security'', ''token''] ''enabled'' (PBool True)))
    (\<lambda>token. Inr
       \<lparr>db_config_secret = config_secret, db_username = username, db_password = password, db_memory = memory,
        db_google = google, db_clarity = clarity, db_amplitude = amplitude, db_env_from = env_from,
        db_token = truthy token\<rparr>)))))))))))"

section \<open>The pod\<close>

definition application_labels :: "session_names \<Rightarrow> string \<Rightarrow> (string \<times> pyval) list" where
  "application_labels sn application =
     take 1 (session_labels sn) @ [(''training.educates.dev/application'', PStr application)] @ drop 1 (session_labels sn)"

definition base_policy :: "operator_config \<Rightarrow> pyval" where
  "base_policy cfg = (case pull_policy (config_image cfg ''base-environment'') of Inr v \<Rightarrow> v | Inl _ \<Rightarrow> PNone)"

definition volume_path :: "session_details \<Rightarrow> string \<Rightarrow> string" where
  "volume_path sx path = (if truthy (sx_volume_subpath sx) then py_str (sx_volume_subpath sx) @ ''/'' @ path else path)"

definition dashboard_env :: "operator_config \<Rightarrow> session_details \<Rightarrow> dashboard \<Rightarrow> pyval list" where
  "dashboard_env cfg sx db = [
       PDict [(''name'', PStr ''GOOGLE_TRACKING_ID''), (''value'', db_google db)],
       PDict [(''name'', PStr ''CLARITY_TRACKING_ID''), (''value'', db_clarity db)],
       PDict [(''name'', PStr ''AMPLITUDE_TRACKING_ID''), (''value'', db_amplitude db)],
       PDict [(''name'', PStr ''ENVIRONMENT_NAME''), (''value'', sn_environment_name (sx_names sx))],
       PDict [(''name'', PStr ''WORKSHOP_NAME''), (''value'', sn_workshop_name (sx_names sx))],
       PDict [(''name'', PStr ''WORKSHOP_VERSION''), (''value'', sx_workshop_version sx)],
       PDict [(''name'', PStr ''WORKSHOP_NAMESPACE''), (''value'', sn_workshop_namespace (sx_names sx))],
       PDict [(''name'', PStr ''SESSION_NAMESPACE''), (''value'', PStr (sx_namespace sx))],
       PDict [(''name'', PStr ''SESSION_NAME''), (''value'', sn_session_name (sx_names sx))],
       PDict [(''name'', PStr ''SESSION_ID''), (''value'', sx_session_id sx)],
       PDict [(''name'', PStr ''SESSION_URL''), (''value'', PStr (sx_url sx))],
       PDict [(''name'', PStr ''SESSION_HOSTNAME''), (''value'', PStr (sx_hostname sx))],
       PDict [(''name'', PStr ''AUTH_USERNAME''), (''value'', db_username db)],
       PDict [(''name'', PStr ''AUTH_PASSWORD''), (''value'', db_password db)],
       PDict [(''name'', PStr ''GATEWAY_PORT''), (''value'', PStr ''10080'')],
       PDict [(''name'', PStr ''CLUSTER_DOMAIN''), (''value'', PStr (oc_cluster_domain cfg))],
       PDict [(''name'', PStr ''INGRESS_DOMAIN''), (''value'', oc_ingress_domain cfg)],
       PDict [(''name'', PStr ''INGRESS_PORT_SUFFIX''), (''value'', PStr [])],
       PDict [(''name'', PStr ''INGRESS_PROTOCOL''), (''value'', oc_ingress_protocol cfg)],
       PDict [(''name'', PStr ''SESSION_COOKIE_DOMAIN''), (''value'', sx_cookie_domain sx)],
       PDict [(''name'', PStr ''IMAGE_REPOSITORY''), (''value'', sx_repository sx)],
       PDict [(''name'', PStr ''OCI_IMAGE_CACHE''), (''value'', PStr (sx_cache sx))],
       PDict [(''name'', PStr ''ASSETS_REPOSITORY''), (''value'', PStr (sx_assets sx))],
       PDict [(''name'', PStr ''INGRESS_CLASS''), (''value'', oc_ingress_class cfg)],
       PDict [(''name'', PStr ''STORAGE_CLASS''), (''value'', oc_storage_class cfg)],
       PDict [(''name'', PStr ''POLICY_ENGINE''), (''value'', oc_policy_engine cfg)],
       PDict [(''name'', PStr ''POLICY_NAME''), (''value'', PStr (sx_policy sx))],
       PDict [(''name'', PStr ''SERVICES_PASSWORD''), (''value'', PStr (sx_services_password sx))],
       PDict [(''name'', PStr ''CONFIG_PASSWORD''), (''value'', sx_config_password sx)]]"

definition token_mount :: pyval where
  "token_mount =
     PDict [
       (''name'', PStr ''cluster-token''),
       (''mountPath'', PStr ''/var/run/secrets/kubernetes.io/serviceaccount''),
       (''readOnly'', PBool True)]"

definition trust_mount :: pyval where
  "trust_mount =
     PDict [
       (''name'', PStr ''workshop-ca-trust''),
       (''mountPath'', PStr ''/etc/pki/ca-trust''),
       (''readOnly'', PBool True)]"

definition data_mounts :: "session_details \<Rightarrow> pyval list" where
  "data_mounts sx = [
       PDict [
         (''name'', PStr ''workshop-data''),
         (''mountPath'', PStr ''/home/eduk8s''),
         (''subPath'', PStr (volume_path sx ''home/eduk8s''))],
       PDict [
         (''name'', PStr ''workshop-data''),
         (''mountPath'', PStr ''/opt/assets''),
         (''subPath'', PStr (volume_path sx ''opt/assets''))],
       PDict [
         (''name'', PStr ''workshop-data''),
         (''mountPath'', PStr ''/opt/packages''),
         (''subPath'', PStr (volume_path sx ''opt/packages''))],
       PDict [
         (''name'', PStr ''workshop-data''),
         (''mountPath'', PStr ''/opt/git/repositories''),
         (''subPath'', PStr (volume_path sx ''opt/git/repositories''))]]"

definition dashboard_mounts :: "operator_config \<Rightarrow> session_details \<Rightarrow> dashboard \<Rightarrow> pyval list" where
  "dashboard_mounts cfg sx db =
     [
       PDict [(''name'', PStr ''workshop-config''), (''mountPath'', PStr ''/opt/eduk8s/config'')],
       PDict [(''name'', PStr ''workshop-theme''), (''mountPath'', PStr ''/opt/eduk8s/theme'')]]
     @ (if db_token db then [token_mount] else [])
     @ (if truthy (oc_ingress_ca_secret cfg) then [trust_mount] else [])
     @ data_mounts sx"

definition dashboard_container :: "operator_config \<Rightarrow> session_details \<Rightarrow> dashboard \<Rightarrow> pyval" where
  "dashboard_container cfg sx db =
     PDict [
       (''name'', PStr ''workshop''),
       (''image'', sx_image sx),
       (''imagePullPolicy'', sx_image_policy sx),
       (''securityContext'', PDict [
         (''allowPrivilegeEscalation'', PBool False),
         (''capabilities'', PDict [(''drop'', PList [PStr ''ALL''])]),
         (''runAsNonRoot'', PBool True),
         (''privileged'', PBool False)]),
       (''resources'', PDict [
         (''requests'', PDict [(''memory'', db_memory db)]),
         (''limits'', PDict [(''memory'', db_memory db)])]),
       (''ports'', PList [
         PDict [
           (''name'', PStr ''10080-tcp''),
           (''containerPort'', PInt 10080),
           (''protocol'', PStr ''TCP'')]]),
       (''envFrom'', db_env_from db),
       (''env'', PList (dashboard_env cfg sx db)),
       (''volumeMounts'', PList (dashboard_mounts cfg sx db))]"

definition ca_volumes :: "operator_config \<Rightarrow> pyval list" where
  "ca_volumes cfg = [
       PDict [
         (''name'', PStr ''workshop-ca''),
         (''secret'', PDict [(''secretName'', oc_ingress_ca_secret cfg)])],
       PDict [(''name'', PStr ''workshop-ca-trust''), (''emptyDir'', PDict [])]]"

definition data_volume :: "session_details \<Rightarrow> pyval" where
  "data_volume sx =
     PDict ((''name'', PStr ''workshop-data'')
       # (if truthy (sx_volume_name sx) then [(''persistentVolumeClaim'', PDict [(''claimName'', sx_volume_name sx)])]
          else if truthy (sx_storage sx) then [(''persistentVolumeClaim'', PDict [(''claimName'', PStr (sx_namespace sx))])]
          else [(''emptyDir'', PDict [])]))"

definition secrets_volume :: "session_details \<Rightarrow> pyval" where
  "secrets_volume sx =
     PDict [
       (''name'', PStr ''vendir-secrets''),
       (''secret'', PDict [(''secretName'', PStr (sx_namespace sx @ ''-vendir-secrets''))])]"

definition pod_volumes :: "operator_config \<Rightarrow> session_details \<Rightarrow> dashboard \<Rightarrow> bool \<Rightarrow> pyval list" where
  "pod_volumes cfg sx db downloads =
     [
       PDict [
         (''name'', PStr ''workshop-config''),
         (''secret'', PDict [(''secretName'', PStr (db_config_secret db))])],
       PDict [
         (''name'', PStr ''workshop-theme''),
         (''secret'', PDict [(''secretName'', PStr ''workshop-theme'')])]]
     @ [PDict [
       (''name'', PStr ''cluster-token''),
       (''secret'', PDict [(''secretName'', PStr (sx_namespace sx @ ''-token''))])]]
     @ (if truthy (oc_ingress_ca_secret cfg) then ca_volumes cfg else [])
     @ [data_volume sx]
     @ (if downloads then [secrets_volume sx] else [])"

definition certificates_container :: "operator_config \<Rightarrow> dashboard \<Rightarrow> pyval" where
  "certificates_container cfg db =
     PDict [
       (''name'', PStr ''ca-trust-store-initialization''),
       (''image'', config_image cfg ''base-environment''),
       (''imagePullPolicy'', base_policy cfg),
       (''securityContext'', PDict [
         (''allowPrivilegeEscalation'', PBool False),
         (''runAsNonRoot'', PBool False),
         (''runAsUser'', PInt 0)]),
       (''command'', PList [PStr ''/opt/eduk8s/sbin/setup-certificates'']),
       (''resources'', PDict [
         (''requests'', PDict [(''memory'', db_memory db)]),
         (''limits'', PDict [(''memory'', db_memory db)])]),
       (''volumeMounts'', PList [
         PDict [
           (''name'', PStr ''workshop-ca''),
           (''mountPath'', PStr ''/etc/pki/ca-trust/source/anchors/Cluster_Ingress_CA.pem''),
           (''subPath'', PStr ''ca.crt'')],
         PDict [(''name'', PStr ''workshop-ca-trust''), (''mountPath'', PStr ''/mnt'')]])]"

definition permissions_container :: "operator_config \<Rightarrow> dashboard \<Rightarrow> pyval" where
  "permissions_container cfg db =
     PDict [
       (''name'', PStr ''storage-permissions-initialization''),
       (''image'', config_image cfg ''base-environment''),
       (''imagePullPolicy'', base_policy cfg),
       (''securityContext'', PDict [
         (''allowPrivilegeEscalation'', PBool False),
         (''capabilities'', PDict [(''drop'', PList [PStr ''ALL''])]),
         (''runAsNonRoot'', PBool False),
         (''runAsUser'', PInt 0)]),
       (''command'', PList [PStr ''/bin/sh'', PStr ''-c'']),
       (''args'', PList [
         PStr (''chown '' @ py_str (oc_storage_user cfg) @ '':'' @ py_str (oc_storage_group cfg) @ '' /mnt && chmod og+rwx /mnt'')]),
       (''resources'', PDict [
         (''requests'', PDict [(''memory'', db_memory db)]),
         (''limits'', PDict [(''memory'', db_memory db)])]),
       (''volumeMounts'', PList [PDict [(''name'', PStr ''workshop-data''), (''mountPath'', PStr ''/mnt'')]])]"

definition volume_container :: "session_details \<Rightarrow> dashboard \<Rightarrow> pyval" where
  "volume_container sx db =
     PDict [
       (''name'', PStr ''workshop-volume-initialization''),
       (''image'', sx_image sx),
       (''imagePullPolicy'', sx_image_policy sx),
       (''securityContext'', PDict [
         (''allowPrivilegeEscalation'', PBool False),
         (''capabilities'', PDict [(''drop'', PList [PStr ''ALL''])]),
         (''runAsNonRoot'', PBool True)]),
       (''command'', PList [
         PStr ''/opt/eduk8s/sbin/setup-volume'',
         PStr ''/home/eduk8s'',
         PStr (''/mnt/'' @ volume_path sx ''home/eduk8s'')]),
       (''resources'', PDict [
         (''requests'', PDict [(''memory'', db_memory db)]),
         (''limits'', PDict [(''memory'', db_memory db)])]),
       (''volumeMounts'', PList [PDict [(''name'', PStr ''workshop-data''), (''mountPath'', PStr ''/mnt'')]])]"

definition downloads_container :: "operator_config \<Rightarrow> session_details \<Rightarrow> dashboard \<Rightarrow> pyval" where
  "downloads_container cfg sx db =
     PDict [
       (''name'', PStr ''workshop-downloads-initialization''),
       (''image'', config_image cfg ''base-environment''),
       (''imagePullPolicy'', base_policy cfg),
       (''securityContext'', PDict [
         (''allowPrivilegeEscalation'', PBool False),
         (''capabilities'', PDict [(''drop'', PList [PStr ''ALL''])]),
         (''runAsNonRoot'', PBool True)]),
       (''command'', PList [PStr ''/opt/eduk8s/sbin/setup-downloads'']),
       (''resources'', PDict [
         (''requests'', PDict [(''memory'', db_memory db)]),
         (''limits'', PDict [(''memory'', db_memory db)])]),
       (''volumeMounts'', PList ([
           PDict [
             (''name'', PStr ''workshop-data''),
             (''mountPath'', PStr ''/opt/assets''),
             (''subPath'', PStr (volume_path sx ''opt/assets''))],
           PDict [
             (''name'', PStr ''workshop-data''),
             (''mountPath'', PStr ''/opt/packages''),
             (''subPath'', PStr (volume_path sx ''opt/packages''))],
           PDict [(''name'', PStr ''vendir-secrets''), (''mountPath'', PStr ''/opt/secrets'')],
           PDict [
             (''name'', PStr ''workshop-config''),
             (''mountPath'', PStr ''/opt/eduk8s/config'')]]
         @ (if truthy (oc_ingress_ca_secret cfg) then [trust_mount] else [])))]"

definition pod_init_containers :: "operator_config \<Rightarrow> session_details \<Rightarrow> dashboard \<Rightarrow> bool \<Rightarrow> pyval list" where
  "pod_init_containers cfg sx db downloads =
     (if truthy (oc_ingress_ca_secret cfg) then [certificates_container cfg db] else [])
     @ (if truthy (oc_storage_user cfg) then [permissions_container cfg db] else [])
     @ [volume_container sx db]
     @ (if downloads then [downloads_container cfg sx db] else [])"

definition session_pod :: "operator_config \<Rightarrow> session_details \<Rightarrow> dashboard \<Rightarrow> bool \<Rightarrow> pyval list \<Rightarrow> pyval" where
  "session_pod cfg sx db downloads own =
     PDict ([
       (''serviceAccountName'', sn_service_account (sx_names sx)),
       (''securityContext'', PDict [
         (''fsGroup'', oc_storage_group cfg),
         (''supplementalGroups'', PList [oc_storage_group cfg])]),
       (''initContainers'', PList (pod_init_containers cfg sx db downloads @ own)),
       (''containers'', PList [dashboard_container cfg sx db]),
       (''volumes'', PList (pod_volumes cfg sx db downloads)),
       (''hostAliases'', PList [])]
     @ (if truthy (oc_runtime_class cfg) then [(''runtimeClassName'', oc_runtime_class cfg)] else [])
     @ [(''automountServiceAccountToken'', PBool False)])"

section \<open>Downloads\<close>

text \<open>Where the description of a download names a secret, in the order in which the code looks.\<close>

definition secret_places :: "(string list \<times> string) list" where
  "secret_places =
     [([''git''], ''secretRef''), ([''git'', ''verification''], ''publicKeysSecretRef''), ([''hg''], ''secretRef''),
      ([''http''], ''secretRef''), ([''image''], ''secretRef''), ([''imgpkgBundle''], ''secretRef''),
      ([''githubRelease''], ''secretRef''), ([''helmChart'', ''repository''], ''secretRef''), ([''inline''], ''pathsFrom'')]"

definition needs_secret :: "pyval \<Rightarrow> bool result" where
  "needs_secret content =
     anyE (\<lambda>(path, key). bindE (get_under content path key PNone) (\<lambda>v. Inr (truthy v))) secret_places"

definition secrets_required :: "pyval \<Rightarrow> bool result" where
  "secrets_required contents = bindE (py_iter contents) (anyE needs_secret)"

definition downloads_need_secrets :: "session_details \<Rightarrow> bool result" where
  "downloads_need_secrets sx =
     bindE (bindE (get_under (sx_workshop_spec sx) [''workshop''] ''files'' (PList [])) secrets_required)
       (\<lambda>files. if files then Inr True
          else bindE (bindE (get_under (sx_workshop_spec sx) [''workshop''] ''packages'' (PList [])) py_iter)
                 (anyE (\<lambda>package. bindE (py_get_or package ''files'' (PList [])) secrets_required)))"

definition downloads_secret :: "session_names \<Rightarrow> session_details \<Rightarrow> pyval" where
  "downloads_secret sn sx =
     PDict [
       (''apiVersion'', PStr ''v1''),
       (''kind'', PStr ''Secret''),
       (''metadata'', PDict [
         (''name'', PStr (sx_namespace sx @ ''-vendir-secrets'')),
         (''namespace'', sn_workshop_namespace sn),
         (''labels'', PDict (session_labels sn))]),
       (''data'', PDict (sx_secrets sx))]"

text \<open>Whether the files are downloaded by a container of their own, with a secret made for it.\<close>

definition prepare_downloads :: "operator_world \<Rightarrow> session_details \<Rightarrow> pyval \<Rightarrow> bool kube" where
  "prepare_downloads w sx namespace =
     kube_bind (kube_lift (downloads_need_secrets sx))
       (\<lambda>needed. if needed \<and> sx_secrets sx \<noteq> []
          then kube_bind (create_object w (ow_adopt w (downloads_secret (sx_names sx) sx) namespace)) (\<lambda>_. kube_return True)
          else kube_return False)"

section \<open>Changes to the pod\<close>

text \<open>\<open>pod["containers"][0]\<close> is the workshop's container unless a patch made something else of it.\<close>

fun on_first :: "(pyval \<Rightarrow> pyval result) \<Rightarrow> pyval \<Rightarrow> pyval result" where
  "on_first f (PList (x # xs)) = bindE (f x) (\<lambda>x. Inr (PList (x # xs)))"
| "on_first f (PList []) = Inl IndexError"
| "on_first f (PDict d) = Inl KeyError"
| "on_first f v = Inl TypeError"

definition on_workshop_container :: "(pyval \<Rightarrow> pyval result) \<Rightarrow> pyval \<Rightarrow> pyval result" where
  "on_workshop_container f = change_path [''containers''] (on_first f)"

definition add_volumes :: "pyval list \<Rightarrow> pyval \<Rightarrow> pyval result" where
  "add_volumes vs = change_path [''volumes''] (list_extend vs)"

definition add_mounts :: "pyval list \<Rightarrow> pyval \<Rightarrow> pyval result" where
  "add_mounts ms = on_workshop_container (change_path [''volumeMounts''] (list_extend ms))"

definition add_container :: "pyval \<Rightarrow> pyval \<Rightarrow> pyval result" where
  "add_container c = change_path [''containers''] (list_append c)"

definition apply_application :: "session_details \<Rightarrow> string \<Rightarrow> pyval \<Rightarrow> pyval result" where
  "apply_application sx application pod =
     bindE (application_enabled (sx_applications sx) application)
       (\<lambda>enabled. if \<not> enabled then Inr pod
          else bindE (application_properties (sx_applications sx) application)
            (\<lambda>_. bindE (substituted (sx_vars sx) (pod_template_spec_patches application)) (overlay ''name'' pod)))"

definition apply_workshop_patches :: "session_details \<Rightarrow> pyval \<Rightarrow> pyval result" where
  "apply_workshop_patches sx pod =
     bindE (py_get (sx_workshop_spec sx) ''session'')
       (\<lambda>session. if \<not> truthy session then Inr pod
          else bindE (bindE (py_get_or session ''patches'' (PDict [])) (substituted (sx_vars sx))) (overlay ''name'' pod))"

definition set_env :: "pyval \<Rightarrow> pyval \<Rightarrow> pyval result" where
  "set_env patch container =
     bindE (py_get container ''env'')
       (\<lambda>env. if env = PNone then set_key ''env'' patch container
          else change_path [''env''] (\<lambda>e. overlay ''name'' e patch) container)"

definition apply_environment_patch :: "session_details \<Rightarrow> pyval \<Rightarrow> pyval \<Rightarrow> pyval result" where
  "apply_environment_patch sx patch pod =
     (if \<not> truthy patch then Inr pod
      else bindE (substituted (sx_vars sx) patch) (\<lambda>patch. on_workshop_container (set_env patch) pod))"

definition apply_environments :: "session_request \<Rightarrow> session_details \<Rightarrow> pyval \<Rightarrow> pyval result" where
  "apply_environments rq sx pod =
     bindE (py_get (sx_workshop_spec sx) ''session'')
  (\<lambda>session. bindE (if \<not> truthy session then Inr pod
                     else bindE (py_get_or session ''env'' (PList [])) (\<lambda>env. apply_environment_patch sx env pod))
  (\<lambda>pod. bindE (bindE (py_index (sq_spec rq) ''session'') (\<lambda>s. py_get_or s ''env'' (PList [])))
  (\<lambda>env. apply_environment_patch sx env pod)))"

definition own_init_containers :: "session_details \<Rightarrow> pyval list result" where
  "own_init_containers sx =
     bindE (bindE (py_index (sx_workshop_spec sx) ''session'') (\<lambda>s. py_get_or s ''initContainers'' (PList [])))
       (\<lambda>cs. bindE (substituted (sx_vars sx) cs) py_iter)"

definition patched_pod :: "operator_config \<Rightarrow> session_request \<Rightarrow> session_details \<Rightarrow> dashboard \<Rightarrow> bool \<Rightarrow> pyval result" where
  "patched_pod cfg rq sx db downloads =
     bindE (own_init_containers sx)
  (\<lambda>own. bindE (foldE (apply_application sx) application_names (session_pod cfg sx db downloads own))
  (\<lambda>pod. bindE (apply_workshop_patches sx pod) (apply_environments rq sx)))"

definition application_enabled_labels :: "session_details \<Rightarrow> (string \<times> pyval) list result" where
  "application_enabled_labels sx =
     bindE (filterE (application_enabled (sx_applications sx)) application_names)
       (\<lambda>names. Inr (map (\<lambda>n. (''training.educates.dev/session.applications.'' @ lower n, PStr ''true'')) names))"

end
