(* ===== verification/Session_Services.thy ===== *)
theory Session_Services
  imports Session_Dashboard
begin

text \<open>
  The services beside the dashboard of a workshop session (\<open>workshop_session_create\<close> in
  \<open>session-manager/handlers/workshopsession.py\<close>): Docker in the pod of the session, and an image registry with a
  deployment of its own.
\<close>

section \<open>Objects of a service\<close>

text \<open>The property of an application; the empty dictionary that reading it may leave is not read again.\<close>

definition app_property :: "session_details \<Rightarrow> string \<Rightarrow> string \<Rightarrow> pyval \<Rightarrow> pyval result" where
  "app_property sx application key dflt =
     bindE (application_property (sx_applications sx) application key dflt) (\<lambda>(v, _). Inr v)"

definition enabled :: "session_details \<Rightarrow> string \<Rightarrow> bool result" where
  "enabled sx = application_enabled (sx_applications sx)"

definition create_substituted :: "operator_world \<Rightarrow> session_details \<Rightarrow> pyval \<Rightarrow> pyval \<Rightarrow> unit kube" where
  "create_substituted w sx namespace obj =
     kube_bind (kube_lift (substituted (sx_vars sx) obj))
       (\<lambda>obj. kube_bind (create_object w (ow_adopt w obj namespace)) (\<lambda>_. kube_return ()))"

definition registry_value :: "session_details \<Rightarrow> string \<Rightarrow> string" where
  "registry_value sx key = (case dict_get (sx_registry sx) key of Some (PStr s) \<Rightarrow> s | _ \<Rightarrow> [])"

definition storage_class_entry :: "operator_config \<Rightarrow> (string \<times> pyval) list" where
  "storage_class_entry cfg = (if truthy (oc_storage_class cfg) then [(''storageClassName'', oc_storage_class cfg)] else [])"

section \<open>Docker\<close>

definition docker_volumes :: "session_details \<Rightarrow> pyval list" where
  "docker_volumes sx =
     [PDict [(''name'', PStr ''docker-socket''), (''emptyDir'', PDict [])]]
     @ (if truthy (sx_volume_name sx) then []
        else [PDict [
       (''name'', PStr ''docker-data''),
       (''persistentVolumeClaim'', PDict [(''claimName'', PStr (sx_namespace sx @ ''-docker''))])]])"

definition docker_socket_mounts :: "pyval list" where
  "docker_socket_mounts = [
       PDict [
         (''name'', PStr ''docker-socket''),
         (''mountPath'', PStr ''/var/run/docker''),
         (''readOnly'', PBool True)]]"

definition dockerd_daemon_args :: "operator_config \<Rightarrow> session_details \<Rightarrow> bool \<Rightarrow> string list" where
  "dockerd_daemon_args cfg sx registry =
     [''--host=unix:///var/run/workshop/docker.sock'', ''--mtu='' @ py_str (oc_dockerd_mtu cfg)]
     @ (if registry \<and> \<not> truthy (oc_ingress_secret cfg) then [''--insecure-registry='' @ registry_value sx ''registry_host''] else [])
     @ (if truthy (oc_mirror_remote cfg)
        then (let ns = py_str (sn_workshop_namespace (sx_names sx))
              in [''--insecure-registry='' @ ns @ ''-mirror'', ''--registry-mirror=http://'' @ ns @ ''-mirror:5000''])
        else [])"

definition dockerd_script :: "string list \<Rightarrow> string" where
  "dockerd_script args = ''mkdir -p /var/run/workshop && ln -s /var/run/workshop/docker.sock /var/run/docker.sock && (test -f /usr/local/share/ca-certificates/Cluster_Ingress_CA.crt && /usr/sbin/update-ca-certificates || true) && dockerd '' @ join_with (CHR '' '') args"

definition docker_data_mount :: "session_details \<Rightarrow> pyval" where
  "docker_data_mount sx =
     PDict [
       (''name'', PStr (if truthy (sx_volume_name sx) then ''workshop-data'' else ''docker-data'')),
       (''mountPath'', PStr ''/var/lib/docker''),
       (''subPath'', PStr (volume_path sx ''var/lib/docker''))]"

definition docker_ca_mount :: pyval where
  "docker_ca_mount =
     PDict [
       (''name'', PStr ''workshop-ca''),
       (''mountPath'', PStr ''/usr/local/share/ca-certificates/Cluster_Ingress_CA.crt''),
       (''subPath'', PStr ''ca.crt'')]"

definition docker_container :: "operator_config \<Rightarrow> session_details \<Rightarrow> pyval \<Rightarrow> pyval \<Rightarrow> string list \<Rightarrow> pyval" where
  "docker_container cfg sx pull memory args =
     PDict [
       (''name'', PStr ''docker''),
       (''image'', config_image cfg ''docker-in-docker''),
       (''imagePullPolicy'', pull),
       (''args'', PList [PStr ''/bin/sh'', PStr ''-c'', PStr (dockerd_script args)]),
       (''securityContext'', PDict [
         (''allowPrivilegeEscalation'', PBool True),
         (''privileged'', PBool True),
         (''runAsUser'', PInt 0),
         (''capabilities'', PDict [
           (''drop'', PList [PStr ''KILL'', PStr ''MKNOD'', PStr ''SETUID'', PStr ''SETGID''])])]),
       (''resources'', PDict [
         (''limits'', PDict [(''memory'', memory)]),
         (''requests'', PDict [(''memory'', memory)])]),
       (''volumeMounts'', PList ([
           PDict [(''name'', PStr ''docker-socket''), (''mountPath'', PStr ''/var/run/workshop'')],
           PDict [
             (''name'', PStr ''workshop-data''),
             (''mountPath'', PStr ''/home/eduk8s''),
             (''subPath'', PStr (volume_path sx ''home/eduk8s''))]]
         @ [docker_data_mount sx]
         @ (if truthy (oc_ingress_ca_secret cfg) then [docker_ca_mount] else [])))]"

definition docker_volume_claim :: "operator_config \<Rightarrow> session_names \<Rightarrow> string \<Rightarrow> pyval \<Rightarrow> pyval" where
  "docker_volume_claim cfg sn ns storage =
     PDict [
       (''apiVersion'', PStr ''v1''),
       (''kind'', PStr ''PersistentVolumeClaim''),
       (''metadata'', PDict [
         (''name'', PStr (ns @ ''-docker'')),
         (''namespace'', sn_workshop_namespace sn),
         (''labels'', PDict (session_labels sn))]),
       (''spec'', PDict ([
           (''accessModes'', PList [PStr ''ReadWriteOnce'']),
           (''resources'', PDict [(''requests'', PDict [(''storage'', storage)])])] @ storage_class_entry cfg))]"

text \<open>A volume named \<open>workshop\<close> in the compose file stands for the home directory.\<close>

definition compose_volume :: "pyval \<Rightarrow> pyval result" where
  "compose_volume details =
     bindE (lookup details ''type'' PNone)
       (\<lambda>type. if type \<noteq> PStr ''volume'' then Inr details
          else bindE (lookup details ''source'' PNone)
            (\<lambda>source. if source \<noteq> PStr ''workshop'' then Inr details
               else bindE (lookup details ''target'' PNone)
                      (\<lambda>target. Inr (PDict [
           (''type'', PStr ''bind''),
           (''source'', PStr ''/home/eduk8s''),
           (''target'', target)]))))"

definition compose_service :: "pyval \<Rightarrow> pyval result" where
  "compose_service service =
     bindE (bindE (lookup service ''volumes'' (PList [])) py_iter)
       (\<lambda>volumes. bindE (mapE compose_volume volumes) (\<lambda>volumes. set_key ''volumes'' (PList volumes) service))"

definition compose_file :: "pyval \<Rightarrow> pyval result" where
  "compose_file compose =
     bindE (lookup compose ''services'' (PDict []))
       (\<lambda>services. case services of
          PDict d \<Rightarrow>
            (if d = [] then Inr compose
             else bindE (mapE (\<lambda>(k, s). bindE (compose_service s) (\<lambda>s. Inr (k, s))) d)
                    (\<lambda>d. set_key ''services'' (PDict d) compose))
        | _ \<Rightarrow> Inl AttributeError)"

definition compose_config_map :: "session_names \<Rightarrow> string \<Rightarrow> string \<Rightarrow> pyval" where
  "compose_config_map sn ns text =
     PDict [
       (''apiVersion'', PStr ''v1''),
       (''kind'', PStr ''ConfigMap''),
       (''metadata'', PDict [
         (''name'', PStr (ns @ ''-docker-compose'')),
         (''namespace'', sn_workshop_namespace sn),
         (''labels'', PDict (session_labels sn))]),
       (''data'', PDict [(''compose-dev.yaml'', PStr text)])]"

definition compose_container :: "operator_config \<Rightarrow> session_details \<Rightarrow> pyval \<Rightarrow> pyval" where
  "compose_container cfg sx pull =
     PDict [
       (''name'', PStr ''docker-compose''),
       (''image'', config_image cfg ''docker-in-docker''),
       (''imagePullPolicy'', pull),
       (''command'', PList [
         PStr ''docker'',
         PStr ''--host=unix:///var/run/docker/docker.sock'',
         PStr ''compose'',
         PStr ''--file=/opt/eduk8s/config/compose-dev.yaml'',
         PStr ''--project-directory=/home/eduk8s'',
         PStr (''--project-name='' @ sx_namespace sx),
         PStr ''up'']),
       (''securityContext'', PDict [
         (''allowPrivilegeEscalation'', PBool False),
         (''capabilities'', PDict [(''drop'', PList [PStr ''ALL''])]),
         (''runAsNonRoot'', PBool True),
         (''runAsUser'', PInt 1001),
         (''runAsGroup'', PInt 2375)]),
       (''resources'', PDict [
         (''limits'', PDict [(''memory'', PStr ''256Mi'')]),
         (''requests'', PDict [(''memory'', PStr ''32Mi'')])]),
       (''env'', PList [PDict [(''name'', PStr ''HOME''), (''value'', PStr ''/home/eduk8s'')]]),
       (''volumeMounts'', PList [
         PDict [
           (''name'', PStr ''docker-socket''),
           (''mountPath'', PStr ''/var/run/docker''),
           (''readOnly'', PBool True)],
         PDict [(''name'', PStr ''compose-config''), (''mountPath'', PStr ''/opt/eduk8s/config'')],
         PDict [
           (''name'', PStr ''workshop-data''),
           (''mountPath'', PStr ''/home/eduk8s''),
           (''subPath'', PStr (volume_path sx ''home/eduk8s''))]])]"

definition compose_volumes :: "string \<Rightarrow> pyval list" where
  "compose_volumes ns = [
       PDict [
         (''name'', PStr ''compose-config''),
         (''configMap'', PDict [(''name'', PStr (ns @ ''-docker-compose''))])]]"

definition use_compose ::
    "operator_world \<Rightarrow> session_details \<Rightarrow> pyval \<Rightarrow> pyval \<Rightarrow> pyval \<times> pyval list \<Rightarrow> (pyval \<times> pyval list) result" where
  "use_compose w sx pull compose = (\<lambda>(pod, objects).
     if \<not> truthy compose then Inr (pod, objects)
     else bindE (bindE (compose_file compose) (substituted (sx_vars sx)))
       (\<lambda>file. bindE (add_volumes (compose_volumes (sx_namespace sx)) pod)
       (\<lambda>pod. bindE (add_container (compose_container (ow_config w) sx pull) pod)
       (\<lambda>pod. Inr (pod, objects @ [compose_config_map (sx_names sx) (sx_namespace sx) (ow_yaml w file)])))))"

text \<open>The pod with Docker, and the objects that Docker needs.\<close>

definition use_docker :: "operator_world \<Rightarrow> session_details \<Rightarrow> pyval \<Rightarrow> (pyval \<times> pyval list) result" where
  "use_docker w sx pod =
     (let cfg = ow_config w
      in bindE (add_volumes (docker_volumes sx) pod)
    (\<lambda>pod. bindE (app_property sx ''docker'' ''compose'' (PDict []))
    (\<lambda>compose. bindE (app_property sx ''docker'' ''socket.enabled'' PNone)
    (\<lambda>socket. bindE (if truthy socket \<or> socket = PNone \<and> \<not> truthy compose then add_mounts docker_socket_mounts pod else Inr pod)
    (\<lambda>pod. bindE (app_property sx ''docker'' ''memory'' (PStr ''768Mi''))
    (\<lambda>memory. bindE (app_property sx ''docker'' ''storage'' (PStr ''5Gi''))
    (\<lambda>storage. bindE (pull_policy (config_image cfg ''docker-in-docker''))
    (\<lambda>pull. bindE (enabled sx ''registry'')
    (\<lambda>registry. bindE (add_container (docker_container cfg sx pull memory (dockerd_daemon_args cfg sx registry)) pod)
    (\<lambda>pod. use_compose w sx pull compose
       (pod, if truthy (sx_volume_name sx) then []
             else [docker_volume_claim cfg (sx_names sx) (sx_namespace sx) storage])))))))))))"

definition docker_label :: "(string \<times> pyval) list" where
  "docker_label = [(''training.educates.dev/session.services.docker'', PStr ''true'')]"

definition deploy_docker :: "operator_world \<Rightarrow> session_details \<Rightarrow> pyval \<Rightarrow> pyval \<Rightarrow> (pyval \<times> (string \<times> pyval) list) kube" where
  "deploy_docker w sx namespace pod =
     kube_bind (kube_lift (enabled sx ''docker''))
       (\<lambda>docker. if \<not> docker then kube_return (pod, [])
          else kube_bind (kube_lift (use_docker w sx pod))
            (\<lambda>(pod, objects). kube_bind (kube_each (create_substituted w sx namespace) objects)
               (\<lambda>_. kube_return (pod, docker_label))))"

section \<open>Ingresses\<close>

definition ingress_path :: "pyval \<Rightarrow> string \<Rightarrow> string \<Rightarrow> int \<Rightarrow> pyval" where
  "ingress_path host path service port =
     PDict [
       (''host'', host),
       (''http'', PDict [
         (''paths'', PList [
           PDict [
             (''path'', PStr path),
             (''pathType'', PStr ''Prefix''),
             (''backend'', PDict [(''service'', PDict [(''name'', PStr service), (''port'', PDict [(''number'', PInt port)])])])]])])]"

definition tls_annotations :: "operator_config \<Rightarrow> (string \<times> pyval) list" where
  "tls_annotations cfg =
     (if truthy (oc_ingress_secret cfg)
      then [
         (''ingress.kubernetes.io/force-ssl-redirect'', PStr ''true''),
         (''nginx.ingress.kubernetes.io/ssl-redirect'', PStr ''true''),
         (''nginx.ingress.kubernetes.io/force-ssl-redirect'', PStr ''true'')] else [])"

definition tls_entry :: "operator_config \<Rightarrow> string list \<Rightarrow> (string \<times> pyval) list" where
  "tls_entry cfg hosts =
     (if truthy (oc_ingress_secret cfg)
      then [(''tls'', PList [PDict [(''hosts'', PList (map PStr hosts)), (''secretName'', oc_ingress_secret cfg)]])] else [])"

section \<open>The image registry\<close>

definition registry_workshop_env :: "session_details \<Rightarrow> pyval list" where
  "registry_workshop_env sx =
     map (\<lambda>(name, key). PDict [(''name'', PStr name), (''value'', PStr (registry_value sx key))])
       [(''REGISTRY_HOST'', ''registry_host''), (''REGISTRY_USERNAME'', ''registry_username''),
        (''REGISTRY_PASSWORD'', ''registry_password''), (''REGISTRY_AUTH_TOKEN'', ''registry_auth_token''),
        (''REGISTRY_SECRET'', ''registry_secret'')]"

definition registry_volumes :: "string \<Rightarrow> pyval list" where
  "registry_volumes ns = [
       PDict [
         (''name'', PStr ''registry''),
         (''configMap'', PDict [
           (''name'', PStr (ns @ ''-registry'')),
           (''items'', PList [PDict [(''key'', PStr ''config.json''), (''path'', PStr ''config.json'')]])])]]"

definition registry_mounts :: "pyval list" where
  "registry_mounts = [PDict [(''name'', PStr ''registry''), (''mountPath'', PStr ''/var/run/registry'')]]"

text \<open>Storage of its own, or a named volume with a path: what is stored where and claimed how.\<close>

record registry_storage =
  rs_memory :: pyval
  rs_claim :: pyval
  rs_volume :: pyval
  rs_path :: string

definition read_registry :: "session_details \<Rightarrow> registry_storage result" where
  "read_registry sx =
     bindE (app_property sx ''registry'' ''memory'' (PStr ''768Mi''))
  (\<lambda>memory. bindE (app_property sx ''registry'' ''storage'' (PStr ''5Gi''))
  (\<lambda>storage. bindE (bindE (app_property sx ''registry'' ''volume.name'' (PStr [])) (substituted (sx_vars sx)))
  (\<lambda>volume. if truthy volume
     then bindE (bindE (app_property sx ''registry'' ''volume.subPath'' (PStr [])) (substituted (sx_vars sx)))
       (\<lambda>path. Inr \<lparr>rs_memory = memory, rs_claim = PNone, rs_volume = volume,
                     rs_path = (if truthy path then py_str path @ ''/var/lib/registry'' else ''var/lib/registry'')\<rparr>)
     else Inr \<lparr>rs_memory = memory, rs_claim = storage, rs_volume = PStr (sx_namespace sx @ ''-registry''),
               rs_path = ''var/lib/registry''\<rparr>)))"

definition registry_volume_claim :: "operator_config \<Rightarrow> session_names \<Rightarrow> string \<Rightarrow> pyval \<Rightarrow> pyval" where
  "registry_volume_claim cfg sn ns storage =
     PDict [
       (''apiVersion'', PStr ''v1''),
       (''kind'', PStr ''PersistentVolumeClaim''),
       (''metadata'', PDict [
         (''name'', PStr (ns @ ''-registry'')),
         (''namespace'', sn_workshop_namespace sn),
         (''labels'', PDict (session_labels sn))]),
       (''spec'', PDict ([
           (''accessModes'', PList [PStr ''ReadWriteOnce'']),
           (''resources'', PDict [(''requests'', PDict [(''storage'', storage)])])] @ storage_class_entry cfg))]"

definition registry_login :: "session_details \<Rightarrow> pyval" where
  "registry_login sx =
     PDict [(''auths'', PDict [(registry_value sx ''registry_host'',
       PDict [(''auth'', PStr (registry_value sx ''registry_auth_token''))])])]"

definition registry_config_map :: "operator_world \<Rightarrow> session_names \<Rightarrow> session_details \<Rightarrow> string \<Rightarrow> pyval" where
  "registry_config_map w sn sx htpasswd =
     PDict [
       (''apiVersion'', PStr ''v1''),
       (''kind'', PStr ''ConfigMap''),
       (''metadata'', PDict [
         (''name'', PStr (sx_namespace sx @ ''-registry'')),
         (''namespace'', sn_workshop_namespace sn),
         (''labels'', PDict (session_labels sn))]),
       (''data'', PDict [
         (''htpasswd'', PStr htpasswd),
         (''config.json'', PStr (ow_json w (registry_login sx)))])]"

definition registry_container :: "operator_config \<Rightarrow> registry_storage \<Rightarrow> pyval \<Rightarrow> pyval" where
  "registry_container cfg rs pull =
     PDict [
       (''name'', PStr ''registry''),
       (''image'', config_image cfg ''docker-registry''),
       (''imagePullPolicy'', pull),
       (''securityContext'', PDict [
         (''allowPrivilegeEscalation'', PBool False),
         (''capabilities'', PDict [(''drop'', PList [PStr ''ALL''])]),
         (''runAsNonRoot'', PBool True)]),
       (''resources'', PDict [
         (''limits'', PDict [(''memory'', rs_memory rs)]),
         (''requests'', PDict [(''memory'', rs_memory rs)])]),
       (''ports'', PList [PDict [(''containerPort'', PInt 5000), (''protocol'', PStr ''TCP'')]]),
       (''env'', PList [
         PDict [(''name'', PStr ''REGISTRY_STORAGE_DELETE_ENABLED''), (''value'', PStr ''true'')],
         PDict [(''name'', PStr ''REGISTRY_AUTH''), (''value'', PStr ''htpasswd'')],
         PDict [
           (''name'', PStr ''REGISTRY_AUTH_HTPASSWD_REALM''),
           (''value'', PStr ''Image Registry'')],
         PDict [
           (''name'', PStr ''REGISTRY_AUTH_HTPASSWD_PATH''),
           (''value'', PStr ''/auth/htpasswd'')]]),
       (''volumeMounts'', PList [
         PDict [
           (''name'', PStr ''data''),
           (''mountPath'', PStr ''/var/lib/registry''),
           (''subPath'', PStr (rs_path rs))],
         PDict [(''name'', PStr ''auth''), (''mountPath'', PStr ''/auth'')]])]"

definition registry_permissions :: "operator_config \<Rightarrow> registry_storage \<Rightarrow> pyval \<Rightarrow> pyval" where
  "registry_permissions cfg rs pull =
     PDict [
       (''name'', PStr ''storage-permissions-initialization''),
       (''image'', config_image cfg ''docker-registry''),
       (''imagePullPolicy'', pull),
       (''securityContext'', PDict [
         (''allowPrivilegeEscalation'', PBool False),
         (''capabilities'', PDict [(''drop'', PList [PStr ''ALL''])]),
         (''runAsNonRoot'', PBool False),
         (''runAsUser'', PInt 0)]),
       (''command'', PList [PStr ''/bin/sh'', PStr ''-c'']),
       (''args'', PList [
         PStr (''chown '' @ py_str (oc_storage_user cfg) @ '':'' @ py_str (oc_storage_group cfg) @ '' /mnt && chmod og+rwx /mnt'')]),
       (''resources'', PDict [
         (''limits'', PDict [(''memory'', rs_memory rs)]),
         (''requests'', PDict [(''memory'', rs_memory rs)])]),
       (''volumeMounts'', PList [PDict [(''name'', PStr ''data''), (''mountPath'', PStr ''/mnt'')]])]"

definition registry_deployment ::
    "operator_config \<Rightarrow> session_names \<Rightarrow> string \<Rightarrow> registry_storage \<Rightarrow> pyval \<Rightarrow> pyval" where
  "registry_deployment cfg sn ns rs pull =
     PDict [
       (''apiVersion'', PStr ''apps/v1''),
       (''kind'', PStr ''Deployment''),
       (''metadata'', PDict [
         (''name'', PStr (ns @ ''-registry'')),
         (''namespace'', sn_workshop_namespace sn),
         (''labels'', PDict (application_labels sn ''registry'' @ [(''training.educates.dev/session.services.registry'', PStr ''true'')]))]),
       (''spec'', PDict [
         (''replicas'', PInt 1),
         (''selector'', PDict [(''matchLabels'', PDict [(''deployment'', PStr (ns @ ''-registry''))])]),
         (''strategy'', PDict [(''type'', PStr ''Recreate'')]),
         (''template'', PDict [
           (''metadata'', PDict [
             (''labels'', PDict ((''deployment'', PStr (ns @ ''-registry'')) # (application_labels sn ''registry'' @ [(''training.educates.dev/session.services.registry'', PStr ''true'')])))]),
           (''spec'', PDict [
             (''serviceAccountName'', PStr ''educates-services''),
             (''initContainers'', PList (if truthy (oc_storage_user cfg) then [registry_permissions cfg rs pull] else [])),
             (''containers'', PList [registry_container cfg rs pull]),
             (''securityContext'', PDict [
               (''runAsUser'', PInt 1000),
               (''fsGroup'', oc_storage_group cfg),
               (''supplementalGroups'', PList [oc_storage_group cfg])]),
             (''volumes'', PList [
               PDict [
                 (''name'', PStr ''data''),
                 (''persistentVolumeClaim'', PDict [(''claimName'', rs_volume rs)])],
               PDict [
                 (''name'', PStr ''auth''),
                 (''configMap'', PDict [
                   (''name'', PStr (ns @ ''-registry'')),
                   (''items'', PList [PDict [(''key'', PStr ''htpasswd''), (''path'', PStr ''htpasswd'')]])])]])])])])]"

definition registry_service :: "session_names \<Rightarrow> string \<Rightarrow> pyval" where
  "registry_service sn ns =
     PDict [
       (''apiVersion'', PStr ''v1''),
       (''kind'', PStr ''Service''),
       (''metadata'', PDict [
         (''name'', PStr (ns @ ''-registry'')),
         (''namespace'', sn_workshop_namespace sn),
         (''labels'', PDict (application_labels sn ''registry''))]),
       (''spec'', PDict [
         (''type'', PStr ''ClusterIP''),
         (''ports'', PList [PDict [(''port'', PInt 5000), (''targetPort'', PInt 5000)]]),
         (''selector'', PDict [(''deployment'', PStr (ns @ ''-registry''))])])]"

definition registry_ingress :: "operator_config \<Rightarrow> session_names \<Rightarrow> string \<Rightarrow> string \<Rightarrow> pyval" where
  "registry_ingress cfg sn ns host =
     PDict [
       (''apiVersion'', PStr ''networking.k8s.io/v1''),
       (''kind'', PStr ''Ingress''),
       (''metadata'', PDict [
         (''name'', PStr (ns @ ''-registry'')),
         (''namespace'', sn_workshop_namespace sn),
         (''annotations'', PDict ([(''nginx.ingress.kubernetes.io/proxy-body-size'', PStr ''512m'')] @ tls_annotations cfg)),
         (''labels'', PDict (application_labels sn ''registry''))]),
       (''spec'', PDict ([(''rules'', PList [ingress_path (PStr host) ''/'' (ns @ ''-registry'') 5000])] @ tls_entry cfg [host]))]"

definition registry_objects :: "operator_world \<Rightarrow> session_details \<Rightarrow> registry_storage \<Rightarrow> pyval \<Rightarrow> string \<Rightarrow> pyval list" where
  "registry_objects w sx rs pull htpasswd =
     (let cfg = ow_config w; sn = sx_names sx; ns = sx_namespace sx
      in (if truthy (rs_claim rs) then [registry_volume_claim cfg sn ns (rs_claim rs)] else [])
         @ [registry_config_map w sn sx htpasswd, registry_deployment cfg sn ns rs pull, registry_service sn ns,
            registry_ingress cfg sn ns (registry_value sx ''registry_host'')])"

definition hash_password :: "operator_world \<Rightarrow> string \<Rightarrow> string kube" where
  "hash_password w password tr = (Inr (ow_bcrypt w tr password), tr)"

definition use_registry :: "session_details \<Rightarrow> pyval \<Rightarrow> (pyval \<times> registry_storage) result" where
  "use_registry sx pod =
     bindE (add_volumes (registry_volumes (sx_namespace sx)) pod)
  (\<lambda>pod. bindE (add_mounts registry_mounts pod)
  (\<lambda>pod. bindE (read_registry sx) (\<lambda>rs. Inr (pod, rs))))"

text \<open>The pod with the volume of the registry, and the variables for the dashboard.\<close>

definition deploy_registry :: "operator_world \<Rightarrow> session_details \<Rightarrow> pyval \<Rightarrow> pyval \<Rightarrow> (pyval \<times> pyval list) kube" where
  "deploy_registry w sx namespace pod =
     kube_bind (kube_lift (enabled sx ''registry''))
       (\<lambda>registry. if \<not> registry then kube_return (pod, [])
          else kube_bind (hash_password w (registry_value sx ''registry_password''))
         (\<lambda>hash. kube_bind (kube_lift (use_registry sx pod))
         (\<lambda>(pod, rs). kube_bind (kube_lift (pull_policy (config_image (ow_config w) ''docker-registry'')))
         (\<lambda>pull. kube_bind (kube_each (create_substituted w sx namespace)
                    (registry_objects w sx rs pull (registry_value sx ''registry_username'' @ '':'' @ hash @ [CHR 0x0A])))
         (\<lambda>_. kube_return (pod, registry_workshop_env sx))))))"

end
