(* ===== verification/Session_Creation.thy ===== *)
theory Session_Creation
  imports Session_Services
begin

text \<open>
  The end of the creation of a workshop session (\<open>workshop_session_create\<close> in
  \<open>session-manager/handlers/workshopsession.py\<close>): the deployment, service and ingress of the dashboard, the
  status that is left, and the handler as a whole.
\<close>

section \<open>Objects of the dashboard\<close>

definition ssh_keys_secret :: "session_names \<Rightarrow> string \<Rightarrow> string \<times> string \<Rightarrow> pyval" where
  "ssh_keys_secret sn ns keys =
     PDict [
       (''apiVersion'', PStr ''v1''),
       (''kind'', PStr ''Secret''),
       (''metadata'', PDict [
         (''name'', PStr (ns @ ''-ssh-keys'')),
         (''namespace'', sn_workshop_namespace sn),
         (''labels'', PDict (session_labels sn))]),
       (''data'', PDict [
         (''id_rsa'', PStr (b64encode (fst keys))),
         (''id_rsa.pub'', PStr (b64encode (snd keys)))])]"

definition ssh_volume :: "string \<Rightarrow> pyval" where
  "ssh_volume ns =
     PDict [
       (''name'', PStr ''ssh-keys''),
       (''secret'', PDict [(''secretName'', PStr (ns @ ''-ssh-keys'')), (''defaultMode'', PInt 384)])]"

definition ssh_mount :: pyval where
  "ssh_mount =
     PDict [
       (''name'', PStr ''ssh-keys''),
       (''mountPath'', PStr ''/opt/ssh-keys''),
       (''readOnly'', PBool True)]"

definition dashboard_labels :: "session_names \<Rightarrow> (string \<times> pyval) list" where
  "dashboard_labels sn = application_labels sn ''workshop'' @ [(''training.educates.dev/session.services.workshop'', PStr ''true'')]"

definition dashboard_deployment :: "session_names \<Rightarrow> string \<Rightarrow> (string \<times> pyval) list \<Rightarrow> pyval \<Rightarrow> pyval" where
  "dashboard_deployment sn ns extra pod =
     PDict [
       (''apiVersion'', PStr ''apps/v1''),
       (''kind'', PStr ''Deployment''),
       (''metadata'', PDict [
         (''name'', PStr ns),
         (''namespace'', sn_workshop_namespace sn),
         (''labels'', PDict (dict_update extra (dashboard_labels sn)))]),
       (''spec'', PDict [
         (''replicas'', PInt 1),
         (''selector'', PDict [(''matchLabels'', PDict [(''deployment'', PStr ns)])]),
         (''strategy'', PDict [(''type'', PStr ''Recreate'')]),
         (''template'', PDict [
           (''metadata'', PDict [
             (''labels'', PDict (dict_update extra ((''deployment'', PStr ns) # dashboard_labels sn)))]),
           (''spec'', pod)])])]"

definition dashboard_service :: "session_names \<Rightarrow> string \<Rightarrow> bool \<Rightarrow> pyval" where
  "dashboard_service sn ns sshd =
     PDict [
       (''apiVersion'', PStr ''v1''),
       (''kind'', PStr ''Service''),
       (''metadata'', PDict [
         (''name'', PStr ns),
         (''namespace'', sn_workshop_namespace sn),
         (''labels'', PDict (application_labels sn ''workshop''))]),
       (''spec'', PDict [
         (''type'', PStr ''ClusterIP''),
         (''ports'', PList ([
           PDict [
             (''name'', PStr ''80-tcp''),
             (''port'', PInt 80),
             (''protocol'', PStr ''TCP''),
             (''targetPort'', PInt 10080)]]
         @ (if sshd then [PDict [
             (''name'', PStr ''22-tcp''),
             (''port'', PInt 22),
             (''protocol'', PStr ''TCP''),
             (''targetPort'', PInt 2022)]] else []))),
         (''selector'', PDict [(''deployment'', PStr ns)])])]"

definition tunnel_path :: "string \<Rightarrow> pyval" where
  "tunnel_path host = ingress_path (PStr host) ''/tunnel/'' ''tunnel-manager'' 8080"

definition dashboard_rules :: "session_details \<Rightarrow> bool \<Rightarrow> string list \<Rightarrow> pyval list" where
  "dashboard_rules sx tunnel hosts =
     (if tunnel then [tunnel_path (sx_hostname sx)] else [])
     @ map (\<lambda>host. ingress_path (PStr host) ''/'' (sx_namespace sx) 80) (sx_hostname sx # hosts)"

definition dashboard_ingress :: "operator_config \<Rightarrow> session_names \<Rightarrow> session_details \<Rightarrow> bool \<Rightarrow> string list \<Rightarrow> pyval" where
  "dashboard_ingress cfg sn sx tunnel hosts =
     PDict [
       (''apiVersion'', PStr ''networking.k8s.io/v1''),
       (''kind'', PStr ''Ingress''),
       (''metadata'', PDict [
         (''name'', PStr (sx_namespace sx)),
         (''namespace'', sn_workshop_namespace sn),
         (''annotations'', PDict ([
           (''nginx.ingress.kubernetes.io/enable-cors'', PStr ''true''),
           (''nginx.ingress.kubernetes.io/proxy-send-timeout'', PStr ''3600''),
           (''nginx.ingress.kubernetes.io/proxy-read-timeout'', PStr ''3600''),
           (''projectcontour.io/websocket-routes'', PStr ((if tunnel then ''/,/tunnel/'' else ''/''))),
           (''projectcontour.io/response-timeout'', PStr ''3600s'')]
         @ tls_annotations cfg)),
         (''labels'', PDict (application_labels sn ''workshop''))]),
       (''spec'', PDict ([(''rules'', PList (dashboard_rules sx tunnel hosts))] @ tls_entry cfg (sx_hostname sx # hosts)
         @ (if truthy (oc_ingress_class cfg) then [(''ingressClassName'', oc_ingress_class cfg)] else [])))]"

section \<open>Host names\<close>

definition own_ingresses :: "session_details \<Rightarrow> string list result" where
  "own_ingresses sx =
     bindE (py_get (sx_workshop_spec sx) ''session'')
       (\<lambda>session. if \<not> truthy session then Inr []
          else bindE (bindE (py_get_or session ''ingresses'' (PList [])) py_iter)
                 (mapE (\<lambda>i. bindE (py_index i ''name'') (\<lambda>n. Inr (py_str n)))))"

text \<open>The name as a prefix, and as a suffix for workshops that still use it.\<close>

definition host_pair :: "string \<Rightarrow> string \<Rightarrow> string list" where
  "host_pair ns name = [name @ ''-'' @ ns, ns @ ''-'' @ name]"

definition ingress_hosts :: "operator_config \<Rightarrow> session_details \<Rightarrow> string list result" where
  "ingress_hosts cfg sx =
     bindE (own_ingresses sx)
  (\<lambda>own. bindE (enabled sx ''console'')
  (\<lambda>console. bindE (enabled sx ''editor'')
  (\<lambda>editor. Inr (map (\<lambda>host. host @ ''.'' @ py_str (oc_ingress_domain cfg))
     (concat (map (host_pair (sx_namespace sx))
        ((if console then [''console''] else []) @ (if editor then [''editor''] else []) @ own)))))))"

definition host_aliases :: "string \<Rightarrow> string list \<Rightarrow> pyval" where
  "host_aliases ns own =
     PDict [
       (''ip'', PStr ''127.0.0.1''),
       (''hostnames'', PList (map PStr
          ([''console-'' @ ns, ''editor-'' @ ns, ns @ ''-console'', ns @ ''-editor''] @ concat (map (host_pair ns) own))))]"

section \<open>The console\<close>

definition console_secret :: "session_names \<Rightarrow> string \<Rightarrow> pyval" where
  "console_secret sn ns =
     PDict [
       (''apiVersion'', PStr ''v1''),
       (''kind'', PStr ''Secret''),
       (''metadata'', PDict [
         (''name'', PStr ''kubernetes-dashboard-csrf''),
         (''namespace'', PStr ns),
         (''labels'', PDict (session_labels sn))])]"

definition deploy_console :: "operator_world \<Rightarrow> session_details \<Rightarrow> unit kube" where
  "deploy_console w sx =
     kube_bind (kube_lift (enabled sx ''console''))
       (\<lambda>console. if \<not> console then kube_return ()
          else kube_bind (kube_lift (app_property sx ''console'' ''vendor'' (PStr ''kubernetes'')))
            (\<lambda>vendor. if vendor \<noteq> PStr ''kubernetes'' then kube_return ()
               else kube_bind (create_object w (console_secret (sx_names sx) (sx_namespace sx))) (\<lambda>_. kube_return ())))"

section \<open>The finished pod\<close>

definition own_list :: "session_details \<Rightarrow> string \<Rightarrow> pyval list result" where
  "own_list sx key =
     bindE (bindE (py_index (sx_workshop_spec sx) ''session'') (\<lambda>s. py_get_or s key (PList [])))
       (\<lambda>v. if truthy v then bindE (substituted (sx_vars sx) v) py_iter else Inr [])"

definition finished_pod :: "session_details \<Rightarrow> pyval list \<Rightarrow> string list \<Rightarrow> pyval \<Rightarrow> pyval result" where
  "finished_pod sx env own pod =
     bindE (apply_environment_patch sx (PList env) pod)
  (\<lambda>pod. bindE (add_volumes [ssh_volume (sx_namespace sx)] pod)
  (\<lambda>pod. bindE (add_mounts [ssh_mount] pod)
  (\<lambda>pod. bindE (own_list sx ''volumes'')
  (\<lambda>volumes. bindE (if volumes = [] then Inr pod else add_volumes volumes pod)
  (\<lambda>pod. bindE (own_list sx ''volumeMounts'')
  (\<lambda>mounts. bindE (if mounts = [] then Inr pod else add_mounts mounts pod)
     (change_path [''hostAliases''] (list_extend [host_aliases (sx_namespace sx) own]))))))))"

section \<open>The handler\<close>

definition session_status :: "session_details \<Rightarrow> pyval \<Rightarrow> pyval \<Rightarrow> pyval" where
  "session_status sx sshd tunnel =
     educates_status (
       [(''message'', PNone), (''url'', PStr (sx_url sx)),
        (''sshd'', PDict [(''enabled'', sshd), (''tunnel'', PDict [(''enabled'', tunnel)])])]
       @ (if truthy (sn_portal_name (sx_names sx)) then [] else [(''phase'', PStr ''Running'')]))"

definition dashboard_objects ::
    "operator_world \<Rightarrow> session_details \<Rightarrow> pyval \<Rightarrow> string \<times> string \<Rightarrow> (string \<times> pyval) list \<Rightarrow> pyval list \<Rightarrow> pyval \<Rightarrow> pyval list result" where
  "dashboard_objects w sx namespace keys docker env pod =
     (let cfg = ow_config w; sn = sx_names sx; ns = sx_namespace sx
      in bindE (application_enabled_labels sx)
    (\<lambda>labels. bindE (own_ingresses sx)
    (\<lambda>own. bindE (finished_pod sx env own pod)
    (\<lambda>pod. bindE (enabled sx ''sshd'')
    (\<lambda>sshd. bindE (if sshd then bindE (app_property sx ''sshd'' ''tunnel.enabled'' (PBool False)) (\<lambda>v. Inr (truthy v)) else Inr False)
    (\<lambda>tunnel. bindE (ingress_hosts cfg sx)
    (\<lambda>hosts. Inr (map (\<lambda>obj. ow_adopt w obj namespace)
       [ssh_keys_secret sn ns keys, dashboard_deployment sn ns (docker @ labels) pod, dashboard_service sn ns sshd,
        dashboard_ingress cfg sn sx tunnel hosts]))))))))"

definition deploy_dashboard ::
    "operator_world \<Rightarrow> session_request \<Rightarrow> session_details \<Rightarrow> pyval \<Rightarrow> string \<times> string \<Rightarrow> unit kube" where
  "deploy_dashboard w rq sx namespace keys =
     kube_bind (kube_lift (read_dashboard (ow_config w) rq sx))
  (\<lambda>db. kube_bind (prepare_downloads w sx namespace)
  (\<lambda>downloads. kube_bind (kube_lift (patched_pod (ow_config w) rq sx db downloads))
  (\<lambda>pod. kube_bind (deploy_console w sx)
  (\<lambda>_. kube_bind (deploy_docker w sx namespace pod)
  (\<lambda>(pod, docker). kube_bind (deploy_registry w sx namespace pod)
  (\<lambda>(pod, env). kube_bind (kube_lift (dashboard_objects w sx namespace keys docker env pod))
     (kube_each (\<lambda>obj. kube_bind (create_object w obj) (\<lambda>_. kube_return ())))))))))"

definition workshop_session_create :: "operator_world \<Rightarrow> session_request \<Rightarrow> unit kube" where
  "workshop_session_create w rq =
     kube_bind (prepare_session w rq)
  (\<lambda>(sx, namespace, keys). kube_bind (deploy_dashboard w rq sx namespace keys)
  (\<lambda>_. kube_bind (report_analytics_event w ''Resource/Ready'' (PDict (session_event rq)))
  (\<lambda>_. kube_bind (kube_lift (is_enabled (sx_applications sx) ''sshd''))
  (\<lambda>sshd. kube_bind (kube_lift (app_property sx ''sshd'' ''tunnel.enabled'' (PBool False)))
  (\<lambda>tunnel. set_status (session_status sx sshd tunnel))))))"

end
