(* ===== verification/Session_Phases.thy ===== *)
theory Session_Phases
  imports Session_Creation Namespace_Writes Request_Outcomes
begin

text \<open>
  How the creation of a workshop session ends: what is left as the status, and what was written when it was left.
\<close>

section \<open>Statuses of an operation\<close>

text \<open>An operation that sets no status but one of a phase, if any.\<close>

definition keeps_phase :: "string \<Rightarrow> kube_call list \<Rightarrow> kube_call \<Rightarrow> bool" where
  "keeps_phase p tr c \<longleftrightarrow> (\<forall>v. c = SetStatus v \<longrightarrow> phase p (Some v))"

lemma phase_status [simp]: "phase p (Some (educates_status ((''phase'', PStr q) # rest))) \<longleftrightarrow> p = q"
  by (auto simp: phase_def educates_status_def)

lemma keeps_phase_simps [simp]:
  "keeps_phase p tr (SetStatus v) \<longleftrightarrow> phase p (Some v)"
  "keeps_phase p tr (Get k ns n)" "keeps_phase p tr (Query k ns)" "keeps_phase p tr (Create obj)" "keeps_phase p tr Pause"
  "keeps_phase p tr (Delete obj)" "keeps_phase p tr (Draw i)" "keeps_phase p tr (Report e d)"
  by (simp_all add: keeps_phase_def)

lemma final_status_calls:
  "calls_ok (keeps_phase p) tr new \<Longrightarrow> phase p (final_status tr) \<Longrightarrow> phase p (final_status (new @ tr))"
proof (induction new)
  case (Cons c new)
  then show ?case by (cases c) auto
qed simp

lemma runs_phase:
  "runs (keeps_phase p) m tr \<Longrightarrow> phase p (final_status tr) \<Longrightarrow> m tr = (r, tr') \<Longrightarrow> phase p (final_status tr')"
  by (auto simp: runs_def final_status_calls)

section \<open>The steps before the namespace\<close>

lemma runs_environment_found [runs_intros]:
  "(\<And>tr k ns n. P tr (Get k ns n)) \<Longrightarrow> (\<And>tr v. phase ''Pending'' (Some v) \<Longrightarrow> P tr (SetStatus v)) \<Longrightarrow>
     runs P (find_environment w name) tr"
  unfolding find_environment_def still_pending_def by (auto intro!: runs_intros)

lemma runs_unless_pending [runs_intros]:
  "(\<And>tr v. phase ''Pending'' (Some v) \<Longrightarrow> P tr (SetStatus v)) \<Longrightarrow> runs P (unless_pending ok) tr"
  unfolding unless_pending_def still_pending_def by (auto intro!: runs_intros)

lemma runs_copy_secrets [runs_intros]:
  assumes "\<And>tr k ns n. P tr (Get k ns n)" and "\<And>tr v. phase ''Pending'' (Some v) \<Longrightarrow> P tr (SetStatus v)"
  shows "runs P (copy_secrets w sx) tr"
proof -
  have "runs P (copy_secret w sx item s) t" for item s t
    unfolding copy_secret_def not_yet_def by (auto intro!: runs_intros assms)
  then have "runs P (kube_fold (copy_secret w sx) items s) t" for items s t
    by (intro runs_fold_from [where I = "\<lambda>_. True"]) auto
  then show ?thesis unfolding copy_secrets_def by (intro runs_intros)
qed

lemma runs_find_session_environment:
  assumes "\<And>tr k ns n. P tr (Get k ns n)" and "\<And>tr v. phase ''Pending'' (Some v) \<Longrightarrow> P tr (SetStatus v)" and "\<And>tr n. P tr (Draw n)"
  shows "runs P (find_session_environment w rq) tr"
  unfolding find_session_environment_def prepare_registry_def choose_passwords_def Let_def
  by (auto intro!: runs_intros assms)

section \<open>The steps after the namespace\<close>

lemma runs_setup_namespace [runs_intros]: "runs (keeps_phase p) (setup_session_namespace w sn owner target as role budget limits policy) tr"
proof -
  have "runs (keeps_phase p) (create_budget_object w sn target d) t" for d t
    unfolding create_budget_object_def by (auto intro!: runs_intros)
  then have "runs (keeps_phase p) (create_budget w sn target item d) t" for item d t
    unfolding create_budget_def check_quotas_def check_quota_def
    by (intro runs_bind runs_query runs_each) (auto intro!: runs_intros)
  moreover have "runs (keeps_phase p) (create_network_policy w sn owner target) t" for t
    unfolding create_network_policy_def by (auto intro!: runs_intros)
  moreover have "runs (keeps_phase p) (create_role_bindings w sn target role policy) t" for t
    unfolding create_role_bindings_def by (auto intro!: runs_intros split: option.splits)
  moreover have "runs (keeps_phase p) (create_registry_secret w sn target as) t" for t
    unfolding create_registry_secret_def by (auto intro!: runs_intros)
  ultimately show ?thesis
    unfolding setup_session_namespace_def
    by (intro runs_bind runs_lift runs_await) (auto intro!: runs_intros runs_delete_all split: budget_choice.splits)
qed

lemma runs_create_unless [runs_intros]:
  "P tr (Create obj) \<Longrightarrow> (\<And>tr v. phase left (Some v) \<Longrightarrow> P tr (SetStatus v)) \<Longrightarrow> runs P (create_unless w left obj) tr"
  unfolding create_unless_def by (auto intro!: runs_intros split: kube_error.splits)

lemma runs_create_or_fail [runs_intros]:
  "P tr (Create obj) \<Longrightarrow> (\<And>tr v. phase ''Failed'' (Some v) \<Longrightarrow> P tr (SetStatus v)) \<Longrightarrow> runs P (create_or_fail w what obj) tr"
  unfolding create_or_fail_def by (auto intro!: runs_intros)

lemma runs_create_requested [runs_intros]:
  "P tr (Create obj) \<Longrightarrow> (\<And>tr v. phase ''Failed'' (Some v) \<Longrightarrow> P tr (SetStatus v)) \<Longrightarrow> (\<And>tr e d. P tr (Report e d)) \<Longrightarrow>
     runs P (create_requested w rq sx ref obj) tr"
  unfolding create_requested_def Let_def by (auto intro!: runs_intros)

lemma runs_new_keys [runs_intros]: "runs P (new_keys w) tr"
  by (simp add: new_keys_def runs_def)

lemma runs_hash_password [runs_intros]: "runs P (hash_password w s) tr"
  by (simp add: hash_password_def runs_def)

lemma runs_await_quota [runs_intros]:
  "(\<And>tr k ns n. P tr (Get k ns n)) \<Longrightarrow> (\<And>tr. P tr Pause) \<Longrightarrow> runs P (await_quota w ns name n) tr"
  by (induction n arbitrary: tr) (auto simp: check_quota_def intro!: runs_intros)

lemma runs_await_created_quota [runs_intros]:
  "(\<And>tr k ns n. P tr (Get k ns n)) \<Longrightarrow> (\<And>tr. P tr Pause) \<Longrightarrow> runs P (await_created_quota w ref obj) tr"
  unfolding await_created_quota_def by (auto intro!: runs_intros)

lemma runs_provision: "runs (keeps_phase ''Failed'') (provision_session w rq sx namespace keys) tr"
proof -
  have "runs (keeps_phase ''Failed'') (secondary_namespace w sx namespace item) t" for sx item t
    unfolding secondary_namespace_def by (auto intro!: runs_intros)
  then have second: "runs (keeps_phase ''Failed'') (secondary_namespaces w sx namespace) t" for sx t
    unfolding secondary_namespaces_def by (auto intro!: runs_intros runs_each)
  have "runs (keeps_phase ''Failed'') (create_namespace_object w rq sx namespace ref obj) t" for sx ref obj t
    unfolding create_namespace_object_def by (auto intro!: runs_intros)
  then have object: "runs (keeps_phase ''Failed'') (create_session_object w rq sx namespace obj) t" for sx obj t
    unfolding create_session_object_def Let_def by (auto intro!: runs_intros)
  show ?thesis
    unfolding provision_session_def create_accounts_def claim_storage_def save_variables_def Let_def
    by (auto intro!: runs_intros second runs_each object)
qed

lemma runs_dashboard: "runs (keeps_phase ''Failed'') (deploy_dashboard w rq sx namespace keys) tr"
proof -
  have "runs (keeps_phase ''Failed'') (create_substituted w sx namespace obj) t" for obj t
    unfolding create_substituted_def by (auto intro!: runs_intros)
  then show ?thesis
    unfolding deploy_dashboard_def prepare_downloads_def deploy_console_def deploy_docker_def deploy_registry_def
    by (auto intro!: runs_intros runs_each)
qed

section \<open>The outcome\<close>

lemma kube_bindE:
  assumes "kube_bind m f tr = (r, tr')"
  obtains e where "m tr = (Inl e, tr')" and "r = Inl e"
    | x t where "m tr = (Inr x, t)" and "f x t = (r, tr')"
  using assms by (auto simp: kube_bind_def split: prod.splits sum.splits)

definition written :: "kube_call list \<Rightarrow> kube_call list" where
  "written tr = filter is_write tr"

lemma written_append [simp]: "written (a @ b) = written a @ written b"
  by (simp add: written_def)

lemma written_report [simp]: "written (reported w e d) = []"
  by (simp add: written_def reported_def)

lemma written_calls: "calls_ok (\<lambda>tr c. \<not> is_write c) tr new \<Longrightarrow> written new = []"
  by (induction new) (auto simp: written_def)

lemma runs_written: "runs (\<lambda>tr c. \<not> is_write c) m tr \<Longrightarrow> m tr = (r, tr') \<Longrightarrow> written tr' = written tr"
  by (auto simp: runs_def written_calls)

text \<open>The creation of the namespace of a session: the first thing that is written.\<close>

definition namespace_creation :: "operator_world \<Rightarrow> session_request \<Rightarrow> kube_call \<Rightarrow> bool" where
  "namespace_creation w rq c \<longleftrightarrow>
     (\<exists>sn name policy. c = Create (ow_adopt w (session_namespace_body (ow_config w) sn name policy) (sq_body rq)))"

definition unwritten :: "operator_world \<Rightarrow> session_request \<Rightarrow> kube_call list \<Rightarrow> bool" where
  "unwritten w rq tr \<longleftrightarrow> written tr = [] \<or> (\<exists>c. written tr = [c] \<and> namespace_creation w rq c)"

lemma create_namespace_outcome:
  assumes "create_session_namespace w rq sx tr = (r, tr')" and "phase ''Pending'' (final_status tr)" and "written tr = []"
  shows "\<exists>c. written tr' = [c] \<and> namespace_creation w rq c"
    and "r = Inl e \<Longrightarrow> phase ''Pending'' (final_status tr') \<or> phase ''Failed'' (final_status tr')"
proof -
  have "namespace_creation w rq (Create (ow_adopt w (session_namespace_body (ow_config w) sn name policy) (sq_body rq)))" for sn name policy
    by (auto simp: namespace_creation_def)
  with assms show "\<exists>c. written tr' = [c] \<and> namespace_creation w rq c"
    by (auto simp: create_session_namespace_def create_unless_def create_object_def kube_write_def kube_get_def kube_simps request_failed_def
        written_def split: sum.splits prod.splits if_splits kube_error.splits)
  show "r = Inl e \<Longrightarrow> phase ''Pending'' (final_status tr') \<or> phase ''Failed'' (final_status tr')"
    using assms
    by (auto simp: create_session_namespace_def create_unless_def create_object_def kube_write_def kube_get_def kube_simps request_failed_def
        split: sum.splits prod.splits if_splits kube_error.splits)
qed

definition settled :: "operator_world \<Rightarrow> session_request \<Rightarrow> kube_call list \<Rightarrow> bool" where
  "settled w rq tr \<longleftrightarrow>
     phase ''Pending'' (final_status tr) \<and> unwritten w rq tr \<or> phase ''Failed'' (final_status tr) \<and> written tr \<noteq> []"

lemma runs_keeps_written: "runs P m tr \<Longrightarrow> m tr = (r, tr') \<Longrightarrow> written tr \<noteq> [] \<Longrightarrow> written tr' \<noteq> []"
  by (auto simp: runs_def)

lemma find_environment_outcome:
  assumes "find_session_environment w rq tr = (r, tr')" and "phase ''Pending'' (final_status tr)" and "written tr = []"
  shows "phase ''Pending'' (final_status tr') \<and> written tr' = []"
proof -
  have "runs (keeps_phase ''Pending'') (find_session_environment w rq) tr" by (rule runs_find_session_environment) auto
  from runs_phase [OF this assms(2,1)] have "phase ''Pending'' (final_status tr')" .
  moreover have "runs (\<lambda>tr c. \<not> is_write c) (find_session_environment w rq) tr" by (rule runs_find_session_environment) auto
  from runs_written [OF this assms(1)] assms(3) have "written tr' = []" by simp
  ultimately show ?thesis by simp
qed

lemma provision_outcome:
  assumes "provision_session w rq sx namespace keys tr = (r, tr')" and "phase ''Failed'' (final_status tr)" and "written tr \<noteq> []"
  shows "phase ''Failed'' (final_status tr') \<and> written tr' \<noteq> []"
  using runs_phase [OF runs_provision assms(2,1)] runs_keeps_written [OF runs_provision assms(1,3)] by simp

definition first_calls :: "operator_world \<Rightarrow> session_request \<Rightarrow> kube_call list" where
  "first_calls w rq =
     SetStatus (educates_status [(''phase'', PStr ''Pending'')]) # reported w ''Resource/Create'' (PDict (session_event rq))"

lemma first_calls_quiet [simp]: "phase ''Pending'' (final_status (first_calls w rq))" "written (first_calls w rq) = []"
  by (simp_all add: first_calls_def written_def reported_def)

lemma prepare_session_from:
  "prepare_session w rq [] =
     kube_bind (find_session_environment w rq)
  (\<lambda>sx. kube_bind (create_session_namespace w rq sx)
  (\<lambda>namespace. kube_bind (new_keys w)
  (\<lambda>keys. kube_bind (set_status (educates_status [(''phase'', PStr ''Failed'')]))
  (\<lambda>_. kube_bind (provision_session w rq sx namespace keys)
  (\<lambda>sx. kube_return (sx, namespace, keys)))))) (first_calls w rq)"
  by (simp add: prepare_session_def first_calls_def kube_bind_def [of "report_analytics_event w e d" for e d] report_trace
      kube_bind_def [of "set_status v" for v] set_status_def)

lemma prepare_outcome:
  assumes "prepare_session w rq [] = (r, tr)"
  shows "case r of Inl _ \<Rightarrow> settled w rq tr | Inr _ \<Rightarrow> phase ''Failed'' (final_status tr) \<and> written tr \<noteq> []"
  using assms unfolding prepare_session_from
proof (cases rule: kube_bindE)
  case (1 e)
  with find_environment_outcome [OF 1(1)] show ?thesis by (simp add: settled_def unwritten_def)
next
  case (2 sx t)
  with find_environment_outcome [OF 2(1)] have t: "phase ''Pending'' (final_status t)" "written t = []" by simp_all
  from 2(2) show ?thesis
  proof (cases rule: kube_bindE)
    case (1 e)
    with create_namespace_outcome [OF 1(1) t] show ?thesis by (auto simp: settled_def unwritten_def)
  next
    case (2 namespace t')
    then obtain keys where "kube_bind (provision_session w rq sx namespace keys) (\<lambda>sx. kube_return (sx, namespace, keys))
        (SetStatus (educates_status [(''phase'', PStr ''Failed'')]) # t') = (r, tr)"
      by (auto simp: kube_bind_def [of "new_keys w"] new_keys_def kube_bind_def [of "set_status v" for v] set_status_def)
    then obtain r' where run: "provision_session w rq sx namespace keys (SetStatus (educates_status [(''phase'', PStr ''Failed'')]) # t') = (r', tr)"
      and r': "r = (case r' of Inl e \<Rightarrow> Inl e | Inr sx \<Rightarrow> Inr (sx, namespace, keys))"
      by (auto simp: kube_bind_def kube_return_def split: prod.splits sum.splits)
    have "written t' \<noteq> []" using create_namespace_outcome(1) [OF 2(1) t] by auto
    with provision_outcome [OF run] have "phase ''Failed'' (final_status tr) \<and> written tr \<noteq> []" by (simp add: written_def)
    then show ?thesis by (auto simp: r' settled_def split: sum.splits)
  qed
qed

section \<open>The session that is prepared\<close>

text \<open>The names are settled with the environment.\<close>

definition names_of :: "session_request \<Rightarrow> session_details \<Rightarrow> bool" where
  "names_of rq sx \<longleftrightarrow>
     label_or_empty (sq_meta rq) ''training.educates.dev/portal.name'' = Inr (sn_portal_name (sx_names sx))
     \<and> sn_session_name (sx_names sx) = sq_name rq"

lemma identify_names: "identify_session rq name environment = Inr sx \<Longrightarrow> names_of rq sx"
  unfolding identify_session_def Let_def by (elim bindE_InrE) (auto simp: names_of_def)

lemma read_names:
  "read_workshop cfg sx = Inr sx' \<Longrightarrow> names_of rq sx \<Longrightarrow> names_of rq sx'"
  "read_namespaces sx = Inr sx' \<Longrightarrow> sx_names sx' = sx_names sx"
  unfolding read_workshop_def read_namespaces_def Let_def
  by (auto simp: names_of_def elim!: bindE_InrE split: if_splits)

lemma variables_names: "session_variables cfg rq' sx keys = Inr sx' \<Longrightarrow> sx_names sx' = sx_names sx"
  unfolding session_variables_def read_image_def Let_def by (elim bindE_InrE) auto

lemma storage_names: "read_storage sx = Inr sx' \<Longrightarrow> sx_names sx' = sx_names sx"
  unfolding read_storage_def Let_def by (auto elim!: bindE_InrE split: if_splits)

lemma kube_bind_InrE:
  assumes "kube_bind m f tr = (Inr y, tr')"
  obtains x t where "m tr = (Inr x, t)" and "f x t = (Inr y, tr')"
  using assms by (auto simp: kube_bind_Inr)

lemma kube_lift_InrE:
  assumes "kube_lift r tr = (Inr x, tr')"
  obtains "r = Inr x" and "tr' = tr"
  using assms by (simp add: kube_lift_Inr)

lemmas inr_elims = kube_bind_InrE kube_lift_InrE bindE_InrE

lemma step_names:
  "prepare_registry w sx tr = (Inr sx', tr') \<Longrightarrow> sx_names sx' = sx_names sx"
  "choose_passwords w rq sx tr = (Inr sx', tr') \<Longrightarrow> sx_names sx' = sx_names sx"
  "copy_secrets w sx tr = (Inr sx', tr') \<Longrightarrow> sx_names sx' = sx_names sx"
  unfolding prepare_registry_def choose_passwords_def copy_secrets_def Let_def
  by (auto simp: kube_return_def elim!: inr_elims split: if_splits)

lemma find_session_names: "find_session_environment w rq tr = (Inr sx, tr') \<Longrightarrow> names_of rq sx"
  unfolding find_session_environment_def
  by (elim inr_elims, drule identify_names, drule read_names(1), assumption, drule read_names(2), (drule step_names)+)
     (simp add: names_of_def)

lemma provision_names: "provision_session w rq sx namespace keys tr = (Inr sx', tr') \<Longrightarrow> names_of rq sx \<Longrightarrow> names_of rq sx'"
  unfolding provision_session_def
  by (elim inr_elims, drule variables_names, drule storage_names) (simp add: names_of_def kube_return_def)

lemma prepare_names: "prepare_session w rq tr = (Inr (sx, namespace, keys), tr') \<Longrightarrow> names_of rq sx"
  unfolding prepare_session_def
  by (elim inr_elims, drule find_session_names, drule provision_names) (simp_all add: kube_return_def)

section \<open>Outcomes of the handler\<close>

lemma create_each:
  "kube_each (\<lambda>obj. kube_bind (create_object w obj) (\<lambda>_. kube_return ())) objs tr = (Inr u, tr') \<Longrightarrow> tr' = rev (map Create objs) @ tr"
  by (induction objs arbitrary: tr)
    (auto simp: kube_simps create_object_def kube_write_def split: sum.splits prod.splits)

lemma creations_rev [simp]: "creations (rev (map Create objs) @ tr) = creations tr @ objs"
  by (induction objs arbitrary: tr rule: rev_induct) simp_all

text \<open>
  A session that runs: its status has the address of the dashboard, whose objects were created last, and the phase only if no
  training portal, which keeps the phase itself, asked for it.
\<close>

definition session_running :: "operator_world \<Rightarrow> session_request \<Rightarrow> kube_call list \<Rightarrow> bool" where
  "session_running w rq tr \<longleftrightarrow>
     (\<exists>sx namespace keys docker env pod objs earlier sshd portal.
        dashboard_objects w sx namespace keys docker env pod = Inr objs
      \<and> creations tr = earlier @ objs
      \<and> label_or_empty (sq_meta rq) ''training.educates.dev/portal.name'' = Inr portal
      \<and> final_status tr = Some (educates_status (
          [(''message'', PNone), (''url'', PStr (sx_url sx)), (''sshd'', sshd)]
          @ (if truthy portal then [] else [(''phase'', PStr ''Running'')]))))"

lemma deploy_dashboard_creations:
  assumes "deploy_dashboard w rq sx namespace keys tr = (Inr u, tr')"
  obtains docker env pod objs earlier where "dashboard_objects w sx namespace keys docker env pod = Inr objs"
    and "creations tr' = earlier @ objs"
  using assms unfolding deploy_dashboard_def
  by (auto elim!: inr_elims dest!: create_each split: prod.splits)


section \<open>Further attempts\<close>

lemma namespace_kind: "kind_of (session_namespace_body cfg sn name policy) = Some (PStr ''Namespace'')"
  by (simp add: session_namespace_body_def kind_of_def)

text \<open>
  \<^bold>\<open>C18.\<close> Once the namespace of a session is there, no attempt to create the session succeeds, and each leaves it
  \<open>Pending\<close>. So an attempt that fails after it made the namespace, with an exception that the operator framework answers with
  another attempt, is not left as \<open>Failed\<close>, as the code means it to be: the next attempt finds the namespace of the first.
\<close>

theorem failed_session_becomes_pending:
  assumes "adopt_adds w"
    and "\<And>tr obj. kind_of obj = Some (PStr ''Namespace'') \<Longrightarrow> ka_write (ow_api w) tr (Create obj) = Inl (HTTPError 409)"
  shows "\<exists>e tr. workshop_session_create w rq [] = (Inl e, tr) \<and> phase ''Pending'' (final_status tr)"
proof -
  have conflict: "\<exists>e tr'. create_session_namespace w rq sx tr = (Inl e, tr') \<and> phase ''Pending'' (final_status tr')" for sx tr
  proof -
    have "kind_of (ow_adopt w (session_namespace_body (ow_config w) (sx_names sx) (PStr (sx_namespace sx)) (sx_policy sx)) (sq_body rq))
        = Some (PStr ''Namespace'')"
      using assms(1) namespace_kind by (simp add: adopt_adds_def)
    from assms(2) [OF this] show ?thesis
      by (simp add: create_session_namespace_def create_unless_def create_object_def kube_write_def kube_simps)
  qed
  have "\<exists>e tr. prepare_session w rq [] = (Inl e, tr) \<and> phase ''Pending'' (final_status tr)"
  proof (cases "find_session_environment w rq (first_calls w rq)")
    case (Pair r t)
    show ?thesis
    proof (cases r)
      case (Inl e)
      with Pair find_environment_outcome [OF Pair] show ?thesis by (simp add: prepare_session_from kube_bind_def)
    next
      case (Inr sx)
      with Pair conflict [of sx t] show ?thesis by (auto simp: prepare_session_from kube_bind_def)
    qed
  qed
  then show ?thesis by (auto simp: workshop_session_create_def kube_bind_def)
qed

text \<open>An environment that is ready, and a server on which the namespace is there.\<close>

definition ready_environment :: pyval where
  "ready_environment =
     PDict [(''metadata'', PDict [(''uid'', PStr ''2'')]), (''spec'', PDict []),
            (''status'', PDict [(''educates'', PDict [(''workshop'', PDict [(''name'', PStr ''lab''),
               (''spec'', PDict [(''session'', PDict [(''applications'', PDict [])])])])])])]"

definition session_world :: "(kube_call \<Rightarrow> kube_error + pyval) \<Rightarrow> operator_world" where
  "session_world answer = lab_world\<lparr>ow_api := \<lparr>ka_get = \<lambda>tr k ns n. Inr ready_environment, ka_query = \<lambda>tr k ns. Inr [],
     ka_write = \<lambda>tr c. answer c\<rparr>\<rparr>"

definition lab_session_request :: session_request where
  "lab_session_request =
     \<lparr>sq_name = PStr ''w01-s001'', sq_uid = PStr ''9'', sq_body = PDict [], sq_meta = PDict [],
      sq_spec = PDict [(''environment'', PDict [(''name'', PStr ''w01'')]), (''session'', PDict [(''id'', PStr ''s001'')])],
      sq_retry = 1\<rparr>"

theorem failed_session_becomes_pending_witness:
  "let (r, tr) = workshop_session_create (session_world (\<lambda>_. Inl (HTTPError 409))) lab_session_request []
   in (\<exists>e. r = Inl e) \<and> phase ''Pending'' (final_status tr) \<and> length (creations tr) = 1"
proof -
  have "adopt_adds (session_world (\<lambda>_. Inl (HTTPError 409)))" by (simp add: adopt_adds_def session_world_def lab_world_def)
  from failed_session_becomes_pending [OF this, of lab_session_request]
  have "\<exists>e tr. workshop_session_create (session_world (\<lambda>_. Inl (HTTPError 409))) lab_session_request [] = (Inl e, tr)
      \<and> phase ''Pending'' (final_status tr)"
    by (simp add: session_world_def)
  moreover have "length (creations (snd (workshop_session_create (session_world (\<lambda>_. Inl (HTTPError 409))) lab_session_request []))) = 1"
    by code_simp
  ultimately show ?thesis by auto
qed

end
