(* ===== verification/Session_Ownership.thy ===== *)
theory Session_Ownership
  imports Session_Phases
begin

text \<open>
  What the creation of a workshop session leaves behind belongs to it: an object is owned, so that it goes with the
  session, or is in a namespace that the session owns, and carries the name of the session.
\<close>

section \<open>Ownership\<close>

definition owned :: "pyval \<Rightarrow> bool" where
  "owned obj \<longleftrightarrow> (\<exists>md refs. metadata_of obj = Some md \<and> dict_get md ''ownerReferences'' = Some (PList refs) \<and> refs \<noteq> [])"

definition name_of :: "pyval \<Rightarrow> pyval option" where
  "name_of obj = (case metadata_of obj of None \<Rightarrow> None | Some md \<Rightarrow> dict_get md ''name'')"

definition is_namespace_object :: "pyval \<Rightarrow> bool" where
  "is_namespace_object obj \<longleftrightarrow> (\<exists>k. kind_of obj = Some (PStr k) \<and> lower k = ''namespace'')"

text \<open>\<open>kopf.adopt\<close> adds an owner reference to the metadata of an object, and keeps its name.\<close>

definition adopt_owns :: "operator_world \<Rightarrow> bool" where
  "adopt_owns w \<longleftrightarrow>
     (\<forall>obj owner. metadata_of obj \<noteq> None \<longrightarrow> owned (ow_adopt w obj owner) \<and> name_of (ow_adopt w obj owner) = name_of obj)"

definition session_namespace_of :: "kube_call list \<Rightarrow> pyval \<Rightarrow> bool" where
  "session_namespace_of tr target \<longleftrightarrow>
     (\<exists>ns. Create ns \<in> set tr \<and> is_namespace_object ns \<and> owned ns \<and> name_of ns = Some target)"

definition accounted :: "kube_call list \<Rightarrow> pyval \<Rightarrow> bool" where
  "accounted tr obj \<longleftrightarrow> owned obj \<or> (\<exists>target. session_namespace_of tr target \<and> in_namespace target obj)"

definition session_mark :: "session_request \<Rightarrow> (string \<times> pyval) list" where
  "session_mark rq = [(''training.educates.dev/session.name'', sq_name rq)]"

text \<open>Only the token of the session's account has the labels of a portal instead.\<close>

definition marked :: "operator_world \<Rightarrow> session_request \<Rightarrow> pyval \<Rightarrow> bool" where
  "marked w rq obj \<longleftrightarrow> labelled (session_mark rq) obj \<or> (\<exists>sn owner. obj = ow_adopt w (session_account_token sn) owner)"

definition own_call :: "operator_world \<Rightarrow> session_request \<Rightarrow> kube_call list \<Rightarrow> kube_call \<Rightarrow> bool" where
  "own_call w rq tr c \<longleftrightarrow> (case c of Create obj \<Rightarrow> accounted tr obj \<and> marked w rq obj | _ \<Rightarrow> True)"

lemma own_call_simps [simp]:
  "own_call w rq tr (SetStatus v)" "own_call w rq tr (Get k ns n)" "own_call w rq tr (Query k ns)" "own_call w rq tr Pause"
  "own_call w rq tr (Delete obj)" "own_call w rq tr (Draw i)" "own_call w rq tr (Report e d)"
  "own_call w rq tr (Create obj) \<longleftrightarrow> accounted tr obj \<and> marked w rq obj"
  by (simp_all add: own_call_def)

text \<open>The object as it is handed to \<open>kopf.adopt\<close>.\<close>

definition well_marked :: "session_request \<Rightarrow> pyval \<Rightarrow> bool" where
  "well_marked rq obj \<longleftrightarrow> metadata_of obj \<noteq> None \<and> labelled (session_mark rq) obj"

lemma adopted_own:
  assumes "adopt_adds w" and "adopt_owns w" and "well_marked rq obj"
  shows "own_call w rq tr (Create (ow_adopt w obj owner))"
  using assms by (auto simp: well_marked_def accounted_def marked_def adopt_adds_def adopt_owns_def)

lemma session_labels_mark: "labelled (session_labels sn) obj \<Longrightarrow> sn_session_name sn = sq_name rq \<Longrightarrow> labelled (session_mark rq) obj"
  by (auto simp: labelled_def session_labels_def session_mark_def)

text \<open>A body whose labels are written out.\<close>

lemma well_marked_body:
  assumes "metadata_of obj = Some md" and "dict_get md ''labels'' = Some (PDict l)"
    and "dict_get l ''training.educates.dev/session.name'' = Some (sq_name rq)"
  shows "well_marked rq obj"
  using assms by (simp add: well_marked_def labelled_def session_mark_def)

lemma session_labels_name [simp]:
  "dict_get (session_labels sn @ extra) ''training.educates.dev/session.name'' = Some (sn_session_name sn)"
  "dict_get (session_labels sn) ''training.educates.dev/session.name'' = Some (sn_session_name sn)"
  "dict_get (application_labels sn a @ extra) ''training.educates.dev/session.name'' = Some (sn_session_name sn)"
  "dict_get (application_labels sn a) ''training.educates.dev/session.name'' = Some (sn_session_name sn)"
  by (simp_all add: session_labels_def application_labels_def)

lemmas session_bodies =
  session_namespace_body_def session_account_def web_console_binding_def session_volume_claim_def variables_secret_def
  downloads_secret_def docker_volume_claim_def compose_config_map_def registry_volume_claim_def registry_config_map_def
  registry_deployment_def registry_service_def registry_ingress_def ssh_keys_secret_def dashboard_service_def dashboard_ingress_def
  console_secret_def

lemma bodies_marked:
  assumes "sn_session_name sn = sq_name rq"
  shows "well_marked rq (session_namespace_body cfg sn name policy)" "well_marked rq (session_account sn)"
    "well_marked rq (web_console_binding sn ns)" "well_marked rq (session_volume_claim cfg sn ns st)"
    "well_marked rq (variables_secret sn ns data)" "well_marked rq (downloads_secret sn sx)"
    "well_marked rq (docker_volume_claim cfg sn ns st)" "well_marked rq (compose_config_map sn ns text)"
    "well_marked rq (registry_volume_claim cfg sn ns st)" "well_marked rq (registry_config_map w sn sx text)"
    "well_marked rq (registry_deployment cfg sn ns rs pull)" "well_marked rq (registry_service sn ns)"
    "well_marked rq (registry_ingress cfg sn ns host)" "well_marked rq (ssh_keys_secret sn ns keys)"
    "well_marked rq (dashboard_service sn ns b)" "well_marked rq (dashboard_ingress cfg sn sx b hosts)"
    "well_marked rq (console_secret sn ns)"
  using assms by (simp_all add: session_bodies well_marked_def metadata_of_def labelled_def session_mark_def)

section \<open>Namespaces\<close>

lemma session_namespace_later: "session_namespace_of tr target \<Longrightarrow> session_namespace_of (b @ tr) target"
  by (auto simp: session_namespace_of_def)

text \<open>What is set up in a namespace of the session is accounted for by that.\<close>

lemma runs_setup_own:
  assumes "adopt_adds w" and "session_namespace_of tr target" and "sn_session_name sn = sq_name rq"
  shows "runs (own_call w rq) (setup_session_namespace w sn owner target as role budget limits policy) tr"
proof (rule runs_mono [OF runs_setup_writes [OF assms(1)]])
  fix b c assume "namespace_write w sn target role budget policy (b @ tr) c"
  with session_namespace_later [OF assms(2)] assms(3) show "own_call w rq (b @ tr) c"
    by (cases c) (auto simp: namespace_write_def own_call_def accounted_def marked_def dest: session_labels_mark)
qed

lemma adopted_namespace:
  assumes "adopt_adds w" and "adopt_owns w" and "metadata_of obj \<noteq> None" and "is_namespace_object obj" and "name_of obj = Some target"
  shows "session_namespace_of (Create (ow_adopt w obj owner) # tr) target"
  using assms by (auto simp: session_namespace_of_def adopt_adds_def adopt_owns_def is_namespace_object_def)

lemma body_is_namespace [simp]: "is_namespace_object (session_namespace_body cfg sn name policy)"
proof -
  have "lower ''Namespace'' = ''namespace''" by code_simp
  then show ?thesis by (simp add: is_namespace_object_def namespace_kind)
qed

lemma body_name [simp]:
  "name_of (session_namespace_body cfg sn name policy) = Some name" "metadata_of (session_namespace_body cfg sn name policy) \<noteq> None"
  "\<exists>md. metadata_of (session_namespace_body cfg sn name policy) = Some md"
  by (simp_all add: name_of_def metadata_of_def session_namespace_body_def)

lemma create_unless_done: "create_unless w left obj tr = (Inr u, tr') \<Longrightarrow> tr' = Create obj # tr"
  by (auto simp: create_unless_def create_object_def kube_write_def kube_simps split: sum.splits if_splits kube_error.splits)

lemma create_requested_done: "create_requested w rq sx ref obj tr = (Inr u, tr') \<Longrightarrow> tr' = Create obj # tr"
  by (auto simp: create_requested_def Let_def create_object_def kube_write_def kube_simps report_trace split: sum.splits)

lemma create_session_namespace_done:
  assumes "create_session_namespace w rq sx tr = (Inr namespace, tr')" and "adopt_adds w" and "adopt_owns w"
  shows "session_namespace_of tr' (PStr (sx_namespace sx))"
proof -
  from assms(1) obtain t where "tr' = Get ''Namespace'' PNone (PStr (sx_namespace sx))
      # Create (ow_adopt w (session_namespace_body (ow_config w) (sx_names sx) (PStr (sx_namespace sx)) (sx_policy sx)) (sq_body rq)) # t"
    by (auto simp: create_session_namespace_def kube_try_def kube_get_def request_failed_def kube_simps
        dest!: create_unless_done elim!: kube_bind_InrE split: sum.splits prod.splits if_splits)
  moreover have "session_namespace_of (Create (ow_adopt w (session_namespace_body (ow_config w) (sx_names sx) (PStr (sx_namespace sx))
      (sx_policy sx)) (sq_body rq)) # t) (PStr (sx_namespace sx))"
    by (rule adopted_namespace [OF assms(2,3)]) simp_all
  from session_namespace_later [OF this, of "[Get ''Namespace'' PNone (PStr (sx_namespace sx))]"] show ?thesis
    using calculation by simp
qed

section \<open>Objects of the workshop\<close>

lemma core_namespace: "core_kind ''namespace'' ref = Inr True \<Longrightarrow> \<exists>k. or_kind ref = PStr k \<and> lower k = ''namespace''"
  by (auto simp: core_kind_def split: if_splits pyval.splits)

lemma add_labels_keeps:
  assumes "add_labels ls obj = Inr obj'" and "fst ` set ls \<inter> fst ` set ms = {}"
  shows "(labelled ms obj \<longrightarrow> labelled ms obj') \<and> (owned obj \<longrightarrow> owned obj') \<and> name_of obj' = name_of obj \<and> kind_of obj' = kind_of obj"
proof -
  from assms(1) obtain d where d: "obj = PDict d" by (cases obj) (auto simp: add_labels_def)
  with assms(1) obtain md where md: "dict_get d ''metadata'' = Some (PDict md)"
    by (auto simp: add_labels_def split: option.splits pyval.splits)
  obtain l where l: "dict_get md ''labels'' = None \<and> l = [] \<or> dict_get md ''labels'' = Some (PDict l)"
    and obj': "obj' = PDict (dict_set ''metadata'' (PDict (dict_set ''labels'' (PDict (dict_update ls l)) md)) d)"
    using assms(1) by (auto simp: add_labels_def d md split: option.splits pyval.splits)
  have keep: "k \<notin> fst ` set ls \<Longrightarrow> dict_get (dict_update ls l) k = dict_get l k" for k
    by (induction ls arbitrary: l) (auto simp: dict_update_def)
  have "labelled ms obj \<longrightarrow> labelled ms obj'"
    using l assms(2) keep by (fastforce simp: labelled_def metadata_of_def d md obj')
  then show ?thesis by (simp add: d md obj' owned_def name_of_def metadata_of_def kind_of_def)
qed

lemma set_metadata_keeps:
  assumes "set_metadata key v obj = Inr obj'" and "key \<notin> {''labels'', ''ownerReferences'', ''name''}"
  shows "(labelled ms obj \<longrightarrow> labelled ms obj') \<and> (owned obj \<longrightarrow> owned obj') \<and> name_of obj' = name_of obj \<and> kind_of obj' = kind_of obj"
  using assms by (elim set_metadata_Inr) (auto simp: labelled_def owned_def name_of_def metadata_of_def kind_of_def)

lemma set_annotation_keeps:
  assumes "set_annotation key v obj = Inr obj'"
  shows "(labelled ms obj \<longrightarrow> labelled ms obj') \<and> (owned obj \<longrightarrow> owned obj') \<and> name_of obj' = name_of obj \<and> kind_of obj' = kind_of obj"
proof -
  from assms obtain a where "set_metadata ''annotations'' a obj = Inr obj'"
    by (auto simp: set_annotation_def elim!: bindE_InrE split: pyval.splits)
  then show ?thesis by (rule set_metadata_keeps) simp
qed

lemma py_index_Inr: "py_index v k = Inr x \<longleftrightarrow> (\<exists>d. v = PDict d \<and> dict_get d k = Some x)"
  by (cases v) (auto split: option.splits)

lemma metadata_name: "bindE (py_index obj ''metadata'') (\<lambda>m. py_index m ''name'') = Inr target \<Longrightarrow> name_of obj = Some target"
  by (auto simp: name_of_def metadata_of_def py_index_Inr elim!: bindE_InrE)

lemma object_labels_mark: "labelled (object_labels sn) obj \<Longrightarrow> sn_session_name sn = sq_name rq \<Longrightarrow> labelled (session_mark rq) obj"
  by (auto simp: labelled_def object_labels_def session_labels_def session_mark_def)

lemma session_object_marked:
  assumes "session_object sx obj = Inr (ref, obj')" and "sn_session_name (sx_names sx) = sq_name rq"
  shows "well_marked rq obj'" and "kind_of obj' = Some (or_kind ref)"
proof -
  from assms(1) obtain o' where l: "add_labels (object_labels (sx_names sx)) o' = Inr obj'" and k: "py_index o' ''kind'' = Inr (or_kind ref)"
    unfolding session_object_def by (elim bindE_InrE) auto
  from l have "labelled (object_labels (sx_names sx)) obj' \<and> kind_of obj' = kind_of o'"
    by (rule add_labels_labelled) (simp add: object_labels_def session_labels_def)
  moreover from k have "kind_of o' = Some (or_kind ref)" by (auto simp: py_index_Inr kind_of_def)
  ultimately have l: "labelled (object_labels (sx_names sx)) obj'" and "kind_of obj' = Some (or_kind ref)" by simp_all
  then show "kind_of obj' = Some (or_kind ref)" by simp
  from object_labels_mark [OF l assms(2)] l show "well_marked rq obj'" by (auto simp: well_marked_def labelled_def)
qed

lemma runs_namespace_object:
  assumes w: "adopt_adds w" "adopt_owns w" and sx: "sn_session_name (sx_names sx) = sq_name rq"
    and obj: "well_marked rq obj0" "kind_of obj0 = Some (PStr k)" "lower k = ''namespace''" "obj = ow_adopt w obj0 namespace"
  shows "runs (own_call w rq) (create_namespace_object w rq sx namespace ref obj) tr"
proof -
  have obj0: "labelled (session_mark rq) obj" "owned obj" "kind_of obj = Some (PStr k)"
    using w obj by (auto simp: well_marked_def adopt_adds_def adopt_owns_def)
  have "labelled (session_mark rq) o3 \<and> owned o3 \<and> is_namespace_object o3"
    if "set_annotation key v obj = Inr o1" and "add_labels (policy_labels cfg policy) o1 = Inr o2" and "add_labels (enforce_label cfg policy) o2 = Inr o3"
    for key v o1 o2 o3 cfg policy
    using obj0 obj(3) set_annotation_keeps [OF that(1), of "session_mark rq"]
      add_labels_keeps [OF that(2), of "session_mark rq"] add_labels_keeps [OF that(3), of "session_mark rq"]
    by (auto simp: policy_labels_def enforce_label_def session_mark_def is_namespace_object_def)
  then have step: "runs (own_call w rq)
      (kube_bind (create_requested w rq sx ref o3) (\<lambda>_. kube_bind (kube_lift (bindE (py_index o3 ''metadata'') (\<lambda>m. py_index m ''name'')))
         (\<lambda>target. kube_bind (setup_session_namespace w (sx_names sx) namespace target as role budget limits p) (\<lambda>_. kube_return o3)))) t"
    if "set_annotation key v obj = Inr o1" and "bindE (add_labels (policy_labels cfg policy) o1) (add_labels (enforce_label cfg policy)) = Inr o3"
    for key v o1 o3 cfg policy as role budget limits p t
    using that sx w(1)
    by (auto intro!: runs_bind runs_bind_lift runs_create_requested runs_setup_own runs_return dest!: create_requested_done
        simp: accounted_def marked_def session_namespace_of_def elim!: bindE_InrE) (metis metadata_name bindE_simps(2))
  show ?thesis unfolding create_namespace_object_def
    by (intro runs_bind_lift step) assumption+
qed

lemma runs_session_object:
  assumes "adopt_adds w" "adopt_owns w" and "sn_session_name (sx_names sx) = sq_name rq"
  shows "runs (own_call w rq) (create_session_object w rq sx namespace obj) tr"
  unfolding create_session_object_def Let_def
proof (rule runs_bind_lift, clarify)
  fix ref obj' assume o': "session_object sx obj = Inr (ref, obj')"
  note mark = session_object_marked [OF o' assms(3)]
  have branch: "runs (own_call w rq)
      (if is_ns then create_namespace_object w rq sx namespace ref (ow_adopt w obj' namespace)
       else kube_bind (create_requested w rq sx ref (ow_adopt w obj' namespace)) (\<lambda>_. kube_return (ow_adopt w obj' namespace))) t"
    if "core_kind ''namespace'' ref = Inr is_ns" for is_ns t
  proof (cases is_ns)
    case True
    with core_namespace [of ref] that obtain k where "or_kind ref = PStr k" "lower k = ''namespace''" by auto
    with mark True show ?thesis by (auto intro: runs_namespace_object [OF assms])
  next
    case False
    with mark(1) adopted_own [OF assms(1,2)] show ?thesis by (auto intro!: runs_bind runs_create_requested runs_return)
  qed
  show "runs (own_call w rq)
     (kube_bind (kube_lift (core_kind ''namespace'' ref))
       (\<lambda>is_ns. kube_bind
          (if is_ns then create_namespace_object w rq sx namespace ref (ow_adopt w obj' namespace)
           else kube_bind (create_requested w rq sx ref (ow_adopt w obj' namespace)) (\<lambda>_. kube_return (ow_adopt w obj' namespace)))
          (await_created_quota w ref))) tr"
    by (intro runs_bind_lift runs_bind branch runs_await_created_quota) auto
qed

section \<open>Objects with variables substituted\<close>

lemma substituted_dict:
  assumes "substitute_variables vars e r (PDict d) = Inr v"
  shows "\<exists>d'. v = PDict d' \<and> (\<forall>k x. dict_get d k = Some x \<longrightarrow> (\<exists>y. dict_get d' k = Some y \<and> substitute_variables vars e r x = Inr y))"
proof -
  from assms obtain d' where v: "v = PDict d'"
    and "mapE (\<lambda>kv. bindE (substitute_variables vars e r (snd kv)) (\<lambda>v. Inr (fst kv, v))) d = Inr d'"
    by (auto elim!: bindE_InrE)
  from this(2) have "\<forall>k x. dict_get d k = Some x \<longrightarrow> (\<exists>y. dict_get d' k = Some y \<and> substitute_variables vars e r x = Inr y)"
  proof (induction d arbitrary: d')
    case (Cons kv d)
    then show ?case by (auto elim!: bindE_InrE split: if_splits)
  qed simp
  with v show ?thesis by blast
qed

lemma substituted_plain:
  assumes "\<not> sublist ''$('' s" and "substituted vars (PStr s) = Inr v"
  shows "v = PStr s"
proof -
  have "substitute_rounds 6 vars s s = Inr s"
    using assms(1) substitute_rounds.simps(2) [of 5 vars s s] by (simp add: eval_nat_numeral)
  moreover have "\<not> startswith s base64_open"
  proof
    assume "startswith s base64_open"
    moreover have "prefix ''$('' base64_open" by (simp add: base64_open_def)
    ultimately have "prefix ''$('' s" by (auto intro: prefix_order.trans)
    with assms(1) show False by (simp add: prefix_imp_sublist)
  qed
  ultimately show ?thesis using assms(2) by (simp add: substitute_string_def encoded_def)
qed

lemma substituted_label:
  assumes "labelled [(k, PStr s)] obj" and "substituted vars obj = Inr obj'" and "\<not> sublist ''$('' s"
  shows "labelled [(k, PStr s)] obj'"
proof -
  from assms(1) obtain d md l where obj: "obj = PDict d" "dict_get d ''metadata'' = Some (PDict md)" "dict_get md ''labels'' = Some (PDict l)"
    "dict_get l k = Some (PStr s)"
    by (auto simp: labelled_def metadata_of_def split: pyval.splits option.splits)
  from substituted_dict [OF assms(2) [unfolded obj(1)]] obj(2)
  obtain d' y where d': "obj' = PDict d'" "dict_get d' ''metadata'' = Some y" "substituted vars (PDict md) = Inr y" by blast
  from substituted_dict [OF d'(3)] obj(3)
  obtain md' z where md': "y = PDict md'" "dict_get md' ''labels'' = Some z" "substituted vars (PDict l) = Inr z" by blast
  from substituted_dict [OF md'(3)] obj(4)
  obtain l' x where l': "z = PDict l'" "dict_get l' k = Some x" "substituted vars (PStr s) = Inr x" by blast
  from substituted_plain [OF assms(3) l'(3)] d' md' l' show ?thesis by (simp add: labelled_def metadata_of_def)
qed

lemma substituted_marked:
  assumes "well_marked rq obj" and "substituted vars obj = Inr obj'" and "sq_name rq = PStr s" and "\<not> sublist ''$('' s"
  shows "well_marked rq obj'"
  using assms substituted_label [of "''training.educates.dev/session.name''" s obj vars obj']
  by (auto simp: well_marked_def session_mark_def labelled_def)

lemma runs_create_substituted:
  assumes "adopt_adds w" "adopt_owns w" and "well_marked rq obj" and "sq_name rq = PStr s" and "\<not> sublist ''$('' s"
  shows "runs (own_call w rq) (create_substituted w sx namespace obj) tr"
  unfolding create_substituted_def
  using adopted_own [OF assms(1,2) substituted_marked [OF assms(3) _ assms(4,5)]]
  by (intro runs_bind_lift runs_bind runs_create runs_return) (simp del: own_call_simps)

section \<open>Provisioning\<close>

lemma runs_accounts:
  assumes "adopt_adds w" "adopt_owns w" and "sn_session_name (sx_names sx) = sq_name rq"
  shows "runs (own_call w rq) (create_accounts w sx namespace) tr"
proof -
  have "metadata_of (session_account_token sn) \<noteq> None" for sn by (simp add: session_account_token_def metadata_of_def)
  then have "own_call w rq t (Create (ow_adopt w (session_account_token (sx_names sx)) namespace))" for t
    using assms(2) by (auto simp: accounted_def marked_def adopt_owns_def)
  with adopted_own [OF assms(1,2)] bodies_marked [OF assms(3)] show ?thesis
    unfolding create_accounts_def Let_def by (intro runs_bind runs_create_or_fail) (simp_all del: own_call_simps(8))
qed

lemma runs_secondary_namespace:
  assumes "adopt_adds w" "adopt_owns w" and "sn_session_name (sx_names sx) = sq_name rq"
  shows "runs (own_call w rq) (secondary_namespace w sx namespace item) tr"
  unfolding secondary_namespace_def
  using adopted_own [OF assms(1,2)] bodies_marked [OF assms(3)] assms
  by (intro runs_bind_lift runs_bind runs_create_unless)
    (auto intro!: runs_setup_own adopted_namespace dest!: create_unless_done simp del: own_call_simps(8))

lemma runs_save_variables:
  assumes "adopt_adds w" "adopt_owns w" and "sn_session_name (sx_names sx) = sq_name rq"
  shows "runs (own_call w rq) (save_variables w sx namespace) tr"
  unfolding save_variables_def
  using adopted_own [OF assms(1,2)] bodies_marked [OF assms(3)]
  by (intro runs_bind_lift runs_create_unless) (simp_all del: own_call_simps(8))

lemma runs_claim_storage:
  assumes "adopt_adds w" "adopt_owns w" and "sn_session_name (sx_names sx) = sq_name rq"
  shows "runs (own_call w rq) (claim_storage w sx namespace) tr"
  unfolding claim_storage_def
  using adopted_own [OF assms(1,2)] bodies_marked [OF assms(3)]
  by (auto intro!: runs_bind runs_create runs_return simp del: own_call_simps(8))

lemma runs_provision_own:
  assumes "adopt_adds w" "adopt_owns w" and names: "sn_session_name (sx_names sx) = sq_name rq"
    and "session_namespace_of tr (PStr (sx_namespace sx))"
  shows "runs (own_call w rq) (provision_session w rq sx namespace keys) tr"
proof -
  have accounts: "create_accounts w sx namespace tr = (Inr u, t) \<Longrightarrow> session_namespace_of t (PStr (sx_namespace sx))" for u t
    using runs_extends [OF runs_accounts [OF assms(1-3)]] session_namespace_later [OF assms(4)] by fastforce
  have rest: "runs (own_call w rq) (kube_bind (claim_storage w sx' namespace)
      (\<lambda>_. kube_bind (save_variables w sx' namespace)
      (\<lambda>_. kube_bind (secondary_namespaces w sx' namespace)
      (\<lambda>_. kube_bind (kube_lift (requested_objects w sx'))
      (\<lambda>objects. kube_bind (kube_each (create_session_object w rq sx' namespace) objects) (\<lambda>_. kube_return sx')))))) t"
    if "bindE (session_variables (ow_config w) rq sx keys) read_storage = Inr sx'" for sx' t
  proof -
    from that have "sx_names sx' = sx_names sx" by (elim bindE_InrE) (drule variables_names, drule storage_names, simp)
    with names have sx': "sn_session_name (sx_names sx') = sq_name rq" by simp
    note own = assms(1,2) sx'
    show ?thesis unfolding secondary_namespaces_def
      by (auto intro!: runs_bind runs_bind_lift runs_lift runs_each runs_return runs_claim_storage [OF own] runs_save_variables [OF own]
          runs_secondary_namespace [OF own] runs_session_object [OF own])
  qed
  show ?thesis
    unfolding provision_session_def
    by (rule runs_bind, rule runs_accounts [OF assms(1-3)], rule runs_bind, rule runs_setup_own [OF assms(1) accounts names],
        assumption, rule runs_bind_lift, rule rest, assumption)
qed

section \<open>The dashboard\<close>

lemma dict_update_other: "k \<notin> fst ` set ls \<Longrightarrow> dict_get (dict_update ls l) k = dict_get l k"
  by (induction ls arbitrary: l) (auto simp: dict_update_def)

lemma enabled_labels_other:
  "application_enabled_labels sx = Inr ls \<Longrightarrow> ''training.educates.dev/session.name'' \<notin> fst ` set (docker_label @ ls)"
  by (auto simp: application_enabled_labels_def docker_label_def elim!: bindE_InrE)

lemma deployment_marked:
  assumes "sn_session_name sn = sq_name rq" and "''training.educates.dev/session.name'' \<notin> fst ` set ls"
  shows "well_marked rq (dashboard_deployment sn ns ls pod)"
  using assms by (simp add: well_marked_def labelled_def metadata_of_def session_mark_def dashboard_deployment_def dict_update_other
      dashboard_labels_def)

lemma dashboard_objects_marked:
  assumes "dashboard_objects w sx namespace keys docker env pod = Inr objs" and "docker = [] \<or> docker = docker_label"
    and names: "sn_session_name (sx_names sx) = sq_name rq" and "obj \<in> set objs"
  shows "\<exists>body. obj = ow_adopt w body namespace \<and> well_marked rq body"
proof -
  from assms(1) obtain labels where labels: "application_enabled_labels sx = Inr labels"
    and objs: "\<exists>pod sshd tunnel hosts. objs = map (\<lambda>obj. ow_adopt w obj namespace)
       [ssh_keys_secret (sx_names sx) (sx_namespace sx) keys, dashboard_deployment (sx_names sx) (sx_namespace sx) (docker @ labels) pod,
        dashboard_service (sx_names sx) (sx_namespace sx) sshd, dashboard_ingress (ow_config w) (sx_names sx) sx tunnel hosts]"
    unfolding dashboard_objects_def Let_def by (elim bindE_InrE) auto
  from enabled_labels_other [OF labels] assms(2) have other: "''training.educates.dev/session.name'' \<notin> fst ` set (docker @ labels)" by auto
  have "well_marked rq (ssh_keys_secret (sx_names sx) ns keys)" "well_marked rq (dashboard_deployment (sx_names sx) ns (docker @ labels) pod)"
    "well_marked rq (dashboard_service (sx_names sx) ns b)" "well_marked rq (dashboard_ingress cfg (sx_names sx) sx b hosts)"
    for ns pod b cfg hosts
    by (rule bodies_marked [OF names] deployment_marked [OF names other])+
  note marks = this
  from objs obtain pod sshd tunnel hosts where "objs = map (\<lambda>obj. ow_adopt w obj namespace)
      [ssh_keys_secret (sx_names sx) (sx_namespace sx) keys, dashboard_deployment (sx_names sx) (sx_namespace sx) (docker @ labels) pod,
       dashboard_service (sx_names sx) (sx_namespace sx) sshd, dashboard_ingress (ow_config w) (sx_names sx) sx tunnel hosts]" by blast
  with assms(4) obtain body where "obj = ow_adopt w body namespace"
    and "body \<in> set [ssh_keys_secret (sx_names sx) (sx_namespace sx) keys,
       dashboard_deployment (sx_names sx) (sx_namespace sx) (docker @ labels) pod,
       dashboard_service (sx_names sx) (sx_namespace sx) sshd, dashboard_ingress (ow_config w) (sx_names sx) sx tunnel hosts]"
    by (simp only: set_map) (erule imageE, rule that)
  with marks show ?thesis by auto
qed

lemma registry_objects_marked:
  "obj \<in> set (registry_objects w sx rs pull text) \<Longrightarrow> sn_session_name (sx_names sx) = sq_name rq \<Longrightarrow> well_marked rq obj"
  using bodies_marked [of "sx_names sx" rq] by (auto simp: registry_objects_def Let_def split: if_splits)

lemma docker_objects_marked:
  assumes "use_docker w sx pod = Inr (pod', objs)" and "obj \<in> set objs" and "sn_session_name (sx_names sx) = sq_name rq"
  shows "well_marked rq obj"
proof -
  from assms(1) obtain p pull compose storage where
    "use_compose w sx pull compose (p, if truthy (sx_volume_name sx) then []
       else [docker_volume_claim (ow_config w) (sx_names sx) (sx_namespace sx) storage]) = Inr (pod', objs)"
    unfolding use_docker_def Let_def by (elim bindE_InrE) auto
  then have "set objs \<subseteq> {docker_volume_claim (ow_config w) (sx_names sx) (sx_namespace sx) storage}
      \<union> range (compose_config_map (sx_names sx) (sx_namespace sx))"
    by (auto simp: use_compose_def elim!: bindE_InrE split: if_splits)
  with assms(2) bodies_marked [OF assms(3)] show ?thesis by auto
qed

lemma runs_console_own:
  assumes "session_namespace_of tr (PStr (sx_namespace sx))" and "sn_session_name (sx_names sx) = sq_name rq"
  shows "runs (own_call w rq) (deploy_console w sx) tr"
proof -
  have "in_namespace (PStr (sx_namespace sx)) (console_secret (sx_names sx) (sx_namespace sx))"
    by (simp add: in_namespace_def metadata_of_def console_secret_def)
  with assms bodies_marked(17) [OF assms(2)] have "own_call w rq tr (Create (console_secret (sx_names sx) (sx_namespace sx)))"
    by (auto simp: accounted_def marked_def well_marked_def)
  then show ?thesis unfolding deploy_console_def
    by (auto intro!: runs_bind runs_bind_lift runs_create runs_return simp del: own_call_simps(8))
qed

lemma runs_docker_own:
  assumes "adopt_adds w" "adopt_owns w" and "sn_session_name (sx_names sx) = sq_name rq"
    and "sq_name rq = PStr s" and "\<not> sublist ''$('' s"
  shows "runs (own_call w rq) (deploy_docker w sx namespace pod) tr"
  unfolding deploy_docker_def using docker_objects_marked [OF _ _ assms(3)] assms
  by (auto intro!: runs_bind_lift runs_bind runs_each runs_return runs_create_substituted)

lemma runs_registry_own:
  assumes "adopt_adds w" "adopt_owns w" and "sn_session_name (sx_names sx) = sq_name rq"
    and "sq_name rq = PStr s" and "\<not> sublist ''$('' s"
  shows "runs (own_call w rq) (deploy_registry w sx namespace pod) tr"
  unfolding deploy_registry_def using registry_objects_marked [OF _ assms(3)] assms
  by (auto intro!: runs_bind_lift runs_bind runs_each runs_return runs_create_substituted runs_hash_password)

lemma deploy_docker_label: "deploy_docker w sx namespace pod tr = (Inr (pod', docker), tr') \<Longrightarrow> docker = [] \<or> docker = docker_label"
  by (auto simp: deploy_docker_def kube_return_def elim!: inr_elims split: if_splits prod.splits)

lemma runs_dashboard_own:
  assumes own: "adopt_adds w" "adopt_owns w" "sn_session_name (sx_names sx) = sq_name rq"
    and plain: "sq_name rq = PStr s" "\<not> sublist ''$('' s"
    and ns: "session_namespace_of tr (PStr (sx_namespace sx))"
  shows "runs (own_call w rq) (deploy_dashboard w rq sx namespace keys) tr"
proof -
  have downloads: "runs (own_call w rq) (prepare_downloads w sx namespace) t" for t
    unfolding prepare_downloads_def using adopted_own [OF own(1,2)] bodies_marked [OF own(3)]
    by (auto intro!: runs_bind_lift runs_bind runs_create runs_return simp del: own_call_simps(8))
  have later: "prepare_downloads w sx namespace tr = (Inr d, t) \<Longrightarrow> session_namespace_of t (PStr (sx_namespace sx))" for d t
    using runs_extends [OF downloads] session_namespace_later [OF ns] by fastforce
  have last: "runs (own_call w rq) (kube_bind (kube_lift (dashboard_objects w sx namespace keys docker env pod))
      (kube_each (\<lambda>obj. kube_bind (create_object w obj) (\<lambda>_. kube_return ())))) t"
    if "docker = [] \<or> docker = docker_label" for docker env pod t
  proof (intro runs_bind_lift runs_each runs_bind runs_create runs_return)
    fix objs obj t assume "dashboard_objects w sx namespace keys docker env pod = Inr objs" and "obj \<in> set objs"
    from dashboard_objects_marked [OF this(1) that own(3) this(2)] adopted_own [OF own(1,2)]
    show "own_call w rq t (Create obj)" by blast
  qed
  have middle: "runs (own_call w rq) (kube_bind (deploy_docker w sx namespace pod)
      (\<lambda>(pod, docker). kube_bind (deploy_registry w sx namespace pod)
      (\<lambda>(pod, env). kube_bind (kube_lift (dashboard_objects w sx namespace keys docker env pod))
         (kube_each (\<lambda>obj. kube_bind (create_object w obj) (\<lambda>_. kube_return ())))))) t" for pod t
    by (rule runs_bind, rule runs_docker_own [OF own plain])
      (auto intro!: runs_bind [OF runs_registry_own [OF own plain]] last dest: deploy_docker_label)
  show ?thesis
    unfolding deploy_dashboard_def
    by (rule runs_bind_lift, rule runs_bind, rule downloads, rule runs_bind_lift, rule runs_bind,
        rule runs_console_own [OF later own(3)], assumption, rule middle)
qed

section \<open>The handler\<close>

lemma runs_prepare_own:
  assumes "adopt_adds w" "adopt_owns w"
  shows "runs (own_call w rq) (prepare_session w rq) tr"
proof -
  have namespace: "runs (own_call w rq) (create_session_namespace w rq sx) t" if "names_of rq sx" for sx t
    unfolding create_session_namespace_def request_failed_def
    using adopted_own [OF assms] bodies_marked(1) [of "sx_names sx"] that
    by (auto simp: names_of_def simp del: own_call_simps(8)
        intro!: runs_bind runs_try runs_create_unless runs_get runs_raise runs_status)
  have later: "runs (own_call w rq) (kube_bind (new_keys w)
      (\<lambda>keys. kube_bind (set_status v)
      (\<lambda>_. kube_bind (provision_session w rq sx namespace keys) (\<lambda>sx. kube_return (sx, namespace, keys))))) t"
    if "names_of rq sx" and "session_namespace_of t (PStr (sx_namespace sx))" for sx namespace v t
    using that session_namespace_later [OF that(2), of "[SetStatus v]"]
    by (intro runs_bind runs_new_keys runs_status runs_return runs_provision_own [OF assms])
      (auto simp: names_of_def new_keys_def set_status_def)
  show ?thesis unfolding prepare_session_def
    by (rule runs_bind, rule runs_report, simp, rule runs_bind, rule runs_status, simp, rule runs_bind, rule runs_find_session_environment,
        simp_all) (auto intro!: runs_bind namespace later dest: find_session_names create_session_namespace_done [OF _ assms])
qed

lemma provision_namespace:
  "provision_session w rq sx namespace keys tr = (Inr sx', tr') \<Longrightarrow> sx_namespace sx' = sx_namespace sx"
proof -
  have "session_variables cfg rq' sx keys = Inr sx1 \<Longrightarrow> sx_namespace sx1 = sx_namespace sx"
    "read_storage sx = Inr sx1 \<Longrightarrow> sx_namespace sx1 = sx_namespace sx" for cfg rq' sx sx1
    unfolding session_variables_def read_image_def read_storage_def Let_def by (auto elim!: bindE_InrE split: if_splits)
  then show "provision_session w rq sx namespace keys tr = (Inr sx', tr') \<Longrightarrow> sx_namespace sx' = sx_namespace sx"
    unfolding provision_session_def by (elim inr_elims) (simp add: kube_return_def)
qed

lemma prepared_namespace:
  assumes "prepare_session w rq tr = (Inr (sx, namespace, keys), tr')" and "adopt_adds w" "adopt_owns w"
  shows "session_namespace_of tr' (PStr (sx_namespace sx))"
proof -
  from assms(1) obtain sx0 t0 t1 keys' t2 where "create_session_namespace w rq sx0 t0 = (Inr namespace, t1)"
    and k: "new_keys w t1 = (Inr keys', t2)"
    and p: "provision_session w rq sx0 namespace keys' (SetStatus (educates_status [(''phase'', PStr ''Failed'')]) # t2) = (Inr sx, tr')"
    unfolding prepare_session_def by (elim inr_elims) (auto simp: kube_return_def set_status_def)
  from create_session_namespace_done [OF this(1) assms(2,3)] have "session_namespace_of t1 (PStr (sx_namespace sx0))" .
  moreover from p obtain b where "tr' = b @ SetStatus (educates_status [(''phase'', PStr ''Failed'')]) # t2"
    using runs_extends [OF runs_provision] by blast
  moreover from k have "t2 = t1" by (simp add: new_keys_def)
  ultimately show ?thesis
    using provision_namespace [OF p] session_namespace_later [of t1 _ "b @ [SetStatus (educates_status [(''phase'', PStr ''Failed'')])]"]
    by simp
qed


text \<open>A server that refuses the second object, the account of the session.\<close>

definition adopting :: "pyval \<Rightarrow> pyval \<Rightarrow> pyval" where
  "adopting obj owner =
     (case (obj, metadata_of obj) of
        (PDict d, Some md) \<Rightarrow> PDict (dict_set ''metadata'' (PDict (dict_set ''ownerReferences'' (PList [owner]) md)) d)
      | _ \<Rightarrow> obj)"

definition adopting_world :: operator_world where
  "adopting_world =
     (session_world (\<lambda>c. case c of
        Create obj \<Rightarrow> if kind_of obj = Some (PStr ''ServiceAccount'') then Inl (HTTPError 500) else Inr PNone
      | _ \<Rightarrow> Inr PNone))\<lparr>ow_adopt := adopting\<rparr>"

lemma adopting_world_adopts: "adopt_adds adopting_world" "adopt_owns adopting_world"
  by (auto simp: adopt_adds_def adopt_owns_def adopting_world_def adopting_def owned_def name_of_def metadata_of_def kind_of_def
      in_namespace_def labelled_def split: pyval.splits option.splits)

definition adopting_calls :: "kube_call list" where
  "adopting_calls = snd (workshop_session_create adopting_world lab_session_request [])"


end
