(* ===== verification/Session_Links.thy ===== *)
theory Session_Links
  imports Session_Phases Workshop_Allocations
begin

text \<open>
  What the parts of a workshop session rely on in each other: an allocation reads back the variables that the session
  saved, and the containers of the pod mount only volumes that the pod has.
\<close>

section \<open>The variables of a session\<close>

lemma distinct_dict_set: "distinct (map fst d) \<Longrightarrow> distinct (map fst (dict_set k v d))"
  by (simp add: distinct_update)

lemma distinct_dict_update: "distinct (map fst d) \<Longrightarrow> distinct (map fst (dict_update new d))"
  by (induction new arbitrary: d) (auto simp: dict_update_def distinct_dict_set)

lemma distinct_add_variables:
  "foldE add_variable own vars = Inr vars' \<Longrightarrow> distinct (map fst vars) \<Longrightarrow> distinct (map fst vars')"
  by (rule foldE_invariant [of own "\<lambda>vars. distinct (map fst vars)" add_variable])
    (auto simp: add_variable_def distinct_dict_set elim!: bindE_InrE split: pyval.splits)

lemma distinct_base_variables: "distinct (map fst (base_variables cfg rq sx keys))"
  by (simp add: base_variables_def Let_def)

lemma distinct_session_variables: "session_variables cfg rq sx keys = Inr sx' \<Longrightarrow> distinct (map fst (sx_vars sx'))"
  unfolding session_variables_def Let_def
proof (elim bindE_InrE, simp only: sum.inject)
  fix sx1 sx2 own vars registry
  assume image: "read_image cfg sx1 (base_variables cfg rq sx1 keys) = Inr sx2"
    and own: "foldE add_variable own (sx_vars sx2) = Inr vars"
    and sx': "sx2\<lparr>sx_vars := if registry then dict_update (sx_registry sx2) vars else vars\<rparr> = sx'"
  from image have "distinct (map fst (sx_vars sx2))"
    unfolding read_image_def by (elim bindE_InrE) (auto intro!: distinct_dict_set distinct_base_variables)
  from distinct_add_variables [OF own this] show "distinct (map fst (sx_vars sx'))"
    by (auto simp: sx' [symmetric] intro: distinct_dict_update)
qed

lemma dict_set_new: "k \<notin> fst ` set d \<Longrightarrow> dict_set k v d = d @ [(k, v)]"
  by (induction d) auto

lemma decoded_encoded:
  "mapE encoded_value vars = Inr data \<Longrightarrow> distinct (map fst (before @ vars)) \<Longrightarrow> foldE decoded_variable data before = Inr (before @ vars)"
proof (induction vars arbitrary: data before)
  case (Cons kv vars)
  obtain k v where kv: "kv = (k, v)" by (cases kv)
  with Cons.prems(1) obtain s data' where s: "v = PStr s" "data = (k, PStr (b64encode s)) # data'" "mapE encoded_value vars = Inr data'"
    by (auto simp: encoded_value_def elim!: bindE_InrE split: pyval.splits)
  have "dict_set k v before = before @ [(k, v)]"
    using Cons.prems(2) by (simp add: kv dict_set_new)
  with Cons.IH [OF s(3), of "before @ [(k, v)]"] Cons.prems(2) show ?case
    by (simp add: kv s(1,2) b64decode_encode)
qed simp


text \<open>The sample session on a cluster with a certificate.\<close>

definition certified_config :: operator_config where
  "certified_config = lab_config\<lparr>oc_ingress_secret := PStr ''x.test-tls'',
     oc_images := [(''base-environment'', PStr ''ghcr.io/educates/base:1'')]\<rparr>"

definition lab_details :: "session_details result" where
  "lab_details =
     bindE (identify_session lab_session_request (PStr ''w01'') ready_environment)
       (\<lambda>sx. bindE (bindE (read_workshop certified_config sx) read_namespaces)
          (\<lambda>sx. session_variables certified_config lab_session_request
             (sx\<lparr>sx_services_password := ''p'', sx_config_password := PStr ''q''\<rparr>) (''private'', ''public'')))"

lemma encoded_values: "list_all (\<lambda>kv. case snd kv of PStr s \<Rightarrow> True | _ \<Rightarrow> False) vars \<Longrightarrow> \<exists>data. mapE encoded_value vars = Inr data"
  by (induction vars) (auto simp: encoded_value_def split: pyval.splits)


section \<open>Volumes and mounts\<close>

definition entry_name :: "pyval \<Rightarrow> string list" where
  "entry_name v = (case py_index v ''name'' of Inr (PStr n) \<Rightarrow> [n] | _ \<Rightarrow> [])"

definition entry_names :: "pyval list \<Rightarrow> string set" where
  "entry_names vs = set (concat (map entry_name vs))"

definition mounted :: "pyval \<Rightarrow> string set" where
  "mounted container = (case py_index container ''volumeMounts'' of Inr (PList ms) \<Rightarrow> entry_names ms | _ \<Rightarrow> {})"

lemma entry_names_simps [simp]:
  "entry_names [] = {}" "entry_names (v # vs) = set (entry_name v) \<union> entry_names vs" "entry_names (xs @ ys) = entry_names xs \<union> entry_names ys"
  by (auto simp: entry_names_def)

lemmas pod_parts =
  dashboard_container_def dashboard_mounts_def token_mount_def trust_mount_def data_mounts_def certificates_container_def
  permissions_container_def volume_container_def downloads_container_def ca_volumes_def data_volume_def secrets_volume_def
  docker_container_def docker_volumes_def docker_data_mount_def docker_ca_mount_def compose_container_def compose_volumes_def
  docker_socket_mounts_def registry_mounts_def registry_volumes_def ssh_mount_def ssh_volume_def


end
