(* ===== verification/Environment_Setup.thy ===== *)
theory Environment_Setup
  imports Session_Services
begin

text \<open>
  The set-up of a workshop environment (\<open>workshop_environment_create\<close> in
  \<open>session-manager/handlers/workshopenvironment.py\<close>), up to the services that run in it: the workshop that is
  deployed and the patches of its applications, the namespace with the retries around it, policies, the secret with
  the configuration of the workshop, and the rules that copy secrets into the environment.
\<close>

section \<open>The environment\<close>

text \<open>What the handler was called with; the time since the first attempt is in microseconds.\<close>

record environment_request =
  er_name :: string
  er_uid :: pyval
  er_body :: pyval
  er_meta :: pyval
  er_spec :: pyval
  er_status :: pyval
  er_retry :: int
  er_runtime :: int

text \<open>
  The local variables of the handler. The dictionary of \<open>Applications\<close> is the one in the workshop's
  specification, or a new one if that has none: \<open>we_apart\<close>.
\<close>

record environment_details =
  we_name :: string
  we_uid :: pyval
  we_portal_name :: pyval
  we_portal_uid :: pyval
  we_workshop_name :: pyval
  we_workshop_uid :: pyval
  we_workshop_generation :: pyval
  we_workshop_version :: pyval
  we_spec :: pyval
  we_apart :: "pyval option"
  we_repository :: pyval
  we_image :: pyval
  we_image_policy :: pyval
  we_assets :: string
  we_cache :: string

definition environment_event :: "environment_request \<Rightarrow> string \<Rightarrow> (string \<times> pyval) list" where
  "environment_event rq kind =
     [(''kind'', PStr kind), (''name'', PStr (er_name rq)), (''uid'', er_uid rq), (''retry'', PInt (er_retry rq))]"

definition environment_overdue :: "environment_request \<Rightarrow> bool" where
  "environment_overdue rq \<longleftrightarrow> er_runtime rq \<ge> 300 * 1000000"

definition environment_outcome ::
    "operator_world \<Rightarrow> environment_request \<Rightarrow> string \<Rightarrow> string \<Rightarrow> string \<Rightarrow> string \<Rightarrow> py_error \<Rightarrow> 'a kube" where
  "environment_outcome w rq kind state message event e =
     kube_bind (set_status (educates_status [(''phase'', PStr state), (''message'', PStr message)]))
       (\<lambda>_. kube_bind (report_analytics_event w event (PDict (environment_event rq kind @ [(''message'', PStr message)])))
          (\<lambda>_. kube_raise (Raised e)))"

definition environment_retry :: "operator_world \<Rightarrow> environment_request \<Rightarrow> string \<Rightarrow> string \<Rightarrow> 'a kube" where
  "environment_retry w rq state message =
     environment_outcome w rq ''WorkshopEnvironment'' state message ''Resource/TemporaryError'' (TemporaryError 30)"

definition environment_given_up :: "operator_world \<Rightarrow> environment_request \<Rightarrow> string \<Rightarrow> 'a kube" where
  "environment_given_up w rq message =
     environment_outcome w rq ''WorkshopEnvironment'' ''Failed'' message ''Resource/PermanentError'' PermanentError"

section \<open>The workshop\<close>

definition find_workshop_definition :: "operator_world \<Rightarrow> environment_request \<Rightarrow> pyval \<Rightarrow> pyval kube" where
  "find_workshop_definition w rq workshop_name =
     kube_try (kube_get (ow_api w) ''Workshop'' PNone workshop_name)
       (\<lambda>e. if e = ObjectDoesNotExist then
               (let message = ''Workshop '' @ py_str workshop_name @ '' is not available.''
                in if environment_overdue rq then environment_given_up w rq message
                   else environment_outcome w rq ''TrainingPortal'' ''Pending'' message ''Resource/TemporaryError''
                          (TemporaryError 30))
             else kube_raise e)"

text \<open>
  The annotation is deleted from the definition, of which only the specification is used later; nothing but a
  missing key is passed over.
\<close>

definition drop_last_applied :: "pyval \<Rightarrow> unit result" where
  "drop_last_applied workshop =
     (case py_index workshop ''metadata'' of
        Inl e \<Rightarrow> if e = KeyError then Inr () else Inl e
      | Inr m \<Rightarrow>
          (case py_index m ''annotations'' of
             Inl e \<Rightarrow> if e = KeyError then Inr () else Inl e
           | Inr (PDict d) \<Rightarrow> Inr ()
           | Inr _ \<Rightarrow> Inl TypeError))"

definition identify_environment ::
    "environment_request \<Rightarrow> pyval \<times> pyval \<Rightarrow> pyval \<Rightarrow> pyval \<Rightarrow> environment_details result" where
  "identify_environment rq portal workshop_name workshop =
     bindE (bindE (py_index workshop ''metadata'') (\<lambda>m. py_index m ''uid''))
  (\<lambda>uid. bindE (bindE (py_index workshop ''metadata'') (\<lambda>m. py_index m ''generation''))
  (\<lambda>generation. bindE (py_get_or workshop ''spec'' (PDict []))
  (\<lambda>spec. bindE (py_get_or spec ''version'' (PStr ''latest''))
  (\<lambda>version. bindE (drop_last_applied workshop)
  (\<lambda>_. Inr
     \<lparr>we_name = er_name rq, we_uid = er_uid rq, we_portal_name = fst portal, we_portal_uid = snd portal,
      we_workshop_name = workshop_name, we_workshop_uid = uid, we_workshop_generation = generation,
      we_workshop_version = version, we_spec = spec, we_apart = None, we_repository = PNone, we_image = PNone,
      we_image_policy = PNone, we_assets = [], we_cache = []\<rparr>)))))"

definition parent_portal :: "environment_request \<Rightarrow> (pyval \<times> pyval) result" where
  "parent_portal rq =
     bindE (label_or_empty (er_meta rq) ''training.educates.dev/portal.name'')
       (\<lambda>name. bindE (label_or_empty (er_meta rq) ''training.educates.dev/portal.uid'') (\<lambda>uid. Inr (name, uid)))"

section \<open>Applications\<close>

definition open_applications :: "environment_details \<Rightarrow> environment_details result" where
  "open_applications ed =
     bindE (py_index (we_spec ed) ''session'')
  (\<lambda>session. bindE (py_get_or session ''applications'' (PDict []))
  (\<lambda>_. bindE (py_in (PStr ''applications'') session)
  (\<lambda>given. Inr (ed\<lparr>we_apart := (if given then None else Some (PDict []))\<rparr>))))"

definition current_applications :: "environment_details \<Rightarrow> pyval result" where
  "current_applications ed =
     (case we_apart ed of
        Some c \<Rightarrow> Inr c
      | None \<Rightarrow> bindE (py_index (we_spec ed) ''session'') (\<lambda>s. py_index s ''applications''))"

definition store_applications :: "pyval \<Rightarrow> environment_details \<Rightarrow> environment_details result" where
  "store_applications c ed =
     (case we_apart ed of
        Some _ \<Rightarrow> Inr (ed\<lparr>we_apart := Some c\<rparr>)
      | None \<Rightarrow> bindE (put_path [''session''] ''applications'' c (we_spec ed)) (\<lambda>spec. Inr (ed\<lparr>we_spec := spec\<rparr>)))"

text \<open>\<open>applications.properties(name)\<close> may add an empty dictionary, which is then in the specification that is saved.\<close>

definition environment_properties :: "string \<Rightarrow> environment_details \<Rightarrow> environment_details result" where
  "environment_properties application ed =
     bindE (current_applications ed)
       (\<lambda>c. bindE (application_properties c application) (\<lambda>(_, c). store_applications c ed))"

definition environment_enabled :: "environment_details \<Rightarrow> string \<Rightarrow> bool result" where
  "environment_enabled ed application = bindE (current_applications ed) (\<lambda>c. application_enabled c application)"

definition environment_property ::
    "string \<Rightarrow> string \<Rightarrow> pyval \<Rightarrow> environment_details \<Rightarrow> (pyval \<times> environment_details) result" where
  "environment_property application key dflt ed =
     bindE (current_applications ed)
  (\<lambda>c. bindE (application_property c application key dflt)
  (\<lambda>(v, c). bindE (store_applications c ed) (\<lambda>ed. Inr (v, ed))))"

definition patch_workshop :: "operator_config \<Rightarrow> string \<Rightarrow> environment_details \<Rightarrow> environment_details result" where
  "patch_workshop cfg application ed =
     bindE (environment_enabled ed application)
       (\<lambda>enabled. if \<not> enabled then Inr ed
          else bindE (environment_properties application ed)
         (\<lambda>ed. bindE (workshop_spec_patches cfg application (we_spec ed))
         (\<lambda>patch. bindE (py_get_or patch ''spec'' (PDict []))
         (\<lambda>patch. bindE (overlay ''name'' (we_spec ed) patch)
         (\<lambda>spec. Inr (ed\<lparr>we_spec := spec\<rparr>))))))"

definition patch_applications :: "operator_config \<Rightarrow> environment_details \<Rightarrow> environment_details result" where
  "patch_applications cfg ed =
     bindE (open_applications ed)
       (\<lambda>ed. bindE (foldE (patch_workshop cfg) application_names ed) open_applications)"

definition read_environment :: "operator_world \<Rightarrow> environment_request \<Rightarrow> environment_details kube" where
  "read_environment w rq =
     kube_bind (kube_lift (parent_portal rq))
  (\<lambda>portal. kube_bind (kube_lift (bindE (py_index (er_spec rq) ''workshop'') (\<lambda>v. py_index v ''name'')))
  (\<lambda>workshop_name. kube_bind (find_workshop_definition w rq workshop_name)
  (\<lambda>workshop. kube_lift (bindE (identify_environment rq portal workshop_name workshop) (patch_applications (ow_config w))))))"

section \<open>The namespace\<close>

definition find_environment_namespace :: "operator_world \<Rightarrow> environment_request \<Rightarrow> pyval option kube" where
  "find_environment_namespace w rq =
     kube_try (kube_bind (kube_get (ow_api w) ''Namespace'' PNone (PStr (er_name rq))) (\<lambda>n. kube_return (Some n)))
       (\<lambda>e. if e = ObjectDoesNotExist then kube_return None
             else if is_KubernetesError e then
               environment_retry w rq ''Unknown'' (''Unexpected error querying namespace '' @ er_name rq @ ''.'')
             else kube_raise e)"

definition delete_environment_namespace :: "operator_world \<Rightarrow> environment_request \<Rightarrow> pyval \<Rightarrow> unit kube" where
  "delete_environment_namespace w rq namespace =
     kube_bind
       (kube_try (kube_bind (kube_write (ow_api w) (Delete namespace)) (\<lambda>_. kube_return ()))
          (\<lambda>e. if is_PyKubeError e
                then environment_retry w rq ''Retrying'' (''Failed to delete namespace '' @ er_name rq @ ''.'')
                else kube_raise e))
       (\<lambda>_. environment_retry w rq ''Retrying'' (''Deleting namespace '' @ er_name rq @ '' and retrying.''))"

text \<open>A namespace that is already there ends the attempt in every case.\<close>

definition occupied_namespace :: "operator_world \<Rightarrow> environment_request \<Rightarrow> pyval \<Rightarrow> unit kube" where
  "occupied_namespace w rq namespace =
     kube_bind (kube_lift (resource_owned_by namespace (er_body rq)))
       (\<lambda>owned.
          if \<not> owned then
            (let message = ''Namespace '' @ er_name rq @ '' already exists.''
             in if environment_overdue rq then environment_given_up w rq message
                else environment_retry w rq ''Pending'' message)
          else
            kube_bind (kube_lift (lookup (er_status rq) ''educates.phase'' PNone))
              (\<lambda>state.
                 if \<not> py_eq state (PStr ''Retrying'') then
                   environment_retry w rq ''Unknown''
                     (''Workshop environment '' @ er_name rq @ '' in unexpected state '' @ py_str state @ ''.'')
                 else if environment_overdue rq then
                   environment_given_up w rq (''Unable to setup workshop environment '' @ er_name rq @ ''.'')
                 else delete_environment_namespace w rq namespace))"

definition component_labels :: "string \<Rightarrow> environment_details \<Rightarrow> (string \<times> pyval) list" where
  "component_labels component ed =
     [
       (''training.educates.dev/component'', PStr component),
       (''training.educates.dev/workshop.name'', we_workshop_name ed),
       (''training.educates.dev/portal.name'', we_portal_name ed),
       (''training.educates.dev/portal.uid'', we_portal_uid ed),
       (''training.educates.dev/environment.name'', PStr (we_name ed)),
       (''training.educates.dev/environment.uid'', we_uid ed)]"

abbreviation environment_labels :: "environment_details \<Rightarrow> (string \<times> pyval) list" where
  "environment_labels \<equiv> component_labels ''environment''"

definition environment_policy_labels :: "operator_config \<Rightarrow> (string \<times> pyval) list" where
  "environment_policy_labels cfg =
     [
       (''training.educates.dev/policy.engine'', oc_policy_engine cfg),
       (''training.educates.dev/policy.name'', PStr ''privileged'')]
     @ (if oc_policy_engine cfg = PStr ''pod-security-standards''
        then [(''pod-security.kubernetes.io/enforce'', PStr ''privileged'')] else [])"

definition environment_namespace_body :: "operator_config \<Rightarrow> environment_details \<Rightarrow> pyval" where
  "environment_namespace_body cfg ed =
     PDict [
       (''apiVersion'', PStr ''v1''),
       (''kind'', PStr ''Namespace''),
       (''metadata'', PDict [
         (''name'', PStr (we_name ed)),
         (''labels'', PDict (environment_labels ed @ environment_policy_labels cfg)),
         (''annotations'', PDict [(''secretgen.carvel.dev/excluded-from-wildcard-matching'', PStr [])])])]"

text \<open>What is raised here is not reported to the analytics.\<close>

definition create_environment_namespace ::
    "operator_world \<Rightarrow> environment_request \<Rightarrow> environment_details \<Rightarrow> pyval kube" where
  "create_environment_namespace w rq ed =
     kube_try
       (kube_bind (create_object w (ow_adopt w (environment_namespace_body (ow_config w) ed) (er_body rq)))
          (\<lambda>_. kube_get (ow_api w) ''Namespace'' PNone (PStr (we_name ed))))
       (\<lambda>e. if is_PyKubeError e
             then kube_bind (set_status (educates_status
                    [(''phase'', PStr ''Retrying''), (''message'', PStr (''Failed to create namespace '' @ we_name ed @ ''.''))]))
                  (\<lambda>_. kube_raise (Raised (TemporaryError 30)))
             else kube_raise e)"

section \<open>Policies\<close>

definition environment_policy_binding :: "string \<Rightarrow> environment_details \<Rightarrow> pyval" where
  "environment_policy_binding role ed =
     PDict [
       (''apiVersion'', PStr ''rbac.authorization.k8s.io/v1''),
       (''kind'', PStr ''RoleBinding''),
       (''metadata'', PDict [
         (''name'', PStr ''educates-security-policy''),
         (''namespace'', PStr (we_name ed)),
         (''labels'', PDict (environment_labels ed))]),
       (''roleRef'', PDict [
         (''apiGroup'', PStr ''rbac.authorization.k8s.io''),
         (''kind'', PStr ''ClusterRole''),
         (''name'', PStr role)]),
       (''subjects'', PList [
         PDict [
           (''apiGroup'', PStr ''rbac.authorization.k8s.io''),
           (''kind'', PStr ''Group''),
           (''name'', PStr (''system:serviceaccounts:'' @ we_name ed))]])]"

definition environment_psp_binding :: "environment_details \<Rightarrow> pyval" where
  "environment_psp_binding = environment_policy_binding ''educates-privileged-psp''"

definition environment_scc_binding :: "environment_details \<Rightarrow> pyval" where
  "environment_scc_binding = environment_policy_binding ''educates-privileged-scc''"

definition create_owned :: "operator_world \<Rightarrow> pyval \<Rightarrow> pyval \<Rightarrow> unit kube" where
  "create_owned w namespace obj = kube_bind (create_object w (ow_adopt w obj namespace)) (\<lambda>_. kube_return ())"

definition environment_policy :: "operator_world \<Rightarrow> environment_details \<Rightarrow> pyval \<Rightarrow> unit kube" where
  "environment_policy w ed namespace =
     kube_bind (if oc_policy_engine (ow_config w) = PStr ''pod-security-policies''
                then create_owned w namespace (environment_psp_binding ed) else kube_return ())
       (\<lambda>_. if oc_policy_engine (ow_config w) = PStr ''security-context-constraints''
             then create_owned w namespace (environment_scc_binding ed) else kube_return ())"

definition environment_network_body :: "environment_details \<Rightarrow> pyval list \<Rightarrow> pyval" where
  "environment_network_body ed egress =
     PDict [
       (''apiVersion'', PStr ''networking.k8s.io/v1''),
       (''kind'', PStr ''NetworkPolicy''),
       (''metadata'', PDict [
         (''name'', PStr ''educates-network-policy''),
         (''namespace'', PStr (we_name ed)),
         (''labels'', PDict (environment_labels ed))]),
       (''spec'', PDict [(''policyTypes'', PList [PStr ''Egress'']), (''egress'', PList egress)])]"

definition restrict_network :: "operator_world \<Rightarrow> environment_details \<Rightarrow> pyval \<Rightarrow> unit kube" where
  "restrict_network w ed namespace =
     (if \<not> truthy (oc_block_cidrs (ow_config w)) then kube_return ()
      else
        kube_bind (kube_lift (py_iter (oc_block_cidrs (ow_config w))))
          (\<lambda>blocks. kube_bind (kube_lift (filterE is_ipv6_block blocks))
          (\<lambda>ipv6. kube_bind (kube_lift (filterE (\<lambda>b. bindE (is_ipv6_block b) (\<lambda>v6. Inr (\<not> v6))) blocks))
          (\<lambda>ipv4. create_owned w namespace (environment_network_body ed (block_egress ipv4 ipv6))))))"

section \<open>The configuration of the workshop\<close>

text \<open>\<open>applications_config.get(application, {}).pop(key, None)\<close> on a copy of the applications.\<close>

definition hide_setting :: "string \<Rightarrow> string \<Rightarrow> pyval \<Rightarrow> pyval result" where
  "hide_setting application key applications =
     bindE (py_get_or applications application (PDict []))
       (\<lambda>s. case (applications, s) of
              (PDict a, PDict d) \<Rightarrow>
                Inr (if dict_get a application = None then applications
                     else PDict (dict_set application (PDict (dict_pop key d)) a))
            | (_, PList _) \<Rightarrow> Inl TypeError
            | _ \<Rightarrow> Inl AttributeError)"

definition public_applications :: "pyval \<Rightarrow> pyval result" where
  "public_applications spec =
     bindE (get_under spec [''session''] ''applications'' (PDict []))
       (\<lambda>applications. bindE (hide_setting ''docker'' ''compose'' applications) (hide_setting ''vcluster'' ''objects''))"

definition public_configuration :: "pyval \<Rightarrow> pyval result" where
  "public_configuration spec =
     bindE (public_applications spec)
  (\<lambda>applications. bindE (py_get_or spec ''title'' (PStr []))
  (\<lambda>title. bindE (py_get_or spec ''description'' (PStr []))
  (\<lambda>description. bindE (py_get_or spec ''version'' (PStr ''latest''))
  (\<lambda>version. bindE (get_under spec [''session''] ''ingresses'' (PList []))
  (\<lambda>ingresses. bindE (get_under spec [''session''] ''dashboards'' (PList []))
  (\<lambda>dashboards. Inr
     (PDict [
       (''spec'', PDict [
         (''title'', title),
         (''description'', description),
         (''version'', version),
         (''session'', PDict [
           (''applications'', applications),
           (''ingresses'', ingresses),
           (''dashboards'', dashboards)])])])))))))"

definition environment_repository :: "operator_config \<Rightarrow> pyval \<Rightarrow> pyval result" where
  "environment_repository cfg spec =
     bindE (lookup spec ''registry.host'' PNone)
  (\<lambda>host. bindE (lookup spec ''registry.namespace'' PNone)
  (\<lambda>namespace. Inr (if \<not> truthy host then oc_image_repository cfg
                     else if truthy namespace then PStr (py_str host @ ''/'' @ py_str namespace) else host)))"

definition environment_image :: "operator_config \<Rightarrow> pyval \<Rightarrow> pyval result" where
  "environment_image cfg spec =
     bindE (py_get_or spec ''workshop'' (PDict []))
  (\<lambda>workshop. bindE (get_under spec [''content''] ''image'' (PStr ''base-environment:*''))
  (\<lambda>content. bindE (py_get_or workshop ''image'' content) (resolve_workshop_image cfg)))"

definition environment_host :: "operator_config \<Rightarrow> environment_details \<Rightarrow> string \<Rightarrow> string \<Rightarrow> string \<Rightarrow> string result" where
  "environment_host cfg ed setting internal external =
     bindE (lookup (we_spec ed) setting (PBool False))
       (\<lambda>ingress. Inr (if truthy ingress then external @ ''-'' @ we_name ed @ ''.'' @ py_str (oc_ingress_domain cfg)
                         else internal @ ''.'' @ we_name ed @ ''.svc.'' @ oc_cluster_domain cfg))"

definition read_images :: "operator_config \<Rightarrow> environment_request \<Rightarrow> environment_details \<Rightarrow> environment_details result" where
  "read_images cfg rq ed =
     bindE (environment_repository cfg (er_spec rq))
  (\<lambda>repository. bindE (pull_policy (config_image cfg ''base-environment''))
  (\<lambda>_. bindE (environment_image cfg (we_spec ed))
  (\<lambda>img. bindE (pull_policy img)
  (\<lambda>policy. bindE (environment_host cfg ed ''environment.assets.ingress.enabled'' ''assets-server'' ''assets'')
  (\<lambda>assets. bindE (environment_host cfg ed ''environment.images.ingress.enabled'' ''image-cache'' ''images'')
  (\<lambda>cache. Inr (ed\<lparr>we_repository := repository, we_image := img, we_image_policy := policy, we_assets := assets,
                    we_cache := cache\<rparr>)))))))"

definition ingress_port :: "operator_config \<Rightarrow> string" where
  "ingress_port cfg = (if oc_ingress_protocol cfg = PStr ''https'' then ''443'' else ''80'')"

definition download_variables :: "operator_config \<Rightarrow> environment_details \<Rightarrow> (string \<times> pyval) list" where
  "download_variables cfg ed =
     (let port = ingress_port cfg in [
       (''platform_arch'', oc_platform_arch cfg),
       (''image_repository'', we_repository ed),
       (''oci_image_cache'', PStr (we_cache ed)),
       (''assets_repository'', PStr (we_assets ed)),
       (''workshop_name'', we_workshop_name ed),
       (''workshop_version'', we_workshop_version ed),
       (''environment_name'', PStr (we_name ed)),
       (''workshop_namespace'', PStr (we_name ed)),
       (''cluster_domain'', PStr (oc_cluster_domain cfg)),
       (''ingress_domain'', oc_ingress_domain cfg),
       (''ingress_protocol'', oc_ingress_protocol cfg),
       (''ingress_port'', PStr port),
       (''ingress_port_suffix'', PStr []),
       (''training_portal'', we_portal_name ed)])"

section \<open>Files of the workshop\<close>

text \<open>\<open>os.path.join\<close> with a base that does not end in a slash, and \<open>os.path.normpath\<close>.\<close>

definition path_join :: "string \<Rightarrow> string \<Rightarrow> string" where
  "path_join base path = (if startswith path ''/'' then path else base @ ''/'' @ path)"

text \<open>The components so far, last first; above the root there is only the root.\<close>

definition path_step :: "bool \<Rightarrow> string \<Rightarrow> string list \<Rightarrow> string list" where
  "path_step rooted part parts =
     (if part = [] \<or> part = ''.'' then parts
      else if part \<noteq> ''..'' \<or> (\<not> rooted \<and> parts = []) \<or> (parts \<noteq> [] \<and> hd parts = ''..'') then part # parts
      else tl parts)"

definition path_slashes :: "string \<Rightarrow> nat" where
  "path_slashes path =
     (if \<not> startswith path ''/'' then 0 else if startswith path ''//'' \<and> \<not> startswith path ''///'' then 2 else 1)"

definition normpath :: "string \<Rightarrow> string" where
  "normpath path =
     (let parts = rev (fold (path_step (path_slashes path > 0)) (split_on CHR ''/'' path) []);
          normal = replicate (path_slashes path) CHR ''/'' @ (if parts = [] then [] else join_with CHR ''/'' parts)
      in if normal = [] then ''.'' else normal)"

definition assets_path :: "pyval \<Rightarrow> string result" where
  "assets_path path = (case path of PStr p \<Rightarrow> Inr (normpath (path_join ''/opt/assets/files'' p)) | _ \<Rightarrow> Inl TypeError)"

definition vendir_config :: "pyval list \<Rightarrow> pyval" where
  "vendir_config directories =
     PDict [
       (''apiVersion'', PStr ''vendir.k14s.io/v1alpha1''),
       (''kind'', PStr ''Config''),
       (''directories'', PList directories)]"

definition files_config :: "(string \<times> pyval) list \<Rightarrow> pyval \<Rightarrow> pyval result" where
  "files_config vars item =
     bindE (substituted vars item)
       (\<lambda>item. case item of
          PDict d \<Rightarrow>
            bindE (assets_path (case dict_get d ''path'' of None \<Rightarrow> PStr ''.'' | Some p \<Rightarrow> p))
              (\<lambda>path. Inr (vendir_config [PDict [
                 (''path'', PStr path), (''contents'', PList [PDict (dict_set ''path'' (PStr ''.'') (dict_pop ''path'' d))])]]))
        | PList _ \<Rightarrow> Inl TypeError
        | _ \<Rightarrow> Inl AttributeError)"

definition two_digits :: "nat \<Rightarrow> string" where
  "two_digits n = (if n < 10 then ''0'' @ show_nat n else show_nat n)"

definition assets_entry :: "nat \<times> string \<Rightarrow> string \<times> pyval" where
  "assets_entry = (\<lambda>(n, text). (''vendir-assets-'' @ two_digits n @ ''.yaml'', PStr text))"

definition numbered_files :: "operator_world \<Rightarrow> (string \<times> pyval) list \<Rightarrow> pyval list \<Rightarrow> (nat \<times> string) list result" where
  "numbered_files w vars items =
     bindE (mapE (files_config vars) items)
       (\<lambda>configs. Inr (zip [1..<length configs + 1] (map (ow_yaml w) configs)))"

definition package_directory :: "(string \<times> pyval) list \<Rightarrow> pyval \<Rightarrow> pyval result" where
  "package_directory vars package =
     bindE (py_index package ''name'')
  (\<lambda>name. bindE (bindE (py_index package ''files'') (substituted vars))
  (\<lambda>files. Inr (PDict [(''path'', PStr (''/opt/packages/'' @ py_str name)), (''contents'', files)])))"

definition listed_items :: "pyval \<Rightarrow> pyval list result" where
  "listed_items v = (if truthy v then py_iter v else Inr [])"

definition packages_entry :: "operator_world \<Rightarrow> (string \<times> pyval) list \<Rightarrow> pyval list \<Rightarrow> (string \<times> pyval) list result" where
  "packages_entry w vars packages =
     (if packages = [] then Inr []
      else bindE (mapE (package_directory vars) packages)
             (\<lambda>dirs. Inr [(''vendir-packages.yaml'', PStr (b64encode (ow_yaml w (vendir_config dirs))))]))"

definition workshop_config_secret :: "environment_details \<Rightarrow> (string \<times> pyval) list \<Rightarrow> pyval" where
  "workshop_config_secret ed data =
     PDict [
       (''apiVersion'', PStr ''v1''),
       (''kind'', PStr ''Secret''),
       (''metadata'', PDict [
         (''name'', PStr ''workshop-config''),
         (''namespace'', PStr (we_name ed)),
         (''labels'', PDict (environment_labels ed))]),
       (''data'', PDict data)]"

definition workshop_config_data ::
    "operator_world \<Rightarrow> pyval \<Rightarrow> environment_details \<Rightarrow> (string \<times> pyval) list result" where
  "workshop_config_data w configuration ed =
     (let vars = download_variables (ow_config w) ed
      in bindE (bindE (get_under (we_spec ed) [''workshop''] ''files'' (PList [])) listed_items)
    (\<lambda>files. bindE (numbered_files w vars files)
    (\<lambda>numbered. bindE (bindE (get_under (we_spec ed) [''workshop''] ''packages'' (PList [])) listed_items)
    (\<lambda>packages. bindE (packages_entry w vars packages)
    (\<lambda>packages. Inr ((''workshop.yaml'', PStr (b64encode (ow_yaml w configuration)))
                     # map (\<lambda>(n, text). assets_entry (n, b64encode text)) numbered @ packages))))))"

definition save_configuration :: "operator_world \<Rightarrow> environment_request \<Rightarrow> environment_details \<Rightarrow> pyval \<Rightarrow> environment_details kube" where
  "save_configuration w rq ed namespace =
     kube_bind (kube_lift (public_configuration (we_spec ed)))
  (\<lambda>configuration. kube_bind (kube_lift (read_images (ow_config w) rq ed))
  (\<lambda>ed. kube_bind (kube_lift (workshop_config_data w configuration ed))
  (\<lambda>data. kube_bind (create_owned w namespace (workshop_config_secret ed data))
  (\<lambda>_. kube_return ed))))"

section \<open>Secrets that are copied\<close>

definition web_console_role :: "environment_details \<Rightarrow> pyval" where
  "web_console_role ed =
     PDict [
       (''apiVersion'', PStr ''rbac.authorization.k8s.io/v1''),
       (''kind'', PStr ''ClusterRole''),
       (''metadata'', PDict [
         (''name'', PStr (''educates-web-console-'' @ we_name ed)),
         (''labels'', PDict (environment_labels ed))]),
       (''rules'', PList [
         PDict [
           (''apiGroups'', PList [PStr []]),
           (''resources'', PList [PStr ''namespaces'']),
           (''verbs'', PList [PStr ''get'', PStr ''list'', PStr ''watch''])]])]"

definition environment_copier :: "string \<Rightarrow> environment_details \<Rightarrow> pyval list \<Rightarrow> pyval" where
  "environment_copier stem ed rules =
     PDict [
       (''apiVersion'', PStr ''secrets.educates.dev/v1beta1''),
       (''kind'', PStr ''SecretCopier''),
       (''metadata'', PDict [(''name'', PStr (stem @ we_name ed)), (''labels'', PDict (environment_labels ed))]),
       (''spec'', PDict [(''rules'', PList rules)])]"

definition ingress_secret_rule :: "operator_config \<Rightarrow> environment_details \<Rightarrow> pyval \<Rightarrow> pyval" where
  "ingress_secret_rule cfg ed secret =
     PDict [
       (''sourceSecret'', PDict [(''name'', secret), (''namespace'', oc_namespace cfg)]),
       (''targetNamespaces'', PDict [(''nameSelector'', PDict [(''matchNames'', PList [PStr (we_name ed)])])]),
       (''reclaimPolicy'', PStr ''Delete'')]"

definition ingress_secret_copier :: "operator_config \<Rightarrow> environment_details \<Rightarrow> pyval" where
  "ingress_secret_copier cfg ed =
     (let ca = oc_ingress_ca_secret cfg
      in environment_copier ''educates-ingress-secret-'' ed
           (ingress_secret_rule cfg ed (oc_ingress_secret cfg) # (if truthy ca then [ingress_secret_rule cfg ed ca] else [])))"

definition copy_ingress_secrets :: "operator_world \<Rightarrow> environment_details \<Rightarrow> pyval \<Rightarrow> unit kube" where
  "copy_ingress_secrets w ed namespace =
     (if \<not> truthy (oc_ingress_secret (ow_config w)) then kube_return ()
      else create_owned w namespace (ingress_secret_copier (ow_config w) ed))"

definition theme_secret_rule :: "operator_config \<Rightarrow> environment_details \<Rightarrow> pyval \<Rightarrow> pyval" where
  "theme_secret_rule cfg ed theme =
     PDict [
       (''sourceSecret'', PDict [(''name'', theme), (''namespace'', oc_namespace cfg)]),
       (''targetNamespaces'', PDict [(''nameSelector'', PDict [(''matchNames'', PList [PStr (we_name ed)])])]),
       (''targetSecret'', PDict [(''name'', PStr ''workshop-theme'')])]"

definition copied_secret_rule :: "environment_details \<Rightarrow> string \<Rightarrow> pyval \<Rightarrow> pyval \<Rightarrow> pyval" where
  "copied_secret_rule ed secret_name secret_namespace secret_labels =
     PDict [
       (''sourceSecret'', PDict [(''name'', PStr secret_name), (''namespace'', secret_namespace)]),
       (''targetNamespaces'', PDict [(''nameSelector'', PDict [(''matchNames'', PList [PStr (we_name ed)])])]),
       (''targetSecret'', PDict [(''labels'', secret_labels)]),
       (''reclaimPolicy'', PStr ''Delete'')]"

definition named_for_workshop :: "pyval \<Rightarrow> pyval \<Rightarrow> string result" where
  "named_for_workshop workshop_name secret =
     (case (secret, workshop_name) of
        (PStr s, PStr n) \<Rightarrow> Inr (replace_str ''$(workshop_name)'' n s)
      | (PStr s, _) \<Rightarrow> Inl TypeError
      | _ \<Rightarrow> Inl AttributeError)"

definition secret_rule :: "environment_details \<Rightarrow> pyval \<Rightarrow> pyval result" where
  "secret_rule ed item =
     bindE (py_index item ''name'')
  (\<lambda>name. bindE (py_index item ''namespace'')
  (\<lambda>namespace. bindE (py_get_or item ''labels'' (PDict []))
  (\<lambda>labels. bindE (named_for_workshop (we_workshop_name ed) name)
  (\<lambda>name. Inr (copied_secret_rule ed name namespace labels)))))"

definition copy_listed_secrets ::
    "operator_world \<Rightarrow> environment_details \<Rightarrow> pyval \<Rightarrow> string \<Rightarrow> pyval \<Rightarrow> unit kube" where
  "copy_listed_secrets w ed namespace stem spec =
     kube_bind (kube_lift (bindE (py_get_or spec ''environment'' (PDict [])) (\<lambda>e. py_get e ''secrets'')))
       (\<lambda>secrets. if \<not> truthy secrets then kube_return ()
          else kube_bind (kube_lift (bindE (py_iter secrets) (mapE (secret_rule ed))))
                 (\<lambda>rules. create_owned w namespace (environment_copier stem ed rules)))"

definition copy_workshop_secrets :: "operator_world \<Rightarrow> environment_details \<Rightarrow> pyval \<Rightarrow> unit kube" where
  "copy_workshop_secrets w ed namespace = copy_listed_secrets w ed namespace ''educates-workshop-secrets-'' (we_spec ed)"

definition copy_environment_secrets :: "operator_world \<Rightarrow> environment_request \<Rightarrow> environment_details \<Rightarrow> pyval \<Rightarrow> unit kube" where
  "copy_environment_secrets w rq ed namespace =
     copy_listed_secrets w ed namespace ''educates-environment-secrets-'' (er_spec rq)"

definition theme_secret_copier :: "operator_config \<Rightarrow> environment_details \<Rightarrow> pyval \<Rightarrow> pyval" where
  "theme_secret_copier cfg ed theme = environment_copier ''educates-website-theme-'' ed [theme_secret_rule cfg ed theme]"

definition copy_theme :: "operator_world \<Rightarrow> environment_request \<Rightarrow> environment_details \<Rightarrow> pyval \<Rightarrow> unit kube" where
  "copy_theme w rq ed namespace =
     kube_bind (kube_lift (lookup (er_spec rq) ''theme.name'' (PStr ''default-website-theme'')))
       (\<lambda>theme. create_owned w namespace (theme_secret_copier (ow_config w) ed theme))"

section \<open>Variables\<close>

definition environment_variables ::
    "operator_config \<Rightarrow> environment_details \<Rightarrow> pyval \<Rightarrow> (string \<times> pyval) list" where
  "environment_variables cfg ed token =
     (let port = ingress_port cfg in [
       (''workshop_environment_uid'', we_uid ed),
       (''platform_arch'', oc_platform_arch cfg),
       (''image_repository'', we_repository ed),
       (''oci_image_cache'', PStr (we_cache ed)),
       (''assets_repository'', PStr (we_assets ed)),
       (''service_account'', PStr ''educates-services''),
       (''workshop_name'', we_workshop_name ed),
       (''workshop_version'', we_workshop_version ed),
       (''workshop_image'', we_image ed),
       (''workshop_image_pull_policy'', we_image_policy ed),
       (''environment_name'', PStr (we_name ed)),
       (''environment_token'', token),
       (''workshop_namespace'', PStr (we_name ed)),
       (''cluster_domain'', PStr (oc_cluster_domain cfg)),
       (''ingress_domain'', oc_ingress_domain cfg),
       (''ingress_protocol'', oc_ingress_protocol cfg),
       (''ingress_port'', PStr port),
       (''ingress_port_suffix'', PStr []),
       (''ingress_secret'', oc_ingress_secret cfg),
       (''ingress_class'', oc_ingress_class cfg),
       (''storage_class'', oc_storage_class cfg),
       (''training_portal'', we_portal_name ed)])"

text \<open>The name of a variable is a string by the schema of the resource.\<close>

definition define_variable :: "pyval \<Rightarrow> (string \<times> pyval) list \<Rightarrow> (string \<times> pyval) list result" where
  "define_variable variable vars =
     bindE (py_index variable ''value'')
       (\<lambda>v. bindE (py_index variable ''name'')
          (\<lambda>name. case name of PStr k \<Rightarrow> Inr (dict_set k v vars) | _ \<Rightarrow> Inl TypeError))"

definition read_variables ::
    "operator_config \<Rightarrow> environment_request \<Rightarrow> environment_details \<Rightarrow> (string \<times> pyval) list result" where
  "read_variables cfg rq ed =
     bindE (get_under (er_spec rq) [''request''] ''token'' (PStr []))
  (\<lambda>token. let vars = environment_variables cfg ed token
   in bindE (get_under (we_spec ed) [''environment''] ''variables'' (PList []))
  (\<lambda>own. bindE (bindE (substituted vars own) py_iter)
  (\<lambda>own. foldE define_variable own vars)))"

definition services_account :: "environment_details \<Rightarrow> pyval" where
  "services_account ed =
     PDict [
       (''apiVersion'', PStr ''v1''),
       (''kind'', PStr ''ServiceAccount''),
       (''metadata'', PDict [
         (''name'', PStr ''educates-services''),
         (''namespace'', PStr (we_name ed)),
         (''labels'', PDict (environment_labels ed))])]"

end
