(* ===== verification/Environment_Services.thy ===== *)
theory Environment_Services
  imports Environment_Setup
begin

text \<open>
  The services that run in a workshop environment (\<open>workshop_environment_create\<close> in
  \<open>session-manager/handlers/workshopenvironment.py\<close>): the mirror for images of Docker, the cache for images of the
  workshop, the server for its files, and the tunnel for SSH.
\<close>

section \<open>Common parts\<close>

definition create_with_variables :: "operator_world \<Rightarrow> (string \<times> pyval) list \<Rightarrow> pyval \<Rightarrow> pyval \<Rightarrow> unit kube" where
  "create_with_variables w vars namespace obj =
     kube_bind (kube_lift (substituted vars obj)) (create_owned w namespace)"

definition volume_permissions :: "operator_config \<Rightarrow> pyval \<Rightarrow> pyval \<Rightarrow> pyval" where
  "volume_permissions cfg img pull =
     PDict [
       (''name'', PStr ''storage-permissions-initialization''),
       (''image'', img),
       (''imagePullPolicy'', pull),
       (''securityContext'', PDict [
         (''allowPrivilegeEscalation'', PBool False),
         (''capabilities'', PDict [(''drop'', PList [PStr ''ALL''])]),
         (''runAsNonRoot'', PBool False),
         (''runAsUser'', PInt 0)]),
       (''command'', PList [PStr ''/bin/sh'', PStr ''-c'']),
       (''args'', PList [
         PStr (''chown '' @ py_str (oc_storage_user cfg) @ '':'' @ py_str (oc_storage_group cfg) @ '' /mnt && chmod og+rwx /mnt'')]),
       (''volumeMounts'', PList [PDict [(''name'', PStr ''data''), (''mountPath'', PStr ''/mnt'')]])]"

definition service_claim :: "operator_config \<Rightarrow> environment_details \<Rightarrow> string \<Rightarrow> pyval \<Rightarrow> pyval" where
  "service_claim cfg ed name storage =
     PDict [
       (''apiVersion'', PStr ''v1''),
       (''kind'', PStr ''PersistentVolumeClaim''),
       (''metadata'', PDict [
         (''namespace'', PStr (we_name ed)),
         (''name'', PStr name),
         (''labels'', PDict (environment_labels ed))]),
       (''spec'', PDict (claim_spec cfg storage))]"

definition service_config_map :: "environment_details \<Rightarrow> string \<Rightarrow> (string \<times> pyval) list \<Rightarrow> pyval" where
  "service_config_map ed name data =
     PDict [
       (''apiVersion'', PStr ''v1''),
       (''kind'', PStr ''ConfigMap''),
       (''metadata'', PDict [
         (''name'', PStr name),
         (''namespace'', PStr (we_name ed)),
         (''labels'', PDict (environment_labels ed))]),
       (''data'', PDict data)]"

definition service_host :: "operator_config \<Rightarrow> environment_details \<Rightarrow> string \<Rightarrow> string" where
  "service_host cfg ed stem = stem @ ''-'' @ we_name ed @ ''.'' @ py_str (oc_ingress_domain cfg)"

definition service_ingress :: "operator_config \<Rightarrow> environment_details \<Rightarrow> string \<Rightarrow> string \<Rightarrow> pyval" where
  "service_ingress cfg ed name host =
     PDict [
       (''apiVersion'', PStr ''networking.k8s.io/v1''),
       (''kind'', PStr ''Ingress''),
       (''metadata'', PDict [
         (''name'', PStr name),
         (''namespace'', PStr (we_name ed)),
         (''annotations'', PDict (tls_annotations cfg)),
         (''labels'', PDict (component_labels ''session'' ed))]),
       (''spec'', PDict ([(''rules'', PList [ingress_path (PStr host) ''/'' name 80])] @ tls_entry cfg [host]))]"

text \<open>\<open>deployment["spec"]["template"]["spec"][...]\<close>.\<close>

definition pod_spec_path :: "string list" where
  "pod_spec_path = [''spec'', ''template'', ''spec'']"

definition list_prepend :: "pyval \<Rightarrow> pyval \<Rightarrow> pyval result" where
  "list_prepend x = on_list (\<lambda>xs. Inr (x # xs))"

definition claimed_volume :: "string \<Rightarrow> pyval" where
  "claimed_volume name =
     PDict [(''name'', PStr ''data''), (''persistentVolumeClaim'', PDict [(''claimName'', PStr name)])]"

definition empty_volume :: pyval where
  "empty_volume = PDict [(''name'', PStr ''data''), (''emptyDir'', PDict [])]"

text \<open>
  The volume of the image cache and of the server for files: a claim if storage is asked for, with a container
  before the others that sets its permissions where the cluster needs that, or a directory of the pod.
\<close>

definition with_storage ::
    "operator_config \<Rightarrow> environment_details \<Rightarrow> string \<Rightarrow> pyval \<Rightarrow> pyval \<Rightarrow> pyval \<Rightarrow> (pyval list \<times> pyval) result" where
  "with_storage cfg ed name storage base_pull deployment =
     (if truthy storage then
        bindE (if truthy (oc_storage_user cfg)
               then change_path (pod_spec_path @ [''initContainers''])
                      (list_prepend (volume_permissions cfg (config_image cfg ''base-environment'') base_pull)) deployment
               else Inr deployment)
          (\<lambda>deployment. bindE (change_path (pod_spec_path @ [''volumes'']) (list_append (claimed_volume name)) deployment)
             (\<lambda>deployment. Inr ([service_claim cfg ed name storage], deployment)))
      else
        bindE (change_path (pod_spec_path @ [''volumes'']) (list_append empty_volume) deployment)
          (\<lambda>deployment. Inr ([], deployment)))"

section \<open>The mirror of an image registry\<close>

definition mirror_claim :: "operator_config \<Rightarrow> environment_details \<Rightarrow> pyval \<Rightarrow> pyval" where
  "mirror_claim cfg ed storage =
     PDict [
       (''apiVersion'', PStr ''v1''),
       (''kind'', PStr ''PersistentVolumeClaim''),
       (''metadata'', PDict [
         (''namespace'', PStr (we_name ed)),
         (''name'', PStr (we_name ed @ ''-mirror'')),
         (''labels'', PDict (environment_labels ed))]),
       (''spec'', PDict (claim_spec cfg storage))]"

definition mirror_container :: "operator_config \<Rightarrow> pyval \<Rightarrow> pyval \<Rightarrow> pyval" where
  "mirror_container cfg pull memory =
     PDict [
       (''name'', PStr ''registry''),
       (''image'', config_image cfg ''docker-registry''),
       (''imagePullPolicy'', pull),
       (''securityContext'', PDict [
         (''allowPrivilegeEscalation'', PBool False),
         (''capabilities'', PDict [(''drop'', PList [PStr ''ALL''])]),
         (''runAsNonRoot'', PBool True)]),
       (''resources'', PDict [
         (''limits'', PDict [(''memory'', memory)]),
         (''requests'', PDict [(''memory'', memory)])]),
       (''ports'', PList [PDict [(''containerPort'', PInt 5000), (''protocol'', PStr ''TCP'')]]),
       (''env'', PList [
         PDict [(''name'', PStr ''REGISTRY_STORAGE_DELETE_ENABLED''), (''value'', PStr ''true'')],
         PDict [(''name'', PStr ''REGISTRY_PROXY_REMOTEURL''), (''value'', oc_mirror_remote cfg)],
         PDict [(''name'', PStr ''REGISTRY_PROXY_USERNAME''), (''value'', oc_mirror_username cfg)],
         PDict [(''name'', PStr ''REGISTRY_PROXY_PASSWORD''), (''value'', oc_mirror_password cfg)]]),
       (''volumeMounts'', PList [PDict [(''name'', PStr ''data''), (''mountPath'', PStr ''/var/lib/registry'')]])]"

definition mirror_deployment :: "operator_config \<Rightarrow> environment_details \<Rightarrow> pyval \<Rightarrow> pyval \<Rightarrow> pyval" where
  "mirror_deployment cfg ed pull memory =
     PDict [
       (''apiVersion'', PStr ''apps/v1''),
       (''kind'', PStr ''Deployment''),
       (''metadata'', PDict [
         (''namespace'', PStr (we_name ed)),
         (''name'', PStr (we_name ed @ ''-mirror'')),
         (''labels'', PDict (environment_labels ed @ [(''training.educates.dev/environment.services.mirror'', PStr ''true'')]))]),
       (''spec'', PDict [
         (''replicas'', PInt 1),
         (''selector'', PDict [(''matchLabels'', PDict [(''deployment'', PStr (we_name ed @ ''-mirror''))])]),
         (''strategy'', PDict [(''type'', PStr ''Recreate'')]),
         (''template'', PDict [
           (''metadata'', PDict [
             (''labels'', PDict ((''deployment'', PStr (we_name ed @ ''-mirror'')) # environment_labels ed @ [(''training.educates.dev/environment.services.mirror'', PStr ''true'')]))]),
           (''spec'', PDict [
             (''serviceAccountName'', PStr ''educates-services''),
             (''initContainers'', PList []),
             (''containers'', PList [mirror_container cfg pull memory]),
             (''securityContext'', PDict [
               (''runAsUser'', PInt 1000),
               (''fsGroup'', oc_storage_group cfg),
               (''supplementalGroups'', PList [oc_storage_group cfg])]),
             (''volumes'', PList [
               PDict [
                 (''name'', PStr ''data''),
                 (''persistentVolumeClaim'', PDict [(''claimName'', PStr (we_name ed @ ''-mirror''))])]])])])])]"

definition mirror_service :: "environment_details \<Rightarrow> pyval" where
  "mirror_service ed =
     PDict [
       (''apiVersion'', PStr ''v1''),
       (''kind'', PStr ''Service''),
       (''metadata'', PDict [
         (''namespace'', PStr (we_name ed)),
         (''name'', PStr (we_name ed @ ''-mirror'')),
         (''labels'', PDict (environment_labels ed))]),
       (''spec'', PDict [
         (''type'', PStr ''ClusterIP''),
         (''ports'', PList [PDict [(''port'', PInt 5000), (''targetPort'', PInt 5000)]]),
         (''selector'', PDict [(''deployment'', PStr (we_name ed @ ''-mirror''))])])]"

definition mirror_objects :: "operator_config \<Rightarrow> environment_details \<Rightarrow> pyval \<Rightarrow> pyval \<Rightarrow> pyval list result" where
  "mirror_objects cfg ed memory storage =
     bindE (pull_policy (config_image cfg ''docker-registry''))
       (\<lambda>pull. bindE (if truthy (oc_storage_user cfg)
                        then put_path pod_spec_path ''initContainers''
                               (PList [volume_permissions cfg (config_image cfg ''docker-registry'') pull]) (mirror_deployment cfg ed pull memory)
                        else Inr (mirror_deployment cfg ed pull memory))
          (\<lambda>deployment. Inr [mirror_claim cfg ed storage, deployment, mirror_service ed]))"

text \<open>The memory is that of the registry application, the storage that of Docker.\<close>

definition deploy_mirror ::
    "operator_world \<Rightarrow> (string \<times> pyval) list \<Rightarrow> pyval \<Rightarrow> environment_details \<Rightarrow> environment_details kube" where
  "deploy_mirror w vars namespace ed =
     kube_bind (kube_lift (environment_enabled ed ''docker''))
       (\<lambda>docker. if \<not> docker \<or> \<not> truthy (oc_mirror_remote (ow_config w)) then kube_return ed
          else kube_bind (kube_lift (environment_property ''registry'' ''memory'' (PStr ''768Mi'') ed))
         (\<lambda>(memory, ed). kube_bind (kube_lift (environment_property ''docker'' ''storage'' (PStr ''5Gi'') ed))
         (\<lambda>(storage, ed). kube_bind (kube_lift (mirror_objects (ow_config w) ed memory storage))
         (\<lambda>objects. kube_bind (kube_each (create_with_variables w vars namespace) objects)
         (\<lambda>_. kube_return ed)))))"

section \<open>The cache for images\<close>

definition image_cache_container :: "operator_config \<Rightarrow> pyval \<Rightarrow> pyval \<Rightarrow> pyval" where
  "image_cache_container cfg pull memory =
     PDict [
       (''name'', PStr ''image-cache''),
       (''image'', config_image cfg ''image-cache''),
       (''imagePullPolicy'', pull),
       (''securityContext'', PDict [
         (''allowPrivilegeEscalation'', PBool False),
         (''capabilities'', PDict [(''drop'', PList [PStr ''ALL''])]),
         (''runAsNonRoot'', PBool True)]),
       (''resources'', PDict [
         (''limits'', PDict [(''memory'', memory)]),
         (''requests'', PDict [(''memory'', memory)])]),
       (''ports'', PList [PDict [(''containerPort'', PInt 5000), (''protocol'', PStr ''TCP'')]]),
       (''volumeMounts'', PList [
         PDict [(''name'', PStr ''config''), (''mountPath'', PStr ''/etc/zot'')],
         PDict [
           (''name'', PStr ''data''),
           (''mountPath'', PStr ''/var/lib/registry''),
           (''subPath'', PStr ''files'')]])]"

definition image_cache_deployment :: "operator_config \<Rightarrow> environment_details \<Rightarrow> pyval \<Rightarrow> pyval \<Rightarrow> pyval" where
  "image_cache_deployment cfg ed pull memory =
     PDict [
       (''apiVersion'', PStr ''apps/v1''),
       (''kind'', PStr ''Deployment''),
       (''metadata'', PDict [
         (''namespace'', PStr (we_name ed)),
         (''name'', PStr ''image-cache''),
         (''labels'', PDict (environment_labels ed @ [(''training.educates.dev/environment.services.images'', PStr ''true'')]))]),
       (''spec'', PDict [
         (''replicas'', PInt 1),
         (''selector'', PDict [(''matchLabels'', PDict [(''deployment'', PStr ''image-cache'')])]),
         (''strategy'', PDict [(''type'', PStr ''Recreate'')]),
         (''template'', PDict [
           (''metadata'', PDict [
             (''labels'', PDict ((''deployment'', PStr ''image-cache'') # environment_labels ed @ [(''training.educates.dev/environment.services.images'', PStr ''true'')]))]),
           (''spec'', PDict [
             (''serviceAccountName'', PStr ''educates-services''),
             (''containers'', PList [image_cache_container cfg pull memory]),
             (''securityContext'', PDict [
               (''runAsUser'', PInt 1001),
               (''fsGroup'', oc_storage_group cfg),
               (''supplementalGroups'', PList [oc_storage_group cfg])]),
             (''volumes'', PList [
               PDict [
                 (''name'', PStr ''config''),
                 (''configMap'', PDict [(''name'', PStr ''image-cache'')])]])])])])]"

definition image_cache_service :: "environment_details \<Rightarrow> pyval" where
  "image_cache_service ed =
     PDict [
       (''apiVersion'', PStr ''v1''),
       (''kind'', PStr ''Service''),
       (''metadata'', PDict [
         (''namespace'', PStr (we_name ed)),
         (''name'', PStr ''image-cache''),
         (''labels'', PDict (environment_labels ed))]),
       (''spec'', PDict [
         (''type'', PStr ''ClusterIP''),
         (''ports'', PList [PDict [(''port'', PInt 80), (''targetPort'', PInt 5000)]]),
         (''selector'', PDict [(''deployment'', PStr ''image-cache'')])])]"

definition image_cache_config :: "pyval \<Rightarrow> pyval" where
  "image_cache_config registries =
     PDict [
       (''distSpecVersion'', PStr ''1.0.1''),
       (''storage'', PDict [(''rootDirectory'', PStr ''/var/lib/registry''), (''gc'', PBool True)]),
       (''http'', PDict [
         (''address'', PStr ''0.0.0.0''),
         (''port'', PStr ''5000''),
         (''realm'', PStr ''zot''),
         (''auth'', PDict [(''htpasswd'', PDict [(''path'', PStr ''/dev/null'')])]),
         (''accessControl'', PDict [(''**'', PDict [(''anonymousPolicy'', PList [PStr ''read''])])])]),
       (''log'', PDict [(''level'', PStr ''debug'')]),
       (''extensions'', PDict [(''sync'', PDict [(''enable'', PBool True), (''registries'', registries)])])]"

definition image_cache_storage ::
    "operator_config \<Rightarrow> environment_details \<Rightarrow> pyval \<Rightarrow> pyval \<Rightarrow> pyval \<Rightarrow> (pyval list \<times> pyval) result" where
  "image_cache_storage cfg ed = with_storage cfg ed ''image-cache''"

definition image_cache_config_map :: "operator_world \<Rightarrow> environment_details \<Rightarrow> pyval \<Rightarrow> pyval" where
  "image_cache_config_map w ed registries =
     service_config_map ed ''image-cache'' [(''config.yaml'', PStr (ow_yaml w (image_cache_config registries)))]"

definition image_cache_ingress :: "operator_config \<Rightarrow> environment_details \<Rightarrow> pyval" where
  "image_cache_ingress cfg ed = service_ingress cfg ed ''image-cache'' (service_host cfg ed ''images'')"

definition image_cache_objects ::
    "operator_world \<Rightarrow> environment_details \<Rightarrow> pyval \<Rightarrow> pyval \<Rightarrow> bool \<Rightarrow> pyval \<Rightarrow> pyval list result" where
  "image_cache_objects w ed storage memory ingress registries =
     (let cfg = ow_config w
      in bindE (pull_policy (config_image cfg ''image-cache''))
    (\<lambda>pull. bindE (pull_policy (config_image cfg ''base-environment''))
    (\<lambda>base_pull. bindE (image_cache_storage cfg ed storage base_pull (image_cache_deployment cfg ed pull memory))
    (\<lambda>(claims, deployment). Inr
       (claims @ [deployment, image_cache_service ed, image_cache_config_map w ed registries]
        @ (if ingress then [image_cache_ingress cfg ed] else []))))))"

definition deploy_image_cache ::
    "operator_world \<Rightarrow> (string \<times> pyval) list \<Rightarrow> pyval \<Rightarrow> environment_details \<Rightarrow> unit kube" where
  "deploy_image_cache w vars namespace ed =
     (let get = lookup (we_spec ed)
      in kube_bind (kube_lift (get ''environment.images.storage'' (PStr [])))
    (\<lambda>storage. kube_bind (kube_lift (get ''environment.images.memory'' (PStr ''512Mi'')))
    (\<lambda>memory. kube_bind (kube_lift (get ''environment.images.ingress.enabled'' (PBool False)))
    (\<lambda>ingress. kube_bind (kube_lift (bindE (get ''environment.images.registries'' (PList []))
                                           (substituted (download_variables (ow_config w) ed))))
    (\<lambda>registries. if \<not> truthy registries then kube_return ()
       else kube_bind (kube_lift (image_cache_objects w ed storage memory (truthy ingress) registries))
              (kube_each (create_with_variables w vars namespace)))))))"

section \<open>The server for files\<close>

definition download_assets :: "operator_config \<Rightarrow> pyval \<Rightarrow> pyval" where
  "download_assets cfg base_pull =
     PDict [
       (''name'', PStr ''download-assets''),
       (''image'', config_image cfg ''base-environment''),
       (''imagePullPolicy'', base_pull),
       (''securityContext'', PDict [
         (''allowPrivilegeEscalation'', PBool False),
         (''capabilities'', PDict [(''drop'', PList [PStr ''ALL''])]),
         (''runAsNonRoot'', PBool False),
         (''runAsUser'', PInt 1001)]),
       (''command'', PList [PStr ''download-assets'']),
       (''volumeMounts'', PList [
         PDict [(''name'', PStr ''data''), (''mountPath'', PStr ''/opt/assets'')],
         PDict [(''name'', PStr ''assets-config''), (''mountPath'', PStr ''/opt/eduk8s/config'')]])]"

definition assets_container :: "operator_config \<Rightarrow> pyval \<Rightarrow> pyval \<Rightarrow> pyval" where
  "assets_container cfg pull memory =
     PDict [
       (''name'', PStr ''assets-server''),
       (''image'', config_image cfg ''assets-server''),
       (''imagePullPolicy'', pull),
       (''securityContext'', PDict [
         (''allowPrivilegeEscalation'', PBool False),
         (''capabilities'', PDict [(''drop'', PList [PStr ''ALL''])]),
         (''runAsNonRoot'', PBool True)]),
       (''resources'', PDict [
         (''limits'', PDict [(''memory'', memory)]),
         (''requests'', PDict [(''memory'', memory)])]),
       (''ports'', PList [PDict [(''containerPort'', PInt 8080), (''protocol'', PStr ''TCP'')]]),
       (''volumeMounts'', PList [
         PDict [
           (''name'', PStr ''data''),
           (''mountPath'', PStr ''/opt/app-root/data''),
           (''subPath'', PStr ''files'')]])]"

definition assets_deployment :: "operator_config \<Rightarrow> environment_details \<Rightarrow> pyval \<Rightarrow> pyval \<Rightarrow> pyval \<Rightarrow> pyval" where
  "assets_deployment cfg ed pull base_pull memory =
     PDict [
       (''apiVersion'', PStr ''apps/v1''),
       (''kind'', PStr ''Deployment''),
       (''metadata'', PDict [
         (''namespace'', PStr (we_name ed)),
         (''name'', PStr ''assets-server''),
         (''labels'', PDict (environment_labels ed @ [(''training.educates.dev/environment.services.assets'', PStr ''true'')]))]),
       (''spec'', PDict [
         (''replicas'', PInt 1),
         (''selector'', PDict [(''matchLabels'', PDict [(''deployment'', PStr ''assets-server'')])]),
         (''strategy'', PDict [(''type'', PStr ''Recreate'')]),
         (''template'', PDict [
           (''metadata'', PDict [
             (''labels'', PDict ((''deployment'', PStr ''assets-server'') # environment_labels ed @ [(''training.educates.dev/environment.services.assets'', PStr ''true'')]))]),
           (''spec'', PDict [
             (''serviceAccountName'', PStr ''educates-services''),
             (''initContainers'', PList [download_assets cfg base_pull]),
             (''containers'', PList [assets_container cfg pull memory]),
             (''securityContext'', PDict [
               (''runAsUser'', PInt 1001),
               (''fsGroup'', oc_storage_group cfg),
               (''supplementalGroups'', PList [oc_storage_group cfg])]),
             (''volumes'', PList [
               PDict [
                 (''name'', PStr ''assets-config''),
                 (''configMap'', PDict [(''name'', PStr ''assets-server'')])]])])])])]"

definition assets_service :: "environment_details \<Rightarrow> pyval" where
  "assets_service ed =
     PDict [
       (''apiVersion'', PStr ''v1''),
       (''kind'', PStr ''Service''),
       (''metadata'', PDict [
         (''namespace'', PStr (we_name ed)),
         (''name'', PStr ''assets-server''),
         (''labels'', PDict (environment_labels ed))]),
       (''spec'', PDict [
         (''type'', PStr ''ClusterIP''),
         (''ports'', PList [PDict [(''port'', PInt 80), (''targetPort'', PInt 8080)]]),
         (''selector'', PDict [(''deployment'', PStr ''assets-server'')])])]"

definition assets_storage ::
    "operator_config \<Rightarrow> environment_details \<Rightarrow> pyval \<Rightarrow> pyval \<Rightarrow> pyval \<Rightarrow> (pyval list \<times> pyval) result" where
  "assets_storage cfg ed = with_storage cfg ed ''assets-server''"

definition assets_config_map :: "environment_details \<Rightarrow> (nat \<times> string) list \<Rightarrow> pyval" where
  "assets_config_map ed numbered = service_config_map ed ''assets-server'' (map assets_entry numbered)"

definition assets_ingress :: "operator_config \<Rightarrow> environment_details \<Rightarrow> pyval" where
  "assets_ingress cfg ed = service_ingress cfg ed ''assets-server'' (service_host cfg ed ''assets'')"

definition assets_objects ::
    "operator_world \<Rightarrow> environment_details \<Rightarrow> pyval \<Rightarrow> pyval \<Rightarrow> bool \<Rightarrow> pyval list \<Rightarrow> pyval list result" where
  "assets_objects w ed storage memory ingress files =
     (let cfg = ow_config w
      in bindE (pull_policy (config_image cfg ''assets-server''))
    (\<lambda>pull. bindE (pull_policy (config_image cfg ''base-environment''))
    (\<lambda>base_pull. bindE (assets_storage cfg ed storage base_pull (assets_deployment cfg ed pull base_pull memory))
    (\<lambda>(claims, deployment). bindE (numbered_files w (download_variables cfg ed) files)
    (\<lambda>numbered. Inr
       (claims @ [deployment, assets_service ed, assets_config_map ed numbered]
        @ (if ingress then [assets_ingress cfg ed] else [])))))))"

definition deploy_assets ::
    "operator_world \<Rightarrow> (string \<times> pyval) list \<Rightarrow> pyval \<Rightarrow> environment_details \<Rightarrow> unit kube" where
  "deploy_assets w vars namespace ed =
     (let get = lookup (we_spec ed)
      in kube_bind (kube_lift (get ''environment.assets.files'' (PList [])))
    (\<lambda>files. kube_bind (kube_lift (get ''environment.assets.storage'' (PStr [])))
    (\<lambda>storage. kube_bind (kube_lift (get ''environment.assets.memory'' (PStr ''128Mi'')))
    (\<lambda>memory. kube_bind (kube_lift (get ''environment.assets.ingress.enabled'' (PBool False)))
    (\<lambda>ingress. if \<not> truthy files then kube_return ()
       else kube_bind (kube_lift (bindE (py_iter files) (assets_objects w ed storage memory (truthy ingress))))
              (kube_each (create_with_variables w vars namespace)))))))"

section \<open>The tunnel\<close>

definition tunnel_account :: "environment_details \<Rightarrow> pyval" where
  "tunnel_account ed =
     PDict [
       (''apiVersion'', PStr ''v1''),
       (''kind'', PStr ''ServiceAccount''),
       (''metadata'', PDict [
         (''name'', PStr ''tunnel-manager''),
         (''namespace'', PStr (we_name ed)),
         (''labels'', PDict (environment_labels ed))])]"

definition tunnel_binding :: "environment_details \<Rightarrow> pyval" where
  "tunnel_binding ed =
     PDict [
       (''apiVersion'', PStr ''rbac.authorization.k8s.io/v1''),
       (''kind'', PStr ''ClusterRoleBinding''),
       (''metadata'', PDict [
         (''name'', PStr (''educates-tunnel-manager-'' @ we_name ed)),
         (''labels'', PDict (component_labels ''session'' ed))]),
       (''roleRef'', PDict [
         (''apiGroup'', PStr ''rbac.authorization.k8s.io''),
         (''kind'', PStr ''ClusterRole''),
         (''name'', PStr ''educates-tunnel-manager'')]),
       (''subjects'', PList [
         PDict [
           (''kind'', PStr ''ServiceAccount''),
           (''namespace'', PStr (we_name ed)),
           (''name'', PStr ''tunnel-manager'')]])]"

definition tunnel_container :: "operator_config \<Rightarrow> environment_details \<Rightarrow> pyval \<Rightarrow> pyval \<Rightarrow> pyval" where
  "tunnel_container cfg ed pull memory =
     PDict [
       (''name'', PStr ''tunnel''),
       (''image'', config_image cfg ''tunnel-manager''),
       (''imagePullPolicy'', pull),
       (''securityContext'', PDict [
         (''allowPrivilegeEscalation'', PBool False),
         (''capabilities'', PDict [(''drop'', PList [PStr ''ALL''])]),
         (''runAsNonRoot'', PBool True)]),
       (''resources'', PDict [
         (''limits'', PDict [(''memory'', memory)]),
         (''requests'', PDict [(''memory'', memory)])]),
       (''ports'', PList [PDict [(''containerPort'', PInt 8080), (''protocol'', PStr ''TCP'')]]),
       (''env'', PList [
         PDict [(''name'', PStr ''INGRESS_DOMAIN''), (''value'', oc_ingress_domain cfg)],
         PDict [(''name'', PStr ''ENVIRONMENT_NAME''), (''value'', PStr (we_name ed))]])]"

definition tunnel_deployment :: "operator_config \<Rightarrow> environment_details \<Rightarrow> pyval \<Rightarrow> pyval \<Rightarrow> pyval" where
  "tunnel_deployment cfg ed pull memory =
     PDict [
       (''apiVersion'', PStr ''apps/v1''),
       (''kind'', PStr ''Deployment''),
       (''metadata'', PDict [
         (''namespace'', PStr (we_name ed)),
         (''name'', PStr ''tunnel-manager''),
         (''labels'', PDict (environment_labels ed))]),
       (''spec'', PDict [
         (''replicas'', PInt 1),
         (''selector'', PDict [(''matchLabels'', PDict [(''deployment'', PStr ''tunnel-manager'')])]),
         (''strategy'', PDict [(''type'', PStr ''Recreate'')]),
         (''template'', PDict [
           (''metadata'', PDict [
             (''labels'', PDict ((''deployment'', PStr ''tunnel-manager'') # environment_labels ed))]),
           (''spec'', PDict [
             (''serviceAccountName'', PStr ''tunnel-manager''),
             (''containers'', PList [tunnel_container cfg ed pull memory]),
             (''securityContext'', PDict [
               (''runAsUser'', PInt 1001),
               (''fsGroup'', oc_storage_group cfg),
               (''supplementalGroups'', PList [oc_storage_group cfg])])])])])]"

definition tunnel_service :: "environment_details \<Rightarrow> pyval" where
  "tunnel_service ed =
     PDict [
       (''apiVersion'', PStr ''v1''),
       (''kind'', PStr ''Service''),
       (''metadata'', PDict [
         (''namespace'', PStr (we_name ed)),
         (''name'', PStr ''tunnel-manager''),
         (''labels'', PDict (environment_labels ed))]),
       (''spec'', PDict [
         (''type'', PStr ''ClusterIP''),
         (''ports'', PList [PDict [(''port'', PInt 8080), (''targetPort'', PInt 8080)]]),
         (''selector'', PDict [(''deployment'', PStr ''tunnel-manager'')])])]"

definition tunnel_objects :: "operator_config \<Rightarrow> environment_details \<Rightarrow> pyval \<Rightarrow> pyval \<Rightarrow> pyval list" where
  "tunnel_objects cfg ed pull memory =
     [tunnel_account ed, tunnel_binding ed, tunnel_deployment cfg ed pull memory, tunnel_service ed]"

definition tunnel_enabled :: "environment_details \<Rightarrow> (bool \<times> environment_details) result" where
  "tunnel_enabled ed =
     bindE (environment_enabled ed ''sshd'')
       (\<lambda>sshd. if \<not> sshd then Inr (False, ed)
          else bindE (environment_property ''sshd'' ''tunnel.enabled'' (PBool False) ed) (\<lambda>(v, ed). Inr (truthy v, ed)))"

definition deploy_tunnel ::
    "operator_world \<Rightarrow> (string \<times> pyval) list \<Rightarrow> pyval \<Rightarrow> environment_details \<Rightarrow> environment_details kube" where
  "deploy_tunnel w vars namespace ed =
     kube_bind (kube_lift (tunnel_enabled ed))
       (\<lambda>(tunnel, ed). if \<not> tunnel then kube_return ed
          else kube_bind (kube_lift (pull_policy (config_image (ow_config w) ''tunnel-manager'')))
         (\<lambda>pull. kube_bind (kube_lift (environment_property ''sshd'' ''tunnel.memory'' (PStr ''128Mi'') ed))
         (\<lambda>(memory, ed). kube_bind (kube_each (create_with_variables w vars namespace) (tunnel_objects (ow_config w) ed pull memory))
         (\<lambda>_. kube_return ed))))"

end
