(* ===== verification/Workshop_Environments.thy ===== *)
theory Workshop_Environments
  imports Environment_Services
begin

text \<open>
  The creation of a workshop environment as a whole (\<open>workshop_environment_create\<close> in
  \<open>session-manager/handlers/workshopenvironment.py\<close>): the rules for Kyverno, the objects that the workshop asks for, and
  the handler, with the status that sessions read later.
\<close>

section \<open>Rules\<close>

definition create_rules :: "operator_world \<Rightarrow> environment_details \<Rightarrow> pyval \<Rightarrow> unit kube" where
  "create_rules w ed namespace =
     (if oc_rules_engine (ow_config w) \<noteq> PStr ''kyverno'' then kube_return ()
      else kube_bind (kube_lift (kyverno_environment_rules (ow_packages w ''kyverno-policies.yaml'') (we_spec ed) (we_name ed)))
             (kube_each (create_owned w namespace)))"

section \<open>Objects\<close>

text \<open>Objects of applications are only looked for if the workshop has objects of its own.\<close>

definition add_application_objects ::
    "string \<Rightarrow> environment_details \<times> pyval list \<Rightarrow> (environment_details \<times> pyval list) result" where
  "add_application_objects application = (\<lambda>(ed, objects).
     bindE (environment_enabled ed application)
       (\<lambda>enabled. if \<not> enabled then Inr (ed, objects)
          else bindE (environment_properties application ed)
                 (\<lambda>ed. Inr (ed, objects @ environment_objects_list application))))"

definition workshop_objects :: "environment_details \<Rightarrow> (environment_details \<times> pyval list) result" where
  "workshop_objects ed =
     bindE (get_under (we_spec ed) [''environment''] ''objects'' PNone)
       (\<lambda>own. if \<not> truthy own then Inr (ed, [])
          else bindE (foldE add_application_objects application_names (ed, []))
            (\<lambda>(ed, objects). bindE (bindE (get_under (we_spec ed) [''environment''] ''objects'' PNone) py_iter)
               (\<lambda>own. Inr (ed, objects @ own))))"

definition environment_objects ::
    "environment_request \<Rightarrow> environment_details \<Rightarrow> (environment_details \<times> pyval list) result" where
  "environment_objects rq ed =
     bindE (workshop_objects ed)
  (\<lambda>(ed, objects). bindE (get_under (er_spec rq) [''environment''] ''objects'' PNone)
  (\<lambda>more. bindE (listed_items more) (\<lambda>more. Inr (ed, objects @ more))))"

definition environment_object_labels :: "environment_details \<Rightarrow> (string \<times> pyval) list" where
  "environment_object_labels ed = environment_labels ed @ [(''training.educates.dev/environment.objects'', PStr ''true'')]"

text \<open>The object with its variables, namespace, labels and owner, and how it is called.\<close>

definition environment_object ::
    "operator_world \<Rightarrow> (string \<times> pyval) list \<Rightarrow> environment_details \<Rightarrow> pyval \<Rightarrow> pyval \<Rightarrow> (object_reference \<times> pyval) result" where
  "environment_object w vars ed namespace obj =
     bindE (substituted vars obj)
  (\<lambda>obj. bindE (default_namespace (PStr (we_name ed)) obj)
  (\<lambda>obj. bindE (add_labels (environment_object_labels ed) obj)
  (\<lambda>obj. let obj = ow_adopt w obj namespace in
     bindE (bindE (py_index obj ''metadata'') (\<lambda>m. py_index m ''name''))
  (\<lambda>name. bindE (bindE (py_index obj ''metadata'') (\<lambda>m. py_index m ''namespace''))
  (\<lambda>ns. bindE (py_index obj ''kind'')
  (\<lambda>kind. bindE (py_index obj ''apiVersion'')
  (\<lambda>version. let ref = \<lparr>or_name = name, or_namespace = ns, or_kind = kind, or_version = version\<rparr> in
     bindE (core_kind ''namespace'' ref)
  (\<lambda>is_ns. bindE (if is_ns then set_annotation ''secretgen.carvel.dev/excluded-from-wildcard-matching'' (PStr []) obj else Inr obj)
  (\<lambda>obj. Inr (ref, obj))))))))))"

definition environment_object_failure :: "object_reference \<Rightarrow> environment_details \<Rightarrow> string" where
  "environment_object_failure ref ed =
     ''Unable to create workshop environment objects, failed creating object '' @ py_str (or_name ref) @ '' of type ''
     @ py_str (or_kind ref) @ '' in namespace '' @ py_str (or_namespace ref) @ '' for workshop environment '' @ we_name ed @ ''.''"

definition create_environment_object ::
    "operator_world \<Rightarrow> environment_request \<Rightarrow> (string \<times> pyval) list \<Rightarrow> environment_details \<Rightarrow> pyval \<Rightarrow> pyval \<Rightarrow> unit kube" where
  "create_environment_object w rq vars ed namespace obj =
     kube_bind (kube_lift (environment_object w vars ed namespace obj))
       (\<lambda>(ref, obj). let message = (''message'', PStr (environment_object_failure ref ed))
          in kube_try (kube_bind (create_object w obj) (\<lambda>_. kube_return ()))
            (\<lambda>_. kube_bind (report_analytics_event w ''Resource/PermanentError''
                               (PDict (environment_event rq ''WorkshopEnvironment'' @ [message])))
               (\<lambda>_. kube_bind (set_status (educates_status [(''phase'', PStr ''Failed''), message]))
                  (\<lambda>_. kube_raise (Raised PermanentError)))))"

section \<open>The handler\<close>

definition environment_status :: "environment_details \<Rightarrow> pyval" where
  "environment_status ed =
     educates_status
       [(''phase'', PStr ''Running''), (''message'', PNone), (''namespace'', PStr (we_name ed)),
        (''workshop'', PDict [
           (''name'', we_workshop_name ed), (''uid'', we_workshop_uid ed), (''generation'', we_workshop_generation ed),
           (''spec'', we_spec ed)])]"

definition secure_environment :: "operator_world \<Rightarrow> environment_details \<Rightarrow> pyval \<Rightarrow> unit kube" where
  "secure_environment w ed namespace =
     kube_bind (environment_policy w ed namespace)
  (\<lambda>_. kube_bind (delete_all w ''LimitRange'' (PStr (we_name ed)))
  (\<lambda>_. kube_bind (delete_all w ''ResourceQuota'' (PStr (we_name ed)))
  (\<lambda>_. restrict_network w ed namespace)))"

definition copy_secrets_into :: "operator_world \<Rightarrow> environment_request \<Rightarrow> environment_details \<Rightarrow> pyval \<Rightarrow> unit kube" where
  "copy_secrets_into w rq ed namespace =
     kube_bind (copy_ingress_secrets w ed namespace)
  (\<lambda>_. kube_bind (copy_workshop_secrets w ed namespace)
  (\<lambda>_. kube_bind (copy_environment_secrets w rq ed namespace)
  (\<lambda>_. copy_theme w rq ed namespace)))"

definition deploy_services ::
    "operator_world \<Rightarrow> (string \<times> pyval) list \<Rightarrow> pyval \<Rightarrow> environment_details \<Rightarrow> environment_details kube" where
  "deploy_services w vars namespace ed =
     kube_bind (deploy_mirror w vars namespace ed)
  (\<lambda>ed. kube_bind (deploy_image_cache w vars namespace ed)
  (\<lambda>_. kube_bind (deploy_assets w vars namespace ed)
  (\<lambda>_. deploy_tunnel w vars namespace ed)))"

definition provision_environment ::
    "operator_world \<Rightarrow> environment_request \<Rightarrow> environment_details \<Rightarrow> pyval \<Rightarrow> environment_details kube" where
  "provision_environment w rq ed namespace =
     kube_bind (set_status (educates_status [(''phase'', PStr ''Retrying'')]))
  (\<lambda>_. kube_bind (secure_environment w ed namespace)
  (\<lambda>_. kube_bind (save_configuration w rq ed namespace)
  (\<lambda>ed. kube_bind (create_owned w namespace (web_console_role ed))
  (\<lambda>_. kube_bind (copy_secrets_into w rq ed namespace)
  (\<lambda>_. kube_bind (kube_lift (read_variables (ow_config w) rq ed))
  (\<lambda>vars. kube_bind (create_object w (services_account ed))
  (\<lambda>_. kube_bind (deploy_services w vars namespace ed)
  (\<lambda>ed. kube_bind (create_rules w ed namespace)
  (\<lambda>_. kube_bind (kube_lift (environment_objects rq ed))
  (\<lambda>(ed, objects). kube_bind (kube_each (create_environment_object w rq vars ed namespace) objects)
  (\<lambda>_. kube_return ed)))))))))))"

definition deploy_environment :: "operator_world \<Rightarrow> environment_request \<Rightarrow> environment_details \<Rightarrow> unit kube" where
  "deploy_environment w rq ed =
     kube_bind (create_environment_namespace w rq ed)
  (\<lambda>namespace. kube_bind (provision_environment w rq ed namespace)
  (\<lambda>ed. kube_bind (report_analytics_event w ''Resource/Ready'' (PDict (environment_event rq ''WorkshopEnvironment'')))
  (\<lambda>_. set_status (environment_status ed))))"

definition workshop_environment_create :: "operator_world \<Rightarrow> environment_request \<Rightarrow> unit kube" where
  "workshop_environment_create w rq =
     kube_bind (report_analytics_event w ''Resource/Create'' (PDict (environment_event rq ''WorkshopEnvironment'')))
  (\<lambda>_. kube_bind (read_environment w rq)
  (\<lambda>ed. kube_bind (find_environment_namespace w rq)
  (\<lambda>found. case found of
             Some namespace \<Rightarrow> occupied_namespace w rq namespace
           | None \<Rightarrow> deploy_environment w rq ed)))"

end
