(* ===== verification/Environment_Attempts.thy ===== *)
theory Environment_Attempts
  imports Workshop_Environments Session_Phases
begin

text \<open>
  Attempts to create a workshop environment: how each one ends, how long an environment waits for what it needs, and
  two ways in which it never becomes ready.
\<close>

section \<open>Before the namespace\<close>

lemma environment_outcome_run:
  "environment_outcome w rq kind state message event e tr =
     (Inl (Raised e),
      reported w event (PDict (environment_event rq kind @ [(''message'', PStr message)]))
        @ SetStatus (educates_status [(''phase'', PStr state), (''message'', PStr message)]) # tr)"
  by (simp add: environment_outcome_def kube_simps report_trace)

lemmas environment_outcomes = environment_retry_def environment_given_up_def environment_outcome_run

text \<open>
  An attempt that ends without creating anything: it raises before it sets a status, gives up after five minutes, or
  is made again after half a minute.
\<close>

definition left_waiting :: "environment_request \<Rightarrow> kube_error \<Rightarrow> kube_call list \<Rightarrow> bool" where
  "left_waiting rq e tr \<longleftrightarrow>
     creations tr = []
     \<and> (final_status tr = None
        \<or> phase ''Failed'' (final_status tr) \<and> environment_overdue rq \<and> e = Raised PermanentError
        \<or> (phase ''Pending'' (final_status tr) \<or> phase ''Retrying'' (final_status tr)) \<and> \<not> environment_overdue rq
            \<and> e = Raised (TemporaryError 30)
        \<or> phase ''Unknown'' (final_status tr) \<and> e = Raised (TemporaryError 30))"

definition quiet :: "kube_call list \<Rightarrow> bool" where
  "quiet tr \<longleftrightarrow> creations tr = [] \<and> final_status tr = None"

lemma quiet_simps [simp]:
  "quiet []" "quiet (reported w event data @ tr) = quiet tr" "quiet (Get k ns n # tr) = quiet tr"
  by (simp_all add: quiet_def)

lemma left_waiting_quiet [simp]: "quiet tr \<Longrightarrow> left_waiting rq e tr"
  by (simp add: left_waiting_def quiet_def)

lemma outcome_left_waiting:
  assumes "creations tr = []"
    and "state = ''Failed'' \<and> environment_overdue rq \<and> e = PermanentError
      \<or> state \<in> {''Pending'', ''Retrying''} \<and> \<not> environment_overdue rq \<and> e = TemporaryError 30
      \<or> state = ''Unknown'' \<and> e = TemporaryError 30"
    and "environment_outcome w rq kind state message event e tr = (r, tr')"
  obtains "r = Inl (Raised e)" and "left_waiting rq (Raised e) tr'"
  using assms by (auto simp: environment_outcome_run left_waiting_def)

lemma find_workshop_outcome:
  assumes "find_workshop_definition w rq n tr = (r, tr')" and "quiet tr"
  shows "case r of Inl e \<Rightarrow> left_waiting rq e tr' | Inr _ \<Rightarrow> quiet tr'"
  using assms
  by (auto simp: find_workshop_definition_def kube_get_def kube_simps environment_outcomes Let_def left_waiting_def quiet_def
      split: sum.splits if_splits)

lemma read_outcome:
  assumes "read_environment w rq tr = (r, tr')" and "quiet tr"
  shows "case r of Inl e \<Rightarrow> left_waiting rq e tr' | Inr _ \<Rightarrow> quiet tr'"
  using assms find_workshop_outcome [OF _ assms(2)]
  by (fastforce simp: read_environment_def kube_simps split: sum.splits prod.splits)

lemma find_namespace_outcome:
  assumes "find_environment_namespace w rq tr = (r, tr')" and "quiet tr"
  shows "case r of Inl e \<Rightarrow> left_waiting rq e tr' | Inr _ \<Rightarrow> quiet tr'"
  using assms
  by (auto simp: find_environment_namespace_def kube_get_def kube_simps environment_outcomes left_waiting_def quiet_def
      split: sum.splits if_splits)

lemma occupied_outcome:
  assumes "occupied_namespace w rq namespace tr = (r, tr')" and "quiet tr"
  shows "\<exists>e. r = Inl e \<and> left_waiting rq e tr'"
  using assms
  by (auto simp: occupied_namespace_def delete_environment_namespace_def kube_write_def kube_simps environment_outcomes Let_def
      left_waiting_def quiet_def split: sum.splits if_splits)

section \<open>After the namespace\<close>

text \<open>
  An attempt that ends after it created the namespace: the next one deletes that and starts again, unless an object
  of the workshop was refused.
\<close>

definition left_partial :: "kube_error \<Rightarrow> kube_call list \<Rightarrow> bool" where
  "left_partial e tr \<longleftrightarrow>
     creations tr \<noteq> [] \<and> (phase ''Retrying'' (final_status tr) \<or> phase ''Failed'' (final_status tr) \<and> e = Raised PermanentError)"

lemma runs_creations:
  assumes "runs P m tr" and "m tr = (r, tr')" and "creations tr \<noteq> []"
  shows "creations tr' \<noteq> []"
  using assms by (auto simp: runs_def creations_append)

lemma runs_owned [runs_intros]: "P tr (Create (ow_adopt w obj namespace)) \<Longrightarrow> runs P (create_owned w namespace obj) tr"
  unfolding create_owned_def by (auto intro!: runs_intros)

lemma runs_with_variables [runs_intros]:
  "(\<And>t obj. P t (Create obj)) \<Longrightarrow> runs P (create_with_variables w vars namespace obj) tr"
  unfolding create_with_variables_def by (auto intro!: runs_intros)

lemma runs_secure [runs_intros]: "runs (keeps_phase p) (secure_environment w ed namespace) tr"
proof -
  have "runs (keeps_phase p) (delete_all w kind ns) t" for kind ns t
    unfolding delete_all_def delete_quietly_def by (auto intro!: runs_intros runs_each)
  then show ?thesis
    unfolding secure_environment_def environment_policy_def restrict_network_def by (auto intro!: runs_intros)
qed

lemma runs_configuration [runs_intros]: "runs (keeps_phase p) (save_configuration w rq ed namespace) tr"
  unfolding save_configuration_def by (auto intro!: runs_intros)

lemma runs_copy_secrets_into [runs_intros]: "runs (keeps_phase p) (copy_secrets_into w rq ed namespace) tr"
  unfolding copy_secrets_into_def copy_ingress_secrets_def copy_workshop_secrets_def copy_environment_secrets_def
    copy_listed_secrets_def copy_theme_def
  by (auto intro!: runs_intros)

lemma runs_services [runs_intros]: "runs (keeps_phase p) (deploy_services w vars namespace ed) tr"
proof -
  have each: "runs (keeps_phase p) (kube_each (create_with_variables w vars namespace) objects) t" for objects t
    by (auto intro!: runs_each runs_intros)
  show ?thesis
    unfolding deploy_services_def deploy_mirror_def deploy_image_cache_def deploy_assets_def deploy_tunnel_def Let_def
    by (auto intro!: runs_intros each)
qed

lemma runs_rules [runs_intros]: "runs (keeps_phase p) (create_rules w ed namespace) tr"
  unfolding create_rules_def by (auto intro!: runs_intros runs_each)

definition retrying :: "kube_call list \<Rightarrow> bool" where
  "retrying tr \<longleftrightarrow> creations tr \<noteq> [] \<and> phase ''Retrying'' (final_status tr)"

lemma runs_retrying:
  "runs (keeps_phase ''Retrying'') m tr \<Longrightarrow> retrying tr \<Longrightarrow> m tr = (r, tr') \<Longrightarrow> retrying tr'"
  using runs_phase [of "''Retrying''" m tr r tr'] runs_creations [of _ m tr r tr'] by (simp add: retrying_def)

lemma retrying_partial: "retrying tr \<Longrightarrow> left_partial e tr"
  by (simp add: retrying_def left_partial_def)

lemma object_outcome:
  assumes "create_environment_object w rq vars ed namespace obj tr = (r, tr')" and "retrying tr"
  shows "case r of Inl e \<Rightarrow> left_partial e tr' | Inr _ \<Rightarrow> retrying tr'"
  using assms
  by (auto simp: create_environment_object_def create_object_def kube_write_def kube_simps report_trace Let_def left_partial_def
      retrying_def split: sum.splits prod.splits)

lemma objects_outcome:
  assumes "kube_each (create_environment_object w rq vars ed namespace) objects tr = (r, tr')" and "retrying tr"
  shows "case r of Inl e \<Rightarrow> left_partial e tr' | Inr _ \<Rightarrow> retrying tr'"
  using assms
proof (induction objects arbitrary: tr)
  case (Cons obj objects)
  from Cons.prems(1) show ?case
    unfolding kube_each.simps
  proof (cases rule: kube_bindE)
    case (1 e)
    with object_outcome [OF 1(1) Cons.prems(2)] show ?thesis by simp
  next
    case (2 u t)
    with object_outcome [OF 2(1) Cons.prems(2)] Cons.IH [of t] show ?thesis by simp
  qed
qed (auto simp: kube_return_def)

text \<open>A step that keeps the phase, and what follows.\<close>

lemma step_outcome:
  assumes "kube_bind m f tr = (r, tr')" and "runs (keeps_phase ''Retrying'') m tr" and "retrying tr"
    and "\<And>x t. m tr = (Inr x, t) \<Longrightarrow> retrying t \<Longrightarrow> f x t = (r, tr') \<Longrightarrow> case r of Inl e \<Rightarrow> left_partial e tr' | Inr y \<Rightarrow> Q y tr'"
  shows "case r of Inl e \<Rightarrow> left_partial e tr' | Inr y \<Rightarrow> Q y tr'"
  using assms(1)
proof (cases rule: kube_bindE)
  case (1 e)
  with runs_retrying [OF assms(2,3)] show ?thesis by (simp add: retrying_partial)
next
  case (2 x t)
  with runs_retrying [OF assms(2,3)] assms(4) show ?thesis by simp
qed

lemma last_outcome:
  assumes "(case p of (ed, objects) \<Rightarrow>
      kube_bind (kube_each (create_environment_object w rq vars ed namespace) objects) (\<lambda>_. kube_return ed)) tr = (r, tr')"
    and "retrying tr"
  shows "case r of Inl e \<Rightarrow> left_partial e tr' | Inr _ \<Rightarrow> retrying tr'"
proof -
  obtain ed objects where p: "p = (ed, objects)" by (cases p)
  from assms(1) show ?thesis unfolding p prod.case
    by (cases rule: kube_bindE) (use objects_outcome [OF _ assms(2)] in \<open>fastforce simp: kube_return_def\<close>)+
qed

lemma provision_environment_outcome:
  assumes "provision_environment w rq ed namespace tr = (r, tr')" and "creations tr \<noteq> []"
  shows "case r of Inl e \<Rightarrow> left_partial e tr' | Inr _ \<Rightarrow> retrying tr'"
proof -
  have "retrying (SetStatus (educates_status [(''phase'', PStr ''Retrying'')]) # tr)"
    using assms(2) by (simp add: retrying_def)
  with assms(1) show ?thesis
    unfolding provision_environment_def kube_bind_def [of "set_status v" for v] set_status_def prod.case sum.case
    apply -
    apply (erule step_outcome, (intro runs_intros; simp), assumption)+
    by (erule last_outcome)
qed

text \<open>An attempt whose creation of the namespace ended in an exception of no kind that the handler expects.\<close>

definition left_unmarked :: "operator_world \<Rightarrow> environment_request \<Rightarrow> kube_call list \<Rightarrow> bool" where
  "left_unmarked w rq tr \<longleftrightarrow>
     final_status tr = None
     \<and> (\<exists>ed. creations tr = [ow_adopt w (environment_namespace_body (ow_config w) ed) (er_body rq)] \<and> we_name ed = er_name rq)"

definition left_running :: "environment_request \<Rightarrow> kube_call list \<Rightarrow> bool" where
  "left_running rq tr \<longleftrightarrow>
     creations tr \<noteq> [] \<and> (\<exists>ed. final_status tr = Some (environment_status ed) \<and> we_name ed = er_name rq)"

definition attempt_left :: "operator_world \<Rightarrow> environment_request \<Rightarrow> (kube_error + unit) \<times> kube_call list \<Rightarrow> bool" where
  "attempt_left w rq = (\<lambda>(r, tr). case r of
       Inl e \<Rightarrow> left_waiting rq e tr \<or> left_partial e tr \<or> left_unmarked w rq tr
     | Inr _ \<Rightarrow> left_running rq tr)"

lemma create_environment_namespace_outcome:
  assumes "create_environment_namespace w rq ed tr = (r, tr')" and "quiet tr" and "we_name ed = er_name rq"
  shows "case r of Inl e \<Rightarrow> left_partial e tr' \<or> left_unmarked w rq tr' | Inr _ \<Rightarrow> creations tr' \<noteq> []"
  using assms
  by (auto simp: create_environment_namespace_def create_object_def kube_write_def kube_get_def kube_simps quiet_def left_partial_def
      left_unmarked_def split: sum.splits prod.splits if_splits)

lemma put_name [simp]:
  "open_applications ed = Inr ed' \<Longrightarrow> we_name ed' = we_name ed" "store_applications c ed = Inr ed' \<Longrightarrow> we_name ed' = we_name ed"
  by (auto simp: open_applications_def store_applications_def elim!: bindE_InrE split: option.splits)

lemma properties_name: "environment_properties a ed = Inr ed' \<Longrightarrow> we_name ed' = we_name ed"
  "environment_property a k d ed = Inr (v, ed') \<Longrightarrow> we_name ed' = we_name ed"
  by (auto simp: environment_properties_def environment_property_def elim!: bindE_InrE split: prod.splits)

lemma patch_name: "patch_workshop cfg a ed = Inr ed' \<Longrightarrow> we_name ed' = we_name ed"
  by (auto simp: patch_workshop_def elim!: bindE_InrE split: if_splits dest!: properties_name(1))

lemma foldE_keeps:
  assumes "foldE f xs s = Inr s'" and "\<And>x s s'. f x s = Inr s' \<Longrightarrow> g s' = g s"
  shows "g s' = g s"
  using assms(1) by (induction xs arbitrary: s) (auto elim!: bindE_InrE dest: assms(2))

lemma patches_name: "patch_applications cfg ed = Inr ed' \<Longrightarrow> we_name ed' = we_name ed"
  unfolding patch_applications_def
  by (auto elim!: bindE_InrE dest!: foldE_keeps [where g = we_name, OF _ patch_name])

lemma read_name: "read_environment w rq tr = (Inr ed, tr') \<Longrightarrow> we_name ed = er_name rq"
  unfolding read_environment_def by (auto elim!: inr_elims dest!: patches_name simp: identify_environment_def)

lemma configuration_name: "save_configuration w rq ed namespace tr = (Inr ed', tr') \<Longrightarrow> we_name ed' = we_name ed"
  unfolding save_configuration_def read_images_def by (auto elim!: inr_elims simp: kube_return_def)

lemma services_name: "deploy_services w vars namespace ed tr = (Inr ed', tr') \<Longrightarrow> we_name ed' = we_name ed"
  unfolding deploy_services_def deploy_mirror_def deploy_tunnel_def tunnel_enabled_def
  by (auto elim!: inr_elims simp: kube_return_def dest!: properties_name split: if_splits prod.splits)

lemma objects_name:
  assumes "environment_objects rq ed = Inr (ed', objects)"
  shows "we_name ed' = we_name ed"
proof -
  have "we_name (fst p') = we_name (fst p)" if "add_application_objects a p = Inr p'" for a p p'
    using that by (auto simp: add_application_objects_def elim!: bindE_InrE dest!: properties_name split: prod.splits if_splits)
  then have "we_name ed' = we_name ed" if "foldE add_application_objects names (ed, []) = Inr (ed', os)" for names os
    using foldE_keeps [OF that, of "\<lambda>p. we_name (fst p)"] by auto
  with assms show ?thesis
    unfolding environment_objects_def workshop_objects_def by (auto elim!: bindE_InrE split: if_splits prod.splits)
qed

lemma provision_environment_name: "provision_environment w rq ed namespace tr = (Inr ed', tr') \<Longrightarrow> we_name ed' = we_name ed"
  unfolding provision_environment_def
  by (auto elim!: inr_elims simp: kube_return_def dest!: configuration_name services_name objects_name split: prod.splits)

lemma deploy_environment_outcome:
  assumes "deploy_environment w rq ed tr = (r, tr')" and "quiet tr" and "we_name ed = er_name rq"
  shows "case r of Inl e \<Rightarrow> left_partial e tr' \<or> left_unmarked w rq tr' | Inr _ \<Rightarrow> left_running rq tr'"
  using assms(1) unfolding deploy_environment_def
proof (cases rule: kube_bindE)
  case (1 e)
  with create_environment_namespace_outcome [OF 1(1) assms(2,3)] show ?thesis by simp
next
  case (2 namespace t)
  with create_environment_namespace_outcome [OF 2(1) assms(2,3)] have t: "creations t \<noteq> []" by simp
  from 2(2) show ?thesis
  proof (cases rule: kube_bindE)
    case (1 e)
    with provision_environment_outcome [OF 1(1) t] show ?thesis by simp
  next
    case (2 ed' t')
    with provision_environment_outcome [OF 2(1) t] provision_environment_name [OF 2(1)] assms(3) show ?thesis
      by (auto simp: kube_bind_def report_trace set_status_def left_running_def retrying_def)
  qed
qed

lemma attempt_outcome: "attempt_left w rq (workshop_environment_create w rq [])"
proof -
  obtain r tr where run: "workshop_environment_create w rq [] = (r, tr)" by fastforce
  define start where "start = reported w ''Resource/Create'' (PDict (environment_event rq ''WorkshopEnvironment''))"
  have start: "quiet start" by (simp add: start_def quiet_def)
  from run have "kube_bind (read_environment w rq) (\<lambda>ed. kube_bind (find_environment_namespace w rq)
      (\<lambda>found. case found of Some namespace \<Rightarrow> occupied_namespace w rq namespace | None \<Rightarrow> deploy_environment w rq ed)) start = (r, tr)"
    by (simp add: workshop_environment_create_def kube_bind_def [of "report_analytics_event w e d" for e d] report_trace start_def)
  then have "attempt_left w rq (r, tr)"
  proof (cases rule: kube_bindE)
    case (1 e)
    with read_outcome [OF 1(1) start] show ?thesis by (simp add: attempt_left_def)
  next
    case (2 ed t)
    with read_outcome [OF 2(1) start] have t: "quiet t" by simp
    from 2(2) show ?thesis
    proof (cases rule: kube_bindE)
      case (1 e)
      with find_namespace_outcome [OF 1(1) t] show ?thesis by (simp add: attempt_left_def)
    next
      case (2 found t')
      with find_namespace_outcome [OF 2(1) t] have t': "quiet t'" by simp
      note name = read_name [OF \<open>read_environment w rq start = (Inr ed, t)\<close>]
      show ?thesis
      proof (cases found)
        case None
        with 2(2) deploy_environment_outcome [OF _ t' name] show ?thesis by (fastforce simp: attempt_left_def split: sum.splits)
      next
        case (Some namespace)
        with 2(2) occupied_outcome [OF _ t'] show ?thesis by (fastforce simp: attempt_left_def)
      qed
    qed
  qed
  with run show ?thesis by simp
qed

section \<open>How an attempt ends\<close>

text \<open>
  \<^bold>\<open>C20.\<close> Every attempt to create an environment ends in one of four ways. It succeeds, and the status says that the
  environment is running and has the workshop. It created nothing, and is made again after half a minute, but not for a missing
  workshop or a foreign namespace once five minutes are over. It created some of the environment, and the status says \<open>Retrying\<close>,
  so that the next attempt starts by deleting that, or \<open>Failed\<close> for good as an object of the workshop was refused. Or an exception that
  nobody expects ended the creation of the namespace, and no status was set.
\<close>

theorem environment_settled:
  "case workshop_environment_create w rq [] of
     (Inl e, tr) \<Rightarrow> left_waiting rq e tr \<or> left_partial e tr \<or> left_unmarked w rq tr
   | (Inr _, tr) \<Rightarrow> left_running rq tr"
  using attempt_outcome [of w rq] by (simp add: attempt_left_def split: prod.splits sum.splits)

section \<open>The next attempt\<close>

lemma phase_unique: "phase p s \<Longrightarrow> phase q s \<Longrightarrow> p = q"
  by (auto simp: phase_def educates_status_def)

lemma phase_Some: "phase p s \<Longrightarrow> s \<noteq> None"
  by (auto simp: phase_def)

lemma lookup_phase: "phase p (Some v) \<Longrightarrow> lookup v ''educates.phase'' PNone = Inr (PStr p)"
  by (auto simp: phase_def educates_status_def lookup_def)

text \<open>The operator framework merges what the handler left into the status of the resource.\<close>

definition status_after :: "pyval \<Rightarrow> kube_call list \<Rightarrow> pyval \<Rightarrow> bool" where
  "status_after old tr new \<longleftrightarrow>
     (case final_status tr of
        None \<Rightarrow> new = old
      | Some v \<Rightarrow> lookup new ''educates.phase'' PNone = lookup v ''educates.phase'' PNone)"

fun retry_delay :: "kube_error \<Rightarrow> int" where
  "retry_delay (Raised (TemporaryError d)) = d * 1000000"
| "retry_delay _ = 0"

definition next_attempt :: "operator_world \<Rightarrow> environment_request \<Rightarrow> environment_request \<Rightarrow> bool" where
  "next_attempt w rq rq' \<longleftrightarrow>
     (\<exists>e tr status time. workshop_environment_create w rq [] = (Inl e, tr) \<and> e \<noteq> Raised PermanentError
        \<and> status_after (er_status rq) tr status \<and> time \<ge> er_runtime rq + retry_delay e
        \<and> rq' = rq\<lparr>er_status := status, er_retry := er_retry rq + 1, er_runtime := time\<rparr>)"

lemma status_after_phase:
  "status_after old tr new \<Longrightarrow> phase p (final_status tr) \<Longrightarrow> lookup new ''educates.phase'' PNone = Inr (PStr p)"
  by (cases "final_status tr") (auto simp: status_after_def phase_def lookup_phase [unfolded phase_def])

lemma next_attempt_status:
  "next_attempt w rq rq' \<Longrightarrow> \<exists>e tr. workshop_environment_create w rq [] = (Inl e, tr) \<and> status_after (er_status rq) tr (er_status rq')"
  by (auto simp: next_attempt_def)

section \<open>Waiting\<close>

definition left_pending :: "operator_world \<times> environment_request \<Rightarrow> bool" where
  "left_pending = (\<lambda>(w, rq). phase ''Pending'' (final_status (snd (workshop_environment_create w rq []))))"

lemma left_pendingD:
  assumes "left_pending (w, rq)"
  shows "\<not> environment_overdue rq \<and> fst (workshop_environment_create w rq []) = Inl (Raised (TemporaryError 30))"
proof -
  obtain r tr where run: "workshop_environment_create w rq [] = (r, tr)" by fastforce
  with assms have "phase ''Pending'' (final_status tr)" by (simp add: left_pending_def)
  then have "\<not> phase q (final_status tr)" if "q \<noteq> ''Pending''" for q using phase_unique that by blast
  with attempt_outcome [of w rq] run \<open>phase ''Pending'' (final_status tr)\<close> show ?thesis
    by (auto simp: attempt_left_def left_waiting_def left_partial_def left_unmarked_def left_running_def environment_status_def
        dest: phase_Some split: sum.splits)
qed

lemma next_runtime:
  assumes "next_attempt w rq rq'" and "left_pending (w, rq)"
  shows "er_runtime rq' \<ge> er_runtime rq + 30 * 1000000"
  using assms left_pendingD [OF assms(2)] by (auto simp: next_attempt_def)

text \<open>
  \<^bold>\<open>C21.\<close> An environment does not wait for ever: of the attempts that follow each other, at most ten leave it \<open>Pending\<close>, for a workshop
  that is not there or a namespace that belongs to somebody else. The eleventh gives up, or finds what was missing.
\<close>

theorem environment_waiting_bounded:
  assumes "successively (\<lambda>(w, rq) (w', rq'). next_attempt w rq rq') attempts"
    and "\<forall>a\<in>set attempts. left_pending a" and "attempts \<noteq> [] \<Longrightarrow> er_runtime (snd (hd attempts)) \<ge> 0"
  shows "length attempts \<le> 10"
proof -
  have late: "er_runtime (snd (last as)) \<ge> er_runtime (snd (hd as)) + int (length as - 1) * (30 * 1000000)"
    if "successively (\<lambda>(w, rq) (w', rq'). next_attempt w rq rq') as" and "\<forall>a\<in>set as. left_pending a" and "as \<noteq> []" for as
    using that
  proof (induction as rule: induct_list012)
    case (3 a b as)
    then have "er_runtime (snd b) \<ge> er_runtime (snd a) + 30 * 1000000"
      using next_runtime by (cases a; cases b) auto
    with 3 show ?case by (auto simp: algebra_simps)
  qed simp_all
  show ?thesis
  proof (cases "attempts = []")
    case False
    with assms(2) have "\<not> environment_overdue (snd (last attempts))"
      using left_pendingD [of "fst (last attempts)" "snd (last attempts)"] by (simp add: last_in_set)
    with late [OF assms(1,2) False] assms(3) [OF False] have "int (length attempts - 1) * (30 * 1000000) < 300 * 1000000"
      unfolding environment_overdue_def by linarith
    then show ?thesis by linarith
  qed simp
qed

text \<open>A workshop that is never there, and ten attempts that wait for it.\<close>

definition lab_environment :: environment_request where
  "lab_environment =
     \<lparr>er_name = ''w01'', er_uid = PStr ''2'',
      er_body = PDict [(''apiVersion'', PStr ''v1''), (''kind'', PStr ''WorkshopEnvironment''),
                       (''metadata'', PDict [(''name'', PStr ''w01''), (''uid'', PStr ''2'')])],
      er_meta = PDict [], er_spec = PDict [(''workshop'', PDict [(''name'', PStr ''lab'')])], er_status = PDict [],
      er_retry = 0, er_runtime = 0\<rparr>"

definition empty_world :: operator_world where
  "empty_world = lab_world\<lparr>ow_api := ow_api lab_world\<lparr>ka_get := \<lambda>tr k ns n. Inl ObjectDoesNotExist\<rparr>\<rparr>"

definition pending_status :: pyval where
  "pending_status = educates_status [(''phase'', PStr ''Pending''), (''message'', PStr ''Workshop lab is not available.'')]"

definition waiting_request :: "nat \<Rightarrow> environment_request" where
  "waiting_request n = lab_environment
     \<lparr>er_status := (if n = 0 then PDict [] else pending_status), er_retry := int n, er_runtime := int n * (30 * 1000000)\<rparr>"

lemma waiting_attempt:
  assumes "n < 10"
  shows "workshop_environment_create empty_world (waiting_request n) [] =
    (Inl (Raised (TemporaryError 30)), [SetStatus pending_status, Get ''Workshop'' PNone (PStr ''lab'')])"
proof -
  have overdue: "\<not> environment_overdue (waiting_request n)"
    using assms by (simp add: environment_overdue_def waiting_request_def)
  have rest: "er_spec (waiting_request n) = er_spec lab_environment" "er_meta (waiting_request n) = PDict []"
    by (simp_all add: waiting_request_def lab_environment_def)
  show ?thesis
    by (simp add: workshop_environment_create_def read_environment_def parent_portal_def label_or_empty_def
        find_workshop_definition_def environment_outcome_run kube_get_def kube_simps report_trace overdue rest reported_def
        empty_world_def lab_world_def lab_config_def lab_environment_def pending_status_def)
qed

theorem environment_waiting_bounded_witness:
  "length (map (\<lambda>n. (empty_world, waiting_request n)) [0..<10]) \<le> 10"
proof (rule environment_waiting_bounded)
  have "next_attempt empty_world (waiting_request n) (waiting_request (Suc n))" if "n < 9" for n
    unfolding next_attempt_def
    by (rule exI [of _ "Raised (TemporaryError 30)"])
      (use waiting_attempt [of n] that in \<open>auto simp: waiting_request_def status_after_def pending_status_def
        environment_request.defs intro!: exI [of _ pending_status]\<close>)
  then show "successively (\<lambda>(w, rq) (w', rq'). next_attempt w rq rq') (map (\<lambda>n. (empty_world, waiting_request n)) [0..<10])"
    by (simp add: upt_rec numeral_eq_Suc)
  show "\<forall>a\<in>set (map (\<lambda>n. (empty_world, waiting_request n)) [0..<10]). left_pending a"
    by (auto simp: left_pending_def waiting_attempt pending_status_def)
qed (simp add: upt_rec waiting_request_def)

section \<open>Stranded environments\<close>

definition environment_phase :: "environment_request \<Rightarrow> pyval \<Rightarrow> bool" where
  "environment_phase rq p \<longleftrightarrow> lookup (er_status rq) ''educates.phase'' PNone = Inr p"

definition finds_own_namespace :: "operator_world \<Rightarrow> environment_request \<Rightarrow> bool" where
  "finds_own_namespace w rq \<longleftrightarrow>
     (\<forall>tr. \<exists>n. ka_get (ow_api w) tr ''Namespace'' PNone (PStr (er_name rq)) = Inr n \<and> resource_owned_by n (er_body rq) = Inr True)"

text \<open>Attempts that follow an attempt, while the namespace of the environment is there.\<close>

inductive retried :: "environment_request \<Rightarrow> environment_request \<Rightarrow> bool" where
  retried_first: "retried rq rq"
| retried_again: "retried rq rq' \<Longrightarrow> finds_own_namespace w rq' \<Longrightarrow> next_attempt w rq' rq'' \<Longrightarrow> retried rq rq''"

lemma runs_read_environment:
  "(\<And>t k ns n. P t (Get k ns n)) \<Longrightarrow> (\<And>t v. \<not> phase ''Retrying'' (Some v) \<Longrightarrow> P t (SetStatus v)) \<Longrightarrow> (\<And>t e d. P t (Report e d))
   \<Longrightarrow> runs P (read_environment w rq) tr"
  unfolding read_environment_def find_workshop_definition_def environment_given_up_def environment_outcome_def Let_def
  by (auto intro!: runs_intros)

text \<open>The workshop is there, and its definition makes sense.\<close>

definition readable :: "operator_world \<Rightarrow> environment_request \<Rightarrow> bool" where
  "readable w rq \<longleftrightarrow> (\<forall>tr. \<exists>ed t. read_environment w rq tr = (Inr ed, t))"

lemma create_environment_run:
  assumes "read_environment w rq (reported w ''Resource/Create'' (PDict (environment_event rq ''WorkshopEnvironment''))) = (r, t)"
  shows "workshop_environment_create w rq [] =
    (case r of
       Inl e \<Rightarrow> (Inl e, t)
     | Inr ed \<Rightarrow> kube_bind (find_environment_namespace w rq)
         (\<lambda>found. case found of Some namespace \<Rightarrow> occupied_namespace w rq namespace | None \<Rightarrow> deploy_environment w rq ed) t)"
  using assms
  by (simp add: workshop_environment_create_def kube_bind_def [of "report_analytics_event w e d" for e d]
      kube_bind_def [of "read_environment w rq"] report_trace)

lemma attempt_phase:
  "workshop_environment_create w rq [] = (Inl e, tr) \<Longrightarrow> final_status tr = None \<or> (\<exists>p. phase p (final_status tr))"
  using attempt_outcome [of w rq] by (auto simp: attempt_left_def left_waiting_def left_partial_def left_unmarked_def)

text \<open>An attempt that finds its own namespace, in a phase other than \<open>Retrying\<close>.\<close>

lemma own_namespace_attempt:
  assumes "finds_own_namespace w rq" and "environment_phase rq p" and "p \<noteq> PStr ''Retrying''"
  shows "\<exists>e tr. workshop_environment_create w rq [] = (Inl e, tr) \<and> written tr = [] \<and> \<not> phase ''Retrying'' (final_status tr)
    \<and> (readable w rq \<longrightarrow> e = Raised (TemporaryError 30))"
proof -
  define start where "start = reported w ''Resource/Create'' (PDict (environment_event rq ''WorkshopEnvironment''))"
  have quiet: "quiet start" by (simp add: start_def quiet_def)
  obtain r t where read: "read_environment w rq start = (r, t)" by fastforce
  have "runs (\<lambda>_ c. \<not> is_write c) (read_environment w rq) start" by (rule runs_read_environment) auto
  from runs_written [OF this read] have t: "written t = []" by (simp add: start_def written_def reported_def)
  have not: "\<not> phase ''Retrying'' (final_status t)"
  proof -
    have "runs (\<lambda>_ c. \<forall>v. c = SetStatus v \<longrightarrow> \<not> phase ''Retrying'' (Some v)) (read_environment w rq) start"
      by (rule runs_read_environment) auto
    moreover have "calls_ok (\<lambda>_ c. \<forall>v. c = SetStatus v \<longrightarrow> \<not> phase ''Retrying'' (Some v)) start new \<Longrightarrow>
        \<not> phase ''Retrying'' (final_status (new @ start))" for new
    proof (induction new)
      case Nil
      then show ?case using quiet by (simp add: quiet_def phase_def)
    next
      case (Cons c new)
      then show ?case by (cases c) auto
    qed
    ultimately show ?thesis using read by (auto simp: runs_def)
  qed
  note run = create_environment_run [OF read [unfolded start_def]]
  show ?thesis
  proof (cases r)
    case (Inl e)
    then show ?thesis using run t not read by (auto simp: readable_def dest: spec [of _ start])
  next
    case (Inr ed)
    from assms(1) obtain n where n: "ka_get (ow_api w) t ''Namespace'' PNone (PStr (er_name rq)) = Inr n"
      "resource_owned_by n (er_body rq) = Inr True" unfolding finds_own_namespace_def by blast
    from assms(2,3) have "occupied_namespace w rq n tr = environment_retry w rq ''Unknown''
        (''Workshop environment '' @ er_name rq @ '' in unexpected state '' @ py_str p @ ''.'') tr" for tr
      by (simp add: occupied_namespace_def n(2) environment_phase_def kube_simps)
    then show ?thesis using run Inr n(1) t
      by (simp add: find_environment_namespace_def kube_get_def kube_simps environment_outcomes written_def reported_def)
  qed
qed

text \<open>
  \<^bold>\<open>C23.\<close> One failed query can strand an environment. If the creation of an environment was interrupted, so that its namespace is
  there and its phase is \<open>Retrying\<close>, and the next query for the namespace fails, then the phase becomes \<open>Unknown\<close>. From then on, as long as
  the namespace is there, no attempt creates the environment, and none deletes its namespace to start again; the attempts
  go on without end.
\<close>

theorem environment_stranded:
  assumes "environment_phase rq (PStr ''Retrying'')" and "readable w rq"
    and "\<And>tr. ka_get (ow_api w) tr ''Namespace'' PNone (PStr (er_name rq)) = Inl (HTTPError code)"
    and "next_attempt w rq rq1" and "retried rq1 rq'" and "finds_own_namespace w' rq'"
  shows "\<exists>e tr. workshop_environment_create w' rq' [] = (Inl e, tr) \<and> written tr = []
    \<and> (readable w' rq' \<longrightarrow> e = Raised (TemporaryError 30))"
proof -
  obtain ed t where "read_environment w rq (reported w ''Resource/Create'' (PDict (environment_event rq ''WorkshopEnvironment''))) = (Inr ed, t)"
    using assms(2) unfolding readable_def by blast
  from create_environment_run [OF this] assms(3)
  have "\<exists>e tr. workshop_environment_create w rq [] = (Inl e, tr) \<and> phase ''Unknown'' (final_status tr)"
    by (simp add: find_environment_namespace_def kube_get_def kube_simps environment_outcomes)
  with next_attempt_status [OF assms(4)] have first: "environment_phase rq1 (PStr ''Unknown'')"
    by (auto simp: environment_phase_def dest: status_after_phase)
  from assms(5) have "\<exists>p. environment_phase rq' p \<and> p \<noteq> PStr ''Retrying''"
    using first
  proof induction
    case (retried_again rq1 rq' w rq'')
    then obtain p where p: "environment_phase rq' p" "p \<noteq> PStr ''Retrying''" by auto
    from own_namespace_attempt [OF retried_again.hyps(2) p] next_attempt_status [OF retried_again.hyps(3)]
    obtain tr e where tr: "\<not> phase ''Retrying'' (final_status tr)" "status_after (er_status rq') tr (er_status rq'')"
      and run: "workshop_environment_create w rq' [] = (Inl e, tr)"
      by auto
    from attempt_phase [OF run] show ?case
    proof
      assume "final_status tr = None"
      with tr(2) p show ?thesis by (auto simp: status_after_def environment_phase_def)
    next
      assume "\<exists>q. phase q (final_status tr)"
      then obtain q where q: "phase q (final_status tr)" by blast
      with tr(1) status_after_phase [OF tr(2) q] show ?thesis by (auto simp: environment_phase_def)
    qed
  qed auto
  then obtain p where "environment_phase rq' p" "p \<noteq> PStr ''Retrying''" by blast
  from own_namespace_attempt [OF assms(6) this] show ?thesis by blast
qed

text \<open>A workshop with images to be cached, a server that knows it and answers for the namespace, and an interrupted creation.\<close>

definition lab_workshop :: pyval where
  "lab_workshop =
     PDict [(''metadata'', PDict [(''uid'', PStr ''1''), (''generation'', PInt 1)]),
            (''spec'', PDict [
              (''session'', PDict [(''applications'', PDict [(''vcluster'', PDict [(''enabled'', PBool True)])])]),
              (''environment'', PDict [(''images'', PDict [
                 (''storage'', PStr ''5Gi''), (''registries'', PList [PDict [(''urls'', PList [PStr ''https://ghcr.io''])]])])])])]"

definition workshop_world :: "(kube_call list \<Rightarrow> kube_error + pyval) \<Rightarrow> operator_world" where
  "workshop_world namespace = lab_world
     \<lparr>ow_config := lab_config\<lparr>oc_images := [(''base-environment'', PStr ''base:1''), (''image-cache'', PStr ''cache:1'')],
                              oc_storage_user := PInt 1\<rparr>,
      ow_api := ow_api lab_world\<lparr>ka_get := \<lambda>tr k ns n. if k = ''Workshop'' then Inr lab_workshop else namespace tr\<rparr>\<rparr>"

definition lab_environment_namespace :: pyval where
  "lab_environment_namespace =
     PDict [(''metadata'', PDict [(''name'', PStr ''w01''), (''ownerReferences'', PList [PDict [
       (''apiVersion'', PStr ''v1''), (''kind'', PStr ''WorkshopEnvironment''), (''name'', PStr ''w01''), (''uid'', PStr ''2'')]])])]"

definition interrupted :: environment_request where
  "interrupted = lab_environment\<lparr>er_status := educates_status [(''phase'', PStr ''Retrying'')], er_retry := 1\<rparr>"

definition unknown_status :: pyval where
  "unknown_status = educates_status [(''phase'', PStr ''Unknown''), (''message'', PStr ''Unexpected error querying namespace w01.'')]"

definition stranded :: environment_request where
  "stranded = interrupted\<lparr>er_status := unknown_status, er_retry := 2, er_runtime := 30 * 1000000\<rparr>"

lemma lab_workshop_read:
  "\<exists>ed. bindE (identify_environment lab_environment (PStr [], PStr []) (PStr ''lab'') lab_workshop)
     (patch_applications (ow_config (workshop_world ns))) = Inr ed"
proof -
  have "case bindE (identify_environment lab_environment (PStr [], PStr []) (PStr ''lab'') lab_workshop)
      (patch_applications (ow_config (workshop_world (\<lambda>_. Inr PNone)))) of Inl _ \<Rightarrow> False | Inr _ \<Rightarrow> True"
    by code_simp
  then show ?thesis by (auto simp: workshop_world_def split: sum.splits)
qed

lemma workshop_world_readable: "readable (workshop_world ns) interrupted" "readable (workshop_world ns) stranded"
proof -
  obtain ed where ed: "bindE (identify_environment lab_environment (PStr [], PStr []) (PStr ''lab'') lab_workshop)
     (patch_applications (ow_config (workshop_world ns))) = Inr ed" using lab_workshop_read by blast
  have "identify_environment rq = identify_environment lab_environment" if "rq \<in> {interrupted, stranded}" for rq
    using that by (auto simp: fun_eq_iff identify_environment_def interrupted_def stranded_def)
  with ed show "readable (workshop_world ns) interrupted" "readable (workshop_world ns) stranded"
    by (auto simp: readable_def read_environment_def parent_portal_def label_or_empty_def find_workshop_definition_def kube_get_def
        kube_simps interrupted_def stranded_def lab_environment_def workshop_world_def)
qed

theorem environment_stranded_witness:
  "\<exists>tr. workshop_environment_create (workshop_world (\<lambda>_. Inr lab_environment_namespace)) stranded [] = (Inl (Raised (TemporaryError 30)), tr)
     \<and> written tr = []"
proof -
  let ?failing = "workshop_world (\<lambda>_. Inl (HTTPError 500))" and ?answering = "workshop_world (\<lambda>_. Inr lab_environment_namespace)"
  have "case workshop_environment_create ?failing interrupted [] of
      (r, tr) \<Rightarrow> r = Inl (Raised (TemporaryError 30)) \<and> final_status tr = Some unknown_status"
    by code_simp
  then obtain tr where "workshop_environment_create ?failing interrupted [] = (Inl (Raised (TemporaryError 30)), tr)"
    "final_status tr = Some unknown_status" by (auto split: prod.splits)
  then have later: "next_attempt ?failing interrupted stranded"
    unfolding next_attempt_def
    by (intro exI [of _ "Raised (TemporaryError 30)"] exI [of _ tr] exI [of _ unknown_status])
      (auto simp: status_after_def stranded_def interrupted_def lab_environment_def)
  have "resource_owned_by lab_environment_namespace (er_body stranded) = Inr True" by code_simp
  then have own: "finds_own_namespace ?answering stranded" by (simp add: finds_own_namespace_def workshop_world_def)
  have "environment_phase interrupted (PStr ''Retrying'')"
    by (simp add: environment_phase_def interrupted_def lookup_def educates_status_def)
  from environment_stranded [OF this workshop_world_readable(1) _ later retried_first own, of 500] workshop_world_readable(2)
  show ?thesis by (auto simp: workshop_world_def)
qed

section \<open>Storage for the image cache\<close>

text \<open>What the applications of a workshop change is its session.\<close>

definition outside_session :: "pyval \<Rightarrow> string \<Rightarrow> pyval result" where
  "outside_session spec k = (if k = ''session'' then Inr PNone else py_get spec k)"

lemma set_session_outside: "put_path [''session''] k v spec = Inr spec' \<Longrightarrow> outside_session spec' = outside_session spec"
  by (cases spec) (auto simp: put_path_def set_key_def outside_session_def fun_eq_iff elim!: bindE_InrE)

lemma overlay_one_key: "overlay a (PDict d) (PDict [(k, p)]) = Inr spec' \<Longrightarrow> \<exists>v. spec' = PDict (dict_set k v d)"
  by (auto simp: bindE_Inr_iff)

lemma overlay_nothing: "overlay a v (PDict []) = Inr v"
  by (cases v) simp_all

lemma overlay_one_dict: "overlay a v (PDict [(k, p)]) = Inr v' \<Longrightarrow> \<exists>d. v = PDict d"
  by (cases v) simp_all

lemma overlay_session_outside:
  assumes "overlay a spec p = Inr spec'" and "p = PDict [] \<or> (\<exists>v. p = PDict [(''session'', v)])"
  shows "outside_session spec' = outside_session spec"
  using assms(2)
proof
  assume "\<exists>v. p = PDict [(''session'', v)]"
  then obtain v where p: "p = PDict [(''session'', v)]" ..
  from overlay_one_dict [OF assms(1) [unfolded p]] obtain d where d: "spec = PDict d" ..
  from overlay_one_key [OF assms(1) [unfolded p d]] obtain v' where "spec' = PDict (dict_set ''session'' v' d)" ..
  then show ?thesis by (simp add: d outside_session_def fun_eq_iff)
qed (use assms(1) overlay_nothing in simp)

lemma store_outside: "store_applications c ed = Inr ed' \<Longrightarrow> outside_session (we_spec ed') = outside_session (we_spec ed)"
  by (cases "we_apart ed") (auto simp: store_applications_def bindE_Inr_iff dest: set_session_outside)

lemma properties_outside:
  "environment_properties a ed = Inr ed' \<Longrightarrow> outside_session (we_spec ed') = outside_session (we_spec ed)"
  "environment_property a k d ed = Inr (v, ed') \<Longrightarrow> outside_session (we_spec ed') = outside_session (we_spec ed)"
  unfolding environment_properties_def environment_property_def
  by (auto elim!: bindE_InrE split: prod.splits dest: store_outside)

lemma patch_session_only:
  assumes "workshop_spec_patches cfg a spec = Inr patch" and "py_get_or patch ''spec'' (PDict []) = Inr p"
  shows "p = PDict [] \<or> (\<exists>v. p = PDict [(''session'', v)])"
  using assms
  by (auto simp: workshop_spec_patches_def git_workshop_spec_patches_def vcluster_workshop_spec_patches_def
      elim!: bindE_InrE split: if_splits)

lemma patch_outside:
  assumes "patch_workshop cfg a ed = Inr ed'"
  shows "outside_session (we_spec ed') = outside_session (we_spec ed)"
proof -
  from assms consider "ed' = ed" | ed1 patch p spec where "environment_properties a ed = Inr ed1"
    "workshop_spec_patches cfg a (we_spec ed1) = Inr patch" "py_get_or patch ''spec'' (PDict []) = Inr p"
    "overlay ''name'' (we_spec ed1) p = Inr spec" "ed' = ed1\<lparr>we_spec := spec\<rparr>"
    unfolding patch_workshop_def by (auto elim!: bindE_InrE split: if_splits)
  then show ?thesis
  proof cases
    case 2
    with overlay_session_outside [OF 2(4) patch_session_only [OF 2(2,3)]] properties_outside(1) [OF 2(1)] show ?thesis by simp
  qed simp
qed

lemma open_outside: "open_applications ed = Inr ed' \<Longrightarrow> we_spec ed' = we_spec ed"
  by (auto simp: open_applications_def elim!: bindE_InrE)

lemma patches_outside: "patch_applications cfg ed = Inr ed' \<Longrightarrow> outside_session (we_spec ed') = outside_session (we_spec ed)"
  unfolding patch_applications_def
  by (auto elim!: bindE_InrE dest!: open_outside foldE_keeps [where g = "\<lambda>ed. outside_session (we_spec ed)", OF _ patch_outside])

lemma lookup_outside:
  assumes "outside_session spec' = outside_session spec" and "split_on CHR ''.'' path = k # ks" and "k \<noteq> ''session''"
  shows "lookup spec' path d = lookup spec path d"
  using fun_cong [OF assms(1), of k] assms(2,3) by (simp add: lookup_def outside_session_def)

text \<open>Storage, and at least one registry, for the images of a workshop.\<close>

definition stores_images :: "pyval \<Rightarrow> bool" where
  "stores_images spec \<longleftrightarrow>
     (\<exists>storage r rs. lookup spec ''environment.images.storage'' (PStr []) = Inr storage \<and> truthy storage
        \<and> lookup spec ''environment.images.registries'' (PList []) = Inr (PList (r # rs)))"

lemma stores_images_outside:
  assumes "outside_session spec' = outside_session spec"
  shows "stores_images spec' = stores_images spec"
proof -
  have "lookup spec' path d = lookup spec path d" if "split_on CHR ''.'' path = ''environment'' # ks" for path ks d
    by (rule lookup_outside [OF assms that]) simp
  note paths = this [of "''environment.images.storage''"] this [of "''environment.images.registries''"]
  show ?thesis unfolding stores_images_def by (simp add: paths)
qed

lemma without_init_containers:
  "change_path (pod_spec_path @ [''initContainers'']) f (image_cache_deployment cfg ed pull memory) = Inl KeyError"
  by (simp add: pod_spec_path_def image_cache_deployment_def)

lemma image_cache_refused:
  assumes "stores_images (we_spec ed)" and "truthy (oc_storage_user (ow_config w))"
  shows "deploy_image_cache w vars namespace ed tr \<noteq> (Inr u, tr')"
proof -
  have "image_cache_objects w ed storage memory ingress registries \<noteq> Inr objects" if "truthy storage" for storage memory ingress registries objects
    using that assms(2)
    by (auto simp: image_cache_objects_def image_cache_storage_def with_storage_def without_init_containers Let_def elim!: bindE_InrE)
  moreover have "truthy v" if "substituted vs (PList (r # rs)) = Inr v" for vs r rs v
    using that by (auto elim!: bindE_InrE)
  ultimately show ?thesis
    using assms(1) unfolding deploy_image_cache_def Let_def stores_images_def
    by (auto elim!: inr_elims split: if_splits)
qed

lemma mirror_outside: "deploy_mirror w vars namespace ed tr = (Inr ed', tr') \<Longrightarrow> outside_session (we_spec ed') = outside_session (we_spec ed)"
  unfolding deploy_mirror_def
  by (auto elim!: inr_elims simp: kube_return_def split: if_splits prod.splits) (metis properties_outside(2))

lemma configuration_spec: "save_configuration w rq ed namespace tr = (Inr ed', tr') \<Longrightarrow> we_spec ed' = we_spec ed"
  unfolding save_configuration_def read_images_def by (auto elim!: inr_elims simp: kube_return_def)

lemma provision_refused:
  assumes "stores_images (we_spec ed)" and "truthy (oc_storage_user (ow_config w))"
  shows "provision_environment w rq ed namespace tr \<noteq> (Inr ed', tr')"
proof
  assume "provision_environment w rq ed namespace tr = (Inr ed', tr')"
  then obtain ed1 ed2 vars t1 t2 t3 t4 where conf: "save_configuration w rq ed namespace t1 = (Inr ed1, t2)"
    and services: "deploy_services w vars namespace ed1 t3 = (Inr ed2, t4)"
    unfolding provision_environment_def by (elim inr_elims) (rule that)
  from services obtain ed3 t5 t6 where mirror: "deploy_mirror w vars namespace ed1 t3 = (Inr ed3, t5)"
    and cache: "deploy_image_cache w vars namespace ed3 t5 = (Inr (), t6)"
    unfolding deploy_services_def by (elim inr_elims) simp
  from stores_images_outside [OF mirror_outside [OF mirror]] configuration_spec [OF conf] assms(1)
  have "stores_images (we_spec ed3)" by simp
  from image_cache_refused [OF this assms(2)] cache show False by blast
qed

text \<open>
  \<^bold>\<open>C24.\<close> Where the cluster needs the ownership of volumes to be set, an environment whose workshop stores cached images is never
  created, whatever the API answers: the container that sets the ownership is put before the containers that initialise the pod
  of the image cache, and that pod has no list of these. Every attempt ends in an exception, after it created part of the
  environment.
\<close>

theorem stored_images_never_deployed:
  assumes "truthy (oc_storage_user (ow_config w))"
    and "\<And>tr name workshop. ka_get (ow_api w) tr ''Workshop'' PNone name = Inr workshop \<Longrightarrow>
      \<exists>spec. py_get_or workshop ''spec'' (PDict []) = Inr spec \<and> stores_images spec"
  shows "\<exists>e. fst (workshop_environment_create w rq []) = Inl e"
proof -
  have spec: "stores_images (we_spec ed)" if read: "read_environment w rq tr = (Inr ed, tr')" for ed tr tr'
  proof -
    from read obtain portal name workshop t ed1 where "find_workshop_definition w rq name tr = (Inr workshop, t)"
      and ed1: "identify_environment rq portal name workshop = Inr ed1" and ed: "patch_applications (ow_config w) ed1 = Inr ed"
      unfolding read_environment_def by (auto elim!: inr_elims)
    then obtain t where "ka_get (ow_api w) t ''Workshop'' PNone name = Inr workshop"
      by (auto simp: find_workshop_definition_def kube_get_def kube_simps environment_outcomes Let_def split: sum.splits if_splits)
    from assms(2) [OF this] ed1 have "stores_images (we_spec ed1)"
      unfolding identify_environment_def by (auto elim!: bindE_InrE)
    with stores_images_outside [OF patches_outside [OF ed]] show ?thesis by simp
  qed
  have "deploy_environment w rq ed tr \<noteq> (Inr u, tr')" if "stores_images (we_spec ed)" for ed tr tr' u
    using provision_refused [OF that assms(1)] unfolding deploy_environment_def by (auto elim!: inr_elims)
  moreover have "occupied_namespace w rq namespace tr \<noteq> (Inr u, tr')" for namespace tr tr' u
    by (auto simp: occupied_namespace_def delete_environment_namespace_def kube_write_def kube_simps environment_outcomes Let_def
        split: sum.splits if_splits)
  ultimately have "workshop_environment_create w rq [] \<noteq> (Inr u, tr')" for u tr'
    unfolding workshop_environment_create_def by (auto elim!: inr_elims dest!: spec split: option.splits)
  then show ?thesis by (cases "workshop_environment_create w rq []"; cases "fst (workshop_environment_create w rq [])") auto
qed

theorem stored_images_never_deployed_witness:
  "\<exists>e. fst (workshop_environment_create (workshop_world (\<lambda>tr. if creations tr = [] then Inl ObjectDoesNotExist else Inr lab_environment_namespace))
         lab_environment []) = Inl e"
proof (rule stored_images_never_deployed)
  show "truthy (oc_storage_user (ow_config (workshop_world ns)))" for ns by (simp add: workshop_world_def)
  fix tr name workshop
  assume "ka_get (ow_api (workshop_world (\<lambda>tr. if creations tr = [] then Inl ObjectDoesNotExist else Inr lab_environment_namespace)))
      tr ''Workshop'' PNone name = Inr workshop"
  then have "workshop = lab_workshop" by (simp add: workshop_world_def)
  then show "\<exists>spec. py_get_or workshop ''spec'' (PDict []) = Inr spec \<and> stores_images spec"
    by (simp add: lab_workshop_def stores_images_def lookup_def)
qed

end
