(* ===== verification/Environment_Ownership.thy ===== *)
theory Environment_Ownership
  imports Environment_Attempts Session_Ownership
begin

text \<open>
  What the creation of a workshop environment writes: only after its namespace was found to be missing, owned by that
  namespace or in it, and labelled with the name of the environment.
\<close>

section \<open>Marked objects\<close>

definition environment_mark :: "environment_request \<Rightarrow> (string \<times> pyval) list" where
  "environment_mark rq = [(''training.educates.dev/environment.name'', PStr (er_name rq))]"

text \<open>The cluster policy that holds the rules of the environment has no labels.\<close>

definition is_policy :: "environment_request \<Rightarrow> pyval \<Rightarrow> bool" where
  "is_policy rq obj \<longleftrightarrow>
     kind_of obj = Some (PStr ''ClusterPolicy'') \<and> name_of obj = Some (PStr (''educates-environment-'' @ er_name rq))"

definition environment_marked :: "environment_request \<Rightarrow> pyval \<Rightarrow> bool" where
  "environment_marked rq obj \<longleftrightarrow> labelled (environment_mark rq) obj \<or> is_policy rq obj"

definition environment_object_own :: "environment_request \<Rightarrow> pyval \<Rightarrow> bool" where
  "environment_object_own rq obj \<longleftrightarrow> (owned obj \<or> in_namespace (PStr (er_name rq)) obj) \<and> environment_marked rq obj"

lemma labelled_metadata: "labelled ls obj \<Longrightarrow> metadata_of obj \<noteq> None"
  by (auto simp: labelled_def)

lemma adopted_marked:
  assumes "adopt_adds w" and "adopt_owns w" and "environment_marked rq obj"
  shows "environment_object_own rq (ow_adopt w obj namespace)"
proof -
  have "metadata_of obj \<noteq> None"
    using assms(3) by (auto simp: environment_marked_def is_policy_def name_of_def dest: labelled_metadata split: option.splits)
  with assms(2) have "owned (ow_adopt w obj namespace)" "name_of (ow_adopt w obj namespace) = name_of obj"
    by (simp_all add: adopt_owns_def)
  with assms show ?thesis by (auto simp: environment_object_own_def environment_marked_def adopt_adds_def is_policy_def)
qed

lemma component_labels_name [simp]:
  "dict_get (component_labels c ed @ extra) ''training.educates.dev/environment.name'' = Some (PStr (we_name ed))"
  "dict_get (component_labels c ed) ''training.educates.dev/environment.name'' = Some (PStr (we_name ed))"
  by (simp_all add: component_labels_def)

lemmas environment_bodies =
  environment_namespace_body_def environment_psp_binding_def environment_scc_binding_def environment_policy_binding_def
  environment_network_body_def workshop_config_secret_def web_console_role_def environment_copier_def services_account_def
  mirror_claim_def mirror_deployment_def mirror_service_def image_cache_deployment_def image_cache_service_def service_claim_def
  service_config_map_def service_ingress_def assets_deployment_def assets_service_def tunnel_account_def tunnel_binding_def
  tunnel_deployment_def tunnel_service_def

lemma bodies_marked_for_environment:
  assumes "we_name ed = er_name rq"
  shows "labelled (environment_mark rq) (environment_namespace_body cfg ed)" "labelled (environment_mark rq) (environment_psp_binding ed)"
    "labelled (environment_mark rq) (environment_scc_binding ed)" "labelled (environment_mark rq) (environment_network_body ed egress)"
    "labelled (environment_mark rq) (workshop_config_secret ed data)" "labelled (environment_mark rq) (web_console_role ed)"
    "labelled (environment_mark rq) (environment_copier stem ed rules)" "labelled (environment_mark rq) (services_account ed)"
    "labelled (environment_mark rq) (mirror_claim cfg ed st)" "labelled (environment_mark rq) (mirror_deployment cfg ed pull memory)"
    "labelled (environment_mark rq) (mirror_service ed)" "labelled (environment_mark rq) (image_cache_deployment cfg ed pull memory)"
    "labelled (environment_mark rq) (image_cache_service ed)" "labelled (environment_mark rq) (service_claim cfg ed name st)"
    "labelled (environment_mark rq) (service_config_map ed name data)" "labelled (environment_mark rq) (service_ingress cfg ed name host)"
    "labelled (environment_mark rq) (assets_deployment cfg ed pull base_pull memory)" "labelled (environment_mark rq) (assets_service ed)"
    "labelled (environment_mark rq) (tunnel_account ed)" "labelled (environment_mark rq) (tunnel_binding ed)"
    "labelled (environment_mark rq) (tunnel_deployment cfg ed pull memory)" "labelled (environment_mark rq) (tunnel_service ed)"
  using assms by (simp_all add: environment_bodies metadata_of_def labelled_def environment_mark_def)

text \<open>Changes to the specification of a deployment leave its labels.\<close>

lemma change_pod_marked:
  assumes "change_path (pod_spec_path @ ks) f obj = Inr obj'" and "labelled (environment_mark rq) obj"
  shows "labelled (environment_mark rq) obj'"
proof -
  from assms(1) have "change_path (''spec'' # [''template'', ''spec''] @ ks) f obj = Inr obj'" by (simp add: pod_spec_path_def)
  then obtain d v where "obj = PDict d" and "obj' = PDict (dict_set ''spec'' v d)"
    by (cases obj) (auto simp: set_key_def elim!: bindE_InrE)
  with assms(2) show ?thesis by (auto simp: labelled_def metadata_of_def)
qed

lemma storage_marked:
  assumes "with_storage cfg ed name storage base_pull deployment = Inr (claims, deployment')" and "we_name ed = er_name rq"
    and "labelled (environment_mark rq) deployment"
  shows "labelled (environment_mark rq) deployment' \<and> (\<forall>obj\<in>set claims. labelled (environment_mark rq) obj)"
  using assms(1,3) bodies_marked_for_environment(14) [OF assms(2)]
  unfolding with_storage_def by (auto elim!: bindE_InrE split: if_splits intro: change_pod_marked)

lemma mirror_marked:
  assumes "mirror_objects cfg ed memory storage = Inr objs" and "we_name ed = er_name rq"
  shows "\<forall>obj\<in>set objs. labelled (environment_mark rq) obj"
  using assms(1) bodies_marked_for_environment(9-11) [OF assms(2)] change_pod_marked [where ks = "[]"]
  unfolding mirror_objects_def put_path_def by (auto elim!: bindE_InrE split: if_splits)

lemma image_cache_marked:
  assumes "image_cache_objects w ed storage memory ingress registries = Inr objs" and "we_name ed = er_name rq"
  shows "\<forall>obj\<in>set objs. labelled (environment_mark rq) obj"
  using assms(1) bodies_marked_for_environment(12-16) [OF assms(2)] storage_marked [OF _ assms(2)]
  unfolding image_cache_objects_def image_cache_storage_def image_cache_config_map_def image_cache_ingress_def Let_def
  by (fastforce elim!: bindE_InrE split: if_splits)

lemma assets_marked:
  assumes "assets_objects w ed storage memory ingress files = Inr objs" and "we_name ed = er_name rq"
  shows "\<forall>obj\<in>set objs. labelled (environment_mark rq) obj"
  using assms(1) bodies_marked_for_environment(14-18) [OF assms(2)] storage_marked [OF _ assms(2)]
  unfolding assets_objects_def assets_storage_def assets_config_map_def assets_ingress_def Let_def
  by (fastforce elim!: bindE_InrE split: if_splits)

lemma tunnel_marked:
  assumes "we_name ed = er_name rq"
  shows "\<forall>obj\<in>set (tunnel_objects cfg ed pull memory). labelled (environment_mark rq) obj"
  using bodies_marked_for_environment(19-22) [OF assms] by (simp add: tunnel_objects_def)

section \<open>Writes\<close>

text \<open>What may be written once the namespace was found to be missing.\<close>

definition own_write :: "operator_world \<Rightarrow> environment_request \<Rightarrow> kube_call list \<Rightarrow> kube_call \<Rightarrow> bool" where
  "own_write w rq tr c \<longleftrightarrow>
     (case c of
        Create obj \<Rightarrow> environment_object_own rq obj
      | Delete obj \<Rightarrow>
          listed (ow_api w) tr ''LimitRange'' (PStr (er_name rq)) obj \<or> listed (ow_api w) tr ''ResourceQuota'' (PStr (er_name rq)) obj
      | _ \<Rightarrow> \<not> is_write c)"

lemma own_write_simps [simp]:
  "own_write w rq tr (SetStatus v)" "own_write w rq tr (Get k ns n)" "own_write w rq tr (Query k ns)" "own_write w rq tr Pause"
  "own_write w rq tr (Draw i)" "own_write w rq tr (Report e d)" "own_write w rq tr (Create obj) \<longleftrightarrow> environment_object_own rq obj"
  by (simp_all add: own_write_def)

text \<open>An API server and a framework that do as documented, and a name without references to variables.\<close>

definition lawful :: "operator_world \<Rightarrow> environment_request \<Rightarrow> bool" where
  "lawful w rq \<longleftrightarrow> adopt_adds w \<and> adopt_owns w \<and> \<not> sublist ''$('' (er_name rq)"

lemma runs_own:
  assumes "lawful w rq" and "environment_marked rq obj"
  shows "runs (own_write w rq) (create_owned w namespace obj) tr"
  using assms adopted_marked [of w rq obj namespace] by (auto simp: lawful_def intro!: runs_owned)

lemma runs_own_labelled:
  assumes "lawful w rq" and "labelled (environment_mark rq) obj"
  shows "runs (own_write w rq) (create_owned w namespace obj) tr"
  using assms by (intro runs_own) (auto simp: environment_marked_def)

lemma runs_own_each:
  assumes "lawful w rq" and "\<forall>obj\<in>set objs. labelled (environment_mark rq) obj"
  shows "runs (own_write w rq) (kube_each (create_with_variables w vars namespace) objs) tr"
proof (intro runs_each)
  fix obj t assume "obj \<in> set objs"
  with assms show "runs (own_write w rq) (create_with_variables w vars namespace obj) t"
    unfolding create_with_variables_def
    by (intro runs_bind_lift runs_own_labelled) (auto simp: lawful_def environment_mark_def intro: substituted_label)
qed

lemma runs_secure_own:
  assumes "lawful w rq" and "we_name ed = er_name rq"
  shows "runs (own_write w rq) (secure_environment w ed namespace) tr"
proof -
  have "runs (own_write w rq) (delete_all w kind (PStr (we_name ed))) t" if "kind \<in> {''LimitRange'', ''ResourceQuota''}" for kind t
    using that assms(2) by (intro runs_delete_all) (auto simp: own_write_def)
  then show ?thesis
    unfolding secure_environment_def environment_policy_def restrict_network_def
    using assms bodies_marked_for_environment(2-4) [OF assms(2)]
    by (auto intro!: runs_bind runs_lift runs_return runs_own_labelled)
qed

lemma runs_configuration_own:
  assumes "lawful w rq" and "we_name ed = er_name rq"
  shows "runs (own_write w rq) (save_configuration w rq ed namespace) tr"
  unfolding save_configuration_def
  using assms bodies_marked_for_environment(5) [of _ rq]
  by (auto intro!: runs_bind_lift runs_bind runs_return runs_own_labelled simp: read_images_def elim!: bindE_InrE)

lemma runs_copies_own:
  assumes "lawful w rq" and "we_name ed = er_name rq"
  shows "runs (own_write w rq) (copy_secrets_into w rq ed namespace) tr"
  unfolding copy_secrets_into_def copy_ingress_secrets_def copy_workshop_secrets_def copy_environment_secrets_def copy_listed_secrets_def
    copy_theme_def ingress_secret_copier_def theme_secret_copier_def Let_def
  using assms(1) bodies_marked_for_environment(7) [OF assms(2)]
  by (auto intro!: runs_bind runs_lift runs_return runs_own_labelled)

lemma runs_services_own:
  assumes "lawful w rq" and "we_name ed = er_name rq"
  shows "runs (own_write w rq) (deploy_services w vars namespace ed) tr"
proof -
  note each = runs_own_each [OF assms(1)]
  have mirror: "runs (own_write w rq) (deploy_mirror w vars namespace ed) tr"
    unfolding deploy_mirror_def using assms(2)
    by (auto intro!: runs_bind_lift runs_bind runs_return dest!: properties_name(2) split: prod.splits)
      (rule each [OF mirror_marked])
  have cache: "runs (own_write w rq) (deploy_image_cache w vars namespace ed) t" if "we_name ed = er_name rq" for ed t
    unfolding deploy_image_cache_def Let_def using that
    by (auto intro!: runs_bind_lift runs_bind runs_return intro: each [OF image_cache_marked])
  have assets: "runs (own_write w rq) (deploy_assets w vars namespace ed) t" if "we_name ed = er_name rq" for ed t
    unfolding deploy_assets_def Let_def using that
    by (auto intro!: runs_bind_lift runs_bind runs_return elim!: bindE_InrE intro: each [OF assets_marked])
  have tunnel: "runs (own_write w rq) (deploy_tunnel w vars namespace ed) t" if "we_name ed = er_name rq" for ed t
    unfolding deploy_tunnel_def tunnel_enabled_def using that
    by (auto intro!: runs_bind_lift runs_bind runs_return each [OF tunnel_marked] elim!: bindE_InrE dest!: properties_name(2)
        split: prod.splits if_splits)
  have "we_name ed' = er_name rq" if "deploy_mirror w vars namespace ed tr = (Inr ed', tr')" for ed' tr'
    using that assms(2) unfolding deploy_mirror_def
    by (auto elim!: inr_elims simp: kube_return_def dest!: properties_name(2) split: if_splits prod.splits)
  then show ?thesis
    unfolding deploy_services_def by (intro runs_bind mirror cache assets tunnel)
qed

section \<open>Rules and objects\<close>

lemma kyverno_policies:
  assumes "kyverno_environment_rules policies spec (er_name rq) = Inr objs"
  shows "\<forall>obj\<in>set objs. is_policy rq obj"
  using assms
  by (auto simp: kyverno_environment_rules_def is_policy_def kind_of_def name_of_def metadata_of_def elim!: bindE_InrE split: if_splits)

lemma runs_rules_own:
  assumes "lawful w rq" and "we_name ed = er_name rq"
  shows "runs (own_write w rq) (create_rules w ed namespace) tr"
  unfolding create_rules_def
  using assms
  by (auto intro!: runs_return runs_bind_lift runs_each runs_own environment_marked_def [THEN iffD2] disjI2
      intro: kyverno_policies [THEN bspec])

lemma environment_object_marked:
  assumes "environment_object w vars ed namespace obj = Inr (ref, obj')" and "lawful w rq" and "we_name ed = er_name rq"
  shows "environment_object_own rq obj'"
proof -
  from assms(1) obtain o1 o2 where l: "add_labels (environment_object_labels ed) o1 = Inr o2"
    and last: "obj' = ow_adopt w o2 namespace \<or> (\<exists>v. set_annotation ''secretgen.carvel.dev/excluded-from-wildcard-matching'' v
      (ow_adopt w o2 namespace) = Inr obj')"
    unfolding environment_object_def Let_def by (elim bindE_InrE) (auto split: if_splits)
  have "distinct (map fst (environment_object_labels ed))"
    by (simp add: environment_object_labels_def component_labels_def)
  from add_labels_labelled [OF l this] have "labelled (environment_object_labels ed) o2" ..
  with assms(3) have "labelled (environment_mark rq) o2"
    by (auto simp: labelled_def environment_mark_def environment_object_labels_def component_labels_def)
  with assms(2) have "owned (ow_adopt w o2 namespace)" "labelled (environment_mark rq) (ow_adopt w o2 namespace)"
    by (auto simp: lawful_def adopt_owns_def adopt_adds_def dest: labelled_metadata)
  with last set_annotation_keeps [of _ _ _ obj' "environment_mark rq"] show ?thesis
    by (auto simp: environment_object_own_def environment_marked_def)
qed

lemma runs_object_own:
  assumes "lawful w rq" and "we_name ed = er_name rq"
  shows "runs (own_write w rq) (create_environment_object w rq vars ed namespace obj) tr"
  unfolding create_environment_object_def Let_def
  using environment_object_marked [OF _ assms]
  by (auto intro!: runs_bind_lift runs_bind runs_try runs_create runs_return runs_report runs_status runs_raise)

section \<open>The handler\<close>

lemma account_own: "we_name ed = er_name rq \<Longrightarrow> environment_object_own rq (services_account ed)"
  using bodies_marked_for_environment(8) [of ed rq]
  by (simp add: environment_object_own_def environment_marked_def in_namespace_def metadata_of_def services_account_def)

lemma runs_setup_environment_own:
  assumes "lawful w rq" and "we_name ed = er_name rq"
  shows "runs (own_write w rq) (provision_environment w rq ed namespace) tr"
  unfolding provision_environment_def
  using assms bodies_marked_for_environment(6) [of _ rq] account_own [of _ rq]
  by (auto intro!: runs_bind_lift runs_bind runs_each runs_return runs_status runs_create runs_secure_own runs_configuration_own
      runs_copies_own runs_services_own runs_rules_own runs_object_own runs_own_labelled
      dest!: configuration_name services_name objects_name split: prod.splits)

lemma runs_deploy_own:
  assumes "lawful w rq" and "we_name ed = er_name rq"
  shows "runs (own_write w rq) (deploy_environment w rq ed) tr"
proof -
  have "environment_object_own rq (ow_adopt w (environment_namespace_body (ow_config w) ed) (er_body rq))"
    using assms(1) bodies_marked_for_environment(1) [OF assms(2)]
    by (intro adopted_marked) (auto simp: lawful_def environment_marked_def)
  then show ?thesis
    unfolding deploy_environment_def create_environment_namespace_def
    by (auto intro!: runs_bind runs_try runs_create runs_get runs_status runs_raise runs_report runs_setup_environment_own assms)
qed

text \<open>
  What an attempt may write: it creates objects of the environment once it found the namespace to be missing, and deletes the default
  limits of the new namespace, or its own namespace of an attempt that failed, in the first five minutes.
\<close>

definition environment_write :: "operator_world \<Rightarrow> environment_request \<Rightarrow> kube_call list \<Rightarrow> kube_call \<Rightarrow> bool" where
  "environment_write w rq before c \<longleftrightarrow>
     (let absent = missing (ow_api w) before ''Namespace'' PNone (PStr (er_name rq)) in
      case c of
        Create obj \<Rightarrow> absent \<and> environment_object_own rq obj
      | Delete obj \<Rightarrow>
          absent \<and> (listed (ow_api w) before ''LimitRange'' (PStr (er_name rq)) obj
                     \<or> listed (ow_api w) before ''ResourceQuota'' (PStr (er_name rq)) obj)
          \<or> got (ow_api w) before ''Namespace'' PNone (PStr (er_name rq)) obj \<and> resource_owned_by obj (er_body rq) = Inr True
              \<and> environment_phase rq (PStr ''Retrying'') \<and> \<not> environment_overdue rq
      | _ \<Rightarrow> \<not> is_write c)"

lemma runs_occupied_own:
  assumes "got (ow_api w) tr ''Namespace'' PNone (PStr (er_name rq)) namespace"
  shows "runs (environment_write w rq) (occupied_namespace w rq namespace) tr"
  unfolding occupied_namespace_def delete_environment_namespace_def environment_retry_def environment_given_up_def
    environment_outcome_def Let_def
  using assms
  by (auto intro!: runs_bind_lift runs_bind runs_try runs_status runs_report runs_raise runs_write runs_return
      simp: environment_write_def environment_phase_def Let_def)

lemma runs_free_own:
  assumes "missing (ow_api w) tr ''Namespace'' PNone (PStr (er_name rq))" and "lawful w rq" and "we_name ed = er_name rq"
  shows "runs (environment_write w rq) (deploy_environment w rq ed) tr"
proof (rule runs_mono [OF runs_deploy_own [OF assms(2,3)]])
  fix b c assume "own_write w rq (b @ tr) c"
  moreover have "missing (ow_api w) (b @ tr) ''Namespace'' PNone (PStr (er_name rq))"
    using assms(1) unfolding missing_def by (metis append.assoc)
  ultimately show "environment_write w rq (b @ tr) c"
    by (cases c) (auto simp: own_write_def environment_write_def)
qed

text \<open>
  \<^bold>\<open>C19.\<close> An attempt to create an environment never touches what belongs to somebody else. Nothing is created
  unless the namespace was found to be missing, and everything that is created is owned or in that namespace, and has the
  label of the environment, but for the cluster policy, which has its name. A namespace that is there is deleted only if
  the environment owns it, its creation is being retried, and five minutes are not over.
\<close>

theorem environment_writes_own:
  assumes "lawful w rq" and "snd (workshop_environment_create w rq []) = later @ c # before"
  shows "environment_write w rq before c"
proof -
  have read: "runs (environment_write w rq) (read_environment w rq) tr" for tr
    by (rule runs_read_environment) (simp_all add: environment_write_def)
  have find: "runs (environment_write w rq) (find_environment_namespace w rq) tr" for tr
    unfolding find_environment_namespace_def environment_retry_def environment_outcome_def
    by (auto intro!: runs_intros simp: environment_write_def)
  have found: "case found of None \<Rightarrow> missing (ow_api w) t ''Namespace'' PNone (PStr (er_name rq))
      | Some n \<Rightarrow> got (ow_api w) t ''Namespace'' PNone (PStr (er_name rq)) n"
    if "find_environment_namespace w rq tr = (Inr found, t)" for found tr t
    using that
    by (auto simp: find_environment_namespace_def kube_get_def kube_simps environment_outcomes got_now missing_now
        split: sum.splits if_splits)
  have "runs (environment_write w rq) (workshop_environment_create w rq) []"
    unfolding workshop_environment_create_def
    by (intro runs_bind runs_report read find)
      (auto simp: environment_write_def dest!: found read_name split: option.splits
        intro: runs_free_own [OF _ assms(1)] runs_occupied_own)
  from runs_call [OF this assms(2)] show ?thesis by simp
qed

text \<open>A server that accepts the namespace and refuses what comes next.\<close>

definition refusing_world :: operator_world where
  "refusing_world =
     (let w = workshop_world (\<lambda>tr. if creations tr = [] then Inl ObjectDoesNotExist else Inr lab_environment_namespace) in
      w\<lparr>ow_adopt := adopting,
        ow_api := ow_api w\<lparr>ka_write := \<lambda>tr c. case c of
          Create obj \<Rightarrow> if kind_of obj = Some (PStr ''Namespace'') then Inr PNone else Inl (HTTPError 403)
        | _ \<Rightarrow> Inr PNone\<rparr>\<rparr>)"

definition refused_calls :: "kube_call list" where
  "refused_calls = snd (workshop_environment_create refusing_world lab_environment [])"

theorem environment_writes_own_witness:
  "map kind_of (creations refused_calls) = [Some (PStr ''Namespace''), Some (PStr ''Secret'')]
   \<and> (\<exists>later obj before. refused_calls = later @ Create obj # before \<and> kind_of obj = Some (PStr ''Secret'')
        \<and> environment_write refusing_world lab_environment before (Create obj))"
proof -
  have "map kind_of (creations refused_calls) = [Some (PStr ''Namespace''), Some (PStr ''Secret'')]" by code_simp
  moreover have "case hd refused_calls of Create obj \<Rightarrow> kind_of obj = Some (PStr ''Secret'') | _ \<Rightarrow> False" by code_simp
  then obtain obj where obj: "hd refused_calls = Create obj" "kind_of obj = Some (PStr ''Secret'')" by (auto split: kube_call.splits)
  have "refused_calls \<noteq> []" by code_simp
  with obj(1) have calls: "refused_calls = [] @ Create obj # tl refused_calls" by (metis append_Nil list.collapse)
  have "\<not> sublist ''$('' (er_name lab_environment)" by code_simp
  then have "lawful refusing_world lab_environment"
    using adopting_world_adopts by (simp add: lawful_def refusing_world_def adopting_world_def adopt_adds_def adopt_owns_def Let_def)
  from environment_writes_own [OF this, of "[]" "Create obj" "tl refused_calls"] calls
  have "environment_write refusing_world lab_environment (tl refused_calls) (Create obj)" by (simp add: refused_calls_def)
  ultimately show ?thesis using calls obj(2) by blast
qed

end
