(* ===== verification/Environment_Links.thy ===== *)
theory Environment_Links
  imports Environment_Attempts Session_Phases
begin

text \<open>
  Environments and sessions: what the handler of an environment leaves in the status of the resource is what the handler of a
  session reads from it.
\<close>

section \<open>What is kept of the workshop\<close>

text \<open>The services of an environment change at most the session of the specification.\<close>

definition workshop_kept :: "environment_details \<Rightarrow> pyval \<times> pyval \<times> pyval \<times> (string \<Rightarrow> pyval result)" where
  "workshop_kept ed = (we_workshop_name ed, we_workshop_uid ed, we_workshop_generation ed, outside_session (we_spec ed))"

lemma put_kept:
  "open_applications ed = Inr ed' \<Longrightarrow> workshop_kept ed' = workshop_kept ed"
  "store_applications c ed = Inr ed' \<Longrightarrow> workshop_kept ed' = workshop_kept ed"
proof -
  show "open_applications ed = Inr ed' \<Longrightarrow> workshop_kept ed' = workshop_kept ed"
    unfolding open_applications_def by (elim bindE_InrE) (auto simp: workshop_kept_def)
  assume store: "store_applications c ed = Inr ed'"
  then have "\<exists>spec apart. ed' = ed\<lparr>we_spec := spec, we_apart := apart\<rparr>"
  proof (cases "we_apart ed")
    case None
    with store show ?thesis unfolding store_applications_def by (simp add: bindE_Inr_iff) (metis environment_details.surjective environment_details.update_convs(10))
  next
    case (Some v)
    with store have "ed' = ed\<lparr>we_spec := we_spec ed, we_apart := Some c\<rparr>" by (simp add: store_applications_def)
    then show ?thesis by blast
  qed
  with store_outside [OF store] show "workshop_kept ed' = workshop_kept ed" by (auto simp: workshop_kept_def)
qed

lemma properties_kept:
  "environment_properties a ed = Inr ed' \<Longrightarrow> workshop_kept ed' = workshop_kept ed"
  "environment_property a k d ed = Inr (v, ed') \<Longrightarrow> workshop_kept ed' = workshop_kept ed"
  unfolding environment_properties_def environment_property_def
  by (auto elim!: bindE_InrE split: prod.splits dest: put_kept(2))

lemma patch_kept:
  assumes "patch_workshop cfg a ed = Inr ed'"
  shows "workshop_kept ed' = workshop_kept ed"
proof -
  from assms have "ed' = ed \<or> (\<exists>ed1 spec. environment_properties a ed = Inr ed1 \<and> ed' = ed1\<lparr>we_spec := spec\<rparr>)"
    unfolding patch_workshop_def by (elim bindE_InrE) (auto elim!: bindE_InrE split: if_splits)
  with properties_kept(1) [of a ed] patch_outside [OF assms] show ?thesis by (auto simp: workshop_kept_def)
qed

lemma patches_kept: "patch_applications cfg ed = Inr ed' \<Longrightarrow> workshop_kept ed' = workshop_kept ed"
  unfolding patch_applications_def
  by (auto elim!: bindE_InrE dest!: put_kept(1) foldE_keeps [where g = workshop_kept, OF _ patch_kept])

lemma configuration_kept: "save_configuration w rq ed namespace tr = (Inr ed', tr') \<Longrightarrow> workshop_kept ed' = workshop_kept ed"
  unfolding save_configuration_def read_images_def by (auto elim!: inr_elims simp: kube_return_def workshop_kept_def)

lemma services_kept:
  assumes "deploy_services w vars namespace ed tr = (Inr ed', tr')"
  shows "workshop_kept ed' = workshop_kept ed"
proof -
  have mirror: "deploy_mirror w vars namespace ed tr = (Inr ed', tr') \<Longrightarrow> workshop_kept ed' = workshop_kept ed" for ed ed' tr tr'
    unfolding deploy_mirror_def
    by (auto elim!: inr_elims simp: kube_return_def dest!: properties_kept(2) split: if_splits prod.splits)
  have tunnel: "deploy_tunnel w vars namespace ed tr = (Inr ed', tr') \<Longrightarrow> workshop_kept ed' = workshop_kept ed" for ed ed' tr tr'
    unfolding deploy_tunnel_def tunnel_enabled_def
    by (auto elim!: inr_elims simp: kube_return_def dest!: properties_kept(2) split: if_splits prod.splits)
  from assms show ?thesis unfolding deploy_services_def by (auto elim!: inr_elims dest!: mirror tunnel)
qed

lemma objects_kept:
  assumes "environment_objects rq ed = Inr (ed', objects)"
  shows "workshop_kept ed' = workshop_kept ed"
proof -
  have "workshop_kept (fst p') = workshop_kept (fst p)" if "add_application_objects a p = Inr p'" for a p p'
    using that by (auto simp: add_application_objects_def elim!: bindE_InrE dest!: properties_kept split: prod.splits if_splits)
  then have "workshop_kept ed' = workshop_kept ed" if "foldE add_application_objects names (ed, []) = Inr (ed', os)" for names os
    using foldE_keeps [OF that, of "\<lambda>p. workshop_kept (fst p)"] by auto
  with assms show ?thesis
    unfolding environment_objects_def workshop_objects_def by (auto elim!: bindE_InrE split: if_splits prod.splits)
qed

lemma provision_kept: "provision_environment w rq ed namespace tr = (Inr ed', tr') \<Longrightarrow> workshop_kept ed' = workshop_kept ed"
  unfolding provision_environment_def
  by (auto elim!: inr_elims simp: kube_return_def dest!: configuration_kept services_kept objects_kept split: prod.splits)

lemma never_occupied: "occupied_namespace w rq namespace tr \<noteq> (Inr u, tr')"
  by (auto simp: occupied_namespace_def delete_environment_namespace_def kube_write_def kube_simps environment_outcomes Let_def
      split: sum.splits if_splits)

section \<open>The environment of a session\<close>

text \<open>The workshop that an environment asks for, as the API answered.\<close>

definition workshop_read :: "operator_world \<Rightarrow> environment_request \<Rightarrow> pyval \<Rightarrow> pyval \<Rightarrow> bool" where
  "workshop_read w rq name workshop \<longleftrightarrow>
     bindE (py_index (er_spec rq) ''workshop'') (\<lambda>v. py_index v ''name'') = Inr name
     \<and> (\<exists>tr. ka_get (ow_api w) tr ''Workshop'' PNone name = Inr workshop)"

lemma read_workshop_kept:
  assumes "read_environment w rq tr = (Inr ed, tr')"
  shows "\<exists>name workshop spec. workshop_read w rq name workshop \<and> py_get_or workshop ''spec'' (PDict []) = Inr spec
    \<and> we_workshop_name ed = name \<and> outside_session (we_spec ed) = outside_session spec"
proof -
  from assms obtain portal name workshop t t' ed1 where name: "bindE (py_index (er_spec rq) ''workshop'') (\<lambda>v. py_index v ''name'') = Inr name"
    and find: "find_workshop_definition w rq name t = (Inr workshop, t')"
    and ed1: "identify_environment rq portal name workshop = Inr ed1" and ed: "patch_applications (ow_config w) ed1 = Inr ed"
    unfolding read_environment_def by (elim kube_bind_InrE kube_lift_InrE) (auto simp: bindE_Inr_iff)
  from find have "\<exists>tr. ka_get (ow_api w) tr ''Workshop'' PNone name = Inr workshop"
    by (auto simp: find_workshop_definition_def kube_get_def kube_simps environment_outcomes Let_def split: sum.splits if_splits)
  with name have "workshop_read w rq name workshop" by (simp add: workshop_read_def)
  moreover from ed1 obtain spec where "py_get_or workshop ''spec'' (PDict []) = Inr spec" "we_workshop_name ed1 = name" "we_spec ed1 = spec"
    unfolding identify_environment_def by (auto elim!: bindE_InrE)
  ultimately show ?thesis using patches_kept [OF ed] by (auto simp: workshop_kept_def)
qed

lemma environment_status_reads:
  assumes "dict_get d ''status'' = Some status" and "py_index status ''educates'' = py_index (environment_status ed) ''educates''"
  shows "environment_ready (PDict d) = Inr True" "workshop_details (PDict d) ''name'' = Inr (we_workshop_name ed)"
    "workshop_details (PDict d) ''spec'' = Inr (we_spec ed)"
proof -
  from assms(2) obtain sd where "status = PDict sd" "dict_get sd ''educates'' = Some (PDict [
      (''phase'', PStr ''Running''), (''message'', PNone), (''namespace'', PStr (we_name ed)),
      (''workshop'', PDict [(''name'', we_workshop_name ed), (''uid'', we_workshop_uid ed),
        (''generation'', we_workshop_generation ed), (''spec'', we_spec ed)])])"
    by (cases status) (auto simp: environment_status_def educates_status_def split: option.splits)
  moreover from this(2) have "sd \<noteq> []" by auto
  ultimately show "environment_ready (PDict d) = Inr True" "workshop_details (PDict d) ''name'' = Inr (we_workshop_name ed)"
    "workshop_details (PDict d) ''spec'' = Inr (we_spec ed)"
    using assms(1) by (simp_all add: environment_ready_def workshop_details_def)
qed

text \<open>
  \<^bold>\<open>C22.\<close> Sessions find what was asked for. Once an attempt to create an environment succeeded, a session that reads the environment
  finds it ready, with the name of the workshop that the environment asks for and the specification that the API
  gave for it, with no change but in its session part, whatever services the workshop has.
\<close>

theorem environment_serves_sessions:
  assumes "workshop_environment_create w rq [] = (Inr (), tr)" and "final_status tr = Some left"
    and "dict_get d ''status'' = Some status" and "py_index status ''educates'' = py_index left ''educates''"
  shows "environment_ready (PDict d) = Inr True
    \<and> (\<exists>name workshop given spec. workshop_read w rq name workshop \<and> py_get_or workshop ''spec'' (PDict []) = Inr given
         \<and> workshop_details (PDict d) ''name'' = Inr name \<and> workshop_details (PDict d) ''spec'' = Inr spec
         \<and> outside_session spec = outside_session given)"
proof -
  from assms(1) obtain ed t1 t2 where read: "read_environment w rq t1 = (Inr ed, t2)" and "\<exists>t3. deploy_environment w rq ed t3 = (Inr (), tr)"
    unfolding workshop_environment_create_def by (elim inr_elims) (auto simp: never_occupied split: option.splits)
  then obtain namespace t4 ed' t5 t6 where provision: "provision_environment w rq ed namespace t4 = (Inr ed', t5)"
    and last: "set_status (environment_status ed') t6 = (Inr (), tr)"
    unfolding deploy_environment_def by (auto elim!: inr_elims)
  from last assms(2) have "left = environment_status ed'" by (auto simp: set_status_def)
  with environment_status_reads [OF assms(3), of ed'] assms(4) have reads: "environment_ready (PDict d) = Inr True"
    "workshop_details (PDict d) ''name'' = Inr (we_workshop_name ed')" "workshop_details (PDict d) ''spec'' = Inr (we_spec ed')" by simp_all
  from provision_kept [OF provision] read_workshop_kept [OF read] reads show ?thesis
    by (auto simp: workshop_kept_def)
qed

text \<open>A workshop with a virtual cluster, and the environment that was created for it.\<close>

definition plain_workshop :: pyval where
  "plain_workshop =
     PDict [(''metadata'', PDict [(''uid'', PStr ''1''), (''generation'', PInt 1)]),
            (''spec'', PDict [
              (''title'', PStr ''Lab''),
              (''session'', PDict [(''applications'', PDict [(''vcluster'', PDict [(''enabled'', PBool True)])])])])]"

definition plain_world :: operator_world where
  "plain_world = lab_world
     \<lparr>ow_config := lab_config\<lparr>oc_images := [(''base-environment'', PStr ''base:1'')]\<rparr>,
      ow_api := ow_api lab_world\<lparr>ka_get := \<lambda>tr k ns n. if k = ''Workshop'' then Inr plain_workshop
        else if creations tr = [] then Inl ObjectDoesNotExist else Inr lab_environment_namespace\<rparr>\<rparr>"

definition plain_environment :: pyval where
  "plain_environment = PDict [(''status'', the (final_status (snd (workshop_environment_create plain_world lab_environment []))))]"

theorem environment_serves_sessions_witness:
  "environment_ready plain_environment = Inr True \<and> workshop_details plain_environment ''name'' = Inr (PStr ''lab'')
   \<and> (\<exists>spec. workshop_details plain_environment ''spec'' = Inr spec \<and> py_get spec ''title'' = Inr (PStr ''Lab''))"
proof -
  obtain r tr where run: "workshop_environment_create plain_world lab_environment [] = (r, tr)" by fastforce
  have "case workshop_environment_create plain_world lab_environment [] of (r, tr) \<Rightarrow> r = Inr () \<and> final_status tr \<noteq> None"
    by code_simp
  then obtain left where left: "r = Inr ()" "final_status tr = Some left" by (auto simp: run)
  have only: "workshop = plain_workshop \<and> name = PStr ''lab''" if "workshop_read plain_world lab_environment name workshop" for name workshop
    using that by (auto simp: workshop_read_def plain_world_def lab_environment_def)
  have environment: "plain_environment = PDict [(''status'', left)]" by (simp add: plain_environment_def run left)
  from environment_serves_sessions [OF run [unfolded left(1)] left(2), of "[(''status'', left)]" left]
  obtain name workshop given spec where ready: "environment_ready plain_environment = Inr True"
    and read: "workshop_read plain_world lab_environment name workshop" "py_get_or workshop ''spec'' (PDict []) = Inr given"
    and details: "workshop_details plain_environment ''name'' = Inr name" "workshop_details plain_environment ''spec'' = Inr spec"
    and outside: "outside_session spec = outside_session given"
    by (auto simp: environment)
  from only [OF read(1)] read(2) have "py_get given ''title'' = Inr (PStr ''Lab'')" by (auto simp: plain_workshop_def)
  with fun_cong [OF outside, of "''title''"] have "py_get spec ''title'' = Inr (PStr ''Lab'')" by (simp add: outside_session_def)
  with ready details only [OF read(1)] show ?thesis by simp
qed

end
