(* ===== verification/Tunnel_Manager.thy ===== *)
theory Tunnel_Manager
  imports Python_Values "HOL-Library.Sublist"
begin

text \<open>
  The tunnel manager (\<open>src/tunnel-manager/main.py\<close>), of which one runs in every workshop environment with SSH access: the table
  of sessions that it keeps from the events of the cluster, and the relay between a websocket of a client and the SSH port of a
  session.
\<close>

section \<open>The table of sessions\<close>

text \<open>\<open>INGRESS_DOMAIN\<close> and \<open>ENVIRONMENT_NAME\<close>.\<close>

record tunnel_config =
  tn_ingress_domain :: string
  tn_environment_name :: string

record tunnel_endpoint =
  ep_name :: string
  ep_host :: string
  ep_port :: int

type_synonym tunnel_table = "(string, tunnel_endpoint) dict"

definition tunnel_xgetattr :: "pyval \<Rightarrow> string \<Rightarrow> pyval \<Rightarrow> pyval result" where
  "tunnel_xgetattr obj key dflt = xget_keys (split_on CHR ''.'' key) obj dflt dflt"

definition session_ingress :: "tunnel_config \<Rightarrow> string \<Rightarrow> string" where
  "session_ingress cfg name = name @ ''.'' @ tn_ingress_domain cfg"

definition session_endpoint :: "tunnel_config \<Rightarrow> string \<Rightarrow> tunnel_endpoint" where
  "session_endpoint cfg name = \<lparr>ep_name = name, ep_host = name @ ''.'' @ tn_environment_name cfg, ep_port = 22\<rparr>"

definition wants_tunnel :: "pyval \<Rightarrow> bool result" where
  "wants_tunnel obj =
     bindE (tunnel_xgetattr obj ''status.educates.sshd.enabled'' (PBool False))
       (\<lambda>sshd. bindE (tunnel_xgetattr obj ''status.educates.sshd.tunnel.enabled'' (PBool False))
          (\<lambda>tunnel. Inr (truthy sshd \<and> truthy tunnel)))"

text \<open>An event: the name of the session, the type (\<open>None\<close> for what is there when the manager starts) and the event itself.\<close>

type_synonym session_report = "string \<times> pyval \<times> pyval"

text \<open>The table is keyed by the host of a session, but the deletion looks for the name of the session.\<close>

definition workshop_session_event :: "tunnel_config \<Rightarrow> session_report \<Rightarrow> tunnel_table \<Rightarrow> tunnel_table result" where
  "workshop_session_event cfg = (\<lambda>(name, type, event) table.
     bindE (py_index event ''object'')
  (\<lambda>obj. bindE (tunnel_xgetattr obj ''spec.environment.name'' (PStr []))
  (\<lambda>namespace.
     if namespace \<noteq> PStr (tn_environment_name cfg) then Inr table
     else if type = PStr ''DELETED'' \<and> dict_get table name \<noteq> None then Inr (dict_pop name table)
     else bindE (wants_tunnel obj)
            (\<lambda>wanted. Inr (if wanted then dict_set (session_ingress cfg name) (session_endpoint cfg name) table else table)))))"

definition get_endpoint_details :: "tunnel_table \<Rightarrow> string \<Rightarrow> tunnel_endpoint option" where
  "get_endpoint_details table session = dict_get table session"

text \<open>An exception in the handler of an event is logged by the framework.\<close>

definition handle_report :: "tunnel_config \<Rightarrow> session_report \<Rightarrow> tunnel_table \<Rightarrow> tunnel_table" where
  "handle_report cfg report table = (case workshop_session_event cfg report table of Inl e \<Rightarrow> table | Inr table' \<Rightarrow> table')"

definition after_reports :: "tunnel_config \<Rightarrow> session_report list \<Rightarrow> tunnel_table \<Rightarrow> tunnel_table" where
  "after_reports cfg reports table = fold (handle_report cfg) reports table"

lemma after_reports_simps [simp]:
  "after_reports cfg [] table = table"
  "after_reports cfg (report # reports) table = after_reports cfg reports (handle_report cfg report table)"
  by (simp_all add: after_reports_def)

text \<open>A report by which a session of this environment says that it has a tunnel.\<close>

definition tunnel_report :: "tunnel_config \<Rightarrow> session_report \<Rightarrow> bool" where
  "tunnel_report cfg = (\<lambda>(name, type, event). \<exists>obj. py_index event ''object'' = Inr obj
     \<and> tunnel_xgetattr obj ''spec.environment.name'' (PStr []) = Inr (PStr (tn_environment_name cfg)) \<and> wants_tunnel obj = Inr True)"

lemma handle_report_cases:
  obtains "handle_report cfg (name, type, event) table = table"
  | "handle_report cfg (name, type, event) table = dict_pop name table" and "type = PStr ''DELETED''"
  | "handle_report cfg (name, type, event) table = dict_set (session_ingress cfg name) (session_endpoint cfg name) table"
    and "tunnel_report cfg (name, type, event)"
proof (cases "workshop_session_event cfg (name, type, event) table")
  case (Inl e)
  then show ?thesis by (intro that(1)) (simp add: handle_report_def)
next
  case (Inr table')
  then have "table' = table \<or> table' = dict_pop name table \<and> type = PStr ''DELETED''
      \<or> table' = dict_set (session_ingress cfg name) (session_endpoint cfg name) table \<and> tunnel_report cfg (name, type, event)"
    by (auto simp: workshop_session_event_def tunnel_report_def elim!: bindE_InrE split: if_splits)
  with Inr show ?thesis using that by (auto simp: handle_report_def)
qed

text \<open>What a host in the table stands for.\<close>

definition reported_route :: "tunnel_config \<Rightarrow> session_report list \<Rightarrow> string \<Rightarrow> tunnel_endpoint \<Rightarrow> bool" where
  "reported_route cfg reports host endpoint \<longleftrightarrow>
     (\<exists>(name, type, event)\<in>set reports. tunnel_report cfg (name, type, event)
        \<and> host = session_ingress cfg name \<and> endpoint = session_endpoint cfg name)"

lemma reported_route_more: "reported_route cfg reports host e \<Longrightarrow> set reports \<subseteq> set later \<Longrightarrow> reported_route cfg later host e"
  by (auto simp: reported_route_def)

lemma after_reports_routes:
  assumes "\<And>host e. dict_get table host = Some e \<Longrightarrow> reported_route cfg before host e"
    and "dict_get (after_reports cfg reports table) host = Some e"
  shows "reported_route cfg (before @ reports) host e"
  using assms
proof (induction reports arbitrary: before table)
  case (Cons report reports)
  obtain name type event where report: "report = (name, type, event)" by (cases report)
  have old: "reported_route cfg (before @ [report]) host e" if "dict_get table host = Some e" for host e
    by (rule reported_route_more [OF Cons.prems(1) [OF that]]) auto
  have new: "reported_route cfg (before @ [report]) (session_ingress cfg name) (session_endpoint cfg name)" if "tunnel_report cfg report"
    using that by (auto simp: report reported_route_def)
  have "reported_route cfg (before @ [report]) host e" if "dict_get (handle_report cfg report table) host = Some e" for host e
    using that old new
    by (cases rule: handle_report_cases [of cfg name type event table]) (auto simp: report split: if_splits)
  from Cons.IH [OF this] Cons.prems(2) show ?case by simp
qed simp

text \<open>
  \<^bold>\<open>C25.\<close> A connection to the tunnel only ever leads to a session of the manager's own environment. Whatever the events were, the
  endpoint for a host is the SSH port of the session whose host it is, and that session had reported, in
  this environment, that it has SSH access and a tunnel.
\<close>

theorem tunnel_routes_rightful:
  assumes "get_endpoint_details (after_reports cfg reports []) host = Some endpoint"
  shows "\<exists>name type event. (name, type, event) \<in> set reports \<and> tunnel_report cfg (name, type, event)
    \<and> host = name @ ''.'' @ tn_ingress_domain cfg \<and> ep_port endpoint = 22
    \<and> ep_host endpoint = name @ ''.'' @ tn_environment_name cfg"
proof -
  have "reported_route cfg ([] @ reports) host endpoint"
    by (rule after_reports_routes [of "[]"]) (use assms in \<open>simp_all add: get_endpoint_details_def\<close>)
  then show ?thesis by (force simp: reported_route_def session_ingress_def session_endpoint_def)
qed

definition lab_tunnel :: tunnel_config where
  "lab_tunnel = \<lparr>tn_ingress_domain = ''educates.test'', tn_environment_name = ''w01''\<rparr>"

definition session_with_tunnel :: pyval where
  "session_with_tunnel =
     PDict [(''object'', PDict [
       (''spec'', PDict [(''environment'', PDict [(''name'', PStr ''w01'')])]),
       (''status'', PDict [(''educates'', PDict [(''sshd'', PDict [
          (''enabled'', PBool True), (''tunnel'', PDict [(''enabled'', PBool True)])])])])])]"

definition added_session :: session_report where
  "added_session = (''w01-s001'', PStr ''ADDED'', session_with_tunnel)"

definition deleted_session :: session_report where
  "deleted_session = (''w01-s001'', PStr ''DELETED'', session_with_tunnel)"

lemma lab_route:
  "get_endpoint_details (after_reports lab_tunnel [added_session] []) ''w01-s001.educates.test'' =
     Some (session_endpoint lab_tunnel ''w01-s001'')"
  by code_simp

theorem tunnel_routes_rightful_witness:
  "ep_port (session_endpoint lab_tunnel ''w01-s001'') = 22"
  using tunnel_routes_rightful [OF lab_route] by blast

text \<open>
  \<^bold>\<open>C26.\<close> The tunnel never forgets a session. Once a session is in the table, no event of any kind takes it out, its own
  deletion included, as long as the names of sessions have no dots: the record of the session goes on to lead to the host
  it had.
\<close>

theorem tunnel_record_outlives_session:
  assumes "get_endpoint_details table (session_ingress cfg session) = Some (session_endpoint cfg session)"
    and "\<forall>(name, type, event)\<in>set reports. CHR ''.'' \<notin> set name"
  shows "get_endpoint_details (after_reports cfg reports table) (session_ingress cfg session) = Some (session_endpoint cfg session)"
  using assms
proof (induction reports arbitrary: table)
  case (Cons report reports)
  obtain name type event where report: "report = (name, type, event)" by (cases report)
  with Cons.prems(2) have "CHR ''.'' \<notin> set name" by simp
  then have "name \<noteq> session_ingress cfg session" by (auto simp: session_ingress_def)
  moreover have "session_endpoint cfg name = session_endpoint cfg session" if "session_ingress cfg name = session_ingress cfg session"
    using that by (simp add: session_ingress_def)
  ultimately have "get_endpoint_details (handle_report cfg report table) (session_ingress cfg session) = Some (session_endpoint cfg session)"
    using Cons.prems(1) by (cases rule: handle_report_cases [of cfg name type event table]) (auto simp: report get_endpoint_details_def)
  from Cons.IH [OF this] Cons.prems(2) show ?case by simp
qed simp

theorem tunnel_record_outlives_session_witness:
  "get_endpoint_details (after_reports lab_tunnel [deleted_session] (after_reports lab_tunnel [added_session] []))
     (session_ingress lab_tunnel ''w01-s001'') = Some (session_endpoint lab_tunnel ''w01-s001'')"
proof (rule tunnel_record_outlives_session)
  show "get_endpoint_details (after_reports lab_tunnel [added_session] []) (session_ingress lab_tunnel ''w01-s001'') =
      Some (session_endpoint lab_tunnel ''w01-s001'')"
    using lab_route by (simp add: session_ingress_def lab_tunnel_def)
qed (simp add: deleted_session_def)

section \<open>The relay\<close>

text \<open>
  A connection of a client that is relayed to a service: the messages that the websocket has received, what was written to the
  socket, the bytes that the socket has received, what was sent to the client, and what runs. Whatever was ever sent by the two
  ends is kept beside. A websocket is open, or was closed properly or not.
\<close>

datatype closing = ClosedOK | ClosedError

datatype message = Binary (payload: string) | Text (payload: string)

datatype pipe = Running | Finished | Broken

record relay =
  rl_received :: "message list"
  rl_written :: string
  rl_readable :: string
  rl_sent :: "string list"
  rl_eof :: bool
  rl_reset :: bool
  rl_websocket :: "closing option"
  rl_socket_closed :: bool
  rl_pipe1 :: pipe
  rl_pipe2 :: pipe
  rl_proxying :: bool
  rl_client_log :: "message list"
  rl_service_log :: string

definition new_relay :: relay where
  "new_relay =
     \<lparr>rl_received = [], rl_written = [], rl_readable = [], rl_sent = [], rl_eof = False, rl_reset = False, rl_websocket = None,
      rl_socket_closed = False, rl_pipe1 = Running, rl_pipe2 = Running, rl_proxying = True, rl_client_log = [], rl_service_log = []\<rparr>"

text \<open>
  A host that the table does not have is closed straight away; otherwise a connection to the endpoint is opened, which may fail.
\<close>

datatype proxied = Refused | Unreachable tunnel_endpoint | Proxied tunnel_endpoint relay

definition websocket_proxy :: "(tunnel_endpoint \<Rightarrow> bool) \<Rightarrow> tunnel_table \<Rightarrow> string \<Rightarrow> proxied" where
  "websocket_proxy opens table host =
     (case get_endpoint_details table host of
        None \<Rightarrow> Refused
      | Some endpoint \<Rightarrow> if opens endpoint then Proxied endpoint new_relay else Unreachable endpoint)"

definition closed_properly :: "closing option \<Rightarrow> closing option" where
  "closed_properly s = (if s = None then Some ClosedOK else s)"

text \<open>What the client and the service do.\<close>

inductive relay_outside :: "relay \<Rightarrow> relay \<Rightarrow> bool" where
  client_sends: "rl_websocket r = None \<Longrightarrow>
     relay_outside r (r\<lparr>rl_received := rl_received r @ [m], rl_client_log := rl_client_log r @ [m]\<rparr>)"
| client_closes: "rl_websocket r = None \<Longrightarrow> relay_outside r (r\<lparr>rl_websocket := Some c\<rparr>)"
| service_sends: "\<not> rl_eof r \<Longrightarrow> \<not> rl_socket_closed r \<Longrightarrow>
     relay_outside r (r\<lparr>rl_readable := rl_readable r @ bs, rl_service_log := rl_service_log r @ bs\<rparr>)"
| service_ends: "relay_outside r (r\<lparr>rl_eof := True\<rparr>)"
| service_resets: "relay_outside r (r\<lparr>rl_reset := True\<rparr>)"

text \<open>
  The first pipe, \<open>copy_websocket_to_socket\<close>: messages that were received are delivered even after the websocket was closed;
  an empty message ends the loop like the end of the connection, a text cannot be written to the socket, and the socket is
  closed in every case.
\<close>

inductive copy_websocket_to_socket :: "relay \<Rightarrow> relay \<Rightarrow> bool" where
  message_copied: "rl_pipe1 r = Running \<Longrightarrow> rl_received r = Binary bs # ms \<Longrightarrow> bs \<noteq> [] \<Longrightarrow>
     copy_websocket_to_socket r (r\<lparr>rl_received := ms, rl_written := rl_written r @ bs\<rparr>)"
| message_text: "rl_pipe1 r = Running \<Longrightarrow> rl_received r = Text t # ms \<Longrightarrow> t \<noteq> [] \<Longrightarrow>
     copy_websocket_to_socket r (r\<lparr>rl_received := ms, rl_pipe1 := Broken, rl_socket_closed := True\<rparr>)"
| message_empty: "rl_pipe1 r = Running \<Longrightarrow> rl_received r = m # ms \<Longrightarrow> payload m = [] \<Longrightarrow>
     copy_websocket_to_socket r (r\<lparr>rl_received := ms, rl_pipe1 := Finished, rl_socket_closed := True\<rparr>)"
| websocket_closed: "rl_pipe1 r = Running \<Longrightarrow> rl_received r = [] \<Longrightarrow> rl_websocket r \<noteq> None \<Longrightarrow>
     copy_websocket_to_socket r (r\<lparr>rl_pipe1 := Finished, rl_socket_closed := True\<rparr>)"

text \<open>
  The second pipe, \<open>copy_socket_to_websocket\<close>, reads at most 2048 bytes at a time. A websocket that was closed properly ends it, one
  that was not breaks it, and what was read is lost; so does a connection that was reset. Once the socket has no more to read, the websocket is closed.
\<close>

inductive copy_socket_to_websocket :: "relay \<Rightarrow> relay \<Rightarrow> bool" where
  bytes_copied: "rl_pipe2 r = Running \<Longrightarrow> \<not> rl_reset r \<Longrightarrow> rl_readable r = bs @ rest \<Longrightarrow> bs \<noteq> [] \<Longrightarrow> length bs \<le> 2048 \<Longrightarrow> rl_websocket r = None \<Longrightarrow>
     copy_socket_to_websocket r (r\<lparr>rl_readable := rest, rl_sent := rl_sent r @ [bs]\<rparr>)"
| bytes_refused: "rl_pipe2 r = Running \<Longrightarrow> \<not> rl_reset r \<Longrightarrow> rl_readable r = bs @ rest \<Longrightarrow> bs \<noteq> [] \<Longrightarrow> length bs \<le> 2048 \<Longrightarrow>
     rl_websocket r = Some ClosedOK \<Longrightarrow> copy_socket_to_websocket r (r\<lparr>rl_readable := rest, rl_pipe2 := Finished\<rparr>)"
| bytes_failed: "rl_pipe2 r = Running \<Longrightarrow> \<not> rl_reset r \<Longrightarrow> rl_readable r = bs @ rest \<Longrightarrow> bs \<noteq> [] \<Longrightarrow> length bs \<le> 2048 \<Longrightarrow>
     rl_websocket r = Some ClosedError \<Longrightarrow> copy_socket_to_websocket r (r\<lparr>rl_readable := rest, rl_pipe2 := Broken\<rparr>)"
| socket_reset: "rl_pipe2 r = Running \<Longrightarrow> rl_reset r \<Longrightarrow> copy_socket_to_websocket r (r\<lparr>rl_pipe2 := Broken\<rparr>)"
| socket_ended: "rl_pipe2 r = Running \<Longrightarrow> \<not> rl_reset r \<Longrightarrow> rl_readable r = [] \<Longrightarrow> rl_eof r \<or> rl_socket_closed r \<Longrightarrow>
     copy_socket_to_websocket r (r\<lparr>rl_websocket := closed_properly (rl_websocket r), rl_pipe2 := Finished\<rparr>)"

text \<open>The proxy itself waits for the first of the pipes to complete and closes the websocket; it does not cancel the other.\<close>

inductive proxy_completes :: "relay \<Rightarrow> relay \<Rightarrow> bool" where
  first_completed: "rl_proxying r \<Longrightarrow> rl_pipe1 r \<noteq> Running \<or> rl_pipe2 r \<noteq> Running \<Longrightarrow>
     proxy_completes r (r\<lparr>rl_websocket := closed_properly (rl_websocket r), rl_proxying := False\<rparr>)"

definition relay_inside :: "relay \<Rightarrow> relay \<Rightarrow> bool" where
  "relay_inside r r' \<longleftrightarrow> copy_websocket_to_socket r r' \<or> copy_socket_to_websocket r r' \<or> proxy_completes r r'"

definition relay_step :: "relay \<Rightarrow> relay \<Rightarrow> bool" where
  "relay_step r r' \<longleftrightarrow> relay_outside r r' \<or> relay_inside r r'"

lemmas relay_cases =
  relay_outside.simps copy_websocket_to_socket.simps copy_socket_to_websocket.simps proxy_completes.simps

text \<open>What holds in every state of a connection.\<close>

definition relay_ok :: "relay \<Rightarrow> bool" where
  "relay_ok r \<longleftrightarrow>
     (rl_pipe1 r = Running \<longrightarrow> concat (map payload (rl_client_log r)) = rl_written r @ concat (map payload (rl_received r)))
     \<and> prefix (rl_written r) (concat (map payload (rl_client_log r)))
     \<and> (rl_pipe2 r = Running \<longrightarrow> rl_service_log r = concat (rl_sent r) @ rl_readable r)
     \<and> prefix (concat (rl_sent r)) (rl_service_log r)
     \<and> (rl_pipe1 r \<noteq> Running \<longrightarrow> rl_socket_closed r) \<and> (\<not> rl_proxying r \<longrightarrow> rl_websocket r \<noteq> None)
     \<and> (\<forall>bs\<in>set (rl_sent r). length bs \<le> 2048)"

lemma closed_properly [simp]: "closed_properly s \<noteq> None" "\<exists>c. closed_properly s = Some c"
  by (auto simp: closed_properly_def)

lemma relay_ok_step:
  assumes "relay_step r r'" and "relay_ok r"
  shows "relay_ok r'"
  using assms(1) unfolding relay_step_def relay_inside_def
proof (elim disjE)
  assume "relay_outside r r'"
  then show ?thesis using assms(2) by cases (simp_all add: relay_ok_def prefix_append)
next
  assume "copy_websocket_to_socket r r'"
  then show ?thesis using assms(2) by cases (auto simp: relay_ok_def)
next
  assume "copy_socket_to_websocket r r'"
  then show ?thesis using assms(2) by cases (auto simp: relay_ok_def)
next
  assume "proxy_completes r r'"
  then show ?thesis using assms(2) by cases (simp add: relay_ok_def)
qed

lemma relay_ok_start: "relay_ok new_relay"
  by (simp add: relay_ok_def new_relay_def)

lemma relay_ok_reachable: "relay_step\<^sup>*\<^sup>* new_relay r \<Longrightarrow> relay_ok r"
  by (induction rule: rtranclp_induct) (auto intro: relay_ok_step relay_ok_start)

text \<open>
  The relay neither reorders nor invents data. At every moment of a connection, what was written to the session is the
  beginning of what the client has sent, and what was sent to the client is the beginning of what the session has sent, in
  pieces of at most 2048 bytes; while the pipe of a direction runs, nothing is lost, and the rest is still to be copied.
\<close>

theorem relay_in_order:
  assumes "websocket_proxy opens table host = Proxied endpoint start" and "relay_step\<^sup>*\<^sup>* start r"
  shows "\<exists>unwritten unsent. concat (map payload (rl_client_log r)) = rl_written r @ unwritten
      \<and> rl_service_log r = concat (rl_sent r) @ unsent \<and> (\<forall>bs\<in>set (rl_sent r). length bs \<le> 2048)
      \<and> (rl_pipe1 r = Running \<longrightarrow> unwritten = concat (map payload (rl_received r)))
      \<and> (rl_pipe2 r = Running \<longrightarrow> unsent = rl_readable r)"
proof -
  from assms have "relay_ok r" by (auto simp: websocket_proxy_def relay_ok_reachable split: option.splits if_splits)
  then show ?thesis by (auto simp: relay_ok_def prefix_def)
qed

text \<open>A client that sends a message, which is then written to the session.\<close>

definition greeted_relay :: relay where
  "greeted_relay = new_relay\<lparr>rl_written := ''hello'', rl_client_log := [Binary ''hello'']\<rparr>"

lemma greeted: "relay_step\<^sup>*\<^sup>* new_relay greeted_relay"
proof -
  let ?sent = "new_relay\<lparr>rl_received := [Binary ''hello''], rl_client_log := [Binary ''hello'']\<rparr>"
  have "relay_outside new_relay ?sent" using client_sends [of new_relay "Binary ''hello''"] by (simp add: new_relay_def)
  moreover have "copy_websocket_to_socket ?sent greeted_relay"
    using message_copied [of ?sent "''hello''" "[]"] by (simp add: new_relay_def greeted_relay_def)
  ultimately show ?thesis
    by (meson relay_inside_def relay_step_def rtranclp.rtrancl_into_rtrancl rtranclp.rtrancl_refl)
qed

lemma lab_proxy:
  "websocket_proxy (\<lambda>_. True) (after_reports lab_tunnel [added_session] []) ''w01-s001.educates.test'' =
     Proxied (session_endpoint lab_tunnel ''w01-s001'') new_relay"
  unfolding websocket_proxy_def lab_route by simp

theorem relay_in_order_witness: "\<exists>unwritten. concat (map payload (rl_client_log greeted_relay)) = ''hello'' @ unwritten"
  using relay_in_order [OF lab_proxy greeted] by (auto simp: greeted_relay_def)

section \<open>The end of a connection\<close>

text \<open>What is left to do, counted in steps of the relay itself.\<close>

definition relay_work :: "relay \<Rightarrow> nat" where
  "relay_work r =
     length (rl_received r) + length (rl_readable r) + (if rl_pipe1 r = Running then 1 else 0) + (if rl_pipe2 r = Running then 1 else 0)
     + (if rl_proxying r then 1 else 0)"

lemma relay_work_decreases: "relay_inside r r' \<Longrightarrow> relay_work r' < relay_work r"
  unfolding relay_inside_def
proof (elim disjE)
  show "relay_work r' < relay_work r" if "copy_websocket_to_socket r r'"
    using that by cases (simp_all add: relay_work_def)
  show "relay_work r' < relay_work r" if "copy_socket_to_websocket r r'"
    using that by cases (simp_all add: relay_work_def)
  show "relay_work r' < relay_work r" if "proxy_completes r r'"
    using that by cases (simp add: relay_work_def)
qed

lemma relay_work_bounds: "(relay_inside ^^ n) r r' \<Longrightarrow> n + relay_work r' \<le> relay_work r"
proof (induction n arbitrary: r')
  case (Suc n)
  then obtain s where "(relay_inside ^^ n) r s" and "relay_inside s r'" by auto
  with Suc.IH relay_work_decreases [of s r'] show ?case by force
qed simp

text \<open>One of the two ends is gone, or one of the pipes.\<close>

definition relay_ending :: "relay \<Rightarrow> bool" where
  "relay_ending r \<longleftrightarrow> rl_websocket r \<noteq> None \<or> rl_eof r \<or> rl_reset r \<or> rl_pipe1 r \<noteq> Running \<or> rl_pipe2 r \<noteq> Running"

definition relay_closed :: "relay \<Rightarrow> bool" where
  "relay_closed r \<longleftrightarrow> rl_websocket r \<noteq> None \<and> rl_socket_closed r \<and> rl_pipe1 r \<noteq> Running \<and> rl_pipe2 r \<noteq> Running \<and> \<not> rl_proxying r"

lemma relay_ending_step: "relay_inside r r' \<Longrightarrow> relay_ending r \<Longrightarrow> relay_ending r'"
  unfolding relay_inside_def
proof (elim disjE)
  assume ending: "relay_ending r"
  show "relay_ending r'" if "copy_websocket_to_socket r r'"
    using that ending by cases (auto simp: relay_ending_def)
  show "relay_ending r'" if "copy_socket_to_websocket r r'"
    using that ending by cases (auto simp: relay_ending_def)
  show "relay_ending r'" if "proxy_completes r r'"
    using that ending by cases (auto simp: relay_ending_def)
qed

lemma relay_ending_steps: "(relay_inside ^^ n) r r' \<Longrightarrow> relay_ending r \<Longrightarrow> relay_ending r'"
  by (induction n arbitrary: r') (auto dest: relay_ending_step)

lemma relay_stuck_closed:
  assumes "relay_ok r" and "relay_ending r" and stuck: "\<And>r'. \<not> relay_inside r r'"
  shows "relay_closed r"
proof -
  have pipe1: "\<not> copy_websocket_to_socket r r'" and pipe2: "\<not> copy_socket_to_websocket r r'" and proxy: "\<not> proxy_completes r r'" for r'
    using stuck by (auto simp: relay_inside_def)
  have websocket: "rl_websocket r \<noteq> None" if "rl_pipe1 r \<noteq> Running \<or> rl_pipe2 r \<noteq> Running"
    using proxy first_completed [OF _ that] assms(1) by (auto simp: relay_ok_def)
  have finished1: "rl_pipe1 r \<noteq> Running" if "rl_websocket r \<noteq> None"
  proof (cases "rl_received r")
    case Nil
    with that pipe1 websocket_closed [of r] show ?thesis by auto
  next
    case (Cons m ms)
    with pipe1 message_copied [of r _ ms] message_text [of r _ ms] message_empty [OF _ Cons] show ?thesis
      by (cases m; cases "payload m = []") auto
  qed
  have reset: "\<not> rl_reset r" if "rl_pipe2 r = Running"
    using that socket_reset [of r] pipe2 by blast
  have read: "rl_readable r = []" if "rl_pipe2 r = Running"
  proof (rule ccontr)
    assume "rl_readable r \<noteq> []"
    then obtain b bs where b: "rl_readable r = [b] @ bs" by (cases "rl_readable r") auto
    from bytes_copied [OF that reset [OF that] b] bytes_refused [OF that reset [OF that] b] bytes_failed [OF that reset [OF that] b] pipe2 show False
      by (cases "rl_websocket r") (auto split: option.splits intro: closing.exhaust)
  qed
  have finished2: "rl_pipe2 r \<noteq> Running" if "rl_eof r \<or> rl_socket_closed r"
    using read reset socket_ended [OF _ _ _ that] pipe2 by auto
  from assms(2) finished2 reset websocket have gone: "rl_websocket r \<noteq> None" by (auto simp: relay_ending_def)
  from finished1 [OF gone] have one: "rl_pipe1 r \<noteq> Running" .
  with assms(1) have socket: "rl_socket_closed r" by (simp add: relay_ok_def)
  with finished2 have "rl_pipe2 r \<noteq> Running" by simp
  with gone one socket proxy first_completed [of r] show ?thesis by (auto simp: relay_closed_def)
qed

text \<open>
  \<^bold>\<open>C27.\<close> A connection ends. Left to itself, the relay makes at most as many steps as it has messages and bytes to copy, and
  three more; and once the client or the session is gone, it only stops with the websocket and the socket both closed and
  nothing running.
\<close>

theorem relay_winds_up:
  assumes "websocket_proxy opens table host = Proxied endpoint start" and "relay_step\<^sup>*\<^sup>* start r" and "(relay_inside ^^ n) r r'"
  shows "n \<le> length (rl_received r) + length (rl_readable r) + 3
    \<and> (relay_ending r \<and> (\<nexists>r''. relay_inside r' r'') \<longrightarrow> relay_closed r')"
proof
  have "relay_work r \<le> length (rl_received r) + length (rl_readable r) + 3" by (simp add: relay_work_def)
  with relay_work_bounds [OF assms(3)] show "n \<le> length (rl_received r) + length (rl_readable r) + 3" by simp
  have "relay_step\<^sup>*\<^sup>* r r'"
    using assms(3) by (auto simp: relay_step_def dest!: relpowp_imp_rtranclp elim!: rtranclp_mono [THEN predicate2D, rotated])
  with assms(1,2) have "relay_ok r'"
    by (auto simp: websocket_proxy_def split: option.splits if_splits intro: relay_ok_reachable rtranclp_trans)
  with relay_stuck_closed relay_ending_steps [OF assms(3)]
  show "relay_ending r \<and> (\<nexists>r''. relay_inside r' r'') \<longrightarrow> relay_closed r'" by blast
qed

text \<open>A client that leaves right away.\<close>

definition left_relay :: relay where
  "left_relay = new_relay\<lparr>rl_websocket := Some ClosedOK\<rparr>"

definition ended_relay :: relay where
  "ended_relay = left_relay\<lparr>rl_pipe1 := Finished, rl_socket_closed := True, rl_pipe2 := Finished, rl_proxying := False\<rparr>"

lemma left_relay_ends: "(relay_inside ^^ 3) left_relay ended_relay"
proof -
  let ?one = "left_relay\<lparr>rl_pipe1 := Finished, rl_socket_closed := True\<rparr>"
  let ?two = "?one\<lparr>rl_pipe2 := Finished\<rparr>"
  have "copy_websocket_to_socket left_relay ?one" by (rule websocket_closed) (simp_all add: left_relay_def new_relay_def)
  moreover have "copy_socket_to_websocket ?one ?two"
    using socket_ended [of ?one] by (simp add: left_relay_def new_relay_def closed_properly_def)
  moreover have "proxy_completes ?two ended_relay"
    using first_completed [of ?two] by (simp add: left_relay_def new_relay_def closed_properly_def ended_relay_def)
  ultimately have "relay_inside left_relay ?one" "relay_inside ?one ?two" "relay_inside ?two ended_relay" by (simp_all add: relay_inside_def)
  then show ?thesis unfolding numeral_3_eq_3 by (meson relpowp_0_I relpowp_Suc_I)
qed

theorem relay_winds_up_witness: "relay_closed ended_relay"
proof -
  have "relay_step\<^sup>*\<^sup>* new_relay left_relay"
    using client_closes [of new_relay ClosedOK] by (auto simp: relay_step_def new_relay_def left_relay_def)
  from relay_winds_up [OF lab_proxy this left_relay_ends] have
    "relay_ending left_relay \<and> (\<nexists>r''. relay_inside ended_relay r'') \<longrightarrow> relay_closed ended_relay" ..
  moreover have "\<nexists>r''. relay_inside ended_relay r''"
    by (auto simp: relay_inside_def relay_cases ended_relay_def)
  ultimately show ?thesis by (simp add: relay_ending_def left_relay_def)
qed

end
