(* ===== verification/Namespace_Purge.thy ===== *)
theory Namespace_Purge
  imports Kube_Client Session_Applications
begin

text \<open>
  The daemon that helps namespaces of portals, environments and sessions to go away (\<open>session-manager/handlers/daemons.py\<close>): once
  a minute it takes the finalizers from what is left in a namespace whose deletion has been under way for too long.
\<close>

section \<open>Times\<close>

text \<open>
  \<open>datetime.strptime\<close> with the format of the API, in microseconds of the proleptic calendar. Timestamps that do not have the usual
  form, such as other time zones, are left to the library.
\<close>

definition leap_year :: "int \<Rightarrow> bool" where
  "leap_year y \<longleftrightarrow> y mod 4 = 0 \<and> (y mod 100 \<noteq> 0 \<or> y mod 400 = 0)"

definition days_in_month :: "int \<Rightarrow> int \<Rightarrow> int" where
  "days_in_month y m = (if m = 2 then (if leap_year y then 29 else 28) else if m \<in> {4, 6, 9, 11} then 30 else 31)"

definition days_before_year :: "int \<Rightarrow> int" where
  "days_before_year y = (y - 1) * 365 + (y - 1) div 4 - (y - 1) div 100 + (y - 1) div 400"

definition days_before_month :: "int \<Rightarrow> int \<Rightarrow> int" where
  "days_before_month y m = sum_list (map (days_in_month y) [1..m - 1])"

definition digit_value :: "char \<Rightarrow> int option" where
  "digit_value c = (let n = of_char c :: int in if 48 \<le> n \<and> n \<le> 57 then Some (n - 48) else None)"

fun decimal :: "int \<Rightarrow> string \<Rightarrow> int option" where
  "decimal a [] = Some a"
| "decimal a (c # cs) = (case digit_value c of None \<Rightarrow> None | Some d \<Rightarrow> decimal (10 * a + d) cs)"

definition usual_form :: "string \<Rightarrow> bool" where
  "usual_form s \<longleftrightarrow> length s = 20 \<and> s ! 4 = CHR ''-'' \<and> s ! 7 = CHR ''-'' \<and> s ! 10 = CHR ''T'' \<and> s ! 13 = CHR '':'' \<and> s ! 16 = CHR '':''
     \<and> s ! 19 = CHR ''Z''"

definition field :: "nat \<Rightarrow> nat \<Rightarrow> string \<Rightarrow> int option" where
  "field from len s = decimal 0 (take len (drop from s))"

definition usual_time :: "string \<Rightarrow> int option" where
  "usual_time s =
     (if \<not> usual_form s then None
      else case (field 0 4 s, field 5 2 s, field 8 2 s, field 11 2 s, field 14 2 s, field 17 2 s) of
             (Some y, Some mo, Some d, Some h, Some mi, Some sec) \<Rightarrow>
               if 1 \<le> y \<and> 1 \<le> mo \<and> mo \<le> 12 \<and> 1 \<le> d \<and> d \<le> days_in_month y mo \<and> h \<le> 23 \<and> mi \<le> 59 \<and> sec \<le> 59
               then Some (((((days_before_year y + days_before_month y mo + (d - 1)) * 24 + h) * 60 + mi) * 60 + sec) * 1000000)
               else None
           | _ \<Rightarrow> None)"

record purge_world =
  pg_api :: kube_api
  pg_strptime :: "string \<Rightarrow> int result"

definition timestamp :: "purge_world \<Rightarrow> pyval \<Rightarrow> int result" where
  "timestamp w v =
     (case v of
        PStr s \<Rightarrow> (case usual_time s of Some t \<Rightarrow> Inr t | None \<Rightarrow> pg_strptime w s)
      | _ \<Rightarrow> Inl TypeError)"

section \<open>Namespaces that should be gone\<close>

definition portal_component_labels :: "string list" where
  "portal_component_labels = [''training.educates.dev/component'', ''training.educates.dev/portal.name'']"

text \<open>A query with a selector, by what is asked of the server.\<close>

definition labelled_namespaces :: string where
  "labelled_namespaces = ''Namespace?labelSelector='' @ join_with CHR '','' portal_component_labels"

definition resource_timeout :: int where
  "resource_timeout = 90 * 1000000"

definition deletion_timestamp :: "pyval \<Rightarrow> pyval result" where
  "deletion_timestamp obj = bindE (py_index obj ''metadata'') (\<lambda>m. py_get m ''deletionTimestamp'')"

definition overdue_terminating :: "purge_world \<Rightarrow> int \<Rightarrow> pyval \<Rightarrow> bool result" where
  "overdue_terminating w now item =
     bindE (bindE (py_index item ''status'') (\<lambda>s. py_index s ''phase''))
  (\<lambda>state. if state \<noteq> PStr ''Terminating'' then Inr False
     else bindE (deletion_timestamp item)
  (\<lambda>deleted. if \<not> truthy deleted then Inr False
     else bindE (timestamp w deleted) (\<lambda>moment. Inr (now - moment > resource_timeout))))"

section \<open>The kinds of resources\<close>

text \<open>A kind of resource with the version of its API; what is in a namespace is queried with it.\<close>

type_synonym resource_type = "pyval \<times> pyval"

definition type_query :: "resource_type \<Rightarrow> string" where
  "type_query = (\<lambda>(version, kind). py_str version @ ''/'' @ py_str kind)"

definition add_resource :: "pyval \<Rightarrow> pyval \<Rightarrow> resource_type list \<Rightarrow> resource_type list result" where
  "add_resource version resource types =
     bindE (py_index resource ''namespaced'')
  (\<lambda>namespaced. if \<not> truthy namespaced then Inr types
     else bindE (bindE (py_index resource ''verbs'') (py_in (PStr ''get'')))
  (\<lambda>readable. if \<not> readable then Inr types
     else bindE (bindE (py_index resource ''name'') (py_in (PStr ''/'')))
  (\<lambda>subresource. if subresource then Inr types
     else bindE (py_index resource ''kind'')
  (\<lambda>kind. Inr (if (version, kind) \<in> set types then types else types @ [(version, kind)])))))"

text \<open>An API that cannot be queried is passed over.\<close>

definition add_version :: "kube_api \<Rightarrow> pyval \<Rightarrow> resource_type list \<Rightarrow> resource_type list kube" where
  "add_version api version types =
     kube_bind (kube_try (kube_bind (kube_get api ''APIResourceList'' PNone version) (\<lambda>r. kube_return (Some r)))
                  (\<lambda>_. kube_return None))
       (\<lambda>answer. case answer of
            None \<Rightarrow> kube_return types
          | Some resources \<Rightarrow>
              kube_bind (kube_lift (py_index resources ''groupVersion''))
             (\<lambda>version. kube_bind (kube_lift (bindE (py_index resources ''resources'') py_iter))
             (\<lambda>items. kube_lift (foldE (add_resource version) items types))))"

definition add_group :: "kube_api \<Rightarrow> pyval \<Rightarrow> resource_type list \<Rightarrow> resource_type list kube" where
  "add_group api grp types =
     kube_bind (kube_lift (py_index grp ''name''))
  (\<lambda>_. kube_bind (kube_lift (bindE (py_index grp ''versions'') py_iter))
  (\<lambda>versions. kube_fold (\<lambda>v types. kube_bind (kube_lift (py_index v ''groupVersion'')) (\<lambda>version. add_version api version types))
                 versions types))"

definition api_groups :: "kube_api \<Rightarrow> pyval list kube" where
  "api_groups api =
     kube_bind (kube_get api ''APIGroupList'' PNone PNone)
       (\<lambda>answer. kube_lift (bindE (py_index answer ''groups'') py_iter))"

definition query_namespaced_resources :: "kube_api \<Rightarrow> resource_type list kube" where
  "query_namespaced_resources api =
     kube_bind (add_version api (PStr ''v1'') [])
       (\<lambda>types. kube_bind (api_groups api) (\<lambda>groups. kube_fold (add_group api) groups types))"

text \<open>What was found once is kept for as long as the program runs.\<close>

definition get_all_namespaced_resources :: "kube_api \<Rightarrow> resource_type list option \<Rightarrow> resource_type list kube" where
  "get_all_namespaced_resources api cache =
     (case cache of Some types \<Rightarrow> kube_return types | None \<Rightarrow> query_namespaced_resources api)"

section \<open>Purging\<close>

definition left_behind :: "pyval \<Rightarrow> bool result" where
  "left_behind obj =
     bindE (deletion_timestamp obj)
  (\<lambda>deleted. if \<not> truthy deleted then Inr False
     else bindE (bindE (py_index obj ''metadata'') (\<lambda>m. py_get m ''finalizers'')) (\<lambda>finalizers. Inr (truthy finalizers)))"

text \<open>Only an \<open>HTTPError\<close> has the code that the handler of the exception asks for.\<close>

definition drop_finalizers :: "kube_api \<Rightarrow> pyval \<Rightarrow> unit kube" where
  "drop_finalizers api obj =
     kube_bind (kube_lift (put_path [''metadata''] ''finalizers'' PNone obj))
       (\<lambda>obj'. kube_try (kube_bind (kube_write api (Update obj obj')) (\<lambda>_. kube_return ()))
          (\<lambda>e. case e of
               HTTPError code \<Rightarrow> kube_return ()
             | _ \<Rightarrow> if is_KubernetesError e then kube_raise (Raised AttributeError) else kube_raise e))"

definition purge_resource :: "kube_api \<Rightarrow> pyval \<Rightarrow> unit kube" where
  "purge_resource api obj =
     kube_bind (kube_lift (left_behind obj)) (\<lambda>stays. if stays then drop_finalizers api obj else kube_return ())"

definition purge_type :: "kube_api \<Rightarrow> pyval \<Rightarrow> resource_type \<Rightarrow> unit kube" where
  "purge_type api namespace type =
     kube_bind (kube_query api (type_query type) namespace) (kube_each (purge_resource api))"

text \<open>The namespaces of one look at the cluster, with the kinds that are known so far.\<close>

fun purge_each :: "purge_world \<Rightarrow> int \<Rightarrow> pyval list \<Rightarrow> resource_type list option \<Rightarrow> kube_call list
    \<Rightarrow> (kube_error + unit) \<times> resource_type list option \<times> kube_call list" where
  "purge_each w now [] cache tr = (Inr (), cache, tr)"
| "purge_each w now (item # items) cache tr =
     (case bindE (overdue_terminating w now item) (\<lambda>overdue. if overdue then bindE (item_name item) (\<lambda>n. Inr (Some n)) else Inr None) of
        Inl e \<Rightarrow> (Inl (Raised e), cache, tr)
      | Inr None \<Rightarrow> purge_each w now items cache tr
      | Inr (Some name) \<Rightarrow>
          (case get_all_namespaced_resources (pg_api w) cache tr of
             (Inl e, tr) \<Rightarrow> (Inl e, cache, tr)
           | (Inr types, tr) \<Rightarrow>
               (case kube_each (purge_type (pg_api w) name) types tr of
                  (Inl e, tr) \<Rightarrow> (Inl e, Some types, tr)
                | (Inr _, tr) \<Rightarrow> purge_each w now items (Some types) tr)))"

text \<open>One round of the loop; whatever is raised ends the round and is logged.\<close>

definition purge_round :: "purge_world \<Rightarrow> int \<Rightarrow> resource_type list option \<times> kube_call list \<Rightarrow> resource_type list option \<times> kube_call list" where
  "purge_round w now = (\<lambda>(cache, tr).
     case kube_query (pg_api w) labelled_namespaces PNone tr of
       (Inl e, tr) \<Rightarrow> (cache, tr)
     | (Inr items, tr) \<Rightarrow> snd (purge_each w now items cache tr))"

definition purge_namespaces :: "purge_world \<Rightarrow> int list \<Rightarrow> resource_type list option \<times> kube_call list" where
  "purge_namespaces w nows = fold (purge_round w) nows (None, [])"

section \<open>What is purged\<close>

text \<open>The server answers a query with a selector with objects that have the labels.\<close>

definition has_label :: "pyval \<Rightarrow> string \<Rightarrow> bool" where
  "has_label obj label \<longleftrightarrow>
     (\<exists>v. bindE (bindE (py_index obj ''metadata'') (\<lambda>m. py_index m ''labels'')) (\<lambda>ls. py_index ls label) = Inr v)"

definition selects_labels :: "kube_api \<Rightarrow> bool" where
  "selects_labels api \<longleftrightarrow>
     (\<forall>tr items. ka_query api tr labelled_namespaces PNone = Inr items \<longrightarrow>
        (\<forall>obj\<in>set items. \<forall>label\<in>set portal_component_labels. has_label obj label))"

text \<open>
  What the daemon may write at the times at which it looked: the finalizers of an object that is being deleted are removed, in
  a namespace of a portal that was still terminating a minute and a half after its deletion.
\<close>

definition purge_write :: "purge_world \<Rightarrow> int list \<Rightarrow> kube_call list \<Rightarrow> kube_call \<Rightarrow> bool" where
  "purge_write w nows before c \<longleftrightarrow>
     (case c of
        Update old obj \<Rightarrow>
          left_behind old = Inr True \<and> put_path [''metadata''] ''finalizers'' PNone old = Inr obj
          \<and> (\<exists>now item name type. now \<in> set nows \<and> listed (pg_api w) before labelled_namespaces PNone item
                \<and> overdue_terminating w now item = Inr True \<and> item_name item = Inr name
                \<and> listed (pg_api w) before (type_query type) name old)
      | _ \<Rightarrow> \<not> is_write c)"

lemma purge_write_reads [simp]: "purge_write w nows tr (Get k ns n)" "purge_write w nows tr (Query k ns)"
  by (simp_all add: purge_write_def)

lemma runs_resources: "runs (purge_write w nows) (get_all_namespaced_resources api cache) tr"
proof -
  have version: "runs (purge_write w nows) (add_version api v types) t" for v types t
    unfolding add_version_def by (auto intro!: runs_intros split: option.splits)
  have "runs (purge_write w nows) (add_group api grp types) t" for grp types t
    unfolding add_group_def
    by (intro runs_bind runs_lift, rule runs_fold_from [where I = "\<lambda>_. True"]) (auto intro!: runs_bind runs_lift version)
  then have "runs (purge_write w nows) (kube_fold (add_group api) groups types) t" for groups types t
    by (intro runs_fold_from [where I = "\<lambda>_. True"]) auto
  with version show ?thesis
    unfolding get_all_namespaced_resources_def query_namespaced_resources_def api_groups_def
    by (auto intro!: runs_intros split: option.splits)
qed

lemma runs_purge_type:
  assumes "now \<in> set nows" and "overdue_terminating w now item = Inr True" and "item_name item = Inr name"
    and "listed (pg_api w) tr labelled_namespaces PNone item"
  shows "runs (purge_write w nows) (purge_type (pg_api w) name type) tr"
  unfolding purge_type_def
proof (rule runs_query_each)
  fix obj b assume obj: "listed (pg_api w) b (type_query type) name obj" and "\<exists>c. b = c @ tr"
  with assms(4) have item: "listed (pg_api w) b labelled_namespaces PNone item" by (auto intro: listed_later)
  have "purge_write w nows b (Update obj obj')"
    if "left_behind obj = Inr True" and "put_path [''metadata''] ''finalizers'' PNone obj = Inr obj'" for obj'
    using assms(1-3) obj item that unfolding purge_write_def kube_call.case by blast
  then show "runs (purge_write w nows) (purge_resource (pg_api w) obj) b"
    unfolding purge_resource_def drop_finalizers_def
    by (auto intro!: runs_bind_lift runs_bind runs_try runs_write runs_return runs_raise split: kube_error.splits)
qed simp

lemma runs_purge_types:
  assumes "now \<in> set nows" and "overdue_terminating w now item = Inr True" and "item_name item = Inr name"
    and "listed (pg_api w) tr labelled_namespaces PNone item"
  shows "runs (purge_write w nows) (kube_each (purge_type (pg_api w) name) types) tr"
  by (rule runs_each_from [where I = "\<lambda>t. listed (pg_api w) t labelled_namespaces PNone item"])
    (use assms in \<open>auto intro: runs_purge_type listed_later\<close>)

text \<open>Calls that were added to a trace, all of them allowed.\<close>

definition adds_writes :: "purge_world \<Rightarrow> int list \<Rightarrow> kube_call list \<Rightarrow> kube_call list \<Rightarrow> bool" where
  "adds_writes w nows tr tr' \<longleftrightarrow> (\<exists>new. tr' = new @ tr \<and> calls_ok (purge_write w nows) tr new)"

lemma adds_writes_refl: "adds_writes w nows tr tr"
  by (simp add: adds_writes_def)

lemma adds_writes_trans: "adds_writes w nows tr t \<Longrightarrow> adds_writes w nows t tr' \<Longrightarrow> adds_writes w nows tr tr'"
  unfolding adds_writes_def by (metis append.assoc calls_ok_append)

lemma runs_adds: "runs (purge_write w nows) m tr \<Longrightarrow> m tr = (r, tr') \<Longrightarrow> adds_writes w nows tr tr'"
  by (auto simp: runs_def adds_writes_def)

lemma adds_listed: "adds_writes w nows tr t \<Longrightarrow> listed api tr k ns obj \<Longrightarrow> listed api t k ns obj"
  by (auto simp: adds_writes_def intro: listed_later)

lemma purge_each_adds:
  assumes "now \<in> set nows" and "\<forall>item\<in>set items. listed (pg_api w) tr labelled_namespaces PNone item"
  shows "adds_writes w nows tr (snd (snd (purge_each w now items cache tr)))"
  using assms(2)
proof (induction items arbitrary: cache tr)
  case (Cons item items)
  let ?found = "bindE (overdue_terminating w now item) (\<lambda>overdue. if overdue then bindE (item_name item) (\<lambda>n. Inr (Some n)) else Inr None)"
  have rest: "adds_writes w nows tr (snd (snd (purge_each w now items cache' t)))" if "adds_writes w nows tr t" for cache' t
    using that Cons.IH [of t cache'] Cons.prems by (auto intro: adds_writes_trans adds_listed)
  show ?case
  proof (cases ?found)
    case (Inl e)
    then show ?thesis by (simp add: adds_writes_refl)
  next
    case (Inr found)
    show ?thesis
    proof (cases found)
      case None
      with Inr rest [OF adds_writes_refl] show ?thesis by simp
    next
      case (Some name)
      with Inr have item: "overdue_terminating w now item = Inr True" "item_name item = Inr name"
        by (auto elim!: bindE_InrE split: if_splits)
      obtain r t where types: "get_all_namespaced_resources (pg_api w) cache tr = (r, t)" by fastforce
      from runs_adds [OF runs_resources types] have t: "adds_writes w nows tr t" .
      show ?thesis
      proof (cases r)
        case (Inl e)
        with Inr Some types t show ?thesis by simp
      next
        case (Inr types')
        obtain r' t' where each: "kube_each (purge_type (pg_api w) name) types' t = (r', t')" by fastforce
        from adds_listed [OF t] Cons.prems have "listed (pg_api w) t labelled_namespaces PNone item" by simp
        from runs_adds [OF runs_purge_types [OF assms(1) item this] each] t have "adds_writes w nows tr t'"
          by (rule adds_writes_trans [rotated])
        with \<open>?found = Inr found\<close> Some types Inr each rest show ?thesis by (cases r') simp_all
      qed
    qed
  qed
qed (simp add: adds_writes_refl)

lemma purge_round_adds: "now \<in> set nows \<Longrightarrow> adds_writes w nows (snd s) (snd (purge_round w now s))"
proof -
  assume now: "now \<in> set nows"
  obtain cache tr where s: "s = (cache, tr)" by (cases s)
  obtain r t where query: "kube_query (pg_api w) labelled_namespaces PNone tr = (r, t)" by fastforce
  then have t: "t = [Query labelled_namespaces PNone] @ tr" by (simp add: kube_query_def)
  then have first: "adds_writes w nows tr t" unfolding adds_writes_def by (intro exI [of _ "[Query labelled_namespaces PNone]"]) simp
  show ?thesis
  proof (cases r)
    case (Inr items)
    with query have "\<forall>item\<in>set items. listed (pg_api w) t labelled_namespaces PNone item"
      by (auto simp: kube_query_def listed_now)
    from adds_writes_trans [OF first purge_each_adds [OF now this]] show ?thesis by (simp add: s purge_round_def query Inr)
  qed (use first in \<open>simp add: s purge_round_def query\<close>)
qed

lemma purge_adds: "adds_writes w nows [] (snd (purge_namespaces w nows))"
proof -
  have "adds_writes w nows (snd s) (snd (fold (purge_round w) later s))" if "set later \<subseteq> set nows" for later s
    using that
  proof (induction later arbitrary: s)
    case (Cons now later)
    from Cons.prems have "adds_writes w nows (snd s) (snd (purge_round w now s))" by (simp add: purge_round_adds)
    moreover from Cons.prems have "adds_writes w nows (snd (purge_round w now s)) (snd (fold (purge_round w) later (purge_round w now s)))"
      by (intro Cons.IH) simp
    ultimately show ?case by (simp add: adds_writes_trans)
  qed (simp add: adds_writes_refl)
  from this [of nows "(None, [])"] show ?thesis by (simp add: purge_namespaces_def)
qed


text \<open>A namespace that is terminating, with a pod that does not go away, looked at once in time and once late.\<close>

definition terminating_namespace :: pyval where
  "terminating_namespace =
     PDict [(''metadata'', PDict [
              (''name'', PStr ''w01-s001''), (''deletionTimestamp'', PStr ''2024-02-29T23:59:00Z''),
              (''labels'', PDict [(''training.educates.dev/component'', PStr ''session''), (''training.educates.dev/portal.name'', PStr ''lab'')])]),
            (''status'', PDict [(''phase'', PStr ''Terminating'')])]"

definition stuck_pod :: pyval where
  "stuck_pod =
     PDict [(''metadata'', PDict [(''name'', PStr ''p''), (''deletionTimestamp'', PStr ''2024-02-29T23:59:00Z''),
       (''finalizers'', PList [PStr ''f''])])]"

definition freed_pod :: pyval where
  "freed_pod =
     PDict [(''metadata'', PDict [(''name'', PStr ''p''), (''deletionTimestamp'', PStr ''2024-02-29T23:59:00Z''), (''finalizers'', PNone)])]"

definition stuck_world :: purge_world where
  "stuck_world =
     \<lparr>pg_api = \<lparr>
        ka_get = \<lambda>tr kind ns n.
          if kind = ''APIGroupList'' then Inr (PDict [(''groups'', PList [])])
          else Inr (PDict [(''groupVersion'', PStr ''v1''), (''resources'', PList [PDict [
            (''name'', PStr ''pods''), (''kind'', PStr ''Pod''), (''namespaced'', PBool True), (''verbs'', PList [PStr ''get''])]])]),
        ka_query = \<lambda>tr kind ns. if kind = labelled_namespaces then Inr [terminating_namespace] else Inr [stuck_pod],
        ka_write = \<lambda>tr c. Inr PNone\<rparr>,
      pg_strptime = \<lambda>s. Inl ValueError\<rparr>"

definition midnight :: int where
  "midnight = the (usual_time ''2024-03-01T00:00:00Z'')"

definition stuck_queries :: "kube_call list" where
  "stuck_queries =
     [Query ''v1/Pod'' (PStr ''w01-s001''), Get ''APIGroupList'' PNone PNone, Get ''APIResourceList'' PNone (PStr ''v1''),
      Query labelled_namespaces PNone, Query labelled_namespaces PNone]"

lemma stuck_run:
  "snd (purge_namespaces stuck_world [midnight, midnight + 60 * 1000000]) = [] @ Update stuck_pod freed_pod # stuck_queries"
  by code_simp


end
