(* ===== verification/Portal_Access.thy ===== *)
theory Portal_Access
  imports Portal_Steps
begin

text \<open>
  How a browser gets to a workshop through the web interface: the index and the creation of anonymous accounts
  (\<open>training-portal/src/project/views.py\<close>), the access code of an event (\<open>views/access.py\<close>), the page with the catalog and its
  decorators (\<open>views/catalog.py\<close>), and the views for environments, as visits of one browser whose web session remembers who is logged in
  and whether the access code was given.
\<close>

section \<open>The access code\<close>

record browser =
  bw_user :: "user_record option"
  bw_allowed :: bool

definition fresh_browser :: browser where
  "fresh_browser = \<lparr>bw_user = None, bw_allowed = False\<rparr>"

text \<open>
  \<open>CATALOG_VISIBILITY\<close>, and the form for the access code: what Django's validation makes of a request, with a password that
  is not empty.
\<close>

record access_config =
  ax_catalog_visibility :: string
  ax_form :: "web_request \<Rightarrow> (string \<times> string) option"

datatype http_method = GetMethod | PostMethod

text \<open>A password that is not set is empty.\<close>

definition right_password :: "portal_settings \<Rightarrow> string \<Rightarrow> bool" where
  "right_password st password \<longleftrightarrow> st_portal_password st \<noteq> [] \<and> st_portal_password st = password"

definition access_page :: response where
  "access_page = Page ''workshops/access.html'' []"

definition posted_access :: "portal_settings \<Rightarrow> access_config \<Rightarrow> web_request \<Rightarrow> bool \<times> response" where
  "posted_access st cfg rq =
     (case ax_form cfg rq of
        Some (password, redirect_url) \<Rightarrow>
          if right_password st password then (True, Redirect redirect_url []) else (False, access_page)
      | None \<Rightarrow> (False, access_page))"

definition queried_access :: "portal_settings \<Rightarrow> web_request \<Rightarrow> bool \<times> response" where
  "queried_access st rq =
     (let redirect_url = stripped_param rq ''redirect_url''
      in if redirect_url = [] then (False, BadRequest ''Need redirect URL for access check'')
         else case query_param rq ''password'' of
                Some password \<Rightarrow>
                  if right_password st password then (True, Redirect redirect_url []) else (False, access_page)
              | None \<Rightarrow> (False, access_page))"

definition access :: "portal_settings \<Rightarrow> access_config \<Rightarrow> http_method \<Rightarrow> web_request \<Rightarrow> browser \<Rightarrow> browser \<times> response" where
  "access st cfg verb rq b =
     (let (granted, answer) = (if verb = PostMethod then posted_access st cfg rq else queried_access st rq)
      in (if granted then b\<lparr>bw_allowed := True\<rparr> else b, answer))"

section \<open>Catalog and index\<close>

definition access_redirect :: "string \<Rightarrow> response" where
  "access_redirect url = Redirect ''/workshops/access/'' [(''redirect_url'', url)]"

definition catalog_entry :: "web_request \<Rightarrow> portal_db \<Rightarrow> environment_record \<Rightarrow> pyval" where
  "catalog_entry rq db e =
     PDict [
       (''environment'', PStr (te_name e)),
       (''workshop'', case te_workshop e of None \<Rightarrow> PNone | Some wk \<Rightarrow> wk_name wk),
       (''capacity'', PInt (max 0 (te_capacity e - count (allocated_sessions db e)))),
       (''session'',
         case wr_user rq of
           None \<Rightarrow> PNone
         | Some u \<Rightarrow>
             if query_param rq ''notification'' = Some ''session-deleted'' then PNone
             else (case allocated_session_for_user db e (us_username u) of None \<Rightarrow> PNone | Some ss \<Rightarrow> PStr (ts_name ss)))]"

definition catalog_page :: "portal_world \<Rightarrow> web_request \<Rightarrow> response op" where
  "catalog_page w rq =
     (if \<not> is_staff rq \<and> st_portal_index (pw_settings w) \<noteq> [] then op_return (Redirect (st_portal_index (pw_settings w)) [])
      else op_bind current_portal
        (\<lambda>p. op_bind (op_query id)
          (\<lambda>db. op_return (Page ''workshops/catalog.html''
             [(''catalog'', PList (map (catalog_entry rq db) (running_environments db))),
              (''notification'', PStr (case query_param rq ''notification'' of None \<Rightarrow> [] | Some n \<Rightarrow> n))]))))"

definition catalog_login :: "portal_world \<Rightarrow> access_config \<Rightarrow> web_request \<Rightarrow> response op" where
  "catalog_login w cfg rq =
     (if ax_catalog_visibility cfg \<noteq> ''public'' \<and> wr_user rq = None then op_return (Redirect ''login'' []) else catalog_page w rq)"

definition catalog :: "portal_world \<Rightarrow> access_config \<Rightarrow> bool \<Rightarrow> web_request \<Rightarrow> response op" where
  "catalog w cfg allowed rq =
     (if st_portal_password (pw_settings w) \<noteq> [] \<and> \<not> allowed then op_return (access_redirect catalog_url) else catalog_login w cfg rq)"

definition index :: "portal_settings \<Rightarrow> access_config \<Rightarrow> browser \<Rightarrow> response" where
  "index st cfg b =
     (if st_portal_password st \<noteq> [] \<and> \<not> bw_allowed b then access_redirect ''/''
      else if bw_user b = None \<and> st_registration_type st = ''anonymous'' then Redirect ''accounts_create'' []
      else if bw_user b = None \<and> ax_catalog_visibility cfg = ''private'' then Redirect ''login'' []
      else Redirect catalog_url [])"

text \<open>The account that is created is logged in. The name is random text that is taken to be new.\<close>

definition accounts_create :: "portal_world \<Rightarrow> web_request \<Rightarrow> (user_record option \<times> response) op" where
  "accounts_create w rq =
     (if wr_user rq \<noteq> None then op_return (wr_user rq, Redirect catalog_url [])
      else if st_enable_registration (pw_settings w) \<noteq> ''true'' \<or> st_registration_type (pw_settings w) \<noteq> ''anonymous''
      then op_return (None, Redirect ''login'' [])
      else op_bind (random_text w 36)
        (\<lambda>uid. op_bind (add_user w uid [''anonymous''])
           (\<lambda>u. op_then (report_user_event w (us_username u) ''User/Create'') (op_return (Some u, Redirect catalog_url [])))))"

section \<open>Visits\<close>

datatype visit =
    VisitIndex
  | VisitAccess http_method
  | VisitCatalog
  | VisitAccountsCreate
  | VisitEnvironmentCreate string
  | VisitEnvironment string

text \<open>Who is logged in after \<open>environment_create\<close>: the user that it added, if any.\<close>

definition added_user :: "user_record list \<Rightarrow> user_record list \<Rightarrow> user_record option" where
  "added_user before after = (case filter (\<lambda>u. u \<notin> set before) after of [] \<Rightarrow> None | u # _ \<Rightarrow> Some u)"

fun browse :: "portal_world \<Rightarrow> access_config \<Rightarrow> visit \<Rightarrow> web_request \<Rightarrow> browser \<Rightarrow> (browser \<times> response) op" where
  "browse w cfg VisitIndex rq b = op_return (b, index (pw_settings w) cfg b)"
| "browse w cfg (VisitAccess verb) rq b = op_return (access (pw_settings w) cfg verb rq b)"
| "browse w cfg VisitCatalog rq b = op_bind (catalog w cfg (bw_allowed b) rq) (\<lambda>r. op_return (b, r))"
| "browse w cfg VisitAccountsCreate rq b = op_bind (accounts_create w rq) (\<lambda>(u, r). op_return (b\<lparr>bw_user := u\<rparr>, r))"
| "browse w cfg (VisitEnvironmentCreate name) rq b =
     op_bind (op_query db_users)
    (\<lambda>before. op_bind (environment_create w rq name)
    (\<lambda>r. op_bind (op_query db_users)
    (\<lambda>after. op_return (if bw_user b = None then b\<lparr>bw_user := added_user before after\<rparr> else b, r))))"
| "browse w cfg (VisitEnvironment name) rq b =
     (case bw_user b of
        None \<Rightarrow> op_return (b, Redirect ''login'' [])
      | Some u \<Rightarrow> op_bind (environment_view w rq u name) (\<lambda>r. op_return (b, r)))"

text \<open>The requests of one browser, with the answers; an exception is answered with an error and leaves the web session.\<close>

fun browse_all :: "portal_world \<Rightarrow> access_config \<Rightarrow> (visit \<times> web_request) list \<Rightarrow> browser \<Rightarrow> (browser \<times> response list) op" where
  "browse_all w cfg [] b = op_return (b, [])"
| "browse_all w cfg ((v, rq) # visits) b =
     op_bind (op_try (browse w cfg v (rq\<lparr>wr_user := bw_user b\<rparr>) b) (\<lambda>_. op_return (b, ServerError [])))
       (\<lambda>(b, r). op_bind (browse_all w cfg visits b) (\<lambda>(b, rs). op_return (b, r # rs)))"

text \<open>A request with the access code of the portal.\<close>

definition gives_password :: "portal_settings \<Rightarrow> access_config \<Rightarrow> visit \<times> web_request \<Rightarrow> bool" where
  "gives_password st cfg = (\<lambda>(v, rq).
     (\<exists>url u. v = VisitAccess PostMethod \<and> ax_form cfg (rq\<lparr>wr_user := u\<rparr>) = Some (st_portal_password st, url))
     \<or> v = VisitAccess GetMethod \<and> query_param rq ''password'' = Some (st_portal_password st))"

definition catalog_shown :: "response \<Rightarrow> bool" where
  "catalog_shown r \<longleftrightarrow> (\<exists>context. r = Page ''workshops/catalog.html'' context)"

lemma op_bind_Inr: "op_bind m f s = (Inr y, t) \<longleftrightarrow> (\<exists>x u. m s = (Inr x, u) \<and> f x u = (Inr y, t))"
  by (auto simp: op_bind_def split: prod.splits sum.splits)

lemma op_return_Inr: "op_return x s = (Inr y, t) \<longleftrightarrow> y = x \<and> t = s"
  by (auto simp: op_return_def)

lemma user_param [simp]: "query_param (rq\<lparr>wr_user := u\<rparr>) key = query_param rq key"
  by (simp add: query_param_def)

lemma redirect_no_catalog [simp]: "\<not> catalog_shown (Redirect url params)" "\<not> catalog_shown (ServerError m)"
  by (simp_all add: catalog_shown_def)

lemma index_no_catalog [simp]: "\<not> catalog_shown (index st cfg b)"
  by (simp add: index_def catalog_shown_def access_redirect_def)

lemma access_flag:
  "access st cfg verb (rq\<lparr>wr_user := u\<rparr>) b = (b', r) \<Longrightarrow>
     (bw_allowed b' \<longrightarrow> bw_allowed b \<or> gives_password st cfg (VisitAccess verb, rq)) \<and> \<not> catalog_shown r"
  by (auto simp: access_def posted_access_def queried_access_def right_password_def gives_password_def catalog_shown_def
      access_page_def Let_def split: option.splits if_splits prod.splits; cases verb; auto)

lemma catalog_flag:
  "catalog w cfg allowed rq s = (Inr r, t) \<Longrightarrow> catalog_shown r \<Longrightarrow> st_portal_password (pw_settings w) = [] \<or> allowed"
  by (auto simp: catalog_def catalog_shown_def access_redirect_def op_return_def split: if_splits)

lemma atomically_Inr: "atomically h m s = (Inr x, t) \<Longrightarrow> \<exists>u. m (s\<lparr>ps_hooks := []\<rparr>) = (Inr x, u)"
  by (auto simp: atomically_def op_then_def op_bind_def op_return_def split: prod.splits sum.splits)

lemma environment_no_catalog:
  "environment_view w rq user name s = (Inr r, t) \<Longrightarrow> \<not> catalog_shown r"
  "environment_create w rq name s = (Inr r, t) \<Longrightarrow> \<not> catalog_shown r"
  unfolding environment_view_def environment_create_def back_to_index_def op_then_def Let_def
  by (drule atomically_Inr, auto simp: op_bind_Inr op_return_Inr catalog_shown_def index_redirect_def split: option.splits if_splits)+

lemma accounts_no_catalog: "accounts_create w rq s = (Inr (u, r), t) \<Longrightarrow> \<not> catalog_shown r"
  unfolding accounts_create_def op_then_def
  by (auto simp: op_bind_Inr op_return_Inr catalog_shown_def split: if_splits)

lemma browse_flag:
  assumes "browse w cfg v (rq\<lparr>wr_user := u\<rparr>) b s = (Inr (b', r), t)"
  shows "(bw_allowed b' \<longrightarrow> bw_allowed b \<or> gives_password (pw_settings w) cfg (v, rq))
    \<and> (catalog_shown r \<longrightarrow> st_portal_password (pw_settings w) = [] \<or> bw_allowed b)"
proof (cases v)
  case (VisitAccess verb)
  with assms have "access (pw_settings w) cfg verb (rq\<lparr>wr_user := u\<rparr>) b = (b', r)" by (simp add: op_return_Inr)
  from access_flag [OF this] VisitAccess show ?thesis by simp
qed (use assms in \<open>auto simp: op_bind_Inr op_return_Inr split: option.splits if_splits prod.splits
    dest: catalog_flag environment_no_catalog accounts_no_catalog\<close>)

lemma browse_all_flag:
  assumes "browse_all w cfg visits b s = (Inr (b', rs), t)" and "st_portal_password (pw_settings w) \<noteq> []"
  shows "(bw_allowed b' \<or> (\<exists>r\<in>set rs. catalog_shown r)) \<longrightarrow>
    bw_allowed b \<or> (\<exists>v\<in>set visits. gives_password (pw_settings w) cfg v)"
  using assms(1)
proof (induction visits arbitrary: b s rs)
  case Nil
  then show ?case by (simp add: op_return_Inr)
next
  case (Cons visit visits)
  obtain v rq where visit: "visit = (v, rq)" by (cases visit)
  let ?first = "op_try (browse w cfg v (rq\<lparr>wr_user := bw_user b\<rparr>) b) (\<lambda>_. op_return (b, ServerError []))"
  from Cons.prems obtain b1 r s1 rs' where first: "?first s = (Inr (b1, r), s1)"
    and rest: "browse_all w cfg visits b1 s1 = (Inr (b', rs'), t)" and rs: "rs = r # rs'"
    by (auto simp: visit op_bind_Inr op_return_Inr split: prod.splits)
  have "(bw_allowed b1 \<longrightarrow> bw_allowed b \<or> gives_password (pw_settings w) cfg (v, rq)) \<and> (catalog_shown r \<longrightarrow> bw_allowed b)"
  proof (cases "browse w cfg v (rq\<lparr>wr_user := bw_user b\<rparr>) b s")
    case (Pair result s')
    with first browse_flag [of w cfg v "bw_user b" rq b s b1 r s'] assms(2) show ?thesis
      by (cases result) (auto simp: op_try_def op_return_def catalog_shown_def)
  qed
  with Cons.IH [OF rest] show ?case by (auto simp: visit rs)
qed

text \<open>
  The access code guards the catalog. In a portal with a password, a browser is only let in, and only ever sees the
  page with the catalog, if one of its requests had the password, whatever it visits and in whatever order.
\<close>

theorem catalog_needs_password:
  assumes "browse_all w cfg visits fresh_browser s = (Inr (b, answers), t)" and "st_portal_password (pw_settings w) \<noteq> []"
    and "bw_allowed b \<or> (\<exists>r\<in>set answers. catalog_shown r)"
  shows "\<exists>v\<in>set visits. gives_password (pw_settings w) cfg v"
  using browse_all_flag [OF assms(1,2)] assms(3) by (simp add: fresh_browser_def)

text \<open>A portal with an access code for anonymous users, and what a browser asks of it.\<close>

definition event_world :: portal_world where
  "event_world = sample_world\<lparr>pw_settings := sample_settings\<lparr>st_portal_password := ''event'', st_registration_type := ''anonymous''\<rparr>\<rparr>"

definition event_access :: access_config where
  "event_access = \<lparr>ax_catalog_visibility = ''public'', ax_form = \<lambda>rq. None\<rparr>"

definition plain_request :: "(string \<times> string) list \<Rightarrow> web_request" where
  "plain_request query = \<lparr>wr_user = None, wr_query = query, wr_query_string = [], wr_content_type = [], wr_json = None\<rparr>"

definition invited_visits :: "(visit \<times> web_request) list" where
  "invited_visits =
     [(VisitIndex, plain_request []),
      (VisitAccess GetMethod, plain_request [(''redirect_url'', ''/workshops/catalog/''), (''password'', ''event'')]),
      (VisitCatalog, plain_request [])]"

theorem catalog_needs_password_witness:
  "\<exists>v\<in>set invited_visits. gives_password (pw_settings event_world) event_access v"
proof -
  have "case browse_all event_world event_access invited_visits fresh_browser (sample_state sample_db) of
      (Inr (b, answers), t) \<Rightarrow> bw_allowed b | _ \<Rightarrow> False" by code_simp
  then obtain b answers t where "browse_all event_world event_access invited_visits fresh_browser (sample_state sample_db) = (Inr (b, answers), t)"
    and "bw_allowed b" by (auto split: prod.splits sum.splits)
  then show ?thesis by (intro catalog_needs_password) (auto simp: event_world_def)
qed

text \<open>\<open>environment_view\<close> before its transaction commits, and the hook that runs then for a session that a user got at once.\<close>

definition environment_choice :: "portal_world \<Rightarrow> web_request \<Rightarrow> user_record \<Rightarrow> string \<Rightarrow> response op" where
  "environment_choice w rq user name =
     op_bind (op_query (\<lambda>db. at_most_one (filter (\<lambda>e. te_name e = name) (db_environments db))))
    (\<lambda>found. op_bind (op_result found)
    (\<lambda>found. case found of
        None \<Rightarrow> op_return (back_to_index w rq (stripped_param rq ''index_url'') ''workshop-invalid'')
      | Some e \<Rightarrow>
          op_bind current_portal
         (\<lambda>p. op_bind (retrieve_session_for_user w p e user None (web_session_request (stripped_param rq ''index_url'')))
         (\<lambda>ss. op_return (case ss of
             Some ss \<Rightarrow> RedirectToSession (ts_name ss) None
           | None \<Rightarrow> back_to_index w rq (stripped_param rq ''index_url'') ''session-unavailable'')))))"

lemma environment_view_choice: "environment_view w rq user name = atomically (run_hook w) (environment_choice w rq user name)"
  by (simp add: environment_view_def environment_choice_def Let_def)

definition resources_ready :: "portal_db \<Rightarrow> string \<Rightarrow> bool" where
  "resources_ready db name \<longleftrightarrow>
     (case find_row ts_name name (db_sessions db) of
        None \<Rightarrow> False
      | Some ss \<Rightarrow>
          ts_params ss = []
          \<and> (case find_row te_id (ts_environment ss) (db_environments db) of None \<Rightarrow> False | Some e \<Rightarrow> te_workshop e \<noteq> None)
          \<and> (case ts_owner ss of None \<Rightarrow> False | Some u \<Rightarrow> find_row us_username u (db_users db) \<noteq> None))"

lemma request_resources_created:
  assumes "resources_ready (ps_db s) name" and "\<And>log v. pw_kube w log (KubeCreate v) = Inr (f v)"
  shows "\<exists>t. run_hook w (CreateRequestResources name) s = (Inr (), t) \<and> ps_db t = ps_db s"
  using assms
  by (auto simp: resources_ready_def with_session_def session_environment_def create_request_resources_def environment_workshop_def
      session_owner_def op_bind_def op_query_def op_return_def kube_do_def kube_call_op_def op_lift_def Let_def split: option.splits)

lemma atomically_request:
  assumes "m (s\<lparr>ps_hooks := []\<rparr>) = (Inr r, t)" and "ps_hooks t = [CreateRequestResources name]" and "resources_ready (ps_db t) name"
    and "\<And>log v. pw_kube w log (KubeCreate v) = Inr (f v)"
  shows "\<exists>u. atomically (run_hook w) m s = (Inr r, u) \<and> ps_db u = ps_db t"
proof -
  from request_resources_created [OF _ assms(4), of "t\<lparr>ps_hooks := []\<rparr>" name] assms(3)
  obtain u where "run_hook w (CreateRequestResources name) (t\<lparr>ps_hooks := []\<rparr>) = (Inr (), u)" "ps_db u = ps_db t" by auto
  then show ?thesis using assms(1,2) by (simp add: atomically_def op_then_def op_bind_def op_return_def del: run_hook.simps)
qed

lemma browse_all_last:
  assumes "browse_all w cfg visits b s = (Inr (b1, rs), s1)"
    and "browse w cfg v (rq\<lparr>wr_user := bw_user b1\<rparr>) b1 s1 = (Inr (b2, r), s2)"
  shows "browse_all w cfg (visits @ [(v, rq)]) b s = (Inr (b2, rs @ [r]), s2)"
  using assms(1)
proof (induction visits arbitrary: b s rs)
  case Nil
  with assms(2) show ?case by (simp add: op_bind_def op_try_def op_return_def)
next
  case (Cons visit visits)
  then show ?case by (cases visit) (fastforce simp: op_bind_Inr op_return_Inr split: prod.splits)
qed

definition uninvited_visits :: "(visit \<times> web_request) list" where
  "uninvited_visits =
     [(VisitIndex, plain_request []), (VisitCatalog, plain_request []), (VisitEnvironmentCreate ''lab-w01'', plain_request [])]"

definition gets_session :: "browser \<Rightarrow> response \<Rightarrow> portal_db \<Rightarrow> bool" where
  "gets_session b answer db \<longleftrightarrow>
     (case answer of
        RedirectToSession session token \<Rightarrow>
          bw_user b \<noteq> None
          \<and> map ts_owner (filter (\<lambda>ss. ts_name ss = session) (db_sessions db)) = [map_option us_username (bw_user b)]
      | _ \<Rightarrow> False)"


end
