(* ===== verification/Spec2Isabelle.thy ===== *)
theory Spec2Isabelle
  imports Workshop_Requests Lookup_Steps Secret_Injector Portal_Steps Portal_Times Allocation_Outcomes Request_Outcomes Namespace_Writes Portal_Attempts Session_Ownership Session_Links Environment_Ownership Environment_Links Tunnel_Manager Namespace_Purge Portal_Access
begin

text \<open>
  The Educates training platform runs workshops on Kubernetes. This development models five of its
  Python programs, each in its own layer of theories above a common base.

  \<^bold>\<open>Base.\<close> \<open>Prelude\<close> has Python exceptions as values, the result type of every fallible operation,
  loops that stop at the first exception, dictionaries as association lists and the locales
  \<open>named_registry\<close> and \<open>fresh_registry\<close>, the contract of an in-memory table of named objects, which are
  interpreted on the tables of the lookup service. \<open>Python_Values\<close> has the dynamic values of resources
  and request bodies with the operations the code uses on them and the dotted lookup (\<open>xgetattr\<close>,
  \<open>lookup\<close>, \<open>xget\<close>). \<open>Python_Text\<close> and \<open>Glob\<close> are the string methods, base64 and \<open>fnmatch\<close> of the
  standard library. \<open>Kube_Client\<close> is a conversation with the Kubernetes API through \<open>pykube\<close>.

  \<^bold>\<open>Lookup service\<close> (\<open>src/lookup-service/service\<close>). It watches the training portals of many clusters
  and answers requests for workshops by choosing a cluster, a portal and an environment.
  \<^item> \<open>Selectors\<close>: \<open>helpers/selectors.py\<close>; shown to describe the resources the custom resource means.
  \<^item> \<open>Lookup_Caches\<close>, \<open>Lookup_Tenants\<close>: \<open>caches/\<close>, \<open>handlers/clients.py\<close>, \<open>handlers/tenants.py\<close>; the
    portals a tenant may use are those both its selectors select.
  \<^item> \<open>Kubeconfig\<close>, \<open>Lookup_Service\<close>: \<open>helpers/kubeconfig.py\<close> and the registration of clusters in
    \<open>handlers/clusters.py\<close>; clusters are objects in a store, since an operator keeps its reference
    when the database drops the name.
  \<^item> \<open>Cluster_Events\<close>, \<open>Cluster_Invariants\<close>: the watch handlers of \<open>ClusterOperator\<close>. The tree of portals,
    environments and sessions implements the map of last reports, counters equal the numbers they
    count, and placeholders do not outlive their children.
  \<^item> \<open>Lookup_Auth\<close>, \<open>Lookup_Routes\<close>: \<open>routes/\<close>; access control of every route, login and logout.
  \<^item> \<open>Portal_Client\<close>, \<open>Workshop_Requests\<close>: the HTTP conversation with training portals as a trace of
    calls, and \<open>POST /api/v1/workshops\<close>; which portals are asked, on whose behalf, and that every access
    token is revoked.
  \<^item> \<open>Lookup_Steps\<close>: the service as a state machine, with the invariants of its reachable states.

  \<^bold>\<open>Secrets manager\<close> (\<open>src/secrets-manager/handlers\<close>). It copies secrets between namespaces and
  adds them to service accounts, as rules in custom resources say.
  \<^item> \<open>Secret_Rules\<close>, \<open>Secret_Selectors\<close>: the checks of a rule against a namespace, a secret or a service
    account, and their contract on well-typed data.
  \<^item> \<open>Secret_Copier\<close>, \<open>Secret_Copies\<close>: \<open>update_secret\<close>, reconciliation and handlers as traces of calls to
    the API; what is written, on whose authority, and what is left alone.
  \<^item> \<open>Secret_Injector\<close>: the same for service accounts.

  \<^bold>\<open>Training portal\<close> (\<open>src/training-portal/src/project/apps/workshops\<close>). A Django application that
  keeps workshop environments and a pool of sessions in a cluster and gives sessions to users.
  \<^item> \<open>Portal_Models\<close>: \<open>models.py\<close>; one record per table, queries, state changes, expiry and extension times.
  \<^item> \<open>Portal_Operations\<close>: how operations run: transactions that roll back, hooks after the commit, the
    queue of tasks, the log of external effects, and the rules \<open>keeps\<close> and \<open>ensures\<close> in which invariants
    and postconditions of operations are proved. Django, the clock, random text, the Kubernetes API and HTTP are a
    parameter (\<open>portal_world\<close>) whose answers may depend on the whole log.
  \<^item> \<open>Portal_Sessions\<close>, \<open>Portal_Cleanup\<close>: \<open>manager/sessions.py\<close>, \<open>manager/cleanup.py\<close>,
    \<open>manager/analytics.py\<close>; creation, reservation, allocation, expiry and deletion of sessions.
  \<^item> \<open>Portal_Environments\<close>, \<open>Portal_Config\<close>: \<open>manager/environments.py\<close>, \<open>manager/portal.py\<close>,
    \<open>manager/resources.py\<close>; environments from their creation to their deletion, the portal's
    configuration, its events and its tasks.
  \<^item> \<open>Portal_Views\<close>, \<open>Portal_Catalog\<close>: \<open>views/\<close>; the web and REST views.
  \<^item> \<open>Portal_Capacity\<close>, \<open>Portal_Steps\<close>: the portal as a state machine of requests, events and tasks in any
    order; every reachable state keeps the configured maximum of sessions.

  \<^item> \<open>Portal_Access\<close>: the way of a browser through the web interface, with the access code of an event (\<open>views/access.py\<close>,
    \<open>views/catalog.py\<close> and the project's \<open>views.py\<close>); the code guards the catalog, but not the workshops.
  \<^item> \<open>Portal_Times\<close>: bounds of extensions, the text form of durations, the configuration of a workshop and of
    an environment that replaces another.

  \<^bold>\<open>Session manager\<close> (\<open>src/session-manager/handlers\<close>). The operator that turns the custom resources of
  portals, environments and sessions into the objects of a workshop.
  \<^item> \<open>Session_Variables\<close>, \<open>Session_Overlay\<close>, \<open>Session_Helpers\<close>: \<open>helpers.py\<close>, \<open>application_git.py\<close>,
    \<open>kyverno_rules.py\<close>; substitution round by round is simultaneous substitution when no value contains
    a dollar sign, and a patch is idempotent.
  \<^item> \<open>Operator_Config\<close>: \<open>operator_config.py\<close>, with the parsed file, the canonical host name and random
    passwords as arguments.
  \<^item> \<open>Session_World\<close>: what is around the handlers: the API, the configuration, libraries, analytics events
    (\<open>analytics.py\<close>) and the status of the resource, which is part of the trace.
  \<^item> \<open>Session_Namespaces\<close>, \<open>Namespace_Writes\<close>: \<open>namespace_budgets.py\<close> and \<open>_setup_session_namespace\<close> of
    \<open>workshopsession.py\<close> as a conversation with the API; what it writes and whom it gives roles.
  \<^item> \<open>Session_Applications\<close>: \<open>applications.py\<close> and \<open>application_vcluster.py\<close>, the objects of a virtual cluster.
  \<^item> \<open>Workshop_Sessions\<close>, \<open>Session_Dashboard\<close>, \<open>Session_Services\<close>, \<open>Session_Creation\<close>: \<open>workshop_session_create\<close> of
    \<open>workshopsession.py\<close>, from the environment to the namespaces, accounts, variables, storage and objects of a
    session, the pod with its patches, Docker and the image registry, and the status that is left. The theories
    \<open>Session_Phases\<close>, \<open>Session_Ownership\<close> and \<open>Session_Links\<close> show how an attempt ends and what a further one does,
    that everything created belongs to the session, and that the variables and volumes of its parts fit together.
  \<^item> \<open>Environment_Setup\<close>, \<open>Environment_Services\<close>, \<open>Workshop_Environments\<close>: \<open>workshop_environment_create\<close> of
    \<open>workshopenvironment.py\<close>, from the workshop and the namespace to the policies, secrets and variables, the registry mirror,
    image cache, assets and tunnel, the rules and objects, and the status that sessions read. \<open>Environment_Attempts\<close>,
    \<open>Environment_Ownership\<close> and \<open>Environment_Links\<close> show how an attempt ends and how long an environment waits, what is written
    and deleted, and that a session finds the workshop that its environment asked for.
  \<^item> \<open>Session_Requests\<close>, \<open>Request_Outcomes\<close>: \<open>workshoprequest.py\<close>; who gets a session and which one goes with the request.
  \<^item> \<open>Workshop_Allocations\<close>, \<open>Allocation_Outcomes\<close>: \<open>workshopallocation.py\<close> and the indexes it reads;
    how long a request waits, what it creates and whose variables count.
  \<^item> \<open>Portal_Deployment\<close>, \<open>Portal_Attempts\<close>: \<open>trainingportal.py\<close>, the deployment of a training portal with its
    retries; which namespaces it touches and when a portal is reported as running.
  \<^item> \<open>Namespace_Purge\<close>: \<open>daemons.py\<close>, the rounds of the daemon that takes finalizers from what keeps a namespace terminating, and
    what it may touch.

  \<^bold>\<open>Tunnel manager\<close> (\<open>src/tunnel-manager/main.py\<close>). \<open>Tunnel_Manager\<close> has the table of sessions that is kept from events, and
  the relay between a websocket and the SSH port of a session as a step relation of its two pipes and of the two ends: where
  connections lead, that records outlive their sessions, that data stays in order and that a connection is wound up.

  \<^bold>\<open>Conventions.\<close> Exceptions are values (\<open>Inl\<close>). What is outside a program is a function given to the
  definitions, so theorems hold for all its answers; witnesses instantiate it. Loops are recursions on
  the data the code iterates over, so every operation is total and none needs fuel; the relay of the tunnel is a step relation with a measure that
  its own steps decrease. Integers are unbounded as in Python; times are counted in microseconds. In the
  lookup service an exception in the middle of a handler is an error result, and what the handler had
  written before it is not kept; in the training portal, partial effects and roll back are modelled.

  \<^bold>\<open>Not modelled.\<close> Threads, timers, event loops, signal handling and process start (\<open>helpers/operator.py\<close>,
  \<open>manager/operator.py\<close>, \<open>main.py\<close> of each program): their effect is the interleaving of steps. Signing of
  tokens, YAML, HTTP and Django's own request handling are libraries. Floating point numbers do not occur in
  the resources. The rendering of HTML pages, admin pages and the validation of
  forms are presentation. Of the session manager, the handlers that only write to the log are left out, of the tunnel manager the
  example client \<open>tunnel.py\<close>. Settings and constants read at import are arguments.
\<close>

end
